(* ===== verification/Prelude.thy ===== *)
theory Prelude
  imports Main "HOL-Library.Word"
begin

text \<open>
  What every other theory of the development shares: octets and machine words, the result
  type of operations that may throw, sequencing of such operations, and the list lemmas that
  carry the codec proofs.

  An operation that the source ends with \<open>throw Smpp::Error(what)\<close> returns
  \<open>Inl (Error what)\<close>. A read or a write outside the allocated array, which C++ leaves
  undefined, returns \<open>Inl OutOfBounds\<close>, so that its absence can be stated and proved.
\<close>

unbundle bit_operations_syntax

section \<open>Octets, words and results\<close>

type_synonym octet = "8 word"
type_synonym octets = "8 word list"
type_synonym uint16 = "16 word"
type_synonym uint32 = "32 word"
type_synonym uint64 = "64 word"

datatype smpp_error = Error string | OutOfBounds

type_synonym 'a result = "smpp_error + 'a"

definition ascii :: "string \<Rightarrow> octets" where
  "ascii s = map (\<lambda>c. of_nat (of_char c)) s"

named_theorems result_simps "rewriting of sequenced operations"
named_theorems octets_simps "octets that a value occupies, and their number"
named_theorems field_simps_read "reading a field off the octets it was written to"
named_theorems field_dest "what a successful read says of the octets"

section \<open>Sequencing\<close>

text \<open>
  \<^verbatim>\<open>bind m f\<close> runs \<open>m\<close> and, unless it failed, \<open>f\<close> on its value;
  \<^verbatim>\<open>bind2\<close> is the same for a value and the offset after it; \<^verbatim>\<open>require\<close> is the
  source's \<open>if(!c) throw Error(err)\<close>.
\<close>

definition bind :: "'a result \<Rightarrow> ('a \<Rightarrow> 'b result) \<Rightarrow> 'b result" where
  "bind m f = (case m of Inl e \<Rightarrow> Inl e | Inr x \<Rightarrow> f x)"

definition bind2 :: "('a \<times> 'o) result \<Rightarrow> ('a \<Rightarrow> 'o \<Rightarrow> 'b result) \<Rightarrow> 'b result" where
  "bind2 m f = (case m of Inl e \<Rightarrow> Inl e | Inr (x, off) \<Rightarrow> f x off)"

definition require :: "bool \<Rightarrow> string \<Rightarrow> 'b result \<Rightarrow> 'b result" where
  "require c err k = (if c then k else Inl (Error err))"

lemma bind_Inr [simp, result_simps]: "bind (Inr x) f = f x"
  by (simp add: bind_def)

lemma bind_Inl [simp, result_simps]: "bind (Inl e) f = Inl e"
  by (simp add: bind_def)

lemma bind2_Inr [simp, result_simps]: "bind2 (Inr (x, off)) f = f x off"
  by (simp add: bind2_def)

lemma bind2_Inl [simp, result_simps]: "bind2 (Inl e) f = Inl e"
  by (simp add: bind2_def)

lemma require_True [simp, result_simps]: "require True err k = k"
  by (simp add: require_def)

lemma require_False [simp, result_simps]: "require False err k = Inl (Error err)"
  by (simp add: require_def)

lemma bind_eq_Inr: "bind m f = Inr y \<longleftrightarrow> (\<exists>x. m = Inr x \<and> f x = Inr y)"
  by (cases m) (auto simp: bind_def)

lemma bind2_eq_Inr: "bind2 m f = Inr y \<longleftrightarrow> (\<exists>x off. m = Inr (x, off) \<and> f x off = Inr y)"
  by (cases m) (auto simp: bind2_def)

lemma require_eq_Inr: "require c err k = Inr y \<longleftrightarrow> c \<and> k = Inr y"
  by (simp add: require_def)

text \<open>Simplify what is run first, and its continuation only once it is known what it continues.\<close>

lemma bind2_cong: "m = m' \<Longrightarrow> bind2 m f = bind2 m' f"
  by simp

lemmas sequence_eq_Inr = bind_eq_Inr bind2_eq_Inr require_eq_Inr

section \<open>Lists of octets\<close>

text \<open>
  The decoders of the source index one array with a growing offset. Turning \<open>drop (m + n)\<close>
  into two drops lets the simplifier walk along the array field by field; \<open>drop_drop\<close> is its
  converse and is taken out wherever this rule is used.
\<close>

lemma drop_plus: "drop (m + n) xs = drop n (drop m xs)"
  by (simp add: add.commute)

lemma drop_eq_appendD:
  "drop off xs = ys @ zs \<Longrightarrow> drop (off + length ys) xs = zs"
  by (simp add: drop_plus del: drop_drop)

lemma drop_eq_length: "drop off xs = ys @ zs \<Longrightarrow> ys \<noteq> [] \<Longrightarrow> off + length ys \<le> length xs"
proof -
  assume a: "drop off xs = ys @ zs" and ne: "ys \<noteq> []"
  from a have "length xs - off = length ys + length zs"
    by (metis length_append length_drop)
  moreover from ne have "0 < length ys" by simp
  ultimately show ?thesis by linarith
qed

lemma takeWhile_append_stop:
  "(\<forall>x \<in> set xs. P x) \<Longrightarrow> \<not> P y \<Longrightarrow> takeWhile P (xs @ y # ys) = xs"
  by (induction xs) auto

end
