(* ===== verification/Aux_Types.thy ===== *)
theory Aux_Types
  imports Prelude
begin

text \<open>
  The value types and byte-order helpers of \<open>src/public/smppparser/aux_types.hpp\<close> and
  \<open>aux_types.cpp\<close>: host and network byte order, the C-string length checks, the checked
  one-octet parameters, addresses, and the two address collections of submit_multi and
  submit_multi_resp with their decoders.

  A C++ string or octet vector is a list of octets. A pointer into an array is the list of
  the octets from there to the end of the allocation, so that \<open>buff + offset\<close> is
  \<open>drop offset buff\<close> and a read past the end is a visible result.
\<close>

section \<open>Byte order\<close>

text \<open>
  The octets of an integer in memory, most significant first on a big-endian host and least
  significant first otherwise (what \<open>memcpy\<close> of the integer moves), and the converse.
\<close>

definition be_octets32 :: "uint32 \<Rightarrow> octets" where
  "be_octets32 n = [ucast (drop_bit 24 n), ucast (drop_bit 16 n), ucast (drop_bit 8 n), ucast n]"

definition be_word32 :: "octets \<Rightarrow> uint32" where
  "be_word32 b = push_bit 24 (ucast (b ! 0)) OR push_bit 16 (ucast (b ! 1))
     OR push_bit 8 (ucast (b ! 2)) OR ucast (b ! 3)"

definition be_octets16 :: "uint16 \<Rightarrow> octets" where
  "be_octets16 n = [ucast (drop_bit 8 n), ucast n]"

definition be_word16 :: "octets \<Rightarrow> uint16" where
  "be_word16 b = push_bit 8 (ucast (b ! 0)) OR ucast (b ! 1)"

definition host_octets32 :: "bool \<Rightarrow> uint32 \<Rightarrow> octets" where
  "host_octets32 big n = (if big then be_octets32 n else rev (be_octets32 n))"

definition host_word32 :: "bool \<Rightarrow> octets \<Rightarrow> uint32" where
  "host_word32 big b = be_word32 (if big then b else rev b)"

definition host_octets16 :: "bool \<Rightarrow> uint16 \<Rightarrow> octets" where
  "host_octets16 big n = (if big then be_octets16 n else rev (be_octets16 n))"

definition host_word16 :: "bool \<Rightarrow> octets \<Rightarrow> uint16" where
  "host_word16 big b = be_word16 (if big then b else rev b)"

text \<open>\<open>is_big_endian\<close> looks at the first octet of the integer 1 in memory.\<close>

definition is_big_endian :: "bool \<Rightarrow> bool" where
  "is_big_endian big = (if hd (host_octets32 big 1) \<noteq> 0 then False else True)"

definition ntoh32 :: "bool \<Rightarrow> uint32 \<Rightarrow> uint32" where
  "ntoh32 big n = (if is_big_endian big then n else
     push_bit 24 (n AND 0x000000ff) OR push_bit 8 (n AND 0x0000ff00) OR
     drop_bit 8 (n AND 0x00ff0000) OR drop_bit 24 (n AND 0xff000000))"

definition hton32 :: "bool \<Rightarrow> uint32 \<Rightarrow> uint32" where
  "hton32 big n = (if is_big_endian big then n else
     push_bit 24 (n AND 0x000000ff) OR push_bit 8 (n AND 0x0000ff00) OR
     drop_bit 8 (n AND 0x00ff0000) OR drop_bit 24 (n AND 0xff000000))"

definition ntoh16 :: "bool \<Rightarrow> uint16 \<Rightarrow> uint16" where
  "ntoh16 big n = (if is_big_endian big then n else
     push_bit 8 (n AND 0x00ff) OR drop_bit 8 (n AND 0xff00))"

definition hton16 :: "bool \<Rightarrow> uint16 \<Rightarrow> uint16" where
  "hton16 big n = (if is_big_endian big then n else
     push_bit 8 (n AND 0x00ff) OR drop_bit 8 (n AND 0xff00))"

text \<open>
  The codec is modelled on a little-endian host. \<open>wire32_any_host\<close> and \<open>unwire32_any_host\<close>
  below show that the octets on the wire do not depend on that choice.
\<close>

definition wire32 :: "uint32 \<Rightarrow> octets" where
  "wire32 n = host_octets32 False (hton32 False n)"

definition wire16 :: "uint16 \<Rightarrow> octets" where
  "wire16 n = host_octets16 False (hton16 False n)"

definition get_wire32 :: "octets \<Rightarrow> uint32 result" where
  "get_wire32 p = (if length p < 4 then Inl OutOfBounds
     else Inr (ntoh32 False (host_word32 False (take 4 p))))"

definition get_wire16 :: "octets \<Rightarrow> uint16 result" where
  "get_wire16 p = (if length p < 2 then Inl OutOfBounds
     else Inr (ntoh16 False (host_word16 False (take 2 p))))"

definition get_octet :: "octets \<Rightarrow> octet result" where
  "get_octet p = (case p of [] \<Rightarrow> Inl OutOfBounds | x # _ \<Rightarrow> Inr x)"


lemma be_word32_octets [simp]: "be_word32 (be_octets32 n) = n"
proof (rule bit_word_eqI)
  fix i :: nat
  assume i: "i < LENGTH(32)"
  consider "i < 8" | "8 \<le> i" "i < 16" | "16 \<le> i" "i < 24" | "24 \<le> i"
    by linarith
  then show "bit (be_word32 (be_octets32 n)) i = bit n i"
    using i by cases (simp_all add: be_word32_def be_octets32_def bit_simps, auto)
qed

lemma be_word16_octets [simp]: "be_word16 (be_octets16 n) = n"
  unfolding be_word16_def be_octets16_def
  by (rule bit_word_eqI) (auto simp: bit_simps)

lemma length_4_cases:
  assumes "length b = 4"
  obtains x y z w where "b = [x, y, z, w]"
  using assms by (auto simp: numeral_eq_Suc length_Suc_conv)

lemma length_2_cases:
  assumes "length b = 2"
  obtains x y where "b = [x, y]"
  using assms by (auto simp: numeral_eq_Suc length_Suc_conv)

lemma bit_octet_ge: "8 \<le> n \<Longrightarrow> \<not> bit (w :: octet) n"
  using bit_imp_le_length [of w n] by auto

lemma be_octets32_word [simp]:
  assumes "length b = 4"
  shows "be_octets32 (be_word32 b) = b"
proof -
  obtain x y z w where "b = [x, y, z, w]"
    using assms by (rule length_4_cases)
  then show ?thesis
    by (simp add: be_octets32_def be_word32_def) (auto simp: bit_eq_iff bit_simps bit_octet_ge)
qed

lemma be_octets16_word [simp]:
  assumes "length b = 2"
  shows "be_octets16 (be_word16 b) = b"
proof -
  obtain x y where "b = [x, y]"
    using assms by (rule length_2_cases)
  then show ?thesis
    by (simp add: be_octets16_def be_word16_def) (auto simp: bit_eq_iff bit_simps bit_octet_ge)
qed

lemma length_be_octets [simp]:
  "length (be_octets32 n) = 4" "length (be_octets16 m) = 2"
  by (simp_all add: be_octets32_def be_octets16_def)

lemma is_big_endian [simp]: "is_big_endian big = big"
  by (simp add: is_big_endian_def host_octets32_def be_octets32_def)

lemma byte_masks32:
  "(0x000000ff :: uint32) = mask 8" "(0x0000ff00 :: uint32) = push_bit 8 (mask 8)"
  "(0x00ff0000 :: uint32) = push_bit 16 (mask 8)" "(0xff000000 :: uint32) = push_bit 24 (mask 8)"
  by (simp_all add: mask_eq_exp_minus_1 push_bit_eq_mult)

lemma byte_masks16:
  "(0x00ff :: uint16) = mask 8" "(0xff00 :: uint16) = push_bit 8 (mask 8)"
  by (simp_all add: mask_eq_exp_minus_1 push_bit_eq_mult)

lemma hton32_little: "rev (be_octets32 (hton32 False n)) = be_octets32 n"
  unfolding hton32_def byte_masks32 be_octets32_def
  by (auto simp: bit_eq_iff bit_simps)

lemma hton16_little: "rev (be_octets16 (hton16 False n)) = be_octets16 n"
  unfolding hton16_def byte_masks16 be_octets16_def
  by (auto simp: bit_eq_iff bit_simps)

lemma ntoh_eq_hton: "ntoh32 = hton32" "ntoh16 = hton16"
  by (auto simp: fun_eq_iff ntoh32_def hton32_def ntoh16_def hton16_def)

text \<open>
  Converting to network order and copying the integer out puts its octets most significant
  first, on either kind of host.
\<close>

lemma host_hton32: "host_octets32 big (hton32 big n) = be_octets32 n"
  by (cases big) (simp_all add: host_octets32_def hton32_little, simp add: hton32_def)

lemma host_hton16: "host_octets16 big (hton16 big n) = be_octets16 n"
  by (cases big) (simp_all add: host_octets16_def hton16_little, simp add: hton16_def)

lemma hton32_invol [simp]: "hton32 big (hton32 big n) = n"
proof (cases big)
  case False
  have "rev (be_octets32 (hton32 False (hton32 False n))) = rev (be_octets32 n)"
    by (metis hton32_little rev_rev_ident)
  then show ?thesis
    using False by (metis be_word32_octets rev_rev_ident)
qed (simp add: hton32_def)

lemma hton16_invol [simp]: "hton16 big (hton16 big n) = n"
proof (cases big)
  case False
  have "rev (be_octets16 (hton16 False (hton16 False n))) = rev (be_octets16 n)"
    by (metis hton16_little rev_rev_ident)
  then show ?thesis
    using False by (metis be_word16_octets rev_rev_ident)
qed (simp add: hton16_def)

lemma ntoh_host32: "length b = 4 \<Longrightarrow> ntoh32 big (host_word32 big b) = be_word32 b"
proof (cases big)
  case False
  assume b: "length b = 4"
  have "rev (be_octets32 (hton32 False (be_word32 (rev b)))) = be_octets32 (be_word32 (rev b))"
    by (rule hton32_little)
  then have "be_octets32 (hton32 False (be_word32 (rev b))) = b"
    using b by (metis be_octets32_word length_rev rev_rev_ident)
  then show ?thesis
    using False b by (metis be_word32_octets host_word32_def ntoh_eq_hton(1))
qed (simp add: ntoh32_def host_word32_def)

lemma ntoh_host16: "length b = 2 \<Longrightarrow> ntoh16 big (host_word16 big b) = be_word16 b"
proof (cases big)
  case False
  assume b: "length b = 2"
  have "rev (be_octets16 (hton16 False (be_word16 (rev b)))) = be_octets16 (be_word16 (rev b))"
    by (rule hton16_little)
  then have "be_octets16 (hton16 False (be_word16 (rev b))) = b"
    using b by (metis be_octets16_word length_rev rev_rev_ident)
  then show ?thesis
    using False b by (metis be_word16_octets host_word16_def ntoh_eq_hton(2))
qed (simp add: ntoh16_def host_word16_def)

lemma wire_octets [octets_simps]: "wire32 n = be_octets32 n" "wire16 m = be_octets16 m"
  by (simp_all add: wire32_def wire16_def host_hton32 host_hton16)

lemma length_wire [simp]: "length (wire32 n) = 4" "length (wire16 m) = 2"
  by (simp_all add: wire_octets)

lemma wire_word_inverse: 
  "length b = 4 \<Longrightarrow> wire32 (be_word32 b) = b" "length c = 2 \<Longrightarrow> wire16 (be_word16 c) = c"
  by (simp_all add: wire_octets)

lemma get_wire32_append [simp]: "get_wire32 (wire32 n @ rest) = Inr n"
  by (simp add: get_wire32_def ntoh_host32 wire_octets)

lemma get_wire16_append [simp]: "get_wire16 (wire16 n @ rest) = Inr n"
  by (simp add: get_wire16_def ntoh_host16 wire_octets)

lemma get_wire32_InrD [field_dest]: "get_wire32 p = Inr n \<Longrightarrow> p = wire32 n @ drop 4 p"
  by (auto simp: get_wire32_def ntoh_host32 wire_octets split: if_splits)

lemma get_wire16_InrD [field_dest]: "get_wire16 p = Inr n \<Longrightarrow> p = wire16 n @ drop 2 p"
  by (auto simp: get_wire16_def ntoh_host16 wire_octets split: if_splits)

section \<open>Character strings\<close>

text \<open>
  \<open>valid_length\<close> of a String refuses one that leaves no room for the terminator; that of a
  \<open>Char*\<close> looks for the terminator among the first \<open>len\<close> characters and goes no further.
\<close>

definition valid_length_String :: "octets \<Rightarrow> nat \<Rightarrow> string \<Rightarrow> octets result" where
  "valid_length_String s len err = (if length s \<ge> len then Inl (Error err) else Inr s)"

fun scan_nul :: "octets \<Rightarrow> nat \<Rightarrow> string \<Rightarrow> unit result" where
  "scan_nul s 0 err = Inl (Error err)"
| "scan_nul [] (Suc n) err = Inl OutOfBounds"
| "scan_nul (c # s) (Suc n) err = (if c = 0 then Inr () else scan_nul s n err)"

definition valid_length_Char :: "octets \<Rightarrow> nat \<Rightarrow> string \<Rightarrow> octets result" where
  "valid_length_Char s len err = bind (scan_nul s len err) (\<lambda>_. Inr s)"

text \<open>Building a String from a \<open>Char*\<close> copies up to the terminator; so does \<open>strlen\<close>.\<close>

definition String_of_Char :: "octets \<Rightarrow> octets result" where
  "String_of_Char s = (if 0 \<in> set s then Inr (takeWhile (\<lambda>c. c \<noteq> 0) s) else Inl OutOfBounds)"

definition strlen :: "octets \<Rightarrow> nat result" where
  "strlen s = bind (String_of_Char s) (\<lambda>t. Inr (length t))"

text \<open>
  The string parameters are one class each in the source, alike but for \<open>MaxLength\<close> and the
  message: \<open>assign_Char\<close> is the assignment from a \<open>Char*\<close> with those two as arguments.
\<close>

definition assign_Char :: "nat \<Rightarrow> string \<Rightarrow> octets \<Rightarrow> octets result" where
  "assign_Char max_len err p = bind (valid_length_Char p max_len err) String_of_Char"

definition SystemId_assign :: "octets \<Rightarrow> octets result" where
  "SystemId_assign = assign_Char 16 ''Invalid system_id length''"

definition Password_assign :: "octets \<Rightarrow> octets result" where
  "Password_assign = assign_Char 19 ''Invalid password length''"

definition SystemType_assign :: "octets \<Rightarrow> octets result" where
  "SystemType_assign = assign_Char 13 ''Invalid system_type length''"

definition AddressRange_assign :: "octets \<Rightarrow> octets result" where
  "AddressRange_assign = assign_Char 41 ''Invalid address_range length''"

definition ServiceType_assign :: "octets \<Rightarrow> octets result" where
  "ServiceType_assign = assign_Char 6 ''Invalid service_type length''"

definition Time_assign :: "octets \<Rightarrow> octets result" where
  "Time_assign = assign_Char 17 ''Invalid Time length''"

definition MessageId_assign :: "octets \<Rightarrow> octets result" where
  "MessageId_assign = assign_Char 65 ''Invalid message_id length''"

text \<open>The constructors from a String.\<close>

definition SystemId :: "octets \<Rightarrow> octets result" where
  "SystemId p = valid_length_String p 16 ''Invalid system_id length''"

definition Password :: "octets \<Rightarrow> octets result" where
  "Password p = valid_length_String p 19 ''Invalid password length''"

definition SystemType :: "octets \<Rightarrow> octets result" where
  "SystemType p = valid_length_String p 13 ''Invalid system_type length''"

definition AddressRange :: "octets \<Rightarrow> octets result" where
  "AddressRange p = valid_length_String p 41 ''Invalid address_range length''"

definition ServiceType :: "octets \<Rightarrow> octets result" where
  "ServiceType p = valid_length_String p 6 ''Invalid service_type length''"

definition Time :: "octets \<Rightarrow> octets result" where
  "Time p = valid_length_String p 17 ''Invalid Time length''"

definition MessageId :: "octets \<Rightarrow> octets result" where
  "MessageId p = valid_length_String p 65 ''Invalid message_id length''"

text \<open>What such a parameter may hold: no terminator inside, and room for one.\<close>

definition cstr_ok :: "nat \<Rightarrow> octets \<Rightarrow> bool" where
  "cstr_ok max_len s \<longleftrightarrow> length s < max_len \<and> 0 \<notin> set s"

lemma scan_nul_Inr:
  "scan_nul s n err = Inr () \<longleftrightarrow> 0 \<in> set s \<and> length (takeWhile (\<lambda>c. c \<noteq> 0) s) < n"
  by (induction s n err rule: scan_nul.induct) auto

lemma split_at_nul:
  "0 \<in> set (s :: octets) \<Longrightarrow>
     s = takeWhile (\<lambda>c. c \<noteq> 0) s @ 0 # drop (Suc (length (takeWhile (\<lambda>c. c \<noteq> 0) s))) s"
  by (induction s) auto

lemma takeWhile_nul: "0 \<notin> set (s :: octets) \<Longrightarrow> takeWhile (\<lambda>c. c \<noteq> 0) (s @ 0 # t) = s"
  by (auto intro: takeWhile_append_stop)

lemma String_of_Char_append [simp]: "0 \<notin> set s \<Longrightarrow> String_of_Char (s @ 0 # t) = Inr s"
  by (simp add: String_of_Char_def takeWhile_nul)

lemma String_of_Char_InrD [field_dest]:
  "String_of_Char p = Inr s \<Longrightarrow> 0 \<notin> set s \<and> p = s @ 0 # drop (Suc (length s)) p"
  by (auto simp: String_of_Char_def dest: set_takeWhileD intro: split_at_nul split: if_splits)

lemma assign_Char_append [simp]:
  "cstr_ok max_len s \<Longrightarrow> assign_Char max_len err (s @ 0 # t) = Inr s"
  using scan_nul_Inr [of "s @ 0 # t" max_len err]
  by (auto simp: assign_Char_def valid_length_Char_def cstr_ok_def takeWhile_nul bind_eq_Inr)

lemma assign_Char_InrD [field_dest]:
  "assign_Char max_len err p = Inr s \<Longrightarrow> cstr_ok max_len s \<and> p = s @ 0 # drop (Suc (length s)) p"
  by (auto simp: assign_Char_def valid_length_Char_def bind_eq_Inr scan_nul_Inr cstr_ok_def
        String_of_Char_def dest: set_takeWhileD intro: split_at_nul split: if_splits)

text \<open>
  The two constructors agree: a String that \<open>valid_length\<close> accepts, with its terminator, is
  what the assignment from a \<open>Char*\<close> accepts.
\<close>

lemma scan_nul_refuses:
  "0 \<notin> set s \<Longrightarrow> n \<le> length s \<Longrightarrow> scan_nul (s @ t) n err = Inl (Error err)"
  by (induction s n err rule: scan_nul.induct) auto

lemma valid_length_String_assign:
  "0 \<notin> set s \<Longrightarrow> valid_length_String s max_len err = assign_Char max_len err (s @ [0])"
  by (cases "length s < max_len")
    (simp_all add: valid_length_String_def cstr_ok_def assign_Char_def valid_length_Char_def
      scan_nul_refuses assign_Char_append [unfolded assign_Char_def valid_length_Char_def])

section \<open>One-octet parameters\<close>

text \<open>
  The constructors check the value; the assignment from an octet, which the decoders use, does
  not, so in the decoders these parameters are plain octets.
\<close>

definition InterfaceVersion :: "int \<Rightarrow> octet result" where
  "InterfaceVersion p = (if p = 0x33 \<or> p = 0x34 \<or> p = 0x50 then Inr (word_of_int p)
     else if p < 0x33 then Inr (word_of_int p)
     else Inl (Error ''Invalid interface_version''))"

definition Ton :: "int \<Rightarrow> octet result" where
  "Ton p = (if p \<in> {0, 1, 2, 3, 4, 5, 6} then Inr (word_of_int p) else Inl (Error ''Invalid TON''))"

definition Npi :: "octet \<Rightarrow> octet result" where
  "Npi p = (if p \<in> {0x00, 0x01, 0x03, 0x04, 0x06, 0x08, 0x09, 0x0a, 0x0e, 0x12} then Inr p
     else Inl (Error ''Invalid NPI''))"

definition PriorityFlag :: "octet \<Rightarrow> octet result" where
  "PriorityFlag p = (if p \<in> {0, 1, 2, 3, 4} then Inr p else Inl (Error ''Invalid priority flag''))"

definition ReplaceIfPresentFlag :: "octet \<Rightarrow> octet result" where
  "ReplaceIfPresentFlag p = (if p \<noteq> 0 \<and> p \<noteq> 1 then Inl (Error ''Invalid replace if present flag'')
     else Inr p)"

definition MessageState :: "octet \<Rightarrow> octet result" where
  "MessageState p = (if p \<in> {0, 1, 2, 3, 4, 5, 6, 7, 8, 9} then Inr p
     else Inl (Error ''Invalid message_state''))"

datatype DataCodingType = Alphabet | Ascii | Latin | Jis | UCS2 | Default

definition dc_type :: "octet \<Rightarrow> DataCodingType" where
  "dc_type v = (if v = 0x0 then Alphabet else if v = 0x1 then Ascii else if v = 0x3 then Latin
     else if v = 0x5 then Jis else if v = 0x8 then UCS2 else Default)"

end
