(* ===== verification/Addresses.thy ===== *)
theory Addresses
  imports Aux_Types
begin

text \<open>
  Addresses (\<open>aux_types.hpp\<close>, \<open>aux_types.cpp\<close>): the plain address with its own length limit, the
  three-field SME address, the destination list of submit_multi and the unsuccessful-delivery
  list of submit_multi_resp, with their decoders.
\<close>

section \<open>Address and SmeAddress\<close>

record Address =
  addr_v :: octets
  addr_len :: nat

definition Address_default :: Address where
  "Address_default = \<lparr> addr_v = [], addr_len = 21 \<rparr>"

definition new_Address :: "octets \<Rightarrow> nat \<Rightarrow> Address result" where
  "new_Address p len = bind (valid_length_String p len ''Invalid Address length'')
     (\<lambda>v. Inr \<lparr> addr_v = v, addr_len = len \<rparr>)"

definition Address_assign :: "Address \<Rightarrow> octets \<Rightarrow> Address result" where
  "Address_assign a p = bind (assign_Char (addr_len a) ''Invalid Address length'' p)
     (\<lambda>v. Inr (a\<lparr> addr_v := v \<rparr>))"

record SmeAddress =
  ton :: octet
  npi :: octet
  address :: Address

definition SmeAddress_default :: SmeAddress where
  "SmeAddress_default = \<lparr> ton = 0, npi = 0, address = Address_default \<rparr>"

definition new_SmeAddress :: "octet \<Rightarrow> octet \<Rightarrow> Address \<Rightarrow> nat \<Rightarrow> SmeAddress result" where
  "new_SmeAddress t n a len = bind (new_Address (addr_v a) len)
     (\<lambda>a'. Inr \<lparr> ton = t, npi = n, address = a' \<rparr>)"

definition address_length :: "SmeAddress \<Rightarrow> nat" where
  "address_length a = length (addr_v (address a))"

definition SmeAddress_length :: "SmeAddress \<Rightarrow> nat" where
  "SmeAddress_length a = 2 + address_length a + 1"

definition SmeAddress_decode :: "SmeAddress \<Rightarrow> octets \<Rightarrow> nat \<Rightarrow> SmeAddress result" where
  "SmeAddress_decode a buff len = (if len < 3 then Inl (Error ''Invalid SmeAddress length'') else
     bind (get_octet buff) (\<lambda>t.
     bind (get_octet (drop 1 buff)) (\<lambda>n.
     bind (Address_assign (address a) (drop 2 buff)) (\<lambda>addr.
     Inr \<lparr> ton = t, npi = n, address = addr \<rparr>))))"

section \<open>Destinations of submit_multi\<close>

text \<open>
  \<open>Type()\<close> tells the two subclasses apart. \<open>octetCount_\<close> is where the decoder stands in its
  array; nothing resets it, so decoding into an object that has been decoded into goes on from
  there.
\<close>

datatype MultiDestinationAddress =
    SmeMultiAddress SmeAddress
  | DistributionListAddress octets

fun Type :: "MultiDestinationAddress \<Rightarrow> octet" where
  "Type (SmeMultiAddress _) = 0x01"
| "Type (DistributionListAddress _) = 0x02"

record MultiDestinationAddresses =
  addrs :: "MultiDestinationAddress list"
  octetCount :: nat

definition MultiDestinationAddresses_default :: MultiDestinationAddresses where
  "MultiDestinationAddresses_default = \<lparr> addrs = [], octetCount = 0 \<rparr>"

definition add_SmeAddress ::
  "SmeAddress \<Rightarrow> MultiDestinationAddresses \<Rightarrow> MultiDestinationAddresses \<times> nat" where
  "add_SmeAddress p m = (if length (addrs m) < 255
     then (m\<lparr> addrs := addrs m @ [SmeMultiAddress p] \<rparr>, SmeAddress_length p + 1)
     else (m, 0))"

definition add_String ::
  "octets \<Rightarrow> MultiDestinationAddresses \<Rightarrow> MultiDestinationAddresses \<times> nat" where
  "add_String p m = (if length (addrs m) < 255
     then (m\<lparr> addrs := addrs m @ [DistributionListAddress p] \<rparr>, length p + 2)
     else (m, 0))"

definition MultiDestinationAddresses_size :: "MultiDestinationAddresses \<Rightarrow> octet" where
  "MultiDestinationAddresses_size m = of_nat (length (addrs m))"

text \<open>
  \<open>len - octetCount_\<close> on \<open>Uint32\<close>: when the count has passed the length the difference wraps
  around, and the length check of \<open>SmeAddress::decode\<close> does not stop it.
\<close>

definition minus_Uint32 :: "nat \<Rightarrow> nat \<Rightarrow> nat" where
  "minus_Uint32 len n = (if n \<le> len then len - n else 2 ^ 32 - (n - len))"

fun MultiDestinationAddresses_loop ::
  "octets \<Rightarrow> nat \<Rightarrow> nat \<Rightarrow> MultiDestinationAddresses \<Rightarrow> MultiDestinationAddresses result" where
  "MultiDestinationAddresses_loop ptr len 0 m = Inr m"
| "MultiDestinationAddresses_loop ptr len (Suc i) m =
     bind (get_octet (drop (octetCount m) ptr)) (\<lambda>dest_flag.
     let oc = octetCount m + 1 in
     if dest_flag = 0x01 then
       bind (SmeAddress_decode SmeAddress_default (drop oc ptr) (minus_Uint32 len oc)) (\<lambda>smeaddr.
       let oc' = oc + SmeAddress_length smeaddr in
       if oc' > len then Inl (Error ''Invalid command_length'')
       else MultiDestinationAddresses_loop ptr len i
              (fst (add_SmeAddress smeaddr (m\<lparr> octetCount := oc' \<rparr>))))
     else if dest_flag = 0x02 then
       bind (String_of_Char (drop oc ptr)) (\<lambda>dlname.
       let oc' = oc + (length dlname + 1) in
       if oc' > len then Inl (Error ''Invalid command_length'')
       else MultiDestinationAddresses_loop ptr len i
              (fst (add_String dlname (m\<lparr> octetCount := oc' \<rparr>))))
     else Inl (Error ''Invalid dest_flag''))"

definition MultiDestinationAddresses_decode ::
  "MultiDestinationAddresses \<Rightarrow> octets \<Rightarrow> nat \<Rightarrow> MultiDestinationAddresses result" where
  "MultiDestinationAddresses_decode m buff len =
     (if len < 3 then Inl (Error ''Invalid command_length'') else
      bind (get_octet (drop (octetCount m) buff)) (\<lambda>cnt.
      MultiDestinationAddresses_loop buff len (unat cnt) (m\<lparr> octetCount := octetCount m + 1 \<rparr>)))"

section \<open>Unsuccessful deliveries of submit_multi_resp\<close>

record UnsuccessSme =
  smeAddress :: SmeAddress
  error_code :: uint32

definition UnsuccessSme_length :: "UnsuccessSme \<Rightarrow> nat" where
  "UnsuccessSme_length u = SmeAddress_length (smeAddress u) + 4"

definition UnsuccessSme_decode :: "octets \<Rightarrow> nat \<Rightarrow> UnsuccessSme result" where
  "UnsuccessSme_decode buff len =
     bind (SmeAddress_decode SmeAddress_default buff len) (\<lambda>a.
     bind (get_wire32 (drop (SmeAddress_length a) buff)) (\<lambda>e.
     Inr \<lparr> smeAddress = a, error_code = e \<rparr>))"

record UnsuccessSmeColl =
  unsuccess :: "UnsuccessSme list"
  unsuccess_octets :: nat

definition UnsuccessSmeColl_default :: UnsuccessSmeColl where
  "UnsuccessSmeColl_default = \<lparr> unsuccess = [], unsuccess_octets = 0 \<rparr>"

definition add_UnsuccessSme ::
  "UnsuccessSme \<Rightarrow> UnsuccessSmeColl \<Rightarrow> UnsuccessSmeColl \<times> nat" where
  "add_UnsuccessSme p c = (if length (unsuccess c) < 255
     then (c\<lparr> unsuccess := unsuccess c @ [p] \<rparr>, UnsuccessSme_length p)
     else (c, 0))"

definition UnsuccessSmeColl_size :: "UnsuccessSmeColl \<Rightarrow> octet" where
  "UnsuccessSmeColl_size c = of_nat (length (unsuccess c))"

fun UnsuccessSmeColl_loop ::
  "octets \<Rightarrow> nat \<Rightarrow> nat \<Rightarrow> UnsuccessSmeColl \<Rightarrow> UnsuccessSmeColl result" where
  "UnsuccessSmeColl_loop ptr len 0 c = Inr c"
| "UnsuccessSmeColl_loop ptr len (Suc i) c =
     bind (UnsuccessSme_decode (drop (unsuccess_octets c) ptr)
             (minus_Uint32 len (unsuccess_octets c))) (\<lambda>addr.
     let oc = unsuccess_octets c + UnsuccessSme_length addr in
     if oc > len then Inl (Error ''Invalid command_length'')
     else UnsuccessSmeColl_loop ptr len i
            (fst (add_UnsuccessSme addr (c\<lparr> unsuccess_octets := oc \<rparr>))))"

definition UnsuccessSmeColl_decode ::
  "UnsuccessSmeColl \<Rightarrow> octets \<Rightarrow> nat \<Rightarrow> UnsuccessSmeColl result" where
  "UnsuccessSmeColl_decode c buff len =
     (if len < 1 then Inl (Error ''Invalid command_length'') else
      bind (get_octet (drop (unsuccess_octets c) buff)) (\<lambda>cnt.
      UnsuccessSmeColl_loop buff len (unat cnt)
        (c\<lparr> unsuccess_octets := unsuccess_octets c + 1 \<rparr>)))"

end
