(* ===== verification/Buffers.thy ===== *)
theory Buffers
  imports Addresses
begin

text \<open>
  The encoder's buffer (\<open>buffer.hpp\<close>, \<open>buffer.cpp\<close>): an array of fixed size and the offset
  of its first unwritten octet, with one \<open>operator+=\<close> per parameter type. A write past the end of
  the array is the result \<open>OutOfBounds\<close>.

  \<open>writes f xs\<close> says that the operation \<open>f\<close> appends exactly the octets \<open>xs\<close>; each operation
  has such a lemma, and sequences of operations inherit it.
\<close>

section \<open>The buffer\<close>

record Buffer =
  capacity :: nat
  data :: octets

abbreviation offset :: "Buffer \<Rightarrow> nat" where
  "offset b \<equiv> length (data b)"

definition Buffer_reset :: "uint32 \<Rightarrow> Buffer" where
  "Buffer_reset l = \<lparr> capacity = unat l, data = [] \<rparr>"

definition Buffer_copy :: "octets \<Rightarrow> Buffer \<Rightarrow> Buffer result" where
  "Buffer_copy xs b = (if offset b + length xs \<le> capacity b
     then Inr (b\<lparr> data := data b @ xs \<rparr>) else Inl OutOfBounds)"

definition put_Uint32 :: "uint32 \<Rightarrow> Buffer \<Rightarrow> Buffer result" where
  "put_Uint32 p = Buffer_copy (host_octets32 False p)"

definition put_Uint16 :: "uint16 \<Rightarrow> Buffer \<Rightarrow> Buffer result" where
  "put_Uint16 p = Buffer_copy (host_octets16 False p)"

definition put_Uint8 :: "octet \<Rightarrow> Buffer \<Rightarrow> Buffer result" where
  "put_Uint8 p = Buffer_copy [p]"

definition put_String :: "octets \<Rightarrow> Buffer \<Rightarrow> Buffer result" where
  "put_String p b = bind (Buffer_copy p b) (Buffer_copy [0])"

definition put_ShortMessage :: "octets \<Rightarrow> Buffer \<Rightarrow> Buffer result" where
  "put_ShortMessage p b = bind (put_Uint8 (of_nat (length p)) b) (Buffer_copy p)"

definition put_SmeAddress :: "SmeAddress \<Rightarrow> Buffer \<Rightarrow> Buffer result" where
  "put_SmeAddress p b =
     bind (put_Uint8 (ton p) b) (\<lambda>b.
     bind (put_Uint8 (npi p) b) (\<lambda>b.
     put_String (addr_v (address p)) b))"

definition add_octet_array :: "uint16 \<Rightarrow> octets \<Rightarrow> Buffer \<Rightarrow> Buffer result" where
  "add_octet_array length' arr b = (if unat length' \<le> length arr
     then Buffer_copy (take (unat length') arr) b else Inl OutOfBounds)"

text \<open>A sequence of writes, as the source chains \<open>buff_ += x\<close> statements.\<close>

fun Buffer_run :: "(Buffer \<Rightarrow> Buffer result) list \<Rightarrow> Buffer \<Rightarrow> Buffer result" where
  "Buffer_run [] b = Inr b"
| "Buffer_run (f # fs) b = bind (f b) (Buffer_run fs)"

fun CopySubmitMultiAddresses :: "MultiDestinationAddress \<Rightarrow> Buffer \<Rightarrow> Buffer result" where
  "CopySubmitMultiAddresses (SmeMultiAddress a) b =
     bind (put_Uint8 0x01 b) (put_SmeAddress a)"
| "CopySubmitMultiAddresses (DistributionListAddress s) b =
     bind (put_Uint8 0x02 b) (put_String s)"

definition put_MultiDestinationAddresses ::
  "MultiDestinationAddresses \<Rightarrow> Buffer \<Rightarrow> Buffer result" where
  "put_MultiDestinationAddresses p b = bind (put_Uint8 (MultiDestinationAddresses_size p) b)
     (Buffer_run (map CopySubmitMultiAddresses (addrs p)))"

definition CopyUnsuccessSmeColl :: "UnsuccessSme \<Rightarrow> Buffer \<Rightarrow> Buffer result" where
  "CopyUnsuccessSmeColl p b = bind (put_SmeAddress (smeAddress p) b)
     (put_Uint32 (hton32 False (error_code p)))"

definition put_UnsuccessSmeColl :: "UnsuccessSmeColl \<Rightarrow> Buffer \<Rightarrow> Buffer result" where
  "put_UnsuccessSmeColl p b = bind (put_Uint8 (UnsuccessSmeColl_size p) b)
     (Buffer_run (map CopyUnsuccessSmeColl (unsuccess p)))"

section \<open>The octets of each parameter\<close>

definition String_octets :: "octets \<Rightarrow> octets" where
  "String_octets s = s @ [0]"

definition Uint8_octets :: "octet \<Rightarrow> octets" where
  "Uint8_octets x = [x]"

definition ShortMessage_octets :: "octets \<Rightarrow> octets" where
  "ShortMessage_octets m = of_nat (length m) # m"

definition SmeAddress_octets :: "SmeAddress \<Rightarrow> octets" where
  "SmeAddress_octets a = ton a # npi a # String_octets (addr_v (address a))"

fun MultiDestinationAddress_octets :: "MultiDestinationAddress \<Rightarrow> octets" where
  "MultiDestinationAddress_octets (SmeMultiAddress a) = 0x01 # SmeAddress_octets a"
| "MultiDestinationAddress_octets (DistributionListAddress s) = 0x02 # String_octets s"

definition MultiDestinationAddresses_octets :: "MultiDestinationAddresses \<Rightarrow> octets" where
  "MultiDestinationAddresses_octets m =
     MultiDestinationAddresses_size m # concat (map MultiDestinationAddress_octets (addrs m))"

definition UnsuccessSme_octets :: "UnsuccessSme \<Rightarrow> octets" where
  "UnsuccessSme_octets u = SmeAddress_octets (smeAddress u) @ wire32 (error_code u)"

definition UnsuccessSmeColl_octets :: "UnsuccessSmeColl \<Rightarrow> octets" where
  "UnsuccessSmeColl_octets c =
     UnsuccessSmeColl_size c # concat (map UnsuccessSme_octets (unsuccess c))"

section \<open>What the operations write\<close>

definition writes :: "(Buffer \<Rightarrow> Buffer result) \<Rightarrow> octets \<Rightarrow> bool" where
  "writes f xs \<longleftrightarrow> (\<forall>b. offset b \<le> capacity b \<longrightarrow> f b = Buffer_copy xs b)"

named_theorems writes_intro "which octets an operation writes"

lemma writes_eq: "writes f xs \<Longrightarrow> xs = ys \<Longrightarrow> writes f ys"
  by simp

lemma writes_copy [writes_intro]: "writes (Buffer_copy xs) xs"
  by (simp add: writes_def)

lemma writes_seq:
  assumes "writes f xs" and "writes g ys"
  shows "writes (\<lambda>b. bind (f b) g) (xs @ ys)"
  using assms by (auto simp: writes_def Buffer_copy_def)

lemma writes_run_Nil [writes_intro]: "writes (Buffer_run []) []"
  by (simp add: writes_def Buffer_copy_def)

lemma writes_run_Cons [writes_intro]:
  "writes f xs \<Longrightarrow> writes (Buffer_run fs) ys \<Longrightarrow> writes (Buffer_run (f # fs)) (xs @ ys)"
  using writes_seq [of f xs "Buffer_run fs" ys] by (simp add: writes_def)

lemma writes_run_map:
  "(\<And>x. x \<in> set xs \<Longrightarrow> writes (f x) (g x)) \<Longrightarrow> writes (Buffer_run (map f xs)) (concat (map g xs))"
  by (induction xs) (auto intro!: writes_intro)

lemma writes_Uint8 [writes_intro]: "writes (put_Uint8 p) (Uint8_octets p)"
  by (simp add: put_Uint8_def Uint8_octets_def writes_intro)

lemma writes_hton32 [writes_intro]: "writes (put_Uint32 (hton32 False n)) (wire32 n)"
  by (simp add: put_Uint32_def wire32_def writes_intro)

lemma writes_hton16 [writes_intro]: "writes (put_Uint16 (hton16 False n)) (wire16 n)"
  by (simp add: put_Uint16_def wire16_def writes_intro)

lemma writes_String [writes_intro]: "writes (put_String s) (String_octets s)"
  using writes_seq [OF writes_copy writes_copy]
  by (simp add: put_String_def [abs_def] String_octets_def)

lemma writes_ShortMessage [writes_intro]: "writes (put_ShortMessage m) (ShortMessage_octets m)"
  using writes_seq [OF writes_Uint8 writes_copy]
  by (simp add: put_ShortMessage_def [abs_def] ShortMessage_octets_def Uint8_octets_def)

lemma writes_SmeAddress [writes_intro]: "writes (put_SmeAddress a) (SmeAddress_octets a)"
  using writes_seq [OF writes_Uint8 writes_seq [OF writes_Uint8 writes_String],
      of "ton a" "npi a" "addr_v (address a)"]
  by (simp add: put_SmeAddress_def [abs_def] SmeAddress_octets_def Uint8_octets_def)

lemma writes_octet_array [writes_intro]:
  "length v = unat l \<Longrightarrow> writes (add_octet_array l v) v"
  by (simp add: writes_def add_octet_array_def)

lemma writes_MultiDestinationAddress:
  "writes (CopySubmitMultiAddresses x) (MultiDestinationAddress_octets x)"
  using writes_seq [OF writes_Uint8 writes_SmeAddress, of 1]
    writes_seq [OF writes_Uint8 writes_String, of 2]
  by (cases x) (simp_all add: writes_def Uint8_octets_def)

lemma writes_MultiDestinationAddresses [writes_intro]:
  "writes (put_MultiDestinationAddresses m) (MultiDestinationAddresses_octets m)"
  using writes_seq [OF writes_Uint8 [of "MultiDestinationAddresses_size m"]
      writes_run_map [OF writes_MultiDestinationAddress, where xs = "addrs m"]]
  by (simp add: put_MultiDestinationAddresses_def [abs_def] MultiDestinationAddresses_octets_def
      Uint8_octets_def)

lemma writes_UnsuccessSme: "writes (CopyUnsuccessSmeColl u) (UnsuccessSme_octets u)"
  using writes_seq [OF writes_SmeAddress writes_hton32]
  by (simp add: CopyUnsuccessSmeColl_def [abs_def] UnsuccessSme_octets_def)

lemma writes_UnsuccessSmeColl [writes_intro]:
  "writes (put_UnsuccessSmeColl c) (UnsuccessSmeColl_octets c)"
  using writes_seq [OF writes_Uint8 [of "UnsuccessSmeColl_size c"]
      writes_run_map [OF writes_UnsuccessSme, where xs = "unsuccess c"]]
  by (simp add: put_UnsuccessSmeColl_def [abs_def] UnsuccessSmeColl_octets_def Uint8_octets_def)

text \<open>A buffer of just the right size is filled exactly; one that is too small overflows.\<close>

lemma writes_fill:
  "writes f xs \<Longrightarrow> unat l = length xs \<Longrightarrow>
     f (Buffer_reset l) = Inr \<lparr> capacity = unat l, data = xs \<rparr>"
  by (simp add: writes_def Buffer_reset_def Buffer_copy_def)

lemma writes_overrun:
  "writes f xs \<Longrightarrow> unat l < length xs \<Longrightarrow> f (Buffer_reset l) = Inl OutOfBounds"
  by (simp add: writes_def Buffer_reset_def Buffer_copy_def)

section \<open>Lengths\<close>

lemma length_octets [octets_simps]:
  "length (String_octets s) = length s + 1"
  "length (Uint8_octets x) = 1"
  "length (ShortMessage_octets m) = length m + 1"
  "length (SmeAddress_octets a) = address_length a + 3"
  by (simp_all add: String_octets_def Uint8_octets_def ShortMessage_octets_def
      SmeAddress_octets_def address_length_def)

lemma length_UnsuccessSme_octets:
  "length (UnsuccessSme_octets u) = UnsuccessSme_length u"
  by (simp add: UnsuccessSme_octets_def UnsuccessSme_length_def SmeAddress_length_def length_octets)

text \<open>\<open>add\<close> reports the octets that the new entry will take up in the buffer.\<close>

lemma add_SmeAddress_octets:
  "length (addrs m) < 255 \<Longrightarrow>
     length (MultiDestinationAddresses_octets (fst (add_SmeAddress a m))) =
     length (MultiDestinationAddresses_octets m) + snd (add_SmeAddress a m)"
  by (simp add: add_SmeAddress_def MultiDestinationAddresses_octets_def SmeAddress_length_def
      length_octets)

lemma add_String_octets:
  "length (addrs m) < 255 \<Longrightarrow>
     length (MultiDestinationAddresses_octets (fst (add_String s m))) =
     length (MultiDestinationAddresses_octets m) + snd (add_String s m)"
  by (simp add: add_String_def MultiDestinationAddresses_octets_def length_octets)

lemma add_UnsuccessSme_octets:
  "length (unsuccess c) < 255 \<Longrightarrow>
     length (UnsuccessSmeColl_octets (fst (add_UnsuccessSme u c))) =
     length (UnsuccessSmeColl_octets c) + snd (add_UnsuccessSme u c)"
  by (simp add: add_UnsuccessSme_def UnsuccessSmeColl_octets_def length_UnsuccessSme_octets)

end
