(* ===== verification/Param_Fields.thy ===== *)
theory Param_Fields
  imports Buffers
begin

text \<open>
  Reading one parameter off a PDU. The decoders of the source repeat the same three steps for
  every mandatory parameter: assign it from \<open>buff + offset\<close>, advance the offset by the octets it
  takes up, and throw if the offset has passed \<open>command_length\<close>. A reader is those three steps;
  its arguments are the array from the offset on, the length, the PDU's error message and the
  offset, and its value is the parameter and the new offset.

  The locales state what a reader and the octets written by the encoder owe each other:
  \<open>field_put\<close> that written octets are read back, \<open>field_get\<close> that what was read is what was
  there. Every reader is interpreted below, and the proofs about whole PDUs use nothing else.
\<close>

section \<open>The contract of a reader\<close>

text \<open>
  \<open>read_upto b off xs\<close>: the octets from 16 up to the offset are \<open>xs\<close>. A decoder starts with
  nothing read and ends with the octets of all its parameters. \<open>reading b off xs m r\<close> is a point
  on the way there: \<open>xs\<close> has been read, and what is left to run, \<open>m\<close>, ends with \<open>r\<close>.
\<close>

definition read_upto :: "octets \<Rightarrow> nat \<Rightarrow> octets \<Rightarrow> bool" where
  "read_upto b off xs \<longleftrightarrow> drop 16 b = xs @ drop off b \<and> off = 16 + length xs"

definition reading :: "octets \<Rightarrow> nat \<Rightarrow> octets \<Rightarrow> 'r result \<Rightarrow> 'r \<Rightarrow> bool" where
  "reading b off xs m r \<longleftrightarrow> read_upto b off xs \<and> m = Inr r"

lemma reading_start: "m = Inr r \<Longrightarrow> reading b 16 [] m r"
  by (simp add: reading_def read_upto_def)

lemma reading_end: "reading b off xs (Inr q) r \<longleftrightarrow> read_upto b off xs \<and> q = r"
  by (simp add: reading_def)

named_theorems step_elim "decomposing a sequence of readings"

locale field_put =
  fixes octs :: "'a \<Rightarrow> octets"
    and ok :: "'a \<Rightarrow> bool"
    and get :: "octets \<Rightarrow> nat \<Rightarrow> string \<Rightarrow> nat \<Rightarrow> ('a \<times> nat) result"
  assumes get_octs:
    "ok x \<Longrightarrow> off + length (octs x) \<le> len \<Longrightarrow>
       get (octs x @ rest) len err off = Inr (x, off + length (octs x))"
begin

lemma unique:
  assumes "ok x" "ok y" and eq: "octs x @ r = octs y @ s"
  shows "x = y \<and> r = s"
proof -
  let ?n = "length (octs x) + length (octs y)"
  have "get (octs x @ r) ?n [] 0 = Inr (x, length (octs x))"
    using get_octs [OF \<open>ok x\<close>, of 0 ?n] by simp
  moreover have "get (octs y @ s) ?n [] 0 = Inr (y, length (octs y))"
    using get_octs [OF \<open>ok y\<close>, of 0 ?n] by simp
  ultimately show ?thesis using eq by simp
qed

end

locale field_get =
  fixes octs :: "'a \<Rightarrow> octets"
    and ok :: "'a \<Rightarrow> bool"
    and get :: "octets \<Rightarrow> nat \<Rightarrow> string \<Rightarrow> nat \<Rightarrow> ('a \<times> nat) result"
  assumes octs_get:
    "get p len err off = Inr (x, off') \<Longrightarrow>
       ok x \<and> off' = off + length (octs x) \<and> p = octs x @ drop (length (octs x)) p"
begin

lemma walk:
  assumes "get (drop off b) len err off = Inr (x, off')"
  shows "ok x \<and> off' = off + length (octs x) \<and> drop off b = octs x @ drop off' b"
  using octs_get [OF assms] by (simp add: add.commute)

lemma step:
  assumes "reading b off xs (bind2 (get (drop off b) len err off) f) r"
  obtains x off' where "ok x" "reading b off' (xs @ octs x) (f x off') r"
proof -
  obtain x off' where g: "get (drop off b) len err off = Inr (x, off')" and "f x off' = Inr r"
    using assms by (auto simp: reading_def bind2_eq_Inr)
  moreover have "read_upto b off' (xs @ octs x)"
    using walk [OF g] assms by (simp add: reading_def read_upto_def)
  ultimately show ?thesis
    using walk [OF g] that by (auto simp: reading_def)
qed

end

locale field_codec = field_put + field_get

locale checked_field = field_codec +
  assumes get_le: "get p len err off = Inr (x, off') \<Longrightarrow> off' \<le> len"
begin

lemma get_iff:
  "get p len err off = Inr (x, off') \<longleftrightarrow>
     ok x \<and> off' = off + length (octs x) \<and> off' \<le> len \<and> (\<exists>rest. p = octs x @ rest)"
  using octs_get [of p len err off x off'] get_le [of p len err off x off'] get_octs [of x off len]
  by auto

text \<open>A step that also keeps the bound.\<close>

lemma step_le:
  assumes "reading b off xs (bind2 (get (drop off b) len err off) f) r"
  obtains x off' where "ok x" "off' \<le> len" "reading b off' (xs @ octs x) (f x off') r"
proof -
  obtain x off' where g: "get (drop off b) len err off = Inr (x, off')" and "f x off' = Inr r"
    using assms by (auto simp: reading_def bind2_eq_Inr)
  moreover have "read_upto b off' (xs @ octs x)"
    using walk [OF g] assms by (simp add: reading_def read_upto_def)
  ultimately show ?thesis
    using walk [OF g] get_le [OF g] that by (auto simp: reading_def)
qed

end

section \<open>The readers\<close>

text \<open>\<open>x = &sptr[offset]; offset += x.length() + 1; if(len < offset) throw Error(err);\<close>\<close>

definition get_String ::
  "(octets \<Rightarrow> octets result) \<Rightarrow> octets \<Rightarrow> nat \<Rightarrow> string \<Rightarrow> nat \<Rightarrow> (octets \<times> nat) result" where
  "get_String assign p len err off =
     bind (assign p) (\<lambda>s. let off' = off + (length s + 1) in
     if len < off' then Inl (Error err) else Inr (s, off'))"

text \<open>\<open>x = buff[offset]; ++offset; if(len < offset) throw Error(err);\<close>\<close>

definition get_Uint8 :: "octets \<Rightarrow> nat \<Rightarrow> string \<Rightarrow> nat \<Rightarrow> (octet \<times> nat) result" where
  "get_Uint8 p len err off =
     bind (get_octet p) (\<lambda>x. let off' = off + 1 in
     if len < off' then Inl (Error err) else Inr (x, off'))"

text \<open>\<open>x = buff[offset]; ++offset;\<close>, without a check\<close>

definition get_unchecked_Uint8 :: "octets \<Rightarrow> nat \<Rightarrow> string \<Rightarrow> nat \<Rightarrow> (octet \<times> nat) result" where
  "get_unchecked_Uint8 p len err off = bind (get_octet p) (\<lambda>x. Inr (x, off + 1))"

text \<open>
  \<open>x.decode(buff+offset, len - offset); offset += x.address().length() + 3;
  if(len < offset) throw Error(err);\<close>
\<close>

definition get_SmeAddress ::
  "SmeAddress \<Rightarrow> octets \<Rightarrow> nat \<Rightarrow> string \<Rightarrow> nat \<Rightarrow> (SmeAddress \<times> nat) result" where
  "get_SmeAddress x p len err off =
     bind (SmeAddress_decode x p (minus_Uint32 len off)) (\<lambda>a. let off' = off + (address_length a + 3) in
     if len < off' then Inl (Error err) else Inr (a, off'))"

text \<open>
  \<open>short_message_ = buff+offset; offset += short_message_.length() + 1;
  if(len < offset) throw Error(err);\<close> where the assignment takes the length from the first octet.
\<close>

definition ShortMessage_assign :: "octets \<Rightarrow> octets result" where
  "ShortMessage_assign p = bind (get_octet p) (\<lambda>n.
     if 1 + unat n \<le> length p then Inr (take (unat n) (drop 1 p)) else Inl OutOfBounds)"

definition get_ShortMessage :: "octets \<Rightarrow> nat \<Rightarrow> string \<Rightarrow> nat \<Rightarrow> (octets \<times> nat) result" where
  "get_ShortMessage p len err off =
     bind (ShortMessage_assign p) (\<lambda>m. let off' = off + (length m + 1) in
     if len < off' then Inl (Error err) else Inr (m, off'))"

text \<open>The two collections: \<open>x.decode(buff+offset, len - offset); offset += x.octet_count();\<close>\<close>

definition get_MultiDestinationAddresses ::
  "MultiDestinationAddresses \<Rightarrow> octets \<Rightarrow> nat \<Rightarrow> string \<Rightarrow> nat \<Rightarrow>
     (MultiDestinationAddresses \<times> nat) result" where
  "get_MultiDestinationAddresses x p len err off =
     bind (MultiDestinationAddresses_decode x p (minus_Uint32 len off)) (\<lambda>m.
     let off' = off + octetCount m in
     if len < off' then Inl (Error err) else Inr (m, off'))"

definition get_UnsuccessSmeColl ::
  "UnsuccessSmeColl \<Rightarrow> octets \<Rightarrow> nat \<Rightarrow> string \<Rightarrow> nat \<Rightarrow> (UnsuccessSmeColl \<times> nat) result" where
  "get_UnsuccessSmeColl x p len err off =
     bind (UnsuccessSmeColl_decode x p (minus_Uint32 len off)) (\<lambda>c.
     let off' = off + unsuccess_octets c in
     if len < off' then Inl (Error err) else Inr (c, off'))"

section \<open>Strings and octets\<close>

lemma String_field:
  "checked_field String_octets (cstr_ok n) (get_String (assign_Char n e))"
proof
  fix p len err off x off'
  assume "get_String (assign_Char n e) p len err off = Inr (x, off')"
  then have "assign_Char n e p = Inr x" "off' = off + (length x + 1)" "off' \<le> len"
    by (auto simp: get_String_def bind_eq_Inr Let_def split: if_splits)
  then show "cstr_ok n x \<and> off' = off + length (String_octets x) \<and>
      p = String_octets x @ drop (length (String_octets x)) p" and "off' \<le> len"
    by (auto simp: String_octets_def dest: assign_Char_InrD)
qed (simp add: get_String_def String_octets_def)

interpretation Uint8: checked_field Uint8_octets "\<lambda>_. True" get_Uint8
  by unfold_locales
    (auto simp: get_Uint8_def Uint8_octets_def get_octet_def bind_eq_Inr Let_def
      split: list.splits if_splits)

interpretation unchecked_Uint8: field_codec Uint8_octets "\<lambda>_. True" get_unchecked_Uint8
  by unfold_locales
    (auto simp: get_unchecked_Uint8_def Uint8_octets_def get_octet_def bind_eq_Inr
      split: list.splits)

abbreviation "SystemId_ok \<equiv> cstr_ok 16"
abbreviation "Password_ok \<equiv> cstr_ok 19"
abbreviation "SystemType_ok \<equiv> cstr_ok 13"
abbreviation "AddressRange_ok \<equiv> cstr_ok 41"
abbreviation "ServiceType_ok \<equiv> cstr_ok 6"
abbreviation "Time_ok \<equiv> cstr_ok 17"
abbreviation "MessageId_ok \<equiv> cstr_ok 65"

interpretation system_id: checked_field String_octets SystemId_ok "get_String SystemId_assign"
  unfolding SystemId_assign_def by (rule String_field)

interpretation password: checked_field String_octets Password_ok "get_String Password_assign"
  unfolding Password_assign_def by (rule String_field)

interpretation system_type: checked_field String_octets SystemType_ok "get_String SystemType_assign"
  unfolding SystemType_assign_def by (rule String_field)

interpretation address_range:
  checked_field String_octets AddressRange_ok "get_String AddressRange_assign"
  unfolding AddressRange_assign_def by (rule String_field)

interpretation service_type:
  checked_field String_octets ServiceType_ok "get_String ServiceType_assign"
  unfolding ServiceType_assign_def by (rule String_field)

interpretation time: checked_field String_octets Time_ok "get_String Time_assign"
  unfolding Time_assign_def by (rule String_field)

interpretation message_id: checked_field String_octets MessageId_ok "get_String MessageId_assign"
  unfolding MessageId_assign_def by (rule String_field)

section \<open>Addresses and short messages\<close>

text \<open>An address keeps the limit of the object it was decoded into.\<close>

definition SmeAddress_ok :: "nat \<Rightarrow> SmeAddress \<Rightarrow> bool" where
  "SmeAddress_ok n a \<longleftrightarrow> addr_len (address a) = n \<and> cstr_ok n (addr_v (address a))"

lemma SmeAddress_decode_append [simp]:
  "SmeAddress_ok (addr_len (address a)) x \<Longrightarrow> 3 \<le> len \<Longrightarrow>
     SmeAddress_decode a (SmeAddress_octets x @ rest) len = Inr x"
  by (simp add: SmeAddress_decode_def SmeAddress_octets_def String_octets_def SmeAddress_ok_def
      get_octet_def Address_assign_def)

lemma SmeAddress_decode_InrD:
  assumes "SmeAddress_decode a p len = Inr x"
  shows "SmeAddress_ok (addr_len (address a)) x"
    and "p = SmeAddress_octets x @ drop (length (SmeAddress_octets x)) p"
    and "3 \<le> len"
proof -
  obtain t n q s where p: "p = t # n # q" and s: "assign_Char (addr_len (address a)) 
      ''Invalid Address length'' q = Inr s"
    and x: "x = \<lparr> ton = t, npi = n, address = (address a)\<lparr> addr_v := s \<rparr> \<rparr>" and "3 \<le> len"
    using assms
    by (auto simp: SmeAddress_decode_def get_octet_def bind_eq_Inr Address_assign_def
        split: list.splits if_splits)
  from assign_Char_InrD [OF s] p x \<open>3 \<le> len\<close>
  show "SmeAddress_ok (addr_len (address a)) x"
    and "p = SmeAddress_octets x @ drop (length (SmeAddress_octets x)) p"
    and "3 \<le> len"
    by (simp_all add: SmeAddress_ok_def SmeAddress_octets_def String_octets_def)
qed

lemma minus_Uint32_le [simp]: "n \<le> len \<Longrightarrow> minus_Uint32 len n = len - n"
  by (simp add: minus_Uint32_def)

interpretation sme_address: checked_field SmeAddress_octets
  "SmeAddress_ok (addr_len (address a))" "get_SmeAddress a" for a
proof
  fix p len err off x off'
  assume "get_SmeAddress a p len err off = Inr (x, off')"
  then have *: "SmeAddress_decode a p (minus_Uint32 len off) = Inr x"
      "off' = off + (address_length x + 3)" "off' \<le> len"
    by (auto simp: get_SmeAddress_def bind_eq_Inr Let_def split: if_splits)
  then show "SmeAddress_ok (addr_len (address a)) x \<and> off' = off + length (SmeAddress_octets x) \<and>
      p = SmeAddress_octets x @ drop (length (SmeAddress_octets x)) p" and "off' \<le> len"
    using SmeAddress_decode_InrD [OF *(1)] by (simp_all add: length_octets)
qed (simp add: get_SmeAddress_def length_octets)

definition ShortMessage_ok :: "octets \<Rightarrow> bool" where
  "ShortMessage_ok m \<longleftrightarrow> length m \<le> 255"

lemma unat_of_nat_octet: "n \<le> 255 \<Longrightarrow> unat (of_nat n :: octet) = n"
  by (simp add: unat_of_nat take_bit_nat_eq_self)

lemma unat_octet_le: "unat (x :: octet) \<le> 255"
  using unsigned_less [of x, where ?'a = nat] by simp

interpretation short_message: checked_field ShortMessage_octets ShortMessage_ok get_ShortMessage
proof
  fix p len err off x off'
  assume "get_ShortMessage p len err off = Inr (x, off')"
  then obtain n q where p: "p = n # q" and n: "unat n \<le> length q" and x: "x = take (unat n) q"
    and off: "off' = off + (length x + 1)" "off' \<le> len"
    by (auto simp: get_ShortMessage_def ShortMessage_assign_def get_octet_def bind_eq_Inr Let_def
        split: list.splits if_splits)
  then show "ShortMessage_ok x \<and> off' = off + length (ShortMessage_octets x) \<and>
      p = ShortMessage_octets x @ drop (length (ShortMessage_octets x)) p" and "off' \<le> len"
    using unat_octet_le [of n] by (auto simp: ShortMessage_ok_def ShortMessage_octets_def)
qed (auto simp: get_ShortMessage_def ShortMessage_assign_def ShortMessage_octets_def
    get_octet_def ShortMessage_ok_def unat_of_nat_octet)

section \<open>The readers together\<close>

text \<open>
  What the proofs about whole PDUs use: \<open>field_simps_read\<close> runs a decoder over the octets it
  expects, \<open>step_elim\<close> takes a successful run apart.
\<close>

lemmas [field_simps_read] =
  Uint8.get_octs unchecked_Uint8.get_octs system_id.get_octs password.get_octs
  system_type.get_octs address_range.get_octs service_type.get_octs time.get_octs
  message_id.get_octs sme_address.get_octs short_message.get_octs

lemmas [step_elim] =
  Uint8.step_le unchecked_Uint8.step system_id.step_le password.step_le
  system_type.step_le address_range.step_le service_type.step_le time.step_le
  message_id.step_le sme_address.step_le short_message.step_le

end
