(* ===== verification/Address_Lists.thy ===== *)
theory Address_Lists
  imports Param_Fields
begin

text \<open>
  The destination list of submit_multi and the unsuccessful-delivery list of submit_multi_resp
  read back what was written, and accept nothing else.
\<close>

section \<open>Destinations\<close>

fun MultiDestinationAddress_ok :: "MultiDestinationAddress \<Rightarrow> bool" where
  "MultiDestinationAddress_ok (SmeMultiAddress a) = SmeAddress_ok 21 a"
| "MultiDestinationAddress_ok (DistributionListAddress s) = (0 \<notin> set s)"

definition MultiDestinationAddresses_ok :: "MultiDestinationAddresses \<Rightarrow> bool" where
  "MultiDestinationAddresses_ok m \<longleftrightarrow> length (addrs m) \<le> 255 \<and>
     list_all MultiDestinationAddress_ok (addrs m) \<and>
     octetCount m = length (MultiDestinationAddresses_octets m)"

lemma get_octet_Cons [simp]: "get_octet (x # p) = Inr x"
  by (simp add: get_octet_def)

lemma addr_len_default [simp]: "addr_len (address SmeAddress_default) = 21"
  by (simp add: SmeAddress_default_def Address_default_def)

lemma length_SmeAddress [simp]: "length (SmeAddress_octets a) = SmeAddress_length a"
  by (simp add: length_octets SmeAddress_length_def)

lemma get_octet_InrD: "get_octet p = Inr x \<Longrightarrow> p = x # drop 1 p"
  by (auto simp: get_octet_def split: list.splits)

text \<open>One round of the loop, both ways.\<close>

lemma MultiDestinationAddresses_step:
  assumes "drop (octetCount m) p = MultiDestinationAddress_octets x @ rest"
    and "MultiDestinationAddress_ok x" and "length (addrs m) < 255"
    and "octetCount m + length (MultiDestinationAddress_octets x) \<le> len"
  shows "MultiDestinationAddresses_loop p len (Suc n) m =
     MultiDestinationAddresses_loop p len n (m\<lparr> octetCount := octetCount m + length (MultiDestinationAddress_octets x),
       addrs := addrs m @ [x] \<rparr>)"
proof (cases x)
  case (SmeMultiAddress a)
  have "drop (Suc (octetCount m)) p = SmeAddress_octets a @ rest"
    using drop_plus [of "octetCount m" 1 p] assms(1) SmeMultiAddress by simp
  moreover have "SmeAddress_decode SmeAddress_default (SmeAddress_octets a @ rest)
      (minus_Uint32 len (Suc (octetCount m))) = Inr a"
    using assms SmeMultiAddress by (intro SmeAddress_decode_append) (auto simp: SmeAddress_length_def)
  ultimately show ?thesis
    using assms SmeMultiAddress by (simp add: add_SmeAddress_def)
next
  case (DistributionListAddress s)
  have "drop (Suc (octetCount m)) p = s @ 0 # rest"
    using drop_plus [of "octetCount m" 1 p] assms(1) DistributionListAddress
    by (simp add: String_octets_def)
  then show ?thesis
    using assms DistributionListAddress by (simp add: add_String_def length_octets)
qed

lemma MultiDestinationAddresses_stepD:
  assumes "MultiDestinationAddresses_loop p len (Suc n) m = Inr m'" and "length (addrs m) < 255"
  obtains x where "MultiDestinationAddress_ok x"
    and "octetCount m + length (MultiDestinationAddress_octets x) \<le> len"
    and "drop (octetCount m) p = MultiDestinationAddress_octets x @
           drop (octetCount m + length (MultiDestinationAddress_octets x)) p"
    and "MultiDestinationAddresses_loop p len n (m\<lparr> octetCount := octetCount m + length (MultiDestinationAddress_octets x),
       addrs := addrs m @ [x] \<rparr>) = Inr m'"
proof -
  let ?p = "drop (Suc (octetCount m)) p"
  obtain f where f: "get_octet (drop (octetCount m) p) = Inr f"
    using assms(1) by (auto simp: bind_eq_Inr)
  have p: "drop (octetCount m) p = f # ?p"
    using get_octet_InrD [OF f] by simp
  consider "f = 1" | "f = 2"
    using assms(1) f by (auto simp: Let_def split: if_splits)
  then show ?thesis
  proof cases
    case 1
    then obtain a where
      a: "SmeAddress_decode SmeAddress_default ?p (minus_Uint32 len (Suc (octetCount m))) = Inr a"
      and le: "Suc (octetCount m) + SmeAddress_length a \<le> len"
      and l: "MultiDestinationAddresses_loop p len n (fst (add_SmeAddress a
                (m\<lparr> octetCount := Suc (octetCount m) + SmeAddress_length a \<rparr>))) = Inr m'"
      using assms(1) f by (auto simp: bind_eq_Inr Let_def split: if_splits)
    show ?thesis
      by (rule that [of "SmeMultiAddress a"])
        (use 1 p le l assms(2) SmeAddress_decode_InrD(1,2) [OF a] in
          \<open>auto simp: add_SmeAddress_def add.commute\<close>)
  next
    case 2
    then obtain s where s: "String_of_Char ?p = Inr s"
      and le: "Suc (octetCount m) + Suc (length s) \<le> len"
      and l: "MultiDestinationAddresses_loop p len n (fst (add_String s
                (m\<lparr> octetCount := Suc (octetCount m) + Suc (length s) \<rparr>))) = Inr m'"
      using assms(1) f by (auto simp: bind_eq_Inr Let_def split: if_splits)
    show ?thesis
      by (rule that [of "DistributionListAddress s"])
        (use 2 p le l assms(2) String_of_Char_InrD [OF s] in
          \<open>auto simp: add_String_def String_octets_def add.commute\<close>)
  qed
qed

lemma MultiDestinationAddresses_loop_octets:
  assumes "drop (octetCount m) p = concat (map MultiDestinationAddress_octets xs) @ rest"
    and "list_all MultiDestinationAddress_ok xs" and "length (addrs m) + length xs \<le> 255"
    and "octetCount m + length (concat (map MultiDestinationAddress_octets xs)) \<le> len"
  shows "MultiDestinationAddresses_loop p len (length xs) m = Inr (m\<lparr> octetCount := octetCount m + length (concat (map MultiDestinationAddress_octets xs)),
       addrs := addrs m @ xs \<rparr>)"
  using assms
proof (induction xs arbitrary: m)
  case (Cons x xs)
  let ?m = "m\<lparr> octetCount := octetCount m + length (MultiDestinationAddress_octets x),
       addrs := addrs m @ [x] \<rparr>"
  have "MultiDestinationAddresses_loop p len (length (x # xs)) m =
      MultiDestinationAddresses_loop p len (length xs) ?m"
    using MultiDestinationAddresses_step [of m p x] Cons.prems by simp
  also have "\<dots> = Inr (?m\<lparr> octetCount := octetCount ?m +
      length (concat (map MultiDestinationAddress_octets xs)),
       addrs := addrs ?m @ xs \<rparr>)"
    by (rule Cons.IH) (use Cons.prems in \<open>auto dest: drop_eq_appendD\<close>)
  finally show ?case
    by (simp add: add.assoc)
qed simp

lemma MultiDestinationAddresses_loopD:
  assumes "MultiDestinationAddresses_loop p len n m = Inr m'" and "length (addrs m) + n \<le> 255"
  shows "\<exists>xs. length xs = n \<and> list_all MultiDestinationAddress_ok xs \<and>
     m' = m\<lparr> octetCount := octetCount m + length (concat (map MultiDestinationAddress_octets xs)),
       addrs := addrs m @ xs \<rparr> \<and>
     drop (octetCount m) p =
       concat (map MultiDestinationAddress_octets xs) @ drop (octetCount m') p"
  using assms
proof (induction n arbitrary: m)
  case 0
  then show ?case by simp
next
  case (Suc n)
  from Suc.prems(2) have "length (addrs m) < 255" by simp
  with Suc.prems(1) obtain x where x: "MultiDestinationAddress_ok x"
    and d: "drop (octetCount m) p = MultiDestinationAddress_octets x @
           drop (octetCount m + length (MultiDestinationAddress_octets x)) p"
    and l: "MultiDestinationAddresses_loop p len n (m\<lparr> octetCount := octetCount m + length (MultiDestinationAddress_octets x),
       addrs := addrs m @ [x] \<rparr>) = Inr m'"
    by (rule MultiDestinationAddresses_stepD)
  from Suc.IH [OF l] Suc.prems(2) obtain xs where "length xs = n"
    "list_all MultiDestinationAddress_ok xs"
    "m' = m\<lparr> octetCount := octetCount m +
       length (MultiDestinationAddress_octets x) +
       length (concat (map MultiDestinationAddress_octets xs)),
       addrs := addrs m @ x # xs \<rparr>"
    "drop (octetCount m + length (MultiDestinationAddress_octets x)) p =
       concat (map MultiDestinationAddress_octets xs) @ drop (octetCount m') p"
    by auto
  with x d show ?case
    by (intro exI [of _ "x # xs"]) (simp add: add.assoc)
qed

abbreviation get_destinations ::
  "octets \<Rightarrow> nat \<Rightarrow> string \<Rightarrow> nat \<Rightarrow> (MultiDestinationAddresses \<times> nat) result" where
  "get_destinations \<equiv> get_MultiDestinationAddresses MultiDestinationAddresses_default"

text \<open>
  A list with no destination takes one octet, which the decoder refuses when fewer than three
  are left.
\<close>

lemma destinations_get_octs:
  assumes x: "MultiDestinationAddresses_ok x"
    and le: "off + length (MultiDestinationAddresses_octets x) \<le> len" and three: "off + 3 \<le> len"
  shows "get_destinations (MultiDestinationAddresses_octets x @ rest) len err off =
    Inr (x, off + length (MultiDestinationAddresses_octets x))"
proof -
  let ?m = "MultiDestinationAddresses_default\<lparr> octetCount := 1 \<rparr>"
  let ?p = "MultiDestinationAddresses_octets x @ rest"
  have "3 \<le> len - off"
    using three by linarith
  moreover have "MultiDestinationAddresses_loop ?p (len - off) (length (addrs x)) ?m =
      Inr (?m\<lparr> octetCount := octetCount ?m +
        length (concat (map MultiDestinationAddress_octets (addrs x))),
       addrs := addrs ?m @ addrs x \<rparr>)"
    by (rule MultiDestinationAddresses_loop_octets)
      (use x le in \<open>auto simp: MultiDestinationAddresses_octets_def MultiDestinationAddresses_ok_def
        MultiDestinationAddresses_default_def\<close>)
  moreover have "?m\<lparr> octetCount := octetCount ?m +
        length (concat (map MultiDestinationAddress_octets (addrs x))),
       addrs := addrs ?m @ addrs x \<rparr> = x"
    using x by (cases x) (simp add: MultiDestinationAddresses_default_def
        MultiDestinationAddresses_ok_def MultiDestinationAddresses_octets_def)
  moreover have "length (addrs x) = unat (MultiDestinationAddresses_size x)"
    using x by (simp add: MultiDestinationAddresses_size_def MultiDestinationAddresses_ok_def
        unat_of_nat_octet)
  ultimately have
    "MultiDestinationAddresses_decode MultiDestinationAddresses_default ?p (len - off) = Inr x"
    by (simp add: MultiDestinationAddresses_decode_def MultiDestinationAddresses_octets_def
        MultiDestinationAddresses_default_def)
  with x le show ?thesis
    by (simp add: get_MultiDestinationAddresses_def MultiDestinationAddresses_ok_def)
qed

interpretation destinations_put: field_put MultiDestinationAddresses_octets
  "\<lambda>m. MultiDestinationAddresses_ok m \<and> addrs m \<noteq> []" get_destinations
proof
  fix x :: MultiDestinationAddresses and off len :: nat and rest err
  assume x: "MultiDestinationAddresses_ok x \<and> addrs x \<noteq> []"
    and le: "off + length (MultiDestinationAddresses_octets x) \<le> len"
  obtain y ys where "addrs x = y # ys"
    using x by (auto simp: neq_Nil_conv)
  then have "off + 3 \<le> len"
    using le by (cases y)
      (auto simp: MultiDestinationAddresses_octets_def length_octets SmeAddress_length_def)
  then show "get_destinations (MultiDestinationAddresses_octets x @ rest) len err off =
      Inr (x, off + length (MultiDestinationAddresses_octets x))"
    using x le by (intro destinations_get_octs) auto
qed

lemma MultiDestinationAddresses_decodeD:
  assumes "MultiDestinationAddresses_decode MultiDestinationAddresses_default p len = Inr x"
  shows "MultiDestinationAddresses_ok x \<and>
    p = MultiDestinationAddresses_octets x @ drop (octetCount x) p"
proof -
  obtain cnt where p: "p = cnt # drop 1 p"
    and l: "MultiDestinationAddresses_loop p len (unat cnt)
       (MultiDestinationAddresses_default\<lparr> octetCount := 1 \<rparr>) = Inr x"
    using assms by (auto simp: MultiDestinationAddresses_decode_def bind_eq_Inr
        MultiDestinationAddresses_default_def dest: get_octet_InrD split: if_splits)
  from MultiDestinationAddresses_loopD [OF l] unat_octet_le [of cnt]
  obtain xs where "length xs = unat cnt" "list_all MultiDestinationAddress_ok xs"
    "addrs x = xs" "octetCount x = 1 + length (concat (map MultiDestinationAddress_octets xs))"
    "drop 1 p = concat (map MultiDestinationAddress_octets xs) @ drop (octetCount x) p"
    by (auto simp: MultiDestinationAddresses_default_def)
  with p show ?thesis
    by (auto simp: MultiDestinationAddresses_ok_def MultiDestinationAddresses_octets_def
        MultiDestinationAddresses_size_def unat_octet_le)
qed

interpretation destinations_get: field_get MultiDestinationAddresses_octets
  MultiDestinationAddresses_ok get_destinations
  by unfold_locales
    (auto simp: get_MultiDestinationAddresses_def bind_eq_Inr Let_def MultiDestinationAddresses_ok_def
      dest!: MultiDestinationAddresses_decodeD split: if_splits)

lemma get_destinations_le:
  "get_destinations p len err off = Inr (x, off') \<Longrightarrow> off' \<le> len"
  by (auto simp: get_MultiDestinationAddresses_def bind_eq_Inr Let_def split: if_splits)

section \<open>Unsuccessful deliveries\<close>

definition UnsuccessSme_ok :: "UnsuccessSme \<Rightarrow> bool" where
  "UnsuccessSme_ok u \<longleftrightarrow> SmeAddress_ok 21 (smeAddress u)"

definition UnsuccessSmeColl_ok :: "UnsuccessSmeColl \<Rightarrow> bool" where
  "UnsuccessSmeColl_ok c \<longleftrightarrow> length (unsuccess c) \<le> 255 \<and>
     list_all UnsuccessSme_ok (unsuccess c) \<and>
     unsuccess_octets c = length (UnsuccessSmeColl_octets c)"

lemma UnsuccessSme_decode_append [simp]:
  "UnsuccessSme_ok u \<Longrightarrow> 3 \<le> len \<Longrightarrow> UnsuccessSme_decode (UnsuccessSme_octets u @ rest) len = Inr u"
  by (cases u) (simp add: UnsuccessSme_decode_def UnsuccessSme_octets_def UnsuccessSme_ok_def)

lemma UnsuccessSme_decode_InrD:
  assumes "UnsuccessSme_decode p len = Inr u"
  shows "UnsuccessSme_ok u \<and> p = UnsuccessSme_octets u @ drop (UnsuccessSme_length u) p"
proof -
  obtain a e where a: "SmeAddress_decode SmeAddress_default p len = Inr a"
    and e: "get_wire32 (drop (SmeAddress_length a) p) = Inr e"
    and u: "u = \<lparr> smeAddress = a, error_code = e \<rparr>"
    using assms by (auto simp: UnsuccessSme_decode_def bind_eq_Inr)
  have "p = SmeAddress_octets a @ wire32 e @ drop 4 (drop (SmeAddress_length a) p)"
    using SmeAddress_decode_InrD(2) [OF a] get_wire32_InrD [OF e] by simp
  then show ?thesis
    using SmeAddress_decode_InrD(1) [OF a] u
    by (simp add: UnsuccessSme_ok_def UnsuccessSme_octets_def UnsuccessSme_length_def add.commute)
qed

lemma UnsuccessSmeColl_step:
  assumes "drop (unsuccess_octets c) p = UnsuccessSme_octets u @ rest"
    and "UnsuccessSme_ok u" and "length (unsuccess c) < 255"
    and "unsuccess_octets c + UnsuccessSme_length u \<le> len"
  shows "UnsuccessSmeColl_loop p len (Suc n) c =
     UnsuccessSmeColl_loop p len n (c\<lparr> unsuccess_octets := unsuccess_octets c + UnsuccessSme_length u,
       unsuccess := unsuccess c @ [u] \<rparr>)"
proof -
  have "UnsuccessSme_decode (UnsuccessSme_octets u @ rest)
      (minus_Uint32 len (unsuccess_octets c)) = Inr u"
    using assms by (intro UnsuccessSme_decode_append)
      (auto simp: UnsuccessSme_length_def SmeAddress_length_def)
  then show ?thesis
    using assms by (simp add: add_UnsuccessSme_def)
qed

lemma UnsuccessSmeColl_loop_octets:
  assumes "drop (unsuccess_octets c) p = concat (map UnsuccessSme_octets us) @ rest"
    and "list_all UnsuccessSme_ok us" and "length (unsuccess c) + length us \<le> 255"
    and "unsuccess_octets c + length (concat (map UnsuccessSme_octets us)) \<le> len"
  shows "UnsuccessSmeColl_loop p len (length us) c = Inr (c\<lparr>
     unsuccess_octets := unsuccess_octets c + length (concat (map UnsuccessSme_octets us)),
     unsuccess := unsuccess c @ us \<rparr>)"
  using assms
proof (induction us arbitrary: c)
  case (Cons u us)
  let ?c = "c\<lparr> unsuccess_octets := unsuccess_octets c + UnsuccessSme_length u,
       unsuccess := unsuccess c @ [u] \<rparr>"
  have "UnsuccessSmeColl_loop p len (length (u # us)) c = UnsuccessSmeColl_loop p len (length us) ?c"
    using UnsuccessSmeColl_step [of c p u] Cons.prems by (simp add: length_UnsuccessSme_octets)
  also have "\<dots> = Inr (?c\<lparr> unsuccess_octets := unsuccess_octets ?c +
      length (concat (map UnsuccessSme_octets us)), unsuccess := unsuccess ?c @ us \<rparr>)"
    by (rule Cons.IH)
      (use Cons.prems in \<open>auto simp: length_UnsuccessSme_octets dest: drop_eq_appendD\<close>)
  finally show ?case
    by (simp add: add.assoc length_UnsuccessSme_octets)
qed simp

lemma UnsuccessSmeColl_loopD:
  assumes "UnsuccessSmeColl_loop p len n c = Inr c'" and "length (unsuccess c) + n \<le> 255"
  shows "\<exists>us. length us = n \<and> list_all UnsuccessSme_ok us \<and>
     c' = c\<lparr> unsuccess_octets := unsuccess_octets c + length (concat (map UnsuccessSme_octets us)),
       unsuccess := unsuccess c @ us \<rparr> \<and>
     drop (unsuccess_octets c) p =
       concat (map UnsuccessSme_octets us) @ drop (unsuccess_octets c') p"
  using assms
proof (induction n arbitrary: c)
  case (Suc n)
  obtain u where u: "UnsuccessSme_decode (drop (unsuccess_octets c) p)
      (minus_Uint32 len (unsuccess_octets c)) = Inr u"
    and l: "UnsuccessSmeColl_loop p len n (c\<lparr> unsuccess_octets := unsuccess_octets c +
         UnsuccessSme_length u, unsuccess := unsuccess c @ [u] \<rparr>) = Inr c'"
    using Suc.prems by (auto simp: bind_eq_Inr Let_def add_UnsuccessSme_def split: if_splits)
  from Suc.IH [OF l] Suc.prems(2) obtain us where "length us = n" "list_all UnsuccessSme_ok us"
    "c' = c\<lparr> unsuccess_octets := unsuccess_octets c + UnsuccessSme_length u +
       length (concat (map UnsuccessSme_octets us)), unsuccess := unsuccess c @ u # us \<rparr>"
    "drop (unsuccess_octets c + UnsuccessSme_length u) p =
       concat (map UnsuccessSme_octets us) @ drop (unsuccess_octets c') p"
    by auto
  with UnsuccessSme_decode_InrD [OF u] show ?case
    by (intro exI [of _ "u # us"])
      (auto simp: length_UnsuccessSme_octets add.assoc add.commute [of "UnsuccessSme_length u"])
qed simp

lemma UnsuccessSmeColl_decode_append:
  assumes "UnsuccessSmeColl_ok c" and "length (UnsuccessSmeColl_octets c) \<le> len"
  shows "UnsuccessSmeColl_decode UnsuccessSmeColl_default (UnsuccessSmeColl_octets c @ rest) len = Inr c"
proof -
  let ?c = "UnsuccessSmeColl_default\<lparr> unsuccess_octets := 1 \<rparr>"
  let ?p = "UnsuccessSmeColl_octets c @ rest"
  have "UnsuccessSmeColl_loop ?p len (length (unsuccess c)) ?c = Inr (?c\<lparr>
      unsuccess_octets := unsuccess_octets ?c +
        length (concat (map UnsuccessSme_octets (unsuccess c))),
      unsuccess := unsuccess ?c @ unsuccess c \<rparr>)"
    by (rule UnsuccessSmeColl_loop_octets) (use assms in \<open>auto simp: UnsuccessSmeColl_octets_def
        UnsuccessSmeColl_ok_def UnsuccessSmeColl_default_def\<close>)
  moreover have "?c\<lparr> unsuccess_octets := unsuccess_octets ?c +
        length (concat (map UnsuccessSme_octets (unsuccess c))),
      unsuccess := unsuccess ?c @ unsuccess c \<rparr> = c"
    using assms(1) by (cases c)
      (simp add: UnsuccessSmeColl_default_def UnsuccessSmeColl_ok_def UnsuccessSmeColl_octets_def)
  moreover have "length (unsuccess c) = unat (UnsuccessSmeColl_size c)"
    using assms(1) by (simp add: UnsuccessSmeColl_size_def UnsuccessSmeColl_ok_def unat_of_nat_octet)
  moreover have "\<not> len < 1"
    using assms(2) by (simp add: UnsuccessSmeColl_octets_def)
  ultimately show ?thesis
    by (simp add: UnsuccessSmeColl_decode_def UnsuccessSmeColl_octets_def UnsuccessSmeColl_default_def)
qed

lemma UnsuccessSmeColl_decodeD:
  assumes "UnsuccessSmeColl_decode UnsuccessSmeColl_default p len = Inr c"
  shows "UnsuccessSmeColl_ok c \<and> p = UnsuccessSmeColl_octets c @ drop (unsuccess_octets c) p"
proof -
  obtain cnt where p: "p = cnt # drop 1 p"
    and l: "UnsuccessSmeColl_loop p len (unat cnt)
       (UnsuccessSmeColl_default\<lparr> unsuccess_octets := 1 \<rparr>) = Inr c"
    using assms by (auto simp: UnsuccessSmeColl_decode_def bind_eq_Inr
        UnsuccessSmeColl_default_def dest: get_octet_InrD split: if_splits)
  from UnsuccessSmeColl_loopD [OF l] unat_octet_le [of cnt]
  obtain us where "length us = unat cnt" "list_all UnsuccessSme_ok us" "unsuccess c = us"
    "unsuccess_octets c = 1 + length (concat (map UnsuccessSme_octets us))"
    "drop 1 p = concat (map UnsuccessSme_octets us) @ drop (unsuccess_octets c) p"
    by (auto simp: UnsuccessSmeColl_default_def)
  with p show ?thesis
    by (auto simp: UnsuccessSmeColl_ok_def UnsuccessSmeColl_octets_def UnsuccessSmeColl_size_def
        unat_octet_le)
qed

abbreviation get_unsuccess ::
  "octets \<Rightarrow> nat \<Rightarrow> string \<Rightarrow> nat \<Rightarrow> (UnsuccessSmeColl \<times> nat) result" where
  "get_unsuccess \<equiv> get_UnsuccessSmeColl UnsuccessSmeColl_default"

interpretation unsuccess_list: checked_field UnsuccessSmeColl_octets UnsuccessSmeColl_ok get_unsuccess
  by unfold_locales
    (auto simp: get_UnsuccessSmeColl_def UnsuccessSmeColl_decode_append bind_eq_Inr Let_def
      UnsuccessSmeColl_ok_def dest!: UnsuccessSmeColl_decodeD split: if_splits)

text \<open>
  The destinations at any place where at least three octets are left, as in submit_multi, whose
  destinations are never the last parameter.
\<close>

lemmas [field_simps_read] = unsuccess_list.get_octs destinations_get_octs
lemmas [step_elim] = unsuccess_list.step_le destinations_get.step

declare length_SmeAddress [simp del]

end
