(* ===== verification/Pdu_Header.thy ===== *)
theory Pdu_Header
  imports Address_Lists
begin

text \<open>
  The part every PDU shares (\<open>header.hpp\<close>, \<open>header.cpp\<close>, \<open>tlv.hpp\<close>, \<open>sequence_number.hpp\<close>,
  \<open>command_length.hpp\<close>, \<open>command_id.hpp\<close>): the four header words, the list of optional parameters
  (TLVs), the operations that insert, find and remove TLVs and keep \<open>command_length\<close> up to
  date, and the encoder and decoder of header and TLVs.

  The class \<open>Header\<close> is an extensible record, so that a PDU class derived from it is a record that
  extends it and inherits its operations.
\<close>

section \<open>Sequence numbers\<close>

definition SequenceNumber_Min :: uint32 where "SequenceNumber_Min = 0"
definition SequenceNumber_Max :: uint32 where "SequenceNumber_Max = 0x7fffffff"

definition SequenceNumber_assign :: "uint32 \<Rightarrow> bool \<Rightarrow> uint32 result" where
  "SequenceNumber_assign p allow_0 =
     (if p \<le> SequenceNumber_Max \<and> p > 0 \<or> p = 0 \<and> allow_0 then Inr p
      else Inl (Error ''Invalid sequence number''))"

definition SequenceNumber_valid :: "uint32 \<Rightarrow> bool" where
  "SequenceNumber_valid v \<longleftrightarrow> v \<le> SequenceNumber_Max \<and> v \<ge> SequenceNumber_Min"

definition SequenceNumber_incr :: "uint32 \<Rightarrow> uint32" where
  "SequenceNumber_incr v = (if v = SequenceNumber_Max then SequenceNumber_Min else v + 1)"

lemma SequenceNumber_assign_allow_0:
  "SequenceNumber_assign p True = (if SequenceNumber_valid p then Inr p
     else Inl (Error ''Invalid sequence number''))"
  by (auto simp: SequenceNumber_assign_def SequenceNumber_valid_def SequenceNumber_Min_def
      SequenceNumber_Max_def word_neq_0_conv)

lemma SequenceNumber_incr_valid:
  assumes "SequenceNumber_valid v"
  shows "SequenceNumber_valid (SequenceNumber_incr v)"
proof (cases "v = SequenceNumber_Max")
  case False
  then have "v < SequenceNumber_Max"
    using assms by (auto simp: SequenceNumber_valid_def intro: le_neq_trans)
  then have "v + 1 \<le> SequenceNumber_Max"
    by (rule inc_le)
  with False show ?thesis
    by (simp add: SequenceNumber_incr_def SequenceNumber_valid_def SequenceNumber_Min_def)
qed (simp add: SequenceNumber_incr_def SequenceNumber_valid_def SequenceNumber_Min_def)

text \<open>Counting up from the minimum passes through every valid number before it wraps.\<close>

lemma SequenceNumber_incr_pow:
  "n < 2 ^ 31 \<Longrightarrow> (SequenceNumber_incr ^^ n) SequenceNumber_Min = of_nat n"
proof (induction n)
  case (Suc n)
  have "unat (of_nat n :: uint32) = n"
    using Suc.prems by (simp add: unat_of_nat take_bit_nat_eq_self)
  then have "of_nat n \<noteq> SequenceNumber_Max"
    using Suc.prems by (auto simp: SequenceNumber_Max_def)
  with Suc show ?case
    by (simp add: SequenceNumber_incr_def add.commute)
qed (simp add: SequenceNumber_Min_def)

section \<open>Optional parameters\<close>

record Tlv =
  tag :: uint16
  tlv_length :: uint16
  tlv_value :: octets

text \<open>The constructor copies as many octets as the length says.\<close>

definition new_Tlv :: "uint16 \<Rightarrow> uint16 \<Rightarrow> octets \<Rightarrow> Tlv result" where
  "new_Tlv t l v = (if unat l \<le> length v
     then Inr \<lparr> tag = t, tlv_length = l, tlv_value = take (unat l) v \<rparr> else Inl OutOfBounds)"

definition Tlv_encode :: "Tlv \<Rightarrow> Buffer \<Rightarrow> Buffer result" where
  "Tlv_encode tlv = Buffer_run
     [put_Uint16 (hton16 False (tag tlv)),
      put_Uint16 (hton16 False (tlv_length tlv)),
      add_octet_array (tlv_length tlv) (tlv_value tlv)]"

definition BroadcastAreaIdentifier :: "octet \<Rightarrow> octets \<Rightarrow> uint16 \<Rightarrow> Tlv result" where
  "BroadcastAreaIdentifier format details length' = (if unat length' \<le> length details
     then Inr \<lparr> tag = 0x0606, tlv_length = length' + 1,
                tlv_value = format # take (unat length') details \<rparr>
     else Inl OutOfBounds)"

definition BroadcastContentType :: "octet \<Rightarrow> uint16 \<Rightarrow> Tlv" where
  "BroadcastContentType typeTag type =
     \<lparr> tag = 0x0601, tlv_length = 3, tlv_value = typeTag # wire16 type \<rparr>"

definition BroadcastFrequencyInterval :: "octet \<Rightarrow> uint16 \<Rightarrow> Tlv" where
  "BroadcastFrequencyInterval type units =
     \<lparr> tag = 0x0605, tlv_length = 3, tlv_value = type # wire16 units \<rparr>"

definition BroadcastAreaSuccess :: "octet \<Rightarrow> Tlv" where
  "BroadcastAreaSuccess sRate = \<lparr> tag = 0x0608, tlv_length = 1, tlv_value = [sRate] \<rparr>"

definition Tlv_ok :: "Tlv \<Rightarrow> bool" where
  "Tlv_ok t \<longleftrightarrow> length (tlv_value t) = unat (tlv_length t)"

definition Tlv_octets :: "Tlv \<Rightarrow> octets" where
  "Tlv_octets t = wire16 (tag t) @ wire16 (tlv_length t) @ tlv_value t"

definition tlvs_octets :: "Tlv list \<Rightarrow> octets" where
  "tlvs_octets ts = concat (map Tlv_octets ts)"

lemma tlvs_octets_simps [simp]:
  "tlvs_octets [] = []"
  "tlvs_octets (t # ts) = Tlv_octets t @ tlvs_octets ts"
  "tlvs_octets (ts @ us) = tlvs_octets ts @ tlvs_octets us"
  by (simp_all add: tlvs_octets_def)

lemma length_Tlv_octets [simp]: "Tlv_ok t \<Longrightarrow> length (Tlv_octets t) = 4 + unat (tlv_length t)"
  by (simp add: Tlv_octets_def Tlv_ok_def)

lemma Tlv_InrD: "new_Tlv t l v = Inr x \<Longrightarrow> Tlv_ok x \<and> tag x = t \<and> tlv_length x = l \<and> tlv_value x = take (unat l) v"
  by (auto simp: new_Tlv_def Tlv_ok_def split: if_splits)

lemma Tlv_append [simp]: "Tlv_ok t \<Longrightarrow> new_Tlv (tag t) (tlv_length t) (tlv_value t @ rest) = Inr t"
  by (cases t) (simp add: new_Tlv_def Tlv_ok_def)

lemma broadcast_Tlv_ok [simp]:
  "Tlv_ok (BroadcastContentType x n)" "Tlv_ok (BroadcastFrequencyInterval x n)"
  "Tlv_ok (BroadcastAreaSuccess x)"
  by (simp_all add: Tlv_ok_def BroadcastContentType_def BroadcastFrequencyInterval_def
      BroadcastAreaSuccess_def)

section \<open>The header\<close>

record Header =
  command_length :: uint32
  command_id :: uint32
  command_status :: uint32
  sequence_number :: uint32
  tlv_list :: "Tlv list"

text \<open>
  \<open>update_length\<close> adds an \<open>int\<close> to the unsigned length: both are words of 32 bits, and the
  difference of two sizes is the difference of the words.
\<close>

definition update_length :: "32 word \<Rightarrow> 'a Header_scheme \<Rightarrow> 'a Header_scheme" where
  "update_length p h = h\<lparr> command_length := command_length h + p \<rparr>"

definition diff :: "octets \<Rightarrow> octets \<Rightarrow> 32 word" where
  "diff new old = of_nat (length new) - of_nat (length old)"

definition Header_encode :: "'a Header_scheme \<Rightarrow> Buffer \<Rightarrow> Buffer result" where
  "Header_encode h = Buffer_run
     [put_Uint32 (hton32 False (command_length h)),
      put_Uint32 (hton32 False (command_id h)),
      put_Uint32 (hton32 False (command_status h)),
      put_Uint32 (hton32 False (sequence_number h))]"

definition Header_decode :: "'a Header_scheme \<Rightarrow> octets \<Rightarrow> 'a Header_scheme result" where
  "Header_decode h buff =
     bind (get_wire32 buff) (\<lambda>l.
     bind (get_wire32 (drop 4 buff)) (\<lambda>i.
     bind (get_wire32 (drop 8 buff)) (\<lambda>s.
     bind (get_wire32 (drop 12 buff)) (\<lambda>n.
     Inr (h\<lparr> command_length := l, command_id := i, command_status := s, sequence_number := n \<rparr>)))))"

definition encode_tlvs :: "'a Header_scheme \<Rightarrow> Buffer \<Rightarrow> Buffer result" where
  "encode_tlvs h = Buffer_run (map Tlv_encode (tlv_list h))"

fun decode_tlvs_loop :: "octets \<Rightarrow> nat \<Rightarrow> Tlv list \<Rightarrow> Tlv list result" where
  "decode_tlvs_loop b len l =
     (if len = 0 then Inr l
      else if len < 4 then Inl (Error ''Invalid command_length'')
      else bind (get_wire16 b) (\<lambda>tag'.
           bind (get_wire16 (drop 2 b)) (\<lambda>length'.
           if len - 4 < unat length' then Inl (Error ''Invalid command_length'')
           else bind (new_Tlv tag' length' (drop 4 b)) (\<lambda>t.
                decode_tlvs_loop (drop (4 + unat length') b) (len - 4 - unat length') (l @ [t])))))"

declare decode_tlvs_loop.simps [simp del]

definition decode_tlvs :: "octets \<Rightarrow> nat \<Rightarrow> 'a Header_scheme \<Rightarrow> 'a Header_scheme result" where
  "decode_tlvs b len h = bind (decode_tlvs_loop b len (tlv_list h)) (\<lambda>l. Inr (h\<lparr> tlv_list := l \<rparr>))"

definition set_sequence_number :: "uint32 \<Rightarrow> bool \<Rightarrow> 'a Header_scheme \<Rightarrow> 'a Header_scheme result" where
  "set_sequence_number p allow_0 h =
     bind (SequenceNumber_assign p allow_0) (\<lambda>n. Inr (h\<lparr> sequence_number := n \<rparr>))"

definition insert_tlv :: "Tlv \<Rightarrow> 'a Header_scheme \<Rightarrow> 'a Header_scheme" where
  "insert_tlv tlv h = update_length (of_nat (unat (tlv_length tlv) + 4))
     (h\<lparr> tlv_list := tlv_list h @ [tlv] \<rparr>)"

definition insert_8bit_tlv :: "uint16 \<Rightarrow> octet \<Rightarrow> 'a Header_scheme \<Rightarrow> 'a Header_scheme result" where
  "insert_8bit_tlv t v h = bind (new_Tlv t 1 [v]) (\<lambda>x. Inr (insert_tlv x h))"

definition insert_16bit_tlv :: "uint16 \<Rightarrow> uint16 \<Rightarrow> 'a Header_scheme \<Rightarrow> 'a Header_scheme result" where
  "insert_16bit_tlv t v h =
     bind (new_Tlv t 2 (host_octets16 False (hton16 False v))) (\<lambda>x. Inr (insert_tlv x h))"

definition insert_32bit_tlv :: "uint16 \<Rightarrow> uint32 \<Rightarrow> 'a Header_scheme \<Rightarrow> 'a Header_scheme result" where
  "insert_32bit_tlv t v h =
     bind (new_Tlv t 4 (host_octets32 False (hton32 False v))) (\<lambda>x. Inr (insert_tlv x h))"

text \<open>The length of a string TLV counts the terminator and is cut to 16 bits.\<close>

definition insert_string_tlv :: "uint16 \<Rightarrow> octets \<Rightarrow> 'a Header_scheme \<Rightarrow> 'a Header_scheme result" where
  "insert_string_tlv t v h =
     bind (new_Tlv t (of_nat (length v + 1)) (v @ [0])) (\<lambda>x. Inr (insert_tlv x h))"

definition insert_array_tlv ::
  "uint16 \<Rightarrow> uint16 \<Rightarrow> octets \<Rightarrow> 'a Header_scheme \<Rightarrow> 'a Header_scheme result" where
  "insert_array_tlv t l v h = bind (new_Tlv t l v) (\<lambda>x. Inr (insert_tlv x h))"

text \<open>
  \<open>insert_before_tlv\<close> looks for the first TLV with the tag and \<open>insert_after_tlv\<close> for the last:
  the list splits before the former and after the latter.
\<close>

definition insert_before_tlv :: "Tlv \<Rightarrow> uint16 \<Rightarrow> 'a Header_scheme \<Rightarrow> 'a Header_scheme result" where
  "insert_before_tlv tlv t h = (case dropWhile (\<lambda>x. tag x \<noteq> t) (tlv_list h) of
       [] \<Rightarrow> Inl (Error ''Missing mandatory TLV'')
     | found \<Rightarrow> Inr (update_length (of_nat (unat (tlv_length tlv) + 4))
         (h\<lparr> tlv_list := takeWhile (\<lambda>x. tag x \<noteq> t) (tlv_list h) @ tlv # found \<rparr>)))"

definition insert_after_tlv :: "Tlv \<Rightarrow> uint16 \<Rightarrow> 'a Header_scheme \<Rightarrow> 'a Header_scheme result" where
  "insert_after_tlv tlv t h = (case dropWhile (\<lambda>x. tag x \<noteq> t) (rev (tlv_list h)) of
       [] \<Rightarrow> Inl (Error ''Missing mandatory TLV'')
     | found \<Rightarrow> Inr (update_length (of_nat (unat (tlv_length tlv) + 4))
         (h\<lparr> tlv_list := rev found @ tlv # rev (takeWhile (\<lambda>x. tag x \<noteq> t) (rev (tlv_list h))) \<rparr>)))"

definition find_tlv_list :: "uint16 \<Rightarrow> 'a Header_scheme \<Rightarrow> Tlv list" where
  "find_tlv_list t h = fold (\<lambda>x l. if tag x = t then l @ [x] else l) (tlv_list h) []"

definition find_tlv :: "uint16 \<Rightarrow> 'a Header_scheme \<Rightarrow> Tlv option" where
  "find_tlv t h = find (\<lambda>x. tag x = t) (tlv_list h)"

text \<open>
  The loop of \<open>remove_tlv\<close>: \<open>kept\<close> is the list up to the iterator, the second list what the
  iterator still has to visit.
\<close>

fun remove_tlv_loop :: "uint16 \<Rightarrow> Tlv list \<Rightarrow> Tlv list \<Rightarrow> 'a Header_scheme \<Rightarrow> 'a Header_scheme" where
  "remove_tlv_loop t kept [] h = h\<lparr> tlv_list := kept \<rparr>"
| "remove_tlv_loop t kept (x # xs) h = (if tag x = t
     then remove_tlv_loop t kept xs (update_length (0 - of_nat (unat (tlv_length x) + 4)) h)
     else remove_tlv_loop t (kept @ [x]) xs h)"

definition remove_tlv :: "uint16 \<Rightarrow> 'a Header_scheme \<Rightarrow> 'a Header_scheme" where
  "remove_tlv t h = remove_tlv_loop t [] (tlv_list h) h"

text \<open>
  Assignment of one PDU to another copies the four words, but \<open>CTlvList::operator=\<close> appends the
  other list to its own.
\<close>

definition Header_assign :: "'a Header_scheme \<Rightarrow> 'b Header_scheme \<Rightarrow> 'a Header_scheme" where
  "Header_assign h g = h\<lparr> command_length := command_length g, command_id := command_id g,
     command_status := command_status g, sequence_number := sequence_number g,
     tlv_list := tlv_list h @ tlv_list g \<rparr>"

end
