(* ===== verification/Pdu_Frame.thy ===== *)
theory Pdu_Frame
  imports Pdu_Header "HOL-Library.Multiset"
begin

text \<open>
  What holds of every PDU: \<open>frame_ok\<close>, the invariant that ties \<open>command_length\<close> to the octets of
  body and TLVs, is kept by the operations of the header; under it the encoder fills its
  buffer exactly; the TLV decoder inverts the TLV encoder; and the locale \<open>pdu_codec\<close>, the
  contract of an encoder and a decoder, with what follows from it.
\<close>

section \<open>The length invariant\<close>

definition pdu_size :: "'a Header_scheme \<Rightarrow> nat \<Rightarrow> nat" where
  "pdu_size h n = 16 + n + length (tlvs_octets (tlv_list h))"

definition frame_ok :: "'a Header_scheme \<Rightarrow> nat \<Rightarrow> bool" where
  "frame_ok h n \<longleftrightarrow> command_length h = of_nat (pdu_size h n) \<and> list_all Tlv_ok (tlv_list h)"

named_theorems frame_simps "which fields the header operations leave alone"

lemma update_length_simps [simp, frame_simps]:
  "command_length (update_length d h) = command_length h + d"
  "command_id (update_length d h) = command_id h"
  "command_status (update_length d h) = command_status h"
  "sequence_number (update_length d h) = sequence_number h"
  "tlv_list (update_length d h) = tlv_list h"
  "Header.more (update_length d h) = Header.more h"
  by (simp_all add: update_length_def)

lemma pdu_size_update_length [simp]: "pdu_size (update_length d h) n = pdu_size h n"
  by (simp add: pdu_size_def)

text \<open>A setter changes a body of \<open>n\<close> octets into one of \<open>n'\<close> and adds the difference.\<close>

lemma frame_ok_update_length:
  assumes "frame_ok h n" and "n' + length old = n + length new"
  shows "frame_ok (update_length (diff new old) h) n'"
proof -
  have "of_nat n' + of_nat (length old) = (of_nat n + of_nat (length new) :: 32 word)"
    using assms(2) by (metis of_nat_add)
  then have "of_nat n' = (of_nat n + of_nat (length new) - of_nat (length old) :: 32 word)"
    by (simp add: eq_diff_eq)
  then show ?thesis
    using assms(1) by (simp add: frame_ok_def pdu_size_def diff_def)
qed

lemma frame_ok_grow:
  assumes "frame_ok h n"
  shows "frame_ok (update_length (of_nat k) h) (n + k)"
  using assms by (simp add: frame_ok_def pdu_size_def)

lemma frame_ok_insert:
  assumes "frame_ok h n" and "Tlv_ok t" and "mset ts = add_mset t (mset (tlv_list h))"
  shows "frame_ok (update_length (ucast (tlv_length t) + 4) (h\<lparr> tlv_list := ts \<rparr>)) n"
proof -
  have len: "length (tlvs_octets us) = (\<Sum>u\<in>#mset us. length (Tlv_octets u))" for us
    by (induction us) auto
  have "length (tlvs_octets ts) = length (tlvs_octets (tlv_list h)) + (4 + unat (tlv_length t))"
    using assms(2,3) by (simp add: len)
  moreover have "set ts = insert t (set (tlv_list h))"
    by (metis assms(3) set_mset_add_mset_insert set_mset_mset)
  ultimately show ?thesis
    using assms(1,2) by (simp add: frame_ok_def pdu_size_def list_all_iff)
qed

lemma frame_ok_insert_tlv:
  "frame_ok h n \<Longrightarrow> Tlv_ok t \<Longrightarrow> frame_ok (insert_tlv t h) n"
  using frame_ok_insert [of h n t "tlv_list h @ [t]"] by (simp add: insert_tlv_def)

lemma mset_split_dropWhile:
  "dropWhile P xs = y # ys \<Longrightarrow>
     mset (takeWhile P xs) + add_mset y (mset ys) = mset xs"
  by (metis mset.simps(2) mset_append takeWhile_dropWhile_id)

lemma frame_ok_insert_before_tlv:
  "frame_ok h n \<Longrightarrow> Tlv_ok t \<Longrightarrow> insert_before_tlv t g h = Inr h' \<Longrightarrow> frame_ok h' n"
  by (auto simp: insert_before_tlv_def dest!: mset_split_dropWhile split: list.splits
      intro!: frame_ok_insert)

lemma frame_ok_insert_after_tlv:
  "frame_ok h n \<Longrightarrow> Tlv_ok t \<Longrightarrow> insert_after_tlv t g h = Inr h' \<Longrightarrow> frame_ok h' n"
  by (auto simp: insert_after_tlv_def dest!: mset_split_dropWhile split: list.splits
      intro!: frame_ok_insert simp: add.commute)

lemma remove_tlv_loop:
  "frame_ok (h\<lparr> tlv_list := kept @ xs \<rparr>) n \<Longrightarrow>
     remove_tlv_loop t kept xs h =
       h\<lparr> command_length := command_length (remove_tlv_loop t kept xs h),
         tlv_list := kept @ filter (\<lambda>x. tag x \<noteq> t) xs \<rparr> \<and>
     frame_ok (remove_tlv_loop t kept xs h) n"
proof (induction t kept xs h rule: remove_tlv_loop.induct)
  case (2 t kept x xs h)
  show ?case
  proof (cases "tag x = t")
    case True
    have "frame_ok ((update_length (0 - of_nat (unat (tlv_length x) + 4)) h)\<lparr> tlv_list := kept @ xs \<rparr>) n"
      using 2(3) by (simp add: frame_ok_def pdu_size_def algebra_simps)
    from 2(1) [OF True this] True show ?thesis
      by (simp add: update_length_def)
  next
    case False
    with 2(2) 2(3) show ?thesis by simp
  qed
qed simp

lemma remove_tlv_filter:
  assumes "frame_ok h n"
  shows "tlv_list (remove_tlv t h) = filter (\<lambda>x. tag x \<noteq> t) (tlv_list h)"
    and "frame_ok (remove_tlv t h) n"
    and "Header.more (remove_tlv t h) = Header.more h"
proof -
  have *: "remove_tlv_loop t [] (tlv_list h) h = h\<lparr> command_length := 
      command_length (remove_tlv_loop t [] (tlv_list h) h),
      tlv_list := [] @ filter (\<lambda>x. tag x \<noteq> t) (tlv_list h) \<rparr> \<and>
     frame_ok (remove_tlv_loop t [] (tlv_list h) h) n"
    by (rule remove_tlv_loop) (use assms in simp)
  show "tlv_list (remove_tlv t h) = filter (\<lambda>x. tag x \<noteq> t) (tlv_list h)"
    unfolding remove_tlv_def by (subst conjunct1 [OF *]) simp
  show "Header.more (remove_tlv t h) = Header.more h"
    unfolding remove_tlv_def by (subst conjunct1 [OF *]) simp
  show "frame_ok (remove_tlv t h) n"
    unfolding remove_tlv_def by (rule conjunct2 [OF *])
qed

lemma find_tlv_list_filter: "find_tlv_list t h = filter (\<lambda>x. tag x = t) (tlv_list h)"
proof -
  have "fold (\<lambda>x l. if tag x = t then l @ [x] else l) xs l = l @ filter (\<lambda>x. tag x = t) xs"
    for xs l :: "Tlv list"
    by (induction xs arbitrary: l) auto
  then show ?thesis by (simp add: find_tlv_list_def)
qed

lemma find_remove_tlv:
  "frame_ok h n \<Longrightarrow> find_tlv s (remove_tlv t h) = (if s = t then None else find_tlv s h)"
proof -
  assume h: "frame_ok h n"
  have "find (\<lambda>x. tag x = s) (filter (\<lambda>x. tag x \<noteq> t) xs) =
      (if s = t then None else find (\<lambda>x. tag x = s) xs)" for xs :: "Tlv list"
    by (induction xs) auto
  then show ?thesis by (simp add: find_tlv_def remove_tlv_filter(1) [OF h])
qed

lemma find_insert_tlv:
  "find_tlv s (insert_tlv t h) = (case find_tlv s h of
     Some x \<Rightarrow> Some x | None \<Rightarrow> if tag t = s then Some t else None)"
proof -
  have "find P (xs @ [t]) = (case find P xs of Some x \<Rightarrow> Some x | None \<Rightarrow>
      if P t then Some t else None)" for P xs
    by (induction xs) auto
  then show ?thesis by (simp add: find_tlv_def insert_tlv_def)
qed

section \<open>Encoding\<close>

definition header_octets :: "'a Header_scheme \<Rightarrow> octets" where
  "header_octets h = wire32 (command_length h) @ wire32 (command_id h) @
     wire32 (command_status h) @ wire32 (sequence_number h)"

definition pdu_octets :: "'a Header_scheme \<Rightarrow> octets \<Rightarrow> octets" where
  "pdu_octets h body = header_octets h @ body @ tlvs_octets (tlv_list h)"

lemma length_header_octets [simp]: "length (header_octets h) = 16"
  by (simp add: header_octets_def)

lemma length_pdu_octets [simp]: "length (pdu_octets h body) = pdu_size h (length body)"
  by (simp add: pdu_octets_def pdu_size_def)

lemma writes_Header [writes_intro]: "writes (Header_encode h) (header_octets h)"
proof -
  have "writes (Header_encode h) (wire32 (command_length h) @ wire32 (command_id h) @
      wire32 (command_status h) @ wire32 (sequence_number h) @ [])"
    unfolding Header_encode_def by (intro writes_intro)
  then show ?thesis by (simp add: header_octets_def)
qed

lemma writes_Tlv: "Tlv_ok t \<Longrightarrow> writes (Tlv_encode t) (Tlv_octets t)"
proof -
  assume "Tlv_ok t"
  then have "writes (Tlv_encode t) (wire16 (tag t) @ wire16 (tlv_length t) @ tlv_value t @ [])"
    unfolding Tlv_encode_def Tlv_ok_def by (intro writes_intro)
  then show ?thesis by (simp add: Tlv_octets_def)
qed

lemma writes_tlvs [writes_intro]:
  "list_all Tlv_ok (tlv_list h) \<Longrightarrow> writes (encode_tlvs h) (tlvs_octets (tlv_list h))"
  unfolding encode_tlvs_def tlvs_octets_def
  by (rule writes_run_map) (auto simp: list_all_iff intro: writes_Tlv)

lemma frame_fill:
  assumes "writes f (pdu_octets h body)" and "frame_ok h (length body)"
    and "pdu_size h (length body) < 2 ^ 32"
  shows "f (Buffer_reset (command_length h)) =
     Inr \<lparr> capacity = pdu_size h (length body), data = pdu_octets h body \<rparr>"
proof -
  have "unat (command_length h) = pdu_size h (length body)"
    using assms(2,3) by (simp add: frame_ok_def unat_of_nat take_bit_nat_eq_self)
  with writes_fill [OF assms(1), of "command_length h"] show ?thesis by simp
qed

section \<open>Decoding\<close>

lemma Tlv_octets_not_Nil [simp]: "Tlv_octets t \<noteq> []"
  by (metis Tlv_octets_def append_is_Nil_conv length_wire(2) list.size(3) zero_neq_numeral)

lemma decode_tlvs_loop_octets:
  "list_all Tlv_ok ts \<Longrightarrow>
     decode_tlvs_loop (tlvs_octets ts @ rest) (length (tlvs_octets ts)) l = Inr (l @ ts)"
proof (induction ts arbitrary: l)
  case (Cons t ts)
  let ?b = "tlvs_octets (t # ts) @ rest"
  have b: "?b = wire16 (tag t) @ wire16 (tlv_length t) @ tlv_value t @ tlvs_octets ts @ rest"
    by (simp add: Tlv_octets_def)
  have "drop 2 ?b = wire16 (tlv_length t) @ tlv_value t @ tlvs_octets ts @ rest"
    and "drop 4 ?b = tlv_value t @ tlvs_octets ts @ rest"
    unfolding b by simp_all
  moreover have "drop (4 + unat (tlv_length t)) ?b = tlvs_octets ts @ rest"
    using Cons.prems by simp
  moreover have "get_wire16 ?b = Inr (tag t)"
    unfolding b by simp
  ultimately show ?case
    using Cons by (subst decode_tlvs_loop.simps) (simp del: tlvs_octets_simps, simp)
qed (simp add: decode_tlvs_loop.simps)

lemma decode_tlvs_loopD:
  "decode_tlvs_loop b len l = Inr l' \<Longrightarrow>
     \<exists>ts. l' = l @ ts \<and> list_all Tlv_ok ts \<and> length (tlvs_octets ts) = len \<and>
       b = tlvs_octets ts @ drop len b"
proof (induction b len l rule: decode_tlvs_loop.induct)
  case (1 b len l)
  show ?case
  proof (cases "len = 0")
    case True
    with 1(2) show ?thesis by (simp add: decode_tlvs_loop.simps)
  next
    case False
    with 1(2) obtain t n x where len: "\<not> len < 4" and t: "get_wire16 b = Inr t"
      and n: "get_wire16 (drop 2 b) = Inr n" and le: "\<not> len - 4 < unat n"
      and x: "new_Tlv t n (drop 4 b) = Inr x"
      and rec: "decode_tlvs_loop (drop (4 + unat n) b) (len - 4 - unat n) (l @ [x]) = Inr l'"
      by (subst (asm) decode_tlvs_loop.simps) (auto simp: bind_eq_Inr split: if_splits)
    from 1(1) [OF False len le rec] obtain ts where
      ts: "l' = (l @ [x]) @ ts" "list_all Tlv_ok ts" "length (tlvs_octets ts) = len - 4 - unat n"
        "drop (4 + unat n) b = tlvs_octets ts @ drop (len - 4 - unat n) (drop (4 + unat n) b)"
      by blast
    have "unat n \<le> length (drop 4 b)"
      using x by (simp add: new_Tlv_def split: if_splits)
    then have "b = wire16 t @ wire16 n @ take (unat n) (drop 4 b) @ drop (4 + unat n) b"
      using get_wire16_InrD [OF t] get_wire16_InrD [OF n]
      by (metis append_take_drop_id drop_drop add.commute numeral_Bit0)
    moreover have "length (Tlv_octets x) = 4 + unat n"
      using Tlv_InrD [OF x] by auto
    ultimately show ?thesis
      using Tlv_InrD [OF x] ts len le
      by (intro exI [of _ "x # ts"]) (auto simp: Tlv_octets_def)
  qed
qed

lemma Header_decode_append:
  "Header_decode h (header_octets g @ rest) = Inr (h\<lparr> command_length := command_length g,
     command_id := command_id g, command_status := command_status g,
     sequence_number := sequence_number g \<rparr>)"
  by (simp add: Header_decode_def header_octets_def)

lemma Header_decode_InrD:
  assumes "Header_decode h b = Inr g"
  shows "b = header_octets g @ drop 16 b \<and> g = h\<lparr> command_length := command_length g,
     command_id := command_id g, command_status := command_status g,
     sequence_number := sequence_number g \<rparr>"
proof -
  obtain l i s n where *: "get_wire32 b = Inr l" "get_wire32 (drop 4 b) = Inr i"
    "get_wire32 (drop 8 b) = Inr s" "get_wire32 (drop 12 b) = Inr n"
    and g: "g = h\<lparr> command_length := l, command_id := i, command_status := s, sequence_number := n \<rparr>"
    using assms by (auto simp: Header_decode_def bind_eq_Inr)
  have "b = wire32 l @ wire32 i @ wire32 s @ wire32 n @ drop 16 b"
    using *(1-4) [THEN get_wire32_InrD] by simp
  with g show ?thesis by (simp add: header_octets_def)
qed

text \<open>
  The octets of a PDU from the readings of its parts: the body takes the array from offset 16
  to \<open>off\<close>, and the TLVs the rest up to the length.
\<close>

lemma pdu_octets_take:
  assumes h: "Header_decode p b = Inr g" and body: "drop 16 b = body @ drop off b"
    and off: "off = 16 + length body" "off \<le> unat (command_length g)"
    and tl: "decode_tlvs_loop (drop off b) (unat (command_length g) - off) [] = Inr ts"
    and q: "command_length q = command_length g" "command_id q = command_id g"
      "command_status q = command_status g" "sequence_number q = sequence_number g" "tlv_list q = ts"
  shows "pdu_octets q body = take (unat (command_length q)) b \<and>
    unat (command_length q) = pdu_size q (length body) \<and>
    frame_ok q (length body) \<and> pdu_size q (length body) < 2 ^ 32 \<and> unat (command_length q) \<le> length b"
proof -
  obtain len where len: "unat (command_length g) = off + len"
    using off(2) le_Suc_ex by blast
  have ts: "list_all Tlv_ok ts" "length (tlvs_octets ts) = len"
    "drop off b = tlvs_octets ts @ drop len (drop off b)"
    using decode_tlvs_loopD [OF tl] len by auto
  have "header_octets q = header_octets g"
    using q by (simp add: header_octets_def)
  then have b: "b = pdu_octets q body @ drop (len + off) b"
    using Header_decode_InrD [OF h] body ts(3) q(5) by (simp add: pdu_octets_def)
  moreover have n: "length (pdu_octets q body) = unat (command_length q)"
    using off(1) ts(2) q(1,5) len by (simp add: pdu_size_def)
  ultimately have "pdu_octets q body = take (unat (command_length q)) b"
    by (metis append_eq_conv_conj)
  moreover have "unat (command_length q) \<le> length b"
    using n b by (metis length_append le_add1)
  moreover have "frame_ok q (length body)"
    using n ts(1) q(5) by (metis frame_ok_def length_pdu_octets of_nat_unat ucast_id)
  moreover have "pdu_size q (length body) < 2 ^ 32"
    using n unsigned_less [of "command_length q", where ?'a = nat] by simp
  moreover have "unat (command_length q) = pdu_size q (length body)"
    using n by (metis length_pdu_octets)
  ultimately show ?thesis by blast
qed

end
