(* ===== verification/Pdu_Codec.thy ===== *)
theory Pdu_Codec
  imports Pdu_Frame
begin

text \<open>
  The encoder and the decoder that every PDU class shares, and their contract.

  In the source each class repeats the same prologue and epilogue around its own parameters:
  \<open>encode\<close> resets the buffer to \<open>command_length\<close>, writes the header, the parameters and the TLVs;
  \<open>decode\<close> reads the header, checks that the length covers it, reads the parameters from offset 16
  on and gives what is left to \<open>decode_tlvs\<close>. \<open>encode_frame\<close> and \<open>decode_frame\<close> are these two,
  with the parameters' own part as argument.

  The locale \<open>pdu_codec\<close> says what users of a PDU class rely on; the locale \<open>pdu_body\<close> says
  what a class has to provide for its own part, and is shown to be enough for the former.
\<close>

section \<open>The shared encoder and decoder\<close>

definition encode_frame ::
  "('a Header_scheme \<Rightarrow> (Buffer \<Rightarrow> Buffer result) list) \<Rightarrow> 'a Header_scheme \<Rightarrow> Buffer result" where
  "encode_frame puts p =
     Buffer_run (Header_encode p # puts p @ [encode_tlvs p]) (Buffer_reset (command_length p))"

definition decode_frame ::
  "string \<Rightarrow> ('a Header_scheme \<Rightarrow> octets \<Rightarrow> nat \<Rightarrow> string \<Rightarrow> ('a Header_scheme \<times> nat) result) \<Rightarrow>
     'a Header_scheme \<Rightarrow> octets \<Rightarrow> 'a Header_scheme result" where
  "decode_frame err body p buff =
     bind (Header_decode p buff) (\<lambda>p.
     let len = unat (command_length p) in
     if len < 16 then Inl (Error err) else
     bind2 (body p buff len err) (\<lambda>p offset.
     decode_tlvs (drop offset buff) (minus_Uint32 len offset) p))"

section \<open>What users rely on\<close>

locale pdu_codec =
  fixes encode :: "'p \<Rightarrow> Buffer result"
    and decode :: "octets \<Rightarrow> 'p result"
    and octs :: "'p \<Rightarrow> octets"
    and ok :: "'p \<Rightarrow> bool"
  assumes encode_octs: "ok p \<Longrightarrow> encode p = Inr \<lparr> capacity = length (octs p), data = octs p \<rparr>"
    and decode_octs: "ok p \<Longrightarrow> decode (octs p @ rest) = Inr p"
    and octs_decode: "decode b = Inr p \<Longrightarrow> ok p \<and> octs p = take (length (octs p)) b"
    and length_word: "ok p \<Longrightarrow>
      length (octs p) < 2 ^ 32 \<and> get_wire32 (octs p @ rest) = Inr (of_nat (length (octs p)))"
begin

lemma round_trip:
  assumes "ok p"
  shows "\<exists>buf. encode p = Inr buf \<and> offset buf = capacity buf \<and> decode (data buf @ rest) = Inr p"
  using encode_octs [OF assms] decode_octs [OF assms] by simp

lemma decode_iff: "decode b = Inr p \<longleftrightarrow> ok p \<and> (\<exists>rest. b = octs p @ rest)"
proof
  assume "decode b = Inr p"
  from octs_decode [OF this] show "ok p \<and> (\<exists>rest. b = octs p @ rest)"
    by (metis append_take_drop_id)
qed (auto simp: decode_octs)

lemma reencode:
  assumes "decode b = Inr p"
  shows "\<exists>n \<le> length b. encode p = Inr \<lparr> capacity = n, data = take n b \<rparr>"
proof -
  obtain rest where "ok p" and b: "b = octs p @ rest"
    using assms decode_iff by blast
  have "encode p = Inr \<lparr> capacity = length (octs p), data = take (length (octs p)) b \<rparr>"
    using encode_octs [OF \<open>ok p\<close>] b by simp
  moreover have "length (octs p) \<le> length b"
    using b by simp
  ultimately show ?thesis by blast
qed

lemma encode_inj: "ok p \<Longrightarrow> ok q \<Longrightarrow> encode p = encode q \<Longrightarrow> p = q"
  using encode_octs decode_octs [of p "[]"] decode_octs [of q "[]"] by simp

lemma prefix_free:
  "ok p \<Longrightarrow> ok q \<Longrightarrow> octs p @ r = octs q @ s \<Longrightarrow> p = q \<and> r = s"
  using decode_octs [of p r] decode_octs [of q s] by simp

text \<open>A stream of PDUs splits in one way only.\<close>

lemma stream_unique:
  "list_all ok ps \<Longrightarrow> list_all ok qs \<Longrightarrow>
     concat (map octs ps) = concat (map octs qs) \<Longrightarrow> ps = qs"
proof (induction ps arbitrary: qs)
  case Nil
  then show ?case
  proof (cases qs)
    case (Cons q qs')
    with Nil have "get_wire32 ([] :: octets) = Inr (of_nat (length (octs q)))"
      using length_word [of q "[]"] by simp
    then show ?thesis by (simp add: get_wire32_def)
  qed simp
next
  case (Cons p ps)
  show ?case
  proof (cases qs)
    case Nil
    with Cons.prems have "get_wire32 ([] :: octets) = Inr (of_nat (length (octs p)))"
      using length_word [of p "[]"] by simp
    then show ?thesis by (simp add: get_wire32_def)
  next
    case (Cons q qs')
    with Cons.prems prefix_free [of p q] have "p = q" "concat (map octs ps) = concat (map octs qs')"
      by auto
    with Cons.IH [of qs'] Cons.prems Cons show ?thesis by simp
  qed
qed

end

section \<open>What a class provides\<close>

text \<open>
  \<open>size_ok p xs\<close>: the invariant of \<open>command_length\<close> for a body of these octets, and the whole
  PDU within the range of the 32-bit length.
\<close>

definition size_ok :: "'a Header_scheme \<Rightarrow> octets \<Rightarrow> bool" where
  "size_ok p xs \<longleftrightarrow> frame_ok p (length xs) \<and> pdu_size p (length xs) < 2 ^ 32"

text \<open>
  A class's own part: the writes of its parameters, the octets they write, the reader of the
  parameters, the values they may have, and the object that the constructor from a buffer
  decodes into. Both \<open>body\<close> and \<open>fields_ok\<close> look only at what the class adds to the header.
\<close>

locale pdu_body =
  fixes puts :: "'a Header_scheme \<Rightarrow> (Buffer \<Rightarrow> Buffer result) list"
    and read :: "'a Header_scheme \<Rightarrow> octets \<Rightarrow> nat \<Rightarrow> string \<Rightarrow> ('a Header_scheme \<times> nat) result"
    and err :: string
    and blank :: "'a Header_scheme"
    and body :: "'a Header_scheme \<Rightarrow> octets"
    and fields_ok :: "'a Header_scheme \<Rightarrow> bool"
  assumes writes_body: "writes (Buffer_run (puts p)) (body p)"
    and blank_tlvs: "tlv_list blank = []"
    and body_more: "Header.more p = Header.more q \<Longrightarrow> body p = body q"
    and fields_more: "Header.more p = Header.more q \<Longrightarrow> fields_ok p = fields_ok q"
    and read_body:
      "fields_ok p \<Longrightarrow> Header.more g = Header.more blank \<Longrightarrow> drop 16 b = body p @ rest \<Longrightarrow>
         16 + length (body p) \<le> len \<Longrightarrow>
         read g b len err = Inr (Header.more_update (\<lambda>_. Header.more p) g, 16 + length (body p))"
    and body_read:
      "read g b len err = Inr (q, off) \<Longrightarrow> Header.more g = Header.more blank \<Longrightarrow>
         16 \<le> len \<Longrightarrow>
         fields_ok q \<and> read_upto b off (body q) \<and> off \<le> len \<and> q = Header.more_update (\<lambda>_. Header.more q) g"
begin

abbreviation octs :: "'a Header_scheme \<Rightarrow> octets" where
  "octs p \<equiv> pdu_octets p (body p)"

abbreviation ok :: "'a Header_scheme \<Rightarrow> bool" where
  "ok p \<equiv> fields_ok p \<and> size_ok p (body p)"

lemma writes_frame:
  assumes "list_all Tlv_ok (tlv_list p)"
  shows "writes (Buffer_run (Header_encode p # puts p @ [encode_tlvs p])) (octs p)"
proof -
  have run_append: "Buffer_run (fs @ gs) b = bind (Buffer_run fs b) (Buffer_run gs)" for fs gs b
    by (induction fs arbitrary: b) (simp_all add: bind_def split: sum.splits)
  have "writes (Buffer_run (puts p @ [encode_tlvs p])) (body p @ tlvs_octets (tlv_list p) @ [])"
    unfolding run_append by (intro writes_seq writes_body writes_intro assms)
  then show ?thesis
    using writes_run_Cons [OF writes_Header] by (simp add: pdu_octets_def)
qed

text \<open>The encoder never writes outside the buffer it allocates, and fills it.\<close>

lemma encode_fills:
  assumes "size_ok p (body p)"
  shows "encode_frame puts p = Inr \<lparr> capacity = length (octs p), data = octs p \<rparr>"
  using assms frame_fill [of _ p "body p", OF writes_frame]
  by (simp add: encode_frame_def size_ok_def frame_ok_def)

lemma length_octs:
  "size_ok p (body p) \<Longrightarrow> unat (command_length p) = length (octs p) \<and> length (octs p) < 2 ^ 32"
  by (simp add: size_ok_def frame_ok_def unat_of_nat take_bit_nat_eq_self)

text \<open>\<open>decode\<close> appends the TLVs of the array to those of its object.\<close>

lemma decode_frame_octs_into:
  assumes "ok p"
  shows "decode_frame err read (blank\<lparr> tlv_list := ts \<rparr>) (octs p @ rest) =
    Inr (p\<lparr> tlv_list := ts @ tlv_list p \<rparr>)"
proof -
  let ?b = "octs p @ rest" and ?blank = "blank\<lparr> tlv_list := ts \<rparr>"
  let ?g = "?blank\<lparr> command_length := command_length p, command_id := command_id p,
    command_status := command_status p, sequence_number := sequence_number p \<rparr>"
  let ?n = "16 + length (body p)"
  have b: "?b = header_octets p @ body p @ tlvs_octets (tlv_list p) @ rest"
    by (simp add: pdu_octets_def)
  have len: "unat (command_length ?g) = ?n + length (tlvs_octets (tlv_list p))"
    using length_octs [of p] assms by (simp add: pdu_size_def)
  have more: "Header.more ?g = Header.more blank" by simp
  have "drop 16 ?b = body p @ tlvs_octets (tlv_list p) @ rest"
    unfolding b by simp
  then have "read ?g ?b (unat (command_length ?g)) err =
      Inr (Header.more_update (\<lambda>_. Header.more p) ?g, ?n)"
    using assms len by (intro read_body [OF _ more]) auto
  moreover have "decode_tlvs_loop (drop ?n ?b) (unat (command_length ?g) - ?n) ts =
      Inr (ts @ tlv_list p)"
    using assms decode_tlvs_loop_octets [of "tlv_list p" rest ts] unfolding b len
    by (simp add: size_ok_def frame_ok_def drop_plus del: drop_drop)
  moreover have "Header_decode ?blank ?b = Inr ?g"
    unfolding b by (rule Header_decode_append)
  ultimately show ?thesis
    using len by (cases p) (simp add: decode_frame_def Let_def decode_tlvs_def)
qed

lemma decode_frame_octs:
  assumes "ok p"
  shows "decode_frame err read blank (octs p @ rest) = Inr p"
proof -
  have "blank\<lparr> tlv_list := [] \<rparr> = blank"
    using blank_tlvs by (cases blank) simp
  then show ?thesis
    using decode_frame_octs_into [OF assms, where ts = "[]"] by simp
qed

lemma octs_decode_frame:
  assumes "decode_frame err read blank b = Inr p"
  shows "ok p \<and> octs p = take (length (octs p)) b"
proof -
  from assms obtain g q off ts where h: "Header_decode blank b = Inr g"
    and len: "16 \<le> unat (command_length g)"
    and r: "read g b (unat (command_length g)) err = Inr (q, off)"
    and tl: "decode_tlvs_loop (drop off b) (minus_Uint32 (unat (command_length g)) off) (tlv_list q)
        = Inr ts"
    and p: "p = q\<lparr> tlv_list := ts \<rparr>"
    by (auto simp: decode_frame_def sequence_eq_Inr Let_def decode_tlvs_def split: if_splits)
  have g: "g = blank\<lparr> command_length := command_length g, command_id := command_id g,
      command_status := command_status g, sequence_number := sequence_number g \<rparr>"
    using Header_decode_InrD [OF h] by blast
  have more: "Header.more g = Header.more blank"
    by (subst g) simp
  have gt: "tlv_list g = []"
    by (subst g) (simp add: blank_tlvs)
  from body_read [OF r more len] have q: "fields_ok q" "off = 16 + length (body q)"
    "off \<le> unat (command_length g)" "drop 16 b = body q @ drop off b"
    and qg: "q = Header.more_update (\<lambda>_. Header.more q) g" by (auto simp: read_upto_def)
  have qh: "command_length q = command_length g" "command_id q = command_id g"
    "command_status q = command_status g" "sequence_number q = sequence_number g"
    "tlv_list q = tlv_list g"
    by (subst qg, simp)+
  have same: "Header.more p = Header.more q" using p by simp
  then have body: "body p = body q" and fields: "fields_ok p = fields_ok q"
    by (rule body_more, rule fields_more)
  have "pdu_octets p (body p) = take (unat (command_length p)) b \<and>
    unat (command_length p) = pdu_size p (length (body p)) \<and>
    frame_ok p (length (body p)) \<and> pdu_size p (length (body p)) < 2 ^ 32 \<and>
    unat (command_length p) \<le> length b"
    by (rule pdu_octets_take [OF h, where off = off and ts = ts])
      (use q qh gt tl p body in simp_all)
  then show ?thesis
    using q(1) fields by (simp add: size_ok_def)
qed

sublocale pdu_codec "encode_frame puts" "decode_frame err read blank" octs ok
proof
  fix p rest
  assume ok: "ok p"
  then show "encode_frame puts p = Inr \<lparr> capacity = length (octs p), data = octs p \<rparr>"
    by (simp add: encode_fills)
  show "decode_frame err read blank (octs p @ rest) = Inr p"
    using ok by (rule decode_frame_octs)
  have "get_wire32 (octs p @ rest) = Inr (command_length p)"
    by (simp add: pdu_octets_def header_octets_def)
  moreover have "command_length p = of_nat (length (octs p))"
    using ok by (simp add: size_ok_def frame_ok_def)
  ultimately show "length (octs p) < 2 ^ 32 \<and>
      get_wire32 (octs p @ rest) = Inr (of_nat (length (octs p)))"
    using ok length_octs by simp
qed (rule octs_decode_frame)

end

end
