(* ===== verification/Pdu_Ops.thy ===== *)
theory Pdu_Ops
  imports Pdu_Codec
begin

text \<open>
  The mutators that every PDU inherits from \<open>Header\<close>, as one step relation, the pieces that the
  setters of the classes are made of, and what both mean for the invariant of \<open>command_length\<close>.
\<close>

section \<open>Mutators of the header\<close>

definition set_command_status :: "uint32 \<Rightarrow> 'a Header_scheme \<Rightarrow> 'a Header_scheme" where
  "set_command_status p h = h\<lparr> command_status := p \<rparr>"

inductive header_op :: "'a Header_scheme \<Rightarrow> 'a Header_scheme \<Rightarrow> bool" where
  sequence_number: "set_sequence_number n allow_0 p = Inr q \<Longrightarrow> header_op p q"
| command_status: "header_op p (set_command_status s p)"
| insert_tlv: "Tlv_ok t \<Longrightarrow> header_op p (insert_tlv t p)"
| insert_8bit_tlv: "insert_8bit_tlv t v8 p = Inr q \<Longrightarrow> header_op p q"
| insert_16bit_tlv: "insert_16bit_tlv t v16 p = Inr q \<Longrightarrow> header_op p q"
| insert_32bit_tlv: "insert_32bit_tlv t v32 p = Inr q \<Longrightarrow> header_op p q"
| insert_string_tlv: "insert_string_tlv t v p = Inr q \<Longrightarrow> header_op p q"
| insert_array_tlv: "insert_array_tlv t l v p = Inr q \<Longrightarrow> header_op p q"
| insert_before_tlv: "Tlv_ok x \<Longrightarrow> insert_before_tlv x t p = Inr q \<Longrightarrow> header_op p q"
| insert_after_tlv: "Tlv_ok x \<Longrightarrow> insert_after_tlv x t p = Inr q \<Longrightarrow> header_op p q"
| remove_tlv: "header_op p (remove_tlv t p)"

lemma header_op_frame_ok: "header_op p q \<Longrightarrow> frame_ok p n \<Longrightarrow> frame_ok q n"
proof (induction rule: header_op.induct)
  case (sequence_number m allow_0 p q)
  then show ?case
    by (auto simp: set_sequence_number_def bind_eq_Inr frame_ok_def pdu_size_def)
next
  case (command_status p s)
  then show ?case
    by (simp add: set_command_status_def frame_ok_def pdu_size_def)
qed (auto simp: insert_8bit_tlv_def insert_16bit_tlv_def insert_32bit_tlv_def insert_string_tlv_def
    insert_array_tlv_def bind_eq_Inr dest!: Tlv_InrD
    intro: frame_ok_insert_tlv frame_ok_insert_before_tlv frame_ok_insert_after_tlv
      remove_tlv_filter)

lemma remove_tlv_loop_more: "Header.more (remove_tlv_loop t kept xs h) = Header.more h"
  by (induction t kept xs h rule: remove_tlv_loop.induct) simp_all

lemma header_op_more: "header_op p q \<Longrightarrow> Header.more q = Header.more p"
  by (induction rule: header_op.induct)
    (auto simp: set_sequence_number_def set_command_status_def insert_tlv_def bind_eq_Inr
      insert_8bit_tlv_def insert_16bit_tlv_def insert_32bit_tlv_def insert_string_tlv_def
      insert_array_tlv_def insert_before_tlv_def insert_after_tlv_def remove_tlv_def
      remove_tlv_loop_more split: list.splits)

context pdu_body
begin

lemma header_op_body: "header_op p q \<Longrightarrow> body q = body p"
  by (rule body_more [OF header_op_more])

lemma header_op_frame:
  "header_op p q \<Longrightarrow> frame_ok p (length (body p)) \<Longrightarrow> frame_ok q (length (body q))"
  using header_op_frame_ok [of p q] header_op_body [of p q] by simp

lemma from_frame: "decode_frame err read blank b = Inr p \<Longrightarrow> frame_ok p (length (body p))"
  using octs_decode_frame [of b p] by (simp add: size_ok_def)

text \<open>Whatever the invariant holds of and fits the 32-bit length is encoded without overrun.\<close>

lemma encode_reachable:
  assumes "frame_ok p (length (body p))" and "length (octs p) < 2 ^ 32"
  shows "encode_frame puts p = Inr \<lparr> capacity = unat (command_length p), data = octs p \<rparr>"
    and "length (octs p) = unat (command_length p)"
proof -
  have "size_ok p (body p)"
    using assms by (simp add: size_ok_def)
  with encode_fills [of p] length_octs [of p]
  show "encode_frame puts p = Inr \<lparr> capacity = unat (command_length p), data = octs p \<rparr>"
    and "length (octs p) = unat (command_length p)" by simp_all
qed

text \<open>
  \<open>decode\<close> appends to the TLVs that the object already has: its length is that of the array,
  and the TLVs no longer fit.
\<close>

lemma read_header_only:
  assumes "decode_frame err read (blank\<lparr> tlv_list := ts \<rparr>) b = Inr p"
  obtains q us where "p = q\<lparr> tlv_list := ts @ us \<rparr>" "list_all Tlv_ok us"
    and "length (pdu_octets (q\<lparr> tlv_list := us \<rparr>) (body q)) = unat (command_length q)"
proof -
  let ?blank = "blank\<lparr> tlv_list := ts \<rparr>"
  from assms obtain g q off vs where h: "Header_decode ?blank b = Inr g"
    and len: "16 \<le> unat (command_length g)"
    and r: "read g b (unat (command_length g)) err = Inr (q, off)"
    and tl: "decode_tlvs_loop (drop off b) (minus_Uint32 (unat (command_length g)) off) (tlv_list q)
        = Inr vs"
    and p: "p = q\<lparr> tlv_list := vs \<rparr>"
    by (auto simp: decode_frame_def sequence_eq_Inr Let_def decode_tlvs_def split: if_splits)
  have g: "g = ?blank\<lparr> command_length := command_length g, command_id := command_id g,
      command_status := command_status g, sequence_number := sequence_number g \<rparr>"
    using Header_decode_InrD [OF h] by blast
  have more: "Header.more g = Header.more blank"
    by (subst g) simp
  have gt: "tlv_list g = ts"
    by (subst g) simp
  from body_read [OF r more len] have off: "off = 16 + length (body q)" "off \<le> unat (command_length g)"
    and qg: "q = Header.more_update (\<lambda>_. Header.more q) g" by (auto simp: read_upto_def)
  have qh: "command_length q = command_length g" "tlv_list q = ts"
    by (subst qg, simp add: gt)+
  from decode_tlvs_loopD [OF tl] obtain us where us: "vs = ts @ us" "list_all Tlv_ok us"
    "length (tlvs_octets us) = unat (command_length g) - off"
    using off qh by auto
  show ?thesis
    by (rule that [of us q]) (use p us off qh in \<open>simp_all add: pdu_size_def\<close>)
qed

lemma decode_again_overruns:
  assumes "decode_frame err read (blank\<lparr> tlv_list := ts \<rparr>) b = Inr p"
    and "ts \<noteq> []" and "list_all Tlv_ok ts"
  shows "encode_frame puts p = Inl OutOfBounds"
proof -
  from assms(1) obtain q us where p: "p = q\<lparr> tlv_list := ts @ us \<rparr>" and us: "list_all Tlv_ok us"
    and len: "length (pdu_octets (q\<lparr> tlv_list := us \<rparr>) (body q)) = unat (command_length q)"
    by (rule read_header_only)
  have "body p = body q"
    by (rule body_more) (simp add: p)
  moreover have "0 < length (tlvs_octets ts)"
    using assms(2) by (cases ts) auto
  ultimately have "unat (command_length p) < length (octs p)"
    using len unfolding p by (simp add: pdu_size_def flip: length_greater_0_conv)
  moreover have "list_all Tlv_ok (tlv_list p)"
    using p us assms(3) by simp
  ultimately show ?thesis
    unfolding encode_frame_def by (metis writes_overrun writes_frame)
qed

end

section \<open>Setters\<close>

text \<open>
  \<open>int diff = strlen(p) - x.length(); x = p;\<close> gives the new value and the difference, or the
  exception of the assignment.
\<close>

definition assign_diff ::
  "(octets \<Rightarrow> octets result) \<Rightarrow> octets \<Rightarrow> octets \<Rightarrow> (octets \<times> 32 word) result" where
  "assign_diff assign p old = bind (strlen p) (\<lambda>n.
     bind (assign p) (\<lambda>v. Inr (v, of_nat n - of_nat (length old))))"

text \<open>
  \<open>int diff = p.length() - x.address().length(); x = SmeAddress(Ton(t), Npi(n), p, len);\<close>
\<close>

definition address_diff ::
  "octet \<Rightarrow> octet \<Rightarrow> Address \<Rightarrow> nat \<Rightarrow> SmeAddress \<Rightarrow> (SmeAddress \<times> 32 word) result" where
  "address_diff t n p len old = bind (new_SmeAddress t n p len)
     (\<lambda>a. Inr (a, diff (addr_v p) (addr_v (address old))))"

text \<open>\<open>int diff = l - x.length(); x = ShortMessage(p, l);\<close>\<close>

definition ShortMessage :: "octets \<Rightarrow> octet \<Rightarrow> octets result" where
  "ShortMessage p len = (if unat len \<le> length p then Inr (take (unat len) p) else Inl OutOfBounds)"

definition message_diff :: "octets \<Rightarrow> octet \<Rightarrow> octets \<Rightarrow> (octets \<times> 32 word) result" where
  "message_diff p l old = bind (ShortMessage p l)
     (\<lambda>m. Inr (m, of_nat (unat l) - of_nat (length old)))"

lemma assign_diff_InrD:
  assumes "assign_diff (assign_Char n e) p old = Inr (v, d)"
  shows "d = diff v old"
  using assms
  by (auto simp: assign_diff_def strlen_def bind_eq_Inr diff_def assign_Char_def valid_length_Char_def)

lemma address_diff_InrD:
  "address_diff t n p len old = Inr (a, d) \<Longrightarrow> d = diff (addr_v (address a)) (addr_v (address old))"
  by (auto simp: address_diff_def new_SmeAddress_def new_Address_def valid_length_String_def bind_eq_Inr
      split: if_splits)

lemma message_diff_InrD: "message_diff p l old = Inr (m, d) \<Longrightarrow> d = diff m old"
  by (auto simp: message_diff_def ShortMessage_def bind_eq_Inr diff_def split: if_splits)

lemmas assigns_def = SystemId_assign_def Password_assign_def SystemType_assign_def
  AddressRange_assign_def ServiceType_assign_def Time_assign_def MessageId_assign_def

lemmas diff_InrD = assign_diff_InrD address_diff_InrD message_diff_InrD

text \<open>The number of octets of each parameter, and what a setter does to the invariant.\<close>

lemmas setter_simps = frame_ok_def pdu_size_def update_length_def diff_def octets_simps
  address_length_def

end
