(* ===== verification/Pdu_Submit.thy ===== *)
theory Pdu_Submit
  imports Pdu_Ops
begin

text \<open>
  The PDUs submit_sm and submit_sm_resp.
  Record, constructors, encoder, decoder and setters of each class, the interpretation of
  \<open>pdu_body\<close> that gives its codec laws, and the invariant of \<open>command_length\<close> over everything
  that constructors and mutators build.
\<close>

section \<open>SubmitSm\<close>

text \<open>\<open>submit_sm.hpp\<close> and \<open>submit_sm.cpp\<close>.\<close>

record SubmitSm = Header +
  service_type :: octets
  source_addr :: SmeAddress
  destination_addr :: SmeAddress
  esm_class :: octet
  protocol_id :: octet
  priority_flag :: octet
  schedule_delivery_time :: octets
  validity_period :: octets
  registered_delivery :: octet
  replace_if_present_flag :: octet
  data_coding :: octet
  sm_default_msg_id :: octet
  short_message :: octets

definition SubmitSm_default :: SubmitSm where
  "SubmitSm_default =
     \<lparr> command_length = 33, command_id = 0x00000004, command_status = 0,
     sequence_number = SequenceNumber_Min, tlv_list = [], service_type = [],
     source_addr = SmeAddress_default, destination_addr = SmeAddress_default, esm_class = 0,
     protocol_id = 0, priority_flag = 0, schedule_delivery_time = [], validity_period = [],
     registered_delivery = 0, replace_if_present_flag = 0, data_coding = 0,
     sm_default_msg_id = 0, short_message = [] \<rparr>"

definition new_SubmitSm :: "uint32 \<Rightarrow> octets \<Rightarrow> SmeAddress \<Rightarrow>
    SmeAddress \<Rightarrow> octet \<Rightarrow> octet \<Rightarrow> octet \<Rightarrow>
    octets \<Rightarrow> octets \<Rightarrow> octet \<Rightarrow> octet \<Rightarrow>
    octet \<Rightarrow> octet \<Rightarrow> octets \<Rightarrow> SubmitSm" where
  "new_SubmitSm sequenceNumber service_type' source_addr' destination_addr' esm_class'
     protocol_id' priority_flag' schedule_delivery_time' validity_period' registered_delivery'
     replace_if_present_flag' data_coding' sm_default_msg_id' short_message' =
     update_length (of_nat (length service_type' + address_length source_addr' + address_length destination_addr' +
       length schedule_delivery_time' + length validity_period' + length short_message'))
     \<lparr> command_length = 33, command_id = 0x00000004, command_status = 0,
     sequence_number = sequenceNumber, tlv_list = [], service_type = service_type',
     source_addr = source_addr', destination_addr = destination_addr', esm_class = esm_class',
     protocol_id = protocol_id', priority_flag = priority_flag',
     schedule_delivery_time = schedule_delivery_time', validity_period = validity_period',
     registered_delivery = registered_delivery',
     replace_if_present_flag = replace_if_present_flag', data_coding = data_coding',
     sm_default_msg_id = sm_default_msg_id', short_message = short_message' \<rparr>"

definition SubmitSm_puts :: "SubmitSm \<Rightarrow> (Buffer \<Rightarrow> Buffer result) list" where
  "SubmitSm_puts p =
     [put_String (service_type p), put_SmeAddress (source_addr p),
      put_SmeAddress (destination_addr p), put_Uint8 (esm_class p), put_Uint8 (protocol_id p),
      put_Uint8 (priority_flag p), put_String (schedule_delivery_time p),
      put_String (validity_period p), put_Uint8 (registered_delivery p),
      put_Uint8 (replace_if_present_flag p), put_Uint8 (data_coding p),
      put_Uint8 (sm_default_msg_id p), put_ShortMessage (short_message p)]"

definition SubmitSm_encode :: "SubmitSm \<Rightarrow> Buffer result" where
  "SubmitSm_encode = encode_frame SubmitSm_puts"

definition SubmitSm_read :: "SubmitSm \<Rightarrow> octets \<Rightarrow> nat \<Rightarrow> string \<Rightarrow> (SubmitSm \<times> nat) result" where
  "SubmitSm_read p buff len err =
     bind2 (get_String ServiceType_assign (drop 16 buff) len err 16) (\<lambda>service_type' offset.
     bind2 (get_SmeAddress (source_addr p) (drop offset buff) len err offset) (\<lambda>source_addr' offset.
     bind2 (get_SmeAddress (destination_addr p) (drop offset buff) len err offset) (\<lambda>destination_addr' offset.
     bind2 (get_Uint8 (drop offset buff) len err offset) (\<lambda>esm_class' offset.
     bind2 (get_Uint8 (drop offset buff) len err offset) (\<lambda>protocol_id' offset.
     bind2 (get_Uint8 (drop offset buff) len err offset) (\<lambda>priority_flag' offset.
     bind2 (get_String Time_assign (drop offset buff) len err offset) (\<lambda>schedule_delivery_time' offset.
     bind2 (get_String Time_assign (drop offset buff) len err offset) (\<lambda>validity_period' offset.
     bind2 (get_Uint8 (drop offset buff) len err offset) (\<lambda>registered_delivery' offset.
     bind2 (get_Uint8 (drop offset buff) len err offset) (\<lambda>replace_if_present_flag' offset.
     bind2 (get_Uint8 (drop offset buff) len err offset) (\<lambda>data_coding' offset.
     bind2 (get_Uint8 (drop offset buff) len err offset) (\<lambda>sm_default_msg_id' offset.
     bind2 (get_ShortMessage (drop offset buff) len err offset) (\<lambda>short_message' offset.
     Inr (p\<lparr> service_type := service_type', source_addr := source_addr',
       destination_addr := destination_addr', esm_class := esm_class',
       protocol_id := protocol_id', priority_flag := priority_flag',
       schedule_delivery_time := schedule_delivery_time', validity_period := validity_period',
       registered_delivery := registered_delivery',
       replace_if_present_flag := replace_if_present_flag', data_coding := data_coding',
       sm_default_msg_id := sm_default_msg_id', short_message := short_message' \<rparr>, offset))))))))))))))"

definition SubmitSm_decode :: "SubmitSm \<Rightarrow> octets \<Rightarrow> SubmitSm result" where
  "SubmitSm_decode = decode_frame ''Bad length in submit_sm'' SubmitSm_read"

abbreviation SubmitSm_blank :: SubmitSm where
  "SubmitSm_blank \<equiv> SubmitSm_default\<lparr> sequence_number := 1 \<rparr>"

definition SubmitSm_from :: "octets \<Rightarrow> SubmitSm result" where
  "SubmitSm_from b = SubmitSm_decode SubmitSm_blank b"

definition SubmitSm_body :: "SubmitSm \<Rightarrow> octets" where
  "SubmitSm_body p =
     String_octets (service_type p) @ SmeAddress_octets (source_addr p) @
     SmeAddress_octets (destination_addr p) @ Uint8_octets (esm_class p) @
     Uint8_octets (protocol_id p) @ Uint8_octets (priority_flag p) @
     String_octets (schedule_delivery_time p) @ String_octets (validity_period p) @
     Uint8_octets (registered_delivery p) @ Uint8_octets (replace_if_present_flag p) @
     Uint8_octets (data_coding p) @ Uint8_octets (sm_default_msg_id p) @
     ShortMessage_octets (short_message p)"

definition SubmitSm_fields_ok :: "SubmitSm \<Rightarrow> bool" where
  "SubmitSm_fields_ok p \<longleftrightarrow>
     ServiceType_ok (service_type p) \<and> SmeAddress_ok 21 (source_addr p) \<and>
     SmeAddress_ok 21 (destination_addr p) \<and> Time_ok (schedule_delivery_time p) \<and>
     Time_ok (validity_period p) \<and> ShortMessage_ok (short_message p)"

interpretation submit_sm: pdu_body SubmitSm_puts SubmitSm_read "''Bad length in submit_sm''"
  SubmitSm_blank SubmitSm_body SubmitSm_fields_ok
proof (unfold_locales, goal_cases)
  case (1 p)
  show ?case
    unfolding SubmitSm_puts_def SubmitSm_body_def by (rule writes_eq, (rule writes_intro)+, simp)
next
  case 2
  show ?case by (simp add: SubmitSm_default_def)
next
  case (3 p q)
  then show ?case by (cases p, cases q) (simp add: SubmitSm_body_def)
next
  case (4 p q)
  then show ?case by (cases p, cases q) (simp add: SubmitSm_fields_ok_def)
next
  case (5 p g b rest len)
  then have old: "source_addr g = SmeAddress_default" "destination_addr g = SmeAddress_default"
    by (cases g, simp add: SubmitSm_default_def)+
  with 5 show ?case
    by (cases p, cases g) (simp add: SubmitSm_read_def field_simps_read SubmitSm_body_def
      SubmitSm_fields_ok_def drop_plus del: drop_drop cong: bind2_cong)
next
  case (6 g b len q off)
  then have old: "source_addr g = SmeAddress_default" "destination_addr g = SmeAddress_default"
    by (cases g, simp add: SubmitSm_default_def)+
  with 6(1) [THEN reading_start, of b] show ?case
    unfolding SubmitSm_read_def old
    by (elim step_elim)
      (cases g, clarsimp simp: reading_end SubmitSm_body_def SubmitSm_fields_ok_def)
qed

definition SubmitSm_set_service_type :: "octets \<Rightarrow> SubmitSm \<Rightarrow> SubmitSm" where
  "SubmitSm_set_service_type v p = update_length (diff v (service_type p)) (p\<lparr> service_type := v \<rparr>)"

definition SubmitSm_set_service_type_Char :: "octets \<Rightarrow> SubmitSm \<Rightarrow> SubmitSm result" where
  "SubmitSm_set_service_type_Char s p = bind2 (assign_diff ServiceType_assign s (service_type p))
     (\<lambda>v d. Inr (update_length d (p\<lparr> service_type := v \<rparr>)))"

definition SubmitSm_set_source_addr :: "SmeAddress \<Rightarrow> SubmitSm \<Rightarrow> SubmitSm" where
  "SubmitSm_set_source_addr a p = update_length (diff (addr_v (address a)) (addr_v (address (source_addr p))))
     (p\<lparr> source_addr := a \<rparr>)"

definition SubmitSm_set_source_addr_Address :: "Address \<Rightarrow> SubmitSm \<Rightarrow> SubmitSm result" where
  "SubmitSm_set_source_addr_Address a p = bind2 (address_diff 0 0 a 21 (source_addr p))
     (\<lambda>v d. Inr (update_length d (p\<lparr> source_addr := v \<rparr>)))"

definition SubmitSm_set_destination_addr :: "SmeAddress \<Rightarrow> SubmitSm \<Rightarrow> SubmitSm" where
  "SubmitSm_set_destination_addr a p = update_length (diff (addr_v (address a)) (addr_v (address (destination_addr p))))
     (p\<lparr> destination_addr := a \<rparr>)"

definition SubmitSm_set_destination_addr_Address :: "Address \<Rightarrow> SubmitSm \<Rightarrow> SubmitSm result" where
  "SubmitSm_set_destination_addr_Address a p = bind2 (address_diff 0 0 a 21 (destination_addr p))
     (\<lambda>v d. Inr (update_length d (p\<lparr> destination_addr := v \<rparr>)))"

definition SubmitSm_set_esm_class :: "int \<Rightarrow> SubmitSm \<Rightarrow> SubmitSm" where
  "SubmitSm_set_esm_class v p = p\<lparr> esm_class := word_of_int v \<rparr>"

definition SubmitSm_set_protocol_id :: "int \<Rightarrow> SubmitSm \<Rightarrow> SubmitSm" where
  "SubmitSm_set_protocol_id v p = p\<lparr> protocol_id := word_of_int v \<rparr>"

definition SubmitSm_set_priority_flag :: "int \<Rightarrow> SubmitSm \<Rightarrow> SubmitSm" where
  "SubmitSm_set_priority_flag v p = p\<lparr> priority_flag := word_of_int v \<rparr>"

definition SubmitSm_set_schedule_delivery_time :: "octets \<Rightarrow> SubmitSm \<Rightarrow> SubmitSm" where
  "SubmitSm_set_schedule_delivery_time v p = update_length (diff v (schedule_delivery_time p)) (p\<lparr> schedule_delivery_time := v \<rparr>)"

definition SubmitSm_set_schedule_delivery_time_Char :: "octets \<Rightarrow> SubmitSm \<Rightarrow> SubmitSm result" where
  "SubmitSm_set_schedule_delivery_time_Char s p = bind2 (assign_diff Time_assign s (schedule_delivery_time p))
     (\<lambda>v d. Inr (update_length d (p\<lparr> schedule_delivery_time := v \<rparr>)))"

definition SubmitSm_set_validity_period :: "octets \<Rightarrow> SubmitSm \<Rightarrow> SubmitSm" where
  "SubmitSm_set_validity_period v p = update_length (diff v (validity_period p)) (p\<lparr> validity_period := v \<rparr>)"

definition SubmitSm_set_validity_period_Char :: "octets \<Rightarrow> SubmitSm \<Rightarrow> SubmitSm result" where
  "SubmitSm_set_validity_period_Char s p = bind2 (assign_diff Time_assign s (validity_period p))
     (\<lambda>v d. Inr (update_length d (p\<lparr> validity_period := v \<rparr>)))"

definition SubmitSm_set_registered_delivery :: "octet \<Rightarrow> SubmitSm \<Rightarrow> SubmitSm" where
  "SubmitSm_set_registered_delivery v p = p\<lparr> registered_delivery := v \<rparr>"

definition SubmitSm_set_replace_if_present_flag :: "octet \<Rightarrow> SubmitSm \<Rightarrow> SubmitSm" where
  "SubmitSm_set_replace_if_present_flag v p = p\<lparr> replace_if_present_flag := v \<rparr>"

definition SubmitSm_set_data_coding :: "octet \<Rightarrow> SubmitSm \<Rightarrow> SubmitSm" where
  "SubmitSm_set_data_coding v p = p\<lparr> data_coding := v \<rparr>"

definition SubmitSm_set_sm_default_msg_id :: "octet \<Rightarrow> SubmitSm \<Rightarrow> SubmitSm" where
  "SubmitSm_set_sm_default_msg_id v p = p\<lparr> sm_default_msg_id := v \<rparr>"

definition SubmitSm_set_short_message :: "octets \<Rightarrow> octet \<Rightarrow> SubmitSm \<Rightarrow> SubmitSm result" where
  "SubmitSm_set_short_message v l p = bind2 (message_diff v l (short_message p))
     (\<lambda>m d. Inr (update_length d (p\<lparr> short_message := m \<rparr>)))"

text \<open>The objects that constructors and mutators build.\<close>

inductive SubmitSm_reachable :: "SubmitSm \<Rightarrow> bool" where
  default: "SubmitSm_reachable SubmitSm_default"
| ctor: "SubmitSm_reachable (new_SubmitSm n x0 x1 x2 x3 x4 x5 x6 x7 x8 x9 x10 x11 x12)"
| from_buffer: "SubmitSm_from b = Inr p \<Longrightarrow> SubmitSm_reachable p"
| inherited: "SubmitSm_reachable p \<Longrightarrow> header_op p q \<Longrightarrow> SubmitSm_reachable q"
| set_service_type: "SubmitSm_reachable p \<Longrightarrow> SubmitSm_reachable (SubmitSm_set_service_type v p)"
| set_service_type_Char: "SubmitSm_reachable p \<Longrightarrow> SubmitSm_set_service_type_Char s p = Inr q \<Longrightarrow> SubmitSm_reachable q"
| set_source_addr: "SubmitSm_reachable p \<Longrightarrow> SubmitSm_reachable (SubmitSm_set_source_addr a p)"
| set_source_addr_Address: "SubmitSm_reachable p \<Longrightarrow> SubmitSm_set_source_addr_Address a p = Inr q \<Longrightarrow> SubmitSm_reachable q"
| set_destination_addr: "SubmitSm_reachable p \<Longrightarrow> SubmitSm_reachable (SubmitSm_set_destination_addr a p)"
| set_destination_addr_Address: "SubmitSm_reachable p \<Longrightarrow> SubmitSm_set_destination_addr_Address a p = Inr q \<Longrightarrow> SubmitSm_reachable q"
| set_esm_class: "SubmitSm_reachable p \<Longrightarrow> SubmitSm_reachable (SubmitSm_set_esm_class v p)"
| set_protocol_id: "SubmitSm_reachable p \<Longrightarrow> SubmitSm_reachable (SubmitSm_set_protocol_id v p)"
| set_priority_flag: "SubmitSm_reachable p \<Longrightarrow> SubmitSm_reachable (SubmitSm_set_priority_flag v p)"
| set_schedule_delivery_time: "SubmitSm_reachable p \<Longrightarrow> SubmitSm_reachable (SubmitSm_set_schedule_delivery_time v p)"
| set_schedule_delivery_time_Char: "SubmitSm_reachable p \<Longrightarrow> SubmitSm_set_schedule_delivery_time_Char s p = Inr q \<Longrightarrow> SubmitSm_reachable q"
| set_validity_period: "SubmitSm_reachable p \<Longrightarrow> SubmitSm_reachable (SubmitSm_set_validity_period v p)"
| set_validity_period_Char: "SubmitSm_reachable p \<Longrightarrow> SubmitSm_set_validity_period_Char s p = Inr q \<Longrightarrow> SubmitSm_reachable q"
| set_registered_delivery: "SubmitSm_reachable p \<Longrightarrow> SubmitSm_reachable (SubmitSm_set_registered_delivery v p)"
| set_replace_if_present_flag: "SubmitSm_reachable p \<Longrightarrow> SubmitSm_reachable (SubmitSm_set_replace_if_present_flag v p)"
| set_data_coding: "SubmitSm_reachable p \<Longrightarrow> SubmitSm_reachable (SubmitSm_set_data_coding v p)"
| set_sm_default_msg_id: "SubmitSm_reachable p \<Longrightarrow> SubmitSm_reachable (SubmitSm_set_sm_default_msg_id v p)"
| set_short_message: "SubmitSm_reachable p \<Longrightarrow> SubmitSm_set_short_message v l p = Inr q \<Longrightarrow> SubmitSm_reachable q"

lemma submit_sm_frame_ok: "SubmitSm_reachable p \<Longrightarrow> frame_ok p (length (SubmitSm_body p))"
proof (induction rule: SubmitSm_reachable.induct)
  case default
  show ?case by (simp add: SubmitSm_default_def SubmitSm_body_def setter_simps
    SmeAddress_default_def Address_default_def)
next
  case ctor
  show ?case by (simp add: new_SubmitSm_def SubmitSm_body_def setter_simps
    SmeAddress_default_def Address_default_def)
next
  case (from_buffer b p)
  then show ?case
    using submit_sm.from_frame [of b p] by (simp add: SubmitSm_from_def SubmitSm_decode_def)
next
  case (inherited p q)
  then show ?case using submit_sm.header_op_frame [of p q] by simp
qed (auto simp: SubmitSm_set_service_type_def SubmitSm_set_service_type_Char_def
      SubmitSm_set_source_addr_def SubmitSm_set_source_addr_Address_def
      SubmitSm_set_destination_addr_def
      SubmitSm_set_destination_addr_Address_def SubmitSm_set_esm_class_def
      SubmitSm_set_protocol_id_def SubmitSm_set_priority_flag_def
      SubmitSm_set_schedule_delivery_time_def
      SubmitSm_set_schedule_delivery_time_Char_def
      SubmitSm_set_validity_period_def SubmitSm_set_validity_period_Char_def
      SubmitSm_set_registered_delivery_def
      SubmitSm_set_replace_if_present_flag_def SubmitSm_set_data_coding_def
      SubmitSm_set_sm_default_msg_id_def SubmitSm_set_short_message_def
      SubmitSm_body_def setter_simps bind_eq_Inr bind2_eq_Inr assigns_def InterfaceVersion_def
      dest!: diff_InrD split: if_splits)

section \<open>SubmitSmResp\<close>

text \<open>\<open>submit_sm_resp.hpp\<close> and \<open>submit_sm_resp.cpp\<close>.\<close>

record SubmitSmResp = Header +
  message_id :: octets

definition SubmitSmResp_default :: SubmitSmResp where
  "SubmitSmResp_default =
     \<lparr> command_length = 17, command_id = 0x80000004, command_status = 0,
     sequence_number = SequenceNumber_Min, tlv_list = [], message_id = [] \<rparr>"

definition new_SubmitSmResp :: "uint32 \<Rightarrow> uint32 \<Rightarrow> octets \<Rightarrow> SubmitSmResp" where
  "new_SubmitSmResp commandStatus sequenceNumber message_id' =
     update_length (of_nat (length message_id'))
     \<lparr> command_length = 17, command_id = 0x80000004, command_status = commandStatus,
     sequence_number = sequenceNumber, tlv_list = [], message_id = message_id' \<rparr>"

definition SubmitSmResp_puts :: "SubmitSmResp \<Rightarrow> (Buffer \<Rightarrow> Buffer result) list" where
  "SubmitSmResp_puts p =
     [put_String (message_id p)]"

definition SubmitSmResp_encode :: "SubmitSmResp \<Rightarrow> Buffer result" where
  "SubmitSmResp_encode = encode_frame SubmitSmResp_puts"

definition SubmitSmResp_read :: "SubmitSmResp \<Rightarrow> octets \<Rightarrow> nat \<Rightarrow> string \<Rightarrow> (SubmitSmResp \<times> nat) result" where
  "SubmitSmResp_read p buff len err =
     bind2 (get_String MessageId_assign (drop 16 buff) len err 16) (\<lambda>message_id' offset.
     Inr (p\<lparr> message_id := message_id' \<rparr>, offset))"

definition SubmitSmResp_decode :: "SubmitSmResp \<Rightarrow> octets \<Rightarrow> SubmitSmResp result" where
  "SubmitSmResp_decode = decode_frame ''Bad length in submit_sm_resp'' SubmitSmResp_read"

abbreviation SubmitSmResp_blank :: SubmitSmResp where
  "SubmitSmResp_blank \<equiv> SubmitSmResp_default\<lparr> sequence_number := 1 \<rparr>"

definition SubmitSmResp_from :: "octets \<Rightarrow> SubmitSmResp result" where
  "SubmitSmResp_from b = SubmitSmResp_decode SubmitSmResp_blank b"

definition SubmitSmResp_body :: "SubmitSmResp \<Rightarrow> octets" where
  "SubmitSmResp_body p =
     String_octets (message_id p)"

definition SubmitSmResp_fields_ok :: "SubmitSmResp \<Rightarrow> bool" where
  "SubmitSmResp_fields_ok p \<longleftrightarrow>
     MessageId_ok (message_id p)"

interpretation submit_sm_resp: pdu_body SubmitSmResp_puts SubmitSmResp_read "''Bad length in submit_sm_resp''"
  SubmitSmResp_blank SubmitSmResp_body SubmitSmResp_fields_ok
proof (unfold_locales, goal_cases)
  case (1 p)
  show ?case
    unfolding SubmitSmResp_puts_def SubmitSmResp_body_def by (rule writes_eq, (rule writes_intro)+, simp)
next
  case 2
  show ?case by (simp add: SubmitSmResp_default_def)
next
  case (3 p q)
  then show ?case by (cases p, cases q) (simp add: SubmitSmResp_body_def)
next
  case (4 p q)
  then show ?case by (cases p, cases q) (simp add: SubmitSmResp_fields_ok_def)
next
  case (5 p g b rest len)
  then show ?case
    by (cases p, cases g) (simp add: SubmitSmResp_read_def field_simps_read SubmitSmResp_body_def
      SubmitSmResp_fields_ok_def drop_plus del: drop_drop cong: bind2_cong)
next
  case (6 g b len q off)
  from 6(1) [THEN reading_start, of b] show ?case
    unfolding SubmitSmResp_read_def
    by (elim step_elim)
      (cases g, clarsimp simp: reading_end SubmitSmResp_body_def SubmitSmResp_fields_ok_def)
qed

definition SubmitSmResp_set_message_id :: "octets \<Rightarrow> SubmitSmResp \<Rightarrow> SubmitSmResp" where
  "SubmitSmResp_set_message_id v p = update_length (diff v (message_id p)) (p\<lparr> message_id := v \<rparr>)"

definition SubmitSmResp_set_message_id_Char :: "octets \<Rightarrow> SubmitSmResp \<Rightarrow> SubmitSmResp result" where
  "SubmitSmResp_set_message_id_Char s p = bind2 (assign_diff MessageId_assign s (message_id p))
     (\<lambda>v d. Inr (update_length d (p\<lparr> message_id := v \<rparr>)))"

text \<open>The objects that constructors and mutators build.\<close>

inductive SubmitSmResp_reachable :: "SubmitSmResp \<Rightarrow> bool" where
  default: "SubmitSmResp_reachable SubmitSmResp_default"
| ctor: "SubmitSmResp_reachable (new_SubmitSmResp st n x0)"
| from_buffer: "SubmitSmResp_from b = Inr p \<Longrightarrow> SubmitSmResp_reachable p"
| inherited: "SubmitSmResp_reachable p \<Longrightarrow> header_op p q \<Longrightarrow> SubmitSmResp_reachable q"
| set_message_id: "SubmitSmResp_reachable p \<Longrightarrow> SubmitSmResp_reachable (SubmitSmResp_set_message_id v p)"
| set_message_id_Char: "SubmitSmResp_reachable p \<Longrightarrow> SubmitSmResp_set_message_id_Char s p = Inr q \<Longrightarrow> SubmitSmResp_reachable q"

lemma submit_sm_resp_frame_ok: "SubmitSmResp_reachable p \<Longrightarrow> frame_ok p (length (SubmitSmResp_body p))"
proof (induction rule: SubmitSmResp_reachable.induct)
  case default
  show ?case by (simp add: SubmitSmResp_default_def SubmitSmResp_body_def setter_simps
    )
next
  case ctor
  show ?case by (simp add: new_SubmitSmResp_def SubmitSmResp_body_def setter_simps
    )
next
  case (from_buffer b p)
  then show ?case
    using submit_sm_resp.from_frame [of b p] by (simp add: SubmitSmResp_from_def SubmitSmResp_decode_def)
next
  case (inherited p q)
  then show ?case using submit_sm_resp.header_op_frame [of p q] by simp
qed (auto simp: SubmitSmResp_set_message_id_def SubmitSmResp_set_message_id_Char_def
      SubmitSmResp_body_def setter_simps bind_eq_Inr bind2_eq_Inr assigns_def InterfaceVersion_def
      dest!: diff_InrD split: if_splits)

end
