(* ===== verification/Pdu_Deliver.thy ===== *)
theory Pdu_Deliver
  imports Pdu_Ops
begin

text \<open>
  The PDUs deliver_sm and deliver_sm_resp.
  Record, constructors, encoder, decoder and setters of each class, the interpretation of
  \<open>pdu_body\<close> that gives its codec laws, and the invariant of \<open>command_length\<close> over everything
  that constructors and mutators build.
\<close>

section \<open>DeliverSm\<close>

text \<open>\<open>deliver_sm.hpp\<close> and \<open>deliver_sm.cpp\<close>.\<close>

record DeliverSm = Header +
  service_type :: octets
  source_addr :: SmeAddress
  destination_addr :: SmeAddress
  esm_class :: octet
  protocol_id :: octet
  priority_flag :: octet
  schedule_delivery_time :: octets
  validity_period :: octets
  registered_delivery :: octet
  replace_if_present_flag :: octet
  data_coding :: octet
  sm_default_msg_id :: octet
  short_message :: octets

definition DeliverSm_default :: DeliverSm where
  "DeliverSm_default =
     \<lparr> command_length = 33, command_id = 0x00000005, command_status = 0,
     sequence_number = SequenceNumber_Min, tlv_list = [], service_type = [],
     source_addr = SmeAddress_default, destination_addr = SmeAddress_default, esm_class = 0,
     protocol_id = 0, priority_flag = 0, schedule_delivery_time = [], validity_period = [],
     registered_delivery = 0, replace_if_present_flag = 0, data_coding = 0,
     sm_default_msg_id = 0, short_message = [] \<rparr>"

definition new_DeliverSm :: "uint32 \<Rightarrow> octets \<Rightarrow> SmeAddress \<Rightarrow>
    SmeAddress \<Rightarrow> octet \<Rightarrow> octet \<Rightarrow> octet \<Rightarrow>
    octets \<Rightarrow> octets \<Rightarrow> octet \<Rightarrow> octet \<Rightarrow>
    octet \<Rightarrow> octet \<Rightarrow> octets \<Rightarrow> DeliverSm" where
  "new_DeliverSm sequenceNumber service_type' source_addr' destination_addr' esm_class'
     protocol_id' priority_flag' schedule_delivery_time' validity_period' registered_delivery'
     replace_if_present_flag' data_coding' sm_default_msg_id' short_message' =
     update_length (of_nat (length service_type' + address_length source_addr' + address_length destination_addr' +
       length schedule_delivery_time' + length validity_period' + length short_message'))
     \<lparr> command_length = 33, command_id = 0x00000005, command_status = 0,
     sequence_number = sequenceNumber, tlv_list = [], service_type = service_type',
     source_addr = source_addr', destination_addr = destination_addr', esm_class = esm_class',
     protocol_id = protocol_id', priority_flag = priority_flag',
     schedule_delivery_time = schedule_delivery_time', validity_period = validity_period',
     registered_delivery = registered_delivery',
     replace_if_present_flag = replace_if_present_flag', data_coding = data_coding',
     sm_default_msg_id = sm_default_msg_id', short_message = short_message' \<rparr>"

definition DeliverSm_puts :: "DeliverSm \<Rightarrow> (Buffer \<Rightarrow> Buffer result) list" where
  "DeliverSm_puts p =
     [put_String (service_type p), put_SmeAddress (source_addr p),
      put_SmeAddress (destination_addr p), put_Uint8 (esm_class p), put_Uint8 (protocol_id p),
      put_Uint8 (priority_flag p), put_String (schedule_delivery_time p),
      put_String (validity_period p), put_Uint8 (registered_delivery p),
      put_Uint8 (replace_if_present_flag p), put_Uint8 (data_coding p),
      put_Uint8 (sm_default_msg_id p), put_ShortMessage (short_message p)]"

definition DeliverSm_encode :: "DeliverSm \<Rightarrow> Buffer result" where
  "DeliverSm_encode = encode_frame DeliverSm_puts"

definition DeliverSm_read :: "DeliverSm \<Rightarrow> octets \<Rightarrow> nat \<Rightarrow> string \<Rightarrow> (DeliverSm \<times> nat) result" where
  "DeliverSm_read p buff len err =
     bind2 (get_String ServiceType_assign (drop 16 buff) len err 16) (\<lambda>service_type' offset.
     bind2 (get_SmeAddress (source_addr p) (drop offset buff) len err offset) (\<lambda>source_addr' offset.
     bind2 (get_SmeAddress (destination_addr p) (drop offset buff) len err offset) (\<lambda>destination_addr' offset.
     bind2 (get_Uint8 (drop offset buff) len err offset) (\<lambda>esm_class' offset.
     bind2 (get_Uint8 (drop offset buff) len err offset) (\<lambda>protocol_id' offset.
     bind2 (get_Uint8 (drop offset buff) len err offset) (\<lambda>priority_flag' offset.
     bind2 (get_String Time_assign (drop offset buff) len err offset) (\<lambda>schedule_delivery_time' offset.
     bind2 (get_String Time_assign (drop offset buff) len err offset) (\<lambda>validity_period' offset.
     bind2 (get_Uint8 (drop offset buff) len err offset) (\<lambda>registered_delivery' offset.
     bind2 (get_Uint8 (drop offset buff) len err offset) (\<lambda>replace_if_present_flag' offset.
     bind2 (get_Uint8 (drop offset buff) len err offset) (\<lambda>data_coding' offset.
     bind2 (get_Uint8 (drop offset buff) len err offset) (\<lambda>sm_default_msg_id' offset.
     bind2 (get_ShortMessage (drop offset buff) len err offset) (\<lambda>short_message' offset.
     Inr (p\<lparr> service_type := service_type', source_addr := source_addr',
       destination_addr := destination_addr', esm_class := esm_class',
       protocol_id := protocol_id', priority_flag := priority_flag',
       schedule_delivery_time := schedule_delivery_time', validity_period := validity_period',
       registered_delivery := registered_delivery',
       replace_if_present_flag := replace_if_present_flag', data_coding := data_coding',
       sm_default_msg_id := sm_default_msg_id', short_message := short_message' \<rparr>, offset))))))))))))))"

definition DeliverSm_decode :: "DeliverSm \<Rightarrow> octets \<Rightarrow> DeliverSm result" where
  "DeliverSm_decode = decode_frame ''Bad length in deliver_sm'' DeliverSm_read"

abbreviation DeliverSm_blank :: DeliverSm where
  "DeliverSm_blank \<equiv> DeliverSm_default\<lparr> sequence_number := 1 \<rparr>"

definition DeliverSm_from :: "octets \<Rightarrow> DeliverSm result" where
  "DeliverSm_from b = DeliverSm_decode DeliverSm_blank b"

definition DeliverSm_body :: "DeliverSm \<Rightarrow> octets" where
  "DeliverSm_body p =
     String_octets (service_type p) @ SmeAddress_octets (source_addr p) @
     SmeAddress_octets (destination_addr p) @ Uint8_octets (esm_class p) @
     Uint8_octets (protocol_id p) @ Uint8_octets (priority_flag p) @
     String_octets (schedule_delivery_time p) @ String_octets (validity_period p) @
     Uint8_octets (registered_delivery p) @ Uint8_octets (replace_if_present_flag p) @
     Uint8_octets (data_coding p) @ Uint8_octets (sm_default_msg_id p) @
     ShortMessage_octets (short_message p)"

definition DeliverSm_fields_ok :: "DeliverSm \<Rightarrow> bool" where
  "DeliverSm_fields_ok p \<longleftrightarrow>
     ServiceType_ok (service_type p) \<and> SmeAddress_ok 21 (source_addr p) \<and>
     SmeAddress_ok 21 (destination_addr p) \<and> Time_ok (schedule_delivery_time p) \<and>
     Time_ok (validity_period p) \<and> ShortMessage_ok (short_message p)"

interpretation deliver_sm: pdu_body DeliverSm_puts DeliverSm_read "''Bad length in deliver_sm''"
  DeliverSm_blank DeliverSm_body DeliverSm_fields_ok
proof (unfold_locales, goal_cases)
  case (1 p)
  show ?case
    unfolding DeliverSm_puts_def DeliverSm_body_def by (rule writes_eq, (rule writes_intro)+, simp)
next
  case 2
  show ?case by (simp add: DeliverSm_default_def)
next
  case (3 p q)
  then show ?case by (cases p, cases q) (simp add: DeliverSm_body_def)
next
  case (4 p q)
  then show ?case by (cases p, cases q) (simp add: DeliverSm_fields_ok_def)
next
  case (5 p g b rest len)
  then have old: "source_addr g = SmeAddress_default" "destination_addr g = SmeAddress_default"
    by (cases g, simp add: DeliverSm_default_def)+
  with 5 show ?case
    by (cases p, cases g) (simp add: DeliverSm_read_def field_simps_read DeliverSm_body_def
      DeliverSm_fields_ok_def drop_plus del: drop_drop cong: bind2_cong)
next
  case (6 g b len q off)
  then have old: "source_addr g = SmeAddress_default" "destination_addr g = SmeAddress_default"
    by (cases g, simp add: DeliverSm_default_def)+
  with 6(1) [THEN reading_start, of b] show ?case
    unfolding DeliverSm_read_def old
    by (elim step_elim)
      (cases g, clarsimp simp: reading_end DeliverSm_body_def DeliverSm_fields_ok_def)
qed

definition DeliverSm_set_service_type :: "octets \<Rightarrow> DeliverSm \<Rightarrow> DeliverSm" where
  "DeliverSm_set_service_type v p = update_length (diff v (service_type p)) (p\<lparr> service_type := v \<rparr>)"

definition DeliverSm_set_service_type_Char :: "octets \<Rightarrow> DeliverSm \<Rightarrow> DeliverSm result" where
  "DeliverSm_set_service_type_Char s p = bind2 (assign_diff ServiceType_assign s (service_type p))
     (\<lambda>v d. Inr (update_length d (p\<lparr> service_type := v \<rparr>)))"

definition DeliverSm_set_source_addr :: "SmeAddress \<Rightarrow> DeliverSm \<Rightarrow> DeliverSm" where
  "DeliverSm_set_source_addr a p = update_length (diff (addr_v (address a)) (addr_v (address (source_addr p))))
     (p\<lparr> source_addr := a \<rparr>)"

definition DeliverSm_set_source_addr_Address :: "Address \<Rightarrow> DeliverSm \<Rightarrow> DeliverSm result" where
  "DeliverSm_set_source_addr_Address a p = bind2 (address_diff 0 0 a 21 (source_addr p))
     (\<lambda>v d. Inr (update_length d (p\<lparr> source_addr := v \<rparr>)))"

definition DeliverSm_set_destination_addr :: "SmeAddress \<Rightarrow> DeliverSm \<Rightarrow> DeliverSm" where
  "DeliverSm_set_destination_addr a p = update_length (diff (addr_v (address a)) (addr_v (address (destination_addr p))))
     (p\<lparr> destination_addr := a \<rparr>)"

definition DeliverSm_set_destination_addr_Address :: "Address \<Rightarrow> DeliverSm \<Rightarrow> DeliverSm result" where
  "DeliverSm_set_destination_addr_Address a p = bind2 (address_diff 0 0 a 21 (destination_addr p))
     (\<lambda>v d. Inr (update_length d (p\<lparr> destination_addr := v \<rparr>)))"

definition DeliverSm_set_esm_class :: "int \<Rightarrow> DeliverSm \<Rightarrow> DeliverSm" where
  "DeliverSm_set_esm_class v p = p\<lparr> esm_class := word_of_int v \<rparr>"

definition DeliverSm_set_protocol_id :: "int \<Rightarrow> DeliverSm \<Rightarrow> DeliverSm" where
  "DeliverSm_set_protocol_id v p = p\<lparr> protocol_id := word_of_int v \<rparr>"

definition DeliverSm_set_priority_flag :: "int \<Rightarrow> DeliverSm \<Rightarrow> DeliverSm" where
  "DeliverSm_set_priority_flag v p = p\<lparr> priority_flag := word_of_int v \<rparr>"

definition DeliverSm_set_schedule_delivery_time :: "octets \<Rightarrow> DeliverSm \<Rightarrow> DeliverSm" where
  "DeliverSm_set_schedule_delivery_time v p = update_length (diff v (schedule_delivery_time p)) (p\<lparr> schedule_delivery_time := v \<rparr>)"

definition DeliverSm_set_schedule_delivery_time_Char :: "octets \<Rightarrow> DeliverSm \<Rightarrow> DeliverSm result" where
  "DeliverSm_set_schedule_delivery_time_Char s p = bind2 (assign_diff Time_assign s (schedule_delivery_time p))
     (\<lambda>v d. Inr (update_length d (p\<lparr> schedule_delivery_time := v \<rparr>)))"

definition DeliverSm_set_validity_period :: "octets \<Rightarrow> DeliverSm \<Rightarrow> DeliverSm" where
  "DeliverSm_set_validity_period v p = update_length (diff v (validity_period p)) (p\<lparr> validity_period := v \<rparr>)"

definition DeliverSm_set_validity_period_Char :: "octets \<Rightarrow> DeliverSm \<Rightarrow> DeliverSm result" where
  "DeliverSm_set_validity_period_Char s p = bind2 (assign_diff Time_assign s (validity_period p))
     (\<lambda>v d. Inr (update_length d (p\<lparr> validity_period := v \<rparr>)))"

definition DeliverSm_set_registered_delivery :: "octet \<Rightarrow> DeliverSm \<Rightarrow> DeliverSm" where
  "DeliverSm_set_registered_delivery v p = p\<lparr> registered_delivery := v \<rparr>"

definition DeliverSm_set_replace_if_present_flag :: "octet \<Rightarrow> DeliverSm \<Rightarrow> DeliverSm" where
  "DeliverSm_set_replace_if_present_flag v p = p\<lparr> replace_if_present_flag := v \<rparr>"

definition DeliverSm_set_data_coding :: "octet \<Rightarrow> DeliverSm \<Rightarrow> DeliverSm" where
  "DeliverSm_set_data_coding v p = p\<lparr> data_coding := v \<rparr>"

definition DeliverSm_set_sm_default_msg_id :: "octet \<Rightarrow> DeliverSm \<Rightarrow> DeliverSm" where
  "DeliverSm_set_sm_default_msg_id v p = p\<lparr> sm_default_msg_id := v \<rparr>"

definition DeliverSm_set_short_message :: "octets \<Rightarrow> octet \<Rightarrow> DeliverSm \<Rightarrow> DeliverSm result" where
  "DeliverSm_set_short_message v l p = bind2 (message_diff v l (short_message p))
     (\<lambda>m d. Inr (update_length d (p\<lparr> short_message := m \<rparr>)))"

text \<open>The objects that constructors and mutators build.\<close>

inductive DeliverSm_reachable :: "DeliverSm \<Rightarrow> bool" where
  default: "DeliverSm_reachable DeliverSm_default"
| ctor: "DeliverSm_reachable (new_DeliverSm n x0 x1 x2 x3 x4 x5 x6 x7 x8 x9 x10 x11 x12)"
| from_buffer: "DeliverSm_from b = Inr p \<Longrightarrow> DeliverSm_reachable p"
| inherited: "DeliverSm_reachable p \<Longrightarrow> header_op p q \<Longrightarrow> DeliverSm_reachable q"
| set_service_type: "DeliverSm_reachable p \<Longrightarrow> DeliverSm_reachable (DeliverSm_set_service_type v p)"
| set_service_type_Char: "DeliverSm_reachable p \<Longrightarrow> DeliverSm_set_service_type_Char s p = Inr q \<Longrightarrow> DeliverSm_reachable q"
| set_source_addr: "DeliverSm_reachable p \<Longrightarrow> DeliverSm_reachable (DeliverSm_set_source_addr a p)"
| set_source_addr_Address: "DeliverSm_reachable p \<Longrightarrow> DeliverSm_set_source_addr_Address a p = Inr q \<Longrightarrow> DeliverSm_reachable q"
| set_destination_addr: "DeliverSm_reachable p \<Longrightarrow> DeliverSm_reachable (DeliverSm_set_destination_addr a p)"
| set_destination_addr_Address: "DeliverSm_reachable p \<Longrightarrow> DeliverSm_set_destination_addr_Address a p = Inr q \<Longrightarrow> DeliverSm_reachable q"
| set_esm_class: "DeliverSm_reachable p \<Longrightarrow> DeliverSm_reachable (DeliverSm_set_esm_class v p)"
| set_protocol_id: "DeliverSm_reachable p \<Longrightarrow> DeliverSm_reachable (DeliverSm_set_protocol_id v p)"
| set_priority_flag: "DeliverSm_reachable p \<Longrightarrow> DeliverSm_reachable (DeliverSm_set_priority_flag v p)"
| set_schedule_delivery_time: "DeliverSm_reachable p \<Longrightarrow> DeliverSm_reachable (DeliverSm_set_schedule_delivery_time v p)"
| set_schedule_delivery_time_Char: "DeliverSm_reachable p \<Longrightarrow> DeliverSm_set_schedule_delivery_time_Char s p = Inr q \<Longrightarrow> DeliverSm_reachable q"
| set_validity_period: "DeliverSm_reachable p \<Longrightarrow> DeliverSm_reachable (DeliverSm_set_validity_period v p)"
| set_validity_period_Char: "DeliverSm_reachable p \<Longrightarrow> DeliverSm_set_validity_period_Char s p = Inr q \<Longrightarrow> DeliverSm_reachable q"
| set_registered_delivery: "DeliverSm_reachable p \<Longrightarrow> DeliverSm_reachable (DeliverSm_set_registered_delivery v p)"
| set_replace_if_present_flag: "DeliverSm_reachable p \<Longrightarrow> DeliverSm_reachable (DeliverSm_set_replace_if_present_flag v p)"
| set_data_coding: "DeliverSm_reachable p \<Longrightarrow> DeliverSm_reachable (DeliverSm_set_data_coding v p)"
| set_sm_default_msg_id: "DeliverSm_reachable p \<Longrightarrow> DeliverSm_reachable (DeliverSm_set_sm_default_msg_id v p)"
| set_short_message: "DeliverSm_reachable p \<Longrightarrow> DeliverSm_set_short_message v l p = Inr q \<Longrightarrow> DeliverSm_reachable q"

lemma deliver_sm_frame_ok: "DeliverSm_reachable p \<Longrightarrow> frame_ok p (length (DeliverSm_body p))"
proof (induction rule: DeliverSm_reachable.induct)
  case default
  show ?case by (simp add: DeliverSm_default_def DeliverSm_body_def setter_simps
    SmeAddress_default_def Address_default_def)
next
  case ctor
  show ?case by (simp add: new_DeliverSm_def DeliverSm_body_def setter_simps
    SmeAddress_default_def Address_default_def)
next
  case (from_buffer b p)
  then show ?case
    using deliver_sm.from_frame [of b p] by (simp add: DeliverSm_from_def DeliverSm_decode_def)
next
  case (inherited p q)
  then show ?case using deliver_sm.header_op_frame [of p q] by simp
qed (auto simp: DeliverSm_set_service_type_def DeliverSm_set_service_type_Char_def
      DeliverSm_set_source_addr_def DeliverSm_set_source_addr_Address_def
      DeliverSm_set_destination_addr_def
      DeliverSm_set_destination_addr_Address_def DeliverSm_set_esm_class_def
      DeliverSm_set_protocol_id_def DeliverSm_set_priority_flag_def
      DeliverSm_set_schedule_delivery_time_def
      DeliverSm_set_schedule_delivery_time_Char_def
      DeliverSm_set_validity_period_def DeliverSm_set_validity_period_Char_def
      DeliverSm_set_registered_delivery_def
      DeliverSm_set_replace_if_present_flag_def DeliverSm_set_data_coding_def
      DeliverSm_set_sm_default_msg_id_def DeliverSm_set_short_message_def
      DeliverSm_body_def setter_simps bind_eq_Inr bind2_eq_Inr assigns_def InterfaceVersion_def
      dest!: diff_InrD split: if_splits)

section \<open>DeliverSmResp\<close>

text \<open>\<open>deliver_sm_resp.hpp\<close> and \<open>deliver_sm_resp.cpp\<close>.\<close>

record DeliverSmResp = Header +
  message_id :: octets

definition DeliverSmResp_default :: DeliverSmResp where
  "DeliverSmResp_default =
     \<lparr> command_length = 17, command_id = 0x80000005, command_status = 0,
     sequence_number = SequenceNumber_Min, tlv_list = [], message_id = [] \<rparr>"

definition new_DeliverSmResp :: "uint32 \<Rightarrow> uint32 \<Rightarrow> octets \<Rightarrow> DeliverSmResp" where
  "new_DeliverSmResp commandStatus sequenceNumber message_id' =
     update_length (of_nat (length message_id'))
     \<lparr> command_length = 17, command_id = 0x80000005, command_status = commandStatus,
     sequence_number = sequenceNumber, tlv_list = [], message_id = message_id' \<rparr>"

definition DeliverSmResp_puts :: "DeliverSmResp \<Rightarrow> (Buffer \<Rightarrow> Buffer result) list" where
  "DeliverSmResp_puts p =
     [put_String (message_id p)]"

definition DeliverSmResp_encode :: "DeliverSmResp \<Rightarrow> Buffer result" where
  "DeliverSmResp_encode = encode_frame DeliverSmResp_puts"

definition DeliverSmResp_read :: "DeliverSmResp \<Rightarrow> octets \<Rightarrow> nat \<Rightarrow> string \<Rightarrow> (DeliverSmResp \<times> nat) result" where
  "DeliverSmResp_read p buff len err =
     bind2 (get_String MessageId_assign (drop 16 buff) len err 16) (\<lambda>message_id' offset.
     Inr (p\<lparr> message_id := message_id' \<rparr>, offset))"

definition DeliverSmResp_decode :: "DeliverSmResp \<Rightarrow> octets \<Rightarrow> DeliverSmResp result" where
  "DeliverSmResp_decode = decode_frame ''Bad length in deliver_sm_resp'' DeliverSmResp_read"

abbreviation DeliverSmResp_blank :: DeliverSmResp where
  "DeliverSmResp_blank \<equiv> DeliverSmResp_default\<lparr> sequence_number := 1 \<rparr>"

definition DeliverSmResp_from :: "octets \<Rightarrow> DeliverSmResp result" where
  "DeliverSmResp_from b = DeliverSmResp_decode DeliverSmResp_blank b"

definition DeliverSmResp_body :: "DeliverSmResp \<Rightarrow> octets" where
  "DeliverSmResp_body p =
     String_octets (message_id p)"

definition DeliverSmResp_fields_ok :: "DeliverSmResp \<Rightarrow> bool" where
  "DeliverSmResp_fields_ok p \<longleftrightarrow>
     MessageId_ok (message_id p)"

interpretation deliver_sm_resp: pdu_body DeliverSmResp_puts DeliverSmResp_read "''Bad length in deliver_sm_resp''"
  DeliverSmResp_blank DeliverSmResp_body DeliverSmResp_fields_ok
proof (unfold_locales, goal_cases)
  case (1 p)
  show ?case
    unfolding DeliverSmResp_puts_def DeliverSmResp_body_def by (rule writes_eq, (rule writes_intro)+, simp)
next
  case 2
  show ?case by (simp add: DeliverSmResp_default_def)
next
  case (3 p q)
  then show ?case by (cases p, cases q) (simp add: DeliverSmResp_body_def)
next
  case (4 p q)
  then show ?case by (cases p, cases q) (simp add: DeliverSmResp_fields_ok_def)
next
  case (5 p g b rest len)
  then show ?case
    by (cases p, cases g) (simp add: DeliverSmResp_read_def field_simps_read DeliverSmResp_body_def
      DeliverSmResp_fields_ok_def drop_plus del: drop_drop cong: bind2_cong)
next
  case (6 g b len q off)
  from 6(1) [THEN reading_start, of b] show ?case
    unfolding DeliverSmResp_read_def
    by (elim step_elim)
      (cases g, clarsimp simp: reading_end DeliverSmResp_body_def DeliverSmResp_fields_ok_def)
qed

definition DeliverSmResp_set_message_id :: "octets \<Rightarrow> DeliverSmResp \<Rightarrow> DeliverSmResp" where
  "DeliverSmResp_set_message_id v p = update_length (diff v (message_id p)) (p\<lparr> message_id := v \<rparr>)"

definition DeliverSmResp_set_message_id_Char :: "octets \<Rightarrow> DeliverSmResp \<Rightarrow> DeliverSmResp result" where
  "DeliverSmResp_set_message_id_Char s p = bind2 (assign_diff MessageId_assign s (message_id p))
     (\<lambda>v d. Inr (update_length d (p\<lparr> message_id := v \<rparr>)))"

text \<open>The objects that constructors and mutators build.\<close>

inductive DeliverSmResp_reachable :: "DeliverSmResp \<Rightarrow> bool" where
  default: "DeliverSmResp_reachable DeliverSmResp_default"
| ctor: "DeliverSmResp_reachable (new_DeliverSmResp st n x0)"
| from_buffer: "DeliverSmResp_from b = Inr p \<Longrightarrow> DeliverSmResp_reachable p"
| inherited: "DeliverSmResp_reachable p \<Longrightarrow> header_op p q \<Longrightarrow> DeliverSmResp_reachable q"
| set_message_id: "DeliverSmResp_reachable p \<Longrightarrow> DeliverSmResp_reachable (DeliverSmResp_set_message_id v p)"
| set_message_id_Char: "DeliverSmResp_reachable p \<Longrightarrow> DeliverSmResp_set_message_id_Char s p = Inr q \<Longrightarrow> DeliverSmResp_reachable q"

lemma deliver_sm_resp_frame_ok: "DeliverSmResp_reachable p \<Longrightarrow> frame_ok p (length (DeliverSmResp_body p))"
proof (induction rule: DeliverSmResp_reachable.induct)
  case default
  show ?case by (simp add: DeliverSmResp_default_def DeliverSmResp_body_def setter_simps
    )
next
  case ctor
  show ?case by (simp add: new_DeliverSmResp_def DeliverSmResp_body_def setter_simps
    )
next
  case (from_buffer b p)
  then show ?case
    using deliver_sm_resp.from_frame [of b p] by (simp add: DeliverSmResp_from_def DeliverSmResp_decode_def)
next
  case (inherited p q)
  then show ?case using deliver_sm_resp.header_op_frame [of p q] by simp
qed (auto simp: DeliverSmResp_set_message_id_def DeliverSmResp_set_message_id_Char_def
      DeliverSmResp_body_def setter_simps bind_eq_Inr bind2_eq_Inr assigns_def InterfaceVersion_def
      dest!: diff_InrD split: if_splits)

end
