(* ===== verification/Pdu_Data.thy ===== *)
theory Pdu_Data
  imports Pdu_Ops
begin

text \<open>
  The PDUs data_sm and data_sm_resp.
  Record, constructors, encoder, decoder and setters of each class, the interpretation of
  \<open>pdu_body\<close> that gives its codec laws, and the invariant of \<open>command_length\<close> over everything
  that constructors and mutators build.
\<close>

section \<open>DataSm\<close>

text \<open>\<open>data_sm.hpp\<close> and \<open>data_sm.cpp\<close>.\<close>

record DataSm = Header +
  service_type :: octets
  source_addr :: SmeAddress
  destination_addr :: SmeAddress
  esm_class :: octet
  registered_delivery :: octet
  data_coding :: octet

definition DataSm_default :: DataSm where
  "DataSm_default =
     \<lparr> command_length = 26, command_id = 0x00000103, command_status = 0,
     sequence_number = SequenceNumber_Min, tlv_list = [], service_type = [],
     source_addr = SmeAddress_default, destination_addr = SmeAddress_default, esm_class = 0,
     registered_delivery = 0, data_coding = 0 \<rparr>"

definition new_DataSm :: "uint32 \<Rightarrow> octets \<Rightarrow> SmeAddress \<Rightarrow>
    SmeAddress \<Rightarrow> octet \<Rightarrow> octet \<Rightarrow> octet \<Rightarrow> DataSm" where
  "new_DataSm sequenceNumber service_type' source_addr' destination_addr' esm_class'
     registered_delivery' data_coding' =
     update_length (of_nat (length service_type' + address_length source_addr' + address_length destination_addr'))
     \<lparr> command_length = 26, command_id = 0x00000103, command_status = 0,
     sequence_number = sequenceNumber, tlv_list = [], service_type = service_type',
     source_addr = source_addr', destination_addr = destination_addr', esm_class = esm_class',
     registered_delivery = registered_delivery', data_coding = data_coding' \<rparr>"

definition DataSm_puts :: "DataSm \<Rightarrow> (Buffer \<Rightarrow> Buffer result) list" where
  "DataSm_puts p =
     [put_String (service_type p), put_SmeAddress (source_addr p),
      put_SmeAddress (destination_addr p), put_Uint8 (esm_class p),
      put_Uint8 (registered_delivery p), put_Uint8 (data_coding p)]"

definition DataSm_encode :: "DataSm \<Rightarrow> Buffer result" where
  "DataSm_encode = encode_frame DataSm_puts"

definition DataSm_read :: "DataSm \<Rightarrow> octets \<Rightarrow> nat \<Rightarrow> string \<Rightarrow> (DataSm \<times> nat) result" where
  "DataSm_read p buff len err =
     bind2 (get_String ServiceType_assign (drop 16 buff) len err 16) (\<lambda>service_type' offset.
     bind2 (get_SmeAddress (source_addr p) (drop offset buff) len err offset) (\<lambda>source_addr' offset.
     bind2 (get_SmeAddress (destination_addr p) (drop offset buff) len err offset) (\<lambda>destination_addr' offset.
     bind2 (get_Uint8 (drop offset buff) len err offset) (\<lambda>esm_class' offset.
     bind2 (get_Uint8 (drop offset buff) len err offset) (\<lambda>registered_delivery' offset.
     bind2 (get_Uint8 (drop offset buff) len err offset) (\<lambda>data_coding' offset.
     Inr (p\<lparr> service_type := service_type', source_addr := source_addr',
       destination_addr := destination_addr', esm_class := esm_class',
       registered_delivery := registered_delivery', data_coding := data_coding' \<rparr>, offset)))))))"

definition DataSm_decode :: "DataSm \<Rightarrow> octets \<Rightarrow> DataSm result" where
  "DataSm_decode = decode_frame ''Bad length in data_sm'' DataSm_read"

abbreviation DataSm_blank :: DataSm where
  "DataSm_blank \<equiv> DataSm_default\<lparr> sequence_number := 1 \<rparr>"

definition DataSm_from :: "octets \<Rightarrow> DataSm result" where
  "DataSm_from b = DataSm_decode DataSm_blank b"

definition DataSm_body :: "DataSm \<Rightarrow> octets" where
  "DataSm_body p =
     String_octets (service_type p) @ SmeAddress_octets (source_addr p) @
     SmeAddress_octets (destination_addr p) @ Uint8_octets (esm_class p) @
     Uint8_octets (registered_delivery p) @ Uint8_octets (data_coding p)"

definition DataSm_fields_ok :: "DataSm \<Rightarrow> bool" where
  "DataSm_fields_ok p \<longleftrightarrow>
     ServiceType_ok (service_type p) \<and> SmeAddress_ok 21 (source_addr p) \<and>
     SmeAddress_ok 21 (destination_addr p)"

interpretation data_sm: pdu_body DataSm_puts DataSm_read "''Bad length in data_sm''"
  DataSm_blank DataSm_body DataSm_fields_ok
proof (unfold_locales, goal_cases)
  case (1 p)
  show ?case
    unfolding DataSm_puts_def DataSm_body_def by (rule writes_eq, (rule writes_intro)+, simp)
next
  case 2
  show ?case by (simp add: DataSm_default_def)
next
  case (3 p q)
  then show ?case by (cases p, cases q) (simp add: DataSm_body_def)
next
  case (4 p q)
  then show ?case by (cases p, cases q) (simp add: DataSm_fields_ok_def)
next
  case (5 p g b rest len)
  then have old: "source_addr g = SmeAddress_default" "destination_addr g = SmeAddress_default"
    by (cases g, simp add: DataSm_default_def)+
  with 5 show ?case
    by (cases p, cases g) (simp add: DataSm_read_def field_simps_read DataSm_body_def
      DataSm_fields_ok_def drop_plus del: drop_drop cong: bind2_cong)
next
  case (6 g b len q off)
  then have old: "source_addr g = SmeAddress_default" "destination_addr g = SmeAddress_default"
    by (cases g, simp add: DataSm_default_def)+
  with 6(1) [THEN reading_start, of b] show ?case
    unfolding DataSm_read_def old
    by (elim step_elim)
      (cases g, clarsimp simp: reading_end DataSm_body_def DataSm_fields_ok_def)
qed

definition DataSm_set_service_type :: "octets \<Rightarrow> DataSm \<Rightarrow> DataSm" where
  "DataSm_set_service_type v p = update_length (diff v (service_type p)) (p\<lparr> service_type := v \<rparr>)"

definition DataSm_set_service_type_Char :: "octets \<Rightarrow> DataSm \<Rightarrow> DataSm result" where
  "DataSm_set_service_type_Char s p = bind2 (assign_diff ServiceType_assign s (service_type p))
     (\<lambda>v d. Inr (update_length d (p\<lparr> service_type := v \<rparr>)))"

definition DataSm_set_source_addr :: "SmeAddress \<Rightarrow> DataSm \<Rightarrow> DataSm" where
  "DataSm_set_source_addr a p = update_length (diff (addr_v (address a)) (addr_v (address (source_addr p))))
     (p\<lparr> source_addr := a \<rparr>)"

definition DataSm_set_source_addr_Address :: "Address \<Rightarrow> DataSm \<Rightarrow> DataSm result" where
  "DataSm_set_source_addr_Address a p = bind2 (address_diff 0 0 a 65 (source_addr p))
     (\<lambda>v d. Inr (update_length d (p\<lparr> source_addr := v \<rparr>)))"

definition DataSm_set_destination_addr :: "SmeAddress \<Rightarrow> DataSm \<Rightarrow> DataSm" where
  "DataSm_set_destination_addr a p = update_length (diff (addr_v (address a)) (addr_v (address (destination_addr p))))
     (p\<lparr> destination_addr := a \<rparr>)"

definition DataSm_set_destination_addr_Address :: "Address \<Rightarrow> DataSm \<Rightarrow> DataSm result" where
  "DataSm_set_destination_addr_Address a p = bind2 (address_diff 0 0 a 65 (destination_addr p))
     (\<lambda>v d. Inr (update_length d (p\<lparr> destination_addr := v \<rparr>)))"

definition DataSm_set_esm_class :: "int \<Rightarrow> DataSm \<Rightarrow> DataSm" where
  "DataSm_set_esm_class v p = p\<lparr> esm_class := word_of_int v \<rparr>"

definition DataSm_set_registered_delivery :: "octet \<Rightarrow> DataSm \<Rightarrow> DataSm" where
  "DataSm_set_registered_delivery v p = p\<lparr> registered_delivery := v \<rparr>"

definition DataSm_set_data_coding :: "octet \<Rightarrow> DataSm \<Rightarrow> DataSm" where
  "DataSm_set_data_coding v p = p\<lparr> data_coding := v \<rparr>"

text \<open>The objects that constructors and mutators build.\<close>

inductive DataSm_reachable :: "DataSm \<Rightarrow> bool" where
  default: "DataSm_reachable DataSm_default"
| ctor: "DataSm_reachable (new_DataSm n x0 x1 x2 x3 x4 x5)"
| from_buffer: "DataSm_from b = Inr p \<Longrightarrow> DataSm_reachable p"
| inherited: "DataSm_reachable p \<Longrightarrow> header_op p q \<Longrightarrow> DataSm_reachable q"
| set_service_type: "DataSm_reachable p \<Longrightarrow> DataSm_reachable (DataSm_set_service_type v p)"
| set_service_type_Char: "DataSm_reachable p \<Longrightarrow> DataSm_set_service_type_Char s p = Inr q \<Longrightarrow> DataSm_reachable q"
| set_source_addr: "DataSm_reachable p \<Longrightarrow> DataSm_reachable (DataSm_set_source_addr a p)"
| set_source_addr_Address: "DataSm_reachable p \<Longrightarrow> DataSm_set_source_addr_Address a p = Inr q \<Longrightarrow> DataSm_reachable q"
| set_destination_addr: "DataSm_reachable p \<Longrightarrow> DataSm_reachable (DataSm_set_destination_addr a p)"
| set_destination_addr_Address: "DataSm_reachable p \<Longrightarrow> DataSm_set_destination_addr_Address a p = Inr q \<Longrightarrow> DataSm_reachable q"
| set_esm_class: "DataSm_reachable p \<Longrightarrow> DataSm_reachable (DataSm_set_esm_class v p)"
| set_registered_delivery: "DataSm_reachable p \<Longrightarrow> DataSm_reachable (DataSm_set_registered_delivery v p)"
| set_data_coding: "DataSm_reachable p \<Longrightarrow> DataSm_reachable (DataSm_set_data_coding v p)"

lemma data_sm_frame_ok: "DataSm_reachable p \<Longrightarrow> frame_ok p (length (DataSm_body p))"
proof (induction rule: DataSm_reachable.induct)
  case default
  show ?case by (simp add: DataSm_default_def DataSm_body_def setter_simps
    SmeAddress_default_def Address_default_def)
next
  case ctor
  show ?case by (simp add: new_DataSm_def DataSm_body_def setter_simps
    SmeAddress_default_def Address_default_def)
next
  case (from_buffer b p)
  then show ?case
    using data_sm.from_frame [of b p] by (simp add: DataSm_from_def DataSm_decode_def)
next
  case (inherited p q)
  then show ?case using data_sm.header_op_frame [of p q] by simp
qed (auto simp: DataSm_set_service_type_def DataSm_set_service_type_Char_def
      DataSm_set_source_addr_def DataSm_set_source_addr_Address_def
      DataSm_set_destination_addr_def DataSm_set_destination_addr_Address_def
      DataSm_set_esm_class_def DataSm_set_registered_delivery_def
      DataSm_set_data_coding_def
      DataSm_body_def setter_simps bind_eq_Inr bind2_eq_Inr assigns_def InterfaceVersion_def
      dest!: diff_InrD split: if_splits)

section \<open>DataSmResp\<close>

text \<open>\<open>data_sm_resp.hpp\<close> and \<open>data_sm_resp.cpp\<close>.\<close>

record DataSmResp = Header +
  message_id :: octets

definition DataSmResp_default :: DataSmResp where
  "DataSmResp_default =
     \<lparr> command_length = 17, command_id = 0x80000103, command_status = 0,
     sequence_number = SequenceNumber_Min, tlv_list = [], message_id = [] \<rparr>"

definition new_DataSmResp :: "uint32 \<Rightarrow> uint32 \<Rightarrow> octets \<Rightarrow> DataSmResp" where
  "new_DataSmResp commandStatus sequenceNumber message_id' =
     update_length (of_nat (length message_id'))
     \<lparr> command_length = 17, command_id = 0x80000103, command_status = commandStatus,
     sequence_number = sequenceNumber, tlv_list = [], message_id = message_id' \<rparr>"

definition DataSmResp_puts :: "DataSmResp \<Rightarrow> (Buffer \<Rightarrow> Buffer result) list" where
  "DataSmResp_puts p =
     [put_String (message_id p)]"

definition DataSmResp_encode :: "DataSmResp \<Rightarrow> Buffer result" where
  "DataSmResp_encode = encode_frame DataSmResp_puts"

definition DataSmResp_read :: "DataSmResp \<Rightarrow> octets \<Rightarrow> nat \<Rightarrow> string \<Rightarrow> (DataSmResp \<times> nat) result" where
  "DataSmResp_read p buff len err =
     bind2 (get_String MessageId_assign (drop 16 buff) len err 16) (\<lambda>message_id' offset.
     Inr (p\<lparr> message_id := message_id' \<rparr>, offset))"

definition DataSmResp_decode :: "DataSmResp \<Rightarrow> octets \<Rightarrow> DataSmResp result" where
  "DataSmResp_decode = decode_frame ''Bad length in data_sm_resp'' DataSmResp_read"

abbreviation DataSmResp_blank :: DataSmResp where
  "DataSmResp_blank \<equiv> DataSmResp_default\<lparr> sequence_number := 1 \<rparr>"

definition DataSmResp_from :: "octets \<Rightarrow> DataSmResp result" where
  "DataSmResp_from b = DataSmResp_decode DataSmResp_blank b"

definition DataSmResp_body :: "DataSmResp \<Rightarrow> octets" where
  "DataSmResp_body p =
     String_octets (message_id p)"

definition DataSmResp_fields_ok :: "DataSmResp \<Rightarrow> bool" where
  "DataSmResp_fields_ok p \<longleftrightarrow>
     MessageId_ok (message_id p)"

interpretation data_sm_resp: pdu_body DataSmResp_puts DataSmResp_read "''Bad length in data_sm_resp''"
  DataSmResp_blank DataSmResp_body DataSmResp_fields_ok
proof (unfold_locales, goal_cases)
  case (1 p)
  show ?case
    unfolding DataSmResp_puts_def DataSmResp_body_def by (rule writes_eq, (rule writes_intro)+, simp)
next
  case 2
  show ?case by (simp add: DataSmResp_default_def)
next
  case (3 p q)
  then show ?case by (cases p, cases q) (simp add: DataSmResp_body_def)
next
  case (4 p q)
  then show ?case by (cases p, cases q) (simp add: DataSmResp_fields_ok_def)
next
  case (5 p g b rest len)
  then show ?case
    by (cases p, cases g) (simp add: DataSmResp_read_def field_simps_read DataSmResp_body_def
      DataSmResp_fields_ok_def drop_plus del: drop_drop cong: bind2_cong)
next
  case (6 g b len q off)
  from 6(1) [THEN reading_start, of b] show ?case
    unfolding DataSmResp_read_def
    by (elim step_elim)
      (cases g, clarsimp simp: reading_end DataSmResp_body_def DataSmResp_fields_ok_def)
qed

definition DataSmResp_set_message_id :: "octets \<Rightarrow> DataSmResp \<Rightarrow> DataSmResp" where
  "DataSmResp_set_message_id v p = update_length (diff v (message_id p)) (p\<lparr> message_id := v \<rparr>)"

definition DataSmResp_set_message_id_Char :: "octets \<Rightarrow> DataSmResp \<Rightarrow> DataSmResp result" where
  "DataSmResp_set_message_id_Char s p = bind2 (assign_diff MessageId_assign s (message_id p))
     (\<lambda>v d. Inr (update_length d (p\<lparr> message_id := v \<rparr>)))"

text \<open>The objects that constructors and mutators build.\<close>

inductive DataSmResp_reachable :: "DataSmResp \<Rightarrow> bool" where
  default: "DataSmResp_reachable DataSmResp_default"
| ctor: "DataSmResp_reachable (new_DataSmResp st n x0)"
| from_buffer: "DataSmResp_from b = Inr p \<Longrightarrow> DataSmResp_reachable p"
| inherited: "DataSmResp_reachable p \<Longrightarrow> header_op p q \<Longrightarrow> DataSmResp_reachable q"
| set_message_id: "DataSmResp_reachable p \<Longrightarrow> DataSmResp_reachable (DataSmResp_set_message_id v p)"
| set_message_id_Char: "DataSmResp_reachable p \<Longrightarrow> DataSmResp_set_message_id_Char s p = Inr q \<Longrightarrow> DataSmResp_reachable q"

lemma data_sm_resp_frame_ok: "DataSmResp_reachable p \<Longrightarrow> frame_ok p (length (DataSmResp_body p))"
proof (induction rule: DataSmResp_reachable.induct)
  case default
  show ?case by (simp add: DataSmResp_default_def DataSmResp_body_def setter_simps
    )
next
  case ctor
  show ?case by (simp add: new_DataSmResp_def DataSmResp_body_def setter_simps
    )
next
  case (from_buffer b p)
  then show ?case
    using data_sm_resp.from_frame [of b p] by (simp add: DataSmResp_from_def DataSmResp_decode_def)
next
  case (inherited p q)
  then show ?case using data_sm_resp.header_op_frame [of p q] by simp
qed (auto simp: DataSmResp_set_message_id_def DataSmResp_set_message_id_Char_def
      DataSmResp_body_def setter_simps bind_eq_Inr bind2_eq_Inr assigns_def InterfaceVersion_def
      dest!: diff_InrD split: if_splits)

end
