(* ===== verification/Pdu_Bind.thy ===== *)
theory Pdu_Bind
  imports Pdu_Ops
begin

text \<open>
  The PDUs bind_transmitter, bind_receiver, bind_transceiver and outbind.
  Record, constructors, encoder, decoder and setters of each class, the interpretation of
  \<open>pdu_body\<close> that gives its codec laws, and the invariant of \<open>command_length\<close> over everything
  that constructors and mutators build.
\<close>

section \<open>BindTransmitter\<close>

text \<open>\<open>bind_transmitter.hpp\<close> and \<open>bind_transmitter.cpp\<close>.\<close>

record BindTransmitter = Header +
  system_id :: octets
  password :: octets
  system_type :: octets
  interface_version :: octet
  addr_ton :: octet
  addr_npi :: octet
  address_range :: octets

definition BindTransmitter_default :: BindTransmitter where
  "BindTransmitter_default =
     \<lparr> command_length = 23, command_id = 0x00000002, command_status = 0,
     sequence_number = SequenceNumber_Min, tlv_list = [], system_id = [], password = [],
     system_type = [], interface_version = 0x34, addr_ton = 0, addr_npi = 0, address_range = [] \<rparr>"

definition new_BindTransmitter :: "uint32 \<Rightarrow> octets \<Rightarrow> octets \<Rightarrow>
    octets \<Rightarrow> octet \<Rightarrow> octet \<Rightarrow> octet \<Rightarrow> octets \<Rightarrow> BindTransmitter" where
  "new_BindTransmitter sequenceNumber system_id' password' system_type' interface_version'
     addr_ton' addr_npi' address_range' =
     update_length (of_nat (length system_id' + length password' + length system_type' + length address_range'))
     \<lparr> command_length = 23, command_id = 0x00000002, command_status = 0,
     sequence_number = sequenceNumber, tlv_list = [], system_id = system_id',
     password = password', system_type = system_type', interface_version = interface_version',
     addr_ton = addr_ton', addr_npi = addr_npi', address_range = address_range' \<rparr>"

definition BindTransmitter_puts :: "BindTransmitter \<Rightarrow> (Buffer \<Rightarrow> Buffer result) list" where
  "BindTransmitter_puts p =
     [put_String (system_id p), put_String (password p), put_String (system_type p),
      put_Uint8 (interface_version p), put_Uint8 (addr_ton p), put_Uint8 (addr_npi p),
      put_String (address_range p)]"

definition BindTransmitter_encode :: "BindTransmitter \<Rightarrow> Buffer result" where
  "BindTransmitter_encode = encode_frame BindTransmitter_puts"

definition BindTransmitter_read :: "BindTransmitter \<Rightarrow> octets \<Rightarrow> nat \<Rightarrow> string \<Rightarrow> (BindTransmitter \<times> nat) result" where
  "BindTransmitter_read p buff len err =
     bind2 (get_String SystemId_assign (drop 16 buff) len err 16) (\<lambda>system_id' offset.
     bind2 (get_String Password_assign (drop offset buff) len err offset) (\<lambda>password' offset.
     bind2 (get_String SystemType_assign (drop offset buff) len err offset) (\<lambda>system_type' offset.
     bind2 (get_unchecked_Uint8 (drop offset buff) len err offset) (\<lambda>interface_version' offset.
     bind2 (get_unchecked_Uint8 (drop offset buff) len err offset) (\<lambda>addr_ton' offset.
     bind2 (get_unchecked_Uint8 (drop offset buff) len err offset) (\<lambda>addr_npi' offset.
     bind2 (get_String AddressRange_assign (drop offset buff) len err offset) (\<lambda>address_range' offset.
     Inr (p\<lparr> system_id := system_id', password := password', system_type := system_type',
       interface_version := interface_version', addr_ton := addr_ton', addr_npi := addr_npi',
       address_range := address_range' \<rparr>, offset))))))))"

definition BindTransmitter_decode :: "BindTransmitter \<Rightarrow> octets \<Rightarrow> BindTransmitter result" where
  "BindTransmitter_decode = decode_frame ''Invalid bind PDU length'' BindTransmitter_read"

abbreviation BindTransmitter_blank :: BindTransmitter where
  "BindTransmitter_blank \<equiv> BindTransmitter_default\<lparr> sequence_number := 1 \<rparr>"

definition BindTransmitter_from :: "octets \<Rightarrow> BindTransmitter result" where
  "BindTransmitter_from b = BindTransmitter_decode BindTransmitter_blank b"

definition BindTransmitter_body :: "BindTransmitter \<Rightarrow> octets" where
  "BindTransmitter_body p =
     String_octets (system_id p) @ String_octets (password p) @ String_octets (system_type p) @
     Uint8_octets (interface_version p) @ Uint8_octets (addr_ton p) @ Uint8_octets (addr_npi p) @
     String_octets (address_range p)"

definition BindTransmitter_fields_ok :: "BindTransmitter \<Rightarrow> bool" where
  "BindTransmitter_fields_ok p \<longleftrightarrow>
     SystemId_ok (system_id p) \<and> Password_ok (password p) \<and>
     SystemType_ok (system_type p) \<and> AddressRange_ok (address_range p)"

interpretation bind_transmitter: pdu_body BindTransmitter_puts BindTransmitter_read "''Invalid bind PDU length''"
  BindTransmitter_blank BindTransmitter_body BindTransmitter_fields_ok
proof (unfold_locales, goal_cases)
  case (1 p)
  show ?case
    unfolding BindTransmitter_puts_def BindTransmitter_body_def by (rule writes_eq, (rule writes_intro)+, simp)
next
  case 2
  show ?case by (simp add: BindTransmitter_default_def)
next
  case (3 p q)
  then show ?case by (cases p, cases q) (simp add: BindTransmitter_body_def)
next
  case (4 p q)
  then show ?case by (cases p, cases q) (simp add: BindTransmitter_fields_ok_def)
next
  case (5 p g b rest len)
  then show ?case
    by (cases p, cases g) (simp add: BindTransmitter_read_def field_simps_read BindTransmitter_body_def
      BindTransmitter_fields_ok_def drop_plus del: drop_drop cong: bind2_cong)
next
  case (6 g b len q off)
  from 6(1) [THEN reading_start, of b] show ?case
    unfolding BindTransmitter_read_def
    by (elim step_elim)
      (cases g, clarsimp simp: reading_end BindTransmitter_body_def BindTransmitter_fields_ok_def)
qed

definition BindTransmitter_set_system_id :: "octets \<Rightarrow> BindTransmitter \<Rightarrow> BindTransmitter" where
  "BindTransmitter_set_system_id v p = update_length (diff v (system_id p)) (p\<lparr> system_id := v \<rparr>)"

definition BindTransmitter_set_system_id_Char :: "octets \<Rightarrow> BindTransmitter \<Rightarrow> BindTransmitter result" where
  "BindTransmitter_set_system_id_Char s p = bind2 (assign_diff SystemId_assign s (system_id p))
     (\<lambda>v d. Inr (update_length d (p\<lparr> system_id := v \<rparr>)))"

definition BindTransmitter_set_password :: "octets \<Rightarrow> BindTransmitter \<Rightarrow> BindTransmitter" where
  "BindTransmitter_set_password v p = update_length (diff v (password p)) (p\<lparr> password := v \<rparr>)"

definition BindTransmitter_set_password_Char :: "octets \<Rightarrow> BindTransmitter \<Rightarrow> BindTransmitter result" where
  "BindTransmitter_set_password_Char s p = bind2 (assign_diff Password_assign s (password p))
     (\<lambda>v d. Inr (update_length d (p\<lparr> password := v \<rparr>)))"

definition BindTransmitter_set_system_type :: "octets \<Rightarrow> BindTransmitter \<Rightarrow> BindTransmitter" where
  "BindTransmitter_set_system_type v p = update_length (diff v (system_type p)) (p\<lparr> system_type := v \<rparr>)"

definition BindTransmitter_set_system_type_Char :: "octets \<Rightarrow> BindTransmitter \<Rightarrow> BindTransmitter result" where
  "BindTransmitter_set_system_type_Char s p = bind2 (assign_diff SystemType_assign s (system_type p))
     (\<lambda>v d. Inr (update_length d (p\<lparr> system_type := v \<rparr>)))"

definition BindTransmitter_set_interface_version :: "int \<Rightarrow> BindTransmitter \<Rightarrow> BindTransmitter result" where
  "BindTransmitter_set_interface_version v p = bind (InterfaceVersion v) (\<lambda>x. Inr (p\<lparr> interface_version := x \<rparr>))"

definition BindTransmitter_set_addr_ton :: "int \<Rightarrow> BindTransmitter \<Rightarrow> BindTransmitter" where
  "BindTransmitter_set_addr_ton v p = p\<lparr> addr_ton := word_of_int v \<rparr>"

definition BindTransmitter_set_addr_npi :: "int \<Rightarrow> BindTransmitter \<Rightarrow> BindTransmitter" where
  "BindTransmitter_set_addr_npi v p = p\<lparr> addr_npi := word_of_int v \<rparr>"

definition BindTransmitter_set_address_range :: "octets \<Rightarrow> BindTransmitter \<Rightarrow> BindTransmitter" where
  "BindTransmitter_set_address_range v p = update_length (diff v (address_range p)) (p\<lparr> address_range := v \<rparr>)"

definition BindTransmitter_set_address_range_Char :: "octets \<Rightarrow> BindTransmitter \<Rightarrow> BindTransmitter result" where
  "BindTransmitter_set_address_range_Char s p = bind2 (assign_diff AddressRange_assign s (address_range p))
     (\<lambda>v d. Inr (update_length d (p\<lparr> address_range := v \<rparr>)))"

text \<open>The objects that constructors and mutators build.\<close>

inductive BindTransmitter_reachable :: "BindTransmitter \<Rightarrow> bool" where
  default: "BindTransmitter_reachable BindTransmitter_default"
| ctor: "BindTransmitter_reachable (new_BindTransmitter n x0 x1 x2 x3 x4 x5 x6)"
| from_buffer: "BindTransmitter_from b = Inr p \<Longrightarrow> BindTransmitter_reachable p"
| inherited: "BindTransmitter_reachable p \<Longrightarrow> header_op p q \<Longrightarrow> BindTransmitter_reachable q"
| set_system_id: "BindTransmitter_reachable p \<Longrightarrow> BindTransmitter_reachable (BindTransmitter_set_system_id v p)"
| set_system_id_Char: "BindTransmitter_reachable p \<Longrightarrow> BindTransmitter_set_system_id_Char s p = Inr q \<Longrightarrow> BindTransmitter_reachable q"
| set_password: "BindTransmitter_reachable p \<Longrightarrow> BindTransmitter_reachable (BindTransmitter_set_password v p)"
| set_password_Char: "BindTransmitter_reachable p \<Longrightarrow> BindTransmitter_set_password_Char s p = Inr q \<Longrightarrow> BindTransmitter_reachable q"
| set_system_type: "BindTransmitter_reachable p \<Longrightarrow> BindTransmitter_reachable (BindTransmitter_set_system_type v p)"
| set_system_type_Char: "BindTransmitter_reachable p \<Longrightarrow> BindTransmitter_set_system_type_Char s p = Inr q \<Longrightarrow> BindTransmitter_reachable q"
| set_interface_version: "BindTransmitter_reachable p \<Longrightarrow> BindTransmitter_set_interface_version v p = Inr q \<Longrightarrow> BindTransmitter_reachable q"
| set_addr_ton: "BindTransmitter_reachable p \<Longrightarrow> BindTransmitter_reachable (BindTransmitter_set_addr_ton v p)"
| set_addr_npi: "BindTransmitter_reachable p \<Longrightarrow> BindTransmitter_reachable (BindTransmitter_set_addr_npi v p)"
| set_address_range: "BindTransmitter_reachable p \<Longrightarrow> BindTransmitter_reachable (BindTransmitter_set_address_range v p)"
| set_address_range_Char: "BindTransmitter_reachable p \<Longrightarrow> BindTransmitter_set_address_range_Char s p = Inr q \<Longrightarrow> BindTransmitter_reachable q"

lemma bind_transmitter_frame_ok: "BindTransmitter_reachable p \<Longrightarrow> frame_ok p (length (BindTransmitter_body p))"
proof (induction rule: BindTransmitter_reachable.induct)
  case default
  show ?case by (simp add: BindTransmitter_default_def BindTransmitter_body_def setter_simps
    )
next
  case ctor
  show ?case by (simp add: new_BindTransmitter_def BindTransmitter_body_def setter_simps
    )
next
  case (from_buffer b p)
  then show ?case
    using bind_transmitter.from_frame [of b p] by (simp add: BindTransmitter_from_def BindTransmitter_decode_def)
next
  case (inherited p q)
  then show ?case using bind_transmitter.header_op_frame [of p q] by simp
qed (auto simp: BindTransmitter_set_system_id_def BindTransmitter_set_system_id_Char_def
      BindTransmitter_set_password_def BindTransmitter_set_password_Char_def
      BindTransmitter_set_system_type_def
      BindTransmitter_set_system_type_Char_def
      BindTransmitter_set_interface_version_def
      BindTransmitter_set_addr_ton_def BindTransmitter_set_addr_npi_def
      BindTransmitter_set_address_range_def
      BindTransmitter_set_address_range_Char_def
      BindTransmitter_body_def setter_simps bind_eq_Inr bind2_eq_Inr assigns_def InterfaceVersion_def
      dest!: diff_InrD split: if_splits)

section \<open>BindReceiver\<close>

text \<open>\<open>bind_receiver.hpp\<close> and \<open>bind_receiver.cpp\<close>.\<close>

record BindReceiver = Header +
  system_id :: octets
  password :: octets
  system_type :: octets
  interface_version :: octet
  addr_ton :: octet
  addr_npi :: octet
  address_range :: octets

definition BindReceiver_default :: BindReceiver where
  "BindReceiver_default =
     \<lparr> command_length = 23, command_id = 0x00000001, command_status = 0,
     sequence_number = SequenceNumber_Min, tlv_list = [], system_id = [], password = [],
     system_type = [], interface_version = 0x34, addr_ton = 0, addr_npi = 0, address_range = [] \<rparr>"

definition new_BindReceiver :: "uint32 \<Rightarrow> octets \<Rightarrow> octets \<Rightarrow>
    octets \<Rightarrow> octet \<Rightarrow> octet \<Rightarrow> octet \<Rightarrow> octets \<Rightarrow> BindReceiver" where
  "new_BindReceiver sequenceNumber system_id' password' system_type' interface_version' addr_ton'
     addr_npi' address_range' =
     update_length (of_nat (length system_id' + length password' + length system_type' + length address_range'))
     \<lparr> command_length = 23, command_id = 0x00000001, command_status = 0,
     sequence_number = sequenceNumber, tlv_list = [], system_id = system_id',
     password = password', system_type = system_type', interface_version = interface_version',
     addr_ton = addr_ton', addr_npi = addr_npi', address_range = address_range' \<rparr>"

definition BindReceiver_puts :: "BindReceiver \<Rightarrow> (Buffer \<Rightarrow> Buffer result) list" where
  "BindReceiver_puts p =
     [put_String (system_id p), put_String (password p), put_String (system_type p),
      put_Uint8 (interface_version p), put_Uint8 (addr_ton p), put_Uint8 (addr_npi p),
      put_String (address_range p)]"

definition BindReceiver_encode :: "BindReceiver \<Rightarrow> Buffer result" where
  "BindReceiver_encode = encode_frame BindReceiver_puts"

definition BindReceiver_read :: "BindReceiver \<Rightarrow> octets \<Rightarrow> nat \<Rightarrow> string \<Rightarrow> (BindReceiver \<times> nat) result" where
  "BindReceiver_read p buff len err =
     bind2 (get_String SystemId_assign (drop 16 buff) len err 16) (\<lambda>system_id' offset.
     bind2 (get_String Password_assign (drop offset buff) len err offset) (\<lambda>password' offset.
     bind2 (get_String SystemType_assign (drop offset buff) len err offset) (\<lambda>system_type' offset.
     bind2 (get_unchecked_Uint8 (drop offset buff) len err offset) (\<lambda>interface_version' offset.
     bind2 (get_unchecked_Uint8 (drop offset buff) len err offset) (\<lambda>addr_ton' offset.
     bind2 (get_unchecked_Uint8 (drop offset buff) len err offset) (\<lambda>addr_npi' offset.
     bind2 (get_String AddressRange_assign (drop offset buff) len err offset) (\<lambda>address_range' offset.
     Inr (p\<lparr> system_id := system_id', password := password', system_type := system_type',
       interface_version := interface_version', addr_ton := addr_ton', addr_npi := addr_npi',
       address_range := address_range' \<rparr>, offset))))))))"

definition BindReceiver_decode :: "BindReceiver \<Rightarrow> octets \<Rightarrow> BindReceiver result" where
  "BindReceiver_decode = decode_frame ''Invalid bind PDU length'' BindReceiver_read"

abbreviation BindReceiver_blank :: BindReceiver where
  "BindReceiver_blank \<equiv> BindReceiver_default\<lparr> sequence_number := 1 \<rparr>"

definition BindReceiver_from :: "octets \<Rightarrow> BindReceiver result" where
  "BindReceiver_from b = BindReceiver_decode BindReceiver_blank b"

definition BindReceiver_body :: "BindReceiver \<Rightarrow> octets" where
  "BindReceiver_body p =
     String_octets (system_id p) @ String_octets (password p) @ String_octets (system_type p) @
     Uint8_octets (interface_version p) @ Uint8_octets (addr_ton p) @ Uint8_octets (addr_npi p) @
     String_octets (address_range p)"

definition BindReceiver_fields_ok :: "BindReceiver \<Rightarrow> bool" where
  "BindReceiver_fields_ok p \<longleftrightarrow>
     SystemId_ok (system_id p) \<and> Password_ok (password p) \<and>
     SystemType_ok (system_type p) \<and> AddressRange_ok (address_range p)"

interpretation bind_receiver: pdu_body BindReceiver_puts BindReceiver_read "''Invalid bind PDU length''"
  BindReceiver_blank BindReceiver_body BindReceiver_fields_ok
proof (unfold_locales, goal_cases)
  case (1 p)
  show ?case
    unfolding BindReceiver_puts_def BindReceiver_body_def by (rule writes_eq, (rule writes_intro)+, simp)
next
  case 2
  show ?case by (simp add: BindReceiver_default_def)
next
  case (3 p q)
  then show ?case by (cases p, cases q) (simp add: BindReceiver_body_def)
next
  case (4 p q)
  then show ?case by (cases p, cases q) (simp add: BindReceiver_fields_ok_def)
next
  case (5 p g b rest len)
  then show ?case
    by (cases p, cases g) (simp add: BindReceiver_read_def field_simps_read BindReceiver_body_def
      BindReceiver_fields_ok_def drop_plus del: drop_drop cong: bind2_cong)
next
  case (6 g b len q off)
  from 6(1) [THEN reading_start, of b] show ?case
    unfolding BindReceiver_read_def
    by (elim step_elim)
      (cases g, clarsimp simp: reading_end BindReceiver_body_def BindReceiver_fields_ok_def)
qed

definition BindReceiver_set_system_id :: "octets \<Rightarrow> BindReceiver \<Rightarrow> BindReceiver" where
  "BindReceiver_set_system_id v p = update_length (diff v (system_id p)) (p\<lparr> system_id := v \<rparr>)"

definition BindReceiver_set_system_id_Char :: "octets \<Rightarrow> BindReceiver \<Rightarrow> BindReceiver result" where
  "BindReceiver_set_system_id_Char s p = bind2 (assign_diff SystemId_assign s (system_id p))
     (\<lambda>v d. Inr (update_length d (p\<lparr> system_id := v \<rparr>)))"

definition BindReceiver_set_password :: "octets \<Rightarrow> BindReceiver \<Rightarrow> BindReceiver" where
  "BindReceiver_set_password v p = update_length (diff v (password p)) (p\<lparr> password := v \<rparr>)"

definition BindReceiver_set_password_Char :: "octets \<Rightarrow> BindReceiver \<Rightarrow> BindReceiver result" where
  "BindReceiver_set_password_Char s p = bind2 (assign_diff Password_assign s (password p))
     (\<lambda>v d. Inr (update_length d (p\<lparr> password := v \<rparr>)))"

definition BindReceiver_set_system_type :: "octets \<Rightarrow> BindReceiver \<Rightarrow> BindReceiver" where
  "BindReceiver_set_system_type v p = update_length (diff v (system_type p)) (p\<lparr> system_type := v \<rparr>)"

definition BindReceiver_set_system_type_Char :: "octets \<Rightarrow> BindReceiver \<Rightarrow> BindReceiver result" where
  "BindReceiver_set_system_type_Char s p = bind2 (assign_diff SystemType_assign s (system_type p))
     (\<lambda>v d. Inr (update_length d (p\<lparr> system_type := v \<rparr>)))"

definition BindReceiver_set_interface_version :: "int \<Rightarrow> BindReceiver \<Rightarrow> BindReceiver result" where
  "BindReceiver_set_interface_version v p = bind (InterfaceVersion v) (\<lambda>x. Inr (p\<lparr> interface_version := x \<rparr>))"

definition BindReceiver_set_addr_ton :: "int \<Rightarrow> BindReceiver \<Rightarrow> BindReceiver" where
  "BindReceiver_set_addr_ton v p = p\<lparr> addr_ton := word_of_int v \<rparr>"

definition BindReceiver_set_addr_npi :: "int \<Rightarrow> BindReceiver \<Rightarrow> BindReceiver" where
  "BindReceiver_set_addr_npi v p = p\<lparr> addr_npi := word_of_int v \<rparr>"

definition BindReceiver_set_address_range :: "octets \<Rightarrow> BindReceiver \<Rightarrow> BindReceiver" where
  "BindReceiver_set_address_range v p = update_length (diff v (address_range p)) (p\<lparr> address_range := v \<rparr>)"

definition BindReceiver_set_address_range_Char :: "octets \<Rightarrow> BindReceiver \<Rightarrow> BindReceiver result" where
  "BindReceiver_set_address_range_Char s p = bind2 (assign_diff AddressRange_assign s (address_range p))
     (\<lambda>v d. Inr (update_length d (p\<lparr> address_range := v \<rparr>)))"

text \<open>The objects that constructors and mutators build.\<close>

inductive BindReceiver_reachable :: "BindReceiver \<Rightarrow> bool" where
  default: "BindReceiver_reachable BindReceiver_default"
| ctor: "BindReceiver_reachable (new_BindReceiver n x0 x1 x2 x3 x4 x5 x6)"
| from_buffer: "BindReceiver_from b = Inr p \<Longrightarrow> BindReceiver_reachable p"
| inherited: "BindReceiver_reachable p \<Longrightarrow> header_op p q \<Longrightarrow> BindReceiver_reachable q"
| set_system_id: "BindReceiver_reachable p \<Longrightarrow> BindReceiver_reachable (BindReceiver_set_system_id v p)"
| set_system_id_Char: "BindReceiver_reachable p \<Longrightarrow> BindReceiver_set_system_id_Char s p = Inr q \<Longrightarrow> BindReceiver_reachable q"
| set_password: "BindReceiver_reachable p \<Longrightarrow> BindReceiver_reachable (BindReceiver_set_password v p)"
| set_password_Char: "BindReceiver_reachable p \<Longrightarrow> BindReceiver_set_password_Char s p = Inr q \<Longrightarrow> BindReceiver_reachable q"
| set_system_type: "BindReceiver_reachable p \<Longrightarrow> BindReceiver_reachable (BindReceiver_set_system_type v p)"
| set_system_type_Char: "BindReceiver_reachable p \<Longrightarrow> BindReceiver_set_system_type_Char s p = Inr q \<Longrightarrow> BindReceiver_reachable q"
| set_interface_version: "BindReceiver_reachable p \<Longrightarrow> BindReceiver_set_interface_version v p = Inr q \<Longrightarrow> BindReceiver_reachable q"
| set_addr_ton: "BindReceiver_reachable p \<Longrightarrow> BindReceiver_reachable (BindReceiver_set_addr_ton v p)"
| set_addr_npi: "BindReceiver_reachable p \<Longrightarrow> BindReceiver_reachable (BindReceiver_set_addr_npi v p)"
| set_address_range: "BindReceiver_reachable p \<Longrightarrow> BindReceiver_reachable (BindReceiver_set_address_range v p)"
| set_address_range_Char: "BindReceiver_reachable p \<Longrightarrow> BindReceiver_set_address_range_Char s p = Inr q \<Longrightarrow> BindReceiver_reachable q"

lemma bind_receiver_frame_ok: "BindReceiver_reachable p \<Longrightarrow> frame_ok p (length (BindReceiver_body p))"
proof (induction rule: BindReceiver_reachable.induct)
  case default
  show ?case by (simp add: BindReceiver_default_def BindReceiver_body_def setter_simps
    )
next
  case ctor
  show ?case by (simp add: new_BindReceiver_def BindReceiver_body_def setter_simps
    )
next
  case (from_buffer b p)
  then show ?case
    using bind_receiver.from_frame [of b p] by (simp add: BindReceiver_from_def BindReceiver_decode_def)
next
  case (inherited p q)
  then show ?case using bind_receiver.header_op_frame [of p q] by simp
qed (auto simp: BindReceiver_set_system_id_def BindReceiver_set_system_id_Char_def
      BindReceiver_set_password_def BindReceiver_set_password_Char_def
      BindReceiver_set_system_type_def BindReceiver_set_system_type_Char_def
      BindReceiver_set_interface_version_def BindReceiver_set_addr_ton_def
      BindReceiver_set_addr_npi_def BindReceiver_set_address_range_def
      BindReceiver_set_address_range_Char_def
      BindReceiver_body_def setter_simps bind_eq_Inr bind2_eq_Inr assigns_def InterfaceVersion_def
      dest!: diff_InrD split: if_splits)

section \<open>BindTransceiver\<close>

text \<open>\<open>bind_transceiver.hpp\<close> and \<open>bind_transceiver.cpp\<close>.\<close>

record BindTransceiver = Header +
  system_id :: octets
  password :: octets
  system_type :: octets
  interface_version :: octet
  addr_ton :: octet
  addr_npi :: octet
  address_range :: octets

definition BindTransceiver_default :: BindTransceiver where
  "BindTransceiver_default =
     \<lparr> command_length = 23, command_id = 0x00000009, command_status = 0,
     sequence_number = SequenceNumber_Min, tlv_list = [], system_id = [], password = [],
     system_type = [], interface_version = 0x34, addr_ton = 0, addr_npi = 0, address_range = [] \<rparr>"

definition new_BindTransceiver :: "uint32 \<Rightarrow> octets \<Rightarrow> octets \<Rightarrow>
    octets \<Rightarrow> octet \<Rightarrow> octet \<Rightarrow> octet \<Rightarrow> octets \<Rightarrow> BindTransceiver" where
  "new_BindTransceiver sequenceNumber system_id' password' system_type' interface_version'
     addr_ton' addr_npi' address_range' =
     update_length (of_nat (length system_id' + length password' + length system_type' + length address_range'))
     \<lparr> command_length = 23, command_id = 0x00000009, command_status = 0,
     sequence_number = sequenceNumber, tlv_list = [], system_id = system_id',
     password = password', system_type = system_type', interface_version = interface_version',
     addr_ton = addr_ton', addr_npi = addr_npi', address_range = address_range' \<rparr>"

definition BindTransceiver_puts :: "BindTransceiver \<Rightarrow> (Buffer \<Rightarrow> Buffer result) list" where
  "BindTransceiver_puts p =
     [put_String (system_id p), put_String (password p), put_String (system_type p),
      put_Uint8 (interface_version p), put_Uint8 (addr_ton p), put_Uint8 (addr_npi p),
      put_String (address_range p)]"

definition BindTransceiver_encode :: "BindTransceiver \<Rightarrow> Buffer result" where
  "BindTransceiver_encode = encode_frame BindTransceiver_puts"

definition BindTransceiver_read :: "BindTransceiver \<Rightarrow> octets \<Rightarrow> nat \<Rightarrow> string \<Rightarrow> (BindTransceiver \<times> nat) result" where
  "BindTransceiver_read p buff len err =
     bind2 (get_String SystemId_assign (drop 16 buff) len err 16) (\<lambda>system_id' offset.
     bind2 (get_String Password_assign (drop offset buff) len err offset) (\<lambda>password' offset.
     bind2 (get_String SystemType_assign (drop offset buff) len err offset) (\<lambda>system_type' offset.
     bind2 (get_unchecked_Uint8 (drop offset buff) len err offset) (\<lambda>interface_version' offset.
     bind2 (get_unchecked_Uint8 (drop offset buff) len err offset) (\<lambda>addr_ton' offset.
     bind2 (get_unchecked_Uint8 (drop offset buff) len err offset) (\<lambda>addr_npi' offset.
     bind2 (get_String AddressRange_assign (drop offset buff) len err offset) (\<lambda>address_range' offset.
     Inr (p\<lparr> system_id := system_id', password := password', system_type := system_type',
       interface_version := interface_version', addr_ton := addr_ton', addr_npi := addr_npi',
       address_range := address_range' \<rparr>, offset))))))))"

definition BindTransceiver_decode :: "BindTransceiver \<Rightarrow> octets \<Rightarrow> BindTransceiver result" where
  "BindTransceiver_decode = decode_frame ''Invalid bind PDU length'' BindTransceiver_read"

abbreviation BindTransceiver_blank :: BindTransceiver where
  "BindTransceiver_blank \<equiv> BindTransceiver_default\<lparr> sequence_number := 1 \<rparr>"

definition BindTransceiver_from :: "octets \<Rightarrow> BindTransceiver result" where
  "BindTransceiver_from b = BindTransceiver_decode BindTransceiver_blank b"

definition BindTransceiver_body :: "BindTransceiver \<Rightarrow> octets" where
  "BindTransceiver_body p =
     String_octets (system_id p) @ String_octets (password p) @ String_octets (system_type p) @
     Uint8_octets (interface_version p) @ Uint8_octets (addr_ton p) @ Uint8_octets (addr_npi p) @
     String_octets (address_range p)"

definition BindTransceiver_fields_ok :: "BindTransceiver \<Rightarrow> bool" where
  "BindTransceiver_fields_ok p \<longleftrightarrow>
     SystemId_ok (system_id p) \<and> Password_ok (password p) \<and>
     SystemType_ok (system_type p) \<and> AddressRange_ok (address_range p)"

interpretation bind_transceiver: pdu_body BindTransceiver_puts BindTransceiver_read "''Invalid bind PDU length''"
  BindTransceiver_blank BindTransceiver_body BindTransceiver_fields_ok
proof (unfold_locales, goal_cases)
  case (1 p)
  show ?case
    unfolding BindTransceiver_puts_def BindTransceiver_body_def by (rule writes_eq, (rule writes_intro)+, simp)
next
  case 2
  show ?case by (simp add: BindTransceiver_default_def)
next
  case (3 p q)
  then show ?case by (cases p, cases q) (simp add: BindTransceiver_body_def)
next
  case (4 p q)
  then show ?case by (cases p, cases q) (simp add: BindTransceiver_fields_ok_def)
next
  case (5 p g b rest len)
  then show ?case
    by (cases p, cases g) (simp add: BindTransceiver_read_def field_simps_read BindTransceiver_body_def
      BindTransceiver_fields_ok_def drop_plus del: drop_drop cong: bind2_cong)
next
  case (6 g b len q off)
  from 6(1) [THEN reading_start, of b] show ?case
    unfolding BindTransceiver_read_def
    by (elim step_elim)
      (cases g, clarsimp simp: reading_end BindTransceiver_body_def BindTransceiver_fields_ok_def)
qed

definition BindTransceiver_set_system_id :: "octets \<Rightarrow> BindTransceiver \<Rightarrow> BindTransceiver" where
  "BindTransceiver_set_system_id v p = update_length (diff v (system_id p)) (p\<lparr> system_id := v \<rparr>)"

definition BindTransceiver_set_system_id_Char :: "octets \<Rightarrow> BindTransceiver \<Rightarrow> BindTransceiver result" where
  "BindTransceiver_set_system_id_Char s p = bind2 (assign_diff SystemId_assign s (system_id p))
     (\<lambda>v d. Inr (update_length d (p\<lparr> system_id := v \<rparr>)))"

definition BindTransceiver_set_password :: "octets \<Rightarrow> BindTransceiver \<Rightarrow> BindTransceiver" where
  "BindTransceiver_set_password v p = update_length (diff v (password p)) (p\<lparr> password := v \<rparr>)"

definition BindTransceiver_set_password_Char :: "octets \<Rightarrow> BindTransceiver \<Rightarrow> BindTransceiver result" where
  "BindTransceiver_set_password_Char s p = bind2 (assign_diff Password_assign s (password p))
     (\<lambda>v d. Inr (update_length d (p\<lparr> password := v \<rparr>)))"

definition BindTransceiver_set_system_type :: "octets \<Rightarrow> BindTransceiver \<Rightarrow> BindTransceiver" where
  "BindTransceiver_set_system_type v p = update_length (diff v (system_type p)) (p\<lparr> system_type := v \<rparr>)"

definition BindTransceiver_set_system_type_Char :: "octets \<Rightarrow> BindTransceiver \<Rightarrow> BindTransceiver result" where
  "BindTransceiver_set_system_type_Char s p = bind2 (assign_diff SystemType_assign s (system_type p))
     (\<lambda>v d. Inr (update_length d (p\<lparr> system_type := v \<rparr>)))"

definition BindTransceiver_set_interface_version :: "int \<Rightarrow> BindTransceiver \<Rightarrow> BindTransceiver result" where
  "BindTransceiver_set_interface_version v p = bind (InterfaceVersion v) (\<lambda>x. Inr (p\<lparr> interface_version := x \<rparr>))"

definition BindTransceiver_set_addr_ton :: "int \<Rightarrow> BindTransceiver \<Rightarrow> BindTransceiver" where
  "BindTransceiver_set_addr_ton v p = p\<lparr> addr_ton := word_of_int v \<rparr>"

definition BindTransceiver_set_addr_npi :: "int \<Rightarrow> BindTransceiver \<Rightarrow> BindTransceiver" where
  "BindTransceiver_set_addr_npi v p = p\<lparr> addr_npi := word_of_int v \<rparr>"

definition BindTransceiver_set_address_range :: "octets \<Rightarrow> BindTransceiver \<Rightarrow> BindTransceiver" where
  "BindTransceiver_set_address_range v p = update_length (diff v (address_range p)) (p\<lparr> address_range := v \<rparr>)"

definition BindTransceiver_set_address_range_Char :: "octets \<Rightarrow> BindTransceiver \<Rightarrow> BindTransceiver result" where
  "BindTransceiver_set_address_range_Char s p = bind2 (assign_diff AddressRange_assign s (address_range p))
     (\<lambda>v d. Inr (update_length d (p\<lparr> address_range := v \<rparr>)))"

text \<open>The objects that constructors and mutators build.\<close>

inductive BindTransceiver_reachable :: "BindTransceiver \<Rightarrow> bool" where
  default: "BindTransceiver_reachable BindTransceiver_default"
| ctor: "BindTransceiver_reachable (new_BindTransceiver n x0 x1 x2 x3 x4 x5 x6)"
| from_buffer: "BindTransceiver_from b = Inr p \<Longrightarrow> BindTransceiver_reachable p"
| inherited: "BindTransceiver_reachable p \<Longrightarrow> header_op p q \<Longrightarrow> BindTransceiver_reachable q"
| set_system_id: "BindTransceiver_reachable p \<Longrightarrow> BindTransceiver_reachable (BindTransceiver_set_system_id v p)"
| set_system_id_Char: "BindTransceiver_reachable p \<Longrightarrow> BindTransceiver_set_system_id_Char s p = Inr q \<Longrightarrow> BindTransceiver_reachable q"
| set_password: "BindTransceiver_reachable p \<Longrightarrow> BindTransceiver_reachable (BindTransceiver_set_password v p)"
| set_password_Char: "BindTransceiver_reachable p \<Longrightarrow> BindTransceiver_set_password_Char s p = Inr q \<Longrightarrow> BindTransceiver_reachable q"
| set_system_type: "BindTransceiver_reachable p \<Longrightarrow> BindTransceiver_reachable (BindTransceiver_set_system_type v p)"
| set_system_type_Char: "BindTransceiver_reachable p \<Longrightarrow> BindTransceiver_set_system_type_Char s p = Inr q \<Longrightarrow> BindTransceiver_reachable q"
| set_interface_version: "BindTransceiver_reachable p \<Longrightarrow> BindTransceiver_set_interface_version v p = Inr q \<Longrightarrow> BindTransceiver_reachable q"
| set_addr_ton: "BindTransceiver_reachable p \<Longrightarrow> BindTransceiver_reachable (BindTransceiver_set_addr_ton v p)"
| set_addr_npi: "BindTransceiver_reachable p \<Longrightarrow> BindTransceiver_reachable (BindTransceiver_set_addr_npi v p)"
| set_address_range: "BindTransceiver_reachable p \<Longrightarrow> BindTransceiver_reachable (BindTransceiver_set_address_range v p)"
| set_address_range_Char: "BindTransceiver_reachable p \<Longrightarrow> BindTransceiver_set_address_range_Char s p = Inr q \<Longrightarrow> BindTransceiver_reachable q"

lemma bind_transceiver_frame_ok: "BindTransceiver_reachable p \<Longrightarrow> frame_ok p (length (BindTransceiver_body p))"
proof (induction rule: BindTransceiver_reachable.induct)
  case default
  show ?case by (simp add: BindTransceiver_default_def BindTransceiver_body_def setter_simps
    )
next
  case ctor
  show ?case by (simp add: new_BindTransceiver_def BindTransceiver_body_def setter_simps
    )
next
  case (from_buffer b p)
  then show ?case
    using bind_transceiver.from_frame [of b p] by (simp add: BindTransceiver_from_def BindTransceiver_decode_def)
next
  case (inherited p q)
  then show ?case using bind_transceiver.header_op_frame [of p q] by simp
qed (auto simp: BindTransceiver_set_system_id_def BindTransceiver_set_system_id_Char_def
      BindTransceiver_set_password_def BindTransceiver_set_password_Char_def
      BindTransceiver_set_system_type_def
      BindTransceiver_set_system_type_Char_def
      BindTransceiver_set_interface_version_def
      BindTransceiver_set_addr_ton_def BindTransceiver_set_addr_npi_def
      BindTransceiver_set_address_range_def
      BindTransceiver_set_address_range_Char_def
      BindTransceiver_body_def setter_simps bind_eq_Inr bind2_eq_Inr assigns_def InterfaceVersion_def
      dest!: diff_InrD split: if_splits)

section \<open>Outbind\<close>

text \<open>\<open>outbind.hpp\<close> and \<open>outbind.cpp\<close>.\<close>

record Outbind = Header +
  system_id :: octets
  password :: octets

definition Outbind_default :: Outbind where
  "Outbind_default =
     \<lparr> command_length = 18, command_id = 0x0000000B, command_status = 0,
     sequence_number = SequenceNumber_Min, tlv_list = [], system_id = [], password = [] \<rparr>"

definition new_Outbind :: "uint32 \<Rightarrow> octets \<Rightarrow> octets \<Rightarrow> Outbind" where
  "new_Outbind sequenceNumber system_id' password' =
     update_length (of_nat (length system_id' + length password'))
     \<lparr> command_length = 18, command_id = 0x0000000B, command_status = 0,
     sequence_number = sequenceNumber, tlv_list = [], system_id = system_id',
     password = password' \<rparr>"

definition Outbind_puts :: "Outbind \<Rightarrow> (Buffer \<Rightarrow> Buffer result) list" where
  "Outbind_puts p =
     [put_String (system_id p), put_String (password p)]"

definition Outbind_encode :: "Outbind \<Rightarrow> Buffer result" where
  "Outbind_encode = encode_frame Outbind_puts"

definition Outbind_read :: "Outbind \<Rightarrow> octets \<Rightarrow> nat \<Rightarrow> string \<Rightarrow> (Outbind \<times> nat) result" where
  "Outbind_read p buff len err =
     bind2 (get_String SystemId_assign (drop 16 buff) len err 16) (\<lambda>system_id' offset.
     bind2 (get_String Password_assign (drop offset buff) len err offset) (\<lambda>password' offset.
     Inr (p\<lparr> system_id := system_id', password := password' \<rparr>, offset)))"

definition Outbind_decode :: "Outbind \<Rightarrow> octets \<Rightarrow> Outbind result" where
  "Outbind_decode = decode_frame ''Invalid outbind PDU length'' Outbind_read"

abbreviation Outbind_blank :: Outbind where
  "Outbind_blank \<equiv> Outbind_default\<lparr> sequence_number := 1 \<rparr>"

definition Outbind_from :: "octets \<Rightarrow> Outbind result" where
  "Outbind_from b = Outbind_decode Outbind_blank b"

definition Outbind_body :: "Outbind \<Rightarrow> octets" where
  "Outbind_body p =
     String_octets (system_id p) @ String_octets (password p)"

definition Outbind_fields_ok :: "Outbind \<Rightarrow> bool" where
  "Outbind_fields_ok p \<longleftrightarrow>
     SystemId_ok (system_id p) \<and> Password_ok (password p)"

interpretation outbind: pdu_body Outbind_puts Outbind_read "''Invalid outbind PDU length''"
  Outbind_blank Outbind_body Outbind_fields_ok
proof (unfold_locales, goal_cases)
  case (1 p)
  show ?case
    unfolding Outbind_puts_def Outbind_body_def by (rule writes_eq, (rule writes_intro)+, simp)
next
  case 2
  show ?case by (simp add: Outbind_default_def)
next
  case (3 p q)
  then show ?case by (cases p, cases q) (simp add: Outbind_body_def)
next
  case (4 p q)
  then show ?case by (cases p, cases q) (simp add: Outbind_fields_ok_def)
next
  case (5 p g b rest len)
  then show ?case
    by (cases p, cases g) (simp add: Outbind_read_def field_simps_read Outbind_body_def
      Outbind_fields_ok_def drop_plus del: drop_drop cong: bind2_cong)
next
  case (6 g b len q off)
  from 6(1) [THEN reading_start, of b] show ?case
    unfolding Outbind_read_def
    by (elim step_elim)
      (cases g, clarsimp simp: reading_end Outbind_body_def Outbind_fields_ok_def)
qed

definition Outbind_set_system_id :: "octets \<Rightarrow> Outbind \<Rightarrow> Outbind" where
  "Outbind_set_system_id v p = update_length (diff v (system_id p)) (p\<lparr> system_id := v \<rparr>)"

definition Outbind_set_system_id_Char :: "octets \<Rightarrow> Outbind \<Rightarrow> Outbind result" where
  "Outbind_set_system_id_Char s p = bind2 (assign_diff SystemId_assign s (system_id p))
     (\<lambda>v d. Inr (update_length d (p\<lparr> system_id := v \<rparr>)))"

definition Outbind_set_password :: "octets \<Rightarrow> Outbind \<Rightarrow> Outbind" where
  "Outbind_set_password v p = update_length (diff v (password p)) (p\<lparr> password := v \<rparr>)"

definition Outbind_set_password_Char :: "octets \<Rightarrow> Outbind \<Rightarrow> Outbind result" where
  "Outbind_set_password_Char s p = bind2 (assign_diff Password_assign s (password p))
     (\<lambda>v d. Inr (update_length d (p\<lparr> password := v \<rparr>)))"

text \<open>The objects that constructors and mutators build.\<close>

inductive Outbind_reachable :: "Outbind \<Rightarrow> bool" where
  default: "Outbind_reachable Outbind_default"
| ctor: "Outbind_reachable (new_Outbind n x0 x1)"
| from_buffer: "Outbind_from b = Inr p \<Longrightarrow> Outbind_reachable p"
| inherited: "Outbind_reachable p \<Longrightarrow> header_op p q \<Longrightarrow> Outbind_reachable q"
| set_system_id: "Outbind_reachable p \<Longrightarrow> Outbind_reachable (Outbind_set_system_id v p)"
| set_system_id_Char: "Outbind_reachable p \<Longrightarrow> Outbind_set_system_id_Char s p = Inr q \<Longrightarrow> Outbind_reachable q"
| set_password: "Outbind_reachable p \<Longrightarrow> Outbind_reachable (Outbind_set_password v p)"
| set_password_Char: "Outbind_reachable p \<Longrightarrow> Outbind_set_password_Char s p = Inr q \<Longrightarrow> Outbind_reachable q"

lemma outbind_frame_ok: "Outbind_reachable p \<Longrightarrow> frame_ok p (length (Outbind_body p))"
proof (induction rule: Outbind_reachable.induct)
  case default
  show ?case by (simp add: Outbind_default_def Outbind_body_def setter_simps
    )
next
  case ctor
  show ?case by (simp add: new_Outbind_def Outbind_body_def setter_simps
    )
next
  case (from_buffer b p)
  then show ?case
    using outbind.from_frame [of b p] by (simp add: Outbind_from_def Outbind_decode_def)
next
  case (inherited p q)
  then show ?case using outbind.header_op_frame [of p q] by simp
qed (auto simp: Outbind_set_system_id_def Outbind_set_system_id_Char_def
      Outbind_set_password_def Outbind_set_password_Char_def
      Outbind_body_def setter_simps bind_eq_Inr bind2_eq_Inr assigns_def InterfaceVersion_def
      dest!: diff_InrD split: if_splits)

end
