(* ===== verification/Pdu_Bind_Resp.thy ===== *)
theory Pdu_Bind_Resp
  imports Pdu_Ops
begin

text \<open>
  The responses to the three bind PDUs.
  Record, constructors, encoder, decoder and setters of each class, the interpretation of
  \<open>pdu_body\<close> that gives its codec laws, and the invariant of \<open>command_length\<close> over everything
  that constructors and mutators build.
\<close>

section \<open>BindTransmitterResp\<close>

text \<open>\<open>bind_transmitter_resp.hpp\<close> and \<open>bind_transmitter_resp.cpp\<close>.\<close>

record BindTransmitterResp = Header +
  system_id :: octets

definition BindTransmitterResp_default :: BindTransmitterResp where
  "BindTransmitterResp_default =
     \<lparr> command_length = 17, command_id = 0x80000002, command_status = 0,
     sequence_number = SequenceNumber_Min, tlv_list = [], system_id = [] \<rparr>"

definition new_BindTransmitterResp :: "uint32 \<Rightarrow> uint32 \<Rightarrow> octets \<Rightarrow> BindTransmitterResp" where
  "new_BindTransmitterResp commandStatus sequenceNumber system_id' =
     update_length (of_nat (length system_id'))
     \<lparr> command_length = 17, command_id = 0x80000002, command_status = commandStatus,
     sequence_number = sequenceNumber, tlv_list = [], system_id = system_id' \<rparr>"

definition BindTransmitterResp_puts :: "BindTransmitterResp \<Rightarrow> (Buffer \<Rightarrow> Buffer result) list" where
  "BindTransmitterResp_puts p =
     [put_String (system_id p)]"

definition BindTransmitterResp_encode :: "BindTransmitterResp \<Rightarrow> Buffer result" where
  "BindTransmitterResp_encode = encode_frame BindTransmitterResp_puts"

definition BindTransmitterResp_read :: "BindTransmitterResp \<Rightarrow> octets \<Rightarrow> nat \<Rightarrow> string \<Rightarrow> (BindTransmitterResp \<times> nat) result" where
  "BindTransmitterResp_read p buff len err =
     bind2 (get_String SystemId_assign (drop 16 buff) len err 16) (\<lambda>system_id' offset.
     Inr (p\<lparr> system_id := system_id' \<rparr>, offset))"

definition BindTransmitterResp_decode :: "BindTransmitterResp \<Rightarrow> octets \<Rightarrow> BindTransmitterResp result" where
  "BindTransmitterResp_decode = decode_frame ''Bad length in bind_transmitter_resp'' BindTransmitterResp_read"

abbreviation BindTransmitterResp_blank :: BindTransmitterResp where
  "BindTransmitterResp_blank \<equiv> BindTransmitterResp_default\<lparr> sequence_number := 1 \<rparr>"

definition BindTransmitterResp_from :: "octets \<Rightarrow> BindTransmitterResp result" where
  "BindTransmitterResp_from b = BindTransmitterResp_decode BindTransmitterResp_blank b"

definition BindTransmitterResp_body :: "BindTransmitterResp \<Rightarrow> octets" where
  "BindTransmitterResp_body p =
     String_octets (system_id p)"

definition BindTransmitterResp_fields_ok :: "BindTransmitterResp \<Rightarrow> bool" where
  "BindTransmitterResp_fields_ok p \<longleftrightarrow>
     SystemId_ok (system_id p)"

interpretation bind_transmitter_resp: pdu_body BindTransmitterResp_puts BindTransmitterResp_read "''Bad length in bind_transmitter_resp''"
  BindTransmitterResp_blank BindTransmitterResp_body BindTransmitterResp_fields_ok
proof (unfold_locales, goal_cases)
  case (1 p)
  show ?case
    unfolding BindTransmitterResp_puts_def BindTransmitterResp_body_def by (rule writes_eq, (rule writes_intro)+, simp)
next
  case 2
  show ?case by (simp add: BindTransmitterResp_default_def)
next
  case (3 p q)
  then show ?case by (cases p, cases q) (simp add: BindTransmitterResp_body_def)
next
  case (4 p q)
  then show ?case by (cases p, cases q) (simp add: BindTransmitterResp_fields_ok_def)
next
  case (5 p g b rest len)
  then show ?case
    by (cases p, cases g) (simp add: BindTransmitterResp_read_def field_simps_read BindTransmitterResp_body_def
      BindTransmitterResp_fields_ok_def drop_plus del: drop_drop cong: bind2_cong)
next
  case (6 g b len q off)
  from 6(1) [THEN reading_start, of b] show ?case
    unfolding BindTransmitterResp_read_def
    by (elim step_elim)
      (cases g, clarsimp simp: reading_end BindTransmitterResp_body_def BindTransmitterResp_fields_ok_def)
qed

definition BindTransmitterResp_set_system_id :: "octets \<Rightarrow> BindTransmitterResp \<Rightarrow> BindTransmitterResp" where
  "BindTransmitterResp_set_system_id v p = update_length (diff v (system_id p)) (p\<lparr> system_id := v \<rparr>)"

definition BindTransmitterResp_set_system_id_Char :: "octets \<Rightarrow> BindTransmitterResp \<Rightarrow> BindTransmitterResp result" where
  "BindTransmitterResp_set_system_id_Char s p = bind2 (assign_diff SystemId_assign s (system_id p))
     (\<lambda>v d. Inr (update_length d (p\<lparr> system_id := v \<rparr>)))"

text \<open>The objects that constructors and mutators build.\<close>

inductive BindTransmitterResp_reachable :: "BindTransmitterResp \<Rightarrow> bool" where
  default: "BindTransmitterResp_reachable BindTransmitterResp_default"
| ctor: "BindTransmitterResp_reachable (new_BindTransmitterResp st n x0)"
| from_buffer: "BindTransmitterResp_from b = Inr p \<Longrightarrow> BindTransmitterResp_reachable p"
| inherited: "BindTransmitterResp_reachable p \<Longrightarrow> header_op p q \<Longrightarrow> BindTransmitterResp_reachable q"
| set_system_id: "BindTransmitterResp_reachable p \<Longrightarrow> BindTransmitterResp_reachable (BindTransmitterResp_set_system_id v p)"
| set_system_id_Char: "BindTransmitterResp_reachable p \<Longrightarrow> BindTransmitterResp_set_system_id_Char s p = Inr q \<Longrightarrow> BindTransmitterResp_reachable q"

lemma bind_transmitter_resp_frame_ok: "BindTransmitterResp_reachable p \<Longrightarrow> frame_ok p (length (BindTransmitterResp_body p))"
proof (induction rule: BindTransmitterResp_reachable.induct)
  case default
  show ?case by (simp add: BindTransmitterResp_default_def BindTransmitterResp_body_def setter_simps
    )
next
  case ctor
  show ?case by (simp add: new_BindTransmitterResp_def BindTransmitterResp_body_def setter_simps
    )
next
  case (from_buffer b p)
  then show ?case
    using bind_transmitter_resp.from_frame [of b p] by (simp add: BindTransmitterResp_from_def BindTransmitterResp_decode_def)
next
  case (inherited p q)
  then show ?case using bind_transmitter_resp.header_op_frame [of p q] by simp
qed (auto simp: BindTransmitterResp_set_system_id_def
      BindTransmitterResp_set_system_id_Char_def
      BindTransmitterResp_body_def setter_simps bind_eq_Inr bind2_eq_Inr assigns_def InterfaceVersion_def
      dest!: diff_InrD split: if_splits)

section \<open>BindReceiverResp\<close>

text \<open>\<open>bind_receiver_resp.hpp\<close> and \<open>bind_receiver_resp.cpp\<close>.\<close>

record BindReceiverResp = Header +
  system_id :: octets

definition BindReceiverResp_default :: BindReceiverResp where
  "BindReceiverResp_default =
     \<lparr> command_length = 17, command_id = 0x80000001, command_status = 0,
     sequence_number = SequenceNumber_Min, tlv_list = [], system_id = [] \<rparr>"

definition new_BindReceiverResp :: "uint32 \<Rightarrow> uint32 \<Rightarrow> octets \<Rightarrow> BindReceiverResp" where
  "new_BindReceiverResp commandStatus sequenceNumber system_id' =
     update_length (of_nat (length system_id'))
     \<lparr> command_length = 17, command_id = 0x80000001, command_status = commandStatus,
     sequence_number = sequenceNumber, tlv_list = [], system_id = system_id' \<rparr>"

definition BindReceiverResp_puts :: "BindReceiverResp \<Rightarrow> (Buffer \<Rightarrow> Buffer result) list" where
  "BindReceiverResp_puts p =
     [put_String (system_id p)]"

definition BindReceiverResp_encode :: "BindReceiverResp \<Rightarrow> Buffer result" where
  "BindReceiverResp_encode = encode_frame BindReceiverResp_puts"

definition BindReceiverResp_read :: "BindReceiverResp \<Rightarrow> octets \<Rightarrow> nat \<Rightarrow> string \<Rightarrow> (BindReceiverResp \<times> nat) result" where
  "BindReceiverResp_read p buff len err =
     bind2 (get_String SystemId_assign (drop 16 buff) len err 16) (\<lambda>system_id' offset.
     Inr (p\<lparr> system_id := system_id' \<rparr>, offset))"

definition BindReceiverResp_decode :: "BindReceiverResp \<Rightarrow> octets \<Rightarrow> BindReceiverResp result" where
  "BindReceiverResp_decode = decode_frame ''Bad length in bind_receiver_resp'' BindReceiverResp_read"

abbreviation BindReceiverResp_blank :: BindReceiverResp where
  "BindReceiverResp_blank \<equiv> BindReceiverResp_default\<lparr> sequence_number := 1 \<rparr>"

definition BindReceiverResp_from :: "octets \<Rightarrow> BindReceiverResp result" where
  "BindReceiverResp_from b = BindReceiverResp_decode BindReceiverResp_blank b"

definition BindReceiverResp_body :: "BindReceiverResp \<Rightarrow> octets" where
  "BindReceiverResp_body p =
     String_octets (system_id p)"

definition BindReceiverResp_fields_ok :: "BindReceiverResp \<Rightarrow> bool" where
  "BindReceiverResp_fields_ok p \<longleftrightarrow>
     SystemId_ok (system_id p)"

interpretation bind_receiver_resp: pdu_body BindReceiverResp_puts BindReceiverResp_read "''Bad length in bind_receiver_resp''"
  BindReceiverResp_blank BindReceiverResp_body BindReceiverResp_fields_ok
proof (unfold_locales, goal_cases)
  case (1 p)
  show ?case
    unfolding BindReceiverResp_puts_def BindReceiverResp_body_def by (rule writes_eq, (rule writes_intro)+, simp)
next
  case 2
  show ?case by (simp add: BindReceiverResp_default_def)
next
  case (3 p q)
  then show ?case by (cases p, cases q) (simp add: BindReceiverResp_body_def)
next
  case (4 p q)
  then show ?case by (cases p, cases q) (simp add: BindReceiverResp_fields_ok_def)
next
  case (5 p g b rest len)
  then show ?case
    by (cases p, cases g) (simp add: BindReceiverResp_read_def field_simps_read BindReceiverResp_body_def
      BindReceiverResp_fields_ok_def drop_plus del: drop_drop cong: bind2_cong)
next
  case (6 g b len q off)
  from 6(1) [THEN reading_start, of b] show ?case
    unfolding BindReceiverResp_read_def
    by (elim step_elim)
      (cases g, clarsimp simp: reading_end BindReceiverResp_body_def BindReceiverResp_fields_ok_def)
qed

definition BindReceiverResp_set_system_id :: "octets \<Rightarrow> BindReceiverResp \<Rightarrow> BindReceiverResp" where
  "BindReceiverResp_set_system_id v p = update_length (diff v (system_id p)) (p\<lparr> system_id := v \<rparr>)"

definition BindReceiverResp_set_system_id_Char :: "octets \<Rightarrow> BindReceiverResp \<Rightarrow> BindReceiverResp result" where
  "BindReceiverResp_set_system_id_Char s p = bind2 (assign_diff SystemId_assign s (system_id p))
     (\<lambda>v d. Inr (update_length d (p\<lparr> system_id := v \<rparr>)))"

text \<open>The objects that constructors and mutators build.\<close>

inductive BindReceiverResp_reachable :: "BindReceiverResp \<Rightarrow> bool" where
  default: "BindReceiverResp_reachable BindReceiverResp_default"
| ctor: "BindReceiverResp_reachable (new_BindReceiverResp st n x0)"
| from_buffer: "BindReceiverResp_from b = Inr p \<Longrightarrow> BindReceiverResp_reachable p"
| inherited: "BindReceiverResp_reachable p \<Longrightarrow> header_op p q \<Longrightarrow> BindReceiverResp_reachable q"
| set_system_id: "BindReceiverResp_reachable p \<Longrightarrow> BindReceiverResp_reachable (BindReceiverResp_set_system_id v p)"
| set_system_id_Char: "BindReceiverResp_reachable p \<Longrightarrow> BindReceiverResp_set_system_id_Char s p = Inr q \<Longrightarrow> BindReceiverResp_reachable q"

lemma bind_receiver_resp_frame_ok: "BindReceiverResp_reachable p \<Longrightarrow> frame_ok p (length (BindReceiverResp_body p))"
proof (induction rule: BindReceiverResp_reachable.induct)
  case default
  show ?case by (simp add: BindReceiverResp_default_def BindReceiverResp_body_def setter_simps
    )
next
  case ctor
  show ?case by (simp add: new_BindReceiverResp_def BindReceiverResp_body_def setter_simps
    )
next
  case (from_buffer b p)
  then show ?case
    using bind_receiver_resp.from_frame [of b p] by (simp add: BindReceiverResp_from_def BindReceiverResp_decode_def)
next
  case (inherited p q)
  then show ?case using bind_receiver_resp.header_op_frame [of p q] by simp
qed (auto simp: BindReceiverResp_set_system_id_def BindReceiverResp_set_system_id_Char_def
      BindReceiverResp_body_def setter_simps bind_eq_Inr bind2_eq_Inr assigns_def InterfaceVersion_def
      dest!: diff_InrD split: if_splits)

section \<open>BindTransceiverResp\<close>

text \<open>\<open>bind_transceiver_resp.hpp\<close> and \<open>bind_transceiver_resp.cpp\<close>.\<close>

record BindTransceiverResp = Header +
  system_id :: octets

definition BindTransceiverResp_default :: BindTransceiverResp where
  "BindTransceiverResp_default =
     \<lparr> command_length = 17, command_id = 0x80000009, command_status = 0,
     sequence_number = SequenceNumber_Min, tlv_list = [], system_id = [] \<rparr>"

definition new_BindTransceiverResp :: "uint32 \<Rightarrow> uint32 \<Rightarrow> octets \<Rightarrow> BindTransceiverResp" where
  "new_BindTransceiverResp commandStatus sequenceNumber system_id' =
     update_length (of_nat (length system_id'))
     \<lparr> command_length = 17, command_id = 0x80000009, command_status = commandStatus,
     sequence_number = sequenceNumber, tlv_list = [], system_id = system_id' \<rparr>"

definition BindTransceiverResp_puts :: "BindTransceiverResp \<Rightarrow> (Buffer \<Rightarrow> Buffer result) list" where
  "BindTransceiverResp_puts p =
     [put_String (system_id p)]"

definition BindTransceiverResp_encode :: "BindTransceiverResp \<Rightarrow> Buffer result" where
  "BindTransceiverResp_encode = encode_frame BindTransceiverResp_puts"

definition BindTransceiverResp_read :: "BindTransceiverResp \<Rightarrow> octets \<Rightarrow> nat \<Rightarrow> string \<Rightarrow> (BindTransceiverResp \<times> nat) result" where
  "BindTransceiverResp_read p buff len err =
     bind2 (get_String SystemId_assign (drop 16 buff) len err 16) (\<lambda>system_id' offset.
     Inr (p\<lparr> system_id := system_id' \<rparr>, offset))"

definition BindTransceiverResp_decode :: "BindTransceiverResp \<Rightarrow> octets \<Rightarrow> BindTransceiverResp result" where
  "BindTransceiverResp_decode = decode_frame ''Bad length in bind_transceiver_resp'' BindTransceiverResp_read"

abbreviation BindTransceiverResp_blank :: BindTransceiverResp where
  "BindTransceiverResp_blank \<equiv> BindTransceiverResp_default\<lparr> sequence_number := 1 \<rparr>"

definition BindTransceiverResp_from :: "octets \<Rightarrow> BindTransceiverResp result" where
  "BindTransceiverResp_from b = BindTransceiverResp_decode BindTransceiverResp_blank b"

definition BindTransceiverResp_body :: "BindTransceiverResp \<Rightarrow> octets" where
  "BindTransceiverResp_body p =
     String_octets (system_id p)"

definition BindTransceiverResp_fields_ok :: "BindTransceiverResp \<Rightarrow> bool" where
  "BindTransceiverResp_fields_ok p \<longleftrightarrow>
     SystemId_ok (system_id p)"

interpretation bind_transceiver_resp: pdu_body BindTransceiverResp_puts BindTransceiverResp_read "''Bad length in bind_transceiver_resp''"
  BindTransceiverResp_blank BindTransceiverResp_body BindTransceiverResp_fields_ok
proof (unfold_locales, goal_cases)
  case (1 p)
  show ?case
    unfolding BindTransceiverResp_puts_def BindTransceiverResp_body_def by (rule writes_eq, (rule writes_intro)+, simp)
next
  case 2
  show ?case by (simp add: BindTransceiverResp_default_def)
next
  case (3 p q)
  then show ?case by (cases p, cases q) (simp add: BindTransceiverResp_body_def)
next
  case (4 p q)
  then show ?case by (cases p, cases q) (simp add: BindTransceiverResp_fields_ok_def)
next
  case (5 p g b rest len)
  then show ?case
    by (cases p, cases g) (simp add: BindTransceiverResp_read_def field_simps_read BindTransceiverResp_body_def
      BindTransceiverResp_fields_ok_def drop_plus del: drop_drop cong: bind2_cong)
next
  case (6 g b len q off)
  from 6(1) [THEN reading_start, of b] show ?case
    unfolding BindTransceiverResp_read_def
    by (elim step_elim)
      (cases g, clarsimp simp: reading_end BindTransceiverResp_body_def BindTransceiverResp_fields_ok_def)
qed

definition BindTransceiverResp_set_system_id :: "octets \<Rightarrow> BindTransceiverResp \<Rightarrow> BindTransceiverResp" where
  "BindTransceiverResp_set_system_id v p = update_length (diff v (system_id p)) (p\<lparr> system_id := v \<rparr>)"

definition BindTransceiverResp_set_system_id_Char :: "octets \<Rightarrow> BindTransceiverResp \<Rightarrow> BindTransceiverResp result" where
  "BindTransceiverResp_set_system_id_Char s p = bind2 (assign_diff SystemId_assign s (system_id p))
     (\<lambda>v d. Inr (update_length d (p\<lparr> system_id := v \<rparr>)))"

text \<open>The objects that constructors and mutators build.\<close>

inductive BindTransceiverResp_reachable :: "BindTransceiverResp \<Rightarrow> bool" where
  default: "BindTransceiverResp_reachable BindTransceiverResp_default"
| ctor: "BindTransceiverResp_reachable (new_BindTransceiverResp st n x0)"
| from_buffer: "BindTransceiverResp_from b = Inr p \<Longrightarrow> BindTransceiverResp_reachable p"
| inherited: "BindTransceiverResp_reachable p \<Longrightarrow> header_op p q \<Longrightarrow> BindTransceiverResp_reachable q"
| set_system_id: "BindTransceiverResp_reachable p \<Longrightarrow> BindTransceiverResp_reachable (BindTransceiverResp_set_system_id v p)"
| set_system_id_Char: "BindTransceiverResp_reachable p \<Longrightarrow> BindTransceiverResp_set_system_id_Char s p = Inr q \<Longrightarrow> BindTransceiverResp_reachable q"

lemma bind_transceiver_resp_frame_ok: "BindTransceiverResp_reachable p \<Longrightarrow> frame_ok p (length (BindTransceiverResp_body p))"
proof (induction rule: BindTransceiverResp_reachable.induct)
  case default
  show ?case by (simp add: BindTransceiverResp_default_def BindTransceiverResp_body_def setter_simps
    )
next
  case ctor
  show ?case by (simp add: new_BindTransceiverResp_def BindTransceiverResp_body_def setter_simps
    )
next
  case (from_buffer b p)
  then show ?case
    using bind_transceiver_resp.from_frame [of b p] by (simp add: BindTransceiverResp_from_def BindTransceiverResp_decode_def)
next
  case (inherited p q)
  then show ?case using bind_transceiver_resp.header_op_frame [of p q] by simp
qed (auto simp: BindTransceiverResp_set_system_id_def
      BindTransceiverResp_set_system_id_Char_def
      BindTransceiverResp_body_def setter_simps bind_eq_Inr bind2_eq_Inr assigns_def InterfaceVersion_def
      dest!: diff_InrD split: if_splits)

end
