(* ===== verification/Pdu_Session.thy ===== *)
theory Pdu_Session
  imports Pdu_Ops
begin

text \<open>
  The PDUs that are a header and TLVs: unbind, enquire_link, their responses, generic_nack and
  the responses of replace_sm, cancel_sm and cancel_broadcast_sm; and alert_notification.
  Record, constructors, encoder, decoder and setters of each class, the interpretation of
  \<open>pdu_body\<close> that gives its codec laws, and the invariant of \<open>command_length\<close> over everything
  that constructors and mutators build.
\<close>

section \<open>Unbind\<close>

text \<open>\<open>unbind.hpp\<close> and \<open>unbind.cpp\<close>.\<close>

type_synonym Unbind = Header

definition Unbind_default :: Unbind where
  "Unbind_default =
     \<lparr> command_length = 16, command_id = 0x00000006, command_status = 0,
     sequence_number = SequenceNumber_Min, tlv_list = [] \<rparr>"

definition new_Unbind :: "uint32 \<Rightarrow> Unbind" where
  "new_Unbind sequenceNumber =
     \<lparr> command_length = 16, command_id = 0x00000006, command_status = 0,
     sequence_number = sequenceNumber, tlv_list = [] \<rparr>"

definition Unbind_puts :: "Unbind \<Rightarrow> (Buffer \<Rightarrow> Buffer result) list" where
  "Unbind_puts p = []"

definition Unbind_encode :: "Unbind \<Rightarrow> Buffer result" where
  "Unbind_encode = encode_frame Unbind_puts"

definition Unbind_read :: "Unbind \<Rightarrow> octets \<Rightarrow> nat \<Rightarrow> string \<Rightarrow> (Unbind \<times> nat) result" where
  "Unbind_read p buff len err =
     Inr (p, 16)"

definition Unbind_decode :: "Unbind \<Rightarrow> octets \<Rightarrow> Unbind result" where
  "Unbind_decode = decode_frame ''Bad length in unbind'' Unbind_read"

abbreviation Unbind_blank :: Unbind where
  "Unbind_blank \<equiv> Unbind_default\<lparr> sequence_number := 1 \<rparr>"

definition Unbind_from :: "octets \<Rightarrow> Unbind result" where
  "Unbind_from b = Unbind_decode Unbind_blank b"

definition Unbind_body :: "Unbind \<Rightarrow> octets" where
  "Unbind_body p = []"

definition Unbind_fields_ok :: "Unbind \<Rightarrow> bool" where
  "Unbind_fields_ok p \<longleftrightarrow> True"

interpretation unbind: pdu_body Unbind_puts Unbind_read "''Bad length in unbind''"
  Unbind_blank Unbind_body Unbind_fields_ok
proof (unfold_locales, goal_cases)
  case (1 p)
  show ?case
    by (simp add: Unbind_puts_def Unbind_body_def writes_intro del: Buffer_run.simps)
next
  case 2
  show ?case by (simp add: Unbind_default_def)
next
  case (3 p q)
  then show ?case by (cases p, cases q) (simp add: Unbind_body_def)
next
  case (4 p q)
  then show ?case by (cases p, cases q) (simp add: Unbind_fields_ok_def)
next
  case (5 p g b rest len)
  then show ?case by (cases p, cases g) (simp add: Unbind_read_def Unbind_body_def)
next
  case (6 g b len q off)
  then show ?case by (auto simp: Unbind_read_def Unbind_body_def Unbind_fields_ok_def read_upto_def)
qed

text \<open>The objects that constructors and mutators build.\<close>

inductive Unbind_reachable :: "Unbind \<Rightarrow> bool" where
  default: "Unbind_reachable Unbind_default"
| ctor: "Unbind_reachable (new_Unbind n)"
| from_buffer: "Unbind_from b = Inr p \<Longrightarrow> Unbind_reachable p"
| inherited: "Unbind_reachable p \<Longrightarrow> header_op p q \<Longrightarrow> Unbind_reachable q"

lemma unbind_frame_ok: "Unbind_reachable p \<Longrightarrow> frame_ok p (length (Unbind_body p))"
proof (induction rule: Unbind_reachable.induct)
  case default
  show ?case by (simp add: Unbind_default_def Unbind_body_def setter_simps
    )
next
  case ctor
  show ?case by (simp add: new_Unbind_def Unbind_body_def setter_simps
    )
next
  case (from_buffer b p)
  then show ?case
    using unbind.from_frame [of b p] by (simp add: Unbind_from_def Unbind_decode_def)
next
  case (inherited p q)
  then show ?case using unbind.header_op_frame [of p q] by simp
qed

section \<open>UnbindResp\<close>

text \<open>\<open>unbind_resp.hpp\<close> and \<open>unbind_resp.cpp\<close>.\<close>

type_synonym UnbindResp = Header

definition UnbindResp_default :: UnbindResp where
  "UnbindResp_default =
     \<lparr> command_length = 16, command_id = 0x80000006, command_status = 0,
     sequence_number = SequenceNumber_Min, tlv_list = [] \<rparr>"

definition new_UnbindResp :: "uint32 \<Rightarrow> uint32 \<Rightarrow> UnbindResp" where
  "new_UnbindResp commandStatus sequenceNumber =
     \<lparr> command_length = 16, command_id = 0x80000006, command_status = commandStatus,
     sequence_number = sequenceNumber, tlv_list = [] \<rparr>"

definition UnbindResp_puts :: "UnbindResp \<Rightarrow> (Buffer \<Rightarrow> Buffer result) list" where
  "UnbindResp_puts p = []"

definition UnbindResp_encode :: "UnbindResp \<Rightarrow> Buffer result" where
  "UnbindResp_encode = encode_frame UnbindResp_puts"

definition UnbindResp_read :: "UnbindResp \<Rightarrow> octets \<Rightarrow> nat \<Rightarrow> string \<Rightarrow> (UnbindResp \<times> nat) result" where
  "UnbindResp_read p buff len err =
     Inr (p, 16)"

definition UnbindResp_decode :: "UnbindResp \<Rightarrow> octets \<Rightarrow> UnbindResp result" where
  "UnbindResp_decode = decode_frame ''Bad length in unbind_resp'' UnbindResp_read"

abbreviation UnbindResp_blank :: UnbindResp where
  "UnbindResp_blank \<equiv> UnbindResp_default\<lparr> sequence_number := 1 \<rparr>"

definition UnbindResp_from :: "octets \<Rightarrow> UnbindResp result" where
  "UnbindResp_from b = UnbindResp_decode UnbindResp_blank b"

definition UnbindResp_body :: "UnbindResp \<Rightarrow> octets" where
  "UnbindResp_body p = []"

definition UnbindResp_fields_ok :: "UnbindResp \<Rightarrow> bool" where
  "UnbindResp_fields_ok p \<longleftrightarrow> True"

interpretation unbind_resp: pdu_body UnbindResp_puts UnbindResp_read "''Bad length in unbind_resp''"
  UnbindResp_blank UnbindResp_body UnbindResp_fields_ok
proof (unfold_locales, goal_cases)
  case (1 p)
  show ?case
    by (simp add: UnbindResp_puts_def UnbindResp_body_def writes_intro del: Buffer_run.simps)
next
  case 2
  show ?case by (simp add: UnbindResp_default_def)
next
  case (3 p q)
  then show ?case by (cases p, cases q) (simp add: UnbindResp_body_def)
next
  case (4 p q)
  then show ?case by (cases p, cases q) (simp add: UnbindResp_fields_ok_def)
next
  case (5 p g b rest len)
  then show ?case by (cases p, cases g) (simp add: UnbindResp_read_def UnbindResp_body_def)
next
  case (6 g b len q off)
  then show ?case by (auto simp: UnbindResp_read_def UnbindResp_body_def UnbindResp_fields_ok_def read_upto_def)
qed

text \<open>The objects that constructors and mutators build.\<close>

inductive UnbindResp_reachable :: "UnbindResp \<Rightarrow> bool" where
  default: "UnbindResp_reachable UnbindResp_default"
| ctor: "UnbindResp_reachable (new_UnbindResp st n)"
| from_buffer: "UnbindResp_from b = Inr p \<Longrightarrow> UnbindResp_reachable p"
| inherited: "UnbindResp_reachable p \<Longrightarrow> header_op p q \<Longrightarrow> UnbindResp_reachable q"

lemma unbind_resp_frame_ok: "UnbindResp_reachable p \<Longrightarrow> frame_ok p (length (UnbindResp_body p))"
proof (induction rule: UnbindResp_reachable.induct)
  case default
  show ?case by (simp add: UnbindResp_default_def UnbindResp_body_def setter_simps
    )
next
  case ctor
  show ?case by (simp add: new_UnbindResp_def UnbindResp_body_def setter_simps
    )
next
  case (from_buffer b p)
  then show ?case
    using unbind_resp.from_frame [of b p] by (simp add: UnbindResp_from_def UnbindResp_decode_def)
next
  case (inherited p q)
  then show ?case using unbind_resp.header_op_frame [of p q] by simp
qed

section \<open>EnquireLink\<close>

text \<open>\<open>enquire_link.hpp\<close> and \<open>enquire_link.cpp\<close>.\<close>

type_synonym EnquireLink = Header

definition EnquireLink_default :: EnquireLink where
  "EnquireLink_default =
     \<lparr> command_length = 16, command_id = 0x00000015, command_status = 0,
     sequence_number = SequenceNumber_Min, tlv_list = [] \<rparr>"

definition new_EnquireLink :: "uint32 \<Rightarrow> EnquireLink" where
  "new_EnquireLink sequenceNumber =
     \<lparr> command_length = 16, command_id = 0x00000015, command_status = 0,
     sequence_number = sequenceNumber, tlv_list = [] \<rparr>"

definition EnquireLink_puts :: "EnquireLink \<Rightarrow> (Buffer \<Rightarrow> Buffer result) list" where
  "EnquireLink_puts p = []"

definition EnquireLink_encode :: "EnquireLink \<Rightarrow> Buffer result" where
  "EnquireLink_encode = encode_frame EnquireLink_puts"

definition EnquireLink_read :: "EnquireLink \<Rightarrow> octets \<Rightarrow> nat \<Rightarrow> string \<Rightarrow> (EnquireLink \<times> nat) result" where
  "EnquireLink_read p buff len err =
     Inr (p, 16)"

definition EnquireLink_decode :: "EnquireLink \<Rightarrow> octets \<Rightarrow> EnquireLink result" where
  "EnquireLink_decode = decode_frame ''Bad length in enquire_link'' EnquireLink_read"

abbreviation EnquireLink_blank :: EnquireLink where
  "EnquireLink_blank \<equiv> EnquireLink_default\<lparr> sequence_number := 1 \<rparr>"

definition EnquireLink_from :: "octets \<Rightarrow> EnquireLink result" where
  "EnquireLink_from b = EnquireLink_decode EnquireLink_blank b"

definition EnquireLink_body :: "EnquireLink \<Rightarrow> octets" where
  "EnquireLink_body p = []"

definition EnquireLink_fields_ok :: "EnquireLink \<Rightarrow> bool" where
  "EnquireLink_fields_ok p \<longleftrightarrow> True"

interpretation enquire_link: pdu_body EnquireLink_puts EnquireLink_read "''Bad length in enquire_link''"
  EnquireLink_blank EnquireLink_body EnquireLink_fields_ok
proof (unfold_locales, goal_cases)
  case (1 p)
  show ?case
    by (simp add: EnquireLink_puts_def EnquireLink_body_def writes_intro del: Buffer_run.simps)
next
  case 2
  show ?case by (simp add: EnquireLink_default_def)
next
  case (3 p q)
  then show ?case by (cases p, cases q) (simp add: EnquireLink_body_def)
next
  case (4 p q)
  then show ?case by (cases p, cases q) (simp add: EnquireLink_fields_ok_def)
next
  case (5 p g b rest len)
  then show ?case by (cases p, cases g) (simp add: EnquireLink_read_def EnquireLink_body_def)
next
  case (6 g b len q off)
  then show ?case by (auto simp: EnquireLink_read_def EnquireLink_body_def EnquireLink_fields_ok_def read_upto_def)
qed

text \<open>The objects that constructors and mutators build.\<close>

inductive EnquireLink_reachable :: "EnquireLink \<Rightarrow> bool" where
  default: "EnquireLink_reachable EnquireLink_default"
| ctor: "EnquireLink_reachable (new_EnquireLink n)"
| from_buffer: "EnquireLink_from b = Inr p \<Longrightarrow> EnquireLink_reachable p"
| inherited: "EnquireLink_reachable p \<Longrightarrow> header_op p q \<Longrightarrow> EnquireLink_reachable q"

lemma enquire_link_frame_ok: "EnquireLink_reachable p \<Longrightarrow> frame_ok p (length (EnquireLink_body p))"
proof (induction rule: EnquireLink_reachable.induct)
  case default
  show ?case by (simp add: EnquireLink_default_def EnquireLink_body_def setter_simps
    )
next
  case ctor
  show ?case by (simp add: new_EnquireLink_def EnquireLink_body_def setter_simps
    )
next
  case (from_buffer b p)
  then show ?case
    using enquire_link.from_frame [of b p] by (simp add: EnquireLink_from_def EnquireLink_decode_def)
next
  case (inherited p q)
  then show ?case using enquire_link.header_op_frame [of p q] by simp
qed

section \<open>EnquireLinkResp\<close>

text \<open>\<open>enquire_link_resp.hpp\<close> and \<open>enquire_link_resp.cpp\<close>.\<close>

type_synonym EnquireLinkResp = Header

definition EnquireLinkResp_default :: EnquireLinkResp where
  "EnquireLinkResp_default =
     \<lparr> command_length = 16, command_id = 0x80000015, command_status = 0,
     sequence_number = SequenceNumber_Min, tlv_list = [] \<rparr>"

definition new_EnquireLinkResp :: "uint32 \<Rightarrow> uint32 \<Rightarrow> EnquireLinkResp" where
  "new_EnquireLinkResp commandStatus sequenceNumber =
     \<lparr> command_length = 16, command_id = 0x80000015, command_status = commandStatus,
     sequence_number = sequenceNumber, tlv_list = [] \<rparr>"

definition EnquireLinkResp_puts :: "EnquireLinkResp \<Rightarrow> (Buffer \<Rightarrow> Buffer result) list" where
  "EnquireLinkResp_puts p = []"

definition EnquireLinkResp_encode :: "EnquireLinkResp \<Rightarrow> Buffer result" where
  "EnquireLinkResp_encode = encode_frame EnquireLinkResp_puts"

definition EnquireLinkResp_read :: "EnquireLinkResp \<Rightarrow> octets \<Rightarrow> nat \<Rightarrow> string \<Rightarrow> (EnquireLinkResp \<times> nat) result" where
  "EnquireLinkResp_read p buff len err =
     Inr (p, 16)"

definition EnquireLinkResp_decode :: "EnquireLinkResp \<Rightarrow> octets \<Rightarrow> EnquireLinkResp result" where
  "EnquireLinkResp_decode = decode_frame ''Bad length in enquire_link_resp'' EnquireLinkResp_read"

abbreviation EnquireLinkResp_blank :: EnquireLinkResp where
  "EnquireLinkResp_blank \<equiv> EnquireLinkResp_default\<lparr> sequence_number := 1 \<rparr>"

definition EnquireLinkResp_from :: "octets \<Rightarrow> EnquireLinkResp result" where
  "EnquireLinkResp_from b = EnquireLinkResp_decode EnquireLinkResp_blank b"

definition EnquireLinkResp_body :: "EnquireLinkResp \<Rightarrow> octets" where
  "EnquireLinkResp_body p = []"

definition EnquireLinkResp_fields_ok :: "EnquireLinkResp \<Rightarrow> bool" where
  "EnquireLinkResp_fields_ok p \<longleftrightarrow> True"

interpretation enquire_link_resp: pdu_body EnquireLinkResp_puts EnquireLinkResp_read "''Bad length in enquire_link_resp''"
  EnquireLinkResp_blank EnquireLinkResp_body EnquireLinkResp_fields_ok
proof (unfold_locales, goal_cases)
  case (1 p)
  show ?case
    by (simp add: EnquireLinkResp_puts_def EnquireLinkResp_body_def writes_intro del: Buffer_run.simps)
next
  case 2
  show ?case by (simp add: EnquireLinkResp_default_def)
next
  case (3 p q)
  then show ?case by (cases p, cases q) (simp add: EnquireLinkResp_body_def)
next
  case (4 p q)
  then show ?case by (cases p, cases q) (simp add: EnquireLinkResp_fields_ok_def)
next
  case (5 p g b rest len)
  then show ?case by (cases p, cases g) (simp add: EnquireLinkResp_read_def EnquireLinkResp_body_def)
next
  case (6 g b len q off)
  then show ?case by (auto simp: EnquireLinkResp_read_def EnquireLinkResp_body_def EnquireLinkResp_fields_ok_def read_upto_def)
qed

text \<open>The objects that constructors and mutators build.\<close>

inductive EnquireLinkResp_reachable :: "EnquireLinkResp \<Rightarrow> bool" where
  default: "EnquireLinkResp_reachable EnquireLinkResp_default"
| ctor: "EnquireLinkResp_reachable (new_EnquireLinkResp st n)"
| from_buffer: "EnquireLinkResp_from b = Inr p \<Longrightarrow> EnquireLinkResp_reachable p"
| inherited: "EnquireLinkResp_reachable p \<Longrightarrow> header_op p q \<Longrightarrow> EnquireLinkResp_reachable q"

lemma enquire_link_resp_frame_ok: "EnquireLinkResp_reachable p \<Longrightarrow> frame_ok p (length (EnquireLinkResp_body p))"
proof (induction rule: EnquireLinkResp_reachable.induct)
  case default
  show ?case by (simp add: EnquireLinkResp_default_def EnquireLinkResp_body_def setter_simps
    )
next
  case ctor
  show ?case by (simp add: new_EnquireLinkResp_def EnquireLinkResp_body_def setter_simps
    )
next
  case (from_buffer b p)
  then show ?case
    using enquire_link_resp.from_frame [of b p] by (simp add: EnquireLinkResp_from_def EnquireLinkResp_decode_def)
next
  case (inherited p q)
  then show ?case using enquire_link_resp.header_op_frame [of p q] by simp
qed

section \<open>GenericNack\<close>

text \<open>\<open>generic_nack.hpp\<close> and \<open>generic_nack.cpp\<close>.\<close>

type_synonym GenericNack = Header

definition GenericNack_default :: GenericNack where
  "GenericNack_default =
     \<lparr> command_length = 16, command_id = 0x80000000, command_status = 0,
     sequence_number = SequenceNumber_Min, tlv_list = [] \<rparr>"

definition new_GenericNack :: "uint32 \<Rightarrow> uint32 \<Rightarrow> GenericNack" where
  "new_GenericNack commandStatus sequenceNumber =
     \<lparr> command_length = 16, command_id = 0x80000000, command_status = commandStatus,
     sequence_number = sequenceNumber, tlv_list = [] \<rparr>"

definition GenericNack_puts :: "GenericNack \<Rightarrow> (Buffer \<Rightarrow> Buffer result) list" where
  "GenericNack_puts p = []"

definition GenericNack_encode :: "GenericNack \<Rightarrow> Buffer result" where
  "GenericNack_encode = encode_frame GenericNack_puts"

definition GenericNack_read :: "GenericNack \<Rightarrow> octets \<Rightarrow> nat \<Rightarrow> string \<Rightarrow> (GenericNack \<times> nat) result" where
  "GenericNack_read p buff len err =
     Inr (p, 16)"

definition GenericNack_decode :: "GenericNack \<Rightarrow> octets \<Rightarrow> GenericNack result" where
  "GenericNack_decode = decode_frame ''Bad length in generic_nack'' GenericNack_read"

abbreviation GenericNack_blank :: GenericNack where
  "GenericNack_blank \<equiv> GenericNack_default\<lparr> sequence_number := 1 \<rparr>"

definition GenericNack_from :: "octets \<Rightarrow> GenericNack result" where
  "GenericNack_from b = GenericNack_decode GenericNack_blank b"

definition GenericNack_body :: "GenericNack \<Rightarrow> octets" where
  "GenericNack_body p = []"

definition GenericNack_fields_ok :: "GenericNack \<Rightarrow> bool" where
  "GenericNack_fields_ok p \<longleftrightarrow> True"

interpretation generic_nack: pdu_body GenericNack_puts GenericNack_read "''Bad length in generic_nack''"
  GenericNack_blank GenericNack_body GenericNack_fields_ok
proof (unfold_locales, goal_cases)
  case (1 p)
  show ?case
    by (simp add: GenericNack_puts_def GenericNack_body_def writes_intro del: Buffer_run.simps)
next
  case 2
  show ?case by (simp add: GenericNack_default_def)
next
  case (3 p q)
  then show ?case by (cases p, cases q) (simp add: GenericNack_body_def)
next
  case (4 p q)
  then show ?case by (cases p, cases q) (simp add: GenericNack_fields_ok_def)
next
  case (5 p g b rest len)
  then show ?case by (cases p, cases g) (simp add: GenericNack_read_def GenericNack_body_def)
next
  case (6 g b len q off)
  then show ?case by (auto simp: GenericNack_read_def GenericNack_body_def GenericNack_fields_ok_def read_upto_def)
qed

text \<open>The objects that constructors and mutators build.\<close>

inductive GenericNack_reachable :: "GenericNack \<Rightarrow> bool" where
  default: "GenericNack_reachable GenericNack_default"
| ctor: "GenericNack_reachable (new_GenericNack st n)"
| from_buffer: "GenericNack_from b = Inr p \<Longrightarrow> GenericNack_reachable p"
| inherited: "GenericNack_reachable p \<Longrightarrow> header_op p q \<Longrightarrow> GenericNack_reachable q"

lemma generic_nack_frame_ok: "GenericNack_reachable p \<Longrightarrow> frame_ok p (length (GenericNack_body p))"
proof (induction rule: GenericNack_reachable.induct)
  case default
  show ?case by (simp add: GenericNack_default_def GenericNack_body_def setter_simps
    )
next
  case ctor
  show ?case by (simp add: new_GenericNack_def GenericNack_body_def setter_simps
    )
next
  case (from_buffer b p)
  then show ?case
    using generic_nack.from_frame [of b p] by (simp add: GenericNack_from_def GenericNack_decode_def)
next
  case (inherited p q)
  then show ?case using generic_nack.header_op_frame [of p q] by simp
qed

section \<open>ReplaceSmResp\<close>

text \<open>\<open>replace_sm_resp.hpp\<close> and \<open>replace_sm_resp.cpp\<close>.\<close>

type_synonym ReplaceSmResp = Header

definition ReplaceSmResp_default :: ReplaceSmResp where
  "ReplaceSmResp_default =
     \<lparr> command_length = 16, command_id = 0x80000007, command_status = 0,
     sequence_number = SequenceNumber_Min, tlv_list = [] \<rparr>"

definition new_ReplaceSmResp :: "uint32 \<Rightarrow> uint32 \<Rightarrow> ReplaceSmResp" where
  "new_ReplaceSmResp commandStatus sequenceNumber =
     \<lparr> command_length = 16, command_id = 0x80000007, command_status = commandStatus,
     sequence_number = sequenceNumber, tlv_list = [] \<rparr>"

definition ReplaceSmResp_puts :: "ReplaceSmResp \<Rightarrow> (Buffer \<Rightarrow> Buffer result) list" where
  "ReplaceSmResp_puts p = []"

definition ReplaceSmResp_encode :: "ReplaceSmResp \<Rightarrow> Buffer result" where
  "ReplaceSmResp_encode = encode_frame ReplaceSmResp_puts"

definition ReplaceSmResp_read :: "ReplaceSmResp \<Rightarrow> octets \<Rightarrow> nat \<Rightarrow> string \<Rightarrow> (ReplaceSmResp \<times> nat) result" where
  "ReplaceSmResp_read p buff len err =
     Inr (p, 16)"

definition ReplaceSmResp_decode :: "ReplaceSmResp \<Rightarrow> octets \<Rightarrow> ReplaceSmResp result" where
  "ReplaceSmResp_decode = decode_frame ''Bad length in replace_sm_resp'' ReplaceSmResp_read"

abbreviation ReplaceSmResp_blank :: ReplaceSmResp where
  "ReplaceSmResp_blank \<equiv> ReplaceSmResp_default\<lparr> sequence_number := 1 \<rparr>"

definition ReplaceSmResp_from :: "octets \<Rightarrow> ReplaceSmResp result" where
  "ReplaceSmResp_from b = ReplaceSmResp_decode ReplaceSmResp_blank b"

definition ReplaceSmResp_body :: "ReplaceSmResp \<Rightarrow> octets" where
  "ReplaceSmResp_body p = []"

definition ReplaceSmResp_fields_ok :: "ReplaceSmResp \<Rightarrow> bool" where
  "ReplaceSmResp_fields_ok p \<longleftrightarrow> True"

interpretation replace_sm_resp: pdu_body ReplaceSmResp_puts ReplaceSmResp_read "''Bad length in replace_sm_resp''"
  ReplaceSmResp_blank ReplaceSmResp_body ReplaceSmResp_fields_ok
proof (unfold_locales, goal_cases)
  case (1 p)
  show ?case
    by (simp add: ReplaceSmResp_puts_def ReplaceSmResp_body_def writes_intro del: Buffer_run.simps)
next
  case 2
  show ?case by (simp add: ReplaceSmResp_default_def)
next
  case (3 p q)
  then show ?case by (cases p, cases q) (simp add: ReplaceSmResp_body_def)
next
  case (4 p q)
  then show ?case by (cases p, cases q) (simp add: ReplaceSmResp_fields_ok_def)
next
  case (5 p g b rest len)
  then show ?case by (cases p, cases g) (simp add: ReplaceSmResp_read_def ReplaceSmResp_body_def)
next
  case (6 g b len q off)
  then show ?case by (auto simp: ReplaceSmResp_read_def ReplaceSmResp_body_def ReplaceSmResp_fields_ok_def read_upto_def)
qed

text \<open>The objects that constructors and mutators build.\<close>

inductive ReplaceSmResp_reachable :: "ReplaceSmResp \<Rightarrow> bool" where
  default: "ReplaceSmResp_reachable ReplaceSmResp_default"
| ctor: "ReplaceSmResp_reachable (new_ReplaceSmResp st n)"
| from_buffer: "ReplaceSmResp_from b = Inr p \<Longrightarrow> ReplaceSmResp_reachable p"
| inherited: "ReplaceSmResp_reachable p \<Longrightarrow> header_op p q \<Longrightarrow> ReplaceSmResp_reachable q"

lemma replace_sm_resp_frame_ok: "ReplaceSmResp_reachable p \<Longrightarrow> frame_ok p (length (ReplaceSmResp_body p))"
proof (induction rule: ReplaceSmResp_reachable.induct)
  case default
  show ?case by (simp add: ReplaceSmResp_default_def ReplaceSmResp_body_def setter_simps
    )
next
  case ctor
  show ?case by (simp add: new_ReplaceSmResp_def ReplaceSmResp_body_def setter_simps
    )
next
  case (from_buffer b p)
  then show ?case
    using replace_sm_resp.from_frame [of b p] by (simp add: ReplaceSmResp_from_def ReplaceSmResp_decode_def)
next
  case (inherited p q)
  then show ?case using replace_sm_resp.header_op_frame [of p q] by simp
qed

section \<open>CancelSmResp\<close>

text \<open>\<open>cancel_sm_resp.hpp\<close> and \<open>cancel_sm_resp.cpp\<close>.\<close>

type_synonym CancelSmResp = Header

definition CancelSmResp_default :: CancelSmResp where
  "CancelSmResp_default =
     \<lparr> command_length = 16, command_id = 0x80000008, command_status = 0,
     sequence_number = SequenceNumber_Min, tlv_list = [] \<rparr>"

definition new_CancelSmResp :: "uint32 \<Rightarrow> uint32 \<Rightarrow> CancelSmResp" where
  "new_CancelSmResp commandStatus sequenceNumber =
     \<lparr> command_length = 16, command_id = 0x80000008, command_status = commandStatus,
     sequence_number = sequenceNumber, tlv_list = [] \<rparr>"

definition CancelSmResp_puts :: "CancelSmResp \<Rightarrow> (Buffer \<Rightarrow> Buffer result) list" where
  "CancelSmResp_puts p = []"

definition CancelSmResp_encode :: "CancelSmResp \<Rightarrow> Buffer result" where
  "CancelSmResp_encode = encode_frame CancelSmResp_puts"

definition CancelSmResp_read :: "CancelSmResp \<Rightarrow> octets \<Rightarrow> nat \<Rightarrow> string \<Rightarrow> (CancelSmResp \<times> nat) result" where
  "CancelSmResp_read p buff len err =
     Inr (p, 16)"

definition CancelSmResp_decode :: "CancelSmResp \<Rightarrow> octets \<Rightarrow> CancelSmResp result" where
  "CancelSmResp_decode = decode_frame ''Bad length in cancel_sm_resp'' CancelSmResp_read"

abbreviation CancelSmResp_blank :: CancelSmResp where
  "CancelSmResp_blank \<equiv> CancelSmResp_default\<lparr> sequence_number := 1 \<rparr>"

definition CancelSmResp_from :: "octets \<Rightarrow> CancelSmResp result" where
  "CancelSmResp_from b = CancelSmResp_decode CancelSmResp_blank b"

definition CancelSmResp_body :: "CancelSmResp \<Rightarrow> octets" where
  "CancelSmResp_body p = []"

definition CancelSmResp_fields_ok :: "CancelSmResp \<Rightarrow> bool" where
  "CancelSmResp_fields_ok p \<longleftrightarrow> True"

interpretation cancel_sm_resp: pdu_body CancelSmResp_puts CancelSmResp_read "''Bad length in cancel_sm_resp''"
  CancelSmResp_blank CancelSmResp_body CancelSmResp_fields_ok
proof (unfold_locales, goal_cases)
  case (1 p)
  show ?case
    by (simp add: CancelSmResp_puts_def CancelSmResp_body_def writes_intro del: Buffer_run.simps)
next
  case 2
  show ?case by (simp add: CancelSmResp_default_def)
next
  case (3 p q)
  then show ?case by (cases p, cases q) (simp add: CancelSmResp_body_def)
next
  case (4 p q)
  then show ?case by (cases p, cases q) (simp add: CancelSmResp_fields_ok_def)
next
  case (5 p g b rest len)
  then show ?case by (cases p, cases g) (simp add: CancelSmResp_read_def CancelSmResp_body_def)
next
  case (6 g b len q off)
  then show ?case by (auto simp: CancelSmResp_read_def CancelSmResp_body_def CancelSmResp_fields_ok_def read_upto_def)
qed

text \<open>The objects that constructors and mutators build.\<close>

inductive CancelSmResp_reachable :: "CancelSmResp \<Rightarrow> bool" where
  default: "CancelSmResp_reachable CancelSmResp_default"
| ctor: "CancelSmResp_reachable (new_CancelSmResp st n)"
| from_buffer: "CancelSmResp_from b = Inr p \<Longrightarrow> CancelSmResp_reachable p"
| inherited: "CancelSmResp_reachable p \<Longrightarrow> header_op p q \<Longrightarrow> CancelSmResp_reachable q"

lemma cancel_sm_resp_frame_ok: "CancelSmResp_reachable p \<Longrightarrow> frame_ok p (length (CancelSmResp_body p))"
proof (induction rule: CancelSmResp_reachable.induct)
  case default
  show ?case by (simp add: CancelSmResp_default_def CancelSmResp_body_def setter_simps
    )
next
  case ctor
  show ?case by (simp add: new_CancelSmResp_def CancelSmResp_body_def setter_simps
    )
next
  case (from_buffer b p)
  then show ?case
    using cancel_sm_resp.from_frame [of b p] by (simp add: CancelSmResp_from_def CancelSmResp_decode_def)
next
  case (inherited p q)
  then show ?case using cancel_sm_resp.header_op_frame [of p q] by simp
qed

section \<open>CancelBroadcastSmResp\<close>

text \<open>\<open>cancel_broadcast_sm_resp.hpp\<close> and \<open>cancel_broadcast_sm_resp.cpp\<close>.\<close>

type_synonym CancelBroadcastSmResp = Header

definition CancelBroadcastSmResp_default :: CancelBroadcastSmResp where
  "CancelBroadcastSmResp_default =
     \<lparr> command_length = 16, command_id = 0x80000113, command_status = 0,
     sequence_number = SequenceNumber_Min, tlv_list = [] \<rparr>"

definition new_CancelBroadcastSmResp :: "uint32 \<Rightarrow> uint32 \<Rightarrow> CancelBroadcastSmResp" where
  "new_CancelBroadcastSmResp commandStatus sequenceNumber =
     \<lparr> command_length = 16, command_id = 0x80000113, command_status = commandStatus,
     sequence_number = sequenceNumber, tlv_list = [] \<rparr>"

definition CancelBroadcastSmResp_puts :: "CancelBroadcastSmResp \<Rightarrow> (Buffer \<Rightarrow> Buffer result) list" where
  "CancelBroadcastSmResp_puts p = []"

definition CancelBroadcastSmResp_encode :: "CancelBroadcastSmResp \<Rightarrow> Buffer result" where
  "CancelBroadcastSmResp_encode = encode_frame CancelBroadcastSmResp_puts"

definition CancelBroadcastSmResp_read :: "CancelBroadcastSmResp \<Rightarrow> octets \<Rightarrow> nat \<Rightarrow> string \<Rightarrow> (CancelBroadcastSmResp \<times> nat) result" where
  "CancelBroadcastSmResp_read p buff len err =
     Inr (p, 16)"

definition CancelBroadcastSmResp_decode :: "CancelBroadcastSmResp \<Rightarrow> octets \<Rightarrow> CancelBroadcastSmResp result" where
  "CancelBroadcastSmResp_decode = decode_frame ''Bad length in cancel_broadcast_sm_resp'' CancelBroadcastSmResp_read"

abbreviation CancelBroadcastSmResp_blank :: CancelBroadcastSmResp where
  "CancelBroadcastSmResp_blank \<equiv> CancelBroadcastSmResp_default\<lparr> sequence_number := 1 \<rparr>"

definition CancelBroadcastSmResp_from :: "octets \<Rightarrow> CancelBroadcastSmResp result" where
  "CancelBroadcastSmResp_from b = CancelBroadcastSmResp_decode CancelBroadcastSmResp_blank b"

definition CancelBroadcastSmResp_body :: "CancelBroadcastSmResp \<Rightarrow> octets" where
  "CancelBroadcastSmResp_body p = []"

definition CancelBroadcastSmResp_fields_ok :: "CancelBroadcastSmResp \<Rightarrow> bool" where
  "CancelBroadcastSmResp_fields_ok p \<longleftrightarrow> True"

interpretation cancel_broadcast_sm_resp: pdu_body CancelBroadcastSmResp_puts CancelBroadcastSmResp_read "''Bad length in cancel_broadcast_sm_resp''"
  CancelBroadcastSmResp_blank CancelBroadcastSmResp_body CancelBroadcastSmResp_fields_ok
proof (unfold_locales, goal_cases)
  case (1 p)
  show ?case
    by (simp add: CancelBroadcastSmResp_puts_def CancelBroadcastSmResp_body_def writes_intro del: Buffer_run.simps)
next
  case 2
  show ?case by (simp add: CancelBroadcastSmResp_default_def)
next
  case (3 p q)
  then show ?case by (cases p, cases q) (simp add: CancelBroadcastSmResp_body_def)
next
  case (4 p q)
  then show ?case by (cases p, cases q) (simp add: CancelBroadcastSmResp_fields_ok_def)
next
  case (5 p g b rest len)
  then show ?case by (cases p, cases g) (simp add: CancelBroadcastSmResp_read_def CancelBroadcastSmResp_body_def)
next
  case (6 g b len q off)
  then show ?case by (auto simp: CancelBroadcastSmResp_read_def CancelBroadcastSmResp_body_def CancelBroadcastSmResp_fields_ok_def read_upto_def)
qed

text \<open>The objects that constructors and mutators build.\<close>

inductive CancelBroadcastSmResp_reachable :: "CancelBroadcastSmResp \<Rightarrow> bool" where
  default: "CancelBroadcastSmResp_reachable CancelBroadcastSmResp_default"
| ctor: "CancelBroadcastSmResp_reachable (new_CancelBroadcastSmResp st n)"
| from_buffer: "CancelBroadcastSmResp_from b = Inr p \<Longrightarrow> CancelBroadcastSmResp_reachable p"
| inherited: "CancelBroadcastSmResp_reachable p \<Longrightarrow> header_op p q \<Longrightarrow> CancelBroadcastSmResp_reachable q"

lemma cancel_broadcast_sm_resp_frame_ok: "CancelBroadcastSmResp_reachable p \<Longrightarrow> frame_ok p (length (CancelBroadcastSmResp_body p))"
proof (induction rule: CancelBroadcastSmResp_reachable.induct)
  case default
  show ?case by (simp add: CancelBroadcastSmResp_default_def CancelBroadcastSmResp_body_def setter_simps
    )
next
  case ctor
  show ?case by (simp add: new_CancelBroadcastSmResp_def CancelBroadcastSmResp_body_def setter_simps
    )
next
  case (from_buffer b p)
  then show ?case
    using cancel_broadcast_sm_resp.from_frame [of b p] by (simp add: CancelBroadcastSmResp_from_def CancelBroadcastSmResp_decode_def)
next
  case (inherited p q)
  then show ?case using cancel_broadcast_sm_resp.header_op_frame [of p q] by simp
qed

section \<open>AlertNotification\<close>

text \<open>\<open>alert_notification.hpp\<close> and \<open>alert_notification.cpp\<close>.\<close>

record AlertNotification = Header +
  source_addr :: SmeAddress
  esme_addr :: SmeAddress

definition AlertNotification_default :: AlertNotification where
  "AlertNotification_default =
     \<lparr> command_length = 22, command_id = 0x00000102, command_status = 0,
     sequence_number = SequenceNumber_Min, tlv_list = [], source_addr = SmeAddress_default,
     esme_addr = SmeAddress_default \<rparr>"

definition new_AlertNotification :: "uint32 \<Rightarrow> SmeAddress \<Rightarrow> SmeAddress \<Rightarrow> AlertNotification" where
  "new_AlertNotification sequenceNumber source_addr' esme_addr' =
     update_length (of_nat (address_length source_addr' + address_length esme_addr'))
     \<lparr> command_length = 22, command_id = 0x00000102, command_status = 0,
     sequence_number = sequenceNumber, tlv_list = [], source_addr = source_addr',
     esme_addr = esme_addr' \<rparr>"

definition AlertNotification_puts :: "AlertNotification \<Rightarrow> (Buffer \<Rightarrow> Buffer result) list" where
  "AlertNotification_puts p =
     [put_SmeAddress (source_addr p), put_SmeAddress (esme_addr p)]"

definition AlertNotification_encode :: "AlertNotification \<Rightarrow> Buffer result" where
  "AlertNotification_encode = encode_frame AlertNotification_puts"

definition AlertNotification_read :: "AlertNotification \<Rightarrow> octets \<Rightarrow> nat \<Rightarrow> string \<Rightarrow> (AlertNotification \<times> nat) result" where
  "AlertNotification_read p buff len err =
     bind2 (get_SmeAddress (source_addr p) (drop 16 buff) len err 16) (\<lambda>source_addr' offset.
     bind2 (get_SmeAddress (esme_addr p) (drop offset buff) len err offset) (\<lambda>esme_addr' offset.
     Inr (p\<lparr> source_addr := source_addr', esme_addr := esme_addr' \<rparr>, offset)))"

definition AlertNotification_decode :: "AlertNotification \<Rightarrow> octets \<Rightarrow> AlertNotification result" where
  "AlertNotification_decode = decode_frame ''Bad length in alert_notification'' AlertNotification_read"

abbreviation AlertNotification_blank :: AlertNotification where
  "AlertNotification_blank \<equiv> AlertNotification_default\<lparr> sequence_number := 1 \<rparr>"

definition AlertNotification_from :: "octets \<Rightarrow> AlertNotification result" where
  "AlertNotification_from b = AlertNotification_decode AlertNotification_blank b"

definition AlertNotification_body :: "AlertNotification \<Rightarrow> octets" where
  "AlertNotification_body p =
     SmeAddress_octets (source_addr p) @ SmeAddress_octets (esme_addr p)"

definition AlertNotification_fields_ok :: "AlertNotification \<Rightarrow> bool" where
  "AlertNotification_fields_ok p \<longleftrightarrow>
     SmeAddress_ok 21 (source_addr p) \<and> SmeAddress_ok 21 (esme_addr p)"

interpretation alert_notification: pdu_body AlertNotification_puts AlertNotification_read "''Bad length in alert_notification''"
  AlertNotification_blank AlertNotification_body AlertNotification_fields_ok
proof (unfold_locales, goal_cases)
  case (1 p)
  show ?case
    unfolding AlertNotification_puts_def AlertNotification_body_def by (rule writes_eq, (rule writes_intro)+, simp)
next
  case 2
  show ?case by (simp add: AlertNotification_default_def)
next
  case (3 p q)
  then show ?case by (cases p, cases q) (simp add: AlertNotification_body_def)
next
  case (4 p q)
  then show ?case by (cases p, cases q) (simp add: AlertNotification_fields_ok_def)
next
  case (5 p g b rest len)
  then have old: "source_addr g = SmeAddress_default" "esme_addr g = SmeAddress_default"
    by (cases g, simp add: AlertNotification_default_def)+
  with 5 show ?case
    by (cases p, cases g) (simp add: AlertNotification_read_def field_simps_read AlertNotification_body_def
      AlertNotification_fields_ok_def drop_plus del: drop_drop cong: bind2_cong)
next
  case (6 g b len q off)
  then have old: "source_addr g = SmeAddress_default" "esme_addr g = SmeAddress_default"
    by (cases g, simp add: AlertNotification_default_def)+
  with 6(1) [THEN reading_start, of b] show ?case
    unfolding AlertNotification_read_def old
    by (elim step_elim)
      (cases g, clarsimp simp: reading_end AlertNotification_body_def AlertNotification_fields_ok_def)
qed

definition AlertNotification_set_source_addr :: "SmeAddress \<Rightarrow> AlertNotification \<Rightarrow> AlertNotification" where
  "AlertNotification_set_source_addr a p = update_length (diff (addr_v (address a)) (addr_v (address (source_addr p))))
     (p\<lparr> source_addr := a \<rparr>)"

definition AlertNotification_set_source_addr_Address :: "Address \<Rightarrow> AlertNotification \<Rightarrow> AlertNotification result" where
  "AlertNotification_set_source_addr_Address a p = bind2 (address_diff 0 0 a 21 (source_addr p))
     (\<lambda>v d. Inr (update_length d (p\<lparr> source_addr := v \<rparr>)))"

definition AlertNotification_set_esme_addr :: "SmeAddress \<Rightarrow> AlertNotification \<Rightarrow> AlertNotification" where
  "AlertNotification_set_esme_addr a p = update_length (diff (addr_v (address a)) (addr_v (address (esme_addr p))))
     (p\<lparr> esme_addr := a \<rparr>)"

definition AlertNotification_set_destination_addr_TonNpi :: "octet \<Rightarrow> octet \<Rightarrow> Address \<Rightarrow> AlertNotification \<Rightarrow> AlertNotification result" where
  "AlertNotification_set_destination_addr_TonNpi t n a p = bind2 (address_diff t n a 21 (esme_addr p))
     (\<lambda>v d. Inr (update_length d (p\<lparr> esme_addr := v \<rparr>)))"

text \<open>The objects that constructors and mutators build.\<close>

inductive AlertNotification_reachable :: "AlertNotification \<Rightarrow> bool" where
  default: "AlertNotification_reachable AlertNotification_default"
| ctor: "AlertNotification_reachable (new_AlertNotification n x0 x1)"
| from_buffer: "AlertNotification_from b = Inr p \<Longrightarrow> AlertNotification_reachable p"
| inherited: "AlertNotification_reachable p \<Longrightarrow> header_op p q \<Longrightarrow> AlertNotification_reachable q"
| set_source_addr: "AlertNotification_reachable p \<Longrightarrow> AlertNotification_reachable (AlertNotification_set_source_addr a p)"
| set_source_addr_Address: "AlertNotification_reachable p \<Longrightarrow> AlertNotification_set_source_addr_Address a p = Inr q \<Longrightarrow> AlertNotification_reachable q"
| set_esme_addr: "AlertNotification_reachable p \<Longrightarrow> AlertNotification_reachable (AlertNotification_set_esme_addr a p)"
| set_destination_addr_TonNpi: "AlertNotification_reachable p \<Longrightarrow> AlertNotification_set_destination_addr_TonNpi t n a p = Inr q \<Longrightarrow> AlertNotification_reachable q"

lemma alert_notification_frame_ok: "AlertNotification_reachable p \<Longrightarrow> frame_ok p (length (AlertNotification_body p))"
proof (induction rule: AlertNotification_reachable.induct)
  case default
  show ?case by (simp add: AlertNotification_default_def AlertNotification_body_def setter_simps
    SmeAddress_default_def Address_default_def)
next
  case ctor
  show ?case by (simp add: new_AlertNotification_def AlertNotification_body_def setter_simps
    SmeAddress_default_def Address_default_def)
next
  case (from_buffer b p)
  then show ?case
    using alert_notification.from_frame [of b p] by (simp add: AlertNotification_from_def AlertNotification_decode_def)
next
  case (inherited p q)
  then show ?case using alert_notification.header_op_frame [of p q] by simp
qed (auto simp: AlertNotification_set_source_addr_def
      AlertNotification_set_source_addr_Address_def
      AlertNotification_set_esme_addr_def
      AlertNotification_set_destination_addr_TonNpi_def
      AlertNotification_body_def setter_simps bind_eq_Inr bind2_eq_Inr assigns_def InterfaceVersion_def
      dest!: diff_InrD split: if_splits)

end
