(* ===== verification/Pdu_Query.thy ===== *)
theory Pdu_Query
  imports Pdu_Ops
begin

text \<open>
  The PDUs query_sm and query_sm_resp.
  Record, constructors, encoder, decoder and setters of each class, the interpretation of
  \<open>pdu_body\<close> that gives its codec laws, and the invariant of \<open>command_length\<close> over everything
  that constructors and mutators build.
\<close>

section \<open>QuerySm\<close>

text \<open>\<open>query_sm.hpp\<close> and \<open>query_sm.cpp\<close>.\<close>

record QuerySm = Header +
  message_id :: octets
  source_addr :: SmeAddress

definition QuerySm_default :: QuerySm where
  "QuerySm_default =
     \<lparr> command_length = 20, command_id = 0x00000003, command_status = 0,
     sequence_number = SequenceNumber_Min, tlv_list = [], message_id = [],
     source_addr = SmeAddress_default \<rparr>"

definition new_QuerySm :: "uint32 \<Rightarrow> octets \<Rightarrow> SmeAddress \<Rightarrow> QuerySm" where
  "new_QuerySm sequenceNumber message_id' source_addr' =
     update_length (of_nat (length message_id' + address_length source_addr'))
     \<lparr> command_length = 20, command_id = 0x00000003, command_status = 0,
     sequence_number = sequenceNumber, tlv_list = [], message_id = message_id',
     source_addr = source_addr' \<rparr>"

definition QuerySm_puts :: "QuerySm \<Rightarrow> (Buffer \<Rightarrow> Buffer result) list" where
  "QuerySm_puts p =
     [put_String (message_id p), put_SmeAddress (source_addr p)]"

definition QuerySm_encode :: "QuerySm \<Rightarrow> Buffer result" where
  "QuerySm_encode = encode_frame QuerySm_puts"

definition QuerySm_read :: "QuerySm \<Rightarrow> octets \<Rightarrow> nat \<Rightarrow> string \<Rightarrow> (QuerySm \<times> nat) result" where
  "QuerySm_read p buff len err =
     bind2 (get_String MessageId_assign (drop 16 buff) len err 16) (\<lambda>message_id' offset.
     bind2 (get_SmeAddress (source_addr p) (drop offset buff) len err offset) (\<lambda>source_addr' offset.
     Inr (p\<lparr> message_id := message_id', source_addr := source_addr' \<rparr>, offset)))"

definition QuerySm_decode :: "QuerySm \<Rightarrow> octets \<Rightarrow> QuerySm result" where
  "QuerySm_decode = decode_frame ''Bad length in query_sm'' QuerySm_read"

abbreviation QuerySm_blank :: QuerySm where
  "QuerySm_blank \<equiv> QuerySm_default\<lparr> sequence_number := 1 \<rparr>"

definition QuerySm_from :: "octets \<Rightarrow> QuerySm result" where
  "QuerySm_from b = QuerySm_decode QuerySm_blank b"

definition QuerySm_body :: "QuerySm \<Rightarrow> octets" where
  "QuerySm_body p =
     String_octets (message_id p) @ SmeAddress_octets (source_addr p)"

definition QuerySm_fields_ok :: "QuerySm \<Rightarrow> bool" where
  "QuerySm_fields_ok p \<longleftrightarrow>
     MessageId_ok (message_id p) \<and> SmeAddress_ok 21 (source_addr p)"

interpretation query_sm: pdu_body QuerySm_puts QuerySm_read "''Bad length in query_sm''"
  QuerySm_blank QuerySm_body QuerySm_fields_ok
proof (unfold_locales, goal_cases)
  case (1 p)
  show ?case
    unfolding QuerySm_puts_def QuerySm_body_def by (rule writes_eq, (rule writes_intro)+, simp)
next
  case 2
  show ?case by (simp add: QuerySm_default_def)
next
  case (3 p q)
  then show ?case by (cases p, cases q) (simp add: QuerySm_body_def)
next
  case (4 p q)
  then show ?case by (cases p, cases q) (simp add: QuerySm_fields_ok_def)
next
  case (5 p g b rest len)
  then have old: "source_addr g = SmeAddress_default"
    by (cases g, simp add: QuerySm_default_def)+
  with 5 show ?case
    by (cases p, cases g) (simp add: QuerySm_read_def field_simps_read QuerySm_body_def
      QuerySm_fields_ok_def drop_plus del: drop_drop cong: bind2_cong)
next
  case (6 g b len q off)
  then have old: "source_addr g = SmeAddress_default"
    by (cases g, simp add: QuerySm_default_def)+
  with 6(1) [THEN reading_start, of b] show ?case
    unfolding QuerySm_read_def old
    by (elim step_elim)
      (cases g, clarsimp simp: reading_end QuerySm_body_def QuerySm_fields_ok_def)
qed

definition QuerySm_set_message_id :: "octets \<Rightarrow> QuerySm \<Rightarrow> QuerySm" where
  "QuerySm_set_message_id v p = update_length (diff v (message_id p)) (p\<lparr> message_id := v \<rparr>)"

definition QuerySm_set_message_id_Char :: "octets \<Rightarrow> QuerySm \<Rightarrow> QuerySm result" where
  "QuerySm_set_message_id_Char s p = bind2 (assign_diff MessageId_assign s (message_id p))
     (\<lambda>v d. Inr (update_length d (p\<lparr> message_id := v \<rparr>)))"

definition QuerySm_set_source_addr :: "SmeAddress \<Rightarrow> QuerySm \<Rightarrow> QuerySm" where
  "QuerySm_set_source_addr a p = update_length (diff (addr_v (address a)) (addr_v (address (source_addr p))))
     (p\<lparr> source_addr := a \<rparr>)"

definition QuerySm_set_source_addr_Address :: "Address \<Rightarrow> QuerySm \<Rightarrow> QuerySm result" where
  "QuerySm_set_source_addr_Address a p = bind2 (address_diff 0 0 a 21 (source_addr p))
     (\<lambda>v d. Inr (update_length d (p\<lparr> source_addr := v \<rparr>)))"

text \<open>The objects that constructors and mutators build.\<close>

inductive QuerySm_reachable :: "QuerySm \<Rightarrow> bool" where
  default: "QuerySm_reachable QuerySm_default"
| ctor: "QuerySm_reachable (new_QuerySm n x0 x1)"
| from_buffer: "QuerySm_from b = Inr p \<Longrightarrow> QuerySm_reachable p"
| inherited: "QuerySm_reachable p \<Longrightarrow> header_op p q \<Longrightarrow> QuerySm_reachable q"
| set_message_id: "QuerySm_reachable p \<Longrightarrow> QuerySm_reachable (QuerySm_set_message_id v p)"
| set_message_id_Char: "QuerySm_reachable p \<Longrightarrow> QuerySm_set_message_id_Char s p = Inr q \<Longrightarrow> QuerySm_reachable q"
| set_source_addr: "QuerySm_reachable p \<Longrightarrow> QuerySm_reachable (QuerySm_set_source_addr a p)"
| set_source_addr_Address: "QuerySm_reachable p \<Longrightarrow> QuerySm_set_source_addr_Address a p = Inr q \<Longrightarrow> QuerySm_reachable q"

lemma query_sm_frame_ok: "QuerySm_reachable p \<Longrightarrow> frame_ok p (length (QuerySm_body p))"
proof (induction rule: QuerySm_reachable.induct)
  case default
  show ?case by (simp add: QuerySm_default_def QuerySm_body_def setter_simps
    SmeAddress_default_def Address_default_def)
next
  case ctor
  show ?case by (simp add: new_QuerySm_def QuerySm_body_def setter_simps
    SmeAddress_default_def Address_default_def)
next
  case (from_buffer b p)
  then show ?case
    using query_sm.from_frame [of b p] by (simp add: QuerySm_from_def QuerySm_decode_def)
next
  case (inherited p q)
  then show ?case using query_sm.header_op_frame [of p q] by simp
qed (auto simp: QuerySm_set_message_id_def QuerySm_set_message_id_Char_def
      QuerySm_set_source_addr_def QuerySm_set_source_addr_Address_def
      QuerySm_body_def setter_simps bind_eq_Inr bind2_eq_Inr assigns_def InterfaceVersion_def
      dest!: diff_InrD split: if_splits)

section \<open>QuerySmResp\<close>

text \<open>\<open>query_sm_resp.hpp\<close> and \<open>query_sm_resp.cpp\<close>.\<close>

record QuerySmResp = Header +
  message_id :: octets
  final_date :: octets
  message_state :: octet
  error_code :: octet

definition QuerySmResp_default :: QuerySmResp where
  "QuerySmResp_default =
     \<lparr> command_length = 20, command_id = 0x80000003, command_status = 0,
     sequence_number = SequenceNumber_Min, tlv_list = [], message_id = [], final_date = [],
     message_state = 0, error_code = 0 \<rparr>"

definition new_QuerySmResp :: "uint32 \<Rightarrow> uint32 \<Rightarrow> octets \<Rightarrow>
    octets \<Rightarrow> octet \<Rightarrow> octet \<Rightarrow> QuerySmResp" where
  "new_QuerySmResp commandStatus sequenceNumber message_id' final_date' message_state'
     error_code' =
     update_length (of_nat (length message_id' + length final_date'))
     \<lparr> command_length = 20, command_id = 0x80000003, command_status = commandStatus,
     sequence_number = sequenceNumber, tlv_list = [], message_id = message_id',
     final_date = final_date', message_state = message_state', error_code = error_code' \<rparr>"

definition QuerySmResp_puts :: "QuerySmResp \<Rightarrow> (Buffer \<Rightarrow> Buffer result) list" where
  "QuerySmResp_puts p =
     [put_String (message_id p), put_String (final_date p), put_Uint8 (message_state p),
      put_Uint8 (error_code p)]"

definition QuerySmResp_encode :: "QuerySmResp \<Rightarrow> Buffer result" where
  "QuerySmResp_encode = encode_frame QuerySmResp_puts"

definition QuerySmResp_read :: "QuerySmResp \<Rightarrow> octets \<Rightarrow> nat \<Rightarrow> string \<Rightarrow> (QuerySmResp \<times> nat) result" where
  "QuerySmResp_read p buff len err =
     bind2 (get_String MessageId_assign (drop 16 buff) len err 16) (\<lambda>message_id' offset.
     bind2 (get_String Time_assign (drop offset buff) len err offset) (\<lambda>final_date' offset.
     bind2 (get_Uint8 (drop offset buff) len err offset) (\<lambda>message_state' offset.
     bind2 (get_Uint8 (drop offset buff) len err offset) (\<lambda>error_code' offset.
     Inr (p\<lparr> message_id := message_id', final_date := final_date', message_state := message_state',
       error_code := error_code' \<rparr>, offset)))))"

definition QuerySmResp_decode :: "QuerySmResp \<Rightarrow> octets \<Rightarrow> QuerySmResp result" where
  "QuerySmResp_decode = decode_frame ''Bad length in query_sm_resp'' QuerySmResp_read"

abbreviation QuerySmResp_blank :: QuerySmResp where
  "QuerySmResp_blank \<equiv> QuerySmResp_default\<lparr> sequence_number := 1 \<rparr>"

definition QuerySmResp_from :: "octets \<Rightarrow> QuerySmResp result" where
  "QuerySmResp_from b = QuerySmResp_decode QuerySmResp_blank b"

definition QuerySmResp_body :: "QuerySmResp \<Rightarrow> octets" where
  "QuerySmResp_body p =
     String_octets (message_id p) @ String_octets (final_date p) @ Uint8_octets (message_state p) @
     Uint8_octets (error_code p)"

definition QuerySmResp_fields_ok :: "QuerySmResp \<Rightarrow> bool" where
  "QuerySmResp_fields_ok p \<longleftrightarrow>
     MessageId_ok (message_id p) \<and> Time_ok (final_date p)"

interpretation query_sm_resp: pdu_body QuerySmResp_puts QuerySmResp_read "''Bad length in query_sm_resp''"
  QuerySmResp_blank QuerySmResp_body QuerySmResp_fields_ok
proof (unfold_locales, goal_cases)
  case (1 p)
  show ?case
    unfolding QuerySmResp_puts_def QuerySmResp_body_def by (rule writes_eq, (rule writes_intro)+, simp)
next
  case 2
  show ?case by (simp add: QuerySmResp_default_def)
next
  case (3 p q)
  then show ?case by (cases p, cases q) (simp add: QuerySmResp_body_def)
next
  case (4 p q)
  then show ?case by (cases p, cases q) (simp add: QuerySmResp_fields_ok_def)
next
  case (5 p g b rest len)
  then show ?case
    by (cases p, cases g) (simp add: QuerySmResp_read_def field_simps_read QuerySmResp_body_def
      QuerySmResp_fields_ok_def drop_plus del: drop_drop cong: bind2_cong)
next
  case (6 g b len q off)
  from 6(1) [THEN reading_start, of b] show ?case
    unfolding QuerySmResp_read_def
    by (elim step_elim)
      (cases g, clarsimp simp: reading_end QuerySmResp_body_def QuerySmResp_fields_ok_def)
qed

definition QuerySmResp_set_message_id :: "octets \<Rightarrow> QuerySmResp \<Rightarrow> QuerySmResp" where
  "QuerySmResp_set_message_id v p = update_length (diff v (message_id p)) (p\<lparr> message_id := v \<rparr>)"

definition QuerySmResp_set_message_id_Char :: "octets \<Rightarrow> QuerySmResp \<Rightarrow> QuerySmResp result" where
  "QuerySmResp_set_message_id_Char s p = bind2 (assign_diff MessageId_assign s (message_id p))
     (\<lambda>v d. Inr (update_length d (p\<lparr> message_id := v \<rparr>)))"

definition QuerySmResp_set_final_date :: "octets \<Rightarrow> QuerySmResp \<Rightarrow> QuerySmResp" where
  "QuerySmResp_set_final_date v p = update_length (diff v (final_date p)) (p\<lparr> final_date := v \<rparr>)"

definition QuerySmResp_set_final_date_Char :: "octets \<Rightarrow> QuerySmResp \<Rightarrow> QuerySmResp result" where
  "QuerySmResp_set_final_date_Char s p = bind2 (assign_diff Time_assign s (final_date p))
     (\<lambda>v d. Inr (update_length d (p\<lparr> final_date := v \<rparr>)))"

definition QuerySmResp_set_message_state :: "octet \<Rightarrow> QuerySmResp \<Rightarrow> QuerySmResp" where
  "QuerySmResp_set_message_state v p = p\<lparr> message_state := v \<rparr>"

definition QuerySmResp_set_error_code :: "octet \<Rightarrow> QuerySmResp \<Rightarrow> QuerySmResp" where
  "QuerySmResp_set_error_code v p = p\<lparr> error_code := v \<rparr>"

text \<open>The objects that constructors and mutators build.\<close>

inductive QuerySmResp_reachable :: "QuerySmResp \<Rightarrow> bool" where
  default: "QuerySmResp_reachable QuerySmResp_default"
| ctor: "QuerySmResp_reachable (new_QuerySmResp st n x0 x1 x2 x3)"
| from_buffer: "QuerySmResp_from b = Inr p \<Longrightarrow> QuerySmResp_reachable p"
| inherited: "QuerySmResp_reachable p \<Longrightarrow> header_op p q \<Longrightarrow> QuerySmResp_reachable q"
| set_message_id: "QuerySmResp_reachable p \<Longrightarrow> QuerySmResp_reachable (QuerySmResp_set_message_id v p)"
| set_message_id_Char: "QuerySmResp_reachable p \<Longrightarrow> QuerySmResp_set_message_id_Char s p = Inr q \<Longrightarrow> QuerySmResp_reachable q"
| set_final_date: "QuerySmResp_reachable p \<Longrightarrow> QuerySmResp_reachable (QuerySmResp_set_final_date v p)"
| set_final_date_Char: "QuerySmResp_reachable p \<Longrightarrow> QuerySmResp_set_final_date_Char s p = Inr q \<Longrightarrow> QuerySmResp_reachable q"
| set_message_state: "QuerySmResp_reachable p \<Longrightarrow> QuerySmResp_reachable (QuerySmResp_set_message_state v p)"
| set_error_code: "QuerySmResp_reachable p \<Longrightarrow> QuerySmResp_reachable (QuerySmResp_set_error_code v p)"

lemma query_sm_resp_frame_ok: "QuerySmResp_reachable p \<Longrightarrow> frame_ok p (length (QuerySmResp_body p))"
proof (induction rule: QuerySmResp_reachable.induct)
  case default
  show ?case by (simp add: QuerySmResp_default_def QuerySmResp_body_def setter_simps
    )
next
  case ctor
  show ?case by (simp add: new_QuerySmResp_def QuerySmResp_body_def setter_simps
    )
next
  case (from_buffer b p)
  then show ?case
    using query_sm_resp.from_frame [of b p] by (simp add: QuerySmResp_from_def QuerySmResp_decode_def)
next
  case (inherited p q)
  then show ?case using query_sm_resp.header_op_frame [of p q] by simp
qed (auto simp: QuerySmResp_set_message_id_def QuerySmResp_set_message_id_Char_def
      QuerySmResp_set_final_date_def QuerySmResp_set_final_date_Char_def
      QuerySmResp_set_message_state_def QuerySmResp_set_error_code_def
      QuerySmResp_body_def setter_simps bind_eq_Inr bind2_eq_Inr assigns_def InterfaceVersion_def
      dest!: diff_InrD split: if_splits)

end
