(* ===== verification/Pdu_Replace.thy ===== *)
theory Pdu_Replace
  imports Pdu_Ops
begin

text \<open>
  The PDUs replace_sm and cancel_sm.
  Record, constructors, encoder, decoder and setters of each class, the interpretation of
  \<open>pdu_body\<close> that gives its codec laws, and the invariant of \<open>command_length\<close> over everything
  that constructors and mutators build.
\<close>

section \<open>ReplaceSm\<close>

text \<open>\<open>replace_sm.hpp\<close> and \<open>replace_sm.cpp\<close>.\<close>

record ReplaceSm = Header +
  message_id :: octets
  source_addr :: SmeAddress
  schedule_delivery_time :: octets
  validity_period :: octets
  registered_delivery :: octet
  sm_default_msg_id :: octet
  short_message :: octets

definition ReplaceSm_default :: ReplaceSm where
  "ReplaceSm_default =
     \<lparr> command_length = 25, command_id = 0x00000007, command_status = 0,
     sequence_number = SequenceNumber_Min, tlv_list = [], message_id = [],
     source_addr = SmeAddress_default, schedule_delivery_time = [], validity_period = [],
     registered_delivery = 0, sm_default_msg_id = 0, short_message = [] \<rparr>"

definition new_ReplaceSm :: "uint32 \<Rightarrow> octets \<Rightarrow> SmeAddress \<Rightarrow>
    octets \<Rightarrow> octets \<Rightarrow> octet \<Rightarrow> octet \<Rightarrow> octets \<Rightarrow> ReplaceSm" where
  "new_ReplaceSm sequenceNumber message_id' source_addr' schedule_delivery_time' validity_period'
     registered_delivery' sm_default_msg_id' short_message' =
     update_length (of_nat (length message_id' + address_length source_addr' + length schedule_delivery_time' +
       length validity_period' + length short_message'))
     \<lparr> command_length = 25, command_id = 0x00000007, command_status = 0,
     sequence_number = sequenceNumber, tlv_list = [], message_id = message_id',
     source_addr = source_addr', schedule_delivery_time = schedule_delivery_time',
     validity_period = validity_period', registered_delivery = registered_delivery',
     sm_default_msg_id = sm_default_msg_id', short_message = short_message' \<rparr>"

definition ReplaceSm_puts :: "ReplaceSm \<Rightarrow> (Buffer \<Rightarrow> Buffer result) list" where
  "ReplaceSm_puts p =
     [put_String (message_id p), put_SmeAddress (source_addr p),
      put_String (schedule_delivery_time p), put_String (validity_period p),
      put_Uint8 (registered_delivery p), put_Uint8 (sm_default_msg_id p),
      put_ShortMessage (short_message p)]"

definition ReplaceSm_encode :: "ReplaceSm \<Rightarrow> Buffer result" where
  "ReplaceSm_encode = encode_frame ReplaceSm_puts"

definition ReplaceSm_read :: "ReplaceSm \<Rightarrow> octets \<Rightarrow> nat \<Rightarrow> string \<Rightarrow> (ReplaceSm \<times> nat) result" where
  "ReplaceSm_read p buff len err =
     bind2 (get_String MessageId_assign (drop 16 buff) len err 16) (\<lambda>message_id' offset.
     bind2 (get_SmeAddress (source_addr p) (drop offset buff) len err offset) (\<lambda>source_addr' offset.
     bind2 (get_String Time_assign (drop offset buff) len err offset) (\<lambda>schedule_delivery_time' offset.
     bind2 (get_String Time_assign (drop offset buff) len err offset) (\<lambda>validity_period' offset.
     bind2 (get_Uint8 (drop offset buff) len err offset) (\<lambda>registered_delivery' offset.
     bind2 (get_Uint8 (drop offset buff) len err offset) (\<lambda>sm_default_msg_id' offset.
     bind2 (get_ShortMessage (drop offset buff) len err offset) (\<lambda>short_message' offset.
     Inr (p\<lparr> message_id := message_id', source_addr := source_addr',
       schedule_delivery_time := schedule_delivery_time', validity_period := validity_period',
       registered_delivery := registered_delivery', sm_default_msg_id := sm_default_msg_id',
       short_message := short_message' \<rparr>, offset))))))))"

definition ReplaceSm_decode :: "ReplaceSm \<Rightarrow> octets \<Rightarrow> ReplaceSm result" where
  "ReplaceSm_decode = decode_frame ''Bad length in replace_sm'' ReplaceSm_read"

abbreviation ReplaceSm_blank :: ReplaceSm where
  "ReplaceSm_blank \<equiv> ReplaceSm_default\<lparr> sequence_number := 1 \<rparr>"

definition ReplaceSm_from :: "octets \<Rightarrow> ReplaceSm result" where
  "ReplaceSm_from b = ReplaceSm_decode ReplaceSm_blank b"

definition ReplaceSm_body :: "ReplaceSm \<Rightarrow> octets" where
  "ReplaceSm_body p =
     String_octets (message_id p) @ SmeAddress_octets (source_addr p) @
     String_octets (schedule_delivery_time p) @ String_octets (validity_period p) @
     Uint8_octets (registered_delivery p) @ Uint8_octets (sm_default_msg_id p) @
     ShortMessage_octets (short_message p)"

definition ReplaceSm_fields_ok :: "ReplaceSm \<Rightarrow> bool" where
  "ReplaceSm_fields_ok p \<longleftrightarrow>
     MessageId_ok (message_id p) \<and> SmeAddress_ok 21 (source_addr p) \<and>
     Time_ok (schedule_delivery_time p) \<and> Time_ok (validity_period p) \<and>
     ShortMessage_ok (short_message p)"

interpretation replace_sm: pdu_body ReplaceSm_puts ReplaceSm_read "''Bad length in replace_sm''"
  ReplaceSm_blank ReplaceSm_body ReplaceSm_fields_ok
proof (unfold_locales, goal_cases)
  case (1 p)
  show ?case
    unfolding ReplaceSm_puts_def ReplaceSm_body_def by (rule writes_eq, (rule writes_intro)+, simp)
next
  case 2
  show ?case by (simp add: ReplaceSm_default_def)
next
  case (3 p q)
  then show ?case by (cases p, cases q) (simp add: ReplaceSm_body_def)
next
  case (4 p q)
  then show ?case by (cases p, cases q) (simp add: ReplaceSm_fields_ok_def)
next
  case (5 p g b rest len)
  then have old: "source_addr g = SmeAddress_default"
    by (cases g, simp add: ReplaceSm_default_def)+
  with 5 show ?case
    by (cases p, cases g) (simp add: ReplaceSm_read_def field_simps_read ReplaceSm_body_def
      ReplaceSm_fields_ok_def drop_plus del: drop_drop cong: bind2_cong)
next
  case (6 g b len q off)
  then have old: "source_addr g = SmeAddress_default"
    by (cases g, simp add: ReplaceSm_default_def)+
  with 6(1) [THEN reading_start, of b] show ?case
    unfolding ReplaceSm_read_def old
    by (elim step_elim)
      (cases g, clarsimp simp: reading_end ReplaceSm_body_def ReplaceSm_fields_ok_def)
qed

definition ReplaceSm_set_message_id :: "octets \<Rightarrow> ReplaceSm \<Rightarrow> ReplaceSm" where
  "ReplaceSm_set_message_id v p = update_length (diff v (message_id p)) (p\<lparr> message_id := v \<rparr>)"

definition ReplaceSm_set_message_id_Char :: "octets \<Rightarrow> ReplaceSm \<Rightarrow> ReplaceSm result" where
  "ReplaceSm_set_message_id_Char s p = bind2 (assign_diff MessageId_assign s (message_id p))
     (\<lambda>v d. Inr (update_length d (p\<lparr> message_id := v \<rparr>)))"

definition ReplaceSm_set_source_addr :: "SmeAddress \<Rightarrow> ReplaceSm \<Rightarrow> ReplaceSm" where
  "ReplaceSm_set_source_addr a p = update_length (diff (addr_v (address a)) (addr_v (address (source_addr p))))
     (p\<lparr> source_addr := a \<rparr>)"

definition ReplaceSm_set_source_addr_Address :: "Address \<Rightarrow> ReplaceSm \<Rightarrow> ReplaceSm result" where
  "ReplaceSm_set_source_addr_Address a p = bind2 (address_diff 0 0 a 21 (source_addr p))
     (\<lambda>v d. Inr (update_length d (p\<lparr> source_addr := v \<rparr>)))"

definition ReplaceSm_set_schedule_delivery_time :: "octets \<Rightarrow> ReplaceSm \<Rightarrow> ReplaceSm" where
  "ReplaceSm_set_schedule_delivery_time v p = update_length (diff v (schedule_delivery_time p)) (p\<lparr> schedule_delivery_time := v \<rparr>)"

definition ReplaceSm_set_schedule_delivery_time_Char :: "octets \<Rightarrow> ReplaceSm \<Rightarrow> ReplaceSm result" where
  "ReplaceSm_set_schedule_delivery_time_Char s p = bind2 (assign_diff Time_assign s (schedule_delivery_time p))
     (\<lambda>v d. Inr (update_length d (p\<lparr> schedule_delivery_time := v \<rparr>)))"

definition ReplaceSm_set_validity_period :: "octets \<Rightarrow> ReplaceSm \<Rightarrow> ReplaceSm" where
  "ReplaceSm_set_validity_period v p = update_length (diff v (validity_period p)) (p\<lparr> validity_period := v \<rparr>)"

definition ReplaceSm_set_validity_period_Char :: "octets \<Rightarrow> ReplaceSm \<Rightarrow> ReplaceSm result" where
  "ReplaceSm_set_validity_period_Char s p = bind2 (assign_diff Time_assign s (validity_period p))
     (\<lambda>v d. Inr (update_length d (p\<lparr> validity_period := v \<rparr>)))"

definition ReplaceSm_set_registered_delivery :: "octet \<Rightarrow> ReplaceSm \<Rightarrow> ReplaceSm" where
  "ReplaceSm_set_registered_delivery v p = p\<lparr> registered_delivery := v \<rparr>"

definition ReplaceSm_set_sm_default_msg_id :: "octet \<Rightarrow> ReplaceSm \<Rightarrow> ReplaceSm" where
  "ReplaceSm_set_sm_default_msg_id v p = p\<lparr> sm_default_msg_id := v \<rparr>"

definition ReplaceSm_set_short_message :: "octets \<Rightarrow> octet \<Rightarrow> ReplaceSm \<Rightarrow> ReplaceSm result" where
  "ReplaceSm_set_short_message v l p = bind2 (message_diff v l (short_message p))
     (\<lambda>m d. Inr (update_length d (p\<lparr> short_message := m \<rparr>)))"

text \<open>The objects that constructors and mutators build.\<close>

inductive ReplaceSm_reachable :: "ReplaceSm \<Rightarrow> bool" where
  default: "ReplaceSm_reachable ReplaceSm_default"
| ctor: "ReplaceSm_reachable (new_ReplaceSm n x0 x1 x2 x3 x4 x5 x6)"
| from_buffer: "ReplaceSm_from b = Inr p \<Longrightarrow> ReplaceSm_reachable p"
| inherited: "ReplaceSm_reachable p \<Longrightarrow> header_op p q \<Longrightarrow> ReplaceSm_reachable q"
| set_message_id: "ReplaceSm_reachable p \<Longrightarrow> ReplaceSm_reachable (ReplaceSm_set_message_id v p)"
| set_message_id_Char: "ReplaceSm_reachable p \<Longrightarrow> ReplaceSm_set_message_id_Char s p = Inr q \<Longrightarrow> ReplaceSm_reachable q"
| set_source_addr: "ReplaceSm_reachable p \<Longrightarrow> ReplaceSm_reachable (ReplaceSm_set_source_addr a p)"
| set_source_addr_Address: "ReplaceSm_reachable p \<Longrightarrow> ReplaceSm_set_source_addr_Address a p = Inr q \<Longrightarrow> ReplaceSm_reachable q"
| set_schedule_delivery_time: "ReplaceSm_reachable p \<Longrightarrow> ReplaceSm_reachable (ReplaceSm_set_schedule_delivery_time v p)"
| set_schedule_delivery_time_Char: "ReplaceSm_reachable p \<Longrightarrow> ReplaceSm_set_schedule_delivery_time_Char s p = Inr q \<Longrightarrow> ReplaceSm_reachable q"
| set_validity_period: "ReplaceSm_reachable p \<Longrightarrow> ReplaceSm_reachable (ReplaceSm_set_validity_period v p)"
| set_validity_period_Char: "ReplaceSm_reachable p \<Longrightarrow> ReplaceSm_set_validity_period_Char s p = Inr q \<Longrightarrow> ReplaceSm_reachable q"
| set_registered_delivery: "ReplaceSm_reachable p \<Longrightarrow> ReplaceSm_reachable (ReplaceSm_set_registered_delivery v p)"
| set_sm_default_msg_id: "ReplaceSm_reachable p \<Longrightarrow> ReplaceSm_reachable (ReplaceSm_set_sm_default_msg_id v p)"
| set_short_message: "ReplaceSm_reachable p \<Longrightarrow> ReplaceSm_set_short_message v l p = Inr q \<Longrightarrow> ReplaceSm_reachable q"

lemma replace_sm_frame_ok: "ReplaceSm_reachable p \<Longrightarrow> frame_ok p (length (ReplaceSm_body p))"
proof (induction rule: ReplaceSm_reachable.induct)
  case default
  show ?case by (simp add: ReplaceSm_default_def ReplaceSm_body_def setter_simps
    SmeAddress_default_def Address_default_def)
next
  case ctor
  show ?case by (simp add: new_ReplaceSm_def ReplaceSm_body_def setter_simps
    SmeAddress_default_def Address_default_def)
next
  case (from_buffer b p)
  then show ?case
    using replace_sm.from_frame [of b p] by (simp add: ReplaceSm_from_def ReplaceSm_decode_def)
next
  case (inherited p q)
  then show ?case using replace_sm.header_op_frame [of p q] by simp
qed (auto simp: ReplaceSm_set_message_id_def ReplaceSm_set_message_id_Char_def
      ReplaceSm_set_source_addr_def ReplaceSm_set_source_addr_Address_def
      ReplaceSm_set_schedule_delivery_time_def
      ReplaceSm_set_schedule_delivery_time_Char_def
      ReplaceSm_set_validity_period_def ReplaceSm_set_validity_period_Char_def
      ReplaceSm_set_registered_delivery_def ReplaceSm_set_sm_default_msg_id_def
      ReplaceSm_set_short_message_def
      ReplaceSm_body_def setter_simps bind_eq_Inr bind2_eq_Inr assigns_def InterfaceVersion_def
      dest!: diff_InrD split: if_splits)

section \<open>CancelSm\<close>

text \<open>\<open>cancel_sm.hpp\<close> and \<open>cancel_sm.cpp\<close>.\<close>

record CancelSm = Header +
  service_type :: octets
  message_id :: octets
  source_addr :: SmeAddress
  destination_addr :: SmeAddress

definition CancelSm_default :: CancelSm where
  "CancelSm_default =
     \<lparr> command_length = 24, command_id = 0x00000008, command_status = 0,
     sequence_number = SequenceNumber_Min, tlv_list = [], service_type = [], message_id = [],
     source_addr = SmeAddress_default, destination_addr = SmeAddress_default \<rparr>"

definition new_CancelSm :: "uint32 \<Rightarrow> octets \<Rightarrow> octets \<Rightarrow>
    SmeAddress \<Rightarrow> SmeAddress \<Rightarrow> CancelSm" where
  "new_CancelSm sequenceNumber service_type' message_id' source_addr' destination_addr' =
     update_length (of_nat (length service_type' + length message_id' + address_length source_addr' +
       address_length destination_addr'))
     \<lparr> command_length = 24, command_id = 0x00000008, command_status = 0,
     sequence_number = sequenceNumber, tlv_list = [], service_type = service_type',
     message_id = message_id', source_addr = source_addr', destination_addr = destination_addr' \<rparr>"

definition CancelSm_puts :: "CancelSm \<Rightarrow> (Buffer \<Rightarrow> Buffer result) list" where
  "CancelSm_puts p =
     [put_String (service_type p), put_String (message_id p), put_SmeAddress (source_addr p),
      put_SmeAddress (destination_addr p)]"

definition CancelSm_encode :: "CancelSm \<Rightarrow> Buffer result" where
  "CancelSm_encode = encode_frame CancelSm_puts"

definition CancelSm_read :: "CancelSm \<Rightarrow> octets \<Rightarrow> nat \<Rightarrow> string \<Rightarrow> (CancelSm \<times> nat) result" where
  "CancelSm_read p buff len err =
     bind2 (get_String ServiceType_assign (drop 16 buff) len err 16) (\<lambda>service_type' offset.
     bind2 (get_String MessageId_assign (drop offset buff) len err offset) (\<lambda>message_id' offset.
     bind2 (get_SmeAddress (source_addr p) (drop offset buff) len err offset) (\<lambda>source_addr' offset.
     bind2 (get_SmeAddress (destination_addr p) (drop offset buff) len err offset) (\<lambda>destination_addr' offset.
     Inr (p\<lparr> service_type := service_type', message_id := message_id', source_addr := source_addr',
       destination_addr := destination_addr' \<rparr>, offset)))))"

definition CancelSm_decode :: "CancelSm \<Rightarrow> octets \<Rightarrow> CancelSm result" where
  "CancelSm_decode = decode_frame ''Bad length in cancel_sm'' CancelSm_read"

abbreviation CancelSm_blank :: CancelSm where
  "CancelSm_blank \<equiv> CancelSm_default\<lparr> sequence_number := 1 \<rparr>"

definition CancelSm_from :: "octets \<Rightarrow> CancelSm result" where
  "CancelSm_from b = CancelSm_decode CancelSm_blank b"

definition CancelSm_body :: "CancelSm \<Rightarrow> octets" where
  "CancelSm_body p =
     String_octets (service_type p) @ String_octets (message_id p) @
     SmeAddress_octets (source_addr p) @ SmeAddress_octets (destination_addr p)"

definition CancelSm_fields_ok :: "CancelSm \<Rightarrow> bool" where
  "CancelSm_fields_ok p \<longleftrightarrow>
     ServiceType_ok (service_type p) \<and> MessageId_ok (message_id p) \<and>
     SmeAddress_ok 21 (source_addr p) \<and> SmeAddress_ok 21 (destination_addr p)"

interpretation cancel_sm: pdu_body CancelSm_puts CancelSm_read "''Bad length in cancel_sm''"
  CancelSm_blank CancelSm_body CancelSm_fields_ok
proof (unfold_locales, goal_cases)
  case (1 p)
  show ?case
    unfolding CancelSm_puts_def CancelSm_body_def by (rule writes_eq, (rule writes_intro)+, simp)
next
  case 2
  show ?case by (simp add: CancelSm_default_def)
next
  case (3 p q)
  then show ?case by (cases p, cases q) (simp add: CancelSm_body_def)
next
  case (4 p q)
  then show ?case by (cases p, cases q) (simp add: CancelSm_fields_ok_def)
next
  case (5 p g b rest len)
  then have old: "source_addr g = SmeAddress_default" "destination_addr g = SmeAddress_default"
    by (cases g, simp add: CancelSm_default_def)+
  with 5 show ?case
    by (cases p, cases g) (simp add: CancelSm_read_def field_simps_read CancelSm_body_def
      CancelSm_fields_ok_def drop_plus del: drop_drop cong: bind2_cong)
next
  case (6 g b len q off)
  then have old: "source_addr g = SmeAddress_default" "destination_addr g = SmeAddress_default"
    by (cases g, simp add: CancelSm_default_def)+
  with 6(1) [THEN reading_start, of b] show ?case
    unfolding CancelSm_read_def old
    by (elim step_elim)
      (cases g, clarsimp simp: reading_end CancelSm_body_def CancelSm_fields_ok_def)
qed

definition CancelSm_set_service_type :: "octets \<Rightarrow> CancelSm \<Rightarrow> CancelSm" where
  "CancelSm_set_service_type v p = update_length (diff v (service_type p)) (p\<lparr> service_type := v \<rparr>)"

definition CancelSm_set_service_type_Char :: "octets \<Rightarrow> CancelSm \<Rightarrow> CancelSm result" where
  "CancelSm_set_service_type_Char s p = bind2 (assign_diff ServiceType_assign s (service_type p))
     (\<lambda>v d. Inr (update_length d (p\<lparr> service_type := v \<rparr>)))"

definition CancelSm_set_message_id :: "octets \<Rightarrow> CancelSm \<Rightarrow> CancelSm" where
  "CancelSm_set_message_id v p = update_length (diff v (message_id p)) (p\<lparr> message_id := v \<rparr>)"

definition CancelSm_set_message_id_Char :: "octets \<Rightarrow> CancelSm \<Rightarrow> CancelSm result" where
  "CancelSm_set_message_id_Char s p = bind2 (assign_diff MessageId_assign s (message_id p))
     (\<lambda>v d. Inr (update_length d (p\<lparr> message_id := v \<rparr>)))"

definition CancelSm_set_source_addr :: "SmeAddress \<Rightarrow> CancelSm \<Rightarrow> CancelSm" where
  "CancelSm_set_source_addr a p = update_length (diff (addr_v (address a)) (addr_v (address (source_addr p))))
     (p\<lparr> source_addr := a \<rparr>)"

definition CancelSm_set_source_addr_Address :: "Address \<Rightarrow> CancelSm \<Rightarrow> CancelSm result" where
  "CancelSm_set_source_addr_Address a p = bind2 (address_diff 0 0 a 21 (source_addr p))
     (\<lambda>v d. Inr (update_length d (p\<lparr> source_addr := v \<rparr>)))"

definition CancelSm_set_destination_addr :: "SmeAddress \<Rightarrow> CancelSm \<Rightarrow> CancelSm" where
  "CancelSm_set_destination_addr a p = update_length (diff (addr_v (address a)) (addr_v (address (destination_addr p))))
     (p\<lparr> destination_addr := a \<rparr>)"

definition CancelSm_set_destination_addr_Address :: "Address \<Rightarrow> CancelSm \<Rightarrow> CancelSm result" where
  "CancelSm_set_destination_addr_Address a p = bind2 (address_diff 0 0 a 21 (destination_addr p))
     (\<lambda>v d. Inr (update_length d (p\<lparr> destination_addr := v \<rparr>)))"

text \<open>The objects that constructors and mutators build.\<close>

inductive CancelSm_reachable :: "CancelSm \<Rightarrow> bool" where
  default: "CancelSm_reachable CancelSm_default"
| ctor: "CancelSm_reachable (new_CancelSm n x0 x1 x2 x3)"
| from_buffer: "CancelSm_from b = Inr p \<Longrightarrow> CancelSm_reachable p"
| inherited: "CancelSm_reachable p \<Longrightarrow> header_op p q \<Longrightarrow> CancelSm_reachable q"
| set_service_type: "CancelSm_reachable p \<Longrightarrow> CancelSm_reachable (CancelSm_set_service_type v p)"
| set_service_type_Char: "CancelSm_reachable p \<Longrightarrow> CancelSm_set_service_type_Char s p = Inr q \<Longrightarrow> CancelSm_reachable q"
| set_message_id: "CancelSm_reachable p \<Longrightarrow> CancelSm_reachable (CancelSm_set_message_id v p)"
| set_message_id_Char: "CancelSm_reachable p \<Longrightarrow> CancelSm_set_message_id_Char s p = Inr q \<Longrightarrow> CancelSm_reachable q"
| set_source_addr: "CancelSm_reachable p \<Longrightarrow> CancelSm_reachable (CancelSm_set_source_addr a p)"
| set_source_addr_Address: "CancelSm_reachable p \<Longrightarrow> CancelSm_set_source_addr_Address a p = Inr q \<Longrightarrow> CancelSm_reachable q"
| set_destination_addr: "CancelSm_reachable p \<Longrightarrow> CancelSm_reachable (CancelSm_set_destination_addr a p)"
| set_destination_addr_Address: "CancelSm_reachable p \<Longrightarrow> CancelSm_set_destination_addr_Address a p = Inr q \<Longrightarrow> CancelSm_reachable q"

lemma cancel_sm_frame_ok: "CancelSm_reachable p \<Longrightarrow> frame_ok p (length (CancelSm_body p))"
proof (induction rule: CancelSm_reachable.induct)
  case default
  show ?case by (simp add: CancelSm_default_def CancelSm_body_def setter_simps
    SmeAddress_default_def Address_default_def)
next
  case ctor
  show ?case by (simp add: new_CancelSm_def CancelSm_body_def setter_simps
    SmeAddress_default_def Address_default_def)
next
  case (from_buffer b p)
  then show ?case
    using cancel_sm.from_frame [of b p] by (simp add: CancelSm_from_def CancelSm_decode_def)
next
  case (inherited p q)
  then show ?case using cancel_sm.header_op_frame [of p q] by simp
qed (auto simp: CancelSm_set_service_type_def CancelSm_set_service_type_Char_def
      CancelSm_set_message_id_def CancelSm_set_message_id_Char_def
      CancelSm_set_source_addr_def CancelSm_set_source_addr_Address_def
      CancelSm_set_destination_addr_def
      CancelSm_set_destination_addr_Address_def
      CancelSm_body_def setter_simps bind_eq_Inr bind2_eq_Inr assigns_def InterfaceVersion_def
      dest!: diff_InrD split: if_splits)

end
