(* ===== verification/Pdu_Multi.thy ===== *)
theory Pdu_Multi
  imports Pdu_Ops
begin

text \<open>
  The PDUs submit_multi and submit_multi_resp.
  Record, constructors, encoder, decoder and setters of each class, the interpretation of
  \<open>pdu_body\<close> that gives its codec laws, and the invariant of \<open>command_length\<close> over everything
  that constructors and mutators build.
\<close>

section \<open>SubmitMulti\<close>

text \<open>\<open>submit_multi.hpp\<close> and \<open>submit_multi.cpp\<close>.\<close>

record SubmitMulti = Header +
  service_type :: octets
  source_addr :: SmeAddress
  destination_addr :: MultiDestinationAddresses
  esm_class :: octet
  protocol_id :: octet
  priority_flag :: octet
  schedule_delivery_time :: octets
  validity_period :: octets
  registered_delivery :: octet
  replace_if_present_flag :: octet
  data_coding :: octet
  sm_default_msg_id :: octet
  short_message :: octets

definition SubmitMulti_default :: SubmitMulti where
  "SubmitMulti_default =
     \<lparr> command_length = 31, command_id = 0x00000021, command_status = 0,
     sequence_number = SequenceNumber_Min, tlv_list = [], service_type = [],
     source_addr = SmeAddress_default, destination_addr = MultiDestinationAddresses_default,
     esm_class = 0, protocol_id = 0, priority_flag = 0, schedule_delivery_time = [],
     validity_period = [], registered_delivery = 0, replace_if_present_flag = 0, data_coding = 0,
     sm_default_msg_id = 0, short_message = [] \<rparr>"

definition new_SubmitMulti :: "uint32 \<Rightarrow> octets \<Rightarrow> SmeAddress \<Rightarrow>
    octet \<Rightarrow> octet \<Rightarrow> octet \<Rightarrow> octets \<Rightarrow>
    octets \<Rightarrow> octet \<Rightarrow> octet \<Rightarrow> octet \<Rightarrow>
    octet \<Rightarrow> octets \<Rightarrow> SubmitMulti" where
  "new_SubmitMulti sequenceNumber service_type' source_addr' esm_class' protocol_id'
     priority_flag' schedule_delivery_time' validity_period' registered_delivery'
     replace_if_present_flag' data_coding' sm_default_msg_id' short_message' =
     update_length (of_nat (length service_type' + address_length source_addr' + length schedule_delivery_time' +
       length validity_period' + length short_message'))
     \<lparr> command_length = 31, command_id = 0x00000021, command_status = 0,
     sequence_number = sequenceNumber, tlv_list = [], service_type = service_type',
     source_addr = source_addr', destination_addr = MultiDestinationAddresses_default,
     esm_class = esm_class', protocol_id = protocol_id', priority_flag = priority_flag',
     schedule_delivery_time = schedule_delivery_time', validity_period = validity_period',
     registered_delivery = registered_delivery',
     replace_if_present_flag = replace_if_present_flag', data_coding = data_coding',
     sm_default_msg_id = sm_default_msg_id', short_message = short_message' \<rparr>"

definition SubmitMulti_puts :: "SubmitMulti \<Rightarrow> (Buffer \<Rightarrow> Buffer result) list" where
  "SubmitMulti_puts p =
     [put_String (service_type p), put_SmeAddress (source_addr p),
      put_MultiDestinationAddresses (destination_addr p), put_Uint8 (esm_class p),
      put_Uint8 (protocol_id p), put_Uint8 (priority_flag p),
      put_String (schedule_delivery_time p), put_String (validity_period p),
      put_Uint8 (registered_delivery p), put_Uint8 (replace_if_present_flag p),
      put_Uint8 (data_coding p), put_Uint8 (sm_default_msg_id p),
      put_ShortMessage (short_message p)]"

definition SubmitMulti_encode :: "SubmitMulti \<Rightarrow> Buffer result" where
  "SubmitMulti_encode = encode_frame SubmitMulti_puts"

definition SubmitMulti_read :: "SubmitMulti \<Rightarrow> octets \<Rightarrow> nat \<Rightarrow> string \<Rightarrow> (SubmitMulti \<times> nat) result" where
  "SubmitMulti_read p buff len err =
     bind2 (get_String ServiceType_assign (drop 16 buff) len err 16) (\<lambda>service_type' offset.
     bind2 (get_SmeAddress (source_addr p) (drop offset buff) len err offset) (\<lambda>source_addr' offset.
     bind2 (get_MultiDestinationAddresses (destination_addr p) (drop offset buff) len err offset) (\<lambda>destination_addr' offset.
     bind2 (get_Uint8 (drop offset buff) len err offset) (\<lambda>esm_class' offset.
     bind2 (get_Uint8 (drop offset buff) len err offset) (\<lambda>protocol_id' offset.
     bind2 (get_Uint8 (drop offset buff) len err offset) (\<lambda>priority_flag' offset.
     bind2 (get_String Time_assign (drop offset buff) len err offset) (\<lambda>schedule_delivery_time' offset.
     bind2 (get_String Time_assign (drop offset buff) len err offset) (\<lambda>validity_period' offset.
     bind2 (get_Uint8 (drop offset buff) len err offset) (\<lambda>registered_delivery' offset.
     bind2 (get_Uint8 (drop offset buff) len err offset) (\<lambda>replace_if_present_flag' offset.
     bind2 (get_Uint8 (drop offset buff) len err offset) (\<lambda>data_coding' offset.
     bind2 (get_Uint8 (drop offset buff) len err offset) (\<lambda>sm_default_msg_id' offset.
     bind2 (get_ShortMessage (drop offset buff) len err offset) (\<lambda>short_message' offset.
     Inr (p\<lparr> service_type := service_type', source_addr := source_addr',
       destination_addr := destination_addr', esm_class := esm_class',
       protocol_id := protocol_id', priority_flag := priority_flag',
       schedule_delivery_time := schedule_delivery_time', validity_period := validity_period',
       registered_delivery := registered_delivery',
       replace_if_present_flag := replace_if_present_flag', data_coding := data_coding',
       sm_default_msg_id := sm_default_msg_id', short_message := short_message' \<rparr>, offset))))))))))))))"

definition SubmitMulti_decode :: "SubmitMulti \<Rightarrow> octets \<Rightarrow> SubmitMulti result" where
  "SubmitMulti_decode = decode_frame ''Invalid command_length'' SubmitMulti_read"

abbreviation SubmitMulti_blank :: SubmitMulti where
  "SubmitMulti_blank \<equiv> SubmitMulti_default\<lparr> sequence_number := 1 \<rparr>"

definition SubmitMulti_from :: "octets \<Rightarrow> SubmitMulti result" where
  "SubmitMulti_from b = SubmitMulti_decode SubmitMulti_blank b"

definition SubmitMulti_body :: "SubmitMulti \<Rightarrow> octets" where
  "SubmitMulti_body p =
     String_octets (service_type p) @ SmeAddress_octets (source_addr p) @
     MultiDestinationAddresses_octets (destination_addr p) @ Uint8_octets (esm_class p) @
     Uint8_octets (protocol_id p) @ Uint8_octets (priority_flag p) @
     String_octets (schedule_delivery_time p) @ String_octets (validity_period p) @
     Uint8_octets (registered_delivery p) @ Uint8_octets (replace_if_present_flag p) @
     Uint8_octets (data_coding p) @ Uint8_octets (sm_default_msg_id p) @
     ShortMessage_octets (short_message p)"

definition SubmitMulti_fields_ok :: "SubmitMulti \<Rightarrow> bool" where
  "SubmitMulti_fields_ok p \<longleftrightarrow>
     ServiceType_ok (service_type p) \<and> SmeAddress_ok 21 (source_addr p) \<and>
     MultiDestinationAddresses_ok (destination_addr p) \<and>
     Time_ok (schedule_delivery_time p) \<and> Time_ok (validity_period p) \<and>
     ShortMessage_ok (short_message p)"

interpretation submit_multi: pdu_body SubmitMulti_puts SubmitMulti_read "''Invalid command_length''"
  SubmitMulti_blank SubmitMulti_body SubmitMulti_fields_ok
proof (unfold_locales, goal_cases)
  case (1 p)
  show ?case
    unfolding SubmitMulti_puts_def SubmitMulti_body_def by (rule writes_eq, (rule writes_intro)+, simp)
next
  case 2
  show ?case by (simp add: SubmitMulti_default_def)
next
  case (3 p q)
  then show ?case by (cases p, cases q) (simp add: SubmitMulti_body_def)
next
  case (4 p q)
  then show ?case by (cases p, cases q) (simp add: SubmitMulti_fields_ok_def)
next
  case (5 p g b rest len)
  then have old: "source_addr g = SmeAddress_default" "destination_addr g = MultiDestinationAddresses_default"
    by (cases g, simp add: SubmitMulti_default_def)+
  moreover from 5 have "16 + length (String_octets (service_type p)) +
      length (SmeAddress_octets (source_addr p)) + 3 \<le> len"
    by (simp add: SubmitMulti_body_def octets_simps)
  ultimately show ?case
    using 5
    by (cases p, cases g) (simp add: SubmitMulti_read_def field_simps_read SubmitMulti_body_def
      SubmitMulti_fields_ok_def drop_plus del: drop_drop cong: bind2_cong)
next
  case (6 g b len q off)
  then have old: "source_addr g = SmeAddress_default" "destination_addr g = MultiDestinationAddresses_default"
    by (cases g, simp add: SubmitMulti_default_def)+
  with 6(1) [THEN reading_start, of b] show ?case
    unfolding SubmitMulti_read_def old
    by (elim step_elim)
      (cases g, clarsimp simp: reading_end SubmitMulti_body_def SubmitMulti_fields_ok_def)
qed

definition SubmitMulti_set_service_type :: "octets \<Rightarrow> SubmitMulti \<Rightarrow> SubmitMulti" where
  "SubmitMulti_set_service_type v p = update_length (diff v (service_type p)) (p\<lparr> service_type := v \<rparr>)"

definition SubmitMulti_set_service_type_Char :: "octets \<Rightarrow> SubmitMulti \<Rightarrow> SubmitMulti result" where
  "SubmitMulti_set_service_type_Char s p = bind2 (assign_diff ServiceType_assign s (service_type p))
     (\<lambda>v d. Inr (update_length d (p\<lparr> service_type := v \<rparr>)))"

definition SubmitMulti_set_source_addr :: "SmeAddress \<Rightarrow> SubmitMulti \<Rightarrow> SubmitMulti" where
  "SubmitMulti_set_source_addr a p = update_length (diff (addr_v (address a)) (addr_v (address (source_addr p))))
     (p\<lparr> source_addr := a \<rparr>)"

definition SubmitMulti_set_source_addr_Address :: "Address \<Rightarrow> SubmitMulti \<Rightarrow> SubmitMulti result" where
  "SubmitMulti_set_source_addr_Address a p = bind2 (address_diff 0 0 a 21 (source_addr p))
     (\<lambda>v d. Inr (update_length d (p\<lparr> source_addr := v \<rparr>)))"

definition SubmitMulti_add_destination_SmeAddress :: "SmeAddress \<Rightarrow> SubmitMulti \<Rightarrow> SubmitMulti" where
  "SubmitMulti_add_destination_SmeAddress a p = (case add_SmeAddress a (destination_addr p) of (m, n) \<Rightarrow>
     update_length (of_nat n) (p\<lparr> destination_addr := m \<rparr>))"

definition SubmitMulti_add_destination_String :: "octets \<Rightarrow> SubmitMulti \<Rightarrow> SubmitMulti" where
  "SubmitMulti_add_destination_String a p = (case add_String a (destination_addr p) of (m, n) \<Rightarrow>
     update_length (of_nat n) (p\<lparr> destination_addr := m \<rparr>))"

definition SubmitMulti_set_esm_class :: "int \<Rightarrow> SubmitMulti \<Rightarrow> SubmitMulti" where
  "SubmitMulti_set_esm_class v p = p\<lparr> esm_class := word_of_int v \<rparr>"

definition SubmitMulti_set_protocol_id :: "int \<Rightarrow> SubmitMulti \<Rightarrow> SubmitMulti" where
  "SubmitMulti_set_protocol_id v p = p\<lparr> protocol_id := word_of_int v \<rparr>"

definition SubmitMulti_set_priority_flag :: "int \<Rightarrow> SubmitMulti \<Rightarrow> SubmitMulti" where
  "SubmitMulti_set_priority_flag v p = p\<lparr> priority_flag := word_of_int v \<rparr>"

definition SubmitMulti_set_schedule_delivery_time :: "octets \<Rightarrow> SubmitMulti \<Rightarrow> SubmitMulti" where
  "SubmitMulti_set_schedule_delivery_time v p = update_length (diff v (schedule_delivery_time p)) (p\<lparr> schedule_delivery_time := v \<rparr>)"

definition SubmitMulti_set_schedule_delivery_time_Char :: "octets \<Rightarrow> SubmitMulti \<Rightarrow> SubmitMulti result" where
  "SubmitMulti_set_schedule_delivery_time_Char s p = bind2 (assign_diff Time_assign s (schedule_delivery_time p))
     (\<lambda>v d. Inr (update_length d (p\<lparr> schedule_delivery_time := v \<rparr>)))"

definition SubmitMulti_set_validity_period :: "octets \<Rightarrow> SubmitMulti \<Rightarrow> SubmitMulti" where
  "SubmitMulti_set_validity_period v p = update_length (diff v (validity_period p)) (p\<lparr> validity_period := v \<rparr>)"

definition SubmitMulti_set_validity_period_Char :: "octets \<Rightarrow> SubmitMulti \<Rightarrow> SubmitMulti result" where
  "SubmitMulti_set_validity_period_Char s p = bind2 (assign_diff Time_assign s (validity_period p))
     (\<lambda>v d. Inr (update_length d (p\<lparr> validity_period := v \<rparr>)))"

definition SubmitMulti_set_registered_delivery :: "octet \<Rightarrow> SubmitMulti \<Rightarrow> SubmitMulti" where
  "SubmitMulti_set_registered_delivery v p = p\<lparr> registered_delivery := v \<rparr>"

definition SubmitMulti_set_replace_if_present_flag :: "octet \<Rightarrow> SubmitMulti \<Rightarrow> SubmitMulti" where
  "SubmitMulti_set_replace_if_present_flag v p = p\<lparr> replace_if_present_flag := v \<rparr>"

definition SubmitMulti_set_data_coding :: "octet \<Rightarrow> SubmitMulti \<Rightarrow> SubmitMulti" where
  "SubmitMulti_set_data_coding v p = p\<lparr> data_coding := v \<rparr>"

definition SubmitMulti_set_sm_default_msg_id :: "octet \<Rightarrow> SubmitMulti \<Rightarrow> SubmitMulti" where
  "SubmitMulti_set_sm_default_msg_id v p = p\<lparr> sm_default_msg_id := v \<rparr>"

definition SubmitMulti_set_short_message :: "octets \<Rightarrow> octet \<Rightarrow> SubmitMulti \<Rightarrow> SubmitMulti result" where
  "SubmitMulti_set_short_message v l p = bind2 (message_diff v l (short_message p))
     (\<lambda>m d. Inr (update_length d (p\<lparr> short_message := m \<rparr>)))"

text \<open>The objects that constructors and mutators build.\<close>

inductive SubmitMulti_reachable :: "SubmitMulti \<Rightarrow> bool" where
  default: "SubmitMulti_reachable SubmitMulti_default"
| ctor: "SubmitMulti_reachable (new_SubmitMulti n x0 x1 x3 x4 x5 x6 x7 x8 x9 x10 x11 x12)"
| from_buffer: "SubmitMulti_from b = Inr p \<Longrightarrow> SubmitMulti_reachable p"
| inherited: "SubmitMulti_reachable p \<Longrightarrow> header_op p q \<Longrightarrow> SubmitMulti_reachable q"
| set_service_type: "SubmitMulti_reachable p \<Longrightarrow> SubmitMulti_reachable (SubmitMulti_set_service_type v p)"
| set_service_type_Char: "SubmitMulti_reachable p \<Longrightarrow> SubmitMulti_set_service_type_Char s p = Inr q \<Longrightarrow> SubmitMulti_reachable q"
| set_source_addr: "SubmitMulti_reachable p \<Longrightarrow> SubmitMulti_reachable (SubmitMulti_set_source_addr a p)"
| set_source_addr_Address: "SubmitMulti_reachable p \<Longrightarrow> SubmitMulti_set_source_addr_Address a p = Inr q \<Longrightarrow> SubmitMulti_reachable q"
| add_destination_SmeAddress: "SubmitMulti_reachable p \<Longrightarrow> SubmitMulti_reachable (SubmitMulti_add_destination_SmeAddress a p)"
| add_destination_String: "SubmitMulti_reachable p \<Longrightarrow> SubmitMulti_reachable (SubmitMulti_add_destination_String a p)"
| set_esm_class: "SubmitMulti_reachable p \<Longrightarrow> SubmitMulti_reachable (SubmitMulti_set_esm_class v p)"
| set_protocol_id: "SubmitMulti_reachable p \<Longrightarrow> SubmitMulti_reachable (SubmitMulti_set_protocol_id v p)"
| set_priority_flag: "SubmitMulti_reachable p \<Longrightarrow> SubmitMulti_reachable (SubmitMulti_set_priority_flag v p)"
| set_schedule_delivery_time: "SubmitMulti_reachable p \<Longrightarrow> SubmitMulti_reachable (SubmitMulti_set_schedule_delivery_time v p)"
| set_schedule_delivery_time_Char: "SubmitMulti_reachable p \<Longrightarrow> SubmitMulti_set_schedule_delivery_time_Char s p = Inr q \<Longrightarrow> SubmitMulti_reachable q"
| set_validity_period: "SubmitMulti_reachable p \<Longrightarrow> SubmitMulti_reachable (SubmitMulti_set_validity_period v p)"
| set_validity_period_Char: "SubmitMulti_reachable p \<Longrightarrow> SubmitMulti_set_validity_period_Char s p = Inr q \<Longrightarrow> SubmitMulti_reachable q"
| set_registered_delivery: "SubmitMulti_reachable p \<Longrightarrow> SubmitMulti_reachable (SubmitMulti_set_registered_delivery v p)"
| set_replace_if_present_flag: "SubmitMulti_reachable p \<Longrightarrow> SubmitMulti_reachable (SubmitMulti_set_replace_if_present_flag v p)"
| set_data_coding: "SubmitMulti_reachable p \<Longrightarrow> SubmitMulti_reachable (SubmitMulti_set_data_coding v p)"
| set_sm_default_msg_id: "SubmitMulti_reachable p \<Longrightarrow> SubmitMulti_reachable (SubmitMulti_set_sm_default_msg_id v p)"
| set_short_message: "SubmitMulti_reachable p \<Longrightarrow> SubmitMulti_set_short_message v l p = Inr q \<Longrightarrow> SubmitMulti_reachable q"

lemma submit_multi_frame_ok: "SubmitMulti_reachable p \<Longrightarrow> frame_ok p (length (SubmitMulti_body p))"
proof (induction rule: SubmitMulti_reachable.induct)
  case default
  show ?case by (simp add: SubmitMulti_default_def SubmitMulti_body_def setter_simps
    SmeAddress_default_def Address_default_def MultiDestinationAddresses_default_def MultiDestinationAddresses_octets_def)
next
  case ctor
  show ?case by (simp add: new_SubmitMulti_def SubmitMulti_body_def setter_simps
    SmeAddress_default_def Address_default_def MultiDestinationAddresses_default_def MultiDestinationAddresses_octets_def)
next
  case (from_buffer b p)
  then show ?case
    using submit_multi.from_frame [of b p] by (simp add: SubmitMulti_from_def SubmitMulti_decode_def)
next
  case (inherited p q)
  then show ?case using submit_multi.header_op_frame [of p q] by simp
qed (auto simp: SubmitMulti_set_service_type_def SubmitMulti_set_service_type_Char_def
      SubmitMulti_set_source_addr_def SubmitMulti_set_source_addr_Address_def
      SubmitMulti_add_destination_SmeAddress_def
      SubmitMulti_add_destination_String_def SubmitMulti_set_esm_class_def
      SubmitMulti_set_protocol_id_def SubmitMulti_set_priority_flag_def
      SubmitMulti_set_schedule_delivery_time_def
      SubmitMulti_set_schedule_delivery_time_Char_def
      SubmitMulti_set_validity_period_def
      SubmitMulti_set_validity_period_Char_def
      SubmitMulti_set_registered_delivery_def
      SubmitMulti_set_replace_if_present_flag_def
      SubmitMulti_set_data_coding_def SubmitMulti_set_sm_default_msg_id_def
      SubmitMulti_set_short_message_def
      SubmitMulti_body_def setter_simps bind_eq_Inr bind2_eq_Inr assigns_def InterfaceVersion_def add_SmeAddress_def add_String_def MultiDestinationAddresses_octets_def SmeAddress_length_def
      dest!: diff_InrD split: if_splits)

section \<open>SubmitMultiResp\<close>

text \<open>\<open>submit_multi_resp.hpp\<close> and \<open>submit_multi_resp.cpp\<close>.\<close>

record SubmitMultiResp = Header +
  message_id :: octets
  unsuccess_sme :: UnsuccessSmeColl

definition SubmitMultiResp_default :: SubmitMultiResp where
  "SubmitMultiResp_default =
     \<lparr> command_length = 18, command_id = 0x80000021, command_status = 0,
     sequence_number = SequenceNumber_Min, tlv_list = [], message_id = [],
     unsuccess_sme = UnsuccessSmeColl_default \<rparr>"

definition new_SubmitMultiResp :: "uint32 \<Rightarrow> uint32 \<Rightarrow> octets \<Rightarrow> SubmitMultiResp" where
  "new_SubmitMultiResp commandStatus sequenceNumber message_id' =
     update_length (of_nat (length message_id'))
     \<lparr> command_length = 18, command_id = 0x80000021, command_status = commandStatus,
     sequence_number = sequenceNumber, tlv_list = [], message_id = message_id',
     unsuccess_sme = UnsuccessSmeColl_default \<rparr>"

definition SubmitMultiResp_puts :: "SubmitMultiResp \<Rightarrow> (Buffer \<Rightarrow> Buffer result) list" where
  "SubmitMultiResp_puts p =
     [put_String (message_id p), put_UnsuccessSmeColl (unsuccess_sme p)]"

definition SubmitMultiResp_encode :: "SubmitMultiResp \<Rightarrow> Buffer result" where
  "SubmitMultiResp_encode = encode_frame SubmitMultiResp_puts"

definition SubmitMultiResp_read :: "SubmitMultiResp \<Rightarrow> octets \<Rightarrow> nat \<Rightarrow> string \<Rightarrow> (SubmitMultiResp \<times> nat) result" where
  "SubmitMultiResp_read p buff len err =
     bind2 (get_String MessageId_assign (drop 16 buff) len err 16) (\<lambda>message_id' offset.
     bind2 (get_UnsuccessSmeColl (unsuccess_sme p) (drop offset buff) len err offset) (\<lambda>unsuccess_sme' offset.
     Inr (p\<lparr> message_id := message_id', unsuccess_sme := unsuccess_sme' \<rparr>, offset)))"

definition SubmitMultiResp_decode :: "SubmitMultiResp \<Rightarrow> octets \<Rightarrow> SubmitMultiResp result" where
  "SubmitMultiResp_decode = decode_frame ''Bad length in submit_multi_resp'' SubmitMultiResp_read"

abbreviation SubmitMultiResp_blank :: SubmitMultiResp where
  "SubmitMultiResp_blank \<equiv> SubmitMultiResp_default\<lparr> sequence_number := 1 \<rparr>"

definition SubmitMultiResp_from :: "octets \<Rightarrow> SubmitMultiResp result" where
  "SubmitMultiResp_from b = SubmitMultiResp_decode SubmitMultiResp_blank b"

definition SubmitMultiResp_body :: "SubmitMultiResp \<Rightarrow> octets" where
  "SubmitMultiResp_body p =
     String_octets (message_id p) @ UnsuccessSmeColl_octets (unsuccess_sme p)"

definition SubmitMultiResp_fields_ok :: "SubmitMultiResp \<Rightarrow> bool" where
  "SubmitMultiResp_fields_ok p \<longleftrightarrow>
     MessageId_ok (message_id p) \<and> UnsuccessSmeColl_ok (unsuccess_sme p)"

interpretation submit_multi_resp: pdu_body SubmitMultiResp_puts SubmitMultiResp_read "''Bad length in submit_multi_resp''"
  SubmitMultiResp_blank SubmitMultiResp_body SubmitMultiResp_fields_ok
proof (unfold_locales, goal_cases)
  case (1 p)
  show ?case
    unfolding SubmitMultiResp_puts_def SubmitMultiResp_body_def by (rule writes_eq, (rule writes_intro)+, simp)
next
  case 2
  show ?case by (simp add: SubmitMultiResp_default_def)
next
  case (3 p q)
  then show ?case by (cases p, cases q) (simp add: SubmitMultiResp_body_def)
next
  case (4 p q)
  then show ?case by (cases p, cases q) (simp add: SubmitMultiResp_fields_ok_def)
next
  case (5 p g b rest len)
  then have old: "unsuccess_sme g = UnsuccessSmeColl_default"
    by (cases g, simp add: SubmitMultiResp_default_def)+
  with 5 show ?case
    by (cases p, cases g) (simp add: SubmitMultiResp_read_def field_simps_read SubmitMultiResp_body_def
      SubmitMultiResp_fields_ok_def drop_plus del: drop_drop cong: bind2_cong)
next
  case (6 g b len q off)
  then have old: "unsuccess_sme g = UnsuccessSmeColl_default"
    by (cases g, simp add: SubmitMultiResp_default_def)+
  with 6(1) [THEN reading_start, of b] show ?case
    unfolding SubmitMultiResp_read_def old
    by (elim step_elim)
      (cases g, clarsimp simp: reading_end SubmitMultiResp_body_def SubmitMultiResp_fields_ok_def)
qed

definition SubmitMultiResp_set_message_id :: "octets \<Rightarrow> SubmitMultiResp \<Rightarrow> SubmitMultiResp" where
  "SubmitMultiResp_set_message_id v p = update_length (diff v (message_id p)) (p\<lparr> message_id := v \<rparr>)"

definition SubmitMultiResp_set_message_id_Char :: "octets \<Rightarrow> SubmitMultiResp \<Rightarrow> SubmitMultiResp result" where
  "SubmitMultiResp_set_message_id_Char s p = bind2 (assign_diff MessageId_assign s (message_id p))
     (\<lambda>v d. Inr (update_length d (p\<lparr> message_id := v \<rparr>)))"

definition SubmitMultiResp_add_unsuccess_sme :: "UnsuccessSme \<Rightarrow> SubmitMultiResp \<Rightarrow> SubmitMultiResp" where
  "SubmitMultiResp_add_unsuccess_sme u p = (case add_UnsuccessSme u (unsuccess_sme p) of (c, n) \<Rightarrow>
     update_length (of_nat n) (p\<lparr> unsuccess_sme := c \<rparr>))"

text \<open>The objects that constructors and mutators build.\<close>

inductive SubmitMultiResp_reachable :: "SubmitMultiResp \<Rightarrow> bool" where
  default: "SubmitMultiResp_reachable SubmitMultiResp_default"
| ctor: "SubmitMultiResp_reachable (new_SubmitMultiResp st n x0)"
| from_buffer: "SubmitMultiResp_from b = Inr p \<Longrightarrow> SubmitMultiResp_reachable p"
| inherited: "SubmitMultiResp_reachable p \<Longrightarrow> header_op p q \<Longrightarrow> SubmitMultiResp_reachable q"
| set_message_id: "SubmitMultiResp_reachable p \<Longrightarrow> SubmitMultiResp_reachable (SubmitMultiResp_set_message_id v p)"
| set_message_id_Char: "SubmitMultiResp_reachable p \<Longrightarrow> SubmitMultiResp_set_message_id_Char s p = Inr q \<Longrightarrow> SubmitMultiResp_reachable q"
| add_unsuccess_sme: "SubmitMultiResp_reachable p \<Longrightarrow> SubmitMultiResp_reachable (SubmitMultiResp_add_unsuccess_sme u p)"

lemma submit_multi_resp_frame_ok: "SubmitMultiResp_reachable p \<Longrightarrow> frame_ok p (length (SubmitMultiResp_body p))"
proof (induction rule: SubmitMultiResp_reachable.induct)
  case default
  show ?case by (simp add: SubmitMultiResp_default_def SubmitMultiResp_body_def setter_simps
    UnsuccessSmeColl_default_def UnsuccessSmeColl_octets_def)
next
  case ctor
  show ?case by (simp add: new_SubmitMultiResp_def SubmitMultiResp_body_def setter_simps
    UnsuccessSmeColl_default_def UnsuccessSmeColl_octets_def)
next
  case (from_buffer b p)
  then show ?case
    using submit_multi_resp.from_frame [of b p] by (simp add: SubmitMultiResp_from_def SubmitMultiResp_decode_def)
next
  case (inherited p q)
  then show ?case using submit_multi_resp.header_op_frame [of p q] by simp
qed (auto simp: SubmitMultiResp_set_message_id_def SubmitMultiResp_set_message_id_Char_def
      SubmitMultiResp_add_unsuccess_sme_def
      SubmitMultiResp_body_def setter_simps bind_eq_Inr bind2_eq_Inr assigns_def InterfaceVersion_def add_UnsuccessSme_def UnsuccessSmeColl_octets_def length_UnsuccessSme_octets
      dest!: diff_InrD split: if_splits)

end
