(* ===== verification/Pdu_Broadcast.thy ===== *)
theory Pdu_Broadcast
  imports Pdu_Ops
begin

text \<open>
  The PDUs broadcast_sm and query_broadcast_sm_resp, whose mandatory TLVs are kept in order by
  mutators of their own.
  Record, constructors, encoder, decoder and setters of each class, the interpretation of
  \<open>pdu_body\<close> that gives its codec laws, and the invariant of \<open>command_length\<close> over everything
  that constructors and mutators build.
\<close>

section \<open>BroadcastSm\<close>

text \<open>\<open>broadcast_sm.hpp\<close> and \<open>broadcast_sm.cpp\<close>.\<close>

record BroadcastSm = Header +
  service_type :: octets
  source_addr :: SmeAddress
  message_id :: octets
  priority_flag :: octet
  schedule_delivery_time :: octets
  validity_period :: octets
  replace_if_present_flag :: octet
  data_coding :: octet
  sm_default_msg_id :: octet
  defaultBroadcastAreaIdentifier :: bool

definition BroadcastSm_default :: BroadcastSm where
  "BroadcastSm_default =
     insert_tlv (BroadcastFrequencyInterval 0x00 0x0000) (
     insert_tlv \<lparr> tag = 0x0604, tlv_length = 2, tlv_value = wire16 0x0000 \<rparr> (
     insert_tlv (BroadcastContentType 0x00 0x0000) (
     insert_tlv \<lparr> tag = 0x0606, tlv_length = 1, tlv_value = [0x00] \<rparr>
     (\<lparr> command_length = 27, command_id = 0x00000111, command_status = 0,
     sequence_number = SequenceNumber_Min, tlv_list = [], service_type = [],
     source_addr = SmeAddress_default, message_id = [], priority_flag = 0,
     schedule_delivery_time = [], validity_period = [], replace_if_present_flag = 0,
     data_coding = 0, sm_default_msg_id = 0, defaultBroadcastAreaIdentifier = True \<rparr>))))"

definition BroadcastSm_puts :: "BroadcastSm \<Rightarrow> (Buffer \<Rightarrow> Buffer result) list" where
  "BroadcastSm_puts p =
     [put_String (service_type p), put_SmeAddress (source_addr p), put_String (message_id p),
      put_Uint8 (priority_flag p), put_String (schedule_delivery_time p),
      put_String (validity_period p), put_Uint8 (replace_if_present_flag p),
      put_Uint8 (data_coding p), put_Uint8 (sm_default_msg_id p)]"

definition BroadcastSm_encode :: "BroadcastSm \<Rightarrow> Buffer result" where
  "BroadcastSm_encode = encode_frame BroadcastSm_puts"

definition BroadcastSm_read :: "BroadcastSm \<Rightarrow> octets \<Rightarrow> nat \<Rightarrow> string \<Rightarrow> (BroadcastSm \<times> nat) result" where
  "BroadcastSm_read p buff len err =
     bind2 (get_String ServiceType_assign (drop 16 buff) len err 16) (\<lambda>service_type' offset.
     bind2 (get_SmeAddress (source_addr p) (drop offset buff) len err offset) (\<lambda>source_addr' offset.
     bind2 (get_String MessageId_assign (drop offset buff) len err offset) (\<lambda>message_id' offset.
     bind2 (get_Uint8 (drop offset buff) len err offset) (\<lambda>priority_flag' offset.
     bind2 (get_String Time_assign (drop offset buff) len err offset) (\<lambda>schedule_delivery_time' offset.
     bind2 (get_String Time_assign (drop offset buff) len err offset) (\<lambda>validity_period' offset.
     bind2 (get_Uint8 (drop offset buff) len err offset) (\<lambda>replace_if_present_flag' offset.
     bind2 (get_Uint8 (drop offset buff) len err offset) (\<lambda>data_coding' offset.
     bind2 (get_Uint8 (drop offset buff) len err offset) (\<lambda>sm_default_msg_id' offset.
     Inr (p\<lparr> service_type := service_type', source_addr := source_addr', message_id := message_id',
       priority_flag := priority_flag', schedule_delivery_time := schedule_delivery_time',
       validity_period := validity_period', replace_if_present_flag := replace_if_present_flag',
       data_coding := data_coding', sm_default_msg_id := sm_default_msg_id' \<rparr>, offset))))))))))"

definition BroadcastSm_decode_parameters :: "BroadcastSm \<Rightarrow> octets \<Rightarrow> BroadcastSm result" where
  "BroadcastSm_decode_parameters = decode_frame ''Bad length in broadcast_sm'' BroadcastSm_read"

definition BroadcastSm_decode :: "BroadcastSm \<Rightarrow> octets \<Rightarrow> BroadcastSm result" where
  "BroadcastSm_decode p buff = bind (BroadcastSm_decode_parameters p buff) (\<lambda>p.
     if find_tlv 0x0606 p = None \<or> find_tlv 0x0601 p = None \<or> find_tlv 0x0604 p = None \<or>
        find_tlv 0x0605 p = None
     then Inl (Error ''Missing mandatory TLV parameter'') else Inr p)"

text \<open>The constructor from a buffer leaves \<open>defaultBroadcastAreaIdentifier_\<close> unset: \<open>undef\<close> is
  whatever it holds.\<close>

definition BroadcastSm_blank :: "bool \<Rightarrow> BroadcastSm" where
  "BroadcastSm_blank undef =
     \<lparr> command_length = 27, command_id = 0x00000111, command_status = 0, sequence_number = 1,
     tlv_list = [], service_type = [], source_addr = SmeAddress_default, message_id = [],
     priority_flag = 0, schedule_delivery_time = [], validity_period = [],
     replace_if_present_flag = 0, data_coding = 0, sm_default_msg_id = 0,
     defaultBroadcastAreaIdentifier = undef \<rparr>"

definition BroadcastSm_from :: "bool \<Rightarrow> octets \<Rightarrow> BroadcastSm result" where
  "BroadcastSm_from undef b = BroadcastSm_decode (BroadcastSm_blank undef) b"

definition BroadcastSm_body :: "BroadcastSm \<Rightarrow> octets" where
  "BroadcastSm_body p =
     String_octets (service_type p) @ SmeAddress_octets (source_addr p) @
     String_octets (message_id p) @ Uint8_octets (priority_flag p) @
     String_octets (schedule_delivery_time p) @ String_octets (validity_period p) @
     Uint8_octets (replace_if_present_flag p) @ Uint8_octets (data_coding p) @
     Uint8_octets (sm_default_msg_id p)"

definition BroadcastSm_fields_ok :: "bool \<Rightarrow> BroadcastSm \<Rightarrow> bool" where
  "BroadcastSm_fields_ok undef p \<longleftrightarrow>
     ServiceType_ok (service_type p) \<and> SmeAddress_ok 21 (source_addr p) \<and>
     MessageId_ok (message_id p) \<and> Time_ok (schedule_delivery_time p) \<and>
     Time_ok (validity_period p) \<and> defaultBroadcastAreaIdentifier p = undef"

interpretation broadcast_sm: pdu_body BroadcastSm_puts BroadcastSm_read "''Bad length in broadcast_sm''"
  "BroadcastSm_blank undef" BroadcastSm_body "BroadcastSm_fields_ok undef" for undef
proof (unfold_locales, goal_cases)
  case (1 p)
  show ?case
    unfolding BroadcastSm_puts_def BroadcastSm_body_def by (rule writes_eq, (rule writes_intro)+, simp)
next
  case 2
  show ?case by (simp add: BroadcastSm_blank_def)
next
  case (3 p q)
  then show ?case by (cases p, cases q) (simp add: BroadcastSm_body_def)
next
  case (4 p q)
  then show ?case by (cases p, cases q) (simp add: BroadcastSm_fields_ok_def)
next
  case (5 p g b rest len)
  then have old: "source_addr g = SmeAddress_default" "defaultBroadcastAreaIdentifier g = undef"
    by (cases g, simp add: BroadcastSm_blank_def)+
  with 5 show ?case
    by (cases p, cases g) (simp add: BroadcastSm_read_def field_simps_read BroadcastSm_body_def
      BroadcastSm_fields_ok_def drop_plus del: drop_drop cong: bind2_cong)
next
  case (6 g b len q off)
  then have old: "source_addr g = SmeAddress_default" "defaultBroadcastAreaIdentifier g = undef"
    by (cases g, simp add: BroadcastSm_blank_def)+
  with 6(1) [THEN reading_start, of b] show ?case
    unfolding BroadcastSm_read_def
    by (elim step_elim)
      (cases g, clarsimp simp: reading_end BroadcastSm_body_def BroadcastSm_fields_ok_def)
qed

definition BroadcastSm_set_service_type :: "octets \<Rightarrow> BroadcastSm \<Rightarrow> BroadcastSm" where
  "BroadcastSm_set_service_type v p = update_length (diff v (service_type p)) (p\<lparr> service_type := v \<rparr>)"

definition BroadcastSm_set_service_type_Char :: "octets \<Rightarrow> BroadcastSm \<Rightarrow> BroadcastSm result" where
  "BroadcastSm_set_service_type_Char s p = bind2 (assign_diff ServiceType_assign s (service_type p))
     (\<lambda>v d. Inr (update_length d (p\<lparr> service_type := v \<rparr>)))"

definition BroadcastSm_set_source_addr :: "SmeAddress \<Rightarrow> BroadcastSm \<Rightarrow> BroadcastSm" where
  "BroadcastSm_set_source_addr a p = update_length (diff (addr_v (address a)) (addr_v (address (source_addr p))))
     (p\<lparr> source_addr := a \<rparr>)"

definition BroadcastSm_set_source_addr_Address :: "Address \<Rightarrow> BroadcastSm \<Rightarrow> BroadcastSm result" where
  "BroadcastSm_set_source_addr_Address a p = bind2 (address_diff 0 0 a 21 (source_addr p))
     (\<lambda>v d. Inr (update_length d (p\<lparr> source_addr := v \<rparr>)))"

definition BroadcastSm_set_message_id :: "octets \<Rightarrow> BroadcastSm \<Rightarrow> BroadcastSm" where
  "BroadcastSm_set_message_id v p = update_length (diff v (message_id p)) (p\<lparr> message_id := v \<rparr>)"

definition BroadcastSm_set_message_id_Char :: "octets \<Rightarrow> BroadcastSm \<Rightarrow> BroadcastSm result" where
  "BroadcastSm_set_message_id_Char s p = bind2 (assign_diff MessageId_assign s (message_id p))
     (\<lambda>v d. Inr (update_length d (p\<lparr> message_id := v \<rparr>)))"

definition BroadcastSm_set_priority_flag :: "int \<Rightarrow> BroadcastSm \<Rightarrow> BroadcastSm" where
  "BroadcastSm_set_priority_flag v p = p\<lparr> priority_flag := word_of_int v \<rparr>"

definition BroadcastSm_set_schedule_delivery_time :: "octets \<Rightarrow> BroadcastSm \<Rightarrow> BroadcastSm" where
  "BroadcastSm_set_schedule_delivery_time v p = update_length (diff v (schedule_delivery_time p)) (p\<lparr> schedule_delivery_time := v \<rparr>)"

definition BroadcastSm_set_schedule_delivery_time_Char :: "octets \<Rightarrow> BroadcastSm \<Rightarrow> BroadcastSm result" where
  "BroadcastSm_set_schedule_delivery_time_Char s p = bind2 (assign_diff Time_assign s (schedule_delivery_time p))
     (\<lambda>v d. Inr (update_length d (p\<lparr> schedule_delivery_time := v \<rparr>)))"

definition BroadcastSm_set_validity_period :: "octets \<Rightarrow> BroadcastSm \<Rightarrow> BroadcastSm" where
  "BroadcastSm_set_validity_period v p = update_length (diff v (validity_period p)) (p\<lparr> validity_period := v \<rparr>)"

definition BroadcastSm_set_validity_period_Char :: "octets \<Rightarrow> BroadcastSm \<Rightarrow> BroadcastSm result" where
  "BroadcastSm_set_validity_period_Char s p = bind2 (assign_diff Time_assign s (validity_period p))
     (\<lambda>v d. Inr (update_length d (p\<lparr> validity_period := v \<rparr>)))"

definition BroadcastSm_set_replace_if_present_flag :: "octet \<Rightarrow> BroadcastSm \<Rightarrow> BroadcastSm" where
  "BroadcastSm_set_replace_if_present_flag v p = p\<lparr> replace_if_present_flag := v \<rparr>"

definition BroadcastSm_set_data_coding :: "octet \<Rightarrow> BroadcastSm \<Rightarrow> BroadcastSm" where
  "BroadcastSm_set_data_coding v p = p\<lparr> data_coding := v \<rparr>"

definition BroadcastSm_set_sm_default_msg_id :: "octet \<Rightarrow> BroadcastSm \<Rightarrow> BroadcastSm" where
  "BroadcastSm_set_sm_default_msg_id v p = p\<lparr> sm_default_msg_id := v \<rparr>"

definition BroadcastSm_set_broadcast_area_identifier :: "Tlv \<Rightarrow> BroadcastSm \<Rightarrow> BroadcastSm result" where
  "BroadcastSm_set_broadcast_area_identifier t p = (let q = (if defaultBroadcastAreaIdentifier p
       then (remove_tlv 0x0606 p)\<lparr> defaultBroadcastAreaIdentifier := False \<rparr> else p)
     in insert_before_tlv t 0x0601 q)"

definition BroadcastSm_set_broadcast_content_type :: "Tlv \<Rightarrow> BroadcastSm \<Rightarrow> BroadcastSm result" where
  "BroadcastSm_set_broadcast_content_type t p = insert_after_tlv t 0x0606 (remove_tlv 0x0601 p)"

definition BroadcastSm_set_broadcast_rep_num :: "uint16 \<Rightarrow> BroadcastSm \<Rightarrow> BroadcastSm result" where
  "BroadcastSm_set_broadcast_rep_num v p = bind (new_Tlv 0x0604 2 (host_octets16 False (hton16 False v))) (\<lambda>t.
     insert_after_tlv t 0x0601 (remove_tlv 0x0604 p))"

definition BroadcastSm_set_broadcast_frequency_interval :: "Tlv \<Rightarrow> BroadcastSm \<Rightarrow> BroadcastSm result" where
  "BroadcastSm_set_broadcast_frequency_interval t p = insert_after_tlv t 0x0604 (remove_tlv 0x0605 p)"

text \<open>Each of these mutators is made of operations of the header.\<close>

lemma broadcast_sm_area_identifier_frame:
  assumes "BroadcastSm_set_broadcast_area_identifier t p = Inr q" "Tlv_ok t"
    and "frame_ok p (length (BroadcastSm_body p))"
  shows "frame_ok q (length (BroadcastSm_body q))"
proof -
  let ?r = "if defaultBroadcastAreaIdentifier p
    then (remove_tlv 0x0606 p)\<lparr> defaultBroadcastAreaIdentifier := False \<rparr> else p"
  have "frame_ok ?r (length (BroadcastSm_body ?r))"
    using assms(3) broadcast_sm.header_op_frame [OF header_op.remove_tlv [of p "0x0606"] assms(3)]
    by (simp add: frame_ok_def pdu_size_def BroadcastSm_body_def)
  moreover have "header_op ?r q"
    using assms(1,2) by (auto simp: BroadcastSm_set_broadcast_area_identifier_def Let_def
        intro: header_op.insert_before_tlv)
  ultimately show ?thesis
    by (rule broadcast_sm.header_op_frame [rotated])
qed

lemma broadcast_sm_remove_insert_frame:
  assumes "insert_after_tlv t y (remove_tlv x p) = Inr q" "Tlv_ok t"
    and "frame_ok p (length (BroadcastSm_body p))"
  shows "frame_ok q (length (BroadcastSm_body q))"
  using broadcast_sm.header_op_frame [OF header_op.remove_tlv assms(3)] assms(1,2)
  by (blast intro: broadcast_sm.header_op_frame header_op.insert_after_tlv)

definition new_BroadcastSm :: "uint32 \<Rightarrow> octets \<Rightarrow> SmeAddress \<Rightarrow>
    octets \<Rightarrow> octet \<Rightarrow> octets \<Rightarrow> octets \<Rightarrow>
    octet \<Rightarrow> octet \<Rightarrow> octet \<Rightarrow> Tlv \<Rightarrow>
    Tlv \<Rightarrow> uint16 \<Rightarrow> Tlv \<Rightarrow> BroadcastSm result" where
  "new_BroadcastSm sequenceNumber service_type' source_addr' message_id' priority_flag'
     schedule_delivery_time' validity_period' replace_if_present_flag' data_coding'
     sm_default_msg_id' area content repNum interval =
     bind (insert_16bit_tlv 0x0604 repNum (insert_tlv content (insert_tlv area
       (update_length (of_nat (length service_type' + address_length source_addr' + length message_id' + length schedule_delivery_time' + length validity_period'))
     \<lparr> command_length = 27, command_id = 0x00000111, command_status = 0,
     sequence_number = sequenceNumber, tlv_list = [], service_type = service_type',
     source_addr = source_addr', message_id = message_id', priority_flag = priority_flag',
     schedule_delivery_time = schedule_delivery_time', validity_period = validity_period',
     replace_if_present_flag = replace_if_present_flag', data_coding = data_coding',
     sm_default_msg_id = sm_default_msg_id', defaultBroadcastAreaIdentifier = False \<rparr>))))
     (\<lambda>p. Inr (insert_tlv interval p))"

lemma broadcast_sm_ctor_frame:
  assumes "new_BroadcastSm x0 x1 x2 x3 x4 x5 x6 x7 x8 x9 ta tc rn ti = Inr p" "Tlv_ok ta" "Tlv_ok tc" "Tlv_ok ti"
  shows "frame_ok p (length (BroadcastSm_body p))"
proof -
  let ?q = "update_length (of_nat (length x1 + address_length x2 + length x3 + length x5 + length x6))
     \<lparr> command_length = 27, command_id = 0x00000111, command_status = 0,
     sequence_number = x0, tlv_list = [], service_type = x1,
     source_addr = x2, message_id = x3, priority_flag = x4,
     schedule_delivery_time = x5, validity_period = x6,
     replace_if_present_flag = x7, data_coding = x8,
     sm_default_msg_id = x9, defaultBroadcastAreaIdentifier = False \<rparr>"
  obtain r where r: "insert_16bit_tlv 0x0604 rn (insert_tlv tc (insert_tlv ta ?q)) = Inr r"
    and p: "p = insert_tlv ti r"
    using assms(1) by (auto simp: new_BroadcastSm_def bind_eq_Inr)
  have q: "frame_ok ?q (length (BroadcastSm_body ?q))"
    by (simp add: BroadcastSm_body_def setter_simps)
  note step = broadcast_sm.header_op_frame
  from q have "frame_ok (insert_tlv tc (insert_tlv ta ?q))
      (length (BroadcastSm_body (insert_tlv tc (insert_tlv ta ?q))))"
    using assms(2,3) by (blast intro: step header_op.insert_tlv)
  with r p assms(4) show ?thesis
    by (blast intro: step header_op.insert_tlv header_op.insert_16bit_tlv)
qed

text \<open>The objects that constructors and mutators build.\<close>

inductive BroadcastSm_reachable :: "BroadcastSm \<Rightarrow> bool" where
  default: "BroadcastSm_reachable BroadcastSm_default"
| ctor: "Tlv_ok ta \<Longrightarrow> Tlv_ok tc \<Longrightarrow> Tlv_ok ti \<Longrightarrow>
    new_BroadcastSm x0 x1 x2 x3 x4 x5 x6 x7 x8 x9 ta tc rn ti = Inr p \<Longrightarrow> BroadcastSm_reachable p"
| from_buffer: "BroadcastSm_from undef b = Inr p \<Longrightarrow> BroadcastSm_reachable p"
| inherited: "BroadcastSm_reachable p \<Longrightarrow> header_op p q \<Longrightarrow> BroadcastSm_reachable q"
| set_service_type: "BroadcastSm_reachable p \<Longrightarrow> BroadcastSm_reachable (BroadcastSm_set_service_type v p)"
| set_service_type_Char: "BroadcastSm_reachable p \<Longrightarrow> BroadcastSm_set_service_type_Char s p = Inr q \<Longrightarrow> BroadcastSm_reachable q"
| set_source_addr: "BroadcastSm_reachable p \<Longrightarrow> BroadcastSm_reachable (BroadcastSm_set_source_addr a p)"
| set_source_addr_Address: "BroadcastSm_reachable p \<Longrightarrow> BroadcastSm_set_source_addr_Address a p = Inr q \<Longrightarrow> BroadcastSm_reachable q"
| set_message_id: "BroadcastSm_reachable p \<Longrightarrow> BroadcastSm_reachable (BroadcastSm_set_message_id v p)"
| set_message_id_Char: "BroadcastSm_reachable p \<Longrightarrow> BroadcastSm_set_message_id_Char s p = Inr q \<Longrightarrow> BroadcastSm_reachable q"
| set_priority_flag: "BroadcastSm_reachable p \<Longrightarrow> BroadcastSm_reachable (BroadcastSm_set_priority_flag v p)"
| set_schedule_delivery_time: "BroadcastSm_reachable p \<Longrightarrow> BroadcastSm_reachable (BroadcastSm_set_schedule_delivery_time v p)"
| set_schedule_delivery_time_Char: "BroadcastSm_reachable p \<Longrightarrow> BroadcastSm_set_schedule_delivery_time_Char s p = Inr q \<Longrightarrow> BroadcastSm_reachable q"
| set_validity_period: "BroadcastSm_reachable p \<Longrightarrow> BroadcastSm_reachable (BroadcastSm_set_validity_period v p)"
| set_validity_period_Char: "BroadcastSm_reachable p \<Longrightarrow> BroadcastSm_set_validity_period_Char s p = Inr q \<Longrightarrow> BroadcastSm_reachable q"
| set_replace_if_present_flag: "BroadcastSm_reachable p \<Longrightarrow> BroadcastSm_reachable (BroadcastSm_set_replace_if_present_flag v p)"
| set_data_coding: "BroadcastSm_reachable p \<Longrightarrow> BroadcastSm_reachable (BroadcastSm_set_data_coding v p)"
| set_sm_default_msg_id: "BroadcastSm_reachable p \<Longrightarrow> BroadcastSm_reachable (BroadcastSm_set_sm_default_msg_id v p)"
| set_broadcast_area_identifier: "BroadcastSm_reachable p \<Longrightarrow> Tlv_ok t \<Longrightarrow> BroadcastSm_set_broadcast_area_identifier t p = Inr q \<Longrightarrow> BroadcastSm_reachable q"
| set_broadcast_content_type: "BroadcastSm_reachable p \<Longrightarrow> Tlv_ok t \<Longrightarrow> BroadcastSm_set_broadcast_content_type t p = Inr q \<Longrightarrow> BroadcastSm_reachable q"
| set_broadcast_rep_num: "BroadcastSm_reachable p \<Longrightarrow> BroadcastSm_set_broadcast_rep_num v p = Inr q \<Longrightarrow> BroadcastSm_reachable q"
| set_broadcast_frequency_interval: "BroadcastSm_reachable p \<Longrightarrow> Tlv_ok t \<Longrightarrow> BroadcastSm_set_broadcast_frequency_interval t p = Inr q \<Longrightarrow> BroadcastSm_reachable q"

lemma broadcast_sm_frame_ok: "BroadcastSm_reachable p \<Longrightarrow> frame_ok p (length (BroadcastSm_body p))"
proof (induction rule: BroadcastSm_reachable.induct)
  case default
  show ?case by (simp add: BroadcastSm_default_def BroadcastSm_body_def setter_simps
    SmeAddress_default_def Address_default_def insert_tlv_def Tlv_ok_def Tlv_octets_def BroadcastContentType_def
    BroadcastFrequencyInterval_def BroadcastAreaSuccess_def)
next
  case ctor
  then show ?case by (blast intro: broadcast_sm_ctor_frame)
next
  case (from_buffer undef b p)
  then show ?case
    by (auto simp: BroadcastSm_from_def BroadcastSm_decode_def BroadcastSm_decode_parameters_def bind_eq_Inr
        intro: broadcast_sm.from_frame split: if_splits)
next
  case (inherited p q)
  then show ?case using broadcast_sm.header_op_frame [of p q] by simp
next
  case (set_broadcast_area_identifier p t q)
  then show ?case
    using broadcast_sm_area_identifier_frame [of t p q] by simp
next
  case (set_broadcast_content_type p t q)
  then show ?case
    using broadcast_sm_remove_insert_frame [of t _ _ p q] by (auto simp: BroadcastSm_set_broadcast_content_type_def)
next
  case (set_broadcast_rep_num p v q)
  then show ?case
    using broadcast_sm_remove_insert_frame [of _ _ _ p q]
    by (auto simp: BroadcastSm_set_broadcast_rep_num_def bind_eq_Inr dest: Tlv_InrD)
next
  case (set_broadcast_frequency_interval p t q)
  then show ?case
    using broadcast_sm_remove_insert_frame [of t _ _ p q] by (auto simp: BroadcastSm_set_broadcast_frequency_interval_def)
qed (auto simp: BroadcastSm_set_service_type_def BroadcastSm_set_service_type_Char_def
      BroadcastSm_set_source_addr_def BroadcastSm_set_source_addr_Address_def
      BroadcastSm_set_message_id_def BroadcastSm_set_message_id_Char_def
      BroadcastSm_set_priority_flag_def
      BroadcastSm_set_schedule_delivery_time_def
      BroadcastSm_set_schedule_delivery_time_Char_def
      BroadcastSm_set_validity_period_def
      BroadcastSm_set_validity_period_Char_def
      BroadcastSm_set_replace_if_present_flag_def
      BroadcastSm_set_data_coding_def BroadcastSm_set_sm_default_msg_id_def
      BroadcastSm_body_def setter_simps bind_eq_Inr bind2_eq_Inr assigns_def InterfaceVersion_def
      dest!: diff_InrD split: if_splits)

section \<open>QueryBroadcastSmResp\<close>

text \<open>\<open>query_broadcast_sm_resp.hpp\<close> and \<open>query_broadcast_sm_resp.cpp\<close>.\<close>

record QueryBroadcastSmResp = Header +
  message_id :: octets
  message_state :: octet
  defaultBroadcastAreaIdentifier :: bool

definition QueryBroadcastSmResp_default :: QueryBroadcastSmResp where
  "QueryBroadcastSmResp_default =
     insert_tlv (BroadcastAreaSuccess 255) (
     insert_tlv \<lparr> tag = 0x0606, tlv_length = 1, tlv_value = [0x00] \<rparr>
     (\<lparr> command_length = 18, command_id = 0x80000112, command_status = 0,
     sequence_number = SequenceNumber_Min, tlv_list = [], message_id = [], message_state = 0,
     defaultBroadcastAreaIdentifier = True \<rparr>))"

definition QueryBroadcastSmResp_puts :: "QueryBroadcastSmResp \<Rightarrow> (Buffer \<Rightarrow> Buffer result) list" where
  "QueryBroadcastSmResp_puts p =
     [put_String (message_id p), put_Uint8 (message_state p)]"

definition QueryBroadcastSmResp_encode :: "QueryBroadcastSmResp \<Rightarrow> Buffer result" where
  "QueryBroadcastSmResp_encode = encode_frame QueryBroadcastSmResp_puts"

definition QueryBroadcastSmResp_read :: "QueryBroadcastSmResp \<Rightarrow> octets \<Rightarrow> nat \<Rightarrow> string \<Rightarrow> (QueryBroadcastSmResp \<times> nat) result" where
  "QueryBroadcastSmResp_read p buff len err =
     bind2 (get_String MessageId_assign (drop 16 buff) len err 16) (\<lambda>message_id' offset.
     bind2 (get_Uint8 (drop offset buff) len err offset) (\<lambda>message_state' offset.
     Inr (p\<lparr> message_id := message_id', message_state := message_state' \<rparr>, offset)))"

definition QueryBroadcastSmResp_decode :: "QueryBroadcastSmResp \<Rightarrow> octets \<Rightarrow> QueryBroadcastSmResp result" where
  "QueryBroadcastSmResp_decode = decode_frame ''Bad length in query_broadcast_sm_resp'' QueryBroadcastSmResp_read"

text \<open>The constructor from a buffer leaves \<open>defaultBroadcastAreaIdentifier_\<close> unset: \<open>undef\<close> is
  whatever it holds.\<close>

definition QueryBroadcastSmResp_blank :: "bool \<Rightarrow> QueryBroadcastSmResp" where
  "QueryBroadcastSmResp_blank undef =
     \<lparr> command_length = 18, command_id = 0x80000112, command_status = 0, sequence_number = 1,
     tlv_list = [], message_id = [], message_state = 0, defaultBroadcastAreaIdentifier = undef \<rparr>"

definition QueryBroadcastSmResp_from :: "bool \<Rightarrow> octets \<Rightarrow> QueryBroadcastSmResp result" where
  "QueryBroadcastSmResp_from undef b = QueryBroadcastSmResp_decode (QueryBroadcastSmResp_blank undef) b"

definition QueryBroadcastSmResp_body :: "QueryBroadcastSmResp \<Rightarrow> octets" where
  "QueryBroadcastSmResp_body p =
     String_octets (message_id p) @ Uint8_octets (message_state p)"

definition QueryBroadcastSmResp_fields_ok :: "bool \<Rightarrow> QueryBroadcastSmResp \<Rightarrow> bool" where
  "QueryBroadcastSmResp_fields_ok undef p \<longleftrightarrow>
     MessageId_ok (message_id p) \<and> defaultBroadcastAreaIdentifier p = undef"

interpretation query_broadcast_sm_resp: pdu_body QueryBroadcastSmResp_puts QueryBroadcastSmResp_read "''Bad length in query_broadcast_sm_resp''"
  "QueryBroadcastSmResp_blank undef" QueryBroadcastSmResp_body "QueryBroadcastSmResp_fields_ok undef" for undef
proof (unfold_locales, goal_cases)
  case (1 p)
  show ?case
    unfolding QueryBroadcastSmResp_puts_def QueryBroadcastSmResp_body_def by (rule writes_eq, (rule writes_intro)+, simp)
next
  case 2
  show ?case by (simp add: QueryBroadcastSmResp_blank_def)
next
  case (3 p q)
  then show ?case by (cases p, cases q) (simp add: QueryBroadcastSmResp_body_def)
next
  case (4 p q)
  then show ?case by (cases p, cases q) (simp add: QueryBroadcastSmResp_fields_ok_def)
next
  case (5 p g b rest len)
  then have old:  "defaultBroadcastAreaIdentifier g = undef"
    by (cases g, simp add: QueryBroadcastSmResp_blank_def)+
  with 5 show ?case
    by (cases p, cases g) (simp add: QueryBroadcastSmResp_read_def field_simps_read QueryBroadcastSmResp_body_def
      QueryBroadcastSmResp_fields_ok_def drop_plus del: drop_drop cong: bind2_cong)
next
  case (6 g b len q off)
  then have old:  "defaultBroadcastAreaIdentifier g = undef"
    by (cases g, simp add: QueryBroadcastSmResp_blank_def)+
  with 6(1) [THEN reading_start, of b] show ?case
    unfolding QueryBroadcastSmResp_read_def
    by (elim step_elim)
      (cases g, clarsimp simp: reading_end QueryBroadcastSmResp_body_def QueryBroadcastSmResp_fields_ok_def)
qed

definition QueryBroadcastSmResp_set_message_id :: "octets \<Rightarrow> QueryBroadcastSmResp \<Rightarrow> QueryBroadcastSmResp" where
  "QueryBroadcastSmResp_set_message_id v p = update_length (diff v (message_id p)) (p\<lparr> message_id := v \<rparr>)"

definition QueryBroadcastSmResp_set_message_id_Char :: "octets \<Rightarrow> QueryBroadcastSmResp \<Rightarrow> QueryBroadcastSmResp result" where
  "QueryBroadcastSmResp_set_message_id_Char s p = bind2 (assign_diff MessageId_assign s (message_id p))
     (\<lambda>v d. Inr (update_length d (p\<lparr> message_id := v \<rparr>)))"

definition QueryBroadcastSmResp_set_message_state :: "octet \<Rightarrow> QueryBroadcastSmResp \<Rightarrow> QueryBroadcastSmResp" where
  "QueryBroadcastSmResp_set_message_state v p = p\<lparr> message_state := v \<rparr>"

definition QueryBroadcastSmResp_set_broadcast_area_identifier :: "Tlv \<Rightarrow> QueryBroadcastSmResp \<Rightarrow> QueryBroadcastSmResp result" where
  "QueryBroadcastSmResp_set_broadcast_area_identifier t p = (let q = (if defaultBroadcastAreaIdentifier p
       then (remove_tlv 0x0606 p)\<lparr> defaultBroadcastAreaIdentifier := False \<rparr> else p)
     in insert_before_tlv t 0x0608 q)"

definition QueryBroadcastSmResp_set_broadcast_area_success :: "Tlv \<Rightarrow> QueryBroadcastSmResp \<Rightarrow> QueryBroadcastSmResp result" where
  "QueryBroadcastSmResp_set_broadcast_area_success t p = insert_after_tlv t 0x0606 (remove_tlv 0x0608 p)"

text \<open>Each of these mutators is made of operations of the header.\<close>

lemma query_broadcast_sm_resp_area_identifier_frame:
  assumes "QueryBroadcastSmResp_set_broadcast_area_identifier t p = Inr q" "Tlv_ok t"
    and "frame_ok p (length (QueryBroadcastSmResp_body p))"
  shows "frame_ok q (length (QueryBroadcastSmResp_body q))"
proof -
  let ?r = "if defaultBroadcastAreaIdentifier p
    then (remove_tlv 0x0606 p)\<lparr> defaultBroadcastAreaIdentifier := False \<rparr> else p"
  have "frame_ok ?r (length (QueryBroadcastSmResp_body ?r))"
    using assms(3) query_broadcast_sm_resp.header_op_frame [OF header_op.remove_tlv [of p "0x0606"] assms(3)]
    by (simp add: frame_ok_def pdu_size_def QueryBroadcastSmResp_body_def)
  moreover have "header_op ?r q"
    using assms(1,2) by (auto simp: QueryBroadcastSmResp_set_broadcast_area_identifier_def Let_def
        intro: header_op.insert_before_tlv)
  ultimately show ?thesis
    by (rule query_broadcast_sm_resp.header_op_frame [rotated])
qed

lemma query_broadcast_sm_resp_remove_insert_frame:
  assumes "insert_after_tlv t y (remove_tlv x p) = Inr q" "Tlv_ok t"
    and "frame_ok p (length (QueryBroadcastSmResp_body p))"
  shows "frame_ok q (length (QueryBroadcastSmResp_body q))"
  using query_broadcast_sm_resp.header_op_frame [OF header_op.remove_tlv assms(3)] assms(1,2)
  by (blast intro: query_broadcast_sm_resp.header_op_frame header_op.insert_after_tlv)

definition new_QueryBroadcastSmResp :: "uint32 \<Rightarrow> uint32 \<Rightarrow>
    octets \<Rightarrow> octet \<Rightarrow> Tlv \<Rightarrow> Tlv \<Rightarrow> QueryBroadcastSmResp result" where
  "new_QueryBroadcastSmResp commandStatus sequenceNumber message_id' message_state' area success =
     bind (QueryBroadcastSmResp_set_broadcast_area_identifier area
       (update_length (of_nat (length message_id'))
     \<lparr> command_length = 18, command_id = 0x80000112, command_status = commandStatus,
     sequence_number = sequenceNumber, tlv_list = [], message_id = message_id',
     message_state = message_state', defaultBroadcastAreaIdentifier = False \<rparr>))
     (QueryBroadcastSmResp_set_broadcast_area_success success)"

text \<open>The objects that constructors and mutators build.\<close>

inductive QueryBroadcastSmResp_reachable :: "QueryBroadcastSmResp \<Rightarrow> bool" where
  default: "QueryBroadcastSmResp_reachable QueryBroadcastSmResp_default"
| from_buffer: "QueryBroadcastSmResp_from undef b = Inr p \<Longrightarrow> QueryBroadcastSmResp_reachable p"
| inherited: "QueryBroadcastSmResp_reachable p \<Longrightarrow> header_op p q \<Longrightarrow> QueryBroadcastSmResp_reachable q"
| set_message_id: "QueryBroadcastSmResp_reachable p \<Longrightarrow> QueryBroadcastSmResp_reachable (QueryBroadcastSmResp_set_message_id v p)"
| set_message_id_Char: "QueryBroadcastSmResp_reachable p \<Longrightarrow> QueryBroadcastSmResp_set_message_id_Char s p = Inr q \<Longrightarrow> QueryBroadcastSmResp_reachable q"
| set_message_state: "QueryBroadcastSmResp_reachable p \<Longrightarrow> QueryBroadcastSmResp_reachable (QueryBroadcastSmResp_set_message_state v p)"
| set_broadcast_area_identifier: "QueryBroadcastSmResp_reachable p \<Longrightarrow> Tlv_ok t \<Longrightarrow> QueryBroadcastSmResp_set_broadcast_area_identifier t p = Inr q \<Longrightarrow> QueryBroadcastSmResp_reachable q"
| set_broadcast_area_success: "QueryBroadcastSmResp_reachable p \<Longrightarrow> Tlv_ok t \<Longrightarrow> QueryBroadcastSmResp_set_broadcast_area_success t p = Inr q \<Longrightarrow> QueryBroadcastSmResp_reachable q"

lemma query_broadcast_sm_resp_frame_ok: "QueryBroadcastSmResp_reachable p \<Longrightarrow> frame_ok p (length (QueryBroadcastSmResp_body p))"
proof (induction rule: QueryBroadcastSmResp_reachable.induct)
  case default
  show ?case by (simp add: QueryBroadcastSmResp_default_def QueryBroadcastSmResp_body_def setter_simps
    insert_tlv_def Tlv_ok_def Tlv_octets_def BroadcastContentType_def
    BroadcastFrequencyInterval_def BroadcastAreaSuccess_def)
next
  case (from_buffer undef b p)
  then show ?case
    by (auto simp: QueryBroadcastSmResp_from_def QueryBroadcastSmResp_decode_def intro: query_broadcast_sm_resp.from_frame)
next
  case (inherited p q)
  then show ?case using query_broadcast_sm_resp.header_op_frame [of p q] by simp
next
  case (set_broadcast_area_identifier p t q)
  then show ?case
    using query_broadcast_sm_resp_area_identifier_frame [of t p q] by simp
next
  case (set_broadcast_area_success p t q)
  then show ?case
    using query_broadcast_sm_resp_remove_insert_frame [of t _ _ p q] by (auto simp: QueryBroadcastSmResp_set_broadcast_area_success_def)
qed (auto simp: QueryBroadcastSmResp_set_message_id_def
      QueryBroadcastSmResp_set_message_id_Char_def
      QueryBroadcastSmResp_set_message_state_def
      QueryBroadcastSmResp_body_def setter_simps bind_eq_Inr bind2_eq_Inr assigns_def InterfaceVersion_def
      dest!: diff_InrD split: if_splits)

end
