(* ===== verification/Pdu_Broadcast_Query.thy ===== *)
theory Pdu_Broadcast_Query
  imports Pdu_Ops
begin

text \<open>
  The PDUs query_broadcast_sm, cancel_broadcast_sm and broadcast_sm_resp.
  Record, constructors, encoder, decoder and setters of each class, the interpretation of
  \<open>pdu_body\<close> that gives its codec laws, and the invariant of \<open>command_length\<close> over everything
  that constructors and mutators build.
\<close>

section \<open>QueryBroadcastSm\<close>

text \<open>\<open>query_broadcast_sm.hpp\<close> and \<open>query_broadcast_sm.cpp\<close>.\<close>

record QueryBroadcastSm = Header +
  message_id :: octets
  source_addr :: SmeAddress

definition QueryBroadcastSm_default :: QueryBroadcastSm where
  "QueryBroadcastSm_default =
     \<lparr> command_length = 20, command_id = 0x00000112, command_status = 0,
     sequence_number = SequenceNumber_Min, tlv_list = [], message_id = [],
     source_addr = SmeAddress_default \<rparr>"

definition new_QueryBroadcastSm :: "uint32 \<Rightarrow> octets \<Rightarrow> SmeAddress \<Rightarrow> QueryBroadcastSm" where
  "new_QueryBroadcastSm sequenceNumber message_id' source_addr' =
     update_length (of_nat (length message_id' + address_length source_addr'))
     \<lparr> command_length = 20, command_id = 0x00000112, command_status = 0,
     sequence_number = sequenceNumber, tlv_list = [], message_id = message_id',
     source_addr = source_addr' \<rparr>"

definition QueryBroadcastSm_puts :: "QueryBroadcastSm \<Rightarrow> (Buffer \<Rightarrow> Buffer result) list" where
  "QueryBroadcastSm_puts p =
     [put_String (message_id p), put_SmeAddress (source_addr p)]"

definition QueryBroadcastSm_encode :: "QueryBroadcastSm \<Rightarrow> Buffer result" where
  "QueryBroadcastSm_encode = encode_frame QueryBroadcastSm_puts"

definition QueryBroadcastSm_read :: "QueryBroadcastSm \<Rightarrow> octets \<Rightarrow> nat \<Rightarrow> string \<Rightarrow> (QueryBroadcastSm \<times> nat) result" where
  "QueryBroadcastSm_read p buff len err =
     bind2 (get_String MessageId_assign (drop 16 buff) len err 16) (\<lambda>message_id' offset.
     bind2 (get_SmeAddress (source_addr p) (drop offset buff) len err offset) (\<lambda>source_addr' offset.
     Inr (p\<lparr> message_id := message_id', source_addr := source_addr' \<rparr>, offset)))"

definition QueryBroadcastSm_decode :: "QueryBroadcastSm \<Rightarrow> octets \<Rightarrow> QueryBroadcastSm result" where
  "QueryBroadcastSm_decode = decode_frame ''Bad length in query_broadcast_sm'' QueryBroadcastSm_read"

abbreviation QueryBroadcastSm_blank :: QueryBroadcastSm where
  "QueryBroadcastSm_blank \<equiv> QueryBroadcastSm_default\<lparr> sequence_number := 1 \<rparr>"

definition QueryBroadcastSm_from :: "octets \<Rightarrow> QueryBroadcastSm result" where
  "QueryBroadcastSm_from b = QueryBroadcastSm_decode QueryBroadcastSm_blank b"

definition QueryBroadcastSm_body :: "QueryBroadcastSm \<Rightarrow> octets" where
  "QueryBroadcastSm_body p =
     String_octets (message_id p) @ SmeAddress_octets (source_addr p)"

definition QueryBroadcastSm_fields_ok :: "QueryBroadcastSm \<Rightarrow> bool" where
  "QueryBroadcastSm_fields_ok p \<longleftrightarrow>
     MessageId_ok (message_id p) \<and> SmeAddress_ok 21 (source_addr p)"

interpretation query_broadcast_sm: pdu_body QueryBroadcastSm_puts QueryBroadcastSm_read "''Bad length in query_broadcast_sm''"
  QueryBroadcastSm_blank QueryBroadcastSm_body QueryBroadcastSm_fields_ok
proof (unfold_locales, goal_cases)
  case (1 p)
  show ?case
    unfolding QueryBroadcastSm_puts_def QueryBroadcastSm_body_def by (rule writes_eq, (rule writes_intro)+, simp)
next
  case 2
  show ?case by (simp add: QueryBroadcastSm_default_def)
next
  case (3 p q)
  then show ?case by (cases p, cases q) (simp add: QueryBroadcastSm_body_def)
next
  case (4 p q)
  then show ?case by (cases p, cases q) (simp add: QueryBroadcastSm_fields_ok_def)
next
  case (5 p g b rest len)
  then have old: "source_addr g = SmeAddress_default"
    by (cases g, simp add: QueryBroadcastSm_default_def)+
  with 5 show ?case
    by (cases p, cases g) (simp add: QueryBroadcastSm_read_def field_simps_read QueryBroadcastSm_body_def
      QueryBroadcastSm_fields_ok_def drop_plus del: drop_drop cong: bind2_cong)
next
  case (6 g b len q off)
  then have old: "source_addr g = SmeAddress_default"
    by (cases g, simp add: QueryBroadcastSm_default_def)+
  with 6(1) [THEN reading_start, of b] show ?case
    unfolding QueryBroadcastSm_read_def old
    by (elim step_elim)
      (cases g, clarsimp simp: reading_end QueryBroadcastSm_body_def QueryBroadcastSm_fields_ok_def)
qed

definition QueryBroadcastSm_set_message_id :: "octets \<Rightarrow> QueryBroadcastSm \<Rightarrow> QueryBroadcastSm" where
  "QueryBroadcastSm_set_message_id v p = update_length (diff v (message_id p)) (p\<lparr> message_id := v \<rparr>)"

definition QueryBroadcastSm_set_message_id_Char :: "octets \<Rightarrow> QueryBroadcastSm \<Rightarrow> QueryBroadcastSm result" where
  "QueryBroadcastSm_set_message_id_Char s p = bind2 (assign_diff MessageId_assign s (message_id p))
     (\<lambda>v d. Inr (update_length d (p\<lparr> message_id := v \<rparr>)))"

definition QueryBroadcastSm_set_source_addr :: "SmeAddress \<Rightarrow> QueryBroadcastSm \<Rightarrow> QueryBroadcastSm" where
  "QueryBroadcastSm_set_source_addr a p = update_length (diff (addr_v (address a)) (addr_v (address (source_addr p))))
     (p\<lparr> source_addr := a \<rparr>)"

definition QueryBroadcastSm_set_source_addr_Address :: "Address \<Rightarrow> QueryBroadcastSm \<Rightarrow> QueryBroadcastSm result" where
  "QueryBroadcastSm_set_source_addr_Address a p = bind2 (address_diff 0 0 a 21 (source_addr p))
     (\<lambda>v d. Inr (update_length d (p\<lparr> source_addr := v \<rparr>)))"

text \<open>The objects that constructors and mutators build.\<close>

inductive QueryBroadcastSm_reachable :: "QueryBroadcastSm \<Rightarrow> bool" where
  default: "QueryBroadcastSm_reachable QueryBroadcastSm_default"
| ctor: "QueryBroadcastSm_reachable (new_QueryBroadcastSm n x0 x1)"
| from_buffer: "QueryBroadcastSm_from b = Inr p \<Longrightarrow> QueryBroadcastSm_reachable p"
| inherited: "QueryBroadcastSm_reachable p \<Longrightarrow> header_op p q \<Longrightarrow> QueryBroadcastSm_reachable q"
| set_message_id: "QueryBroadcastSm_reachable p \<Longrightarrow> QueryBroadcastSm_reachable (QueryBroadcastSm_set_message_id v p)"
| set_message_id_Char: "QueryBroadcastSm_reachable p \<Longrightarrow> QueryBroadcastSm_set_message_id_Char s p = Inr q \<Longrightarrow> QueryBroadcastSm_reachable q"
| set_source_addr: "QueryBroadcastSm_reachable p \<Longrightarrow> QueryBroadcastSm_reachable (QueryBroadcastSm_set_source_addr a p)"
| set_source_addr_Address: "QueryBroadcastSm_reachable p \<Longrightarrow> QueryBroadcastSm_set_source_addr_Address a p = Inr q \<Longrightarrow> QueryBroadcastSm_reachable q"

lemma query_broadcast_sm_frame_ok: "QueryBroadcastSm_reachable p \<Longrightarrow> frame_ok p (length (QueryBroadcastSm_body p))"
proof (induction rule: QueryBroadcastSm_reachable.induct)
  case default
  show ?case by (simp add: QueryBroadcastSm_default_def QueryBroadcastSm_body_def setter_simps
    SmeAddress_default_def Address_default_def)
next
  case ctor
  show ?case by (simp add: new_QueryBroadcastSm_def QueryBroadcastSm_body_def setter_simps
    SmeAddress_default_def Address_default_def)
next
  case (from_buffer b p)
  then show ?case
    using query_broadcast_sm.from_frame [of b p] by (simp add: QueryBroadcastSm_from_def QueryBroadcastSm_decode_def)
next
  case (inherited p q)
  then show ?case using query_broadcast_sm.header_op_frame [of p q] by simp
qed (auto simp: QueryBroadcastSm_set_message_id_def QueryBroadcastSm_set_message_id_Char_def
      QueryBroadcastSm_set_source_addr_def
      QueryBroadcastSm_set_source_addr_Address_def
      QueryBroadcastSm_body_def setter_simps bind_eq_Inr bind2_eq_Inr assigns_def InterfaceVersion_def
      dest!: diff_InrD split: if_splits)

section \<open>CancelBroadcastSm\<close>

text \<open>\<open>cancel_broadcast_sm.hpp\<close> and \<open>cancel_broadcast_sm.cpp\<close>.\<close>

record CancelBroadcastSm = Header +
  service_type :: octets
  message_id :: octets
  source_addr :: SmeAddress

definition CancelBroadcastSm_default :: CancelBroadcastSm where
  "CancelBroadcastSm_default =
     \<lparr> command_length = 21, command_id = 0x00000113, command_status = 0,
     sequence_number = SequenceNumber_Min, tlv_list = [], service_type = [], message_id = [],
     source_addr = SmeAddress_default \<rparr>"

definition new_CancelBroadcastSm :: "uint32 \<Rightarrow> octets \<Rightarrow>
    octets \<Rightarrow> SmeAddress \<Rightarrow> CancelBroadcastSm" where
  "new_CancelBroadcastSm sequenceNumber service_type' message_id' source_addr' =
     update_length (of_nat (length service_type' + length message_id' + address_length source_addr'))
     \<lparr> command_length = 21, command_id = 0x00000113, command_status = 0,
     sequence_number = sequenceNumber, tlv_list = [], service_type = service_type',
     message_id = message_id', source_addr = source_addr' \<rparr>"

definition CancelBroadcastSm_puts :: "CancelBroadcastSm \<Rightarrow> (Buffer \<Rightarrow> Buffer result) list" where
  "CancelBroadcastSm_puts p =
     [put_String (service_type p), put_String (message_id p), put_SmeAddress (source_addr p)]"

definition CancelBroadcastSm_encode :: "CancelBroadcastSm \<Rightarrow> Buffer result" where
  "CancelBroadcastSm_encode = encode_frame CancelBroadcastSm_puts"

definition CancelBroadcastSm_read :: "CancelBroadcastSm \<Rightarrow> octets \<Rightarrow> nat \<Rightarrow> string \<Rightarrow> (CancelBroadcastSm \<times> nat) result" where
  "CancelBroadcastSm_read p buff len err =
     bind2 (get_String ServiceType_assign (drop 16 buff) len err 16) (\<lambda>service_type' offset.
     bind2 (get_String MessageId_assign (drop offset buff) len err offset) (\<lambda>message_id' offset.
     bind2 (get_SmeAddress (source_addr p) (drop offset buff) len err offset) (\<lambda>source_addr' offset.
     Inr (p\<lparr> service_type := service_type', message_id := message_id', source_addr := source_addr' \<rparr>, offset))))"

definition CancelBroadcastSm_decode :: "CancelBroadcastSm \<Rightarrow> octets \<Rightarrow> CancelBroadcastSm result" where
  "CancelBroadcastSm_decode = decode_frame ''Bad length in cancel_broadcast_sm'' CancelBroadcastSm_read"

abbreviation CancelBroadcastSm_blank :: CancelBroadcastSm where
  "CancelBroadcastSm_blank \<equiv> CancelBroadcastSm_default\<lparr> sequence_number := 1 \<rparr>"

definition CancelBroadcastSm_from :: "octets \<Rightarrow> CancelBroadcastSm result" where
  "CancelBroadcastSm_from b = CancelBroadcastSm_decode CancelBroadcastSm_blank b"

definition CancelBroadcastSm_body :: "CancelBroadcastSm \<Rightarrow> octets" where
  "CancelBroadcastSm_body p =
     String_octets (service_type p) @ String_octets (message_id p) @ SmeAddress_octets (source_addr p)"

definition CancelBroadcastSm_fields_ok :: "CancelBroadcastSm \<Rightarrow> bool" where
  "CancelBroadcastSm_fields_ok p \<longleftrightarrow>
     ServiceType_ok (service_type p) \<and> MessageId_ok (message_id p) \<and>
     SmeAddress_ok 21 (source_addr p)"

interpretation cancel_broadcast_sm: pdu_body CancelBroadcastSm_puts CancelBroadcastSm_read "''Bad length in cancel_broadcast_sm''"
  CancelBroadcastSm_blank CancelBroadcastSm_body CancelBroadcastSm_fields_ok
proof (unfold_locales, goal_cases)
  case (1 p)
  show ?case
    unfolding CancelBroadcastSm_puts_def CancelBroadcastSm_body_def by (rule writes_eq, (rule writes_intro)+, simp)
next
  case 2
  show ?case by (simp add: CancelBroadcastSm_default_def)
next
  case (3 p q)
  then show ?case by (cases p, cases q) (simp add: CancelBroadcastSm_body_def)
next
  case (4 p q)
  then show ?case by (cases p, cases q) (simp add: CancelBroadcastSm_fields_ok_def)
next
  case (5 p g b rest len)
  then have old: "source_addr g = SmeAddress_default"
    by (cases g, simp add: CancelBroadcastSm_default_def)+
  with 5 show ?case
    by (cases p, cases g) (simp add: CancelBroadcastSm_read_def field_simps_read CancelBroadcastSm_body_def
      CancelBroadcastSm_fields_ok_def drop_plus del: drop_drop cong: bind2_cong)
next
  case (6 g b len q off)
  then have old: "source_addr g = SmeAddress_default"
    by (cases g, simp add: CancelBroadcastSm_default_def)+
  with 6(1) [THEN reading_start, of b] show ?case
    unfolding CancelBroadcastSm_read_def old
    by (elim step_elim)
      (cases g, clarsimp simp: reading_end CancelBroadcastSm_body_def CancelBroadcastSm_fields_ok_def)
qed

definition CancelBroadcastSm_set_service_type :: "octets \<Rightarrow> CancelBroadcastSm \<Rightarrow> CancelBroadcastSm" where
  "CancelBroadcastSm_set_service_type v p = update_length (diff v (service_type p)) (p\<lparr> service_type := v \<rparr>)"

definition CancelBroadcastSm_set_service_type_Char :: "octets \<Rightarrow> CancelBroadcastSm \<Rightarrow> CancelBroadcastSm result" where
  "CancelBroadcastSm_set_service_type_Char s p = bind2 (assign_diff ServiceType_assign s (service_type p))
     (\<lambda>v d. Inr (update_length d (p\<lparr> service_type := v \<rparr>)))"

definition CancelBroadcastSm_set_message_id :: "octets \<Rightarrow> CancelBroadcastSm \<Rightarrow> CancelBroadcastSm" where
  "CancelBroadcastSm_set_message_id v p = update_length (diff v (message_id p)) (p\<lparr> message_id := v \<rparr>)"

definition CancelBroadcastSm_set_message_id_Char :: "octets \<Rightarrow> CancelBroadcastSm \<Rightarrow> CancelBroadcastSm result" where
  "CancelBroadcastSm_set_message_id_Char s p = bind2 (assign_diff MessageId_assign s (message_id p))
     (\<lambda>v d. Inr (update_length d (p\<lparr> message_id := v \<rparr>)))"

definition CancelBroadcastSm_set_source_addr :: "SmeAddress \<Rightarrow> CancelBroadcastSm \<Rightarrow> CancelBroadcastSm" where
  "CancelBroadcastSm_set_source_addr a p = update_length (diff (addr_v (address a)) (addr_v (address (source_addr p))))
     (p\<lparr> source_addr := a \<rparr>)"

definition CancelBroadcastSm_set_source_addr_Address :: "Address \<Rightarrow> CancelBroadcastSm \<Rightarrow> CancelBroadcastSm result" where
  "CancelBroadcastSm_set_source_addr_Address a p = bind2 (address_diff 0 0 a 21 (source_addr p))
     (\<lambda>v d. Inr (update_length d (p\<lparr> source_addr := v \<rparr>)))"

text \<open>The objects that constructors and mutators build.\<close>

inductive CancelBroadcastSm_reachable :: "CancelBroadcastSm \<Rightarrow> bool" where
  default: "CancelBroadcastSm_reachable CancelBroadcastSm_default"
| ctor: "CancelBroadcastSm_reachable (new_CancelBroadcastSm n x0 x1 x2)"
| from_buffer: "CancelBroadcastSm_from b = Inr p \<Longrightarrow> CancelBroadcastSm_reachable p"
| inherited: "CancelBroadcastSm_reachable p \<Longrightarrow> header_op p q \<Longrightarrow> CancelBroadcastSm_reachable q"
| set_service_type: "CancelBroadcastSm_reachable p \<Longrightarrow> CancelBroadcastSm_reachable (CancelBroadcastSm_set_service_type v p)"
| set_service_type_Char: "CancelBroadcastSm_reachable p \<Longrightarrow> CancelBroadcastSm_set_service_type_Char s p = Inr q \<Longrightarrow> CancelBroadcastSm_reachable q"
| set_message_id: "CancelBroadcastSm_reachable p \<Longrightarrow> CancelBroadcastSm_reachable (CancelBroadcastSm_set_message_id v p)"
| set_message_id_Char: "CancelBroadcastSm_reachable p \<Longrightarrow> CancelBroadcastSm_set_message_id_Char s p = Inr q \<Longrightarrow> CancelBroadcastSm_reachable q"
| set_source_addr: "CancelBroadcastSm_reachable p \<Longrightarrow> CancelBroadcastSm_reachable (CancelBroadcastSm_set_source_addr a p)"
| set_source_addr_Address: "CancelBroadcastSm_reachable p \<Longrightarrow> CancelBroadcastSm_set_source_addr_Address a p = Inr q \<Longrightarrow> CancelBroadcastSm_reachable q"

lemma cancel_broadcast_sm_frame_ok: "CancelBroadcastSm_reachable p \<Longrightarrow> frame_ok p (length (CancelBroadcastSm_body p))"
proof (induction rule: CancelBroadcastSm_reachable.induct)
  case default
  show ?case by (simp add: CancelBroadcastSm_default_def CancelBroadcastSm_body_def setter_simps
    SmeAddress_default_def Address_default_def)
next
  case ctor
  show ?case by (simp add: new_CancelBroadcastSm_def CancelBroadcastSm_body_def setter_simps
    SmeAddress_default_def Address_default_def)
next
  case (from_buffer b p)
  then show ?case
    using cancel_broadcast_sm.from_frame [of b p] by (simp add: CancelBroadcastSm_from_def CancelBroadcastSm_decode_def)
next
  case (inherited p q)
  then show ?case using cancel_broadcast_sm.header_op_frame [of p q] by simp
qed (auto simp: CancelBroadcastSm_set_service_type_def
      CancelBroadcastSm_set_service_type_Char_def
      CancelBroadcastSm_set_message_id_def
      CancelBroadcastSm_set_message_id_Char_def
      CancelBroadcastSm_set_source_addr_def
      CancelBroadcastSm_set_source_addr_Address_def
      CancelBroadcastSm_body_def setter_simps bind_eq_Inr bind2_eq_Inr assigns_def InterfaceVersion_def
      dest!: diff_InrD split: if_splits)

section \<open>BroadcastSmResp\<close>

text \<open>\<open>broadcast_sm_resp.hpp\<close> and \<open>broadcast_sm_resp.cpp\<close>.\<close>

record BroadcastSmResp = Header +
  message_id :: octets

definition BroadcastSmResp_default :: BroadcastSmResp where
  "BroadcastSmResp_default =
     \<lparr> command_length = 17, command_id = 0x80000111, command_status = 0,
     sequence_number = SequenceNumber_Min, tlv_list = [], message_id = [] \<rparr>"

definition new_BroadcastSmResp :: "uint32 \<Rightarrow> uint32 \<Rightarrow> octets \<Rightarrow> BroadcastSmResp" where
  "new_BroadcastSmResp commandStatus sequenceNumber message_id' =
     update_length (of_nat (length message_id'))
     \<lparr> command_length = 17, command_id = 0x80000111, command_status = commandStatus,
     sequence_number = sequenceNumber, tlv_list = [], message_id = message_id' \<rparr>"

definition BroadcastSmResp_puts :: "BroadcastSmResp \<Rightarrow> (Buffer \<Rightarrow> Buffer result) list" where
  "BroadcastSmResp_puts p =
     [put_String (message_id p)]"

definition BroadcastSmResp_encode :: "BroadcastSmResp \<Rightarrow> Buffer result" where
  "BroadcastSmResp_encode = encode_frame BroadcastSmResp_puts"

definition BroadcastSmResp_read :: "BroadcastSmResp \<Rightarrow> octets \<Rightarrow> nat \<Rightarrow> string \<Rightarrow> (BroadcastSmResp \<times> nat) result" where
  "BroadcastSmResp_read p buff len err =
     bind2 (get_String MessageId_assign (drop 16 buff) len err 16) (\<lambda>message_id' offset.
     Inr (p\<lparr> message_id := message_id' \<rparr>, offset))"

definition BroadcastSmResp_decode :: "BroadcastSmResp \<Rightarrow> octets \<Rightarrow> BroadcastSmResp result" where
  "BroadcastSmResp_decode = decode_frame ''Bad length in broadcast_sm_resp'' BroadcastSmResp_read"

abbreviation BroadcastSmResp_blank :: BroadcastSmResp where
  "BroadcastSmResp_blank \<equiv> BroadcastSmResp_default\<lparr> sequence_number := 1 \<rparr>"

definition BroadcastSmResp_from :: "octets \<Rightarrow> BroadcastSmResp result" where
  "BroadcastSmResp_from b = BroadcastSmResp_decode BroadcastSmResp_blank b"

definition BroadcastSmResp_body :: "BroadcastSmResp \<Rightarrow> octets" where
  "BroadcastSmResp_body p =
     String_octets (message_id p)"

definition BroadcastSmResp_fields_ok :: "BroadcastSmResp \<Rightarrow> bool" where
  "BroadcastSmResp_fields_ok p \<longleftrightarrow>
     MessageId_ok (message_id p)"

interpretation broadcast_sm_resp: pdu_body BroadcastSmResp_puts BroadcastSmResp_read "''Bad length in broadcast_sm_resp''"
  BroadcastSmResp_blank BroadcastSmResp_body BroadcastSmResp_fields_ok
proof (unfold_locales, goal_cases)
  case (1 p)
  show ?case
    unfolding BroadcastSmResp_puts_def BroadcastSmResp_body_def by (rule writes_eq, (rule writes_intro)+, simp)
next
  case 2
  show ?case by (simp add: BroadcastSmResp_default_def)
next
  case (3 p q)
  then show ?case by (cases p, cases q) (simp add: BroadcastSmResp_body_def)
next
  case (4 p q)
  then show ?case by (cases p, cases q) (simp add: BroadcastSmResp_fields_ok_def)
next
  case (5 p g b rest len)
  then show ?case
    by (cases p, cases g) (simp add: BroadcastSmResp_read_def field_simps_read BroadcastSmResp_body_def
      BroadcastSmResp_fields_ok_def drop_plus del: drop_drop cong: bind2_cong)
next
  case (6 g b len q off)
  from 6(1) [THEN reading_start, of b] show ?case
    unfolding BroadcastSmResp_read_def
    by (elim step_elim)
      (cases g, clarsimp simp: reading_end BroadcastSmResp_body_def BroadcastSmResp_fields_ok_def)
qed

definition BroadcastSmResp_set_message_id :: "octets \<Rightarrow> BroadcastSmResp \<Rightarrow> BroadcastSmResp" where
  "BroadcastSmResp_set_message_id v p = update_length (diff v (message_id p)) (p\<lparr> message_id := v \<rparr>)"

definition BroadcastSmResp_set_message_id_Char :: "octets \<Rightarrow> BroadcastSmResp \<Rightarrow> BroadcastSmResp result" where
  "BroadcastSmResp_set_message_id_Char s p = bind2 (assign_diff MessageId_assign s (message_id p))
     (\<lambda>v d. Inr (update_length d (p\<lparr> message_id := v \<rparr>)))"

text \<open>The objects that constructors and mutators build.\<close>

inductive BroadcastSmResp_reachable :: "BroadcastSmResp \<Rightarrow> bool" where
  default: "BroadcastSmResp_reachable BroadcastSmResp_default"
| ctor: "BroadcastSmResp_reachable (new_BroadcastSmResp st n x0)"
| from_buffer: "BroadcastSmResp_from b = Inr p \<Longrightarrow> BroadcastSmResp_reachable p"
| inherited: "BroadcastSmResp_reachable p \<Longrightarrow> header_op p q \<Longrightarrow> BroadcastSmResp_reachable q"
| set_message_id: "BroadcastSmResp_reachable p \<Longrightarrow> BroadcastSmResp_reachable (BroadcastSmResp_set_message_id v p)"
| set_message_id_Char: "BroadcastSmResp_reachable p \<Longrightarrow> BroadcastSmResp_set_message_id_Char s p = Inr q \<Longrightarrow> BroadcastSmResp_reachable q"

lemma broadcast_sm_resp_frame_ok: "BroadcastSmResp_reachable p \<Longrightarrow> frame_ok p (length (BroadcastSmResp_body p))"
proof (induction rule: BroadcastSmResp_reachable.induct)
  case default
  show ?case by (simp add: BroadcastSmResp_default_def BroadcastSmResp_body_def setter_simps
    )
next
  case ctor
  show ?case by (simp add: new_BroadcastSmResp_def BroadcastSmResp_body_def setter_simps
    )
next
  case (from_buffer b p)
  then show ?case
    using broadcast_sm_resp.from_frame [of b p] by (simp add: BroadcastSmResp_from_def BroadcastSmResp_decode_def)
next
  case (inherited p q)
  then show ?case using broadcast_sm_resp.header_op_frame [of p q] by simp
qed (auto simp: BroadcastSmResp_set_message_id_def BroadcastSmResp_set_message_id_Char_def
      BroadcastSmResp_body_def setter_simps bind_eq_Inr bind2_eq_Inr assigns_def InterfaceVersion_def
      dest!: diff_InrD split: if_splits)

end
