(* ===== verification/Codec_Properties.thy ===== *)
theory Codec_Properties
  imports Pdu_Submit Pdu_Deliver Pdu_Data Pdu_Bind Pdu_Bind_Resp Pdu_Session Pdu_Query Pdu_Replace
    Pdu_Multi Pdu_Broadcast Pdu_Broadcast_Query
begin

text \<open>
  What the encoder and decoder of the 33 PDU classes guarantee, and where they fall short.
\<close>

section \<open>Encoding\<close>

definition fits :: "'a Header_scheme \<Rightarrow> octets \<Rightarrow> bool" where
  "fits p xs \<longleftrightarrow> length (pdu_octets p xs) < 2 ^ 32"

text \<open>
  The encoder writes the header, the body and the TLVs into an array of \<open>command_length\<close> octets,
  without writing past its end and leaving no octet of it unwritten.
\<close>

definition fills :: "Buffer result \<Rightarrow> 'a Header_scheme \<Rightarrow> octets \<Rightarrow> bool" where
  "fills e p xs \<longleftrightarrow> e = Inr \<lparr> capacity = unat (command_length p), data = pdu_octets p xs \<rparr> \<and>
     length (pdu_octets p xs) = unat (command_length p)"

text \<open>
  C1: the PDUs that carry messages. Whatever objects constructors and mutators build, in any order,
  \<open>command_length\<close> agrees with the parameters and TLVs, so \<open>encode\<close> fills exactly the array it
  allocates (as long as the PDU is shorter than 2^32 octets).
\<close>

theorem message_pdus_fill_their_buffer:
  "(\<forall>p. SubmitSm_reachable p \<and> fits p (SubmitSm_body p) \<longrightarrow> fills (SubmitSm_encode p) p (SubmitSm_body p)) \<and>
   (\<forall>p. DeliverSm_reachable p \<and> fits p (DeliverSm_body p) \<longrightarrow> fills (DeliverSm_encode p) p (DeliverSm_body p)) \<and>
   (\<forall>p. DataSm_reachable p \<and> fits p (DataSm_body p) \<longrightarrow> fills (DataSm_encode p) p (DataSm_body p)) \<and>
   (\<forall>p. SubmitMulti_reachable p \<and> fits p (SubmitMulti_body p) \<longrightarrow> fills (SubmitMulti_encode p) p (SubmitMulti_body p)) \<and>
   (\<forall>p. ReplaceSm_reachable p \<and> fits p (ReplaceSm_body p) \<longrightarrow> fills (ReplaceSm_encode p) p (ReplaceSm_body p)) \<and>
   (\<forall>p. BroadcastSm_reachable p \<and> fits p (BroadcastSm_body p) \<longrightarrow> fills (BroadcastSm_encode p) p (BroadcastSm_body p))"
  unfolding fits_def fills_def SubmitSm_encode_def DeliverSm_encode_def DataSm_encode_def SubmitMulti_encode_def
    ReplaceSm_encode_def BroadcastSm_encode_def
  by (intro conjI allI impI; elim conjE)
    (simp_all add: submit_sm.encode_reachable submit_sm_frame_ok deliver_sm.encode_reachable deliver_sm_frame_ok
      data_sm.encode_reachable data_sm_frame_ok
      submit_multi.encode_reachable submit_multi_frame_ok
      replace_sm.encode_reachable replace_sm_frame_ok
      broadcast_sm.encode_reachable broadcast_sm_frame_ok
      del: length_pdu_octets)

text \<open>
  C2: the same for the other 27 PDU classes.
\<close>

theorem other_pdus_fill_their_buffer:
  "(\<forall>p. SubmitSmResp_reachable p \<and> fits p (SubmitSmResp_body p) \<longrightarrow> fills (SubmitSmResp_encode p) p (SubmitSmResp_body p)) \<and>
   (\<forall>p. DeliverSmResp_reachable p \<and> fits p (DeliverSmResp_body p) \<longrightarrow> fills (DeliverSmResp_encode p) p (DeliverSmResp_body p)) \<and>
   (\<forall>p. DataSmResp_reachable p \<and> fits p (DataSmResp_body p) \<longrightarrow> fills (DataSmResp_encode p) p (DataSmResp_body p)) \<and>
   (\<forall>p. BindTransmitter_reachable p \<and> fits p (BindTransmitter_body p) \<longrightarrow> fills (BindTransmitter_encode p) p (BindTransmitter_body p)) \<and>
   (\<forall>p. BindReceiver_reachable p \<and> fits p (BindReceiver_body p) \<longrightarrow> fills (BindReceiver_encode p) p (BindReceiver_body p)) \<and>
   (\<forall>p. BindTransceiver_reachable p \<and> fits p (BindTransceiver_body p) \<longrightarrow> fills (BindTransceiver_encode p) p (BindTransceiver_body p)) \<and>
   (\<forall>p. Outbind_reachable p \<and> fits p (Outbind_body p) \<longrightarrow> fills (Outbind_encode p) p (Outbind_body p)) \<and>
   (\<forall>p. BindTransmitterResp_reachable p \<and> fits p (BindTransmitterResp_body p) \<longrightarrow> fills (BindTransmitterResp_encode p) p (BindTransmitterResp_body p)) \<and>
   (\<forall>p. BindReceiverResp_reachable p \<and> fits p (BindReceiverResp_body p) \<longrightarrow> fills (BindReceiverResp_encode p) p (BindReceiverResp_body p)) \<and>
   (\<forall>p. BindTransceiverResp_reachable p \<and> fits p (BindTransceiverResp_body p) \<longrightarrow> fills (BindTransceiverResp_encode p) p (BindTransceiverResp_body p)) \<and>
   (\<forall>p. Unbind_reachable p \<and> fits p (Unbind_body p) \<longrightarrow> fills (Unbind_encode p) p (Unbind_body p)) \<and>
   (\<forall>p. UnbindResp_reachable p \<and> fits p (UnbindResp_body p) \<longrightarrow> fills (UnbindResp_encode p) p (UnbindResp_body p)) \<and>
   (\<forall>p. EnquireLink_reachable p \<and> fits p (EnquireLink_body p) \<longrightarrow> fills (EnquireLink_encode p) p (EnquireLink_body p)) \<and>
   (\<forall>p. EnquireLinkResp_reachable p \<and> fits p (EnquireLinkResp_body p) \<longrightarrow> fills (EnquireLinkResp_encode p) p (EnquireLinkResp_body p)) \<and>
   (\<forall>p. GenericNack_reachable p \<and> fits p (GenericNack_body p) \<longrightarrow> fills (GenericNack_encode p) p (GenericNack_body p)) \<and>
   (\<forall>p. ReplaceSmResp_reachable p \<and> fits p (ReplaceSmResp_body p) \<longrightarrow> fills (ReplaceSmResp_encode p) p (ReplaceSmResp_body p)) \<and>
   (\<forall>p. CancelSmResp_reachable p \<and> fits p (CancelSmResp_body p) \<longrightarrow> fills (CancelSmResp_encode p) p (CancelSmResp_body p)) \<and>
   (\<forall>p. CancelBroadcastSmResp_reachable p \<and> fits p (CancelBroadcastSmResp_body p) \<longrightarrow> fills (CancelBroadcastSmResp_encode p) p (CancelBroadcastSmResp_body p)) \<and>
   (\<forall>p. AlertNotification_reachable p \<and> fits p (AlertNotification_body p) \<longrightarrow> fills (AlertNotification_encode p) p (AlertNotification_body p)) \<and>
   (\<forall>p. QuerySm_reachable p \<and> fits p (QuerySm_body p) \<longrightarrow> fills (QuerySm_encode p) p (QuerySm_body p)) \<and>
   (\<forall>p. QuerySmResp_reachable p \<and> fits p (QuerySmResp_body p) \<longrightarrow> fills (QuerySmResp_encode p) p (QuerySmResp_body p)) \<and>
   (\<forall>p. CancelSm_reachable p \<and> fits p (CancelSm_body p) \<longrightarrow> fills (CancelSm_encode p) p (CancelSm_body p)) \<and>
   (\<forall>p. SubmitMultiResp_reachable p \<and> fits p (SubmitMultiResp_body p) \<longrightarrow> fills (SubmitMultiResp_encode p) p (SubmitMultiResp_body p)) \<and>
   (\<forall>p. QueryBroadcastSm_reachable p \<and> fits p (QueryBroadcastSm_body p) \<longrightarrow> fills (QueryBroadcastSm_encode p) p (QueryBroadcastSm_body p)) \<and>
   (\<forall>p. CancelBroadcastSm_reachable p \<and> fits p (CancelBroadcastSm_body p) \<longrightarrow> fills (CancelBroadcastSm_encode p) p (CancelBroadcastSm_body p)) \<and>
   (\<forall>p. BroadcastSmResp_reachable p \<and> fits p (BroadcastSmResp_body p) \<longrightarrow> fills (BroadcastSmResp_encode p) p (BroadcastSmResp_body p)) \<and>
   (\<forall>p. QueryBroadcastSmResp_reachable p \<and> fits p (QueryBroadcastSmResp_body p) \<longrightarrow> fills (QueryBroadcastSmResp_encode p) p (QueryBroadcastSmResp_body p))"
  unfolding fits_def fills_def SubmitSmResp_encode_def DeliverSmResp_encode_def DataSmResp_encode_def BindTransmitter_encode_def
    BindReceiver_encode_def BindTransceiver_encode_def Outbind_encode_def
    BindTransmitterResp_encode_def BindReceiverResp_encode_def BindTransceiverResp_encode_def
    Unbind_encode_def UnbindResp_encode_def EnquireLink_encode_def EnquireLinkResp_encode_def
    GenericNack_encode_def ReplaceSmResp_encode_def CancelSmResp_encode_def
    CancelBroadcastSmResp_encode_def AlertNotification_encode_def QuerySm_encode_def
    QuerySmResp_encode_def CancelSm_encode_def SubmitMultiResp_encode_def
    QueryBroadcastSm_encode_def CancelBroadcastSm_encode_def BroadcastSmResp_encode_def
    QueryBroadcastSmResp_encode_def
  by (intro conjI allI impI; elim conjE)
    (simp_all add: submit_sm_resp.encode_reachable submit_sm_resp_frame_ok
      deliver_sm_resp.encode_reachable deliver_sm_resp_frame_ok
      data_sm_resp.encode_reachable data_sm_resp_frame_ok
      bind_transmitter.encode_reachable bind_transmitter_frame_ok
      bind_receiver.encode_reachable bind_receiver_frame_ok
      bind_transceiver.encode_reachable bind_transceiver_frame_ok
      outbind.encode_reachable outbind_frame_ok
      bind_transmitter_resp.encode_reachable bind_transmitter_resp_frame_ok
      bind_receiver_resp.encode_reachable bind_receiver_resp_frame_ok
      bind_transceiver_resp.encode_reachable bind_transceiver_resp_frame_ok
      unbind.encode_reachable unbind_frame_ok unbind_resp.encode_reachable unbind_resp_frame_ok
      enquire_link.encode_reachable enquire_link_frame_ok
      enquire_link_resp.encode_reachable enquire_link_resp_frame_ok
      generic_nack.encode_reachable generic_nack_frame_ok
      replace_sm_resp.encode_reachable replace_sm_resp_frame_ok
      cancel_sm_resp.encode_reachable cancel_sm_resp_frame_ok
      cancel_broadcast_sm_resp.encode_reachable cancel_broadcast_sm_resp_frame_ok
      alert_notification.encode_reachable alert_notification_frame_ok
      query_sm.encode_reachable query_sm_frame_ok
      query_sm_resp.encode_reachable query_sm_resp_frame_ok
      cancel_sm.encode_reachable cancel_sm_frame_ok
      submit_multi_resp.encode_reachable submit_multi_resp_frame_ok
      query_broadcast_sm.encode_reachable query_broadcast_sm_frame_ok
      cancel_broadcast_sm.encode_reachable cancel_broadcast_sm_frame_ok
      broadcast_sm_resp.encode_reachable broadcast_sm_resp_frame_ok
      query_broadcast_sm_resp.encode_reachable query_broadcast_sm_resp_frame_ok
      del: length_pdu_octets)

text \<open>
  C3: decoding a message PDU from an array succeeds exactly on the arrays that start with the
  octets the encoder writes for the decoded object, which respects the length limits of its
  parameters; what follows in the array does not matter.
\<close>

theorem message_pdus_decode:
  "(SubmitSm_from b = Inr p1 \<longleftrightarrow> SubmitSm_fields_ok p1 \<and> size_ok p1 (SubmitSm_body p1) \<and>
     (\<exists>rest. b = pdu_octets p1 (SubmitSm_body p1) @ rest)) \<and>
   (DeliverSm_from b = Inr p2 \<longleftrightarrow> DeliverSm_fields_ok p2 \<and> size_ok p2 (DeliverSm_body p2) \<and>
     (\<exists>rest. b = pdu_octets p2 (DeliverSm_body p2) @ rest)) \<and>
   (DataSm_from b = Inr p3 \<longleftrightarrow> DataSm_fields_ok p3 \<and> size_ok p3 (DataSm_body p3) \<and>
     (\<exists>rest. b = pdu_octets p3 (DataSm_body p3) @ rest)) \<and>
   (ReplaceSm_from b = Inr p4 \<longleftrightarrow> ReplaceSm_fields_ok p4 \<and> size_ok p4 (ReplaceSm_body p4) \<and>
     (\<exists>rest. b = pdu_octets p4 (ReplaceSm_body p4) @ rest))"
  by (intro conjI)
    (simp_all only: SubmitSm_from_def SubmitSm_decode_def submit_sm.decode_iff
      DeliverSm_from_def DeliverSm_decode_def deliver_sm.decode_iff
      DataSm_from_def DataSm_decode_def data_sm.decode_iff
      ReplaceSm_from_def ReplaceSm_decode_def replace_sm.decode_iff
      conj_assoc)

text \<open>
  C4: the same for the PDUs that open a session.
\<close>

theorem bind_pdus_decode:
  "(BindTransmitter_from b = Inr p1 \<longleftrightarrow> BindTransmitter_fields_ok p1 \<and> size_ok p1 (BindTransmitter_body p1) \<and>
     (\<exists>rest. b = pdu_octets p1 (BindTransmitter_body p1) @ rest)) \<and>
   (BindReceiver_from b = Inr p2 \<longleftrightarrow> BindReceiver_fields_ok p2 \<and> size_ok p2 (BindReceiver_body p2) \<and>
     (\<exists>rest. b = pdu_octets p2 (BindReceiver_body p2) @ rest)) \<and>
   (BindTransceiver_from b = Inr p3 \<longleftrightarrow> BindTransceiver_fields_ok p3 \<and> size_ok p3 (BindTransceiver_body p3) \<and>
     (\<exists>rest. b = pdu_octets p3 (BindTransceiver_body p3) @ rest)) \<and>
   (Outbind_from b = Inr p4 \<longleftrightarrow> Outbind_fields_ok p4 \<and> size_ok p4 (Outbind_body p4) \<and>
     (\<exists>rest. b = pdu_octets p4 (Outbind_body p4) @ rest)) \<and>
   (BindTransmitterResp_from b = Inr p5 \<longleftrightarrow> BindTransmitterResp_fields_ok p5 \<and> size_ok p5 (BindTransmitterResp_body p5) \<and>
     (\<exists>rest. b = pdu_octets p5 (BindTransmitterResp_body p5) @ rest)) \<and>
   (BindReceiverResp_from b = Inr p6 \<longleftrightarrow> BindReceiverResp_fields_ok p6 \<and> size_ok p6 (BindReceiverResp_body p6) \<and>
     (\<exists>rest. b = pdu_octets p6 (BindReceiverResp_body p6) @ rest)) \<and>
   (BindTransceiverResp_from b = Inr p7 \<longleftrightarrow> BindTransceiverResp_fields_ok p7 \<and> size_ok p7 (BindTransceiverResp_body p7) \<and>
     (\<exists>rest. b = pdu_octets p7 (BindTransceiverResp_body p7) @ rest))"
  by (intro conjI)
    (simp_all only: BindTransmitter_from_def BindTransmitter_decode_def bind_transmitter.decode_iff
      BindReceiver_from_def BindReceiver_decode_def bind_receiver.decode_iff
      BindTransceiver_from_def BindTransceiver_decode_def bind_transceiver.decode_iff
      Outbind_from_def Outbind_decode_def outbind.decode_iff
      BindTransmitterResp_from_def BindTransmitterResp_decode_def bind_transmitter_resp.decode_iff
      BindReceiverResp_from_def BindReceiverResp_decode_def bind_receiver_resp.decode_iff
      BindTransceiverResp_from_def BindTransceiverResp_decode_def bind_transceiver_resp.decode_iff
      conj_assoc)

text \<open>
  C5: the same for session management, queries, cancellations and the responses.
\<close>

theorem other_pdus_decode:
  "(Unbind_from b = Inr p1 \<longleftrightarrow> Unbind_fields_ok p1 \<and> size_ok p1 (Unbind_body p1) \<and>
     (\<exists>rest. b = pdu_octets p1 (Unbind_body p1) @ rest)) \<and>
   (UnbindResp_from b = Inr p2 \<longleftrightarrow> UnbindResp_fields_ok p2 \<and> size_ok p2 (UnbindResp_body p2) \<and>
     (\<exists>rest. b = pdu_octets p2 (UnbindResp_body p2) @ rest)) \<and>
   (EnquireLink_from b = Inr p3 \<longleftrightarrow> EnquireLink_fields_ok p3 \<and> size_ok p3 (EnquireLink_body p3) \<and>
     (\<exists>rest. b = pdu_octets p3 (EnquireLink_body p3) @ rest)) \<and>
   (EnquireLinkResp_from b = Inr p4 \<longleftrightarrow> EnquireLinkResp_fields_ok p4 \<and> size_ok p4 (EnquireLinkResp_body p4) \<and>
     (\<exists>rest. b = pdu_octets p4 (EnquireLinkResp_body p4) @ rest)) \<and>
   (GenericNack_from b = Inr p5 \<longleftrightarrow> GenericNack_fields_ok p5 \<and> size_ok p5 (GenericNack_body p5) \<and>
     (\<exists>rest. b = pdu_octets p5 (GenericNack_body p5) @ rest)) \<and>
   (ReplaceSmResp_from b = Inr p6 \<longleftrightarrow> ReplaceSmResp_fields_ok p6 \<and> size_ok p6 (ReplaceSmResp_body p6) \<and>
     (\<exists>rest. b = pdu_octets p6 (ReplaceSmResp_body p6) @ rest)) \<and>
   (CancelSmResp_from b = Inr p7 \<longleftrightarrow> CancelSmResp_fields_ok p7 \<and> size_ok p7 (CancelSmResp_body p7) \<and>
     (\<exists>rest. b = pdu_octets p7 (CancelSmResp_body p7) @ rest)) \<and>
   (CancelBroadcastSmResp_from b = Inr p8 \<longleftrightarrow> CancelBroadcastSmResp_fields_ok p8 \<and> size_ok p8 (CancelBroadcastSmResp_body p8) \<and>
     (\<exists>rest. b = pdu_octets p8 (CancelBroadcastSmResp_body p8) @ rest)) \<and>
   (AlertNotification_from b = Inr p9 \<longleftrightarrow> AlertNotification_fields_ok p9 \<and> size_ok p9 (AlertNotification_body p9) \<and>
     (\<exists>rest. b = pdu_octets p9 (AlertNotification_body p9) @ rest)) \<and>
   (QuerySm_from b = Inr p10 \<longleftrightarrow> QuerySm_fields_ok p10 \<and> size_ok p10 (QuerySm_body p10) \<and>
     (\<exists>rest. b = pdu_octets p10 (QuerySm_body p10) @ rest)) \<and>
   (QuerySmResp_from b = Inr p11 \<longleftrightarrow> QuerySmResp_fields_ok p11 \<and> size_ok p11 (QuerySmResp_body p11) \<and>
     (\<exists>rest. b = pdu_octets p11 (QuerySmResp_body p11) @ rest)) \<and>
   (CancelSm_from b = Inr p12 \<longleftrightarrow> CancelSm_fields_ok p12 \<and> size_ok p12 (CancelSm_body p12) \<and>
     (\<exists>rest. b = pdu_octets p12 (CancelSm_body p12) @ rest)) \<and>
   (SubmitSmResp_from b = Inr p13 \<longleftrightarrow> SubmitSmResp_fields_ok p13 \<and> size_ok p13 (SubmitSmResp_body p13) \<and>
     (\<exists>rest. b = pdu_octets p13 (SubmitSmResp_body p13) @ rest)) \<and>
   (DeliverSmResp_from b = Inr p14 \<longleftrightarrow> DeliverSmResp_fields_ok p14 \<and> size_ok p14 (DeliverSmResp_body p14) \<and>
     (\<exists>rest. b = pdu_octets p14 (DeliverSmResp_body p14) @ rest)) \<and>
   (DataSmResp_from b = Inr p15 \<longleftrightarrow> DataSmResp_fields_ok p15 \<and> size_ok p15 (DataSmResp_body p15) \<and>
     (\<exists>rest. b = pdu_octets p15 (DataSmResp_body p15) @ rest)) \<and>
   (QueryBroadcastSm_from b = Inr p16 \<longleftrightarrow> QueryBroadcastSm_fields_ok p16 \<and> size_ok p16 (QueryBroadcastSm_body p16) \<and>
     (\<exists>rest. b = pdu_octets p16 (QueryBroadcastSm_body p16) @ rest)) \<and>
   (CancelBroadcastSm_from b = Inr p17 \<longleftrightarrow> CancelBroadcastSm_fields_ok p17 \<and> size_ok p17 (CancelBroadcastSm_body p17) \<and>
     (\<exists>rest. b = pdu_octets p17 (CancelBroadcastSm_body p17) @ rest)) \<and>
   (BroadcastSmResp_from b = Inr p18 \<longleftrightarrow> BroadcastSmResp_fields_ok p18 \<and> size_ok p18 (BroadcastSmResp_body p18) \<and>
     (\<exists>rest. b = pdu_octets p18 (BroadcastSmResp_body p18) @ rest))"
  by (intro conjI)
    (simp_all only: Unbind_from_def Unbind_decode_def unbind.decode_iff
      UnbindResp_from_def UnbindResp_decode_def unbind_resp.decode_iff
      EnquireLink_from_def EnquireLink_decode_def enquire_link.decode_iff
      EnquireLinkResp_from_def EnquireLinkResp_decode_def enquire_link_resp.decode_iff
      GenericNack_from_def GenericNack_decode_def generic_nack.decode_iff
      ReplaceSmResp_from_def ReplaceSmResp_decode_def replace_sm_resp.decode_iff
      CancelSmResp_from_def CancelSmResp_decode_def cancel_sm_resp.decode_iff
      CancelBroadcastSmResp_from_def CancelBroadcastSmResp_decode_def cancel_broadcast_sm_resp.decode_iff
      AlertNotification_from_def AlertNotification_decode_def alert_notification.decode_iff
      QuerySm_from_def QuerySm_decode_def query_sm.decode_iff
      QuerySmResp_from_def QuerySmResp_decode_def query_sm_resp.decode_iff
      CancelSm_from_def CancelSm_decode_def cancel_sm.decode_iff
      SubmitSmResp_from_def SubmitSmResp_decode_def submit_sm_resp.decode_iff
      DeliverSmResp_from_def DeliverSmResp_decode_def deliver_sm_resp.decode_iff
      DataSmResp_from_def DataSmResp_decode_def data_sm_resp.decode_iff
      QueryBroadcastSm_from_def QueryBroadcastSm_decode_def query_broadcast_sm.decode_iff
      CancelBroadcastSm_from_def CancelBroadcastSm_decode_def cancel_broadcast_sm.decode_iff
      BroadcastSmResp_from_def BroadcastSmResp_decode_def broadcast_sm_resp.decode_iff
      conj_assoc)

text \<open>
  C6: the same for the PDUs with lists of addresses.
\<close>

theorem multi_pdus_decode:
  "(SubmitMulti_from b = Inr p1 \<longleftrightarrow> SubmitMulti_fields_ok p1 \<and> size_ok p1 (SubmitMulti_body p1) \<and>
     (\<exists>rest. b = pdu_octets p1 (SubmitMulti_body p1) @ rest)) \<and>
   (SubmitMultiResp_from b = Inr p2 \<longleftrightarrow> SubmitMultiResp_fields_ok p2 \<and> size_ok p2 (SubmitMultiResp_body p2) \<and>
     (\<exists>rest. b = pdu_octets p2 (SubmitMultiResp_body p2) @ rest))"
  by (intro conjI)
    (simp_all only: SubmitMulti_from_def SubmitMulti_decode_def submit_multi.decode_iff
      SubmitMultiResp_from_def SubmitMultiResp_decode_def submit_multi_resp.decode_iff
      conj_assoc)

section \<open>Composite PDUs\<close>

text \<open>
  \<open>octet_count\<close> is only set by decoding: an address list built with \<open>add\<close> comes back with its
  count filled in, and is otherwise the same.
\<close>

definition counted :: "SubmitMulti \<Rightarrow> SubmitMulti" where
  "counted p = p\<lparr> SubmitMulti.destination_addr := (SubmitMulti.destination_addr p)
     \<lparr> octetCount := length (MultiDestinationAddresses_octets (SubmitMulti.destination_addr p)) \<rparr> \<rparr>"

lemma counted_octets:
  "MultiDestinationAddresses_octets (m\<lparr> octetCount := n \<rparr>) = MultiDestinationAddresses_octets m"
  by (simp add: MultiDestinationAddresses_octets_def MultiDestinationAddresses_size_def)

lemma counted_body: "SubmitMulti_body (counted p) = SubmitMulti_body p"
  by (simp add: SubmitMulti_body_def counted_def counted_octets)

lemma counted_header: "pdu_octets (counted p) xs = pdu_octets p xs"
  by (simp add: pdu_octets_def header_octets_def counted_def)

text \<open>
  a submit_multi built by constructors and mutators, whose strings and addresses are
  within their limits, survives encoding and decoding: the destinations come back in order.
\<close>

theorem submit_multi_round_trip:
  assumes "SubmitMulti_reachable p" and "fits p (SubmitMulti_body p)"
    and "SubmitMulti_fields_ok (counted p)"
  shows "\<exists>buf. SubmitMulti_encode p = Inr buf \<and> offset buf = capacity buf \<and>
    SubmitMulti_from (data buf @ rest) = Inr (counted p)"
proof -
  have size: "size_ok p (SubmitMulti_body p)"
    using submit_multi_frame_ok [OF assms(1)] assms(2) by (simp add: size_ok_def fits_def)
  then have "size_ok (counted p) (SubmitMulti_body (counted p))"
    unfolding counted_body by (simp add: size_ok_def frame_ok_def pdu_size_def counted_def)
  then have "SubmitMulti_from (pdu_octets p (SubmitMulti_body p) @ rest) = Inr (counted p)"
    using submit_multi.decode_octs [of "counted p" rest] assms(3)
    by (simp add: SubmitMulti_from_def SubmitMulti_decode_def counted_body counted_header)
  then show ?thesis
    using submit_multi.encode_fills [OF size] by (simp add: SubmitMulti_encode_def)
qed

text \<open>
  a broadcast_sm is accepted exactly when it is well-formed and its TLVs include the four
  mandatory ones.
\<close>

theorem broadcast_sm_decode:
  "BroadcastSm_from undef b = Inr p \<longleftrightarrow>
     BroadcastSm_fields_ok undef p \<and> size_ok p (BroadcastSm_body p) \<and>
     {0x0606, 0x0601, 0x0604, 0x0605} \<subseteq> tag ` set (tlv_list p) \<and>
     (\<exists>rest. b = pdu_octets p (BroadcastSm_body p) @ rest)"
proof -
  have "find_tlv t p = None \<longleftrightarrow> t \<notin> tag ` set (tlv_list p)" for t
    by (auto simp: find_tlv_def find_None_iff)
  then have mandatory: "{0x0606, 0x0601, 0x0604, 0x0605} \<subseteq> tag ` set (tlv_list p) \<longleftrightarrow>
      \<not> (find_tlv 0x0606 p = None \<or> find_tlv 0x0601 p = None \<or> find_tlv 0x0604 p = None \<or>
        find_tlv 0x0605 p = None)"
    by auto
  have "BroadcastSm_from undef b = Inr p \<longleftrightarrow>
      decode_frame ''Bad length in broadcast_sm'' BroadcastSm_read (BroadcastSm_blank undef) b = Inr p \<and>
      {0x0606, 0x0601, 0x0604, 0x0605} \<subseteq> tag ` set (tlv_list p)"
    unfolding mandatory BroadcastSm_from_def BroadcastSm_decode_def BroadcastSm_decode_parameters_def
    by (simp add: bind_eq_Inr) blast
  then show ?thesis
    unfolding broadcast_sm.decode_iff by blast
qed

section \<open>Limits\<close>

text \<open>
  Decoding into an object that was used before: the addresses keep their limits, and the TLVs stay.
\<close>

definition SubmitSm_within :: "SubmitSm \<Rightarrow> SubmitSm \<Rightarrow> bool" where
  "SubmitSm_within used p \<longleftrightarrow> ServiceType_ok (SubmitSm.service_type p) \<and>
     SmeAddress_ok (addr_len (address (SubmitSm.source_addr used))) (SubmitSm.source_addr p) \<and>
     SmeAddress_ok (addr_len (address (SubmitSm.destination_addr used))) (SubmitSm.destination_addr p) \<and>
     Time_ok (SubmitSm.schedule_delivery_time p) \<and> Time_ok (SubmitSm.validity_period p) \<and> ShortMessage_ok (SubmitSm.short_message p)"

interpretation used_submit_sm: pdu_body SubmitSm_puts SubmitSm_read "''Bad length in submit_sm''"
  "used\<lparr> tlv_list := [] \<rparr>" SubmitSm_body "SubmitSm_within used" for used
proof (unfold_locales, goal_cases)
  case (1 p)
  show ?case by (rule submit_sm.writes_body)
next
  case 2
  show ?case by simp
next
  case (3 p q)
  then show ?case by (rule submit_sm.body_more)
next
  case (4 p q)
  then show ?case by (cases p, cases q) (simp add: SubmitSm_within_def)
next
  case (5 p g b rest len)
  then have old: "SubmitSm.source_addr g = SubmitSm.source_addr used"
    "SubmitSm.destination_addr g = SubmitSm.destination_addr used"
    by (cases g, cases used, simp)+
  with 5 show ?case
    by (cases p, cases g) (simp add: SubmitSm_read_def field_simps_read SubmitSm_body_def
      SubmitSm_within_def drop_plus del: drop_drop cong: bind2_cong)
next
  case (6 g b len q off)
  then have old: "SubmitSm.source_addr g = SubmitSm.source_addr used"
    "SubmitSm.destination_addr g = SubmitSm.destination_addr used"
    by (cases g, cases used, simp)+
  with 6(1) [THEN reading_start, of b] show ?case
    unfolding SubmitSm_read_def old
    by (elim step_elim)
      (cases g, clarsimp simp: reading_end SubmitSm_body_def SubmitSm_within_def)
qed

definition BroadcastSm_within :: "BroadcastSm \<Rightarrow> BroadcastSm \<Rightarrow> bool" where
  "BroadcastSm_within used p \<longleftrightarrow> ServiceType_ok (BroadcastSm.service_type p) \<and>
     SmeAddress_ok (addr_len (address (BroadcastSm.source_addr used))) (BroadcastSm.source_addr p) \<and>
     MessageId_ok (BroadcastSm.message_id p) \<and> Time_ok (BroadcastSm.schedule_delivery_time p) \<and>
     Time_ok (BroadcastSm.validity_period p) \<and>
     BroadcastSm.defaultBroadcastAreaIdentifier p = BroadcastSm.defaultBroadcastAreaIdentifier used"

interpretation used_broadcast_sm: pdu_body BroadcastSm_puts BroadcastSm_read "''Bad length in broadcast_sm''"
  "used\<lparr> tlv_list := [] \<rparr>" BroadcastSm_body "BroadcastSm_within used" for used
proof (unfold_locales, goal_cases)
  case (1 p)
  show ?case by (rule broadcast_sm.writes_body)
next
  case 2
  show ?case by simp
next
  case (3 p q)
  then show ?case by (rule broadcast_sm.body_more)
next
  case (4 p q)
  then show ?case by (cases p, cases q) (simp add: BroadcastSm_within_def)
next
  case (5 p g b rest len)
  then have old: "BroadcastSm.source_addr g = BroadcastSm.source_addr used"
    "BroadcastSm.defaultBroadcastAreaIdentifier g = BroadcastSm.defaultBroadcastAreaIdentifier used"
    by (cases g, cases used, simp)+
  with 5 show ?case
    by (cases p, cases g) (simp add: BroadcastSm_read_def field_simps_read BroadcastSm_body_def
      BroadcastSm_within_def drop_plus del: drop_drop cong: bind2_cong)
next
  case (6 g b len q off)
  then have old: "BroadcastSm.source_addr g = BroadcastSm.source_addr used"
    "BroadcastSm.defaultBroadcastAreaIdentifier g = BroadcastSm.defaultBroadcastAreaIdentifier used"
    by (cases g, cases used, simp)+
  with 6(1) [THEN reading_start, of b] show ?case
    unfolding BroadcastSm_read_def
    by (elim step_elim)
      (cases g, clarsimp simp: reading_end BroadcastSm_body_def BroadcastSm_within_def)
qed

text \<open>
  C7: \<open>decode\<close> does not clear the TLVs of its object. After decoding any array into a submit_sm or a
  broadcast_sm that constructors (also the one that decodes), setters and TLV operations have made and
  that has a TLV (a default-constructed broadcast_sm has four), \<open>encode\<close> writes past the end of its
  buffer.
\<close>

theorem decode_into_used_object_overruns:
  "(SubmitSm_reachable used \<and> tlv_list used \<noteq> [] \<and> SubmitSm_decode used b = Inr p \<longrightarrow>
      SubmitSm_encode p = Inl OutOfBounds) \<and>
   (BroadcastSm_reachable used' \<and> tlv_list used' \<noteq> [] \<and> BroadcastSm_decode used' b' = Inr p' \<longrightarrow>
      BroadcastSm_encode p' = Inl OutOfBounds) \<and>
   BroadcastSm_reachable BroadcastSm_default \<and> length (tlv_list BroadcastSm_default) = 4"
proof (intro conjI impI; (elim conjE)?)
  assume "SubmitSm_reachable used" "tlv_list used \<noteq> []" "SubmitSm_decode used b = Inr p"
  moreover from this(1) have "list_all Tlv_ok (tlv_list used)"
    using submit_sm_frame_ok by (auto simp: frame_ok_def)
  ultimately show "SubmitSm_encode p = Inl OutOfBounds"
    using used_submit_sm.decode_again_overruns [where used = used and ts = "tlv_list used" and b = b and p = p]
    by (simp add: SubmitSm_encode_def SubmitSm_decode_def)
next
  assume "BroadcastSm_reachable used'" "tlv_list used' \<noteq> []" "BroadcastSm_decode used' b' = Inr p'"
  moreover from this(1) have "list_all Tlv_ok (tlv_list used')"
    using broadcast_sm_frame_ok by (auto simp: frame_ok_def)
  moreover have "BroadcastSm_decode_parameters used' b' = Inr p'"
    using calculation(3) by (auto simp: BroadcastSm_decode_def bind_eq_Inr split: if_splits)
  ultimately show "BroadcastSm_encode p' = Inl OutOfBounds"
    using used_broadcast_sm.decode_again_overruns [where used = used' and ts = "tlv_list used'" and b = b' and p = p']
    by (simp add: BroadcastSm_encode_def BroadcastSm_decode_parameters_def)
next
  show "BroadcastSm_reachable BroadcastSm_default" by (rule BroadcastSm_reachable.default)
  show "length (tlv_list BroadcastSm_default) = 4" by (simp add: BroadcastSm_default_def insert_tlv_def)
qed

text \<open>
  the constructor of query_broadcast_sm_resp that takes all parameters inserts its first
  TLV before one that is not there yet: it always throws.
\<close>

theorem query_broadcast_sm_resp_ctor_throws:
  "new_QueryBroadcastSmResp status sn message_id' message_state' area success =
     Inl (Error ''Missing mandatory TLV'')"
  by (simp add: new_QueryBroadcastSmResp_def QueryBroadcastSmResp_set_broadcast_area_identifier_def
      insert_before_tlv_def update_length_def)

text \<open>
  data_sm allows addresses of up to 64 characters and encodes them, but its decoder keeps
  to the limit of 20: what was encoded is refused.
\<close>

theorem data_sm_long_address_refused:
  assumes "20 < length (addr_v (address (DataSm.source_addr p)))" and "0 \<notin> set (addr_v (address (DataSm.source_addr p)))"
    and "DataSm_fields_ok (p\<lparr> DataSm.source_addr := SmeAddress_default \<rparr>)" and "size_ok p (DataSm_body p)"
  shows "\<exists>buf. DataSm_encode p = Inr buf \<and> offset buf = capacity buf \<and>
    DataSm_from (data buf) = Inl (Error ''Invalid Address length'')"
proof -
  let ?a = "DataSm.source_addr p" and ?o = "pdu_octets p (DataSm_body p)"
  have st: "ServiceType_ok (DataSm.service_type p)"
    using assms(3) by (simp add: DataSm_fields_ok_def)
  obtain r where o: "drop 16 ?o = String_octets (DataSm.service_type p) @ SmeAddress_octets ?a @ r"
    by (simp add: pdu_octets_def DataSm_body_def)
  let ?off = "16 + length (String_octets (DataSm.service_type p))"
  have "drop ?off ?o = drop (length (String_octets (DataSm.service_type p))) (drop 16 ?o)"
    by (rule drop_plus)
  then have s: "drop ?off ?o = ton ?a # npi ?a # addr_v (address ?a) @ 0 # r"
    unfolding o by (simp add: SmeAddress_octets_def String_octets_def)
  have len: "unat (command_length p) = length ?o"
    using data_sm.length_octs [OF assms(4)] by simp
  have big: "?off + 24 \<le> length ?o"
    using assms(1) by (simp add: pdu_size_def DataSm_body_def length_octets address_length_def)
  have refuse: "assign_Char 21 ''Invalid Address length'' (addr_v (address ?a) @ 0 # r) =
      Inl (Error ''Invalid Address length'')"
    using scan_nul_refuses [OF assms(2), of 21 "0 # r"] assms(1)
    by (simp add: assign_Char_def valid_length_Char_def)
  have h: "Header_decode DataSm_blank ?o = Inr (DataSm_blank\<lparr> command_length := command_length p,
      command_id := command_id p, command_status := command_status p,
      sequence_number := sequence_number p \<rparr>)"
    unfolding pdu_octets_def by (rule Header_decode_append)
  have g: "get_String ServiceType_assign (drop 16 ?o) n err 16 = Inr (DataSm.service_type p, ?off)"
    if "?off \<le> n" for n err
    unfolding o using that st by (intro service_type.get_octs) auto
  have "DataSm_from ?o = Inl (Error ''Invalid Address length'')"
    using big len refuse unfolding DataSm_from_def DataSm_decode_def decode_frame_def h
    by (simp add: Let_def DataSm_read_def g s get_SmeAddress_def SmeAddress_decode_def
        DataSm_default_def SmeAddress_default_def Address_default_def Address_assign_def
        del: length_pdu_octets cong: bind2_cong)
  then show ?thesis
    using data_sm.encode_fills [OF assms(4)] by (simp add: DataSm_encode_def)
qed

lemma Header_decode_bare:
  "length b = 16 \<Longrightarrow> get_wire32 b = Inr 16 \<Longrightarrow>
   Header_decode h b = Inr (h\<lparr> command_length := 16, command_id := be_word32 (take 4 (drop 4 b)),
     command_status := be_word32 (take 4 (drop 8 b)),
     sequence_number := be_word32 (take 4 (drop 12 b)) \<rparr>)"
  by (simp add: Header_decode_def get_wire32_def ntoh_host32)

lemma get_String_Nil:
  "0 < k \<Longrightarrow> get_String (assign_Char k e) [] len err off = Inl OutOfBounds"
  by (cases k) (simp_all add: get_String_def assign_Char_def valid_length_Char_def)

text \<open>
  the decoders look at the octets from 16 on before they compare the offset with the
  length. An array that holds a complete header and nothing else, as its \<open>command_length\<close>
  says, is read past its end by the decoders of all PDUs that have parameters; those that are a
  header and TLVs accept it.
\<close>

theorem bare_header_over_read:
  assumes "length b = 16" and "get_wire32 b = Inr 16"
  shows "BindTransmitter_from b = Inl OutOfBounds \<and> BindReceiver_from b = Inl OutOfBounds \<and>
    BindTransceiver_from b = Inl OutOfBounds \<and> SubmitSm_from b = Inl OutOfBounds \<and>
    DeliverSmResp_from b = Inl OutOfBounds \<and>
    (\<exists>p. Unbind_from b = Inr p) \<and> (\<exists>p. EnquireLink_from b = Inr p)"
  using assms
  by (auto simp: BindTransmitter_from_def BindReceiver_from_def BindTransceiver_from_def
      SubmitSm_from_def DeliverSmResp_from_def Unbind_from_def EnquireLink_from_def
      BindTransmitter_decode_def BindReceiver_decode_def BindTransceiver_decode_def
      SubmitSm_decode_def DeliverSmResp_decode_def Unbind_decode_def EnquireLink_decode_def
      BindTransmitter_read_def BindReceiver_read_def BindTransceiver_read_def
      SubmitSm_read_def DeliverSmResp_read_def Unbind_read_def EnquireLink_read_def
      decode_frame_def Header_decode_bare get_String_Nil assigns_def decode_tlvs_def
      decode_tlvs_loop.simps)

section \<open>TLVs, sequence numbers, byte order\<close>

text \<open>
  the TLV list behaves as a multimap kept in insertion order. \<open>insert_tlv\<close> adds at the end, so
  \<open>find_tlv\<close> keeps finding the first TLV of a tag; \<open>remove_tlv\<close> removes all of a tag and nothing
  else; and both leave every parameter of the PDU as it was.
\<close>

theorem tlv_list_operations:
  assumes "frame_ok p n"
  shows "find_tlv_list s (insert_tlv t p) = find_tlv_list s p @ (if tag t = s then [t] else []) \<and>
    find_tlv s (insert_tlv t p) = (case find_tlv s p of Some x \<Rightarrow> Some x
      | None \<Rightarrow> if tag t = s then Some t else None) \<and>
    find_tlv s (remove_tlv u p) = (if s = u then None else find_tlv s p) \<and>
    tlv_list (remove_tlv u p) = filter (\<lambda>x. tag x \<noteq> u) (tlv_list p) \<and>
    Header.more (insert_tlv t p) = Header.more p \<and> Header.more (remove_tlv u p) = Header.more p \<and>
    frame_ok (remove_tlv u p) n"
  using find_remove_tlv [OF assms] remove_tlv_filter [OF assms] find_insert_tlv [of s t p]
  by (simp add: find_tlv_list_filter insert_tlv_def)

text \<open>
  starting from the lowest number, \<open>n\<close> increments give \<open>n\<close> modulo 2^31: every
  sequence number is used once before one is used again.
\<close>

theorem sequence_numbers_cycle:
  "(SequenceNumber_incr ^^ n) SequenceNumber_Min = of_nat (n mod 2 ^ 31) \<and>
   SequenceNumber_valid ((SequenceNumber_incr ^^ n) SequenceNumber_Min)"
proof -
  let ?k = "2 ^ 31 - 1 :: nat"
  have "SequenceNumber_incr ((SequenceNumber_incr ^^ ?k) SequenceNumber_Min) = SequenceNumber_Min"
    by (subst SequenceNumber_incr_pow) (simp_all add: SequenceNumber_incr_def SequenceNumber_Max_def)
  then have "(SequenceNumber_incr ^^ Suc ?k) SequenceNumber_Min = SequenceNumber_Min"
    by (simp only: funpow.simps o_apply)
  moreover have "Suc ?k = 2 ^ 31" by simp
  ultimately have cycle: "(SequenceNumber_incr ^^ 2 ^ 31) SequenceNumber_Min = SequenceNumber_Min"
    by metis
  have "(SequenceNumber_incr ^^ n) SequenceNumber_Min =
      (SequenceNumber_incr ^^ (n mod 2 ^ 31)) SequenceNumber_Min"
    by (rule funpow_mod_eq [OF cycle, symmetric])
  moreover have "SequenceNumber_valid ((SequenceNumber_incr ^^ k) SequenceNumber_Min)" for k
    by (induction k) (simp_all add: SequenceNumber_incr_valid,
      simp add: SequenceNumber_valid_def SequenceNumber_Min_def)
  ultimately show ?thesis
    using SequenceNumber_incr_pow [of "n mod 2 ^ 31"]
    by (metis mod_less_divisor zero_less_numeral zero_less_power)
qed

text \<open>
  on a host of either byte order, \<open>hton32\<close> followed by a copy to memory puts the most
  significant octet first, and a copy from memory followed by \<open>ntoh32\<close> reads it back; the same
  for 16 bits.
\<close>

theorem network_byte_order:
  "host_octets32 big (hton32 big n) = [ucast (drop_bit 24 n), ucast (drop_bit 16 n),
     ucast (drop_bit 8 n), ucast n] \<and>
   ntoh32 big (host_word32 big (host_octets32 big (hton32 big n))) = n \<and>
   host_octets16 big (hton16 big m) = [ucast (drop_bit 8 m), ucast m] \<and>
   ntoh16 big (host_word16 big (host_octets16 big (hton16 big m))) = m"
  by (simp add: host_hton32 host_hton16 ntoh_host32 ntoh_host16)
    (simp add: be_octets32_def be_octets16_def)

text \<open>
  a stream of submit_sm PDUs has only one reading.
\<close>

theorem submit_sm_stream_unique:
  assumes "list_all (\<lambda>p. SubmitSm_fields_ok p \<and> size_ok p (SubmitSm_body p)) ps"
    and "list_all (\<lambda>p. SubmitSm_fields_ok p \<and> size_ok p (SubmitSm_body p)) qs"
    and "concat (map (\<lambda>p. pdu_octets p (SubmitSm_body p)) ps) =
      concat (map (\<lambda>p. pdu_octets p (SubmitSm_body p)) qs)"
  shows "ps = qs"
  using assms by (rule submit_sm.stream_unique)


section \<open>Concrete inputs\<close>

definition sample_address :: SmeAddress where
  "sample_address = \<lparr> ton = 1, npi = 1, address = \<lparr> addr_v = ascii ''8613800138000'', addr_len = 21 \<rparr> \<rparr>"

definition sample_submit_sm :: SubmitSm where
  "sample_submit_sm = insert_tlv \<lparr> tag = 0x0204, tlv_length = 2, tlv_value = [0, 7] \<rparr>
     (new_SubmitSm 7 (ascii ''CMT'') sample_address sample_address 0 0 0 [] [] 1 0 0 0 (ascii ''hello''))"

lemma sample_reachable: "SubmitSm_reachable sample_submit_sm"
  unfolding sample_submit_sm_def
  by (rule SubmitSm_reachable.inherited [OF SubmitSm_reachable.ctor])
    (rule header_op.insert_tlv, simp add: Tlv_ok_def)

lemma default_fits:
  "fits sample_submit_sm (SubmitSm_body sample_submit_sm)"
  "fits SubmitSmResp_default (SubmitSmResp_body SubmitSmResp_default)"
  "fits DeliverSm_default (DeliverSm_body DeliverSm_default)"
  "fits DeliverSmResp_default (DeliverSmResp_body DeliverSmResp_default)"
  "fits DataSm_default (DataSm_body DataSm_default)"
  "fits DataSmResp_default (DataSmResp_body DataSmResp_default)"
  "fits BindTransmitter_default (BindTransmitter_body BindTransmitter_default)"
  "fits BindReceiver_default (BindReceiver_body BindReceiver_default)"
  "fits BindTransceiver_default (BindTransceiver_body BindTransceiver_default)"
  "fits Outbind_default (Outbind_body Outbind_default)"
  "fits BindTransmitterResp_default (BindTransmitterResp_body BindTransmitterResp_default)"
  "fits BindReceiverResp_default (BindReceiverResp_body BindReceiverResp_default)"
  "fits BindTransceiverResp_default (BindTransceiverResp_body BindTransceiverResp_default)"
  "fits Unbind_default (Unbind_body Unbind_default)"
  "fits UnbindResp_default (UnbindResp_body UnbindResp_default)"
  "fits EnquireLink_default (EnquireLink_body EnquireLink_default)"
  "fits EnquireLinkResp_default (EnquireLinkResp_body EnquireLinkResp_default)"
  "fits GenericNack_default (GenericNack_body GenericNack_default)"
  "fits ReplaceSmResp_default (ReplaceSmResp_body ReplaceSmResp_default)"
  "fits CancelSmResp_default (CancelSmResp_body CancelSmResp_default)"
  "fits CancelBroadcastSmResp_default (CancelBroadcastSmResp_body CancelBroadcastSmResp_default)"
  "fits AlertNotification_default (AlertNotification_body AlertNotification_default)"
  "fits QuerySm_default (QuerySm_body QuerySm_default)"
  "fits QuerySmResp_default (QuerySmResp_body QuerySmResp_default)"
  "fits ReplaceSm_default (ReplaceSm_body ReplaceSm_default)"
  "fits CancelSm_default (CancelSm_body CancelSm_default)"
  "fits SubmitMulti_default (SubmitMulti_body SubmitMulti_default)"
  "fits SubmitMultiResp_default (SubmitMultiResp_body SubmitMultiResp_default)"
  "fits QueryBroadcastSm_default (QueryBroadcastSm_body QueryBroadcastSm_default)"
  "fits CancelBroadcastSm_default (CancelBroadcastSm_body CancelBroadcastSm_default)"
  "fits BroadcastSmResp_default (BroadcastSmResp_body BroadcastSmResp_default)"
  "fits BroadcastSm_default (BroadcastSm_body BroadcastSm_default)"
  "fits QueryBroadcastSmResp_default (QueryBroadcastSmResp_body QueryBroadcastSmResp_default)"
  by (simp_all add: fits_def pdu_size_def octets_simps address_length_def sample_submit_sm_def
      sample_address_def ascii_def new_SubmitSm_def insert_tlv_def update_length_def Tlv_octets_def
      SmeAddress_default_def Address_default_def MultiDestinationAddresses_default_def
      MultiDestinationAddresses_octets_def UnsuccessSmeColl_default_def UnsuccessSmeColl_octets_def
      BroadcastContentType_def BroadcastFrequencyInterval_def BroadcastAreaSuccess_def
      SubmitSm_body_def SubmitSmResp_body_def SubmitSmResp_default_def
      DeliverSm_body_def DeliverSm_default_def DeliverSmResp_body_def DeliverSmResp_default_def
      DataSm_body_def DataSm_default_def DataSmResp_body_def DataSmResp_default_def
      BindTransmitter_body_def BindTransmitter_default_def
      BindReceiver_body_def BindReceiver_default_def
      BindTransceiver_body_def BindTransceiver_default_def Outbind_body_def Outbind_default_def
      BindTransmitterResp_body_def BindTransmitterResp_default_def
      BindReceiverResp_body_def BindReceiverResp_default_def
      BindTransceiverResp_body_def BindTransceiverResp_default_def
      Unbind_body_def Unbind_default_def UnbindResp_body_def UnbindResp_default_def
      EnquireLink_body_def EnquireLink_default_def
      EnquireLinkResp_body_def EnquireLinkResp_default_def
      GenericNack_body_def GenericNack_default_def
      ReplaceSmResp_body_def ReplaceSmResp_default_def
      CancelSmResp_body_def CancelSmResp_default_def
      CancelBroadcastSmResp_body_def CancelBroadcastSmResp_default_def
      AlertNotification_body_def AlertNotification_default_def
      QuerySm_body_def QuerySm_default_def QuerySmResp_body_def QuerySmResp_default_def
      ReplaceSm_body_def ReplaceSm_default_def CancelSm_body_def CancelSm_default_def
      SubmitMulti_body_def SubmitMulti_default_def
      SubmitMultiResp_body_def SubmitMultiResp_default_def
      QueryBroadcastSm_body_def QueryBroadcastSm_default_def
      CancelBroadcastSm_body_def CancelBroadcastSm_default_def
      BroadcastSmResp_body_def BroadcastSmResp_default_def
      BroadcastSm_body_def BroadcastSm_default_def
      QueryBroadcastSmResp_body_def QueryBroadcastSmResp_default_def)


theorem message_pdus_fill_their_buffer_witness:
  "fills (SubmitSm_encode sample_submit_sm) sample_submit_sm (SubmitSm_body sample_submit_sm) \<and>
   fills (DeliverSm_encode DeliverSm_default) DeliverSm_default (DeliverSm_body DeliverSm_default) \<and>
   fills (DataSm_encode DataSm_default) DataSm_default (DataSm_body DataSm_default) \<and>
   fills (SubmitMulti_encode SubmitMulti_default) SubmitMulti_default (SubmitMulti_body SubmitMulti_default) \<and>
   fills (ReplaceSm_encode ReplaceSm_default) ReplaceSm_default (ReplaceSm_body ReplaceSm_default) \<and>
   fills (BroadcastSm_encode BroadcastSm_default) BroadcastSm_default (BroadcastSm_body BroadcastSm_default)"
  using message_pdus_fill_their_buffer
    SubmitSm_reachable.default DeliverSm_reachable.default DataSm_reachable.default
    SubmitMulti_reachable.default ReplaceSm_reachable.default BroadcastSm_reachable.default
    sample_reachable default_fits
  by (simp only: simp_thms)

theorem other_pdus_fill_their_buffer_witness:
  "fills (SubmitSmResp_encode SubmitSmResp_default) SubmitSmResp_default (SubmitSmResp_body SubmitSmResp_default) \<and>
   fills (DeliverSmResp_encode DeliverSmResp_default) DeliverSmResp_default (DeliverSmResp_body DeliverSmResp_default) \<and>
   fills (DataSmResp_encode DataSmResp_default) DataSmResp_default (DataSmResp_body DataSmResp_default) \<and>
   fills (BindTransmitter_encode BindTransmitter_default) BindTransmitter_default (BindTransmitter_body BindTransmitter_default) \<and>
   fills (BindReceiver_encode BindReceiver_default) BindReceiver_default (BindReceiver_body BindReceiver_default) \<and>
   fills (BindTransceiver_encode BindTransceiver_default) BindTransceiver_default (BindTransceiver_body BindTransceiver_default) \<and>
   fills (Outbind_encode Outbind_default) Outbind_default (Outbind_body Outbind_default) \<and>
   fills (BindTransmitterResp_encode BindTransmitterResp_default) BindTransmitterResp_default (BindTransmitterResp_body BindTransmitterResp_default) \<and>
   fills (BindReceiverResp_encode BindReceiverResp_default) BindReceiverResp_default (BindReceiverResp_body BindReceiverResp_default) \<and>
   fills (BindTransceiverResp_encode BindTransceiverResp_default) BindTransceiverResp_default (BindTransceiverResp_body BindTransceiverResp_default) \<and>
   fills (Unbind_encode Unbind_default) Unbind_default (Unbind_body Unbind_default) \<and>
   fills (UnbindResp_encode UnbindResp_default) UnbindResp_default (UnbindResp_body UnbindResp_default) \<and>
   fills (EnquireLink_encode EnquireLink_default) EnquireLink_default (EnquireLink_body EnquireLink_default) \<and>
   fills (EnquireLinkResp_encode EnquireLinkResp_default) EnquireLinkResp_default (EnquireLinkResp_body EnquireLinkResp_default) \<and>
   fills (GenericNack_encode GenericNack_default) GenericNack_default (GenericNack_body GenericNack_default) \<and>
   fills (ReplaceSmResp_encode ReplaceSmResp_default) ReplaceSmResp_default (ReplaceSmResp_body ReplaceSmResp_default) \<and>
   fills (CancelSmResp_encode CancelSmResp_default) CancelSmResp_default (CancelSmResp_body CancelSmResp_default) \<and>
   fills (CancelBroadcastSmResp_encode CancelBroadcastSmResp_default) CancelBroadcastSmResp_default (CancelBroadcastSmResp_body CancelBroadcastSmResp_default) \<and>
   fills (AlertNotification_encode AlertNotification_default) AlertNotification_default (AlertNotification_body AlertNotification_default) \<and>
   fills (QuerySm_encode QuerySm_default) QuerySm_default (QuerySm_body QuerySm_default) \<and>
   fills (QuerySmResp_encode QuerySmResp_default) QuerySmResp_default (QuerySmResp_body QuerySmResp_default) \<and>
   fills (CancelSm_encode CancelSm_default) CancelSm_default (CancelSm_body CancelSm_default) \<and>
   fills (SubmitMultiResp_encode SubmitMultiResp_default) SubmitMultiResp_default (SubmitMultiResp_body SubmitMultiResp_default) \<and>
   fills (QueryBroadcastSm_encode QueryBroadcastSm_default) QueryBroadcastSm_default (QueryBroadcastSm_body QueryBroadcastSm_default) \<and>
   fills (CancelBroadcastSm_encode CancelBroadcastSm_default) CancelBroadcastSm_default (CancelBroadcastSm_body CancelBroadcastSm_default) \<and>
   fills (BroadcastSmResp_encode BroadcastSmResp_default) BroadcastSmResp_default (BroadcastSmResp_body BroadcastSmResp_default) \<and>
   fills (QueryBroadcastSmResp_encode QueryBroadcastSmResp_default) QueryBroadcastSmResp_default (QueryBroadcastSmResp_body QueryBroadcastSmResp_default)"
  using other_pdus_fill_their_buffer
    SubmitSmResp_reachable.default DeliverSmResp_reachable.default DataSmResp_reachable.default
    BindTransmitter_reachable.default BindReceiver_reachable.default
    BindTransceiver_reachable.default Outbind_reachable.default
    BindTransmitterResp_reachable.default BindReceiverResp_reachable.default
    BindTransceiverResp_reachable.default Unbind_reachable.default UnbindResp_reachable.default
    EnquireLink_reachable.default EnquireLinkResp_reachable.default GenericNack_reachable.default
    ReplaceSmResp_reachable.default CancelSmResp_reachable.default
    CancelBroadcastSmResp_reachable.default AlertNotification_reachable.default
    QuerySm_reachable.default QuerySmResp_reachable.default CancelSm_reachable.default
    SubmitMultiResp_reachable.default QueryBroadcastSm_reachable.default
    CancelBroadcastSm_reachable.default BroadcastSmResp_reachable.default
    QueryBroadcastSmResp_reachable.default default_fits
  by (simp only: simp_thms)

lemmas sample_simps = sample_submit_sm_def sample_address_def ascii_def new_SubmitSm_def insert_tlv_def
  update_length_def SmeAddress_ok_def cstr_ok_def ShortMessage_ok_def

lemma sample_ok: "SubmitSm_fields_ok sample_submit_sm"
  by (simp add: SubmitSm_fields_ok_def sample_simps)

lemma sample_size_ok: "size_ok sample_submit_sm (SubmitSm_body sample_submit_sm)"
  using submit_sm_frame_ok [OF sample_reachable] default_fits(1) by (simp add: size_ok_def fits_def)

definition sample_submit_multi :: SubmitMulti where
  "sample_submit_multi = SubmitMulti_add_destination_String (ascii ''staff'')
     (SubmitMulti_add_destination_SmeAddress sample_address SubmitMulti_default)"

lemma sample_submit_multi_reachable: "SubmitMulti_reachable sample_submit_multi"
  unfolding sample_submit_multi_def by (rule SubmitMulti_reachable.add_destination_String
      [OF SubmitMulti_reachable.add_destination_SmeAddress [OF SubmitMulti_reachable.default]])

theorem submit_multi_round_trip_witness:
  "\<exists>buf. SubmitMulti_encode sample_submit_multi = Inr buf \<and> offset buf = capacity buf \<and>
    SubmitMulti_from (data buf @ [1]) = Inr (counted sample_submit_multi)"
proof (rule submit_multi_round_trip [OF sample_submit_multi_reachable])
  show "fits sample_submit_multi (SubmitMulti_body sample_submit_multi)"
    by (simp add: fits_def pdu_size_def sample_submit_multi_def SubmitMulti_body_def sample_address_def
        SubmitMulti_add_destination_String_def SubmitMulti_add_destination_SmeAddress_def
        add_String_def add_SmeAddress_def SubmitMulti_default_def MultiDestinationAddresses_default_def
        MultiDestinationAddresses_octets_def octets_simps address_length_def update_length_def
        SmeAddress_default_def Address_default_def ascii_def)
  show "SubmitMulti_fields_ok (counted sample_submit_multi)"
    by (simp add: SubmitMulti_fields_ok_def counted_def sample_submit_multi_def sample_address_def
        SubmitMulti_add_destination_String_def SubmitMulti_add_destination_SmeAddress_def
        add_String_def add_SmeAddress_def SubmitMulti_default_def MultiDestinationAddresses_default_def
        MultiDestinationAddresses_ok_def MultiDestinationAddresses_octets_def
        MultiDestinationAddresses_size_def octets_simps address_length_def update_length_def SmeAddress_ok_def
        cstr_ok_def ShortMessage_ok_def SmeAddress_default_def Address_default_def ascii_def)
qed

definition sample_data_sm :: DataSm where
  "sample_data_sm = new_DataSm 9 [] \<lparr> ton = 5, npi = 0,
     address = \<lparr> addr_v = replicate 30 65, addr_len = 65 \<rparr> \<rparr> sample_address 0 0 0"

theorem data_sm_long_address_refused_witness:
  "\<exists>buf. DataSm_encode sample_data_sm = Inr buf \<and> offset buf = capacity buf \<and>
    DataSm_from (data buf) = Inl (Error ''Invalid Address length'')"
proof (rule data_sm_long_address_refused)
  have "DataSm_reachable sample_data_sm"
    unfolding sample_data_sm_def by (rule DataSm_reachable.ctor)
  then have "frame_ok sample_data_sm (length (DataSm_body sample_data_sm))"
    by (rule data_sm_frame_ok)
  then show "size_ok sample_data_sm (DataSm_body sample_data_sm)"
    unfolding size_ok_def
    by (simp add: pdu_size_def sample_data_sm_def new_DataSm_def DataSm_body_def octets_simps
        address_length_def sample_address_def ascii_def update_length_def)
qed (simp_all add: sample_data_sm_def new_DataSm_def DataSm_fields_ok_def SmeAddress_ok_def cstr_ok_def
    sample_address_def ascii_def update_length_def SmeAddress_default_def Address_default_def)

theorem bare_header_over_read_witness:
  "BindTransmitter_from (wire32 16 @ wire32 2 @ wire32 0 @ wire32 1) = Inl OutOfBounds"
  using bare_header_over_read [of "wire32 16 @ wire32 2 @ wire32 0 @ wire32 1"] by simp

theorem tlv_list_operations_witness:
  "find_tlv 0x0204 (remove_tlv 0x0204 sample_submit_sm) = None \<and>
   find_tlv 0x0204 sample_submit_sm \<noteq> None"
  using tlv_list_operations [OF submit_sm_frame_ok [OF sample_reachable], of "0x0204" _ "0x0204"]
  by (simp add: find_tlv_def sample_simps)

theorem submit_sm_stream_unique_witness: "[sample_submit_sm, sample_submit_sm] = [sample_submit_sm, sample_submit_sm]"
  by (rule submit_sm_stream_unique) (simp_all add: sample_ok sample_size_ok)

lemma decode_into_used_submit_sm:
  "SubmitSm_decode sample_submit_sm (pdu_octets sample_submit_sm (SubmitSm_body sample_submit_sm)) =
   Inr (sample_submit_sm\<lparr> tlv_list := tlv_list sample_submit_sm @ tlv_list sample_submit_sm \<rparr>)"
proof -
  have "SubmitSm_within sample_submit_sm sample_submit_sm"
    using sample_ok by (simp add: SubmitSm_within_def SubmitSm_fields_ok_def SmeAddress_ok_def)
  with used_submit_sm.decode_frame_octs_into [where used = sample_submit_sm and p = sample_submit_sm and rest = "[]"
      and ts = "tlv_list sample_submit_sm"] sample_size_ok
  show ?thesis by (simp add: SubmitSm_decode_def)
qed

theorem decode_into_used_object_overruns_witness:
  "SubmitSm_encode (sample_submit_sm\<lparr> tlv_list := tlv_list sample_submit_sm @ tlv_list sample_submit_sm \<rparr>) =
     Inl OutOfBounds \<and>
   SubmitSm_decode sample_submit_sm (pdu_octets sample_submit_sm (SubmitSm_body sample_submit_sm)) =
     Inr (sample_submit_sm\<lparr> tlv_list := tlv_list sample_submit_sm @ tlv_list sample_submit_sm \<rparr>)"
proof -
  have "tlv_list sample_submit_sm \<noteq> []"
    by (simp add: sample_submit_sm_def new_SubmitSm_def insert_tlv_def update_length_def)
  then show ?thesis
    using decode_into_used_object_overruns sample_reachable decode_into_used_submit_sm by blast
qed

end
