(* ===== verification/Md5.thy ===== *)
theory Md5
  imports Prelude
begin

text \<open>
  The digest that is stored with a message (\<open>src/public/algorithm_toolkit/md5.cpp\<close>), and that it is
  MD5 as RFC 1321 defines it.

  The context's buffer is a list of 64 octets. \<open>i + 63\<close> in the loop of \<open>osip_MD5Update\<close> is an
  \<open>unsigned int\<close>: for lengths of more than \<open>2 ^ 32 - 64\<close> it can wrap around, and the loop reads
  beyond the input, which is \<open>OutOfBounds\<close>. RFC 1321 is a definition of its own, by the formulas of
  the standard, and does not use the program's rounds, words or encoding.
\<close>

section \<open>Rounds\<close>

type_synonym md5_state = "uint32 \<times> uint32 \<times> uint32 \<times> uint32"

definition md5_F :: "uint32 \<Rightarrow> uint32 \<Rightarrow> uint32 \<Rightarrow> uint32" where
  "md5_F x y z = (x AND y) OR (NOT x AND z)"

definition md5_G :: "uint32 \<Rightarrow> uint32 \<Rightarrow> uint32 \<Rightarrow> uint32" where
  "md5_G x y z = (x AND z) OR (y AND NOT z)"

definition md5_H :: "uint32 \<Rightarrow> uint32 \<Rightarrow> uint32 \<Rightarrow> uint32" where
  "md5_H x y z = x XOR y XOR z"

definition md5_I :: "uint32 \<Rightarrow> uint32 \<Rightarrow> uint32 \<Rightarrow> uint32" where
  "md5_I x y z = y XOR (x OR NOT z)"

definition ROTATE_LEFT :: "uint32 \<Rightarrow> nat \<Rightarrow> uint32" where
  "ROTATE_LEFT x n = push_bit n x OR drop_bit (32 - n) x"

text \<open>
  One of \<open>FF\<close>, \<open>GG\<close>, \<open>HH\<close> and \<open>II\<close>. The four variables change their places from one call to the
  next, so that the next call finds the variable it assigns in the first place.
\<close>

definition md5_op :: "(uint32 \<Rightarrow> uint32 \<Rightarrow> uint32 \<Rightarrow> uint32) \<Rightarrow> uint32 list \<Rightarrow>
    nat \<times> nat \<times> uint32 \<Rightarrow> md5_state \<Rightarrow> md5_state" where
  "md5_op f x step s =
     (let (k, n, ac) = step; (a, b, c, d) = s;
          a = a + (f b c d + x ! k + ac);
          a = ROTATE_LEFT a n;
          a = a + b
      in (d, a, b, c))"

text \<open>The arguments of the sixteen calls of each round: index of the word, shift, constant.\<close>

definition md5_round_1 :: "(nat \<times> nat \<times> uint32) list" where
  "md5_round_1 =
    [(0, 7, 0xd76aa478), (1, 12, 0xe8c7b756), (2, 17, 0x242070db), (3, 22, 0xc1bdceee),
     (4, 7, 0xf57c0faf), (5, 12, 0x4787c62a), (6, 17, 0xa8304613), (7, 22, 0xfd469501),
     (8, 7, 0x698098d8), (9, 12, 0x8b44f7af), (10, 17, 0xffff5bb1), (11, 22, 0x895cd7be),
     (12, 7, 0x6b901122), (13, 12, 0xfd987193), (14, 17, 0xa679438e), (15, 22, 0x49b40821)]"

definition md5_round_2 :: "(nat \<times> nat \<times> uint32) list" where
  "md5_round_2 =
    [(1, 5, 0xf61e2562), (6, 9, 0xc040b340), (11, 14, 0x265e5a51), (0, 20, 0xe9b6c7aa),
     (5, 5, 0xd62f105d), (10, 9, 0x2441453), (15, 14, 0xd8a1e681), (4, 20, 0xe7d3fbc8),
     (9, 5, 0x21e1cde6), (14, 9, 0xc33707d6), (3, 14, 0xf4d50d87), (8, 20, 0x455a14ed),
     (13, 5, 0xa9e3e905), (2, 9, 0xfcefa3f8), (7, 14, 0x676f02d9), (12, 20, 0x8d2a4c8a)]"

definition md5_round_3 :: "(nat \<times> nat \<times> uint32) list" where
  "md5_round_3 =
    [(5, 4, 0xfffa3942), (8, 11, 0x8771f681), (11, 16, 0x6d9d6122), (14, 23, 0xfde5380c),
     (1, 4, 0xa4beea44), (4, 11, 0x4bdecfa9), (7, 16, 0xf6bb4b60), (10, 23, 0xbebfbc70),
     (13, 4, 0x289b7ec6), (0, 11, 0xeaa127fa), (3, 16, 0xd4ef3085), (6, 23, 0x4881d05),
     (9, 4, 0xd9d4d039), (12, 11, 0xe6db99e5), (15, 16, 0x1fa27cf8), (2, 23, 0xc4ac5665)]"

definition md5_round_4 :: "(nat \<times> nat \<times> uint32) list" where
  "md5_round_4 =
    [(0, 6, 0xf4292244), (7, 10, 0x432aff97), (14, 15, 0xab9423a7), (5, 21, 0xfc93a039),
     (12, 6, 0x655b59c3), (3, 10, 0x8f0ccc92), (10, 15, 0xffeff47d), (1, 21, 0x85845dd1),
     (8, 6, 0x6fa87e4f), (15, 10, 0xfe2ce6e0), (6, 15, 0xa3014314), (13, 21, 0x4e0811a1),
     (4, 6, 0xf7537e82), (11, 10, 0xbd3af235), (2, 15, 0x2ad7d2bb), (9, 21, 0xeb86d391)]"

section \<open>Octets and words\<close>

fun osip_Decode :: "octets \<Rightarrow> uint32 list" where
  "osip_Decode (c0 # c1 # c2 # c3 # cs) =
     (ucast c0 OR push_bit 8 (ucast c1) OR push_bit 16 (ucast c2) OR push_bit 24 (ucast c3)) # osip_Decode cs"
| "osip_Decode _ = []"

fun osip_Encode :: "uint32 list \<Rightarrow> octets" where
  "osip_Encode [] = []"
| "osip_Encode (w # ws) = ucast (w AND 0xff) # ucast (drop_bit 8 w AND 0xff) #
     ucast (drop_bit 16 w AND 0xff) # ucast (drop_bit 24 w AND 0xff) # osip_Encode ws"

definition osip_MD5Transform :: "md5_state \<Rightarrow> octets \<Rightarrow> md5_state" where
  "osip_MD5Transform s block =
     (let x = osip_Decode block;
          r = fold (md5_op md5_F x) md5_round_1 s;
          r = fold (md5_op md5_G x) md5_round_2 r;
          r = fold (md5_op md5_H x) md5_round_3 r;
          (a, b, c, d) = fold (md5_op md5_I x) md5_round_4 r;
          (a0, b0, c0, d0) = s
      in (a0 + a, b0 + b, c0 + c, d0 + d))"

section \<open>Contexts\<close>

record MD5_CTX =
  md5_state :: md5_state
  count_0 :: uint32
  count_1 :: uint32
  md5_buffer :: octets

text \<open>The buffer is not initialized; \<open>junk\<close> is what it holds.\<close>

definition osip_MD5Init :: "octets \<Rightarrow> MD5_CTX" where
  "osip_MD5Init junk = \<lparr> md5_state = (0x67452301, 0xefcdab89, 0x98badcfe, 0x10325476),
     count_0 = 0, count_1 = 0, md5_buffer = junk \<rparr>"

definition osip_MD5_memcpy :: "octets \<Rightarrow> nat \<Rightarrow> octets \<Rightarrow> octets" where
  "osip_MD5_memcpy output i input = take i output @ input @ drop (i + length input) output"

text \<open>
  The loop over whole blocks, from \<open>i\<close>: the state, and where the octets that are left begin. \<open>input\<close> is
  the \<open>inputLen\<close> octets that the caller passes, fewer than \<open>2 ^ 32\<close>.
\<close>

function md5_blocks :: "md5_state \<Rightarrow> octets \<Rightarrow> nat \<Rightarrow> (md5_state \<times> nat) result" where
  "md5_blocks s input i =
     (if of_nat (i + 63) < (of_nat (length input) :: uint32)
      then if i + 64 \<le> length input
        then md5_blocks (osip_MD5Transform s (take 64 (drop i input))) input (i + 64) else Inl OutOfBounds
      else Inr (s, i))"
  by pat_completeness auto
termination by (relation "measure (\<lambda>(s, input, i). length input - i)") auto

declare md5_blocks.simps [simp del]

definition osip_MD5Update :: "MD5_CTX \<Rightarrow> octets \<Rightarrow> MD5_CTX result" where
  "osip_MD5Update ctx input =
     (let index = unat (drop_bit 3 (count_0 ctx) AND 0x3F);
          inputLen = of_nat (length input) :: uint32;
          ctx = ctx\<lparr> count_0 := count_0 ctx + push_bit 3 inputLen \<rparr>;
          ctx = (if count_0 ctx < push_bit 3 inputLen then ctx\<lparr> count_1 := count_1 ctx + 1 \<rparr> else ctx);
          ctx = ctx\<lparr> count_1 := count_1 ctx + drop_bit 29 inputLen \<rparr>;
          partLen = 64 - index
      in if length input \<ge> partLen then
           (let ctx = ctx\<lparr> md5_buffer := osip_MD5_memcpy (md5_buffer ctx) index (take partLen input) \<rparr>;
                s = osip_MD5Transform (md5_state ctx) (md5_buffer ctx)
            in bind (md5_blocks s input partLen) (\<lambda>(s, i).
               Inr (ctx\<lparr> md5_state := s, md5_buffer := osip_MD5_memcpy (md5_buffer ctx) 0 (drop i input) \<rparr>)))
         else Inr (ctx\<lparr> md5_buffer := osip_MD5_memcpy (md5_buffer ctx) index input \<rparr>))"

definition PADDING :: octets where
  "PADDING = 0x80 # replicate 63 0"

definition osip_MD5Final :: "MD5_CTX \<Rightarrow> octets result" where
  "osip_MD5Final ctx =
     (let bits = osip_Encode [count_0 ctx, count_1 ctx];
          index = unat (drop_bit 3 (count_0 ctx) AND 0x3f);
          padLen = (if index < 56 then 56 - index else 120 - index)
      in bind (osip_MD5Update ctx (take padLen PADDING)) (\<lambda>ctx.
         bind (osip_MD5Update ctx bits) (\<lambda>ctx.
         let (a, b, c, d) = md5_state ctx in Inr (osip_Encode [a, b, c, d]))))"

definition hex_digit :: "octet \<Rightarrow> octet" where
  "hex_digit j = (if j \<le> 9 then j + 48 else j + 97 - 10)"

definition CvtHex :: "octets \<Rightarrow> octets" where
  "CvtHex Bin = concat (map (\<lambda>c. [hex_digit (drop_bit 4 c AND 0xf), hex_digit (c AND 0xf)]) Bin)"

definition generate_hash_md5_bin :: "octets \<Rightarrow> octets \<Rightarrow> octets result" where
  "generate_hash_md5_bin junk input = bind (osip_MD5Update (osip_MD5Init junk) input) osip_MD5Final"

text \<open>
  What the buffer held does not matter, which is shown below; here it is zero. The texts of messages
  are short; for one that is read beyond its end, for which the program has no result, the list is
  empty.
\<close>

definition generate_hash_md5 :: "octets \<Rightarrow> octets" where
  "generate_hash_md5 input =
     (case generate_hash_md5_bin (replicate 64 0) input of Inr md5 \<Rightarrow> CvtHex md5 | Inl _ \<Rightarrow> [])"

text \<open>The octets given in pieces.\<close>

primrec osip_MD5Updates :: "MD5_CTX \<Rightarrow> octets list \<Rightarrow> MD5_CTX result" where
  "osip_MD5Updates ctx [] = Inr ctx"
| "osip_MD5Updates ctx (xs # xss) = bind (osip_MD5Update ctx xs) (\<lambda>ctx. osip_MD5Updates ctx xss)"

section \<open>RFC 1321\<close>

text \<open>
  The message with a one bit, zeros and its length in bits, in blocks of 16 words, each of which
  changes the state in 64 steps; the state, least significant octets first, is the digest. \<open>rfc_T\<close>
  is the table of the standard, the integer parts of \<open>2 ^ 32\<close> times the absolute value of the sine of
  the numbers from 1 to 64.
\<close>

definition md5_pad :: "octets \<Rightarrow> octets" where
  "md5_pad m = m @ 0x80 # replicate ((119 - length m mod 64) mod 64) 0 @
     map (\<lambda>i. of_nat (8 * length m div 256 ^ i)) [0..<8]"

definition blocks :: "octets \<Rightarrow> octets list" where
  "blocks m = map (\<lambda>i. take 64 (drop (64 * i) m)) [0..<length m div 64]"

definition rfc_T :: "uint32 list" where
  "rfc_T = map of_nat
    [3614090360, 3905402710, 606105819, 3250441966, 4118548399, 1200080426, 2821735955, 4249261313,
     1770035416, 2336552879, 4294925233, 2304563134, 1804603682, 4254626195, 2792965006, 1236535329,
     4129170786, 3225465664, 643717713, 3921069994, 3593408605, 38016083, 3634488961, 3889429448,
     568446438, 3275163606, 4107603335, 1163531501, 2850285829, 4243563512, 1735328473, 2368359562,
     4294588738, 2272392833, 1839030562, 4259657740, 2763975236, 1272893353, 4139469664, 3200236656,
     681279174, 3936430074, 3572445317, 76029189, 3654602809, 3873151461, 530742520, 3299628645,
     4096336452, 1126891415, 2878612391, 4237533241, 1700485571, 2399980690, 4293915773, 2240044497,
     1873313359, 4264355552, 2734768916, 1309151649, 4149444226, 3174756917, 718787259, 3951481745]"

definition rfc_function :: "nat \<Rightarrow> uint32 \<Rightarrow> uint32 \<Rightarrow> uint32 \<Rightarrow> uint32" where
  "rfc_function i x y z =
     (if i < 16 then (x AND y) OR (NOT x AND z) else if i < 32 then (x AND z) OR (y AND NOT z)
      else if i < 48 then x XOR y XOR z else y XOR (x OR NOT z))"

definition rfc_index :: "nat \<Rightarrow> nat" where
  "rfc_index i = (if i < 16 then i else if i < 32 then (5 * i + 1) mod 16
     else if i < 48 then (3 * i + 5) mod 16 else 7 * i mod 16)"

definition rfc_shift :: "nat \<Rightarrow> nat" where
  "rfc_shift i = [[7, 12, 17, 22], [5, 9, 14, 20], [4, 11, 16, 23], [6, 10, 15, 21]] ! (i div 16) ! (i mod 4)"

definition rfc_word :: "octets \<Rightarrow> nat \<Rightarrow> uint32" where
  "rfc_word block k = of_nat (\<Sum>j<4. unat (block ! (4 * k + j)) * 256 ^ j)"

definition rfc_step :: "octets \<Rightarrow> md5_state \<Rightarrow> nat \<Rightarrow> md5_state" where
  "rfc_step block = (\<lambda>(a, b, c, d) i.
     (d, b + word_rotl (rfc_shift i) (a + rfc_function i b c d + rfc_word block (rfc_index i) + rfc_T ! i), b, c))"

definition rfc_block :: "md5_state \<Rightarrow> octets \<Rightarrow> md5_state" where
  "rfc_block s block = (let (a, b, c, d) = s; (a', b', c', d') = foldl (rfc_step block) s [0..<64]
     in (a + a', b + b', c + c', d + d'))"

definition rfc_octets :: "uint32 \<Rightarrow> octets" where
  "rfc_octets w = map (\<lambda>j. of_nat (unat w div 256 ^ j)) [0..<4]"

definition md5_digest :: "octets \<Rightarrow> octets" where
  "md5_digest m = (let (a, b, c, d) = foldl rfc_block
       (0x67452301, 0xefcdab89, 0x98badcfe, 0x10325476) (blocks (md5_pad m))
     in concat (map rfc_octets [a, b, c, d]))"

section \<open>The rounds are those of the standard\<close>

lemma rotate_left: "0 < n \<Longrightarrow> n < 32 \<Longrightarrow> ROTATE_LEFT x n = word_rotl n x"
proof (rule bit_word_eqI)
  fix m assume n: "0 < n" "n < 32" and "m < LENGTH(32)"
  then have m: "m < 32" by simp
  have r: "bit (word_rotl n x) m = bit x ((m + (32 - n)) mod 32)"
    unfolding bit_word_rotl_iff using n m by simp
  have l: "bit (ROTATE_LEFT x n) m \<longleftrightarrow> n \<le> m \<and> bit x (m - n) \<or> bit x (m + (32 - n))"
    using m by (simp add: ROTATE_LEFT_def bit_or_iff bit_push_bit_iff bit_drop_bit_eq add.commute)
  show "bit (ROTATE_LEFT x n) m = bit (word_rotl n x) m"
  proof (cases "n \<le> m")
    case True
    then have "m + (32 - n) = m - n + 32" using n by simp
    then have "(m + (32 - n)) mod 32 = (m - n) mod 32" by (simp only: mod_add_self2)
    then have "(m + (32 - n)) mod 32 = m - n" using m by simp
    moreover have "\<not> bit x (m + (32 - n))" using True n by (intro notI) (auto dest: bit_imp_le_length)
    ultimately show ?thesis using True by (simp only: l r) simp
  next
    case False
    then have "(m + (32 - n)) mod 32 = m + (32 - n)" using n m by simp
    with False show ?thesis by (simp only: l r) simp
  qed
qed

lemma decoded_word:
  "4 * k + 3 < length bs \<Longrightarrow> osip_Decode bs ! k = ucast (bs ! (4 * k)) OR push_bit 8 (ucast (bs ! (4 * k + 1))) OR
     push_bit 16 (ucast (bs ! (4 * k + 2))) OR push_bit 24 (ucast (bs ! (4 * k + 3)))"
proof (induction bs arbitrary: k rule: osip_Decode.induct)
  case (1 c0 c1 c2 c3 cs)
  then show ?case by (cases k) (simp_all add: add.commute)
qed auto

lemma octets_of_word:
  fixes c0 c1 c2 c3 :: octet
  shows "(ucast c0 OR push_bit 8 (ucast c1) OR push_bit 16 (ucast c2) OR push_bit 24 (ucast c3) :: uint32) =
    of_nat (unat c0 + unat c1 * 256 + unat c2 * 256 ^ 2 + unat c3 * 256 ^ 3)"
proof -
  have "(ucast c0 :: uint32) AND push_bit 8 (ucast c1) = 0"
    "(ucast c0 + push_bit 8 (ucast c1) :: uint32) AND push_bit 16 (ucast c2) = 0"
    "(ucast c0 + push_bit 8 (ucast c1) + push_bit 16 (ucast c2) :: uint32) AND push_bit 24 (ucast c3) = 0"
  proof -
    show z: "(ucast c0 :: uint32) AND push_bit 8 (ucast c1) = 0"
      by (rule bit_word_eqI) (auto simp: bit_simps dest: bit_imp_le_length)
    show z': "(ucast c0 + push_bit 8 (ucast c1) :: uint32) AND push_bit 16 (ucast c2) = 0"
      unfolding disjunctive_add_eq_or [OF z]
      by (rule bit_word_eqI) (auto simp: bit_simps dest: bit_imp_le_length)
    show "(ucast c0 + push_bit 8 (ucast c1) + push_bit 16 (ucast c2) :: uint32) AND push_bit 24 (ucast c3) = 0"
      unfolding disjunctive_add_eq_or [OF z'] unfolding disjunctive_add_eq_or [OF z]
      by (rule bit_word_eqI) (auto simp: bit_simps dest: bit_imp_le_length)
  qed
  note d = this [THEN disjunctive_add_eq_or]
  have "of_nat (unat c0 + unat c1 * 256 + unat c2 * 256 ^ 2 + unat c3 * 256 ^ 3) =
      (ucast c0 + push_bit 8 (ucast c1) + push_bit 16 (ucast c2) + push_bit 24 (ucast c3) :: uint32)"
    by (simp add: push_bit_eq_mult)
  then show ?thesis by (simp only: or.assoc [symmetric] d [symmetric])
qed

lemma decode_word: "4 * k + 3 < length bs \<Longrightarrow> osip_Decode bs ! k = rfc_word bs k"
proof -
  assume "4 * k + 3 < length bs"
  moreover have "{..<4} = {0, 1, 2, 3 :: nat}" by auto
  ultimately show ?thesis
    unfolding rfc_word_def by (simp only: decoded_word octets_of_word) (simp add: power2_eq_square power3_eq_cube)
qed

lemma rounds_foldl:
  "list_all2 (\<lambda>step i. \<forall>s. md5_op f x step s = rfc_step block s i) steps is \<Longrightarrow>
   fold (md5_op f x) steps s = foldl (rfc_step block) s is"
  by (induction steps "is" arbitrary: s rule: list_all2_induct) (simp_all del: split_paired_All)

lemma op_step:
  assumes "length block = 64" "k = rfc_index i" "k < 16" "n = rfc_shift i" "0 < n" "n < 32" "ac = rfc_T ! i"
    "\<And>x y z. f x y z = rfc_function i x y z"
  shows "md5_op f (osip_Decode block) (k, n, ac) s = rfc_step block s i"
proof -
  have "4 * k + 3 < length block" using assms(1,3) by linarith
  then show ?thesis
    using rotate_left [OF assms(5,6)] assms(2,4,7,8)
    by (cases s) (simp add: md5_op_def rfc_step_def decode_word Let_def add.commute add.left_commute)
qed

lemmas rfc_defs = rfc_index_def rfc_shift_def rfc_T_def

lemma transform_rfc:
  assumes "length block = 64"
  shows "osip_MD5Transform s block = rfc_block s block"
proof -
  let ?x = "osip_Decode block"
  note r = rounds_foldl [where block = block and x = ?x]
  have u: "[0..<16] = [0, 1, 2, 3, 4, 5, 6, 7, 8, 9, 10, 11, 12, 13, 14, 15]"
    "[16..<32] = [16, 17, 18, 19, 20, 21, 22, 23, 24, 25, 26, 27, 28, 29, 30, 31]"
    "[32..<48] = [32, 33, 34, 35, 36, 37, 38, 39, 40, 41, 42, 43, 44, 45, 46, 47]"
    "[48..<64] = [48, 49, 50, 51, 52, 53, 54, 55, 56, 57, 58, 59, 60, 61, 62, 63]"
    by (simp_all add: upt_rec)
  have 1: "fold (md5_op md5_F ?x) md5_round_1 s = foldl (rfc_step block) s [0..<16]" for s
    unfolding md5_round_1_def u
    by (rule r, simp only: list_all2_Cons list_all2_Nil, intro conjI allI TrueI op_step assms)
      (simp_all add: rfc_defs md5_F_def rfc_function_def)
  have 2: "fold (md5_op md5_G ?x) md5_round_2 s = foldl (rfc_step block) s [16..<32]" for s
    unfolding md5_round_2_def u
    by (rule r, simp only: list_all2_Cons list_all2_Nil, intro conjI allI TrueI op_step assms)
      (simp_all add: rfc_defs md5_G_def rfc_function_def)
  have 3: "fold (md5_op md5_H ?x) md5_round_3 s = foldl (rfc_step block) s [32..<48]" for s
    unfolding md5_round_3_def u
    by (rule r, simp only: list_all2_Cons list_all2_Nil, intro conjI allI TrueI op_step assms)
      (simp_all add: rfc_defs md5_H_def rfc_function_def)
  have 4: "fold (md5_op md5_I ?x) md5_round_4 s = foldl (rfc_step block) s [48..<64]" for s
    unfolding md5_round_4_def u
    by (rule r, simp only: list_all2_Cons list_all2_Nil, intro conjI allI TrueI op_step assms)
      (simp_all add: rfc_defs md5_I_def rfc_function_def)
  have "[0..<64 :: nat] = [0..<16] @ [16..<32] @ [32..<48] @ [48..<64]"
    using upt_add_eq_append [of 0 16 48] upt_add_eq_append [of 16 32 32] upt_add_eq_append [of 32 48 16] by simp
  then show ?thesis
    by (simp only: osip_MD5Transform_def rfc_block_def Let_def 1 2 3 4 foldl_append)
      (auto split: prod.splits)
qed

lemma blocks_rfc: "foldl osip_MD5Transform s (blocks m) = foldl rfc_block s (blocks m)"
proof (rule foldl_cong [OF refl refl])
  fix a b assume "b \<in> set (blocks m)"
  then obtain i where "i < length m div 64" "b = take 64 (drop (64 * i) m)" by (auto simp: blocks_def)
  moreover from this have "64 * i + 64 \<le> length m" by simp
  ultimately show "osip_MD5Transform a b = rfc_block a b" by (intro transform_rfc) simp
qed

lemma octet_of_word:
  "k \<le> 24 \<Longrightarrow> ucast (drop_bit k (of_nat n :: uint32) AND 0xff) = (of_nat (n div 2 ^ k) :: octet)"
proof -
  assume "k \<le> 24"
  moreover have m: "(0xff :: uint32) = mask 8" by (simp add: mask_eq_exp_minus_1)
  ultimately have "take_bit 8 (drop_bit k (take_bit 32 n)) = take_bit 8 (drop_bit k n)"
    by (intro bit_eqI) (auto simp: bit_simps)
  then show ?thesis
    unfolding m take_bit_eq_mask [symmetric] drop_bit_eq_div [symmetric]
    by (intro word_unat_eq_iff [THEN iffD2])
      (simp only: unsigned_ucast_eq unsigned_take_bit_eq unsigned_drop_bit_eq unsigned_of_nat, simp)
qed

lemma encode_rfc: "osip_Encode ws = concat (map rfc_octets ws)"
proof (induction ws)
  case (Cons w ws)
  have "[0..<4] = [0, 1, 2, 3 :: nat]" by (simp add: upt_rec)
  then show ?case
    using Cons octet_of_word [of 0 "unat w"] octet_of_word [of 8 "unat w"] octet_of_word [of 16 "unat w"]
      octet_of_word [of 24 "unat w"]
    by (simp add: rfc_octets_def)
qed simp

section \<open>Contexts and what they have taken in\<close>

text \<open>The whole blocks of a list of octets, and those that are left.\<close>

function whole_blocks :: "md5_state \<Rightarrow> octets \<Rightarrow> md5_state \<times> octets" where
  "whole_blocks s input = (if 63 < length input
     then whole_blocks (osip_MD5Transform s (take 64 input)) (drop 64 input) else (s, input))"
  by pat_completeness auto
termination by (relation "measure (\<lambda>(s, input). length input)") auto

declare whole_blocks.simps [simp del]

lemma whole_blocks_short: "length m < 64 \<Longrightarrow> whole_blocks s m = (s, m)"
  by (subst whole_blocks.simps) simp

lemma whole_blocks_long:
  "63 < length m \<Longrightarrow> whole_blocks s m = whole_blocks (osip_MD5Transform s (take 64 m)) (drop 64 m)"
  by (subst whole_blocks.simps) simp

lemma whole_blocks_block: "length b = 64 \<Longrightarrow> whole_blocks s (b @ m) = whole_blocks (osip_MD5Transform s b) m"
  by (simp add: whole_blocks_long)

lemma whole_blocks_append:
  "whole_blocks s (m @ n) = (case whole_blocks s m of (s', r) \<Rightarrow> whole_blocks s' (r @ n))"
proof (induction s m rule: whole_blocks.induct)
  case (1 s m)
  show ?case
  proof (cases "63 < length m")
    case True
    then have "whole_blocks s (m @ n) = whole_blocks (osip_MD5Transform s (take 64 m)) (drop 64 m @ n)"
      by (simp add: whole_blocks_long [of "m @ n"])
    then show ?thesis using 1 True by (simp add: whole_blocks_long [of m])
  qed (simp add: whole_blocks_short)
qed

lemma whole_blocks_rest:
  "whole_blocks s m = (s', r) \<Longrightarrow> length r = length m mod 64 \<and> (\<exists>p. m = p @ r)"
proof (induction s m arbitrary: s' r rule: whole_blocks.induct)
  case (1 s m)
  show ?case
  proof (cases "63 < length m")
    case True
    with 1(2) have "whole_blocks (osip_MD5Transform s (take 64 m)) (drop 64 m) = (s', r)"
      by (simp add: whole_blocks_long [of m])
    from 1(1) [OF True this] have r: "length r = (length m - 64) mod 64" "\<exists>p. drop 64 m = p @ r" by simp_all
    from r(2) obtain p where "m = (take 64 m @ p) @ r" by (metis append_assoc append_take_drop_id)
    moreover have "(length m - 64) mod 64 = length m mod 64" using True by (simp add: le_mod_geq)
    ultimately show ?thesis using r(1) by metis
  next
    case False
    with 1(2) show ?thesis by (simp add: whole_blocks_short)
  qed
qed

lemma whole_blocks_foldl:
  "length m = 64 * k \<Longrightarrow> whole_blocks s m = (foldl osip_MD5Transform s (blocks m), [])"
proof (induction k arbitrary: s m)
  case (Suc k)
  have b: "blocks m = take 64 m # blocks (drop 64 m)"
  proof -
    have "blocks m = map (\<lambda>i. take 64 (drop (64 * i) m)) (0 # map Suc [0..<k])"
      using Suc.prems by (simp add: blocks_def map_Suc_upt upt_conv_Cons del: upt_Suc)
    moreover have "length (drop 64 m) div 64 = k" using Suc.prems by simp
    ultimately show ?thesis by (simp add: blocks_def o_def add.commute)
  qed
  have "whole_blocks s m = whole_blocks (osip_MD5Transform s (take 64 m)) (drop 64 m)"
    using Suc.prems by (simp add: whole_blocks_long)
  with Suc.IH [of "drop 64 m"] Suc.prems b show ?case by simp
qed (simp add: whole_blocks_short blocks_def)

text \<open>Up to \<open>2 ^ 32 - 64\<close> octets, \<open>i + 63\<close> does not wrap around.\<close>

lemma blocks_whole:
  assumes "length input \<le> 2 ^ 32 - 64" "i \<le> length input"
  shows "\<exists>j \<le> length input. md5_blocks s input i = Inr (fst (whole_blocks s (drop i input)), j) \<and>
    drop j input = snd (whole_blocks s (drop i input))"
  using assms
proof (induction s input i rule: md5_blocks.induct)
  case (1 s input i)
  have less: "of_nat (i + 63) < (of_nat (length input) :: uint32) \<longleftrightarrow> i + 63 < length input"
    using 1(2,3) by (simp add: word_less_nat_alt unsigned_of_nat take_bit_nat_eq_self del: of_nat_add)
  show ?case
  proof (cases "i + 63 < length input")
    case True
    then have "md5_blocks s input i = md5_blocks (osip_MD5Transform s (take 64 (drop i input))) input (i + 64)"
      unfolding md5_blocks.simps [of s input i] less by simp
    moreover have "whole_blocks s (drop i input) =
        whole_blocks (osip_MD5Transform s (take 64 (drop i input))) (drop (i + 64) input)"
      using True by (simp add: whole_blocks_long add.commute)
    ultimately show ?thesis using 1(1) less True 1(2) by simp
  next
    case False
    then have "md5_blocks s input i = Inr (s, i)" unfolding md5_blocks.simps [of s input i] less by simp
    then show ?thesis using False 1(3) by (simp add: whole_blocks_short)
  qed
qed

text \<open>A context that has taken in the octets \<open>m\<close>.\<close>

definition taken_in :: "octets \<Rightarrow> MD5_CTX \<Rightarrow> bool" where
  "taken_in m ctx \<longleftrightarrow>
     whole_blocks (0x67452301, 0xefcdab89, 0x98badcfe, 0x10325476) m =
       (md5_state ctx, take (length m mod 64) (md5_buffer ctx)) \<and>
     length (md5_buffer ctx) = 64 \<and>
     count_0 ctx = of_nat (8 * length m) \<and> count_1 ctx = of_nat (8 * length m div 2 ^ 32)"

lemma taken_in_init: "length junk = 64 \<Longrightarrow> taken_in [] (osip_MD5Init junk)"
  by (simp add: taken_in_def osip_MD5Init_def whole_blocks_short)

lemma count_index: "unat (drop_bit 3 (of_nat (8 * n) :: uint32) AND 0x3F) = n mod 64"
proof -
  have m: "(0x3F :: uint32) = mask 6" by (simp add: mask_eq_exp_minus_1)
  have "unat (drop_bit 3 (of_nat (8 * n) :: uint32) AND 0x3F) = (8 * n mod 2 ^ 32 div 8) mod 64"
    unfolding m take_bit_eq_mask [symmetric]
    by (simp only: unsigned_take_bit_eq unsigned_drop_bit_eq unsigned_of_nat)
      (simp add: take_bit_eq_mod drop_bit_eq_div)
  also have "8 * n mod 2 ^ 32 div 8 = n mod 2 ^ 29"
    by (simp add: mult_mod_right [of 8 n "2 ^ 29", simplified, symmetric])
  also have "n mod 2 ^ 29 mod 64 = n mod 64"
    by (rule mod_mod_cancel) simp
  finally show ?thesis .
qed

lemma div_add_carry:
  fixes a b c :: nat
  assumes "0 < c"
  shows "(a + b) div c = a div c + b div c + (if (a + b) mod c < b mod c then 1 else 0)"
proof -
  have less: "a mod c < c" "b mod c < c" using assms by simp_all
  have m: "(a + b) mod c = (a mod c + b mod c) mod c" by (simp add: mod_simps)
  show ?thesis
  proof (cases "a mod c + b mod c < c")
    case True
    then show ?thesis by (simp add: div_add1_eq [of a b c] m)
  next
    case False
    moreover have "(x + y) mod c = x + y - c" if "x < c" "y < c" "\<not> x + y < c" for x y
      using that by (simp add: le_mod_geq)
    ultimately have "(a mod c + b mod c) mod c = a mod c + b mod c - c"
      using less by blast
    moreover have "(a mod c + b mod c) div c = 1"
      using False add_strict_mono [OF less] by (intro div_nat_eqI) simp_all
    moreover have "a mod c + b mod c - c < b mod c" using less False by linarith
    ultimately show ?thesis by (simp add: div_add1_eq [of a b c] m)
  qed
qed

lemma count_update:
  assumes "k < 2 ^ 32" and c0: "c0 = of_nat (8 * a) + push_bit 3 (of_nat k :: uint32)"
  shows "c0 = of_nat (8 * (a + k))"
    and "(if c0 < push_bit 3 (of_nat k) then of_nat (8 * a div 2 ^ 32) + 1 else of_nat (8 * a div 2 ^ 32)) +
      drop_bit 29 (of_nat k) = (of_nat (8 * (a + k) div 2 ^ 32) :: uint32)"
proof -
  have p: "push_bit 3 (of_nat k :: uint32) = of_nat (8 * k)" by (simp add: push_bit_eq_mult)
  then show n: "c0 = of_nat (8 * (a + k))" by (simp add: c0)
  have "drop_bit 29 (of_nat k :: uint32) = of_nat (k div 2 ^ 29)"
  proof -
    have "k div 2 ^ 29 < 2 ^ 32" using div_le_dividend [of k "2 ^ 29"] assms(1) by linarith
    then show ?thesis
      using assms(1) by (intro word_unat_eq_iff [THEN iffD2])
        (simp only: unsigned_drop_bit_eq unsigned_of_nat, simp add: take_bit_eq_mod drop_bit_eq_div)
  qed
  moreover have "8 * k div 2 ^ 32 = k div 2 ^ 29" by simp
  moreover have "c0 < push_bit 3 (of_nat k) \<longleftrightarrow> (8 * a + 8 * k) mod 2 ^ 32 < 8 * k mod 2 ^ 32"
    unfolding n p word_less_nat_alt by (simp only: unsigned_of_nat) (simp add: take_bit_eq_mod)
  ultimately show "(if c0 < push_bit 3 (of_nat k) then of_nat (8 * a div 2 ^ 32) + 1 else of_nat (8 * a div 2 ^ 32)) +
      drop_bit 29 (of_nat k) = (of_nat (8 * (a + k) div 2 ^ 32) :: uint32)"
    using div_add_carry [of "2 ^ 32" "8 * a" "8 * k"]
    by (simp only: distrib_left) (simp add: add.assoc)
qed

lemma memcpy_from:
  "i \<le> length b \<Longrightarrow> take (i + length xs) (osip_MD5_memcpy b i xs) = take i b @ xs"
  "i + length xs \<le> length b \<Longrightarrow> length (osip_MD5_memcpy b i xs) = length b"
  "i + length xs = length b \<Longrightarrow> osip_MD5_memcpy b i xs = take i b @ xs"
  by (simp_all add: osip_MD5_memcpy_def)

lemma update_buffer:
  assumes "i = unat (drop_bit 3 (count_0 ctx) AND 0x3F)" "length xs \<le> 2 ^ 32 - 64"
  obtains ctx' where "osip_MD5Update ctx xs = Inr ctx'"
    "count_0 ctx' = count_0 ctx + push_bit 3 (of_nat (length xs))"
    "count_1 ctx' = (if count_0 ctx + push_bit 3 (of_nat (length xs)) < push_bit 3 (of_nat (length xs))
       then count_1 ctx + 1 else count_1 ctx) + drop_bit 29 (of_nat (length xs))"
    "length xs < 64 - i \<Longrightarrow> md5_state ctx' = md5_state ctx \<and> md5_buffer ctx' = osip_MD5_memcpy (md5_buffer ctx) i xs"
    "\<And>b s r. 64 - i \<le> length xs \<Longrightarrow> b = osip_MD5_memcpy (md5_buffer ctx) i (take (64 - i) xs) \<Longrightarrow>
      whole_blocks (osip_MD5Transform (md5_state ctx) b) (drop (64 - i) xs) = (s, r) \<Longrightarrow>
      md5_state ctx' = s \<and> md5_buffer ctx' = osip_MD5_memcpy b 0 r"
proof (cases "64 - i \<le> length xs")
  case True
  let ?b = "osip_MD5_memcpy (md5_buffer ctx) i (take (64 - i) xs)"
  obtain s r where w: "whole_blocks (osip_MD5Transform (md5_state ctx) ?b) (drop (64 - i) xs) = (s, r)" by fastforce
  obtain j where "md5_blocks (osip_MD5Transform (md5_state ctx) ?b) xs (64 - i) = Inr (s, j)" "drop j xs = r"
    using blocks_whole [OF assms(2) True, of "osip_MD5Transform (md5_state ctx) ?b"] w by auto
  then have "\<exists>ctx'. osip_MD5Update ctx xs = Inr ctx' \<and>
      count_0 ctx' = count_0 ctx + push_bit 3 (of_nat (length xs)) \<and>
      count_1 ctx' = (if count_0 ctx + push_bit 3 (of_nat (length xs)) < push_bit 3 (of_nat (length xs))
        then count_1 ctx + 1 else count_1 ctx) + drop_bit 29 (of_nat (length xs)) \<and>
      md5_state ctx' = s \<and> md5_buffer ctx' = osip_MD5_memcpy ?b 0 r"
    using True unfolding osip_MD5Update_def Let_def assms(1) [symmetric] by (simp split: if_splits)
  with that True w show thesis by (metis fst_conv leD snd_conv)
next
  case False
  then have "\<exists>ctx'. osip_MD5Update ctx xs = Inr ctx' \<and>
      count_0 ctx' = count_0 ctx + push_bit 3 (of_nat (length xs)) \<and>
      count_1 ctx' = (if count_0 ctx + push_bit 3 (of_nat (length xs)) < push_bit 3 (of_nat (length xs))
        then count_1 ctx + 1 else count_1 ctx) + drop_bit 29 (of_nat (length xs)) \<and>
      md5_state ctx' = md5_state ctx \<and> md5_buffer ctx' = osip_MD5_memcpy (md5_buffer ctx) i xs"
    unfolding osip_MD5Update_def Let_def assms(1) [symmetric] by simp
  with that False show thesis by metis
qed

lemma taken_in_update:
  assumes "taken_in m ctx" "length xs \<le> 2 ^ 32 - 64"
  shows "\<exists>ctx'. osip_MD5Update ctx xs = Inr ctx' \<and> taken_in (m @ xs) ctx'"
proof -
  let ?init = "(0x67452301, 0xefcdab89, 0x98badcfe, 0x10325476) :: md5_state"
  let ?i = "length m mod 64" and ?b = "md5_buffer ctx" and ?s = "md5_state ctx"
  have m: "whole_blocks ?init m = (?s, take ?i ?b)" "length ?b = 64"
    "count_0 ctx = of_nat (8 * length m)" "count_1 ctx = of_nat (8 * length m div 2 ^ 32)"
    using assms(1) by (simp_all add: taken_in_def)
  have all: "whole_blocks ?init (m @ xs) = whole_blocks ?s (take ?i ?b @ xs)"
    unfolding whole_blocks_append [of _ m] m(1) by simp
  have index: "?i = unat (drop_bit 3 (count_0 ctx) AND 0x3F)"
    unfolding m(3) by (rule count_index [symmetric])
  obtain ctx' where u: "osip_MD5Update ctx xs = Inr ctx'"
    "count_0 ctx' = count_0 ctx + push_bit 3 (of_nat (length xs))"
    "count_1 ctx' = (if count_0 ctx + push_bit 3 (of_nat (length xs)) < push_bit 3 (of_nat (length xs))
       then count_1 ctx + 1 else count_1 ctx) + drop_bit 29 (of_nat (length xs))"
    and short: "length xs < 64 - ?i \<Longrightarrow> md5_state ctx' = ?s \<and> md5_buffer ctx' = osip_MD5_memcpy ?b ?i xs"
    and long: "\<And>b s r. 64 - ?i \<le> length xs \<Longrightarrow> b = osip_MD5_memcpy ?b ?i (take (64 - ?i) xs) \<Longrightarrow>
      whole_blocks (osip_MD5Transform ?s b) (drop (64 - ?i) xs) = (s, r) \<Longrightarrow>
      md5_state ctx' = s \<and> md5_buffer ctx' = osip_MD5_memcpy b 0 r"
    by (rule update_buffer [OF index assms(2)], rule that) assumption+
  have less: "length xs < 2 ^ 32" using assms(2) by simp
  have counts: "count_0 ctx' = of_nat (8 * length (m @ xs))"
    "count_1 ctx' = of_nat (8 * length (m @ xs) div 2 ^ 32)"
    unfolding u(2,3) m(3,4) length_append by (rule count_update [OF less refl])+
  have "taken_in (m @ xs) ctx'"
  proof (cases "64 - ?i \<le> length xs")
    case True
    let ?n = "64 - ?i"
    let ?b' = "osip_MD5_memcpy ?b ?i (take ?n xs)"
    obtain s r where r: "whole_blocks (osip_MD5Transform ?s ?b') (drop ?n xs) = (s, r)"
      by (metis surj_pair)
    have n: "?i + length (take ?n xs) = length ?b"
      using True m(2) less_imp_le [OF mod_less_divisor [of 64 "length m"]] by simp
    have b': "?b' = take ?i ?b @ take ?n xs" "length ?b' = 64"
      using memcpy_from(3) [OF n] memcpy_from(2) [of ?i "take ?n xs" ?b] n m(2) by simp_all
    have "whole_blocks ?s (take ?i ?b @ xs) = whole_blocks ?s (?b' @ drop ?n xs)"
      by (simp add: b'(1))
    also have "\<dots> = (s, r)" using b'(2) r by (simp add: whole_blocks_block)
    finally have rest: "whole_blocks ?init (m @ xs) = (s, r)" by (simp add: all)
    then have l: "length r = length (m @ xs) mod 64" by (simp add: whole_blocks_rest)
    moreover have "length r < 64" unfolding l by simp
    ultimately have "take (length (m @ xs) mod 64) (osip_MD5_memcpy ?b' 0 r) = r"
      "length (osip_MD5_memcpy ?b' 0 r) = 64"
      using b'(2) memcpy_from(1) [of 0 ?b' r] by (simp_all add: memcpy_from(2))
    with long [OF True refl r] show ?thesis
      unfolding taken_in_def rest counts by simp
  next
    case False
    then have "whole_blocks ?s (take ?i ?b @ xs) = (?s, take ?i ?b @ xs)"
      using m(2) by (simp add: whole_blocks_short)
    then have rest: "whole_blocks ?init (m @ xs) = (?s, take ?i ?b @ xs)" by (simp add: all)
    from whole_blocks_rest [OF this] have "length (m @ xs) mod 64 = ?i + length xs"
      using m(2) by simp
    then have "take (length (m @ xs) mod 64) (osip_MD5_memcpy ?b ?i xs) = take ?i ?b @ xs"
      "length (osip_MD5_memcpy ?b ?i xs) = 64"
      using False m(2) by (simp_all add: memcpy_from)
    with short False show ?thesis
      unfolding taken_in_def rest counts by simp
  qed
  with u(1) show ?thesis by blast
qed

section \<open>The digest\<close>

lemma length_encode: "length (osip_Encode ws) = 4 * length ws"
  by (induction ws) simp_all

lemma encode_count:
  "osip_Encode [of_nat n, of_nat (n div 2 ^ 32)] = map (\<lambda>i. of_nat (n div 256 ^ i)) [0..<8]"
proof -
  note b = octet_of_word
  have e: "[0..<8] = [0, 1, 2, 3, 4, 5, 6, 7 :: nat]" by (simp add: upt_rec)
  show ?thesis
    using b [of 0 n] b [of 8 n] b [of 16 n] b [of 24 n] b [of 0 "n div 2 ^ 32"] b [of 8 "n div 2 ^ 32"]
      b [of 16 "n div 2 ^ 32"] b [of 24 "n div 2 ^ 32"]
    by (simp add: e div_mult2_eq [symmetric])
qed

lemma padding: "take (Suc n) PADDING = 0x80 # replicate n 0" if "n < 64"
  using that by (simp add: PADDING_def min_absorb1)

lemma length_md5_pad: "length (md5_pad m) = length m + (119 - length m mod 64) mod 64 + 9"
  by (simp add: md5_pad_def)

lemma final_digest:
  assumes "taken_in m ctx"
  shows "osip_MD5Final ctx = Inr (md5_digest m)"
proof -
  let ?z = "(119 - length m mod 64) mod 64"
  let ?p = "0x80 # replicate ?z 0 :: octets"
  have c: "count_0 ctx = of_nat (8 * length m)" "count_1 ctx = of_nat (8 * length m div 2 ^ 32)"
    using assms by (simp_all add: taken_in_def)
  have i: "length m mod 64 < 64" by simp
  have pad: "take (if length m mod 64 < 56 then 56 - length m mod 64 else 120 - length m mod 64) PADDING = ?p"
  proof (cases "length m mod 64 < 56")
    case True
    then have "?z = 55 - length m mod 64" "56 - length m mod 64 = Suc (55 - length m mod 64)"
      by (simp_all add: le_mod_geq)
    moreover have "55 - length m mod 64 < 64" by linarith
    ultimately show ?thesis using True padding [of "55 - length m mod 64"] by simp
  next
    case False
    then have "?z = 119 - length m mod 64" "120 - length m mod 64 = Suc (119 - length m mod 64)"
      using i by simp_all
    moreover have "119 - length m mod 64 < 64" using False by linarith
    ultimately show ?thesis using False padding [of "119 - length m mod 64"] by simp
  qed
  let ?bits = "osip_Encode [count_0 ctx, count_1 ctx]"
  obtain ctx1 where 1: "osip_MD5Update ctx ?p = Inr ctx1" "taken_in (m @ ?p) ctx1"
  proof -
    have "(119 - length m mod 64) mod 64 < 64" by simp
    then have "length ?p \<le> 2 ^ 32 - 64" by simp
    then show thesis using taken_in_update [OF assms, of ?p] that by blast
  qed
  obtain ctx2 where 2: "osip_MD5Update ctx1 ?bits = Inr ctx2" "taken_in ((m @ ?p) @ ?bits) ctx2"
    using taken_in_update [OF 1(2), of ?bits] by (auto simp: length_encode)
  note 2(2)
  moreover have padded: "(m @ ?p) @ ?bits = md5_pad m"
    unfolding md5_pad_def c encode_count by simp
  moreover have "64 dvd length (md5_pad m)"
  proof -
    have "64 dvd 64 * q + r + (119 - r) mod 64 + 9" if "r < 64" for q r :: nat
    proof (cases "r < 56")
      case True
      then have "64 * q + r + (119 - r) mod 64 + 9 = 64 * (q + 1)" by (simp add: le_mod_geq)
      then show ?thesis by (metis dvd_triv_left)
    next
      case False
      then have "64 * q + r + (119 - r) mod 64 + 9 = 64 * (q + 2)" using that by simp
      then show ?thesis by (metis dvd_triv_left)
    qed
    from this [OF i, of "length m div 64"] show ?thesis by (simp add: length_md5_pad)
  qed
  ultimately have "md5_state ctx2 = foldl osip_MD5Transform
      (0x67452301, 0xefcdab89, 0x98badcfe, 0x10325476) (blocks (md5_pad m))"
    using whole_blocks_foldl [of "md5_pad m"] by (auto simp: taken_in_def dvd_def)
  moreover have "unat (drop_bit 3 (count_0 ctx) AND 0x3f) = length m mod 64"
    unfolding c by (rule count_index)
  ultimately show ?thesis
    using 1(1) 2(1) by (simp add: osip_MD5Final_def md5_digest_def pad blocks_rfc encode_rfc Let_def split: prod.splits)
qed

text \<open>
  The octets may be given in one piece or in several, and what the buffer held at first does not
  matter.
\<close>

lemma updates_taken_in:
  "taken_in m ctx \<Longrightarrow> \<forall>xs \<in> set xss. length xs \<le> 2 ^ 32 - 64 \<Longrightarrow>
   \<exists>ctx'. osip_MD5Updates ctx xss = Inr ctx' \<and> taken_in (m @ concat xss) ctx'"
proof (induction xss arbitrary: m ctx)
  case (Cons xs xss)
  then obtain ctx1 where "osip_MD5Update ctx xs = Inr ctx1" "taken_in (m @ xs) ctx1"
    using taken_in_update [of m ctx xs] by auto
  with Cons.IH [of "m @ xs" ctx1] Cons.prems(2) show ?case by simp
qed simp

lemma digest_of_updates:
  assumes "length junk = 64" "\<forall>xs \<in> set xss. length xs \<le> 2 ^ 32 - 64"
  shows "bind (osip_MD5Updates (osip_MD5Init junk) xss) osip_MD5Final = Inr (md5_digest (concat xss))"
  using updates_taken_in [OF taken_in_init [OF assms(1)] assms(2)] final_digest by auto

lemma generate_hash_md5_bin_digest:
  assumes "length junk = 64" "length m \<le> 2 ^ 32 - 64"
  shows "generate_hash_md5_bin junk m = Inr (md5_digest m)"
  using taken_in_update [OF taken_in_init [OF assms(1)] assms(2)] final_digest
  by (auto simp: generate_hash_md5_bin_def)

lemma generate_hash_md5_digest: "length m \<le> 2 ^ 32 - 64 \<Longrightarrow> generate_hash_md5 m = CvtHex (md5_digest m)"
  by (simp add: generate_hash_md5_def generate_hash_md5_bin_digest)

lemma length_digest: "length (md5_digest m) = 16"
  by (simp add: md5_digest_def rfc_octets_def split: prod.splits)

lemma CvtHex_digits:
  "length (CvtHex b) = 2 * length b" "\<forall>c \<in> set (CvtHex b). 48 \<le> c \<and> c \<le> 57 \<or> 97 \<le> c \<and> c \<le> 102"
proof -
  have "48 \<le> hex_digit (j AND 0xf) \<and> hex_digit (j AND 0xf) \<le> 57 \<or>
      97 \<le> hex_digit (j AND 0xf) \<and> hex_digit (j AND 0xf) \<le> 102" for j :: octet
  proof -
    have m: "(0xf :: octet) = mask 4" by (simp add: mask_eq_exp_minus_1)
    have "unat (j AND 0xf) < 16"
      unfolding m take_bit_eq_mask [symmetric] unsigned_take_bit_eq by (simp add: take_bit_eq_mod)
    then show ?thesis
      by (auto simp: hex_digit_def word_le_nat_alt unat_word_ariths unat_minus_one)
  qed
  then show "\<forall>c \<in> set (CvtHex b). 48 \<le> c \<and> c \<le> 57 \<or> 97 \<le> c \<and> c \<le> 102"
    by (auto simp: CvtHex_def)
  show "length (CvtHex b) = 2 * length b"
    by (induction b) (simp_all add: CvtHex_def)
qed

lemma md5_abc: "generate_hash_md5 (ascii ''abc'') = ascii ''900150983cd24fb0d6963f7d28e17f72''"
  by code_simp

end
