(* ===== verification/Pdu_Context.thy ===== *)
theory Pdu_Context
  imports Prelude
begin

text \<open>
  The states of a session (\<open>SMPP_SESSION_STATE\<close> in \<open>src/public/smppserver/smpp_protocol_impl.hpp\<close>)
  and the PDUs each of them admits (\<open>src/public/smppserver/smpp_pdu_context.hpp\<close>).
\<close>

datatype SMPP_SESSION_STATE =
    SESSION_OPEN
  | SESSION_BOUND_TX
  | SESSION_BOUND_RX
  | SESSION_BOUND_TRX
  | SESSION_CLOSED

definition is_state_bound :: "SMPP_SESSION_STATE \<Rightarrow> bool" where
  "is_state_bound s = (if s = SESSION_BOUND_RX \<or> s = SESSION_BOUND_TX \<or> s = SESSION_BOUND_TRX
     then True else False)"

definition is_state_bound_rxable :: "SMPP_SESSION_STATE \<Rightarrow> bool" where
  "is_state_bound_rxable s = (if s = SESSION_BOUND_RX \<or> s = SESSION_BOUND_TRX then True else False)"

definition is_state_bound_txable :: "SMPP_SESSION_STATE \<Rightarrow> bool" where
  "is_state_bound_txable s = (if s = SESSION_BOUND_TX \<or> s = SESSION_BOUND_TRX then True else False)"

text \<open>The command ids (\<open>command_id.hpp\<close>) that the table of contexts names.\<close>

abbreviation "cid_GenericNack \<equiv> 0x80000000 :: uint32"
abbreviation "cid_BindReceiver \<equiv> 0x00000001 :: uint32"
abbreviation "cid_BindTransmitter \<equiv> 0x00000002 :: uint32"
abbreviation "cid_QuerySm \<equiv> 0x00000003 :: uint32"
abbreviation "cid_SubmitSm \<equiv> 0x00000004 :: uint32"
abbreviation "cid_DeliverSmResp \<equiv> 0x80000005 :: uint32"
abbreviation "cid_Unbind \<equiv> 0x00000006 :: uint32"
abbreviation "cid_UnbindResp \<equiv> 0x80000006 :: uint32"
abbreviation "cid_ReplaceSm \<equiv> 0x00000007 :: uint32"
abbreviation "cid_CancelSm \<equiv> 0x00000008 :: uint32"
abbreviation "cid_BindTransceiver \<equiv> 0x00000009 :: uint32"
abbreviation "cid_EnquireLink \<equiv> 0x00000015 :: uint32"
abbreviation "cid_EnquireLinkResp \<equiv> 0x80000015 :: uint32"
abbreviation "cid_SubmitMulti \<equiv> 0x00000021 :: uint32"
abbreviation "cid_AlertNotification \<equiv> 0x00000102 :: uint32"
abbreviation "cid_DataSm \<equiv> 0x00000103 :: uint32"
abbreviation "cid_DataSmResp \<equiv> 0x80000103 :: uint32"

definition valid :: "SMPP_SESSION_STATE \<Rightarrow> uint32 \<Rightarrow> bool" where
  "valid s c =
    (if c = cid_BindReceiver \<or> c = cid_BindTransceiver \<or> c = cid_BindTransmitter
       then s = SESSION_OPEN
     else if c = cid_Unbind \<or> c = cid_UnbindResp \<or> c = cid_GenericNack \<or> c = cid_DeliverSmResp
       then is_state_bound s
     else if c = cid_SubmitMulti \<or> c = cid_SubmitSm \<or> c = cid_DataSm \<or> c = cid_DataSmResp
       then is_state_bound_txable s
     else if c = cid_QuerySm
       then is_state_bound_rxable s
     else if c = cid_CancelSm \<or> c = cid_ReplaceSm
       then is_state_bound s
     else if c = cid_AlertNotification
       then is_state_bound_rxable s
     else if c = cid_EnquireLink \<or> c = cid_EnquireLinkResp
       then is_state_bound s \<or> s = SESSION_OPEN
     else False)"

lemmas state_bound_defs = is_state_bound_def is_state_bound_rxable_def is_state_bound_txable_def

lemma bound_iff: "is_state_bound s \<longleftrightarrow> is_state_bound_rxable s \<or> is_state_bound_txable s"
  by (auto simp: state_bound_defs)

lemma closed_admits_nothing [simp]: "\<not> valid SESSION_CLOSED c"
  by (simp add: valid_def state_bound_defs)

lemma valid_bind:
  "valid s cid_BindReceiver \<longleftrightarrow> s = SESSION_OPEN"
  "valid s cid_BindTransmitter \<longleftrightarrow> s = SESSION_OPEN"
  "valid s cid_BindTransceiver \<longleftrightarrow> s = SESSION_OPEN"
  by (simp_all add: valid_def)

lemma valid_submit: "valid s cid_SubmitSm \<longleftrightarrow> s = SESSION_BOUND_TX \<or> s = SESSION_BOUND_TRX"
  by (simp add: valid_def state_bound_defs)

end
