(* ===== verification/Timers.thy ===== *)
theory Timers
  imports Prelude "HOL-Library.Signed_Division"
begin

text \<open>
  The timers of a session (\<open>src/public/smppserver/smpp_timer.hpp\<close>). Times are microseconds of the
  host's local clock, which \<open>microsec_clock::local_time()\<close> reads and which each operation is
  given as \<open>now\<close>; durations are 64-bit milliseconds.
\<close>

section \<open>One timer\<close>

datatype STATUS = NOT_BEGIN | BEGIN | UPDATE | END

record smpp_timer =
  duration :: uint64
  begin_time :: int
  update_time :: int
  end_time :: int
  status :: STATUS
  uid :: uint32

text \<open>
  \<open>uid_\<close> is the decimal form of a sequence number for response timers and a fixed name for the
  three others; the model keeps the number.
\<close>

definition new_smpp_timer :: "uint64 \<Rightarrow> smpp_timer" where
  "new_smpp_timer d = \<lparr> duration = d, begin_time = 0, update_time = 0, end_time = 0,
     status = NOT_BEGIN, uid = 0 \<rparr>"

definition session_init_timer :: smpp_timer where
  "session_init_timer = new_smpp_timer (10 * 1000)"

definition enquire_link_timer :: smpp_timer where
  "enquire_link_timer = new_smpp_timer (8 * 1000)"

definition inactivity_timer :: smpp_timer where
  "inactivity_timer = new_smpp_timer (30 * 1000)"

definition response_timer :: smpp_timer where
  "response_timer = new_smpp_timer (5 * 1000)"

definition set_duration :: "int \<Rightarrow> smpp_timer \<Rightarrow> smpp_timer" where
  "set_duration d t = t\<lparr> duration := of_int d \<rparr>"

definition timer_begin :: "int \<Rightarrow> smpp_timer \<Rightarrow> smpp_timer" where
  "timer_begin now t = t\<lparr> begin_time := now, status := BEGIN \<rparr>"

definition timer_update :: "int \<Rightarrow> smpp_timer \<Rightarrow> smpp_timer" where
  "timer_update now t = t\<lparr> update_time := now, status := UPDATE \<rparr>"

definition timer_end :: "int \<Rightarrow> smpp_timer \<Rightarrow> smpp_timer" where
  "timer_end now t = t\<lparr> update_time := now, status := END \<rparr>"

fun status_rank :: "STATUS \<Rightarrow> nat" where
  "status_rank NOT_BEGIN = 0"
| "status_rank BEGIN = 1"
| "status_rank UPDATE = 2"
| "status_rank END = 3"

definition get_begin_time :: "smpp_timer \<Rightarrow> int option" where
  "get_begin_time t = (if status t \<noteq> NOT_BEGIN then Some (begin_time t) else None)"

definition get_update_time :: "smpp_timer \<Rightarrow> int option" where
  "get_update_time t = (if status_rank (status t) < status_rank UPDATE
     then Some (update_time t) else None)"

definition get_end_time :: "smpp_timer \<Rightarrow> int option" where
  "get_end_time t = (if status t = END then Some (end_time t) else None)"

text \<open>
  \<open>uint64_t past = duration.total_milliseconds()\<close>: the quotient is rounded towards zero, and a
  negative one wraps.
\<close>

definition total_milliseconds :: "int \<Rightarrow> int" where
  "total_milliseconds us = us sdiv 1000"

definition past :: "int \<Rightarrow> int \<Rightarrow> uint64" where
  "past now since = of_int (total_milliseconds (now - since))"

definition session_init_expired :: "int \<Rightarrow> smpp_timer \<Rightarrow> bool" where
  "session_init_expired now t = (if status t = END \<or> status t = NOT_BEGIN then False
     else past now (begin_time t) > duration t)"

text \<open>The other three classes have the same \<open>expired\<close>.\<close>

definition expired :: "int \<Rightarrow> smpp_timer \<Rightarrow> bool" where
  "expired now t = (if status t = END \<or> status t = NOT_BEGIN then False
     else past now (if status t = BEGIN then begin_time t else update_time t) > duration t)"

section \<open>The timers of a session\<close>

record smpp_timer_manager =
  response_timers :: "smpp_timer list"
  init_t :: smpp_timer
  enquire_t :: smpp_timer
  inactivity_t :: smpp_timer

definition new_smpp_timer_manager :: smpp_timer_manager where
  "new_smpp_timer_manager = \<lparr> response_timers = [], init_t = session_init_timer,
     enquire_t = enquire_link_timer, inactivity_t = inactivity_timer \<rparr>"

abbreviation "init_timer_duration_seconds \<equiv> 15 :: int"
abbreviation "enquire_link_timer_duration_seconds \<equiv> 180 :: int"
abbreviation "inactivity_timer_duration_seconds \<equiv> 180 :: int"
abbreviation "response_timer_duration_seconds \<equiv> 30 :: int"

definition connected :: "int \<Rightarrow> smpp_timer_manager \<Rightarrow> smpp_timer_manager" where
  "connected now m = m\<lparr> init_t :=
     timer_begin now (set_duration (init_timer_duration_seconds * 1000) (init_t m)) \<rparr>"

text \<open>The same body serves \<open>bind_transmitter_received\<close>, \<open>bind_receiver_received\<close> and
  \<open>bind_transceiver_received\<close>.\<close>

definition bind_received :: "int \<Rightarrow> smpp_timer_manager \<Rightarrow> smpp_timer_manager" where
  "bind_received now m = m\<lparr> init_t := timer_end now (init_t m),
     enquire_t := timer_begin now (set_duration (enquire_link_timer_duration_seconds * 1000) (enquire_t m)),
     inactivity_t := timer_begin now
       (set_duration (inactivity_timer_duration_seconds * 1000) (inactivity_t m)) \<rparr>"

definition unbind_received :: "smpp_timer_manager \<Rightarrow> smpp_timer_manager" where
  "unbind_received m = m"

text \<open>
  \<open>submit_sm_received\<close>, \<open>enquire_link_received\<close> and the others that only record activity.
\<close>

definition activity :: "int \<Rightarrow> smpp_timer_manager \<Rightarrow> smpp_timer_manager" where
  "activity now m = m\<lparr> inactivity_t := timer_update now (inactivity_t m),
     enquire_t := timer_update now (enquire_t m) \<rparr>"

definition deliver_sm_sent :: "int \<Rightarrow> uint32 \<Rightarrow> smpp_timer_manager \<Rightarrow> smpp_timer_manager" where
  "deliver_sm_sent now seq m = activity now (m\<lparr> response_timers := response_timers m @
     [timer_begin now (set_duration (response_timer_duration_seconds * 1000)
       (response_timer\<lparr> uid := seq \<rparr>))] \<rparr>)"

fun erase_timers :: "uint32 \<Rightarrow> smpp_timer list \<Rightarrow> smpp_timer list" where
  "erase_timers seq [] = []"
| "erase_timers seq (t # ts) = (if uid t = seq then erase_timers seq ts else t # erase_timers seq ts)"

definition deliver_sm_resp_recevied :: "uint32 \<Rightarrow> smpp_timer_manager \<Rightarrow> smpp_timer_manager" where
  "deliver_sm_resp_recevied seq m = m\<lparr> response_timers := erase_timers seq (response_timers m) \<rparr>"

datatype SMPP_TIMER_EXPIRED_ACTION = DROP_SESSION | OTHER

fun response_expired :: "int \<Rightarrow> bool \<Rightarrow> smpp_timer list \<Rightarrow> bool" where
  "response_expired now init_ended [] = False"
| "response_expired now init_ended (t # ts) =
     (if expired now t \<and> init_ended then True else response_expired now init_ended ts)"

text \<open>Returns the action when a timer has expired.\<close>

definition manager_expired :: "int \<Rightarrow> smpp_timer_manager \<Rightarrow> SMPP_TIMER_EXPIRED_ACTION option" where
  "manager_expired now m =
     (if session_init_expired now (init_t m) then Some DROP_SESSION
      else if expired now (enquire_t m) \<and> status (init_t m) = END then Some DROP_SESSION
      else if expired now (inactivity_t m) \<and> status (init_t m) = END then Some DROP_SESSION
      else if response_expired now (status (init_t m) = END) (response_timers m)
        then Some DROP_SESSION
      else None)"

section \<open>When a session is dropped\<close>

lemmas timer_defs = new_smpp_timer_def session_init_timer_def enquire_link_timer_def
  inactivity_timer_def response_timer_def set_duration_def timer_begin_def timer_update_def
  timer_end_def new_smpp_timer_manager_def connected_def bind_received_def unbind_received_def
  activity_def deliver_sm_sent_def deliver_sm_resp_recevied_def

lemma total_milliseconds_forward: "0 \<le> us \<Longrightarrow> total_milliseconds us = us div 1000"
  by (cases "us = 0") (simp_all add: total_milliseconds_def signed_divide_int_def sgn_if)

lemma total_milliseconds_backward: "us < 0 \<Longrightarrow> total_milliseconds us = - (- us div 1000)"
  by (simp add: total_milliseconds_def signed_divide_int_def sgn_if)

lemma past_forward:
  assumes "since \<le> now" "now - since < 2 ^ 63" "0 \<le> n" "n < 2 ^ 32"
  shows "past now since > word_of_int n \<longleftrightarrow> n < (now - since) div 1000"
proof -
  let ?q = "(now - since) div 1000"
  have q: "0 \<le> ?q" "?q < 2 ^ 63"
    using assms(1,2) by simp_all
  have "uint (past now since) = ?q"
    using q assms(1) by (simp add: past_def total_milliseconds_forward uint_word_of_int)
  moreover have "uint (word_of_int n :: uint64) = n"
    using assms(3,4) by (simp add: uint_word_of_int)
  ultimately show ?thesis
    by (simp add: word_less_def)
qed

text \<open>A local clock that is set back by a millisecond makes every running timer expire.\<close>

lemma past_backward:
  assumes "now + 1000 \<le> since" "since - now < 2 ^ 63"
  shows "uint (past now since) \<ge> 2 ^ 63"
proof -
  let ?q = "(since - now) div 1000"
  have q: "1 \<le> ?q" "?q < 2 ^ 63"
    using assms by simp_all
  have "total_milliseconds (now - since) = - ?q"
    using assms by (simp add: total_milliseconds_backward)
  then have "past now since = word_of_int (- ?q)"
    by (simp add: past_def)
  then have "uint (past now since) = (- ?q) mod 2 ^ 64"
    by (simp only: uint_word_of_int len_num1 len_bit0 mult_1_right) simp
  also have "\<dots> = 2 ^ 64 - ?q"
    using q by (simp add: zmod_zminus1_eq_if)
  finally show ?thesis using q by simp
qed

lemma erase_timers_filter: "erase_timers seq ts = filter (\<lambda>t. uid t \<noteq> seq) ts"
  by (induction ts) auto

lemma response_expired_iff: "response_expired now b ts \<longleftrightarrow> b \<and> (\<exists>t \<in> set ts. expired now t)"
  by (induction ts) auto

text \<open>What happens to the timers of a session, in order.\<close>

datatype timer_event = Connected | Bind_received | Unbind_received | Activity

fun timer_step :: "int \<times> timer_event \<Rightarrow> smpp_timer_manager \<Rightarrow> smpp_timer_manager" where
  "timer_step (now, Connected) m = connected now m"
| "timer_step (now, Bind_received) m = bind_received now m"
| "timer_step (now, Unbind_received) m = unbind_received m"
| "timer_step (now, Activity) m = activity now m"

definition timers_after :: "(int \<times> timer_event) list \<Rightarrow> smpp_timer_manager" where
  "timers_after h = fold timer_step h new_smpp_timer_manager"

definition bound_in :: "(int \<times> timer_event) list \<Rightarrow> bool" where
  "bound_in h \<longleftrightarrow> Bind_received \<in> snd ` set h"

text \<open>When the peer was last heard of.\<close>

fun last_heard :: "(int \<times> timer_event) list \<Rightarrow> int option" where
  "last_heard [] = None"
| "last_heard ((t, e) # h) = (case last_heard h of Some u \<Rightarrow> Some u
     | None \<Rightarrow> if e = Bind_received \<or> e = Activity then Some t else None)"

lemma last_heard_snoc:
  "last_heard (h @ [(t, e)]) = (if e = Bind_received \<or> e = Activity then Some t else last_heard h)"
  by (induction h) (auto split: option.splits)

text \<open>A timer that runs from a time.\<close>

definition runs_from :: "int \<Rightarrow> smpp_timer \<Rightarrow> bool" where
  "runs_from t tm \<longleftrightarrow> status tm = BEGIN \<and> begin_time tm = t \<or> status tm = UPDATE \<and> update_time tm = t"

lemma runs_from_steps [simp]:
  "runs_from now (timer_begin now tm)" "runs_from now (timer_update now tm)"
  by (simp_all add: runs_from_def timer_defs)

lemma expired_runs_from:
  "runs_from t tm \<Longrightarrow> expired now tm \<longleftrightarrow> past now t > duration tm"
  by (auto simp: runs_from_def expired_def)

lemma duration_steps [simp]:
  "duration (timer_begin now tm) = duration tm" "duration (timer_update now tm) = duration tm"
  "duration (set_duration d tm) = of_int d"
  by (simp_all add: timer_defs)

lemma manager_steps:
  "response_timers (activity t m) = response_timers m"
  "response_timers (bind_received t m) = response_timers m"
  "enquire_t (activity t m) = timer_update t (enquire_t m)"
  "inactivity_t (activity t m) = timer_update t (inactivity_t m)"
  "init_t (activity t m) = init_t m"
  "enquire_t (bind_received t m) = timer_begin t (set_duration 180000 (enquire_t m))"
  "inactivity_t (bind_received t m) = timer_begin t (set_duration 180000 (inactivity_t m))"
  "init_t (bind_received t m) = timer_end t (init_t m)"
  "unbind_received m = m"
  by (simp_all add: bind_received_def unbind_received_def activity_def)

lemma timers_after_snoc: "timers_after (h @ [x]) = timer_step x (timers_after h)"
  by (simp add: timers_after_def)

text \<open>The timers of a session that is never told that it is connected.\<close>

lemma timers_after_init:
  "Connected \<notin> snd ` set h \<Longrightarrow> response_timers (timers_after h) = [] \<and>
   (if bound_in h then status (init_t (timers_after h)) = END \<and>
      duration (enquire_t (timers_after h)) = 180000 \<and>
      duration (inactivity_t (timers_after h)) = 180000
    else init_t (timers_after h) = session_init_timer)"
proof (induction h rule: rev_induct)
  case Nil
  then show ?case by (simp add: timers_after_def bound_in_def new_smpp_timer_manager_def)
next
  case (snoc x h)
  obtain t e where x: "x = (t, e)" by (cases x)
  show ?case
    using snoc unfolding x timers_after_snoc
    by (cases e) (simp_all add: manager_steps bound_in_def timer_end_def)
qed

lemma timers_after_last_heard:
  "Connected \<notin> snd ` set h \<Longrightarrow> last_heard h = Some t \<Longrightarrow>
   runs_from t (enquire_t (timers_after h)) \<and> runs_from t (inactivity_t (timers_after h))"
proof (induction h rule: rev_induct)
  case (snoc x h)
  obtain t' e where x: "x = (t', e)" by (cases x)
  show ?case
    using snoc unfolding x timers_after_snoc
    by (cases e) (simp_all add: manager_steps last_heard_snoc)
qed simp

lemma bound_last_heard: "bound_in h \<Longrightarrow> \<exists>t. last_heard h = Some t"
proof (induction h rule: rev_induct)
  case (snoc x h)
  then show ?case
    by (cases x) (auto simp: last_heard_snoc bound_in_def)
qed (simp add: bound_in_def)

lemma timers_after_connected:
  assumes "Bind_received \<notin> snd ` set h" "Connected \<notin> snd ` set h"
  shows "let m = fold timer_step h (timers_after [(t0, Connected)]) in
    status (init_t m) = BEGIN \<and> begin_time (init_t m) = t0 \<and> duration (init_t m) = 15000 \<and>
    response_timers m = []"
  using assms
proof (induction h rule: rev_induct)
  case Nil
  then show ?case by (simp add: timers_after_def timer_defs)
next
  case (snoc x h)
  obtain t e where x: "x = (t, e)" by (cases x)
  show ?case
    using snoc unfolding x by (cases e) (simp_all add: manager_steps Let_def)
qed

end
