(* ===== verification/Number_Format.thy ===== *)
theory Number_Format
  imports Prelude
begin

text \<open>
  Numbers as text (\<open>src/public/algorithm_toolkit/algorithm.hpp\<close>): what \<open>operator<<\<close> and \<open>sprintf\<close>
  print of an unsigned number, what \<open>operator>>\<close> with \<open>std::hex\<close> reads, and the conversions
  that the server uses for message ids and dates.
\<close>

section \<open>Printing\<close>

definition digit :: "nat \<Rightarrow> octet" where
  "digit d = (if d < 10 then of_nat (48 + d) else of_nat (55 + d))"

fun decimal :: "nat \<Rightarrow> octets" where
  "decimal n = (if n < 10 then [digit n] else decimal (n div 10) @ [digit (n mod 10)])"

text \<open>\<open>%x\<close>, turned to upper case.\<close>

fun hex_string :: "nat \<Rightarrow> octets" where
  "hex_string n = (if n < 16 then [digit n] else hex_string (n div 16) @ [digit (n mod 16)])"

declare decimal.simps [simp del] hex_string.simps [simp del]

definition pad_left :: "nat \<Rightarrow> octets \<Rightarrow> octets" where
  "pad_left len s = replicate (len - length s) 48 @ s"

definition format_uint32_to_lenght :: "uint32 \<Rightarrow> nat \<Rightarrow> octets" where
  "format_uint32_to_lenght v len = pad_left len (decimal (unat v))"

definition format_decimal_to_string :: "uint32 \<Rightarrow> octets" where
  "format_decimal_to_string n = decimal (unat n)"

section \<open>Reading\<close>

definition is_space :: "octet \<Rightarrow> bool" where
  "is_space c \<longleftrightarrow> c = 32 \<or> 9 \<le> c \<and> c \<le> 13"

definition hex_value :: "octet \<Rightarrow> nat option" where
  "hex_value c =
     (if 48 \<le> c \<and> c \<le> 57 then Some (unat c - 48)
      else if 65 \<le> c \<and> c \<le> 70 then Some (unat c - 55)
      else if 97 \<le> c \<and> c \<le> 102 then Some (unat c - 87)
      else None)"

fun read_hex_digits :: "nat \<Rightarrow> octets \<Rightarrow> nat" where
  "read_hex_digits acc [] = acc"
| "read_hex_digits acc (c # cs) = (case hex_value c of
     Some d \<Rightarrow> read_hex_digits (16 * acc + d) cs
   | None \<Rightarrow> acc)"

text \<open>
  \<open>stream >> std::hex >> unsigned\<close>: blanks, an optional sign, an optional \<open>0x\<close>, digits. A value
  out of range gives the largest one, and no digits give 0.
\<close>

fun skip_sign :: "octets \<Rightarrow> bool \<times> octets" where
  "skip_sign [] = (False, [])"
| "skip_sign (c # cs) = (if c = 45 then (True, cs) else if c = 43 then (False, cs)
     else (False, c # cs))"

fun skip_0x :: "octets \<Rightarrow> octets" where
  "skip_0x (a # b # cs) = (if a = 48 \<and> (b = 120 \<or> b = 88) then cs else a # b # cs)"
| "skip_0x s = s"

definition read_hex_uint32 :: "octets \<Rightarrow> uint32" where
  "read_hex_uint32 s =
     (let (negative, s) = skip_sign (dropWhile is_space s);
          n = read_hex_digits 0 (skip_0x s)
      in if n > 0xffffffff then 0xffffffff else if negative then - of_nat n else of_nat n)"

definition format_hex_string_to_decimal_string :: "octets \<Rightarrow> nat \<Rightarrow> octets" where
  "format_hex_string_to_decimal_string hex len =
     (let dec = decimal (unat (read_hex_uint32 hex)) in
      if len > 0 then pad_left len dec else dec)"

definition upper :: "octet \<Rightarrow> octet" where
  "upper c = (if 97 \<le> c \<and> c \<le> 122 then c - 32 else c)"

text \<open>The length argument of a padded number is a lower bound on the length of the result.\<close>

lemma length_pad_left: "length (pad_left len s) = max len (length s)"
  by (simp add: pad_left_def)

lemma unat_digit: "d < 16 \<Longrightarrow> unat (digit d) = (if d < 10 then 48 + d else 55 + d)"
proof -
  assume d: "d < 16"
  have "unat (of_nat m :: octet) = m" if "m < 256" for m
    using that by (simp add: unat_of_nat take_bit_nat_eq_self)
  then show ?thesis
    using d by (simp add: digit_def del: of_nat_add)
qed

lemma hex_value_digit: "d < 16 \<Longrightarrow> hex_value (digit d) = Some d"
  by (simp add: hex_value_def word_le_nat_alt unat_digit)

lemma read_hex_digits_append:
  "\<forall>c \<in> set xs. hex_value c \<noteq> None \<Longrightarrow>
   read_hex_digits acc (xs @ ys) = read_hex_digits (read_hex_digits acc xs) ys"
  by (induction xs arbitrary: acc) (auto split: option.splits)

lemma hex_string_digits: "\<forall>c \<in> set (hex_string n). hex_value c \<noteq> None"
  by (induction n rule: hex_string.induct) (subst hex_string.simps, simp add: hex_value_digit)

lemma read_hex_string: "read_hex_digits 0 (hex_string n) = n"
proof (induction n rule: hex_string.induct)
  case (1 n)
  show ?case
  proof (cases "n < 16")
    case True
    then show ?thesis by (subst hex_string.simps) (simp add: hex_value_digit)
  next
    case False
    then have "read_hex_digits 0 (hex_string n) =
        read_hex_digits (read_hex_digits 0 (hex_string (n div 16))) [digit (n mod 16)]"
      by (subst hex_string.simps) (simp add: read_hex_digits_append hex_string_digits)
    then show ?thesis using 1 False by (simp add: hex_value_digit)
  qed
qed

lemma hex_string_inj: "hex_string m = hex_string n \<Longrightarrow> m = n"
  by (metis read_hex_string)

lemma length_hex_string: "n < 16 ^ Suc k \<Longrightarrow> length (hex_string n) \<le> Suc k"
proof (induction k arbitrary: n)
  case 0
  then show ?case by (subst hex_string.simps) simp
next
  case (Suc k)
  then have "n div 16 < 16 ^ Suc k"
    by (simp add: less_mult_imp_div_less mult.commute)
  with Suc.IH [of "n div 16"] show ?case
    by (subst hex_string.simps) simp
qed

lemma hex_string_neq_Nil [simp]: "hex_string n \<noteq> []"
  by (subst hex_string.simps) simp

lemma hex_value_None: "hex_value 32 = None" "hex_value 45 = None" "hex_value 43 = None"
    "hex_value 120 = None" "hex_value 88 = None"
  by (simp_all add: hex_value_def)

lemma hex_value_no_space: "hex_value c \<noteq> None \<Longrightarrow> \<not> is_space c"
  by (auto simp: is_space_def hex_value_def word_le_nat_alt split: if_splits)

lemma read_hex_uint32_digits:
  assumes "\<forall>c \<in> set s. hex_value c \<noteq> None" "read_hex_digits 0 s \<le> 0xffffffff"
  shows "read_hex_uint32 s = of_nat (read_hex_digits 0 s)"
proof -
  have "dropWhile is_space s = s"
    using assms(1) hex_value_no_space by (cases s) auto
  moreover have "skip_sign s = (False, s)"
    using assms(1) hex_value_None by (cases s) auto
  moreover have "skip_0x s = s"
    using assms(1) hex_value_None by (cases s rule: skip_0x.cases) auto
  ultimately show ?thesis
    using assms(2) by (simp add: read_hex_uint32_def Let_def)
qed

lemma hex_to_decimal:
  "format_hex_string_to_decimal_string (hex_string (unat (n :: uint32))) len =
   (if len > 0 then pad_left len (decimal (unat n)) else decimal (unat n))"
proof -
  have "unat n \<le> 0xffffffff"
    using unsigned_less [of n, where ?'a = nat] by simp
  then show ?thesis
    using read_hex_uint32_digits [OF hex_string_digits, of "unat n"]
    by (simp add: format_hex_string_to_decimal_string_def read_hex_string)
qed

end
