(* ===== verification/Short_Messages.thy ===== *)
theory Short_Messages
  imports Number_Format
begin

text \<open>
  The record of a short message (\<open>cb_sm_information\<close> in
  \<open>src/public/protocol_public/cb_protocol_public.hpp\<close>) and the generators of sequence numbers and
  message ids (\<open>cb_protocol_public.cpp\<close>).
\<close>

section \<open>cb_sm_information\<close>

datatype SMI_STATE =
    SMI_STATE_INIT
  | SMI_STATE_IS_READY
  | SMI_STATE_IS_SUBMITTING
  | SMI_STATE_IS_DELIVERING
  | SMI_STATE_IS_DELIVERIED
  | SMI_STATE_IS_PUSHING
  | SMI_STATE_IS_PUSHED

datatype ACK_STATUS =
    ACK_STATUS_IDLE
  | ACK_STATUS_WAITING
  | ACK_STATUS_SUCCESSFULLY
  | ACK_STATUS_FAILED
  | ACK_STATUS_TIMEOUT
  | ACK_STATUS_CANCELLED
  | ACK_STATUS_UNKNOWN

text \<open>
  The items that the server or the client reads or writes; the others belong to other programs of
  the system and keep their initial values. The item \<open>systemid\<close> is called \<open>smi_systemid\<close>, that of an
  account having taken the name.
\<close>

record cb_sm_information =
  server_id :: octets
  smi_systemid :: octets
  state :: SMI_STATE
  sn_by_client :: uint32
  sn_by_protocol_server :: uint32
  sn_by_gateway :: uint32
  sn_by_provider :: uint32
  message_id_of_protocol_server :: octets
  message_id_of_provider :: octets
  dst_addr :: octets
  ip :: octets
  session_id :: octets
  gateway_id :: octets
  src_addr :: octets
  ack_status :: ACK_STATUS
  submit_time_of_client :: uint64
  delivering_time_of_client :: uint64
  delivery_time_of_client :: uint64
  submit_time_of_gateway :: uint64
  delivering_time_of_gateway :: uint64
  delivery_time_of_gateway :: uint64
  error_status :: octets
  error_code :: uint32
  udhi_reference :: octet
  udhi_total_parts :: octet
  udhi_part_index :: octet
  datacoding_type :: octet
  content :: octets
  content_hash :: octets
  protocol_of_client :: octets
  protocol_of_gateway :: octets

definition new_cb_sm_information :: cb_sm_information where
  "new_cb_sm_information = \<lparr> server_id = [], smi_systemid = [], state = SMI_STATE_INIT,
     sn_by_client = 0, sn_by_protocol_server = 0, sn_by_gateway = 0, sn_by_provider = 0,
     message_id_of_protocol_server = [], message_id_of_provider = [], dst_addr = [], ip = [],
     session_id = [], gateway_id = [], src_addr = [], ack_status = ACK_STATUS_IDLE,
     submit_time_of_client = 0, delivering_time_of_client = 0, delivery_time_of_client = 0,
     submit_time_of_gateway = 0, delivering_time_of_gateway = 0, delivery_time_of_gateway = 0,
     error_status = [], error_code = 0, udhi_reference = 0, udhi_total_parts = 0,
     udhi_part_index = 0, datacoding_type = 0, content = [], content_hash = [],
     protocol_of_client = [], protocol_of_gateway = [] \<rparr>"

section \<open>Sequence numbers and message ids\<close>

text \<open>
  \<open>sn_magic_number\<close> and the counter \<open>i\<close> are static. The magic number is drawn once, when the
  first number is asked for; \<open>dice\<close> is what Boost's generator would return.
\<close>

record sn_generator =
  sn_magic_number :: uint32
  sn_i :: int

definition sn_initial :: sn_generator where
  "sn_initial = \<lparr> sn_magic_number = 0, sn_i = 111 \<rparr>"

definition get_sn_magic_number :: "uint32 \<Rightarrow> sn_generator \<Rightarrow> uint32 \<times> sn_generator" where
  "get_sn_magic_number dice g =
     (let g = (if sn_magic_number g = 0 then g\<lparr> sn_magic_number := dice \<rparr> else g)
      in (sn_magic_number g, g))"

definition generate_sn :: "uint32 \<Rightarrow> sn_generator \<Rightarrow> uint32 \<times> sn_generator" where
  "generate_sn dice g =
     (let (magic, g) = get_sn_magic_number dice g;
          n = magic + of_int (sn_i g);
          g = g\<lparr> sn_i := sn_i g + 1 \<rparr>;
          g = (if sn_i g > 999999999 then g\<lparr> sn_i := 111 \<rparr> else g)
      in (n, g))"

definition generate_message_id :: "uint32 \<Rightarrow> sn_generator \<Rightarrow> octets \<times> sn_generator" where
  "generate_message_id dice g =
     (let (n, g) = generate_sn dice g in (map upper (hex_string (unat n)), g))"

lemma map_upper_hex_string [simp]: "map upper (hex_string n) = hex_string n"
proof -
  have u: "upper (digit d) = digit d" if "d < 16" for d
    using that by (simp add: upper_def word_le_nat_alt unat_digit)
  show ?thesis
    by (induction n rule: hex_string.induct)
      (subst (1 2) hex_string.simps, simp add: u)
qed

text \<open>The generator after \<open>k\<close> numbers.\<close>

definition sn_after :: "uint32 \<Rightarrow> nat \<Rightarrow> sn_generator" where
  "sn_after dice k = ((\<lambda>g. snd (generate_sn dice g)) ^^ k) sn_initial"

lemma sn_after_state:
  assumes "dice \<noteq> 0"
  shows "sn_i (sn_after dice k) = 111 + int (k mod 999999889) \<and>
    (sn_magic_number (sn_after dice k) = (if k = 0 then 0 else dice))"
proof (induction k)
  case 0
  show ?case by (simp add: sn_after_def sn_initial_def)
next
  case (Suc k)
  have step: "sn_after dice (Suc k) = snd (generate_sn dice (sn_after dice k))"
    by (simp add: sn_after_def)
  have "(let g = (if sn_magic_number g = 0 then g\<lparr> sn_magic_number := dice \<rparr> else g) in
      sn_magic_number g = dice \<and> sn_i g = sn_i (sn_after dice k))" if "g = sn_after dice k" for g
    using Suc that by (simp add: Let_def)
  moreover have "k mod 999999889 < 999999889" by simp
  ultimately show ?case
    using Suc assms unfolding step
    by (auto simp: generate_sn_def get_sn_magic_number_def Let_def mod_Suc split: if_splits)
qed

lemma generate_sn_after:
  assumes "dice \<noteq> 0"
  shows "fst (generate_sn dice (sn_after dice k)) = dice + of_nat (111 + k mod 999999889)"
  using sn_after_state [OF assms, of k] assms
  by (simp add: generate_sn_def get_sn_magic_number_def Let_def add.assoc)

lemma generate_message_id_sn:
  "fst (generate_message_id dice g) = hex_string (unat (fst (generate_sn dice g)))"
  "snd (generate_message_id dice g) = snd (generate_sn dice g)"
  by (simp_all add: generate_message_id_def split: prod.splits)

text \<open>A message id always fits: \<open>MessageId(generate_message_id())\<close> does not throw.\<close>

lemma length_message_id: "length (fst (generate_message_id dice g)) \<le> 8"
proof -
  let ?n = "fst (generate_sn dice g)"
  have "unat ?n < 16 ^ Suc 7"
    using unsigned_less [of ?n, where ?'a = nat] by simp
  then show ?thesis
    using length_hex_string [of "unat ?n" 7] by (simp add: generate_message_id_sn)
qed

end
