(* ===== verification/Statistics.thy ===== *)
theory Statistics
  imports Prelude
begin

text \<open>
  Counters per client (\<open>src/public/smppserver/smppserver_statistic.h\<close>): 32-bit, wrapping, one set
  for every system id that was ever counted.
\<close>

record client_statistic =
  total_recevied :: uint32
  total_acks :: uint32
  total_dlrs :: uint32
  total_pushed_dlrs :: uint32
  total_mos :: uint32
  total_pushed_mos :: uint32
  stat_sysid :: octets

definition new_client_statistic :: "octets \<Rightarrow> client_statistic" where
  "new_client_statistic sysid = \<lparr> total_recevied = 0, total_acks = 0, total_dlrs = 0,
     total_pushed_dlrs = 0, total_mos = 0, total_pushed_mos = 0, stat_sysid = sysid \<rparr>"

text \<open>
  \<open>get(sysid)->f()\<close>: \<open>get\<close> returns a pointer to the entry of \<open>sysid\<close>, which it appends if there
  is none, and \<open>f\<close> changes that entry.
\<close>

fun get_and :: "octets \<Rightarrow> (client_statistic \<Rightarrow> client_statistic) \<Rightarrow> client_statistic list \<Rightarrow>
    client_statistic list" where
  "get_and sysid f [] = [f (new_client_statistic sysid)]"
| "get_and sysid f (c # cs) = (if stat_sysid c = sysid then f c # cs else c # get_and sysid f cs)"

definition stat_smi_received :: "octets \<Rightarrow> client_statistic list \<Rightarrow> client_statistic list" where
  "stat_smi_received sysid = get_and sysid (\<lambda>c. c\<lparr> total_recevied := total_recevied c + 1 \<rparr>)"

definition stat_ack_sent :: "octets \<Rightarrow> client_statistic list \<Rightarrow> client_statistic list" where
  "stat_ack_sent sysid = get_and sysid (\<lambda>c. c\<lparr> total_acks := total_acks c + 1 \<rparr>)"

definition stat_dlr_generated :: "octets \<Rightarrow> client_statistic list \<Rightarrow> client_statistic list" where
  "stat_dlr_generated sysid = get_and sysid (\<lambda>c. c\<lparr> total_dlrs := total_dlrs c + 1 \<rparr>)"

definition stat_dlr_pushed :: "octets \<Rightarrow> client_statistic list \<Rightarrow> client_statistic list" where
  "stat_dlr_pushed sysid = get_and sysid (\<lambda>c. c\<lparr> total_pushed_dlrs := total_pushed_dlrs c + 1 \<rparr>)"

definition stat_mo_generated :: "octets \<Rightarrow> client_statistic list \<Rightarrow> client_statistic list" where
  "stat_mo_generated sysid = get_and sysid (\<lambda>c. c\<lparr> total_mos := total_mos c + 1 \<rparr>)"

definition stat_mo_pushed :: "octets \<Rightarrow> client_statistic list \<Rightarrow> client_statistic list" where
  "stat_mo_pushed sysid = get_and sysid (\<lambda>c. c\<lparr> total_pushed_mos := total_pushed_mos c + 1 \<rparr>)"

text \<open>A counter of a client, 0 while it has no entry.\<close>

definition counter :: "(client_statistic \<Rightarrow> uint32) \<Rightarrow> octets \<Rightarrow> client_statistic list \<Rightarrow> uint32" where
  "counter sel sysid cs = (case find (\<lambda>c. stat_sysid c = sysid) cs of Some c \<Rightarrow> sel c | None \<Rightarrow> 0)"

lemma counter_get_and:
  assumes "\<And>c. stat_sysid (f c) = stat_sysid c" and "\<And>c. sel (f c) = sel c + d"
    and "sel (new_client_statistic sysid) = 0"
  shows "counter sel s (get_and sysid f cs) = counter sel s cs + (if s = sysid then d else 0)"
  using assms
  by (induction cs) (auto simp: counter_def new_client_statistic_def)

lemmas stat_defs = stat_smi_received_def stat_ack_sent_def stat_dlr_generated_def
  stat_dlr_pushed_def stat_mo_generated_def stat_mo_pushed_def

lemma counter_steps [simp]:
  "counter total_recevied s (stat_smi_received i cs) = counter total_recevied s cs + (if s = i then 1 else 0)"
  "counter total_acks s (stat_ack_sent i cs) = counter total_acks s cs + (if s = i then 1 else 0)"
  "counter total_dlrs s (stat_dlr_generated i cs) = counter total_dlrs s cs + (if s = i then 1 else 0)"
  "counter total_pushed_dlrs s (stat_dlr_pushed i cs) =
     counter total_pushed_dlrs s cs + (if s = i then 1 else 0)"
  "counter total_mos s (stat_mo_generated i cs) = counter total_mos s cs + (if s = i then 1 else 0)"
  "counter total_pushed_mos s (stat_mo_pushed i cs) =
     counter total_pushed_mos s cs + (if s = i then 1 else 0)"
  unfolding stat_defs by (rule counter_get_and; simp add: new_client_statistic_def)+

end
