(* ===== verification/Vendor.thy ===== *)
theory Vendor
  imports Prelude
begin

text \<open>
  The accounts that may bind and how a bind is checked against them
  (\<open>src/public/vendor/vendor_runtime.h\<close>), and the configuration of the server
  (\<open>src/public/smppserver/smppserver_configer.h\<close>).
\<close>

record client_account =
  systemid :: octets
  pw :: octets
  bind_ips :: "octets list"
  account_state :: octet
  account_src_addr :: octets

abbreviation "ESME_ROK \<equiv> 0x00000000 :: uint32"
abbreviation "ESME_RINVMSGLEN \<equiv> 0x00000001 :: uint32"
abbreviation "ESME_RINVCMDID \<equiv> 0x00000003 :: uint32"
abbreviation "ESME_RINVPASWD \<equiv> 0x0000000E :: uint32"
abbreviation "ESME_RINVSYSID \<equiv> 0x0000000F :: uint32"
abbreviation "ESME_RINVBINDIP \<equiv> 0x00000410 :: uint32"
abbreviation "ESME_RUNKNOWN \<equiv> 0x000004A0 :: uint32"

text \<open>The loop over the addresses an account may bind from, and the loop over the accounts.\<close>

fun bind_ip_listed :: "octets list \<Rightarrow> octets \<Rightarrow> bool" where
  "bind_ip_listed [] bind_ip = False"
| "bind_ip_listed (x # xs) bind_ip = (if x = bind_ip then True else bind_ip_listed xs bind_ip)"

fun check_sysid_pw_bindip :: "client_account list \<Rightarrow> octets \<Rightarrow> octets \<Rightarrow> octets \<Rightarrow> uint32" where
  "check_sysid_pw_bindip [] sysid pwd bind_ip = ESME_RINVSYSID"
| "check_sysid_pw_bindip (ci # cas) sysid pwd bind_ip =
     (if systemid ci = sysid then
        if pw ci = pwd then
          if length (bind_ips ci) = 0 then ESME_ROK
          else if bind_ip_listed (bind_ips ci) bind_ip then ESME_ROK
          else ESME_RINVBINDIP
        else ESME_RINVPASWD
      else check_sysid_pw_bindip cas sysid pwd bind_ip)"

fun get_systemid_by_src_addr :: "client_account list \<Rightarrow> octets \<Rightarrow> octets option" where
  "get_systemid_by_src_addr [] src_addr = None"
| "get_systemid_by_src_addr (ci # cas) src_addr =
     (if account_src_addr ci = src_addr then Some (systemid ci)
      else get_systemid_by_src_addr cas src_addr)"

fun get_src_addr_by_systemid :: "client_account list \<Rightarrow> octets \<Rightarrow> octets option" where
  "get_src_addr_by_systemid [] sysid = None"
| "get_src_addr_by_systemid (ci # cas) sysid =
     (if systemid ci = sysid then Some (account_src_addr ci)
      else get_src_addr_by_systemid cas sysid)"

fun get_password_by_systemid :: "client_account list \<Rightarrow> octets \<Rightarrow> octets option" where
  "get_password_by_systemid [] sysid = None"
| "get_password_by_systemid (ci # cas) sysid =
     (if systemid ci = sysid then Some (pw ci) else get_password_by_systemid cas sysid)"

text \<open>\<open>set_accounts\<close> clears the list and copies the new accounts one by one.\<close>

definition set_accounts :: "client_account list \<Rightarrow> client_account list \<Rightarrow> client_account list" where
  "set_accounts new cas = foldl (\<lambda>acc ci. acc @ [ci]) [] new"

lemma set_accounts_new [simp]: "set_accounts new cas = new"
proof -
  have "foldl (\<lambda>acc ci. acc @ [ci]) acc xs = acc @ xs" for acc xs :: "client_account list"
    by (induction xs arbitrary: acc) simp_all
  then show ?thesis by (simp add: set_accounts_def)
qed

lemma bind_ip_listed_iff [simp]: "bind_ip_listed xs ip \<longleftrightarrow> ip \<in> set xs"
  by (induction xs) auto

text \<open>Only the first account of a system id counts.\<close>

definition account_of :: "client_account list \<Rightarrow> octets \<Rightarrow> client_account option" where
  "account_of cas sysid = find (\<lambda>ci. systemid ci = sysid) cas"

lemma check_account_of:
  "check_sysid_pw_bindip cas sysid pwd ip = (case account_of cas sysid of
     None \<Rightarrow> ESME_RINVSYSID
   | Some ci \<Rightarrow> if pw ci \<noteq> pwd then ESME_RINVPASWD
       else if bind_ips ci = [] \<or> ip \<in> set (bind_ips ci) then ESME_ROK else ESME_RINVBINDIP)"
  by (induction cas) (auto simp: account_of_def)

lemma check_ok_account:
  "check_sysid_pw_bindip cas sysid pwd ip = ESME_ROK \<Longrightarrow> \<exists>ci \<in> set cas. systemid ci = sysid"
  by (auto simp: check_account_of account_of_def find_Some_iff split: option.splits if_splits)

lemma lookups_account_of:
  "get_src_addr_by_systemid cas sysid = map_option account_src_addr (account_of cas sysid)"
  "get_password_by_systemid cas sysid = map_option pw (account_of cas sysid)"
  by (induction cas) (auto simp: account_of_def)

section \<open>Configuration\<close>

record smppserver_configer =
  need_authorize :: bool
  use_hex_decimal_message_id :: bool
  configer_server_id :: octets
  use_buffer_db :: bool
  record_mt_mo :: bool

end
