(* ===== verification/Data_Sources.thy ===== *)
theory Data_Sources
  imports Prelude
begin

text \<open>
  The packet queues between the network and the sessions
  (\<open>src/public/network/protocol_data_source_manager.hpp\<close>): the two queues of a
  \<open>protocol_data_source\<close>, the pair of data sources that all connections of one account share,
  and the manager that keeps one pair per flag. A \<open>memory_buffer\<close> is the list of its octets.
  Every operation holds one mutex for its whole body, so an execution is a sequence of them.
\<close>

section \<open>Interface\<close>

text \<open>
  A family of queues, one per key, over states that satisfy an invariant. \<open>goes j k p\<close> says
  whether putting \<open>p\<close> under the key \<open>k\<close> adds it to the queue of \<open>j\<close>; \<open>view\<close> is what
  \<open>get\<close> makes of an item that it takes.
\<close>

locale keyed_queues =
  fixes put :: "'k \<Rightarrow> 't \<Rightarrow> 'p \<Rightarrow> 's \<Rightarrow> 's"
    and get :: "'k \<Rightarrow> 's \<Rightarrow> 'q option \<times> 's"
    and items :: "'k \<Rightarrow> 's \<Rightarrow> 'p list"
    and goes :: "'k \<Rightarrow> 'k \<Rightarrow> 'p \<Rightarrow> bool"
    and view :: "'p \<Rightarrow> 'q"
    and inv :: "'s \<Rightarrow> bool"
  assumes inv_put: "inv s \<Longrightarrow> inv (put k t p s)"
    and inv_get: "inv s \<Longrightarrow> inv (snd (get k s))"
    and items_put: "inv s \<Longrightarrow> items j (put k t p s) = items j s @ (if goes j k p then [p] else [])"
    and get_head: "inv s \<Longrightarrow>
      fst (get k s) = (case items k s of [] \<Rightarrow> None | x # _ \<Rightarrow> Some (view x))"
    and items_get: "inv s \<Longrightarrow>
      items j (snd (get k s)) = (if j = k then tl (items k s) else items j s)"
begin

text \<open>Runs of puts and gets, with what each get took.\<close>

fun run :: "('k \<times> ('t \<times> 'p) option) list \<Rightarrow> 's \<Rightarrow> ('k \<times> 'q) list \<times> 's" where
  "run [] s = ([], s)"
| "run ((k, Some (t, p)) # ops) s = run ops (put k t p s)"
| "run ((k, None) # ops) s = (case get k s of
     (None, s') \<Rightarrow> run ops s'
   | (Some x, s') \<Rightarrow> (let (took, s'') = run ops s' in ((k, x) # took, s'')))"

definition of_key :: "'k \<Rightarrow> ('k \<times> 'q) list \<Rightarrow> 'q list" where
  "of_key k xs = map snd (filter (\<lambda>x. fst x = k) xs)"

definition puts :: "'k \<Rightarrow> ('k \<times> ('t \<times> 'p) option) list \<Rightarrow> 'p list" where
  "puts k ops = [p. (j, Some (t, p)) \<leftarrow> ops, goes k j p]"

lemma get_None: "inv s \<Longrightarrow> fst (get k s) = None \<longleftrightarrow> items k s = []"
  by (simp add: get_head split: list.splits)

text \<open>
  Nothing is lost, invented, doubled or reordered: what was taken of a key, followed by what is
  still queued, is what was queued at the start followed by what was put.
\<close>

theorem conservation:
  "inv s \<Longrightarrow> run ops s = (took, s') \<Longrightarrow>
   of_key k took @ map view (items k s') = map view (items k s @ puts k ops) \<and> inv s'"
proof (induction ops s arbitrary: took s' rule: run.induct)
  case (1 s)
  then show ?case by (simp add: of_key_def puts_def)
next
  case (2 j t p ops s)
  have "of_key k took @ map view (items k s') = map view (items k (put j t p s) @ puts k ops) \<and> inv s'"
    using 2 by (simp add: inv_put)
  moreover have "items k (put j t p s) @ puts k ops = items k s @ puts k ((j, Some (t, p)) # ops)"
    using 2 by (simp add: items_put puts_def)
  ultimately show ?case by simp
next
  case (3 j ops s)
  obtain x r where g: "get j s = (x, r)" by (cases "get j s")
  then have r: "items k r = (if k = j then tl (items j s) else items k s)" "inv r"
    using items_get [of s k j] inv_get [of s j] "3.prems"(1) by simp_all
  have x: "x = (case items j s of [] \<Rightarrow> None | y # _ \<Rightarrow> Some (view y))"
    using get_head [of s j] g "3.prems"(1) by simp
  show ?case
  proof (cases x)
    case None
    then have "items j s = []" using x by (simp split: list.splits)
    moreover have "of_key k took @ map view (items k s') = map view (items k r @ puts k ops) \<and> inv s'"
      using 3 g None r(2) by simp
    ultimately show ?thesis using r by (auto simp: puts_def)
  next
    case (Some y)
    obtain took' where t: "run ops r = (took', s')" "took = (j, y) # took'"
      using "3.prems" g Some by (auto split: prod.splits)
    obtain z where "items j s = z # tl (items j s)" "view z = y"
      using x Some by (auto split: list.splits)
    moreover have "of_key k took' @ map view (items k s') = map view (items k r @ puts k ops) \<and> inv s'"
      using "3.IH"(2) [OF g [symmetric]] Some t(1) g r(2) by simp
    ultimately show ?thesis
      using r t(2) by (cases "items j s") (auto simp: of_key_def puts_def)
  qed
qed

text \<open>As many gets as items empty the queue, in order.\<close>

lemma drain:
  assumes "inv s"
  shows "\<exists>s'. run (replicate (length (items k s)) (k, None)) s = (map (\<lambda>x. (k, view x)) (items k s), s') \<and>
    items k s' = [] \<and> inv s'"
  using assms
proof (induction "items k s" arbitrary: s)
  case Nil
  from Nil.hyps have "items k s = []" by simp
  with Nil.prems show ?case by simp
next
  case (Cons x xs)
  obtain r where g: "get k s = (Some (view x), r)"
    using get_head [OF Cons.prems, of k] Cons.hyps(2) [symmetric] by (cases "get k s") simp
  have r: "items k r = xs" "inv r"
    using items_get [OF Cons.prems, of k k] inv_get [OF Cons.prems, of k] g Cons.hyps(2) [symmetric]
    by simp_all
  from Cons.hyps(1) [OF r(1) [symmetric] r(2)] r(1) obtain s' where
    "run (replicate (length xs) (k, None)) r = (map (\<lambda>x. (k, view x)) xs, s')" "items k s' = []" "inv s'"
    by auto
  with g show ?case
    unfolding Cons.hyps(2) [symmetric] by simp
qed

end

section \<open>protocol_data_source\<close>

type_synonym packet = octets

record protocol_data_source =
  in_queue :: "packet list"
  out_queue :: "packet list"
  last_update_time :: int

text \<open>\<open>now\<close> is what \<open>time(NULL)\<close> returns.\<close>

definition new_protocol_data_source :: "int \<Rightarrow> protocol_data_source" where
  "new_protocol_data_source now = \<lparr> in_queue = [], out_queue = [], last_update_time = now \<rparr>"

definition add_to_in_queue :: "int \<Rightarrow> packet \<Rightarrow> protocol_data_source \<Rightarrow> protocol_data_source" where
  "add_to_in_queue now bp d = d\<lparr> in_queue := in_queue d @ [bp], last_update_time := now \<rparr>"

definition get_from_in_queue :: "protocol_data_source \<Rightarrow> packet option \<times> protocol_data_source" where
  "get_from_in_queue d = (case in_queue d of
     bp # q \<Rightarrow> (Some bp, d\<lparr> in_queue := q \<rparr>)
   | [] \<Rightarrow> (None, d))"

definition add_to_out_queue :: "int \<Rightarrow> packet \<Rightarrow> protocol_data_source \<Rightarrow> protocol_data_source" where
  "add_to_out_queue now bp d = d\<lparr> out_queue := out_queue d @ [bp], last_update_time := now \<rparr>"

definition get_from_out_queue :: "protocol_data_source \<Rightarrow> packet option \<times> protocol_data_source" where
  "get_from_out_queue d = (case out_queue d of
     bp # q \<Rightarrow> (Some bp, d\<lparr> out_queue := q \<rparr>)
   | [] \<Rightarrow> (None, d))"

definition need_process :: "protocol_data_source \<Rightarrow> bool" where
  "need_process d \<longleftrightarrow> length (in_queue d) > 0"

definition need_send :: "protocol_data_source \<Rightarrow> bool" where
  "need_send d \<longleftrightarrow> length (out_queue d) > 0"

definition timeout :: "int \<Rightarrow> protocol_data_source \<Rightarrow> bool" where
  "timeout now d = (if now - last_update_time d > 120 then True else False)"

definition clear_packets :: "protocol_data_source \<Rightarrow> protocol_data_source" where
  "clear_packets d = d\<lparr> out_queue := [], in_queue := [] \<rparr>"

lemmas data_source_defs = new_protocol_data_source_def add_to_in_queue_def get_from_in_queue_def
  add_to_out_queue_def get_from_out_queue_def need_process_def need_send_def clear_packets_def

interpretation in_q: keyed_queues "\<lambda>(_ :: unit). add_to_in_queue" "\<lambda>_. get_from_in_queue"
  "\<lambda>_. in_queue" "\<lambda>_ _ _. True" "\<lambda>p. p" "\<lambda>_. True"
  by unfold_locales (auto simp: data_source_defs split: list.splits)

interpretation out_q: keyed_queues "\<lambda>(_ :: unit). add_to_out_queue" "\<lambda>_. get_from_out_queue"
  "\<lambda>_. out_queue" "\<lambda>_ _ _. True" "\<lambda>p. p" "\<lambda>_. True"
  by unfold_locales (auto simp: data_source_defs split: list.splits)

section \<open>protocol_data_source_manager\<close>

record connection_data_source =
  source_A :: protocol_data_source
  source_B :: protocol_data_source
  cds_flag :: octets

definition new_connection_data_source :: "int \<Rightarrow> octets \<Rightarrow> connection_data_source" where
  "new_connection_data_source now flag = \<lparr> source_A = new_protocol_data_source now,
     source_B = new_protocol_data_source now, cds_flag = flag \<rparr>"

type_synonym manager = "connection_data_source list"

text \<open>
  The operations update the first entry of the flag through a shared pointer:
  \<open>update_cdsp flag f\<close> is the list after \<open>f\<close> has changed that entry.
\<close>

definition get_cdsp :: "octets \<Rightarrow> manager \<Rightarrow> connection_data_source option" where
  "get_cdsp flag m = find (\<lambda>c. cds_flag c = flag) m"

fun update_cdsp :: "octets \<Rightarrow> (connection_data_source \<Rightarrow> connection_data_source) \<Rightarrow>
    manager \<Rightarrow> manager" where
  "update_cdsp flag f [] = []"
| "update_cdsp flag f (c # m) = (if cds_flag c = flag then f c # m else c # update_cdsp flag f m)"

definition put_cdsp :: "octets \<Rightarrow> int \<Rightarrow> (connection_data_source \<Rightarrow> connection_data_source) \<Rightarrow>
    manager \<Rightarrow> manager" where
  "put_cdsp flag now f m = (if length flag = 0 then m else
     case get_cdsp flag m of
       Some _ \<Rightarrow> update_cdsp flag f m
     | None \<Rightarrow> m @ [f (new_connection_data_source now flag)])"

definition manager_add_to_in_queue :: "octets \<Rightarrow> int \<Rightarrow> packet \<Rightarrow> manager \<Rightarrow> manager" where
  "manager_add_to_in_queue flag now bp =
     put_cdsp flag now (\<lambda>c. c\<lparr> source_A := add_to_in_queue now bp (source_A c) \<rparr>)"

definition add_to_out_queue_A :: "octets \<Rightarrow> int \<Rightarrow> packet \<Rightarrow> manager \<Rightarrow> manager" where
  "add_to_out_queue_A flag now bp =
     put_cdsp flag now (\<lambda>c. c\<lparr> source_A := add_to_out_queue now bp (source_A c) \<rparr>)"

definition add_to_out_queue_B :: "octets \<Rightarrow> int \<Rightarrow> packet \<Rightarrow> manager \<Rightarrow> manager" where
  "add_to_out_queue_B flag now bp =
     put_cdsp flag now (\<lambda>c. c\<lparr> source_B := add_to_out_queue now bp (source_B c) \<rparr>)"

definition manager_get_from_in_queue :: "octets \<Rightarrow> manager \<Rightarrow> packet option \<times> manager" where
  "manager_get_from_in_queue flag m = (case get_cdsp flag m of
     Some c \<Rightarrow> (let (bp, d) = get_from_in_queue (source_A c) in
       (bp, update_cdsp flag (\<lambda>c. c\<lparr> source_A := d \<rparr>) m))
   | None \<Rightarrow> (None, m))"

definition get_from_out_queue_A :: "octets \<Rightarrow> manager \<Rightarrow> packet option \<times> manager" where
  "get_from_out_queue_A flag m = (case get_cdsp flag m of
     Some c \<Rightarrow> (let (bp, d) = get_from_out_queue (source_A c) in
       (bp, update_cdsp flag (\<lambda>c. c\<lparr> source_A := d \<rparr>) m))
   | None \<Rightarrow> (None, m))"

definition get_from_out_queue_B :: "octets \<Rightarrow> manager \<Rightarrow> packet option \<times> manager" where
  "get_from_out_queue_B flag m = (case get_cdsp flag m of
     Some c \<Rightarrow> (let (bp, d) = get_from_out_queue (source_B c) in
       (bp, update_cdsp flag (\<lambda>c. c\<lparr> source_B := d \<rparr>) m))
   | None \<Rightarrow> (None, m))"

definition manager_need_process :: "octets \<Rightarrow> manager \<Rightarrow> bool" where
  "manager_need_process flag m = (case get_cdsp flag m of
     Some c \<Rightarrow> need_process (source_A c) \<or> need_process (source_B c)
   | None \<Rightarrow> False)"

definition need_send_A :: "octets \<Rightarrow> manager \<Rightarrow> bool" where
  "need_send_A flag m = (case get_cdsp flag m of Some c \<Rightarrow> need_send (source_A c) | None \<Rightarrow> False)"

definition need_send_B :: "octets \<Rightarrow> manager \<Rightarrow> bool" where
  "need_send_B flag m = (case get_cdsp flag m of Some c \<Rightarrow> need_send (source_B c) | None \<Rightarrow> False)"

definition manager_clear_packets :: "octets \<Rightarrow> manager \<Rightarrow> manager" where
  "manager_clear_packets flag m = (case get_cdsp flag m of
     Some c \<Rightarrow> update_cdsp flag
       (\<lambda>c. c\<lparr> source_A := clear_packets (source_A c), source_B := clear_packets (source_B c) \<rparr>) m
   | None \<Rightarrow> m)"

text \<open>The queues of a flag, empty while it has no entry.\<close>

definition queue_of :: "(connection_data_source \<Rightarrow> packet list) \<Rightarrow> octets \<Rightarrow> manager \<Rightarrow> packet list" where
  "queue_of sel flag m = (case get_cdsp flag m of Some c \<Rightarrow> sel c | None \<Rightarrow> [])"

abbreviation in_queue_of :: "octets \<Rightarrow> manager \<Rightarrow> packet list" where
  "in_queue_of \<equiv> queue_of (\<lambda>c. in_queue (source_A c))"

abbreviation out_queue_A_of :: "octets \<Rightarrow> manager \<Rightarrow> packet list" where
  "out_queue_A_of \<equiv> queue_of (\<lambda>c. out_queue (source_A c))"

abbreviation out_queue_B_of :: "octets \<Rightarrow> manager \<Rightarrow> packet list" where
  "out_queue_B_of \<equiv> queue_of (\<lambda>c. out_queue (source_B c))"

lemma get_cdsp_flag: "get_cdsp flag m = Some c \<Longrightarrow> cds_flag c = flag"
  by (auto simp: get_cdsp_def find_Some_iff)

lemma get_update_cdsp:
  "(\<And>c. cds_flag (f c) = cds_flag c) \<Longrightarrow>
   get_cdsp g (update_cdsp flag f m) =
     (if g = flag then map_option f (get_cdsp flag m) else get_cdsp g m)"
  by (induction m) (auto simp: get_cdsp_def)

lemma get_put_cdsp:
  assumes "\<And>c. cds_flag (f c) = cds_flag c"
  shows "get_cdsp g (put_cdsp flag now f m) =
    (if g = flag \<and> flag \<noteq> [] then
       Some (f (case get_cdsp flag m of Some c \<Rightarrow> c | None \<Rightarrow> new_connection_data_source now flag))
     else get_cdsp g m)"
proof (cases "get_cdsp flag m")
  case None
  have "find P (xs @ ys) = (case find P xs of Some y \<Rightarrow> Some y | None \<Rightarrow> find P ys)" for P xs and ys :: manager
    by (induction xs) auto
  with None assms show ?thesis
    by (auto simp: put_cdsp_def get_cdsp_def new_connection_data_source_def split: option.splits)
qed (use assms in \<open>auto simp: put_cdsp_def get_update_cdsp\<close>)

lemma queue_of_put:
  assumes "\<And>c. cds_flag (f c) = cds_flag c" and "\<And>c. sel (f c) = sel c @ extra"
    and "sel (new_connection_data_source now flag) = []"
  shows "queue_of sel g (put_cdsp flag now f m) =
    queue_of sel g m @ (if g = flag \<and> flag \<noteq> [] then extra else [])"
  using assms by (simp add: queue_of_def get_put_cdsp split: option.splits)

lemma queue_of_update:
  assumes "\<And>c. cds_flag (f c) = cds_flag c"
  shows "queue_of sel g (update_cdsp flag f m) =
    (if g = flag then case get_cdsp flag m of Some c \<Rightarrow> sel (f c) | None \<Rightarrow> [] else queue_of sel g m)"
  using assms by (simp add: queue_of_def get_update_cdsp split: option.splits)

lemmas manager_add_defs = manager_add_to_in_queue_def add_to_out_queue_A_def add_to_out_queue_B_def
lemmas manager_get_defs = manager_get_from_in_queue_def get_from_out_queue_A_def get_from_out_queue_B_def

lemma queue_of_manager_put [simp]:
  "in_queue_of g (manager_add_to_in_queue flag now bp m) =
     in_queue_of g m @ (if g = flag \<and> flag \<noteq> [] then [bp] else [])"
  "out_queue_A_of g (add_to_out_queue_A flag now bp m) =
     out_queue_A_of g m @ (if g = flag \<and> flag \<noteq> [] then [bp] else [])"
  "out_queue_B_of g (add_to_out_queue_B flag now bp m) =
     out_queue_B_of g m @ (if g = flag \<and> flag \<noteq> [] then [bp] else [])"
  unfolding manager_add_defs
  by (rule queue_of_put; simp add: data_source_defs new_connection_data_source_def)+

lemma manager_get_head:
  "fst (manager_get_from_in_queue flag m) = (case in_queue_of flag m of [] \<Rightarrow> None | x # _ \<Rightarrow> Some x)"
  "fst (get_from_out_queue_A flag m) = (case out_queue_A_of flag m of [] \<Rightarrow> None | x # _ \<Rightarrow> Some x)"
  "fst (get_from_out_queue_B flag m) = (case out_queue_B_of flag m of [] \<Rightarrow> None | x # _ \<Rightarrow> Some x)"
  by (auto simp: manager_get_defs queue_of_def data_source_defs split: option.splits list.splits)

lemma queue_of_manager_get:
  "in_queue_of g (snd (manager_get_from_in_queue flag m)) =
     (if g = flag then tl (in_queue_of flag m) else in_queue_of g m)"
  "out_queue_A_of g (snd (get_from_out_queue_A flag m)) =
     (if g = flag then tl (out_queue_A_of flag m) else out_queue_A_of g m)"
  "out_queue_B_of g (snd (get_from_out_queue_B flag m)) =
     (if g = flag then tl (out_queue_B_of flag m) else out_queue_B_of g m)"
  by (cases "get_cdsp flag m"; simp add: manager_get_defs queue_of_update split: prod.splits;
      auto simp: queue_of_def data_source_defs split: list.splits)+

text \<open>The three families of queues do not touch one another.\<close>

lemma queues_independent [simp]:
  "out_queue_A_of g (manager_add_to_in_queue flag now bp m) = out_queue_A_of g m"
  "out_queue_B_of g (manager_add_to_in_queue flag now bp m) = out_queue_B_of g m"
  "in_queue_of g (add_to_out_queue_A flag now bp m) = in_queue_of g m"
  "out_queue_B_of g (add_to_out_queue_A flag now bp m) = out_queue_B_of g m"
  "in_queue_of g (add_to_out_queue_B flag now bp m) = in_queue_of g m"
  "out_queue_A_of g (add_to_out_queue_B flag now bp m) = out_queue_A_of g m"
  by (simp_all add: manager_add_defs queue_of_put [where extra = "[]"] data_source_defs
      new_connection_data_source_def)

lemma queues_independent_get [simp]:
  "out_queue_A_of g (snd (manager_get_from_in_queue flag m)) = out_queue_A_of g m"
  "out_queue_B_of g (snd (manager_get_from_in_queue flag m)) = out_queue_B_of g m"
  "in_queue_of g (snd (get_from_out_queue_A flag m)) = in_queue_of g m"
  "out_queue_B_of g (snd (get_from_out_queue_A flag m)) = out_queue_B_of g m"
  "in_queue_of g (snd (get_from_out_queue_B flag m)) = in_queue_of g m"
  "out_queue_A_of g (snd (get_from_out_queue_B flag m)) = out_queue_A_of g m"
  by (cases "get_cdsp flag m"; simp add: manager_get_defs queue_of_update split: prod.splits;
      auto simp: queue_of_def data_source_defs split: list.splits)+

text \<open>One entry per flag, none for the empty flag.\<close>

definition manager_ok :: "manager \<Rightarrow> bool" where
  "manager_ok m \<longleftrightarrow> distinct (map cds_flag m) \<and> [] \<notin> cds_flag ` set m"

lemma flags_update: "(\<And>c. cds_flag (f c) = cds_flag c) \<Longrightarrow> map cds_flag (update_cdsp flag f m) = map cds_flag m"
  by (induction m) auto

lemma manager_ok_update:
  "(\<And>c. cds_flag (f c) = cds_flag c) \<Longrightarrow> manager_ok (update_cdsp flag f m) = manager_ok m"
proof -
  assume "\<And>c. cds_flag (f c) = cds_flag c"
  then have m: "map cds_flag (update_cdsp flag f m) = map cds_flag m" by (rule flags_update)
  from arg_cong [OF m, of set, unfolded list.set_map] show ?thesis
    unfolding manager_ok_def m list.set_map by simp
qed

lemma manager_ok_put:
  assumes "\<And>c. cds_flag (f c) = cds_flag c" "manager_ok m"
  shows "manager_ok (put_cdsp flag now f m)"
proof (cases "get_cdsp flag m")
  case None
  then have "flag \<notin> cds_flag ` set m"
    by (auto simp: get_cdsp_def find_None_iff)
  with None assms show ?thesis
    by (auto simp: put_cdsp_def manager_ok_def new_connection_data_source_def)
qed (use assms in \<open>simp add: put_cdsp_def manager_ok_update\<close>)

lemma manager_ok_operations:
  assumes "manager_ok m"
  shows "manager_ok (manager_add_to_in_queue flag now bp m)"
    and "manager_ok (add_to_out_queue_A flag now bp m)"
    and "manager_ok (add_to_out_queue_B flag now bp m)"
    and "manager_ok (snd (manager_get_from_in_queue flag m))"
    and "manager_ok (snd (get_from_out_queue_A flag m))"
    and "manager_ok (snd (get_from_out_queue_B flag m))"
    and "manager_ok (manager_clear_packets flag m)"
  using assms
  by (simp_all add: manager_add_defs manager_get_defs manager_clear_packets_def manager_ok_put
      manager_ok_update split: option.splits prod.splits)

interpretation manager_in: keyed_queues manager_add_to_in_queue manager_get_from_in_queue
  in_queue_of "\<lambda>j k _. j = k \<and> k \<noteq> []" "\<lambda>p. p" manager_ok
  by unfold_locales (simp_all add: manager_get_head queue_of_manager_get manager_ok_operations)

interpretation manager_A: keyed_queues add_to_out_queue_A get_from_out_queue_A
  out_queue_A_of "\<lambda>j k _. j = k \<and> k \<noteq> []" "\<lambda>p. p" manager_ok
  by unfold_locales (simp_all add: manager_get_head queue_of_manager_get manager_ok_operations)

interpretation manager_B: keyed_queues add_to_out_queue_B get_from_out_queue_B
  out_queue_B_of "\<lambda>j k _. j = k \<and> k \<noteq> []" "\<lambda>p. p" manager_ok
  by unfold_locales (simp_all add: manager_get_head queue_of_manager_get manager_ok_operations)

text \<open>The three families as one, in any mixture of operations: a key is a queue of a flag.\<close>

datatype shared_queue = In_queue | Out_queue_A | Out_queue_B

fun shared_put :: "shared_queue \<times> octets \<Rightarrow> int \<Rightarrow> packet \<Rightarrow> manager \<Rightarrow> manager" where
  "shared_put (In_queue, flag) = manager_add_to_in_queue flag"
| "shared_put (Out_queue_A, flag) = add_to_out_queue_A flag"
| "shared_put (Out_queue_B, flag) = add_to_out_queue_B flag"

fun shared_get :: "shared_queue \<times> octets \<Rightarrow> manager \<Rightarrow> packet option \<times> manager" where
  "shared_get (In_queue, flag) = manager_get_from_in_queue flag"
| "shared_get (Out_queue_A, flag) = get_from_out_queue_A flag"
| "shared_get (Out_queue_B, flag) = get_from_out_queue_B flag"

fun shared_items :: "shared_queue \<times> octets \<Rightarrow> manager \<Rightarrow> packet list" where
  "shared_items (In_queue, flag) = in_queue_of flag"
| "shared_items (Out_queue_A, flag) = out_queue_A_of flag"
| "shared_items (Out_queue_B, flag) = out_queue_B_of flag"

interpretation shared: keyed_queues shared_put shared_get shared_items
  "\<lambda>j k _. j = k \<and> snd k \<noteq> []" "\<lambda>p. p" manager_ok
proof unfold_locales
  fix k j :: "shared_queue \<times> octets" and t :: int and p and m assume ok: "manager_ok m"
  obtain q f r g where k: "k = (q, f)" "j = (r, g)" by fastforce
  show "manager_ok (shared_put k t p m)" "manager_ok (snd (shared_get k m))"
    using ok by (cases q; simp add: k manager_ok_operations)+
  show "shared_items j (shared_put k t p m) = shared_items j m @ (if j = k \<and> snd k \<noteq> [] then [p] else [])"
    by (cases q; cases r; simp add: k)
  show "fst (shared_get k m) = (case shared_items k m of [] \<Rightarrow> None | x # _ \<Rightarrow> Some x)"
    by (cases q; simp add: k manager_get_head)
  show "shared_items j (snd (shared_get k m)) = (if j = k then tl (shared_items k m) else shared_items j m)"
    by (cases q; cases r; simp add: k queue_of_manager_get)
qed

end
