(* ===== verification/Server_Datasource.thy ===== *)
theory Server_Datasource
  imports Short_Messages Statistics Vendor Data_Sources
begin

text \<open>
  What the sessions of the server share: the messages between submission, delivery receipt and
  acknowledgement (\<open>src/public/smppserver/smppserver_datasource.cpp\<close>), with the singletons that
  its operations reach.

  The two databases are MySQL behind \<open>smis_db\<close> and \<open>records_db\<close>. They are an argument: a state of
  type \<open>'d\<close> and the operations on it.
\<close>

section \<open>State\<close>

record 'd db_ops =
  insert_to_submit_smis :: "cb_sm_information \<Rightarrow> 'd \<Rightarrow> 'd"
  get_to_submit_smis :: "nat \<Rightarrow> 'd \<Rightarrow> cb_sm_information list \<times> 'd"
  insert_to_delivery_dlrs :: "cb_sm_information \<Rightarrow> 'd \<Rightarrow> 'd"
  get_to_delivery_dlrs :: "octets \<Rightarrow> octets \<Rightarrow> nat \<Rightarrow> 'd \<Rightarrow> cb_sm_information list \<times> 'd"
  insert_to_delivery_mos :: "cb_sm_information \<Rightarrow> 'd \<Rightarrow> 'd"
  get_to_delivery_mos :: "octets \<Rightarrow> octets \<Rightarrow> nat \<Rightarrow> 'd \<Rightarrow> cb_sm_information list \<times> 'd"
  record_smis :: "cb_sm_information \<Rightarrow> 'd \<Rightarrow> 'd"
  record_mos :: "cb_sm_information \<Rightarrow> 'd \<Rightarrow> 'd"

text \<open>
  The singletons in one record: \<open>smppserver_datasource\<close> (the four lists, the configuration and
  the databases), \<open>smppserver_statistic\<close>, the accounts of \<open>vendor_runtime\<close>,
  \<open>protocol_data_source_manager\<close>, and the static variables of \<open>generate_sn\<close>.
\<close>

record 'd server =
  received_smis_queue :: "cb_sm_information list"
  wait_dlr_list :: "cb_sm_information list"
  dlr_list :: "cb_sm_information list"
  mo_list :: "cb_sm_information list"
  configer :: smppserver_configer
  database :: 'd
  statistics :: "client_statistic list"
  accounts :: "client_account list"
  sources :: manager
  generator :: sn_generator

section \<open>Operations\<close>

definition PROTOCOL_SMPP :: octets where
  "PROTOCOL_SMPP = ascii ''SMPP''"

definition smi_received :: "'d db_ops \<Rightarrow> cb_sm_information \<Rightarrow> 'd server \<Rightarrow> 'd server" where
  "smi_received ops smi w =
     (let smi_tmp = smi\<lparr> protocol_of_client := PROTOCOL_SMPP,
            server_id := configer_server_id (configer w) \<rparr>;
          w = (if use_buffer_db (configer w)
               then w\<lparr> database := insert_to_submit_smis ops smi_tmp (database w) \<rparr>
               else w\<lparr> received_smis_queue := received_smis_queue w @ [smi_tmp] \<rparr>)
      in w\<lparr> statistics := stat_smi_received (smi_systemid smi) (statistics w) \<rparr>)"

definition get_from_received_smis_queue ::
  "'d db_ops \<Rightarrow> 'd server \<Rightarrow> cb_sm_information option \<times> 'd server" where
  "get_from_received_smis_queue ops w =
     (let w = (if use_buffer_db (configer w) \<and> received_smis_queue w = [] then
                 (let (smis, d) = get_to_submit_smis ops 100 (database w)
                  in w\<lparr> received_smis_queue := received_smis_queue w @ smis, database := d \<rparr>)
               else w)
      in case received_smis_queue w of
           smi # q \<Rightarrow> (Some smi, w\<lparr> received_smis_queue := q \<rparr>)
         | [] \<Rightarrow> (None, w))"

definition add_to_dlr_list :: "'d db_ops \<Rightarrow> cb_sm_information \<Rightarrow> 'd server \<Rightarrow> 'd server" where
  "add_to_dlr_list ops smi w =
     (let w = (if use_buffer_db (configer w)
               then w\<lparr> database := insert_to_delivery_dlrs ops smi (database w) \<rparr>
               else w\<lparr> dlr_list := dlr_list w @ [smi] \<rparr>);
          w = (if record_mt_mo (configer w)
               then w\<lparr> database := record_smis ops smi (database w) \<rparr> else w)
      in w\<lparr> statistics := stat_dlr_generated (smi_systemid smi) (statistics w) \<rparr>)"

text \<open>
  The loops that look for the first entry to push, mark it and return the marked copy, and for
  the first entry to erase.
\<close>

fun push_first :: "(cb_sm_information \<Rightarrow> bool) \<Rightarrow> cb_sm_information list \<Rightarrow>
    (cb_sm_information \<times> cb_sm_information list) option" where
  "push_first P [] = None"
| "push_first P (x # xs) =
     (if P x then Some (x\<lparr> state := SMI_STATE_IS_PUSHING \<rparr>, x\<lparr> state := SMI_STATE_IS_PUSHING \<rparr> # xs)
      else case push_first P xs of Some (y, ys) \<Rightarrow> Some (y, x # ys) | None \<Rightarrow> None)"

fun erase_first :: "(cb_sm_information \<Rightarrow> bool) \<Rightarrow> cb_sm_information list \<Rightarrow>
    (cb_sm_information \<times> cb_sm_information list) option" where
  "erase_first P [] = None"
| "erase_first P (x # xs) =
     (if P x then Some (x, xs)
      else case erase_first P xs of Some (y, ys) \<Rightarrow> Some (y, x # ys) | None \<Rightarrow> None)"

abbreviation deliveried :: "cb_sm_information \<Rightarrow> cb_sm_information" where
  "deliveried x \<equiv> x\<lparr> state := SMI_STATE_IS_DELIVERIED \<rparr>"

definition peek_dlr ::
  "'d db_ops \<Rightarrow> octets \<Rightarrow> 'd server \<Rightarrow> cb_sm_information option \<times> 'd server" where
  "peek_dlr ops sysid w =
     (let w = (if use_buffer_db (configer w) \<and> mo_list w = [] then
                 (let (smis, d) = get_to_delivery_dlrs ops (configer_server_id (configer w)) sysid 100
                        (database w)
                  in w\<lparr> dlr_list := dlr_list w @ map deliveried smis, database := d \<rparr>)
               else w)
      in case push_first (\<lambda>x. smi_systemid x = sysid \<and> state x = SMI_STATE_IS_DELIVERIED) (dlr_list w) of
           Some (smi, l) \<Rightarrow> (Some smi, w\<lparr> dlr_list := l \<rparr>)
         | None \<Rightarrow> (None, w))"

definition remove_dlr :: "uint32 \<Rightarrow> 'd server \<Rightarrow> bool \<times> 'd server" where
  "remove_dlr sn w = (case erase_first (\<lambda>x. sn = sn_by_protocol_server x) (dlr_list w) of
     Some (smi, l) \<Rightarrow> (True, w\<lparr> dlr_list := l,
       statistics := stat_dlr_pushed (smi_systemid smi) (statistics w) \<rparr>)
   | None \<Rightarrow> (False, w))"

definition add_to_wait_dlr_list :: "cb_sm_information \<Rightarrow> 'd server \<Rightarrow> 'd server" where
  "add_to_wait_dlr_list smi w =
     w\<lparr> wait_dlr_list := wait_dlr_list w @ [smi\<lparr> state := SMI_STATE_IS_DELIVERING \<rparr>] \<rparr>"

definition get_from_wait_dlr_list ::
  "octets \<Rightarrow> 'd server \<Rightarrow> cb_sm_information option \<times> 'd server" where
  "get_from_wait_dlr_list message_id w =
     (case erase_first (\<lambda>x. message_id_of_protocol_server x = message_id \<and>
         state x = SMI_STATE_IS_DELIVERING) (wait_dlr_list w) of
        Some (smi, l) \<Rightarrow> (Some smi, w\<lparr> wait_dlr_list := l \<rparr>)
      | None \<Rightarrow> (None, w))"

definition query_a_message_id_from_wait_dlr_list :: "'d server \<Rightarrow> octets" where
  "query_a_message_id_from_wait_dlr_list w =
     (case wait_dlr_list w of x # _ \<Rightarrow> message_id_of_protocol_server x | [] \<Rightarrow> [])"

definition add_to_mo_list :: "'d db_ops \<Rightarrow> cb_sm_information \<Rightarrow> 'd server \<Rightarrow> 'd server" where
  "add_to_mo_list ops smi w =
     (let w = (if use_buffer_db (configer w)
               then w\<lparr> database := insert_to_delivery_mos ops smi (database w) \<rparr>
               else w\<lparr> mo_list := mo_list w @ [smi] \<rparr>);
          w = (if record_mt_mo (configer w)
               then w\<lparr> database := record_mos ops smi (database w) \<rparr> else w)
      in w\<lparr> statistics := stat_mo_generated (smi_systemid smi) (statistics w) \<rparr>)"

definition peek_mo ::
  "'d db_ops \<Rightarrow> octets \<Rightarrow> 'd server \<Rightarrow> cb_sm_information option \<times> 'd server" where
  "peek_mo ops sysid w =
     (case get_src_addr_by_systemid (accounts w) sysid of
        None \<Rightarrow> (None, w)
      | Some src \<Rightarrow>
          let w = (if use_buffer_db (configer w) \<and> mo_list w = [] then
                     (let (smis, d) = get_to_delivery_mos ops (configer_server_id (configer w)) src 100
                            (database w)
                      in w\<lparr> mo_list := mo_list w @ map deliveried smis, database := d \<rparr>)
                   else w)
          in case push_first (\<lambda>x. dst_addr x = src \<and> state x = SMI_STATE_IS_DELIVERIED) (mo_list w) of
               Some (smi, l) \<Rightarrow> (Some smi, w\<lparr> mo_list := l \<rparr>)
             | None \<Rightarrow> (None, w))"

definition remove_mo :: "uint32 \<Rightarrow> 'd server \<Rightarrow> bool \<times> 'd server" where
  "remove_mo sn w = (case erase_first (\<lambda>x. sn = sn_by_protocol_server x) (mo_list w) of
     Some (smi, l) \<Rightarrow> (True, w\<lparr> mo_list := l,
       statistics := stat_mo_pushed (smi_systemid smi) (statistics w) \<rparr>)
   | None \<Rightarrow> (False, w))"

definition dlrresp_received :: "uint32 \<Rightarrow> 'd server \<Rightarrow> bool \<times> 'd server" where
  "dlrresp_received sn w = (let (removed, w) = remove_dlr sn w in
     if \<not> removed then remove_mo sn w else (removed, w))"

section \<open>Lists of messages\<close>

lemma push_first_None: "push_first P xs = None \<longleftrightarrow> filter P xs = []"
  by (induction xs) (auto split: option.splits)

lemma push_first_SomeD:
  "push_first P xs = Some (y, ys) \<Longrightarrow>
   \<exists>us x vs. xs = us @ x # vs \<and> (\<forall>u \<in> set us. \<not> P u) \<and> P x \<and>
     y = x\<lparr> state := SMI_STATE_IS_PUSHING \<rparr> \<and> ys = us @ y # vs"
proof (induction xs arbitrary: ys)
  case (Cons a xs)
  show ?case
  proof (cases "P a")
    case True
    with Cons.prems show ?thesis by (intro exI [of _ "[]"]) auto
  next
    case False
    with Cons.prems obtain zs where "push_first P xs = Some (y, zs)" "ys = a # zs"
      by (auto split: option.splits)
    with Cons.IH [of zs] obtain us x vs where "xs = us @ x # vs" "\<forall>u \<in> set us. \<not> P u" "P x"
      "y = x\<lparr> state := SMI_STATE_IS_PUSHING \<rparr>" "ys = (a # us) @ y # vs"
      by auto
    with False show ?thesis by (intro exI [of _ "a # us"]) auto
  qed
qed simp

lemma erase_first_SomeD:
  "erase_first P xs = Some (y, ys) \<Longrightarrow>
   \<exists>us vs. xs = us @ y # vs \<and> (\<forall>u \<in> set us. \<not> P u) \<and> P y \<and> ys = us @ vs"
proof (induction xs arbitrary: ys)
  case (Cons a xs)
  show ?case
  proof (cases "P a")
    case True
    with Cons.prems show ?thesis by (intro exI [of _ "[]"] exI [of _ xs]) auto
  next
    case False
    with Cons.prems obtain zs where "erase_first P xs = Some (y, zs)" "ys = a # zs"
      by (auto split: option.splits)
    with Cons.IH [of zs] obtain us vs where "xs = us @ y # vs" "\<forall>u \<in> set us. \<not> P u" "P y"
      "ys = (a # us) @ vs"
      by auto
    with False show ?thesis by (intro exI [of _ "a # us"] exI [of _ vs]) auto
  qed
qed simp

lemma erase_first_None: "erase_first P xs = None \<longleftrightarrow> (\<forall>x \<in> set xs. \<not> P x)"
  by (induction xs) (auto split: option.splits)

text \<open>The receipts of a client that wait to be pushed.\<close>

definition to_push :: "octets \<Rightarrow> cb_sm_information list \<Rightarrow> cb_sm_information list" where
  "to_push sysid xs = filter (\<lambda>x. smi_systemid x = sysid \<and> state x = SMI_STATE_IS_DELIVERIED) xs"

lemma to_push_simps [simp]:
  "to_push s [] = []" "to_push s (xs @ ys) = to_push s xs @ to_push s ys"
  "to_push s (x # xs) = (if smi_systemid x = s \<and> state x = SMI_STATE_IS_DELIVERIED
     then x # to_push s xs else to_push s xs)"
  by (simp_all add: to_push_def)

lemma push_first_to_push:
  assumes "push_first (\<lambda>x. smi_systemid x = s \<and> state x = SMI_STATE_IS_DELIVERIED) xs = Some (y, ys)"
  shows "to_push s xs = deliveried y # to_push s ys" and "smi_systemid y = s"
    and "t \<noteq> s \<Longrightarrow> to_push t ys = to_push t xs"
proof -
  from push_first_SomeD [OF assms] obtain us x vs where xs: "xs = us @ x # vs"
    and us: "\<forall>u \<in> set us. \<not> (smi_systemid u = s \<and> state u = SMI_STATE_IS_DELIVERIED)"
    and x: "smi_systemid x = s" "state x = SMI_STATE_IS_DELIVERIED"
    and y: "y = x\<lparr> state := SMI_STATE_IS_PUSHING \<rparr>" and ys: "ys = us @ y # vs"
    by auto
  have "to_push s us = []"
    using us by (auto simp: to_push_def filter_empty_conv)
  moreover have "deliveried y = x"
    using x(2) y by simp
  ultimately show "to_push s xs = deliveried y # to_push s ys"
    using x unfolding xs ys y by simp
  show "smi_systemid y = s" using x y by simp
  show "to_push t ys = to_push t xs" if "t \<noteq> s"
    using that x unfolding xs ys y by simp
qed

text \<open>
  Without the buffer database the receipts of each client form a queue: adding a receipt that
  has arrived puts it at the end, and \<open>peek_dlr\<close> takes the first.
\<close>

definition memory_only :: "'d server \<Rightarrow> bool" where
  "memory_only w \<longleftrightarrow> \<not> use_buffer_db (configer w)"

definition arrived :: "octets \<Rightarrow> cb_sm_information \<Rightarrow> bool" where
  "arrived sysid x \<longleftrightarrow> smi_systemid x = sysid \<and> state x = SMI_STATE_IS_DELIVERIED"

lemma add_to_dlr_list_steps:
  "configer (add_to_dlr_list ops x w) = configer w"
  "memory_only w \<Longrightarrow> dlr_list (add_to_dlr_list ops x w) = dlr_list w @ [x]"
  by (simp_all add: add_to_dlr_list_def memory_only_def Let_def)

lemma peek_dlr_memory:
  "memory_only w \<Longrightarrow> peek_dlr ops s w =
   (case push_first (\<lambda>x. smi_systemid x = s \<and> state x = SMI_STATE_IS_DELIVERIED) (dlr_list w) of
      Some (smi, l) \<Rightarrow> (Some smi, w\<lparr> dlr_list := l \<rparr>) | None \<Rightarrow> (None, w))"
  by (simp add: peek_dlr_def memory_only_def)

abbreviation pushing :: "cb_sm_information \<Rightarrow> cb_sm_information" where
  "pushing x \<equiv> x\<lparr> state := SMI_STATE_IS_PUSHING \<rparr>"

abbreviation receipts :: "octets \<Rightarrow> 'd server \<Rightarrow> cb_sm_information list" where
  "receipts sysid w \<equiv> to_push sysid (dlr_list w)"

lemma peek_dlr_receipts:
  assumes "memory_only w"
  shows "fst (peek_dlr ops s w) = (case receipts s w of [] \<Rightarrow> None | x # _ \<Rightarrow> Some (pushing x))"
    and "receipts t (snd (peek_dlr ops s w)) = (if t = s then tl (receipts s w) else receipts t w)"
    and "memory_only (snd (peek_dlr ops s w))"
proof -
  let ?P = "\<lambda>x. smi_systemid x = s \<and> state x = SMI_STATE_IS_DELIVERIED"
  have "fst (peek_dlr ops s w) = (case receipts s w of [] \<Rightarrow> None | x # _ \<Rightarrow> Some (pushing x)) \<and>
    receipts t (snd (peek_dlr ops s w)) = (if t = s then tl (receipts s w) else receipts t w) \<and>
    memory_only (snd (peek_dlr ops s w))"
  proof (cases "push_first ?P (dlr_list w)")
    case None
    then have "receipts s w = []"
      by (simp add: push_first_None to_push_def)
    with None assms show ?thesis by (simp add: peek_dlr_memory)
  next
    case (Some yl)
    then obtain y l where p: "push_first ?P (dlr_list w) = Some (y, l)" by (cases yl) simp
    moreover have "pushing (deliveried y) = y"
      using push_first_SomeD [OF p] by auto
    ultimately show ?thesis
      using assms push_first_to_push [OF p] by (simp add: peek_dlr_memory memory_only_def)
  qed
  then show "fst (peek_dlr ops s w) = (case receipts s w of [] \<Rightarrow> None | x # _ \<Rightarrow> Some (pushing x))"
    and "receipts t (snd (peek_dlr ops s w)) = (if t = s then tl (receipts s w) else receipts t w)"
    and "memory_only (snd (peek_dlr ops s w))" by blast+
qed

interpretation receipt_q: keyed_queues "\<lambda>_ (_ :: unit). add_to_dlr_list ops" "peek_dlr ops" receipts
  "\<lambda>j _. arrived j" pushing memory_only for ops
  by unfold_locales
    (simp_all add: peek_dlr_receipts add_to_dlr_list_steps arrived_def,
      simp add: memory_only_def add_to_dlr_list_steps)

end
