(* ===== verification/Data_Coding.thy ===== *)
theory Data_Coding
  imports Aux_Types
begin

text \<open>
  Conversion between UTF-8 and the UCS-2 of the short message, and the splitting of long messages
  (\<open>src/public/smpp_datacoding_convert/smpp_datacoding_toolkit.cpp\<close>). The host is
  little-endian, as for the codec. A \<open>char*\<close> is the list of the octets from there on, with its
  final NUL.
\<close>

section \<open>UTF-8 to UCS-2\<close>

text \<open>
  Gives the code unit, if there is one, and the position after it (\<open>*end_ptr\<close>). The mask of the
  second test also lets through the octets that start a sequence of four.
\<close>

definition utf8_chars_to_ucs2 :: "octets \<Rightarrow> (uint16 option \<times> octets) result" where
  "utf8_chars_to_ucs2 input = bind (get_octet input) (\<lambda>c0.
     if c0 = 0 then Inr (None, input)
     else if c0 < 0x80 then Inr (Some (ucast c0), drop 1 input)
     else if c0 AND 0xE0 = 0xE0 then
       bind (get_octet (drop 1 input)) (\<lambda>c1.
       if c1 = 0 then Inr (None, input) else
       bind (get_octet (drop 2 input)) (\<lambda>c2.
       if c2 = 0 then Inr (None, input) else
       Inr (Some (push_bit 12 (ucast (c0 AND 0x0F)) OR push_bit 6 (ucast (c1 AND 0x3F)) OR
         ucast (c2 AND 0x3F)), drop 3 input)))
     else if c0 AND 0xC0 = 0xC0 then
       bind (get_octet (drop 1 input)) (\<lambda>c1.
       if c1 = 0 then Inr (None, input) else
       Inr (Some (push_bit 6 (ucast (c0 AND 0x1F)) OR ucast (c1 AND 0x3F)), drop 2 input))
     else Inr (None, input))"

text \<open>
  The loop does not end when a step makes no progress: the value of a run that does not return
  is \<open>None\<close>. \<open>us\<close> is what is in \<open>ucs2[0]\<close> to \<open>ucs2[index - 1]\<close>.
\<close>

partial_function (option) convert_utf8_bytes_to_ucs2 ::
  "octets \<Rightarrow> uint16 list \<Rightarrow> uint16 list result option" where
  "convert_utf8_bytes_to_ucs2 p1 us =
     (case get_octet p1 of Inl e \<Rightarrow> Some (Inl e) | Inr c \<Rightarrow>
      if c = 0 then Some (Inr us) else
      (case utf8_chars_to_ucs2 p1 of Inl e \<Rightarrow> Some (Inl e) | Inr (u, p2) \<Rightarrow>
        (case get_octet p2 of Inl e \<Rightarrow> Some (Inl e) | Inr c2 \<Rightarrow>
         if c2 = 0 then Some (Inr (case u of Some v \<Rightarrow> us @ [v] | None \<Rightarrow> us))
         else convert_utf8_bytes_to_ucs2 p2 (case u of Some v \<Rightarrow> us @ [v] | None \<Rightarrow> us))))"

text \<open>\<open>change_endian_1\<close> takes the two octets of a unit out of memory.\<close>

definition change_endian_1 :: "uint16 \<Rightarrow> octet \<times> octet" where
  "change_endian_1 us = (host_octets16 False us ! 0, host_octets16 False us ! 1)"

definition smpp_datacoding_convert_utf8_to_ucs2 :: "octets \<Rightarrow> octets result option" where
  "smpp_datacoding_convert_utf8_to_ucs2 utf8 =
     (case strlen utf8 of Inl e \<Rightarrow> Some (Inl e) | Inr _ \<Rightarrow>
      (case convert_utf8_bytes_to_ucs2 utf8 [] of
         None \<Rightarrow> None
       | Some r \<Rightarrow> Some (bind r (\<lambda>us.
           Inr (concat (map (\<lambda>u. let (c1, c2) = change_endian_1 u in [c2, c1]) us))))))"

section \<open>UCS-2 to UTF-8\<close>

text \<open>The argument is an \<open>int\<close>, which is never negative.\<close>

definition convert_ucs2_to_utf8_chars :: "uint32 \<Rightarrow> octets" where
  "convert_ucs2_to_utf8_chars u =
     (if u < 0x80 then [ucast u]
      else if 0x80 \<le> u \<and> u < 0x800 then
        [ucast (drop_bit 6 u OR 0xC0), ucast ((u AND 0x3F) OR 0x80)]
      else if 0x800 \<le> u \<and> u < 0xFFFF then
        (if 0xD800 \<le> u \<and> u \<le> 0xDFFF then []
         else [ucast (drop_bit 12 u OR 0xE0), ucast ((drop_bit 6 u AND 0x3F) OR 0x80),
           ucast ((u AND 0x3F) OR 0x80)])
      else if 0x10000 \<le> u \<and> u < 0x10FFFF then
        [ucast (0xF0 OR drop_bit 18 u), ucast (0x80 OR (drop_bit 12 u AND 0x3F)),
         ucast (0x80 OR (drop_bit 6 u AND 0x3F)), ucast (0x80 OR (u AND 0x3F))]
      else [])"

text \<open>\<open>change_endian_2\<close> reads a unit most significant octet first.\<close>

definition change_endian_2 :: "octet \<Rightarrow> octet \<Rightarrow> uint16" where
  "change_endian_2 c1 c2 = push_bit 8 (ucast c1) + ucast c2"

fun ucs2_to_utf8_loop :: "octets \<Rightarrow> nat \<Rightarrow> octets result" where
  "ucs2_to_utf8_loop p 0 = Inr []"
| "ucs2_to_utf8_loop p (Suc n) =
     bind (get_octet p) (\<lambda>c1. bind (get_octet (drop 1 p)) (\<lambda>c2.
     bind (ucs2_to_utf8_loop (drop 2 p) n) (\<lambda>r.
     Inr (convert_ucs2_to_utf8_chars (ucast (change_endian_2 c1 c2)) @ r))))"

text \<open>The buffer is zeroed and has room to spare; the string made of it ends at its first NUL.\<close>

definition smpp_datacoding_convert_ucs2_to_utf8 :: "octets \<Rightarrow> nat \<Rightarrow> octets result" where
  "smpp_datacoding_convert_ucs2_to_utf8 ucs2 short_count =
     bind (ucs2_to_utf8_loop ucs2 short_count) (\<lambda>r. Inr (takeWhile (\<lambda>c. c \<noteq> 0) r))"

definition smpp_datacoding_is_pure_ascii :: "octets \<Rightarrow> bool result" where
  "smpp_datacoding_is_pure_ascii utf8 = bind (strlen utf8) (\<lambda>len.
     Inr (\<forall>i < len. \<not> utf8 ! i \<ge> 0xa0))"

section \<open>Text in the basic plane\<close>

text \<open>The code units that the converters can carry.\<close>

definition bmp :: "uint16 \<Rightarrow> bool" where
  "bmp u \<longleftrightarrow> u \<noteq> 0 \<and> \<not> (0xD800 \<le> u \<and> u \<le> 0xDFFF) \<and> u \<noteq> 0xFFFF"

definition utf8_of :: "uint16 list \<Rightarrow> octets" where
  "utf8_of us = concat (map (\<lambda>u. convert_ucs2_to_utf8_chars (ucast u)) us)"

definition ucs2_of :: "uint16 list \<Rightarrow> octets" where
  "ucs2_of us = concat (map be_octets16 us)"

lemma utf8_of_simps [simp]:
  "utf8_of [] = []" "utf8_of (u # us) = convert_ucs2_to_utf8_chars (ucast u) @ utf8_of us"
  "utf8_of (us @ vs) = utf8_of us @ utf8_of vs"
  by (simp_all add: utf8_of_def)

lemma ucs2_of_simps [simp]:
  "ucs2_of [] = []" "ucs2_of (u # us) = be_octets16 u @ ucs2_of us" "length (ucs2_of us) = 2 * length us"
  by (simp_all add: ucs2_of_def, induction us) simp_all

lemma octet_masks:
  "(0x3F :: octet) = mask 6" "(0x0F :: octet) = mask 4" "(0x1F :: octet) = mask 5"
  "(0xE0 :: octet) = push_bit 5 (mask 3)" "(0xC0 :: octet) = push_bit 6 (mask 2)"
  "(0x3F :: uint32) = mask 6" "(0xE0 :: uint32) = push_bit 5 (mask 3)"
  "(0xC0 :: uint32) = push_bit 6 (mask 2)"
  by (simp_all add: mask_eq_exp_minus_1 push_bit_eq_mult)

lemma bit_0x80:
  "bit (0x80 :: uint32) m \<longleftrightarrow> m = 7" "bit (0x80 :: uint16) m \<longleftrightarrow> m = 7"
  "bit (0x80 :: octet) m \<longleftrightarrow> m = 7" "bit (0x80 :: int) m \<longleftrightarrow> m = 7" "bit (0x80 :: nat) m \<longleftrightarrow> m = 7"
  using bit_exp_iff [of 7 m, where ?'a = "32 word"] bit_exp_iff [of 7 m, where ?'a = "16 word"]
    bit_exp_iff [of 7 m, where ?'a = "8 word"] bit_exp_iff [of 7 m, where ?'a = int]
    bit_exp_iff [of 7 m, where ?'a = nat] by auto

lemma bit_above: "u < 2 ^ n \<Longrightarrow> n \<le> m \<Longrightarrow> \<not> bit (u :: 'a::len word) m"
proof -
  assume "u < 2 ^ n" "n \<le> m"
  then have "u AND mask n = u" by (simp add: less_mask_eq)
  then have "bit u m = bit (u AND mask n) m" by simp
  then show ?thesis
    using \<open>n \<le> m\<close> by (simp add: bit_simps)
qed

lemma below_bits:
  assumes "n < LENGTH('a)" "\<And>m. n \<le> m \<Longrightarrow> m < LENGTH('a) \<Longrightarrow> \<not> bit (u :: 'a::len word) m"
  shows "u < 2 ^ n"
proof -
  have "u AND mask n = u"
  proof (rule bit_word_eqI)
    fix m assume "m < LENGTH('a)"
    then show "bit (u AND mask n) m = bit u m"
      using assms(2) [of m] by (cases "m < n") (auto simp: bit_simps)
  qed
  then show ?thesis
    using and_mask_less' [OF assms(1), of u] by simp
qed

lemma ge_128: "(c :: octet) < 0x80 \<longleftrightarrow> \<not> bit c 7"
proof
  assume "c < 0x80"
  then show "\<not> bit c 7" using bit_above [of c 7 7] by simp
next
  assume n: "\<not> bit c 7"
  have "c < 2 ^ 7"
  proof (rule below_bits)
    fix m assume "7 \<le> m" "m < LENGTH(8)"
    then have "m = 7" by simp
    with n show "\<not> bit c m" by simp
  qed simp
  then show "c < 0x80" by simp
qed

text \<open>The three forms that give a unit, and the octets that do not.\<close>

lemma utf8_1: "c \<noteq> 0 \<Longrightarrow> c < 0x80 \<Longrightarrow> utf8_chars_to_ucs2 (c # rest) = Inr (Some (ucast c), rest)"
  by (simp add: utf8_chars_to_ucs2_def get_octet_def)

lemma utf8_2:
  "\<not> c0 < 0x80 \<Longrightarrow> c0 AND 0xE0 \<noteq> 0xE0 \<Longrightarrow> c0 AND 0xC0 = 0xC0 \<Longrightarrow> \<not> c1 < 0x80 \<Longrightarrow>
   utf8_chars_to_ucs2 (c0 # c1 # rest) =
     Inr (Some (push_bit 6 (ucast (c0 AND 0x1F)) OR ucast (c1 AND 0x3F)), rest)"
  by (auto simp: utf8_chars_to_ucs2_def get_octet_def)

lemma utf8_3:
  "\<not> c0 < 0x80 \<Longrightarrow> c0 AND 0xE0 = 0xE0 \<Longrightarrow> \<not> c1 < 0x80 \<Longrightarrow> \<not> c2 < 0x80 \<Longrightarrow>
   utf8_chars_to_ucs2 (c0 # c1 # c2 # rest) =
     Inr (Some (push_bit 12 (ucast (c0 AND 0x0F)) OR push_bit 6 (ucast (c1 AND 0x3F)) OR
       ucast (c2 AND 0x3F)), rest)"
  by (auto simp: utf8_chars_to_ucs2_def get_octet_def)

lemma utf8_stuck:
  "\<not> c0 < 0x80 \<Longrightarrow> c0 AND 0xE0 \<noteq> 0xE0 \<Longrightarrow> c0 AND 0xC0 \<noteq> 0xC0 \<Longrightarrow>
   utf8_chars_to_ucs2 (c0 # rest) = Inr (None, c0 # rest)"
  by (auto simp: utf8_chars_to_ucs2_def get_octet_def)

text \<open>Reading a unit that was just written, and nothing else of the string.\<close>

lemma nonzero_bit: "bit (c :: 'a::len word) n \<Longrightarrow> c \<noteq> 0"
  by auto

lemma ge_0x80_nonzero: "\<not> c < (0x80 :: octet) \<Longrightarrow> c \<noteq> 0"
  by auto

lemma bits_of_E0: "c AND 0xE0 = (0xE0 :: octet) \<Longrightarrow> bit c 5"
proof -
  assume "c AND 0xE0 = 0xE0"
  then have "bit (c AND 0xE0) 5 = bit (0xE0 :: octet) 5" by simp
  then show ?thesis unfolding octet_masks by (simp add: bit_simps)
qed

text \<open>The octets of a unit have one of three forms.\<close>

definition form1 :: "uint16 \<Rightarrow> octets \<Rightarrow> bool" where
  "form1 u cs \<longleftrightarrow> (\<exists>c. cs = [c] \<and> c \<noteq> 0 \<and> c < 0x80 \<and> ucast c = u)"

definition form2 :: "uint16 \<Rightarrow> octets \<Rightarrow> bool" where
  "form2 u cs \<longleftrightarrow> (\<exists>c0 c1. cs = [c0, c1] \<and> \<not> c0 < 0x80 \<and> \<not> c1 < 0x80 \<and>
     c0 AND 0xE0 \<noteq> 0xE0 \<and> c0 AND 0xC0 = 0xC0 \<and>
     push_bit 6 (ucast (c0 AND 0x1F)) OR ucast (c1 AND 0x3F) = u)"

definition form3 :: "uint16 \<Rightarrow> octets \<Rightarrow> bool" where
  "form3 u cs \<longleftrightarrow> (\<exists>c0 c1 c2. cs = [c0, c1, c2] \<and> \<not> c0 < 0x80 \<and> \<not> c1 < 0x80 \<and> \<not> c2 < 0x80 \<and>
     c0 AND 0xE0 = 0xE0 \<and>
     push_bit 12 (ucast (c0 AND 0x0F)) OR push_bit 6 (ucast (c1 AND 0x3F)) OR ucast (c2 AND 0x3F) = u)"

lemma bit_ucast_high: "16 \<le> m \<Longrightarrow> \<not> bit (u :: uint16) m"
  using bit_imp_le_length [of u m] by auto

lemma bit_below:
  "(ucast (u :: uint16) :: uint32) < 2 ^ n \<Longrightarrow> n \<le> m \<Longrightarrow> \<not> bit u m"
  using bit_above [of "ucast u :: uint32" n m] bit_ucast_high [of m u]
  by (cases "m < 16") (auto simp: bit_simps)

lemma form1_ucs2:
  assumes "bmp u" "ucast u < (0x80 :: uint32)"
  shows "form1 u (convert_ucs2_to_utf8_chars (ucast u))"
proof -
  let ?c = "ucast (ucast u :: uint32) :: octet"
  have b: "\<not> bit u m" if "7 \<le> m" for m
    using bit_below [of u 7 m] assms(2) that by simp
  have e: "(ucast ?c :: uint16) = u"
  proof (rule bit_word_eqI)
    fix m assume "m < LENGTH(16)"
    then show "bit (ucast ?c :: uint16) m = bit u m"
      using b [of m] by (cases "m < 7") (auto simp: bit_simps)
  qed
  moreover from e have "?c \<noteq> 0"
    using assms(1) by (auto simp: bmp_def)
  moreover have "?c < 0x80"
    unfolding ge_128 using b [of 7] by (simp add: bit_simps)
  moreover have "convert_ucs2_to_utf8_chars (ucast u) = [?c]"
    using assms(2) by (simp only: convert_ucs2_to_utf8_chars_def if_True)
  ultimately show ?thesis unfolding form1_def by blast
qed

lemma form2_ucs2:
  assumes "\<not> ucast u < (0x80 :: uint32)" "ucast u < (0x800 :: uint32)"
  shows "form2 u (convert_ucs2_to_utf8_chars (ucast u))"
proof -
  let ?u = "ucast u :: uint32"
  let ?c0 = "ucast (drop_bit 6 ?u OR 0xC0) :: octet" and ?c1 = "ucast ((?u AND 0x3F) OR 0x80) :: octet"
  have b: "\<not> bit u m" if "11 \<le> m" for m
    using bit_below [of u 11 m] assms(2) that by simp
  have "bit ?c0 7" "bit ?c1 7" "\<not> bit ?c0 5"
    using b [of 11] unfolding octet_masks by (simp_all add: bit_simps bit_0x80)
  then have "\<not> ?c0 < 0x80" "\<not> ?c1 < 0x80" "?c0 AND 0xE0 \<noteq> 0xE0"
    using ge_128 bits_of_E0 by blast+
  moreover have "?c0 AND 0xC0 = 0xC0"
    unfolding octet_masks by (rule bit_word_eqI) (auto simp: bit_simps)
  moreover have "push_bit 6 (ucast (?c0 AND 0x1F)) OR ucast (?c1 AND 0x3F) = u" (is "?l = u")
  proof (rule bit_word_eqI)
    fix m assume "m < LENGTH(16)"
    then show "bit ?l m = bit u m"
      using b [of m] unfolding octet_masks by (cases "m < 11") (auto simp: bit_simps bit_0x80 not_less)
  qed
  moreover have "convert_ucs2_to_utf8_chars ?u = [?c0, ?c1]"
    using assms by (simp add: convert_ucs2_to_utf8_chars_def not_less)
  ultimately show ?thesis unfolding form2_def by blast
qed

lemma form3_ucs2:
  assumes "bmp u" "\<not> ucast u < (0x800 :: uint32)"
  shows "form3 u (convert_ucs2_to_utf8_chars (ucast u))"
proof -
  let ?u = "ucast u :: uint32"
  let ?c0 = "ucast (drop_bit 12 ?u OR 0xE0) :: octet"
    and ?c1 = "ucast ((drop_bit 6 ?u AND 0x3F) OR 0x80) :: octet"
    and ?c2 = "ucast ((?u AND 0x3F) OR 0x80) :: octet"
  have "bit ?c0 7" "bit ?c1 7" "bit ?c2 7"
    unfolding octet_masks by (simp_all add: bit_simps bit_0x80)
  then have "\<not> ?c0 < 0x80" "\<not> ?c1 < 0x80" "\<not> ?c2 < 0x80"
    using ge_128 by blast+
  moreover have "?c0 AND 0xE0 = 0xE0"
    unfolding octet_masks by (rule bit_word_eqI) (auto simp: bit_simps)
  moreover have e: "push_bit 12 (ucast (?c0 AND 0x0F)) OR push_bit 6 (ucast (?c1 AND 0x3F)) OR
      ucast (?c2 AND 0x3F) = u" (is "?l = u")
  proof (rule bit_word_eqI)
    fix m assume m: "m < LENGTH(16)"
    consider "m < 6" | "6 \<le> m" "m < 12" | "12 \<le> m" by linarith
    then show "bit ?l m = bit u m"
      using m unfolding octet_masks by cases (auto simp: bit_simps bit_0x80)
  qed
  note form = calculation e
  have "?u < 0xFFFF \<and> \<not> (0xD800 \<le> ?u \<and> ?u \<le> 0xDFFF)"
    using assms(1) unsigned_less [of u, where ?'a = int] word_uint_eq_iff [of u "0xFFFF"]
    by (simp add: bmp_def word_less_def word_le_def uint_up_ucast is_up)
  moreover have "0x80 \<le> ?u"
    using assms(2) order_trans [of "0x80" "0x800" ?u] by (simp add: not_less)
  ultimately have "convert_ucs2_to_utf8_chars ?u = [?c0, ?c1, ?c2]"
    using assms(2) by (simp add: convert_ucs2_to_utf8_chars_def not_less)
  with form show ?thesis unfolding form3_def by blast
qed

lemma bmp_forms:
  "bmp u \<Longrightarrow> form1 u (convert_ucs2_to_utf8_chars (ucast u)) \<or>
   form2 u (convert_ucs2_to_utf8_chars (ucast u)) \<or> form3 u (convert_ucs2_to_utf8_chars (ucast u))"
  using form1_ucs2 form2_ucs2 form3_ucs2 by blast

lemma utf8_chars_bmp:
  "bmp u \<Longrightarrow> utf8_chars_to_ucs2 (convert_ucs2_to_utf8_chars (ucast u) @ rest) = Inr (Some u, rest)"
  using bmp_forms [of u] utf8_2 utf8_3
  by (auto simp: form1_def form2_def form3_def utf8_1 simp del: not_less)

lemma bmp_octets:
  assumes "bmp u"
  shows "convert_ucs2_to_utf8_chars (ucast u) \<noteq> []" "0 \<notin> set (convert_ucs2_to_utf8_chars (ucast u))"
  using bmp_forms [OF assms] by (auto simp: form1_def form2_def form3_def)

lemma utf8_of_no_nul: "list_all bmp us \<Longrightarrow> 0 \<notin> set (utf8_of us)"
  by (induction us) (simp_all add: bmp_octets)

section \<open>The loops\<close>

text \<open>Text of the basic plane is converted unit by unit, up to the NUL or the rest.\<close>

lemma convert_step:
  assumes "bmp u" "rest \<noteq> []" "hd rest \<noteq> 0"
  shows "convert_utf8_bytes_to_ucs2 (convert_ucs2_to_utf8_chars (ucast u) @ rest) acc =
    convert_utf8_bytes_to_ucs2 rest (acc @ [u])"
proof -
  obtain c cs where c: "convert_ucs2_to_utf8_chars (ucast u) = c # cs" "c \<noteq> 0"
    using bmp_octets [OF assms(1)] by (cases "convert_ucs2_to_utf8_chars (ucast u)") auto
  have "get_octet rest = Inr (hd rest)"
    using assms(2) by (cases rest) (simp_all add: get_octet_def)
  moreover have "utf8_chars_to_ucs2 (c # cs @ rest) = Inr (Some u, rest)"
    using utf8_chars_bmp [OF assms(1), of rest] c by simp
  ultimately show ?thesis
    using assms(3) c by (subst convert_utf8_bytes_to_ucs2.simps) (simp add: get_octet_def)
qed

lemma convert_last:
  assumes "bmp u"
  shows "convert_utf8_bytes_to_ucs2 (convert_ucs2_to_utf8_chars (ucast u) @ 0 # rest) acc =
    Some (Inr (acc @ [u]))"
proof -
  obtain c cs where c: "convert_ucs2_to_utf8_chars (ucast u) = c # cs" "c \<noteq> 0"
    using bmp_octets [OF assms(1)] by (cases "convert_ucs2_to_utf8_chars (ucast u)") auto
  then show ?thesis
    using utf8_chars_bmp [OF assms(1), of "0 # rest"]
    by (subst convert_utf8_bytes_to_ucs2.simps) (simp add: get_octet_def)
qed

lemma hd_append_nonzero: "0 \<notin> set xs \<Longrightarrow> xs \<noteq> [] \<Longrightarrow> hd (xs @ ys) \<noteq> (0 :: octet)"
  by (cases xs) auto

lemma utf8_of_hd:
  "list_all bmp us \<Longrightarrow> us \<noteq> [] \<Longrightarrow> utf8_of us @ ys \<noteq> [] \<and> hd (utf8_of us @ ys) \<noteq> 0"
  using utf8_of_no_nul [of us] bmp_octets(1) hd_append_nonzero [of "utf8_of us" ys]
  by (cases us) auto

lemma convert_prefix:
  "list_all bmp us \<Longrightarrow> rest \<noteq> [] \<Longrightarrow> hd rest \<noteq> 0 \<Longrightarrow>
   convert_utf8_bytes_to_ucs2 (utf8_of us @ rest) acc = convert_utf8_bytes_to_ucs2 rest (acc @ us)"
proof (induction us arbitrary: acc)
  case (Cons u us)
  have "utf8_of us @ rest \<noteq> [] \<and> hd (utf8_of us @ rest) \<noteq> 0"
    using Cons.prems utf8_of_hd [of us rest] by (cases "us = []") auto
  then show ?case
    using Cons convert_step [of u "utf8_of us @ rest" acc] by simp
qed simp

lemma convert_bmp:
  assumes "list_all bmp us"
  shows "convert_utf8_bytes_to_ucs2 (utf8_of us @ [0]) acc = Some (Inr (acc @ us))"
proof (cases us rule: rev_cases)
  case Nil
  then show ?thesis
    by (subst convert_utf8_bytes_to_ucs2.simps) (simp add: get_octet_def)
next
  case (snoc vs u)
  then have "convert_utf8_bytes_to_ucs2 (utf8_of us @ [0]) acc =
      convert_utf8_bytes_to_ucs2 (convert_ucs2_to_utf8_chars (ucast u) @ [0]) (acc @ vs)"
    using assms convert_prefix [of vs "convert_ucs2_to_utf8_chars (ucast u) @ [0]" acc]
      bmp_octets [of u] hd_append_nonzero [of "convert_ucs2_to_utf8_chars (ucast u)" "[0]"] by simp
  then show ?thesis
    using snoc assms convert_last [of u "[]"] by simp
qed

text \<open>A step that makes no progress is repeated for ever.\<close>

lemma convert_stuck:
  assumes "\<not> c < 0x80" "c AND 0xE0 \<noteq> 0xE0" "c AND 0xC0 \<noteq> 0xC0"
  shows "convert_utf8_bytes_to_ucs2 (c # rest) acc = None"
proof -
  have "p \<noteq> c # rest" if "convert_utf8_bytes_to_ucs2 p acc = Some r" for p acc r
  proof (rule convert_utf8_bytes_to_ucs2.raw_induct [OF _ that])
    fix f p us y
    assume IH: "\<And>p us y. f p us = Some y \<Longrightarrow> p \<noteq> c # rest"
      and body: "(case get_octet p of Inl e \<Rightarrow> Some (Inl e) | Inr c \<Rightarrow>
        if c = 0 then Some (Inr us) else
        (case utf8_chars_to_ucs2 p of Inl e \<Rightarrow> Some (Inl e) | Inr (u, p2) \<Rightarrow>
          (case get_octet p2 of Inl e \<Rightarrow> Some (Inl e) | Inr c2 \<Rightarrow>
           if c2 = 0 then Some (Inr (case u of Some v \<Rightarrow> us @ [v] | None \<Rightarrow> us))
           else f p2 (case u of Some v \<Rightarrow> us @ [v] | None \<Rightarrow> us)))) = Some y"
    show "p \<noteq> c # rest"
    proof
      assume p: "p = c # rest"
      then have "f p us = Some y"
        using body utf8_stuck [OF assms, of rest] assms(1)
        by (auto simp: get_octet_def split: if_splits)
      with IH p show False by blast
    qed
  qed
  then show ?thesis by (cases "convert_utf8_bytes_to_ucs2 (c # rest) acc") auto
qed

lemma ucs2_loop_bmp: "ucs2_to_utf8_loop (ucs2_of us @ rest) (length us) = Inr (utf8_of us)"
proof (induction us)
  case (Cons u us)
  obtain a b where ab: "be_octets16 u = [a, b]"
    by (simp add: be_octets16_def)
  have "push_bit 8 (ucast a) AND (ucast b :: uint16) = 0"
    by (rule bit_word_eqI) (auto simp: bit_simps bit_octet_ge)
  then have "change_endian_2 a b = be_word16 [a, b]"
    by (simp add: change_endian_2_def be_word16_def disjunctive_add_eq_or)
  then have "change_endian_2 a b = u"
    unfolding ab [symmetric] by simp
  with Cons ab show ?case by (simp add: get_octet_def)
qed simp

lemma strlen_NUL: "strlen (xs @ 0 # ys) = Inr (length (takeWhile (\<lambda>c. c \<noteq> 0) xs))"
  by (cases "\<forall>c \<in> set xs. c \<noteq> 0")
    (auto simp: strlen_def String_of_Char_def takeWhile_append1 takeWhile_append2 takeWhile_eq_all_conv [THEN iffD2])

lemma convert_utf8_bmp:
  "list_all bmp us \<Longrightarrow> smpp_datacoding_convert_utf8_to_ucs2 (utf8_of us @ [0]) = Some (Inr (ucs2_of us))"
proof -
  have "(let (c1, c2) = change_endian_1 u in [c2, c1]) = be_octets16 u" for u
    by (simp add: change_endian_1_def host_octets16_def be_octets16_def)
  then show "list_all bmp us \<Longrightarrow> ?thesis"
    by (simp add: smpp_datacoding_convert_utf8_to_ucs2_def strlen_NUL convert_bmp ucs2_of_def)
qed

lemma convert_ucs2_bmp:
  "list_all bmp us \<Longrightarrow>
   smpp_datacoding_convert_ucs2_to_utf8 (ucs2_of us @ rest) (length us) = Inr (utf8_of us)"
  using utf8_of_no_nul [of us]
  by (simp add: smpp_datacoding_convert_ucs2_to_utf8_def ucs2_loop_bmp takeWhile_eq_all_conv)
    (metis takeWhile_eq_all_conv)

text \<open>An octet that starts nothing, and a character outside the basic plane.\<close>

lemma convert_utf8_stray:
  assumes "list_all bmp us" "\<not> c < 0x80" "c AND 0xE0 \<noteq> 0xE0" "c AND 0xC0 \<noteq> 0xC0"
  shows "smpp_datacoding_convert_utf8_to_ucs2 (utf8_of us @ c # rest @ [0]) = None"
proof -
  have "convert_utf8_bytes_to_ucs2 (utf8_of us @ c # rest @ [0]) [] = None"
    using convert_prefix [OF assms(1), of "c # rest @ [0]" "[]"] convert_stuck [OF assms(2-4)]
      ge_0x80_nonzero [OF assms(2)] by simp
  moreover have "\<exists>n. strlen (utf8_of us @ c # rest @ [0]) = Inr n"
    using strlen_NUL [of "utf8_of us @ c # rest" "[]"] by simp
  ultimately show ?thesis
    by (auto simp: smpp_datacoding_convert_utf8_to_ucs2_def)
qed

lemma convert_utf8_supplementary:
  assumes "list_all bmp us" and "c0 AND 0xE0 = 0xE0" "c0 \<ge> 0x80" "c1 \<ge> 0x80" "c2 \<ge> 0x80"
    and "c3 AND 0xC0 = 0x80"
  shows "smpp_datacoding_convert_utf8_to_ucs2 (utf8_of us @ c0 # c1 # c2 # c3 # rest @ [0]) = None"
proof -
  have bits: "bit (c3 AND 0xC0) 7 = bit (0x80 :: octet) 7" "bit (c3 AND 0xC0) 6 = bit (0x80 :: octet) 6"
    unfolding assms(6) by simp_all
  then have b: "bit c3 7" "\<not> bit c3 6"
    unfolding octet_masks by (simp_all add: bit_simps bit_0x80)
  have c3: "\<not> c3 < 0x80" "c3 AND 0xE0 \<noteq> 0xE0" "c3 AND 0xC0 \<noteq> 0xC0"
  proof -
    show "\<not> c3 < 0x80" using b(1) ge_128 by blast
    show "c3 AND 0xE0 \<noteq> 0xE0"
    proof
      assume "c3 AND 0xE0 = 0xE0"
      then have "bit (c3 AND 0xE0) 6 = bit (0xE0 :: octet) 6" by simp
      with b(2) show False unfolding octet_masks by (simp add: bit_simps)
    qed
    show "c3 AND 0xC0 \<noteq> 0xC0"
      using assms(6) by simp
  qed
  have z: "c0 \<noteq> 0" "c3 \<noteq> 0"
    using assms(3) c3(1) by auto
  let ?p = "c3 # rest @ [0]"
  obtain u where "utf8_chars_to_ucs2 (c0 # c1 # c2 # ?p) = Inr (Some u, ?p)"
    using utf8_3 [of c0 c1 c2 ?p] assms(2-5) by (auto simp: not_less)
  then have "convert_utf8_bytes_to_ucs2 (c0 # c1 # c2 # ?p) us = convert_utf8_bytes_to_ucs2 ?p (us @ [u])"
    using z by (subst convert_utf8_bytes_to_ucs2.simps) (simp add: get_octet_def)
  then have "convert_utf8_bytes_to_ucs2 (utf8_of us @ c0 # c1 # c2 # ?p) [] = None"
    using convert_prefix [OF assms(1), of "c0 # c1 # c2 # ?p" "[]"] convert_stuck [OF c3] z by simp
  moreover have "\<exists>n. strlen (utf8_of us @ c0 # c1 # c2 # ?p) = Inr n"
    using strlen_NUL [of "utf8_of us @ c0 # c1 # c2 # c3 # rest" "[]"] by simp
  ultimately show ?thesis
    by (auto simp: smpp_datacoding_convert_utf8_to_ucs2_def)
qed

text \<open>In text of the basic plane the test for ASCII is right, though its threshold is not 0x80.\<close>

lemma lead_octet:
  assumes "c AND 0xC0 = (0xC0 :: octet)"
  shows "c \<ge> 0xa0"
proof -
  have "bit (c AND 0xC0) m = bit (0xC0 :: octet) m" for m
    unfolding assms ..
  from this [of 6] this [of 7] have "bit c 6" "bit c 7"
    unfolding octet_masks by (simp_all add: bit_simps)
  then have d: "mask 2 = drop_bit 6 c"
    by (intro bit_word_eqI) (auto simp: bit_simps bit_octet_ge less_Suc_eq numeral_2_eq_2)
  then have "unat (drop_bit 6 c) = 3"
    by (simp add: mask_eq_exp_minus_1 flip: d)
  then have "unat c div 64 = 3"
    by (simp add: unsigned_drop_bit_eq drop_bit_eq_div unat_div)
  then show ?thesis
    by (simp add: word_le_nat_alt)
qed

lemma pure_ascii_bmp:
  assumes "list_all bmp us"
  shows "smpp_datacoding_is_pure_ascii (utf8_of us @ [0]) = Inr (\<forall>u \<in> set us. ucast u < (0x80 :: uint32))"
proof -
  have unit: "(\<forall>c \<in> set (convert_ucs2_to_utf8_chars (ucast u)). \<not> c \<ge> 0xa0) \<longleftrightarrow> ucast u < (0x80 :: uint32)"
    if "bmp u" for u
  proof (cases "ucast u < (0x80 :: uint32)")
    case True
    with form1_ucs2 [OF that] obtain c where c: "convert_ucs2_to_utf8_chars (ucast u) = [c]" "c < 0x80"
      by (auto simp: form1_def)
    from c(2) have "\<not> c \<ge> 0xa0"
      by (simp add: word_le_nat_alt word_less_nat_alt)
    with c True show ?thesis by simp
  next
    case False
    have sub: "c AND 0xC0 = 0xC0" if "c AND 0xE0 = (0xE0 :: octet)" for c
    proof -
      have "c AND 0xC0 = (c AND 0xE0) AND 0xC0" by (simp add: and.assoc)
      then show ?thesis unfolding that by simp
    qed
    from False form2_ucs2 [of u] form3_ucs2 [OF that]
    have "\<exists>c \<in> set (convert_ucs2_to_utf8_chars (ucast u)). c AND 0xC0 = 0xC0"
      by (cases "ucast u < (0x800 :: uint32)") (auto simp: form2_def form3_def dest: sub)
    with False show ?thesis using lead_octet by blast
  qed
  have tw: "takeWhile (\<lambda>c. c \<noteq> 0) (utf8_of us) = utf8_of us"
    using utf8_of_no_nul [OF assms] by (simp add: takeWhile_eq_all_conv) metis
  have "smpp_datacoding_is_pure_ascii (utf8_of us @ [0]) =
      Inr (\<forall>i < length (utf8_of us). \<not> utf8_of us ! i \<ge> 0xa0)"
    unfolding smpp_datacoding_is_pure_ascii_def strlen_NUL tw by (simp add: nth_append)
  also have "(\<forall>i < length (utf8_of us). \<not> utf8_of us ! i \<ge> 0xa0) \<longleftrightarrow>
      (\<forall>c \<in> set (utf8_of us). \<not> c \<ge> 0xa0)"
    by (simp add: all_set_conv_all_nth)
  also have "\<dots> \<longleftrightarrow> (\<forall>u \<in> set us. ucast u < (0x80 :: uint32))"
    using assms unit by (induction us) (auto simp del: not_le)
  finally show ?thesis .
qed

section \<open>Long messages\<close>

record splitted_sm =
  sm_content :: octets
  sm_dc :: octet
  sm_udhi_ref :: octet
  sm_udhi_total :: octet
  sm_udhi_index :: octet

abbreviation "MAX_MULTIPART_MSG_SEGMENT_SIZE_UCS2 \<equiv> (67 :: nat)"
abbreviation "MAX_SINGLE_MSG_SEGMENT_SIZE_UCS2 \<equiv> (70 :: nat)"
abbreviation "MAX_MULTIPART_MSG_SEGMENT_SIZE_7BIT \<equiv> (153 :: nat)"
abbreviation "MAX_SINGLE_MSG_SEGMENT_SIZE_7BIT \<equiv> (160 :: nat)"

text \<open>How many segments, and of how many characters in all, for a segment size.\<close>

definition segments :: "nat \<Rightarrow> nat \<Rightarrow> nat \<times> nat" where
  "segments len seg =
     (let number_of_segments = len div seg;
          (number_of_segments, message_length) =
            (if number_of_segments > 255 then (255, 255 * seg) else (number_of_segments, len))
      in (if message_length mod seg > 0 then number_of_segments + 1 else number_of_segments,
          message_length))"

text \<open>\<open>substr\<close> throws beyond the end and stops there; \<open>rnd\<close> is what \<open>rand()\<close> returns.\<close>

definition substr :: "octets \<Rightarrow> nat \<Rightarrow> nat \<Rightarrow> octets result" where
  "substr s pos n = (if pos \<le> length s then Inr (take n (drop pos s)) else Inl (Error ''out_of_range''))"

fun split_7bit :: "octets \<Rightarrow> octet \<Rightarrow> nat \<Rightarrow> nat \<Rightarrow> nat list \<Rightarrow> splitted_sm list result" where
  "split_7bit s ref parts seg [] = Inr []"
| "split_7bit s ref parts seg (i # js) =
     bind (if i = parts - 1 then substr s (i * seg) (length s) else substr s (i * seg) seg)
       (\<lambda>content. bind (split_7bit s ref parts seg js) (\<lambda>r.
       Inr (\<lparr> sm_content = content, sm_dc = 0, sm_udhi_ref = ref, sm_udhi_total = of_nat parts,
         sm_udhi_index = of_nat (i + 1) \<rparr> # r)))"

text \<open>The segments before the last are all converted from the start of the array.\<close>

fun split_ucs2 :: "octets \<Rightarrow> nat \<Rightarrow> octet \<Rightarrow> nat \<Rightarrow> nat \<Rightarrow> nat list \<Rightarrow> splitted_sm list result" where
  "split_ucs2 ucs2 len ref parts seg [] = Inr []"
| "split_ucs2 ucs2 len ref parts seg (i # js) =
     bind (if i = parts - 1
           then smpp_datacoding_convert_ucs2_to_utf8 (drop (2 * (i * seg)) ucs2) (len - i * seg)
           else smpp_datacoding_convert_ucs2_to_utf8 ucs2 seg)
       (\<lambda>content. bind (split_ucs2 ucs2 len ref parts seg js) (\<lambda>r.
       Inr (\<lparr> sm_content = content, sm_dc = 8, sm_udhi_ref = ref, sm_udhi_total = of_nat parts,
         sm_udhi_index = of_nat (i + 1) \<rparr> # r)))"

text \<open>
  \<open>ucs2_bytes\<close> is an array of 65536 octets on the stack, zeroed; the converter writes at its
  start.
\<close>

definition smpp_datacoding_split_long_sm :: "nat \<Rightarrow> octets \<Rightarrow> splitted_sm list result option" where
  "smpp_datacoding_split_long_sm rnd long_sm =
     (case smpp_datacoding_is_pure_ascii (long_sm @ [0]) of
        Inl e \<Rightarrow> Some (Inl e)
      | Inr True \<Rightarrow>
          (let (parts, len) = segments (length long_sm) MAX_MULTIPART_MSG_SEGMENT_SIZE_7BIT in
           if len > MAX_SINGLE_MSG_SEGMENT_SIZE_7BIT
           then Some (split_7bit long_sm (of_nat ((rnd + length long_sm) mod 0xFF)) parts
                  MAX_MULTIPART_MSG_SEGMENT_SIZE_7BIT [0..<parts])
           else Some (Inr [\<lparr> sm_content = long_sm, sm_dc = 0, sm_udhi_ref = 0, sm_udhi_total = 1,
                  sm_udhi_index = 1 \<rparr>]))
      | Inr False \<Rightarrow>
          (case smpp_datacoding_convert_utf8_to_ucs2 (long_sm @ [0]) of
             None \<Rightarrow> None
           | Some (Inl e) \<Rightarrow> Some (Inl e)
           | Some (Inr bytes) \<Rightarrow>
               if length bytes > 65536 then Some (Inl OutOfBounds) else
               (let ucs2 = bytes @ replicate (65536 - length bytes) 0;
                    (parts, len) = segments (length bytes div 2) MAX_MULTIPART_MSG_SEGMENT_SIZE_UCS2 in
                if len > MAX_SINGLE_MSG_SEGMENT_SIZE_UCS2
                then Some (split_ucs2 ucs2 len (of_nat (rnd mod 0xFF)) parts
                       MAX_MULTIPART_MSG_SEGMENT_SIZE_UCS2 [0..<parts])
                else Some (Inr [\<lparr> sm_content = long_sm, sm_dc = 8, sm_udhi_ref = 0, sm_udhi_total = 1,
                       sm_udhi_index = 1 \<rparr>]))))"

subsection \<open>What the splitter delivers\<close>

lemma segments_within:
  assumes "0 < seg" "len \<le> 255 * seg"
  shows "segments len seg = ((len + seg - 1) div seg, len)"
proof -
  obtain k where k: "len = k" by simp
  have "len div seg \<le> 255"
    using assms by (metis div_le_mono div_mult_self_is_m mult.commute)
  moreover have "(len + seg - 1) div seg = (if len mod seg > 0 then len div seg + 1 else len div seg)"
  proof (cases "len mod seg = 0")
    case True
    then obtain q where q: "len = q * seg" using mod_eq_0_iff_dvd [of len seg] by (metis dvd_div_mult_self)
    have "((seg - 1) + q * seg) div seg = q"
      using assms(1) div_mult_self1 [of seg "seg - 1" q] by (simp only:) simp
    then have "(len + seg - 1) div seg = q"
      using assms(1) q by (simp add: add.commute)
    then show ?thesis using assms(1) q by simp
  next
    case False
    have "len + seg - 1 = (len mod seg - 1) + (len div seg + 1) * seg"
      using False div_mult_mod_eq [of len seg] unfolding add_mult_distrib by linarith
    then have "(len + seg - 1) div seg = (len div seg + 1) + (len mod seg - 1) div seg"
      using assms(1) div_mult_self1 [of seg "len mod seg - 1" "len div seg + 1"] by (simp only:)
    moreover have "(len mod seg - 1) div seg = 0"
      using assms(1) mod_less_divisor [of seg len] by (simp add: less_imp_diff_less)
    ultimately show ?thesis using False by simp
  qed
  ultimately show ?thesis by (simp add: segments_def Let_def)
qed

text \<open>The content of segment \<open>i\<close> of a 7-bit message, when the text is long enough.\<close>

lemma split_7bit_pieces:
  assumes "\<forall>i\<in>set js. i * seg \<le> length s"
  shows "split_7bit s ref parts seg js = Inr (map (\<lambda>i.
    \<lparr> sm_content = (if i = parts - 1 then drop (i * seg) s else take seg (drop (i * seg) s)),
      sm_dc = 0, sm_udhi_ref = ref, sm_udhi_total = of_nat parts,
      sm_udhi_index = of_nat (i + 1) \<rparr>) js)"
  using assms
proof (induction js)
  case (Cons i js)
  have "(if i = parts - 1 then substr s (i * seg) (length s) else substr s (i * seg) seg) =
      Inr (if i = parts - 1 then drop (i * seg) s else take seg (drop (i * seg) s))"
    using Cons.prems by (auto simp: substr_def)
  then show ?case using Cons by (simp only: split_7bit.simps) simp
qed simp

lemma concat_pieces:
  "concat (map (\<lambda>i. take seg (drop (i * seg) s)) [0..<n]) = take (n * seg) s"
  by (induction n) (simp_all add: take_add add.commute [of seg])

lemma concat_pieces_last:
  assumes "0 < n"
  shows "concat (map (\<lambda>i. if i = n - 1 then drop (i * seg) s else take seg (drop (i * seg) s)) [0..<n]) = s"
proof -
  obtain m where n: "n = Suc m" using assms gr0_conv_Suc by blast
  have "map (\<lambda>i. if i = m then drop (i * seg) s else take seg (drop (i * seg) s)) [0..<m]
      = map (\<lambda>i. take seg (drop (i * seg) s)) [0..<m]"
    by simp
  then have "concat (map (\<lambda>i. if i = m then drop (i * seg) s else take seg (drop (i * seg) s)) [0..<m])
      = take (m * seg) s"
    by (simp only: concat_pieces)
  then show ?thesis by (simp add: n)
qed

text \<open>The number of segments of a long text, and what lies before and in the last one.\<close>

lemma segment_count:
  fixes len seg :: nat
  assumes "0 < seg" "0 < len" "n = (len + seg - 1) div seg"
  shows "0 < n" "(n - 1) * seg < len" "len \<le> n * seg"
proof -
  have m: "n * seg + (len + seg - 1) mod seg = len + seg - 1" "(len + seg - 1) mod seg < seg"
    using assms by simp_all
  show "0 < n" using m assms(1,2) by (cases n) auto
  then have "n * seg = (n - 1) * seg + seg" by (cases n) auto
  then show "(n - 1) * seg < len" "len \<le> n * seg" using m assms(1) by linarith+
qed

lemma split_long_7bit:
  assumes "smpp_datacoding_is_pure_ascii (s @ [0]) = Inr True" "160 < length s" "length s \<le> 255 * 153"
  defines "parts \<equiv> (length s + 152) div 153"
  shows "smpp_datacoding_split_long_sm rnd s = Some (Inr (map (\<lambda>i.
    \<lparr> sm_content = (if i = parts - 1 then drop (i * 153) s else take 153 (drop (i * 153) s)),
      sm_dc = 0, sm_udhi_ref = of_nat ((rnd + length s) mod 0xFF), sm_udhi_total = of_nat parts,
      sm_udhi_index = of_nat (i + 1) \<rparr>) [0..<parts]))"
proof -
  have seg: "segments (length s) 153 = (parts, length s)"
    using segments_within [of 153 "length s"] assms(3) by (simp add: parts_def)
  have "i * 153 \<le> length s" if "i < parts" for i
    using segment_count(2) [of 153 "length s" parts] assms(2) that
    by (auto simp: parts_def)
  then have "\<forall>i\<in>set [0..<parts]. i * 153 \<le> length s" by simp
  then show ?thesis
    using assms(1,2) split_7bit_pieces
    by (simp only: smpp_datacoding_split_long_sm_def seg sum.case bool.case Let_def prod.case if_True)
qed

lemma split_7bit_segments:
  assumes "smpp_datacoding_is_pure_ascii (s @ [0]) = Inr True" "160 < length s" "length s \<le> 255 * 153"
  obtains sms where "smpp_datacoding_split_long_sm rnd s = Some (Inr sms)"
    "concat (map sm_content sms) = s" "length sms = (length s + 152) div 153"
    "\<And>i. i < length sms \<Longrightarrow> length (sm_content (sms ! i)) \<le> 153 \<and> sm_content (sms ! i) \<noteq> []
      \<and> sm_dc (sms ! i) = 0 \<and> uint (sm_udhi_index (sms ! i)) = int i + 1
      \<and> uint (sm_udhi_total (sms ! i)) = int (length sms)
      \<and> sm_udhi_ref (sms ! i) = sm_udhi_ref (sms ! 0)"
proof -
  define parts where "parts = (length s + 152) div 153"
  let ?sm = "\<lambda>i. \<lparr> sm_content = (if i = parts - 1 then drop (i * 153) s else take 153 (drop (i * 153) s)),
      sm_dc = 0, sm_udhi_ref = of_nat ((rnd + length s) mod 0xFF) :: octet, sm_udhi_total = of_nat parts,
      sm_udhi_index = of_nat (i + 1) \<rparr>"
  have n: "0 < parts" "(parts - 1) * 153 < length s" "length s \<le> parts * 153" "parts \<le> 255"
    using segment_count [of 153 "length s" parts] assms(2,3) by (auto simp: parts_def)
  have split: "smpp_datacoding_split_long_sm rnd s = Some (Inr (map ?sm [0..<parts]))"
    unfolding parts_def by (rule split_long_7bit) (use assms in simp_all)
  show ?thesis
  proof
    show "smpp_datacoding_split_long_sm rnd s = Some (Inr (map ?sm [0..<parts]))" by (rule split)
    show "concat (map sm_content (map ?sm [0..<parts])) = s"
      using concat_pieces_last [OF n(1), of 153 s] by (simp add: o_def cong: if_cong)
    show "length (map ?sm [0..<parts]) = (length s + 152) div 153" by (simp add: parts_def)
    fix i assume "i < length (map ?sm [0..<parts])"
    then have i: "i < parts" by simp
    have "length s - (parts - 1) * 153 \<le> 153"
      using n by (cases parts) auto
    moreover have "i * 153 < length s" using i n by (auto intro: le_less_trans [of _ "(parts - 1) * 153"])
    moreover have "uint (of_nat (i + 1) :: octet) = int (i + 1)" "uint (of_nat parts :: octet) = int parts"
      using i n(4) by (simp_all only: unsigned_of_nat take_bit_eq_mod) simp_all
    ultimately show "length (sm_content (map ?sm [0..<parts] ! i)) \<le> 153 \<and> sm_content (map ?sm [0..<parts] ! i) \<noteq> []
      \<and> sm_dc (map ?sm [0..<parts] ! i) = 0 \<and> uint (sm_udhi_index (map ?sm [0..<parts] ! i)) = int i + 1
      \<and> uint (sm_udhi_total (map ?sm [0..<parts] ! i)) = int (length (map ?sm [0..<parts]))
      \<and> sm_udhi_ref (map ?sm [0..<parts] ! i) = sm_udhi_ref (map ?sm [0..<parts] ! 0)"
      using i n(1) by simp
  qed
qed

text \<open>
  In a UCS-2 message every segment but the last repeats the first: the loop computes where
  segment \<open>i\<close> begins and then converts from the start of the array.
\<close>

lemma ucs2_of_append [simp]: "ucs2_of (us @ vs) = ucs2_of us @ ucs2_of vs"
  by (induction us) simp_all

lemma drop_ucs2_of: "drop (2 * n) (ucs2_of us) = ucs2_of (drop n us)"
proof -
  have "ucs2_of us = ucs2_of (take n us) @ ucs2_of (drop n us)"
    unfolding ucs2_of_append [symmetric] by simp
  moreover have "n \<le> length us \<Longrightarrow> length (ucs2_of (take n us)) = 2 * n" by simp
  ultimately show ?thesis
    by (cases "n \<le> length us") (metis append_eq_conv_conj, simp)
qed

lemma convert_ucs2_part:
  assumes "list_all bmp us" "n + k \<le> length us"
  shows "smpp_datacoding_convert_ucs2_to_utf8 (drop (2 * n) (ucs2_of us @ rest)) k =
    Inr (utf8_of (take k (drop n us)))"
proof -
  have b: "list_all bmp (take k (drop n us))"
    using assms(1) by (auto simp: list_all_iff dest!: in_set_takeD in_set_dropD)
  have "drop (2 * n) (ucs2_of us @ rest) = ucs2_of (drop n us) @ rest"
    using assms(2) by (simp add: drop_ucs2_of)
  also have "\<dots> = ucs2_of (take k (drop n us)) @ (ucs2_of (drop k (drop n us)) @ rest)"
    unfolding append_assoc [symmetric] ucs2_of_append [symmetric] append_take_drop_id ..
  finally show ?thesis
    using convert_ucs2_bmp [OF b, of "ucs2_of (drop k (drop n us)) @ rest"] assms(2)
    by (simp only:) (simp add: min_absorb2)
qed

lemma split_ucs2_pieces:
  assumes "list_all bmp us" "len = length us" "seg \<le> len" "(parts - 1) * seg \<le> len"
  shows "split_ucs2 (ucs2_of us @ rest) len ref parts seg js = Inr (map (\<lambda>i.
    \<lparr> sm_content = utf8_of (if i = parts - 1 then drop (i * seg) us else take seg us),
      sm_dc = 8, sm_udhi_ref = ref, sm_udhi_total = of_nat parts,
      sm_udhi_index = of_nat (i + 1) \<rparr>) js)"
proof (induction js)
  case (Cons i js)
  have "(if i = parts - 1
         then smpp_datacoding_convert_ucs2_to_utf8 (drop (2 * (i * seg)) (ucs2_of us @ rest)) (len - i * seg)
         else smpp_datacoding_convert_ucs2_to_utf8 (ucs2_of us @ rest) seg) =
      Inr (utf8_of (if i = parts - 1 then drop (i * seg) us else take seg us))"
    using convert_ucs2_part [OF assms(1), of "(parts - 1) * seg" "len - (parts - 1) * seg" rest]
      convert_ucs2_part [OF assms(1), of 0 seg rest] assms by simp
  then show ?case using Cons by (simp only: split_ucs2.simps) simp
qed simp

lemma split_long_ucs2:
  assumes "list_all bmp us" "\<exists>u \<in> set us. \<not> ucast u < (0x80 :: uint32)"
    "70 < length us" "length us \<le> 255 * 67"
  defines "parts \<equiv> (length us + 66) div 67"
  shows "smpp_datacoding_split_long_sm rnd (utf8_of us) = Some (Inr (map (\<lambda>i.
    \<lparr> sm_content = utf8_of (if i = parts - 1 then drop (i * 67) us else take 67 us),
      sm_dc = 8, sm_udhi_ref = of_nat (rnd mod 0xFF), sm_udhi_total = of_nat parts,
      sm_udhi_index = of_nat (i + 1) \<rparr>) [0..<parts]))"
proof -
  have ascii: "smpp_datacoding_is_pure_ascii (utf8_of us @ [0]) = Inr False"
    using pure_ascii_bmp [OF assms(1)] assms(2) by auto
  have seg: "segments (length us) 67 = (parts, length us)"
    using segments_within [of 67 "length us"] assms(4) by (simp add: parts_def)
  have len: "length (ucs2_of us) div 2 = length us" "\<not> 65536 < length (ucs2_of us)"
    using assms(4) by simp_all
  have n: "(parts - 1) * 67 \<le> length us"
    using segment_count(2) [of 67 "length us" parts] assms(3) by (simp add: parts_def)
  show ?thesis
    using assms(3) split_ucs2_pieces [OF assms(1) refl _ n] len(2)
    by (simp only: smpp_datacoding_split_long_sm_def seg sum.case bool.case option.case Let_def prod.case
      if_True if_False ascii convert_utf8_bmp [OF assms(1)] len(1))
qed

text \<open>At the limit, 256 segments are announced as none.\<close>

lemma segments_256:
  assumes "0 < seg" "255 * seg < len" "len < 256 * seg"
  shows "segments len seg = (256, len)"
proof -
  have "len div seg = 255"
    using assms by (intro div_nat_eqI) simp_all
  moreover have "len mod seg = len - 255 * seg"
    using \<open>len div seg = 255\<close> by (simp add: minus_div_mult_eq_mod [symmetric])
  ultimately show ?thesis using assms by (simp add: segments_def)
qed

end
