(* ===== verification/Session.thy ===== *)
theory Session
  imports Md5 Pdu_Context Timers Server_Datasource Data_Coding Pdu_Bind Pdu_Bind_Resp Pdu_Submit
    Pdu_Deliver Pdu_Session
begin

text \<open>
  One connection of the server: \<open>smpp_impl\<close> (\<open>src/public/smppserver/smpp_protocol_impl.cpp\<close>) with
  what it inherits from \<open>abstract_protocol\<close> (\<open>src/public/network/abstract_protocol.hpp\<close>).

  A handler is given the session and the shared state of the server and returns both. The
  result is \<open>Inl (Error _)\<close> for an exception that no handler catches, and \<open>Inl OutOfBounds\<close> where
  an array is read or written beyond its end.
\<close>

section \<open>State\<close>

text \<open>
  What the host answers during one call: the clocks, the random generator, and the library
  function \<open>localtime\<close>.
\<close>

record tm =
  tm_year :: int
  tm_mon :: uint32
  tm_mday :: uint32
  tm_hour :: uint32
  tm_min :: uint32

record env =
  micros :: int
  seconds :: int
  time_now :: int
  dice :: uint32
  localtime :: "uint64 \<Rightarrow> tm"

record session =
  current_session_state :: SMPP_SESSION_STATE
  bind_error_count :: int
  other_error_count :: int
  error_occured :: bool
  total_submit :: int
  sysid :: octets
  data_source_flag :: octets
  tcp_client_ip :: octets
  private_data_source :: protocol_data_source
  timer_manager :: smpp_timer_manager
  bind_time :: "int option"

text \<open>The constructor, and \<open>tcp_connection_ip\<close> that the acceptor calls next.\<close>

definition smpp_impl :: "env \<Rightarrow> octets \<Rightarrow> session" where
  "smpp_impl e client_ip = \<lparr> current_session_state = SESSION_OPEN, bind_error_count = 0,
     other_error_count = 0, error_occured = False, total_submit = 0, sysid = [],
     data_source_flag = [], tcp_client_ip = client_ip,
     private_data_source = new_protocol_data_source (time_now e),
     timer_manager = new_smpp_timer_manager, bind_time = None \<rparr>"

definition SMPP_SERVER_SYSID :: octets where "SMPP_SERVER_SYSID = ascii ''SMPP''"
definition OTHER_ERROR_TOLERANCE :: int where "OTHER_ERROR_TOLERANCE = 3"
definition BIND_ERROR_TOLERANCE :: int where "BIND_ERROR_TOLERANCE = 3"

type_synonym 'd outcome = "(session \<times> 'd server) result"

section \<open>Errors\<close>

definition other_error_occur :: "session \<Rightarrow> session" where
  "other_error_occur s =
     (let s = s\<lparr> other_error_count := other_error_count s + 1 \<rparr>
      in if other_error_count s \<ge> OTHER_ERROR_TOLERANCE then s\<lparr> error_occured := True \<rparr> else s)"

definition bind_error_occur :: "session \<Rightarrow> session" where
  "bind_error_occur s =
     (let s = s\<lparr> bind_error_count := bind_error_count s + 1 \<rparr>
      in if bind_error_count s \<ge> BIND_ERROR_TOLERANCE then s\<lparr> error_occured := True \<rparr> else s)"

definition any_error_occured :: "session \<Rightarrow> bool" where
  "any_error_occured s = error_occured s"

text \<open>\<open>try { m; k } catch(Smpp::Error& e) { h }\<close>, where only \<open>m\<close> throws and \<open>m\<close> changes no state.\<close>

definition try_catch :: "'a result \<Rightarrow> ('a \<Rightarrow> 'b result) \<Rightarrow> 'b result \<Rightarrow> 'b result" where
  "try_catch m k h = (case m of Inr x \<Rightarrow> k x | Inl (Error _) \<Rightarrow> h | Inl OutOfBounds \<Rightarrow> Inl OutOfBounds)"

text \<open>
  The \<open>memory_buffer\<close> that the encoded PDU is copied to: \<open>command_length\<close> octets of the encoder's
  buffer, all of which must have been written.
\<close>

definition pdu_packet :: "'a Header_scheme \<Rightarrow> Buffer result \<Rightarrow> packet result" where
  "pdu_packet p enc = bind enc (\<lambda>b.
     if length (data b) = unat (command_length p) then Inr (data b) else Inl OutOfBounds)"

definition add_private :: "env \<Rightarrow> packet \<Rightarrow> session \<Rightarrow> session" where
  "add_private e bp s =
     s\<lparr> private_data_source := add_to_out_queue (time_now e) bp (private_data_source s) \<rparr>"

definition generate_and_send_nack ::
  "env \<Rightarrow> uint32 \<Rightarrow> uint32 \<Rightarrow> session \<Rightarrow> 'd server \<Rightarrow> 'd outcome" where
  "generate_and_send_nack e st sn s w =
     (let pduNack = new_GenericNack st sn in
      try_catch (pdu_packet pduNack (GenericNack_encode pduNack))
        (\<lambda>bpresp. if length (data_source_flag s) = 0 then Inr (add_private e bpresp s, w)
           else Inr (s, w\<lparr> sources :=
             add_to_out_queue_A (data_source_flag s) (time_now e) bpresp (sources w) \<rparr>))
        (Inr (s, w)))"

text \<open>The two calls that end most of the failing branches.\<close>

definition nack_and_count ::
  "env \<Rightarrow> uint32 \<Rightarrow> uint32 \<Rightarrow> session \<Rightarrow> 'd server \<Rightarrow> 'd outcome" where
  "nack_and_count e st sn s w = bind (generate_and_send_nack e st sn s w)
     (\<lambda>(s, w). Inr (other_error_occur s, w))"

section \<open>Binding\<close>

text \<open>
  What the three bind handlers have in common, given the response and the state to enter: the
  response is built first, and no state changes when that fails.
\<close>

definition answer_bind :: "env \<Rightarrow> uint32 \<Rightarrow> packet result \<Rightarrow> octets \<Rightarrow> SMPP_SESSION_STATE \<Rightarrow> uint32 \<Rightarrow>
    session \<Rightarrow> 'd server \<Rightarrow> 'd outcome" where
  "answer_bind e resp_status resp sid bound sn s w =
     (if resp_status \<noteq> ESME_ROK then
        try_catch resp
          (\<lambda>bpresp. Inr (bind_error_occur (add_private e bpresp s), w))
          (nack_and_count e ESME_RINVCMDID sn s w)
      else
        try_catch resp
          (\<lambda>bpresp. Inr ((add_private e bpresp (s\<lparr> data_source_flag := sid \<rparr>))
             \<lparr> sysid := sid, current_session_state := bound \<rparr>, w))
          (nack_and_count e ESME_RINVCMDID sn s w))"

definition process_bind_transceiver :: "env \<Rightarrow> BindTransceiver \<Rightarrow> session \<Rightarrow> 'd server \<Rightarrow> 'd outcome" where
  "process_bind_transceiver e transceiver s w =
     (let sid = BindTransceiver.system_id transceiver; pwd = BindTransceiver.password transceiver;
          sn = sequence_number transceiver;
          resp_status = (if need_authorize (configer w)
            then check_sysid_pw_bindip (accounts w) sid pwd (tcp_client_ip s) else ESME_ROK);
          pduResp = bind (SystemId SMPP_SERVER_SYSID) (\<lambda>i. Inr (new_BindTransceiverResp resp_status sn i))
      in answer_bind e resp_status (bind pduResp (\<lambda>p. pdu_packet p (BindTransceiverResp_encode p)))
           sid SESSION_BOUND_TRX sn s w)"

definition process_bind_transmitter :: "env \<Rightarrow> BindTransmitter \<Rightarrow> session \<Rightarrow> 'd server \<Rightarrow> 'd outcome" where
  "process_bind_transmitter e transmitter s w =
     (let sid = BindTransmitter.system_id transmitter; pwd = BindTransmitter.password transmitter;
          sn = sequence_number transmitter;
          resp_status = check_sysid_pw_bindip (accounts w) sid pwd (tcp_client_ip s);
          pduResp = bind (SystemId SMPP_SERVER_SYSID) (\<lambda>i. Inr (new_BindTransmitterResp resp_status sn i))
      in answer_bind e resp_status (bind pduResp (\<lambda>p. pdu_packet p (BindTransmitterResp_encode p)))
           sid SESSION_BOUND_TX sn s w)"

definition process_bind_receiver :: "env \<Rightarrow> BindReceiver \<Rightarrow> session \<Rightarrow> 'd server \<Rightarrow> 'd outcome" where
  "process_bind_receiver e receiver s w =
     (let sid = BindReceiver.system_id receiver; pwd = BindReceiver.password receiver;
          sn = sequence_number receiver;
          resp_status = check_sysid_pw_bindip (accounts w) sid pwd (tcp_client_ip s);
          pduResp = bind (SystemId SMPP_SERVER_SYSID) (\<lambda>i. Inr (new_BindReceiverResp resp_status sn i))
      in answer_bind e resp_status (bind pduResp (\<lambda>p. pdu_packet p (BindReceiverResp_encode p)))
           sid SESSION_BOUND_RX sn s w)"

section \<open>Submitting\<close>

text \<open>The number of an enumerator of \<open>DataCodingType\<close>.\<close>

fun type_number :: "DataCodingType \<Rightarrow> octet" where
  "type_number Alphabet = 0x0"
| "type_number Ascii = 0x1"
| "type_number Latin = 0x3"
| "type_number Jis = 0x5"
| "type_number UCS2 = 0x8"
| "type_number Default = 0x9"

definition convert_to_utf8 :: "nat \<Rightarrow> octets \<Rightarrow> DataCodingType \<Rightarrow> octets result" where
  "convert_to_utf8 off sm dc =
     (if dc = UCS2
      then smpp_datacoding_convert_ucs2_to_utf8 (drop off sm) ((length sm - off) div 2)
      else Inr (drop off sm))"

text \<open>Reference, number of parts and index of a part, and the length of the header that has them.\<close>

definition parse_udhi :: "octets \<Rightarrow> octet \<times> octet \<times> octet \<times> nat" where
  "parse_udhi sm =
     (if length sm > 6 \<and> sm ! 0 = 0x05 \<and> sm ! 1 = 0x00 \<and> sm ! 2 = 0x03
      then (sm ! 3, sm ! 4, sm ! 5, 6) else (0, 1, 1, 0))"

definition submitted_smi :: "env \<Rightarrow> SubmitSm \<Rightarrow> octets \<Rightarrow> session \<Rightarrow> cb_sm_information result" where
  "submitted_smi e submit_sm smid s =
     (let sm = SubmitSm.short_message submit_sm;
          dc = dc_type (SubmitSm.data_coding submit_sm);
          (ref, parts, index, off) = parse_udhi sm
      in bind (convert_to_utf8 off sm dc) (\<lambda>utf8.
      Inr (new_cb_sm_information\<lparr> ip := tcp_client_ip s, smi_systemid := sysid s,
        message_id_of_protocol_server := smid, datacoding_type := type_number dc,
        udhi_reference := ref, udhi_total_parts := parts, udhi_part_index := index,
        submit_time_of_client := of_int (time_now e), content := utf8,
        content_hash := generate_hash_md5 utf8,
        dst_addr := addr_v (address (SubmitSm.destination_addr submit_sm)),
        src_addr := addr_v (address (SubmitSm.source_addr submit_sm)),
        sn_by_client := sequence_number submit_sm \<rparr>)))"

definition process_submitsm ::
  "env \<Rightarrow> 'd db_ops \<Rightarrow> SubmitSm \<Rightarrow> session \<Rightarrow> 'd server \<Rightarrow> 'd outcome" where
  "process_submitsm e ops submit_sm s w =
     (let (mid, g) = generate_message_id (dice e) (generator w);
          w = w\<lparr> generator := g \<rparr>;
          sn = sequence_number submit_sm
      in bind (MessageId mid) (\<lambda>smid.
      let pduResp = new_SubmitSmResp ESME_ROK sn smid in
      try_catch (pdu_packet pduResp (SubmitSmResp_encode pduResp))
        (\<lambda>bpresp.
           let w = (if length (data_source_flag s) = 0 then w
                    else w\<lparr> sources :=
                             add_to_out_queue_A (data_source_flag s) (time_now e) bpresp (sources w),
                           statistics := stat_ack_sent (sysid s) (statistics w) \<rparr>);
               s = s\<lparr> total_submit := total_submit s + 1 \<rparr>
           in bind (submitted_smi e submit_sm smid s) (\<lambda>smi. Inr (s, smi_received ops smi w)))
        (nack_and_count e ESME_RINVMSGLEN sn s w)))"

section \<open>Other requests\<close>

definition process_enquirelink :: "env \<Rightarrow> uint32 \<Rightarrow> session \<Rightarrow> 'd server \<Rightarrow> 'd outcome" where
  "process_enquirelink e sn s w =
     (let pduResp = new_EnquireLinkResp ESME_ROK sn in
      try_catch (pdu_packet pduResp (EnquireLinkResp_encode pduResp))
        (\<lambda>bpresp. Inr (add_private e bpresp s, w))
        (nack_and_count e ESME_RINVMSGLEN sn s w))"

definition process_unbind :: "env \<Rightarrow> Unbind \<Rightarrow> session \<Rightarrow> 'd server \<Rightarrow> 'd outcome" where
  "process_unbind e unbind s w =
     (let s = s\<lparr> current_session_state := SESSION_CLOSED \<rparr>;
          sn = sequence_number unbind;
          pduResp = new_UnbindResp ESME_ROK sn
      in try_catch (pdu_packet pduResp (UnbindResp_encode pduResp))
        (\<lambda>bpresp. Inr (add_private e bpresp s, w))
        (nack_and_count e ESME_RINVMSGLEN sn s w))"

section \<open>Dispatch\<close>

definition get_command_id :: "packet \<Rightarrow> uint32 result" where
  "get_command_id b = get_wire32 (drop 4 b)"

definition get_sequence_number :: "packet \<Rightarrow> uint32 result" where
  "get_sequence_number b = get_wire32 (drop 12 b)"

definition bind_timers :: "env \<Rightarrow> session \<Rightarrow> session" where
  "bind_timers e s = s\<lparr> timer_manager := bind_received (micros e) (timer_manager s),
     bind_time := Some (seconds e) \<rparr>"

definition activity_timers :: "env \<Rightarrow> session \<Rightarrow> session" where
  "activity_timers e s = s\<lparr> timer_manager := activity (micros e) (timer_manager s) \<rparr>"

definition process :: "env \<Rightarrow> 'd db_ops \<Rightarrow> packet \<Rightarrow> session \<Rightarrow> 'd server \<Rightarrow> 'd outcome" where
  "process e ops bp s w =
     bind (get_sequence_number bp) (\<lambda>sn.
     if \<not> SequenceNumber_valid sn then Inr (s\<lparr> error_occured := True \<rparr>, w) else
     bind (get_command_id bp) (\<lambda>commandid.
     if \<not> valid (current_session_state s) commandid then nack_and_count e ESME_RINVCMDID sn s w
     else if commandid = cid_BindTransceiver then
       try_catch (BindTransceiver_decode BindTransceiver_default bp)
         (\<lambda>p. process_bind_transceiver e p (bind_timers e s) w)
         (nack_and_count e ESME_RINVMSGLEN sn s w)
     else if commandid = cid_BindTransmitter then
       try_catch (BindTransmitter_decode BindTransmitter_default bp)
         (\<lambda>p. process_bind_transmitter e p (bind_timers e s) w)
         (nack_and_count e ESME_RINVMSGLEN sn s w)
     else if commandid = cid_BindReceiver then
       try_catch (BindReceiver_decode BindReceiver_default bp)
         (\<lambda>p. process_bind_receiver e p (bind_timers e s) w)
         (nack_and_count e ESME_RINVMSGLEN sn s w)
     else if commandid = cid_SubmitSm then
       try_catch (SubmitSm_decode SubmitSm_default bp)
         (\<lambda>p. if current_session_state s = SESSION_BOUND_RX
            then nack_and_count e ESME_RUNKNOWN sn s w
            else process_submitsm e ops p (activity_timers e s) w)
         (nack_and_count e ESME_RINVMSGLEN sn s w)
     else if commandid = cid_QuerySm then Inr (s, w)
     else if commandid = cid_Unbind then
       try_catch (Unbind_decode Unbind_default bp)
         (\<lambda>p. process_unbind e p (s\<lparr> timer_manager := unbind_received (timer_manager s),
            bind_time := Some (seconds e) \<rparr>) w)
         (nack_and_count e ESME_RINVMSGLEN sn s w)
     else if commandid = cid_EnquireLink then process_enquirelink e sn (activity_timers e s) w
     else if commandid = cid_DeliverSmResp then
       try_catch (DeliverSmResp_decode DeliverSmResp_default bp)
         (\<lambda>p. Inr (s, snd (dlrresp_received (sequence_number p) w)))
         (Inr (other_error_occur s, w))
     else nack_and_count e ESME_RINVCMDID sn s w))"

end
