(* ===== verification/Session_Output.thy ===== *)
theory Session_Output
  imports Session
begin

text \<open>
  The sending half of \<open>smpp_impl\<close>: delivery receipts and incoming messages turned into
  deliver_sm, and the choice between the session's own queue and the two queues that it shares
  with the other connections of its account.
\<close>

section \<open>deliver_sm\<close>

text \<open>\<open>Smpp::SmeAddress(Ton::International, Npi::E164, Smpp::Address(s))\<close>.\<close>

definition international :: "octets \<Rightarrow> SmeAddress result" where
  "international a = bind (new_Address a 21) (\<lambda>x. new_SmeAddress 0x01 0x01 x 21)"

text \<open>The calls of the setters that \<open>send_delivery_sm\<close> and \<open>send_mo\<close> start with.\<close>

definition deliver_header :: "octets \<Rightarrow> octets \<Rightarrow> uint32 \<Rightarrow> int \<Rightarrow> DeliverSm result" where
  "deliver_header destination source sn esm =
     bind (international destination) (\<lambda>a.
     let p = DeliverSm_set_destination_addr a DeliverSm_default in
     bind (international source) (\<lambda>a.
     let p = DeliverSm_set_source_addr a p in
     bind (set_sequence_number sn True p) (\<lambda>p.
     let p = DeliverSm_set_esm_class esm p;
         p = DeliverSm_set_protocol_id 0 p;
         p = DeliverSm_set_priority_flag 0 p in
     bind (DeliverSm_set_schedule_delivery_time_Char [0] p) (\<lambda>p.
     bind (DeliverSm_set_validity_period_Char [0] p) (\<lambda>p.
     Inr (DeliverSm_set_registered_delivery 0 p))))))"

section \<open>Delivery receipts\<close>

text \<open>
  The last two digits of the year, then \<open>tm_mon\<close>, which counts from 0, the day, the hour and the
  minute.
\<close>

definition format_to_AppendixB_time :: "tm \<Rightarrow> octets" where
  "format_to_AppendixB_time tt =
     (let syear = decimal (nat (tm_year tt + 1900));
          syear = take 2 (drop (length syear - 2) syear)
      in syear @ format_uint32_to_lenght (tm_mon tt) 2 @ format_uint32_to_lenght (tm_mday tt) 2 @
         format_uint32_to_lenght (tm_hour tt) 2 @ format_uint32_to_lenght (tm_min tt) 2)"

definition receipt_text :: "env \<Rightarrow> bool \<Rightarrow> cb_sm_information \<Rightarrow> octets" where
  "receipt_text e use_decimal smi =
     (let mid = message_id_of_protocol_server smi;
          mid = (if use_decimal then format_hex_string_to_decimal_string mid 10 else mid)
      in ascii ''id:'' @ mid @ ascii '' '' @ ascii ''sub:001'' @ ascii '' '' @
         ascii ''dlvrd:001'' @ ascii '' '' @
         ascii ''submit date:'' @ format_to_AppendixB_time (localtime e (submit_time_of_client smi)) @
         ascii '' '' @
         ascii ''done date:'' @ format_to_AppendixB_time (localtime e (of_int (time_now e))) @
         ascii '' '' @ ascii ''stat:'' @ cb_sm_information.error_status smi @ ascii '' '' @
         ascii ''err:'' @ format_uint32_to_lenght (cb_sm_information.error_code smi) 3 @ ascii '' '' @
         ascii ''text:000'')"

text \<open>\<open>short_message\<close> takes the length as an octet.\<close>

definition receipt_pdu :: "env \<Rightarrow> bool \<Rightarrow> cb_sm_information \<Rightarrow> DeliverSm result" where
  "receipt_pdu e use_decimal smi =
     bind (deliver_header (src_addr smi) (dst_addr smi) (sn_by_protocol_server smi) 0x4) (\<lambda>p.
     let p = DeliverSm_set_data_coding 0x0 p;
         p = DeliverSm_set_sm_default_msg_id 0 p;
         ss = receipt_text e use_decimal smi
     in DeliverSm_set_short_message ss (of_nat (length ss)) p)"

text \<open>The packet goes to queue B of the account; what fails is logged and dropped.\<close>

definition add_to_B :: "env \<Rightarrow> DeliverSm result \<Rightarrow> session \<Rightarrow> 'd server \<Rightarrow> 'd server result" where
  "add_to_B e pdu s w =
     try_catch (bind pdu (\<lambda>p. pdu_packet p (DeliverSm_encode p)))
       (\<lambda>bp. Inr (if length (data_source_flag s) = 0 then w
          else w\<lparr> sources := add_to_out_queue_B (data_source_flag s) (time_now e) bp (sources w) \<rparr>))
       (Inr w)"

definition send_delivery_sm ::
  "env \<Rightarrow> 'd db_ops \<Rightarrow> session \<Rightarrow> 'd server \<Rightarrow> (bool \<times> 'd server) result" where
  "send_delivery_sm e ops s w =
     (case peek_dlr ops (sysid s) w of
        (Some smi, w) \<Rightarrow>
          bind (add_to_B e (receipt_pdu e (use_hex_decimal_message_id (configer w)) smi) s w)
            (\<lambda>w. Inr (True, w))
      | (None, w) \<Rightarrow> Inr (False, w))"

section \<open>Incoming messages\<close>

text \<open>
  Text that is pure ASCII is copied, other text is converted, which may not end; that is \<open>None\<close>.
  The header is made first, and the conversion only runs when the addresses are accepted.
\<close>

definition mo_pdu :: "cb_sm_information \<Rightarrow> DeliverSm result option" where
  "mo_pdu smi =
     (case deliver_header (dst_addr smi) (src_addr smi) (sn_by_protocol_server smi) 0 of
        Inl er \<Rightarrow> Some (Inl er)
      | Inr p \<Rightarrow>
          let p = DeliverSm_set_sm_default_msg_id 0 p in
          (case smpp_datacoding_is_pure_ascii (content smi @ [0]) of
             Inl er \<Rightarrow> Some (Inl er)
           | Inr True \<Rightarrow>
               Some (DeliverSm_set_short_message (content smi) (of_nat (length (content smi)))
                 (DeliverSm_set_data_coding 0x0 p))
           | Inr False \<Rightarrow>
               (case smpp_datacoding_convert_utf8_to_ucs2 (content smi @ [0]) of
                  None \<Rightarrow> None
                | Some (Inl er) \<Rightarrow> Some (Inl er)
                | Some (Inr ucs2) \<Rightarrow>
                    Some (DeliverSm_set_short_message ucs2 (of_nat (length ucs2))
                      (DeliverSm_set_data_coding 0x8 p)))))"

definition send_mo ::
  "env \<Rightarrow> 'd db_ops \<Rightarrow> session \<Rightarrow> 'd server \<Rightarrow> (bool \<times> 'd server) result option" where
  "send_mo e ops s w =
     (case peek_mo ops (sysid s) w of
        (Some smi, w) \<Rightarrow>
          (case mo_pdu smi of
             None \<Rightarrow> None
           | Some pdu \<Rightarrow> Some (bind (add_to_B e pdu s w) (\<lambda>w. Inr (True, w))))
      | (None, w) \<Rightarrow> Some (Inr (False, w)))"

section \<open>Queues\<close>

definition is_bound :: "session \<Rightarrow> bool" where
  "is_bound s \<longleftrightarrow> current_session_state s \<noteq> SESSION_CLOSED \<and> current_session_state s \<noteq> SESSION_OPEN"

definition anything_to_send :: "session \<Rightarrow> 'd server \<Rightarrow> bool" where
  "anything_to_send s w \<longleftrightarrow>
     need_send (private_data_source s) \<or>
     (length (data_source_flag s) > 0 \<and>
      ((is_state_bound_txable (current_session_state s) \<and> need_send_A (data_source_flag s) (sources w)) \<or>
       (is_state_bound_rxable (current_session_state s) \<and> need_send_B (data_source_flag s) (sources w))))"

definition session_need_send ::
  "env \<Rightarrow> 'd db_ops \<Rightarrow> session \<Rightarrow> 'd server \<Rightarrow> (bool \<times> 'd server) result option" where
  "session_need_send e ops s w =
     (if is_bound s then
        (case send_delivery_sm e ops s w of
           Inl er \<Rightarrow> Some (Inl er)
         | Inr (_, w) \<Rightarrow>
             (case send_mo e ops s w of
                None \<Rightarrow> None
              | Some (Inl er) \<Rightarrow> Some (Inl er)
              | Some (Inr (_, w)) \<Rightarrow> Some (Inr (anything_to_send s w, w))))
      else Some (Inr (anything_to_send s w, w)))"

definition session_need_process :: "session \<Rightarrow> 'd server \<Rightarrow> bool" where
  "session_need_process s w \<longleftrightarrow>
     need_process (private_data_source s) \<or>
     (length (data_source_flag s) > 0 \<and> manager_need_process (data_source_flag s) (sources w))"

definition session_get_from_out_queue :: "session \<Rightarrow> 'd server \<Rightarrow> packet option \<times> session \<times> 'd server" where
  "session_get_from_out_queue s w =
     (case get_from_out_queue (private_data_source s) of
        (Some bp, d) \<Rightarrow> (Some bp, s\<lparr> private_data_source := d \<rparr>, w)
      | (None, d) \<Rightarrow>
          let s = s\<lparr> private_data_source := d \<rparr> in
          if length (data_source_flag s) = 0 then (None, s, w)
          else
            (case (if is_state_bound_txable (current_session_state s)
                   then get_from_out_queue_A (data_source_flag s) (sources w) else (None, sources w)) of
               (Some bp, m) \<Rightarrow> (Some bp, s, w\<lparr> sources := m \<rparr>)
             | (None, m) \<Rightarrow>
                 if is_state_bound_rxable (current_session_state s)
                 then (let (bp, m) = get_from_out_queue_B (data_source_flag s) m
                       in (bp, s, w\<lparr> sources := m \<rparr>))
                 else (None, s, w\<lparr> sources := m \<rparr>)))"

definition session_get_from_in_queue :: "session \<Rightarrow> 'd server \<Rightarrow> packet option \<times> session \<times> 'd server" where
  "session_get_from_in_queue s w =
     (case get_from_in_queue (private_data_source s) of
        (Some bp, d) \<Rightarrow> (Some bp, s\<lparr> private_data_source := d \<rparr>, w)
      | (None, d) \<Rightarrow>
          let s = s\<lparr> private_data_source := d \<rparr> in
          if length (data_source_flag s) = 0 then (None, s, w)
          else (let (bp, m) = manager_get_from_in_queue (data_source_flag s) (sources w)
                in (bp, s, w\<lparr> sources := m \<rparr>)))"

definition session_add_to_in_queue :: "env \<Rightarrow> packet \<Rightarrow> session \<Rightarrow> 'd server \<Rightarrow> session \<times> 'd server" where
  "session_add_to_in_queue e bp s w =
     (if length (data_source_flag s) > 0
      then (s, w\<lparr> sources := manager_add_to_in_queue (data_source_flag s) (time_now e) bp (sources w) \<rparr>)
      else (s\<lparr> private_data_source := add_to_in_queue (time_now e) bp (private_data_source s) \<rparr>, w))"

definition timer_timeout :: "env \<Rightarrow> session \<Rightarrow> bool" where
  "timer_timeout e s \<longleftrightarrow> manager_expired (micros e) (timer_manager s) \<noteq> None"

text \<open>The packets in \<open>protocol_data_source_manager\<close> stay.\<close>

definition clear_resource :: "session \<Rightarrow> session" where
  "clear_resource s = s\<lparr> private_data_source := clear_packets (private_data_source s) \<rparr>"

end
