(* ===== verification/Session_Facts.thy ===== *)
theory Session_Facts
  imports Session_Output
begin

text \<open>
  What the handlers of a session do, proved once for the properties of the server: the octets of
  every response, when decoding can end a handler, and the handlers in closed form.
\<close>

section \<open>Responses\<close>

definition response :: "uint32 \<Rightarrow> uint32 \<Rightarrow> uint32 \<Rightarrow> octets \<Rightarrow> packet" where
  "response c st sn body = wire32 (of_nat (16 + length body)) @ wire32 c @ wire32 st @ wire32 sn @ body"

lemma length_response [simp]: "length (response c st sn body) = 16 + length body"
  by (simp add: response_def)

lemma get_command_id_response [simp]: "get_command_id (response c st sn body) = Inr c"
  by (simp add: get_command_id_def response_def)

lemma get_sequence_number_response [simp]: "get_sequence_number (response c st sn body) = Inr sn"
  by (simp add: get_sequence_number_def response_def drop_plus del: drop_drop)

context pdu_body
begin

lemma packet:
  assumes "frame_ok p (length (body p))" "length (octs p) < 2 ^ 32"
  shows "pdu_packet p (encode_frame puts p) = Inr (octs p)"
  using encode_reachable [OF assms] by (simp add: pdu_packet_def)

lemma decode_header:
  assumes "decode_frame err read blank b = Inr p"
  shows "get_sequence_number b = Inr (sequence_number p)" "get_command_id b = Inr (command_id p)"
    "length b \<ge> 16"
proof -
  obtain rest where "b = octs p @ rest"
    using octs_decode_frame [OF assms] by (metis append_take_drop_id)
  then have b: "b = header_octets p @ body p @ tlvs_octets (tlv_list p) @ rest"
    by (simp add: pdu_octets_def)
  show "get_sequence_number b = Inr (sequence_number p)" "get_command_id b = Inr (command_id p)"
    "length b \<ge> 16"
    unfolding b get_sequence_number_def get_command_id_def
    by (simp_all add: header_octets_def drop_plus del: drop_drop)
qed

end

lemma decode_frame_blank:
  "decode_frame err read (p\<lparr> sequence_number := n \<rparr>) b = decode_frame err read p b"
  by (simp add: decode_frame_def Header_decode_def)

named_theorems response_simps "the packets that the handlers build"

lemma GenericNack_packet [response_simps]:
  "pdu_packet (new_GenericNack st sn) (GenericNack_encode (new_GenericNack st sn)) =
     Inr (response cid_GenericNack st sn [])"
  unfolding GenericNack_encode_def
  by (subst generic_nack.packet)
    (simp_all add: generic_nack_frame_ok [OF GenericNack_reachable.ctor],
     simp_all add: GenericNack_body_def new_GenericNack_def pdu_octets_def header_octets_def
       response_def pdu_size_def)

lemma EnquireLinkResp_packet [response_simps]:
  "pdu_packet (new_EnquireLinkResp st sn) (EnquireLinkResp_encode (new_EnquireLinkResp st sn)) = Inr (response cid_EnquireLinkResp st sn [])"
  unfolding EnquireLinkResp_encode_def
  by (subst enquire_link_resp.packet)
    (simp_all add: enquire_link_resp_frame_ok [OF EnquireLinkResp_reachable.ctor],
     simp_all add: EnquireLinkResp_body_def new_EnquireLinkResp_def pdu_octets_def header_octets_def
       response_def pdu_size_def)

lemma UnbindResp_packet [response_simps]:
  "pdu_packet (new_UnbindResp st sn) (UnbindResp_encode (new_UnbindResp st sn)) = Inr (response cid_UnbindResp st sn [])"
  unfolding UnbindResp_encode_def
  by (subst unbind_resp.packet)
    (simp_all add: unbind_resp_frame_ok [OF UnbindResp_reachable.ctor],
     simp_all add: UnbindResp_body_def new_UnbindResp_def pdu_octets_def header_octets_def
       response_def pdu_size_def)

lemma BindTransmitterResp_packet [response_simps]:
  assumes "SystemId_ok i"
  shows "pdu_packet (new_BindTransmitterResp st sn i) (BindTransmitterResp_encode (new_BindTransmitterResp st sn i)) = Inr (response 0x80000002 st sn (i @ [0]))"
  unfolding BindTransmitterResp_encode_def using assms
  by (subst bind_transmitter_resp.packet)
    (simp_all add: bind_transmitter_resp_frame_ok [OF BindTransmitterResp_reachable.ctor],
     simp_all add: BindTransmitterResp_body_def new_BindTransmitterResp_def pdu_octets_def header_octets_def update_length_def
       String_octets_def cstr_ok_def response_def pdu_size_def)

lemma BindReceiverResp_packet [response_simps]:
  assumes "SystemId_ok i"
  shows "pdu_packet (new_BindReceiverResp st sn i) (BindReceiverResp_encode (new_BindReceiverResp st sn i)) = Inr (response 0x80000001 st sn (i @ [0]))"
  unfolding BindReceiverResp_encode_def using assms
  by (subst bind_receiver_resp.packet)
    (simp_all add: bind_receiver_resp_frame_ok [OF BindReceiverResp_reachable.ctor],
     simp_all add: BindReceiverResp_body_def new_BindReceiverResp_def pdu_octets_def header_octets_def update_length_def
       String_octets_def cstr_ok_def response_def pdu_size_def)

lemma BindTransceiverResp_packet [response_simps]:
  assumes "SystemId_ok i"
  shows "pdu_packet (new_BindTransceiverResp st sn i) (BindTransceiverResp_encode (new_BindTransceiverResp st sn i)) = Inr (response 0x80000009 st sn (i @ [0]))"
  unfolding BindTransceiverResp_encode_def using assms
  by (subst bind_transceiver_resp.packet)
    (simp_all add: bind_transceiver_resp_frame_ok [OF BindTransceiverResp_reachable.ctor],
     simp_all add: BindTransceiverResp_body_def new_BindTransceiverResp_def pdu_octets_def header_octets_def update_length_def
       String_octets_def cstr_ok_def response_def pdu_size_def)

lemma SubmitSmResp_packet [response_simps]:
  assumes "MessageId_ok i"
  shows "pdu_packet (new_SubmitSmResp st sn i) (SubmitSmResp_encode (new_SubmitSmResp st sn i)) = Inr (response 0x80000004 st sn (i @ [0]))"
  unfolding SubmitSmResp_encode_def using assms
  by (subst submit_sm_resp.packet)
    (simp_all add: submit_sm_resp_frame_ok [OF SubmitSmResp_reachable.ctor],
     simp_all add: SubmitSmResp_body_def new_SubmitSmResp_def pdu_octets_def header_octets_def update_length_def
       String_octets_def cstr_ok_def response_def pdu_size_def)

lemma SubmitSmResp_response:
  assumes "MessageId_ok i"
  shows "SubmitSmResp_from (response 0x80000004 st sn (i @ [0])) = Inr (new_SubmitSmResp st sn i)"
proof -
  let ?p = "new_SubmitSmResp st sn i"
  have b: "SubmitSmResp_body ?p = i @ [0]"
    by (simp add: SubmitSmResp_body_def new_SubmitSmResp_def update_length_def String_octets_def)
  have ok: "submit_sm_resp.ok ?p"
    using assms submit_sm_resp_frame_ok [OF SubmitSmResp_reachable.ctor, of st sn i]
    by (simp add: SubmitSmResp_fields_ok_def new_SubmitSmResp_def update_length_def size_ok_def
        cstr_ok_def pdu_size_def SubmitSmResp_body_def String_octets_def)
  moreover have "submit_sm_resp.octs ?p = response 0x80000004 st sn (i @ [0])"
    unfolding b by (simp add: pdu_octets_def header_octets_def new_SubmitSmResp_def update_length_def response_def)
  ultimately show ?thesis
    using submit_sm_resp.decode_frame_octs [OF ok, of "[]"]
    by (simp add: SubmitSmResp_from_def SubmitSmResp_decode_def)
qed

section \<open>The handlers in closed form\<close>

text \<open>Where a response goes that is not private to the connection.\<close>

definition send_A :: "env \<Rightarrow> packet \<Rightarrow> session \<Rightarrow> 'd server \<Rightarrow> session \<times> 'd server" where
  "send_A e bp s w = (if data_source_flag s = [] then (add_private e bp s, w)
     else (s, w\<lparr> sources := add_to_out_queue_A (data_source_flag s) (time_now e) bp (sources w) \<rparr>))"

lemma try_catch_simps [simp]:
  "try_catch (Inr x) k h = k x" "try_catch (Inl (Error t)) k h = h"
  "try_catch (Inl OutOfBounds) k h = Inl OutOfBounds"
  by (simp_all add: try_catch_def)

lemma nack_eq:
  "generate_and_send_nack e st sn s w = Inr (send_A e (response cid_GenericNack st sn []) s w)"
  by (simp add: generate_and_send_nack_def Let_def response_simps send_A_def)

lemma nack_and_count_eq:
  "nack_and_count e st sn s w =
     Inr (apfst other_error_occur (send_A e (response cid_GenericNack st sn []) s w))"
  by (simp add: nack_and_count_def nack_eq apfst_def map_prod_def split_beta)

definition bind_result :: "env \<Rightarrow> uint32 \<Rightarrow> packet \<Rightarrow> octets \<Rightarrow> SMPP_SESSION_STATE \<Rightarrow> session \<Rightarrow> session" where
  "bind_result e st bp sid bound s =
     (if st \<noteq> ESME_ROK then bind_error_occur (add_private e bp s)
      else (add_private e bp s)\<lparr> data_source_flag := sid, sysid := sid, current_session_state := bound \<rparr>)"

lemma answer_bind_eq:
  "answer_bind e st (Inr bp) sid bound sn s w = Inr (bind_result e st bp sid bound s, w)"
  by (simp add: answer_bind_def bind_result_def add_private_def)

lemma server_sysid: "SystemId SMPP_SERVER_SYSID = Inr SMPP_SERVER_SYSID" "SystemId_ok SMPP_SERVER_SYSID"
  by (simp_all add: SystemId_def valid_length_String_def SMPP_SERVER_SYSID_def ascii_def cstr_ok_def)

abbreviation server_octets :: octets where
  "server_octets \<equiv> SMPP_SERVER_SYSID @ [0]"

definition transceiver_status :: "'d server \<Rightarrow> octets \<Rightarrow> octets \<Rightarrow> session \<Rightarrow> uint32" where
  "transceiver_status w sid pwd s = (if need_authorize (configer w)
     then check_sysid_pw_bindip (accounts w) sid pwd (tcp_client_ip s) else ESME_ROK)"

lemma process_bind_transceiver_eq:
  "process_bind_transceiver e p s w =
     (let st = transceiver_status w (BindTransceiver.system_id p) (BindTransceiver.password p) s
      in Inr (bind_result e st (response 0x80000009 st (sequence_number p) server_octets)
           (BindTransceiver.system_id p) SESSION_BOUND_TRX s, w))"
  by (simp add: process_bind_transceiver_def transceiver_status_def Let_def server_sysid
      response_simps answer_bind_eq)

lemma process_bind_transmitter_eq:
  "process_bind_transmitter e p s w =
     (let st = check_sysid_pw_bindip (accounts w) (BindTransmitter.system_id p)
            (BindTransmitter.password p) (tcp_client_ip s)
      in Inr (bind_result e st (response 0x80000002 st (sequence_number p) server_octets)
           (BindTransmitter.system_id p) SESSION_BOUND_TX s, w))"
  by (simp add: process_bind_transmitter_def Let_def server_sysid response_simps answer_bind_eq)

lemma process_bind_receiver_eq:
  "process_bind_receiver e p s w =
     (let st = check_sysid_pw_bindip (accounts w) (BindReceiver.system_id p)
            (BindReceiver.password p) (tcp_client_ip s)
      in Inr (bind_result e st (response 0x80000001 st (sequence_number p) server_octets)
           (BindReceiver.system_id p) SESSION_BOUND_RX s, w))"
  by (simp add: process_bind_receiver_def Let_def server_sysid response_simps answer_bind_eq)

lemma process_enquirelink_eq:
  "process_enquirelink e sn s w =
     Inr (add_private e (response cid_EnquireLinkResp ESME_ROK sn []) s, w)"
  by (simp add: process_enquirelink_def Let_def response_simps)

lemma process_unbind_eq:
  "process_unbind e p s w =
     Inr (add_private e (response cid_UnbindResp ESME_ROK (sequence_number p) [])
       (s\<lparr> current_session_state := SESSION_CLOSED \<rparr>), w)"
  by (simp add: process_unbind_def Let_def response_simps)

subsection \<open>Submissions\<close>

lemma ucs2_loop_total: "2 * n \<le> length p \<Longrightarrow> \<exists>r. ucs2_to_utf8_loop p n = Inr r"
proof (induction n arbitrary: p)
  case (Suc n)
  then obtain a b q where "p = a # b # q" by (cases p; cases "tl p") auto
  with Suc show ?case by (fastforce simp: get_octet_def bind_def)
qed simp

lemma convert_to_utf8_total: "off \<le> length sm \<Longrightarrow> \<exists>c. convert_to_utf8 off sm dc = Inr c"
  using ucs2_loop_total [of "(length sm - off) div 2" "drop off sm"]
  by (auto simp: convert_to_utf8_def smpp_datacoding_convert_ucs2_to_utf8_def)

lemma parse_udhi_bound: "snd (snd (snd (parse_udhi sm))) \<le> length sm"
  by (simp add: parse_udhi_def)

lemma submitted_smi_total: "\<exists>smi. submitted_smi e p mid s = Inr smi"
proof -
  obtain ref parts index off where u: "parse_udhi (SubmitSm.short_message p) = (ref, parts, index, off)"
    by (metis prod.collapse)
  with parse_udhi_bound [of "SubmitSm.short_message p"]
    convert_to_utf8_total [of off "SubmitSm.short_message p" "dc_type (SubmitSm.data_coding p)"]
  show ?thesis by (auto simp: submitted_smi_def Let_def)
qed

text \<open>What the message of a submission holds.\<close>

lemma submitted_smi_fields:
  assumes "submitted_smi e p mid s = Inr smi"
  shows "smi_systemid smi = sysid s" "message_id_of_protocol_server smi = mid"
    "sn_by_client smi = sequence_number p" "ip smi = tcp_client_ip s"
    "dst_addr smi = addr_v (address (SubmitSm.destination_addr p))"
    "src_addr smi = addr_v (address (SubmitSm.source_addr p))"
    "(udhi_reference smi, udhi_total_parts smi, udhi_part_index smi,
        snd (snd (snd (parse_udhi (SubmitSm.short_message p))))) = parse_udhi (SubmitSm.short_message p)"
    "convert_to_utf8 (snd (snd (snd (parse_udhi (SubmitSm.short_message p)))))
       (SubmitSm.short_message p) (dc_type (SubmitSm.data_coding p)) = Inr (content smi)"
    "state smi = SMI_STATE_INIT"
  using assms
  by (auto simp: submitted_smi_def Let_def bind_eq_Inr new_cb_sm_information_def split: prod.splits)

lemma message_id_ok: "MessageId_ok (fst (generate_message_id d g))"
proof -
  have "hex_value 0 = None" by (simp add: hex_value_def)
  then show ?thesis
    using length_message_id [of d g] hex_string_digits [of "unat (fst (generate_sn d g))"]
    by (auto simp: cstr_ok_def generate_message_id_sn)
qed

lemma MessageId_message_id: "MessageId (fst (generate_message_id d g)) = Inr (fst (generate_message_id d g))"
  using message_id_ok [of d g] by (simp add: MessageId_def valid_length_String_def cstr_ok_def)

text \<open>The server after a submission has been acknowledged with a message id.\<close>

definition acknowledged :: "env \<Rightarrow> uint32 \<Rightarrow> octets \<Rightarrow> session \<Rightarrow> 'd server \<Rightarrow> 'd server" where
  "acknowledged e sn mid s w = (if data_source_flag s = [] then w
     else w\<lparr> sources := add_to_out_queue_A (data_source_flag s) (time_now e)
              (response 0x80000004 ESME_ROK sn (mid @ [0])) (sources w),
            statistics := stat_ack_sent (sysid s) (statistics w) \<rparr>)"

lemma process_submitsm_eq:
  assumes "generate_message_id (dice e) (generator w) = (mid, g)"
    "submitted_smi e p mid (s\<lparr> total_submit := total_submit s + 1 \<rparr>) = Inr smi"
  shows "process_submitsm e ops p s w = Inr (s\<lparr> total_submit := total_submit s + 1 \<rparr>,
    smi_received ops smi (acknowledged e (sequence_number p) mid s (w\<lparr> generator := g \<rparr>)))"
  using assms message_id_ok [of "dice e" "generator w"] MessageId_message_id [of "dice e" "generator w"]
  by (simp add: process_submitsm_def Let_def response_simps acknowledged_def)

lemma process_submitsm_cases:
  obtains mid g smi where "generate_message_id (dice e) (generator w) = (mid, g)"
    "submitted_smi e p mid (s\<lparr> total_submit := total_submit s + 1 \<rparr>) = Inr smi"
    "process_submitsm e ops p s w = Inr (s\<lparr> total_submit := total_submit s + 1 \<rparr>,
       smi_received ops smi (acknowledged e (sequence_number p) mid s (w\<lparr> generator := g \<rparr>)))"
  using submitted_smi_total process_submitsm_eq by (metis prod.collapse)

section \<open>Steps\<close>

lemma decode_default:
  "BindTransceiver_decode BindTransceiver_default = BindTransceiver_from"
  "BindTransmitter_decode BindTransmitter_default = BindTransmitter_from"
  "BindReceiver_decode BindReceiver_default = BindReceiver_from"
  "SubmitSm_decode SubmitSm_default = SubmitSm_from"
  "Unbind_decode Unbind_default = Unbind_from"
  "DeliverSmResp_decode DeliverSmResp_default = DeliverSmResp_from"
  by (simp_all add: fun_eq_iff decode_frame_blank
      BindTransceiver_from_def BindTransceiver_decode_def BindTransmitter_from_def
      BindTransmitter_decode_def BindReceiver_from_def BindReceiver_decode_def
      SubmitSm_from_def SubmitSm_decode_def Unbind_from_def Unbind_decode_def
      DeliverSmResp_from_def DeliverSmResp_decode_def)

text \<open>The requests that the server carries out, and what is wrong with one that it cannot decode.\<close>

definition handled :: "uint32 set" where
  "handled = {cid_BindTransceiver, cid_BindTransmitter, cid_BindReceiver, cid_SubmitSm, cid_QuerySm,
     cid_Unbind, cid_EnquireLink, cid_DeliverSmResp}"

definition failure :: "'a result \<Rightarrow> smpp_error option" where
  "failure r = (case r of Inl er \<Rightarrow> Some er | Inr _ \<Rightarrow> None)"

definition decode_failure :: "uint32 \<Rightarrow> packet \<Rightarrow> smpp_error option" where
  "decode_failure c b =
     (if c = cid_BindTransceiver then failure (BindTransceiver_from b)
      else if c = cid_BindTransmitter then failure (BindTransmitter_from b)
      else if c = cid_BindReceiver then failure (BindReceiver_from b)
      else if c = cid_SubmitSm then failure (SubmitSm_from b)
      else if c = cid_Unbind then failure (Unbind_from b)
      else if c = cid_DeliverSmResp then failure (DeliverSmResp_from b)
      else None)"

lemma failure_simps [simp]: "failure (Inr x) = None" "failure (Inl er) = Some er"
  by (simp_all add: failure_def)

text \<open>A rule for each thing that may happen to a packet of a session.\<close>

inductive session_step :: "env \<Rightarrow> 'd db_ops \<Rightarrow> packet \<Rightarrow> session \<times> 'd server \<Rightarrow> session \<times> 'd server \<Rightarrow> bool"
  for e ops b where
  invalid_sequence:
    "get_sequence_number b = Inr sn \<Longrightarrow> \<not> SequenceNumber_valid sn \<Longrightarrow>
     session_step e ops b (s, w) (s\<lparr> error_occured := True \<rparr>, w)"
| not_admitted:
    "get_sequence_number b = Inr sn \<Longrightarrow> SequenceNumber_valid sn \<Longrightarrow> get_command_id b = Inr c \<Longrightarrow>
     \<not> valid (current_session_state s) c \<or> c \<notin> handled \<Longrightarrow>
     session_step e ops b (s, w)
       (apfst other_error_occur (send_A e (response cid_GenericNack ESME_RINVCMDID sn []) s w))"
| malformed:
    "get_sequence_number b = Inr sn \<Longrightarrow> SequenceNumber_valid sn \<Longrightarrow> get_command_id b = Inr c \<Longrightarrow>
     valid (current_session_state s) c \<Longrightarrow> decode_failure c b = Some (Error t) \<Longrightarrow>
     c \<noteq> cid_DeliverSmResp \<Longrightarrow>
     session_step e ops b (s, w)
       (apfst other_error_occur (send_A e (response cid_GenericNack ESME_RINVMSGLEN sn []) s w))"
| malformed_resp:
    "get_sequence_number b = Inr sn \<Longrightarrow> SequenceNumber_valid sn \<Longrightarrow>
     get_command_id b = Inr cid_DeliverSmResp \<Longrightarrow> is_state_bound (current_session_state s) \<Longrightarrow>
     decode_failure cid_DeliverSmResp b = Some (Error t) \<Longrightarrow>
     session_step e ops b (s, w) (other_error_occur s, w)"
| bind_transceiver:
    "SequenceNumber_valid (sequence_number p) \<Longrightarrow> get_command_id b = Inr cid_BindTransceiver \<Longrightarrow>
     BindTransceiver_from b = Inr p \<Longrightarrow> current_session_state s = SESSION_OPEN \<Longrightarrow>
     st = transceiver_status w (BindTransceiver.system_id p) (BindTransceiver.password p) s \<Longrightarrow>
     session_step e ops b (s, w)
       (bind_result e st (response 0x80000009 st (sequence_number p) server_octets)
          (BindTransceiver.system_id p) SESSION_BOUND_TRX (bind_timers e s), w)"
| bind_transmitter:
    "SequenceNumber_valid (sequence_number p) \<Longrightarrow> get_command_id b = Inr cid_BindTransmitter \<Longrightarrow>
     BindTransmitter_from b = Inr p \<Longrightarrow> current_session_state s = SESSION_OPEN \<Longrightarrow>
     st = check_sysid_pw_bindip (accounts w) (BindTransmitter.system_id p) (BindTransmitter.password p)
       (tcp_client_ip s) \<Longrightarrow>
     session_step e ops b (s, w)
       (bind_result e st (response 0x80000002 st (sequence_number p) server_octets)
          (BindTransmitter.system_id p) SESSION_BOUND_TX (bind_timers e s), w)"
| bind_receiver:
    "SequenceNumber_valid (sequence_number p) \<Longrightarrow> get_command_id b = Inr cid_BindReceiver \<Longrightarrow>
     BindReceiver_from b = Inr p \<Longrightarrow> current_session_state s = SESSION_OPEN \<Longrightarrow>
     st = check_sysid_pw_bindip (accounts w) (BindReceiver.system_id p) (BindReceiver.password p)
       (tcp_client_ip s) \<Longrightarrow>
     session_step e ops b (s, w)
       (bind_result e st (response 0x80000001 st (sequence_number p) server_octets)
          (BindReceiver.system_id p) SESSION_BOUND_RX (bind_timers e s), w)"
| submit:
    "SequenceNumber_valid (sequence_number p) \<Longrightarrow> get_command_id b = Inr cid_SubmitSm \<Longrightarrow>
     SubmitSm_from b = Inr p \<Longrightarrow> is_state_bound_txable (current_session_state s) \<Longrightarrow>
     generate_message_id (dice e) (generator w) = (mid, g) \<Longrightarrow>
     s' = (activity_timers e s)\<lparr> total_submit := total_submit s + 1 \<rparr> \<Longrightarrow>
     submitted_smi e p mid s' = Inr smi \<Longrightarrow>
     session_step e ops b (s, w) (s', smi_received ops smi
       (acknowledged e (sequence_number p) mid s (w\<lparr> generator := g \<rparr>)))"
| query:
    "get_sequence_number b = Inr sn \<Longrightarrow> SequenceNumber_valid sn \<Longrightarrow>
     get_command_id b = Inr cid_QuerySm \<Longrightarrow> is_state_bound_rxable (current_session_state s) \<Longrightarrow>
     session_step e ops b (s, w) (s, w)"
| unbind:
    "SequenceNumber_valid (sequence_number p) \<Longrightarrow> get_command_id b = Inr cid_Unbind \<Longrightarrow>
     Unbind_from b = Inr p \<Longrightarrow> is_state_bound (current_session_state s) \<Longrightarrow>
     session_step e ops b (s, w)
       (add_private e (response cid_UnbindResp ESME_ROK (sequence_number p) [])
          (s\<lparr> bind_time := Some (seconds e), current_session_state := SESSION_CLOSED \<rparr>), w)"
| enquire_link:
    "get_sequence_number b = Inr sn \<Longrightarrow> SequenceNumber_valid sn \<Longrightarrow>
     get_command_id b = Inr cid_EnquireLink \<Longrightarrow> current_session_state s \<noteq> SESSION_CLOSED \<Longrightarrow>
     session_step e ops b (s, w)
       (add_private e (response cid_EnquireLinkResp ESME_ROK sn []) (activity_timers e s), w)"
| deliver_sm_resp:
    "SequenceNumber_valid (sequence_number p) \<Longrightarrow> get_command_id b = Inr cid_DeliverSmResp \<Longrightarrow>
     DeliverSmResp_from b = Inr p \<Longrightarrow> is_state_bound (current_session_state s) \<Longrightarrow>
     session_step e ops b (s, w) (s, snd (dlrresp_received (sequence_number p) w))"

text \<open>A packet that is decoded has the sequence number that was read off its header.\<close>

lemma decoded_header:
  "BindTransceiver_from b = Inr p1 \<Longrightarrow> get_sequence_number b = Inr (sequence_number p1)"
  "BindTransmitter_from b = Inr p2 \<Longrightarrow> get_sequence_number b = Inr (sequence_number p2)"
  "BindReceiver_from b = Inr p3 \<Longrightarrow> get_sequence_number b = Inr (sequence_number p3)"
  "SubmitSm_from b = Inr p4 \<Longrightarrow> get_sequence_number b = Inr (sequence_number p4)"
  "Unbind_from b = Inr p5 \<Longrightarrow> get_sequence_number b = Inr (sequence_number p5)"
  "DeliverSmResp_from b = Inr p6 \<Longrightarrow> get_sequence_number b = Inr (sequence_number p6)"
  using bind_transceiver.decode_header(1) bind_transmitter.decode_header(1)
    bind_receiver.decode_header(1) submit_sm.decode_header(1) unbind.decode_header(1)
    deliver_sm_resp.decode_header(1)
  by (simp_all add: BindTransceiver_from_def BindTransceiver_decode_def BindTransmitter_from_def
      BindTransmitter_decode_def BindReceiver_from_def BindReceiver_decode_def
      SubmitSm_from_def SubmitSm_decode_def Unbind_from_def Unbind_decode_def
      DeliverSmResp_from_def DeliverSmResp_decode_def)

lemma try_catch_Inr:
  "try_catch m k h = Inr y \<longleftrightarrow> (\<exists>x. m = Inr x \<and> k x = Inr y) \<or> (\<exists>t. m = Inl (Error t) \<and> h = Inr y)"
  by (auto simp: try_catch_def split: sum.splits smpp_error.splits)

lemma process_decoded:
  assumes "get_sequence_number b = Inr sn" "SequenceNumber_valid sn" "get_command_id b = Inr c"
    "valid (current_session_state s) c" "c \<in> handled"
  shows "process e ops b s w =
    (if c = cid_BindTransceiver then try_catch (BindTransceiver_from b)
       (\<lambda>p. process_bind_transceiver e p (bind_timers e s) w) (nack_and_count e ESME_RINVMSGLEN sn s w)
     else if c = cid_BindTransmitter then try_catch (BindTransmitter_from b)
       (\<lambda>p. process_bind_transmitter e p (bind_timers e s) w) (nack_and_count e ESME_RINVMSGLEN sn s w)
     else if c = cid_BindReceiver then try_catch (BindReceiver_from b)
       (\<lambda>p. process_bind_receiver e p (bind_timers e s) w) (nack_and_count e ESME_RINVMSGLEN sn s w)
     else if c = cid_SubmitSm then try_catch (SubmitSm_from b)
       (\<lambda>p. process_submitsm e ops p (activity_timers e s) w) (nack_and_count e ESME_RINVMSGLEN sn s w)
     else if c = cid_QuerySm then Inr (s, w)
     else if c = cid_Unbind then try_catch (Unbind_from b)
       (\<lambda>p. process_unbind e p (s\<lparr> bind_time := Some (seconds e) \<rparr>) w)
       (nack_and_count e ESME_RINVMSGLEN sn s w)
     else if c = cid_EnquireLink then process_enquirelink e sn (activity_timers e s) w
     else try_catch (DeliverSmResp_from b)
       (\<lambda>p. Inr (s, snd (dlrresp_received (sequence_number p) w))) (Inr (other_error_occur s, w)))"
proof -
  have "\<not> current_session_state s = SESSION_BOUND_RX" if "c = cid_SubmitSm"
    using assms(4) that by (auto simp: valid_submit)
  then show ?thesis
    using assms unfolding process_def decode_default handled_def
    by (auto simp: unbind_received_def)
qed

lemma process_rejected:
  assumes "get_sequence_number b = Inr sn" "SequenceNumber_valid sn" "get_command_id b = Inr c"
    "\<not> valid (current_session_state s) c \<or> c \<notin> handled"
  shows "process e ops b s w = nack_and_count e ESME_RINVCMDID sn s w"
  using assms unfolding process_def handled_def by auto

lemma tx_bindings [simp]: "transceiver_status w a pwd (bind_timers e s) = transceiver_status w a pwd s"
  "tcp_client_ip (bind_timers e s) = tcp_client_ip s"
  by (simp_all add: transceiver_status_def bind_timers_def)

lemma acknowledged_activity [simp]:
  "acknowledged e sn mid (activity_timers e s) w = acknowledged e sn mid s w"
  by (simp add: acknowledged_def activity_timers_def)

lemma valid_handled:
  "valid s cid_Unbind \<longleftrightarrow> is_state_bound s" "valid s cid_QuerySm \<longleftrightarrow> is_state_bound_rxable s"
  "valid s cid_DeliverSmResp \<longleftrightarrow> is_state_bound s" "valid s cid_EnquireLink \<longleftrightarrow> s \<noteq> SESSION_CLOSED"
  "valid s cid_SubmitSm \<longleftrightarrow> is_state_bound_txable s"
  by (cases s; simp add: valid_def state_bound_defs)+

lemma step_process:
  assumes "session_step e ops b (s, w) (s', w')"
  shows "process e ops b s w = Inr (s', w')"
  using assms
proof cases
  case (invalid_sequence sn)
  then show ?thesis by (simp add: process_def)
next
  case (not_admitted sn c)
  then show ?thesis by (simp add: process_rejected nack_and_count_eq)
next
  case (malformed sn c t)
  then have "c \<in> handled"
    by (auto simp: decode_failure_def handled_def split: if_splits)
  with malformed show ?thesis
    by (auto simp: process_decoded nack_and_count_eq decode_failure_def failure_def
        split: if_splits sum.splits)
next
  case (submit p mid g smi)
  then show ?thesis
    by (subst process_decoded)
      (auto simp: decoded_header valid_handled handled_def process_submitsm_eq [of e w mid g]
        activity_timers_def acknowledged_def)
qed (auto simp: process_decoded decoded_header valid_bind valid_handled handled_def decode_failure_def
    process_bind_transceiver_eq process_bind_transmitter_eq process_bind_receiver_eq Let_def
    process_unbind_eq process_enquirelink_eq failure_def split: sum.splits)

text \<open>The converse, for each of the requests that are carried out.\<close>

lemma malformed_step:
  assumes "get_sequence_number b = Inr sn" "SequenceNumber_valid sn" "get_command_id b = Inr c"
    "valid (current_session_state s) c" "decode_failure c b = Some (Error t)" "c \<noteq> cid_DeliverSmResp"
    "nack_and_count e ESME_RINVMSGLEN sn s w = Inr r"
  shows "session_step e ops b (s, w) r"
  using session_step.malformed [OF assms(1-6)] assms(7) by (auto simp: nack_and_count_eq)

lemma bind_step:
  assumes h: "get_sequence_number b = Inr sn" "SequenceNumber_valid sn" "get_command_id b = Inr c"
    "valid (current_session_state s) c"
    and c: "c = cid_BindTransceiver \<or> c = cid_BindTransmitter \<or> c = cid_BindReceiver"
    and p: "process e ops b s w = Inr r"
  shows "session_step e ops b (s, w) r"
proof -
  have d: "c \<in> handled" using c by (auto simp: handled_def)
  have bad: ?thesis if "nack_and_count e ESME_RINVMSGLEN sn s w = Inr r"
    "c = cid_BindTransceiver \<and> BindTransceiver_from b = Inl (Error t) \<or>
     c = cid_BindTransmitter \<and> BindTransmitter_from b = Inl (Error t) \<or>
     c = cid_BindReceiver \<and> BindReceiver_from b = Inl (Error t)" for t
    using that malformed_step [OF h, of t e w r ops] by (auto simp: decode_failure_def)
  from c show ?thesis
    using p [unfolded process_decoded [OF h d]] h
    by (elim disjE)
      (auto simp: try_catch_Inr process_bind_transceiver_eq process_bind_transmitter_eq
        process_bind_receiver_eq Let_def valid_bind decoded_header
        intro: session_step.bind_transceiver session_step.bind_transmitter session_step.bind_receiver
          bad)
qed

lemma submit_step:
  assumes h: "get_sequence_number b = Inr sn" "SequenceNumber_valid sn"
    "get_command_id b = Inr cid_SubmitSm" "valid (current_session_state s) cid_SubmitSm"
    and p: "process e ops b s w = Inr r"
  shows "session_step e ops b (s, w) r"
proof -
  have t: "try_catch (SubmitSm_from b) (\<lambda>p. process_submitsm e ops p (activity_timers e s) w)
      (nack_and_count e ESME_RINVMSGLEN sn s w) = Inr r"
    using p process_decoded [OF h, of e ops w] by (simp add: handled_def)
  show ?thesis
  proof (cases "SubmitSm_from b")
    case (Inr q)
    let ?s = "activity_timers e s"
    have a: "total_submit ?s = total_submit s"
      by (simp add: activity_timers_def)
    obtain mid g smi where m: "generate_message_id (dice e) (generator w) = (mid, g)"
      "submitted_smi e q mid (?s\<lparr> total_submit := total_submit s + 1 \<rparr>) = Inr smi"
      "process_submitsm e ops q ?s w = Inr (?s\<lparr> total_submit := total_submit s + 1 \<rparr>,
         smi_received ops smi (acknowledged e (sequence_number q) mid ?s (w\<lparr> generator := g \<rparr>)))"
      by (rule process_submitsm_cases [of e w q ?s ops, unfolded a])
    show ?thesis
      using session_step.submit [OF _ _ Inr _ m(1) refl m(2), of ops] m(3) t Inr h
        decoded_header(4) [OF Inr]
      by (auto simp: valid_handled)
  next
    case (Inl er)
    with t malformed_step [OF h, of _ e w r ops] show ?thesis by (auto simp: try_catch_Inr decode_failure_def)
  qed
qed

lemma other_step:
  assumes h: "get_sequence_number b = Inr sn" "SequenceNumber_valid sn" "get_command_id b = Inr c"
    "valid (current_session_state s) c"
    and c: "c = cid_QuerySm \<or> c = cid_Unbind \<or> c = cid_EnquireLink \<or> c = cid_DeliverSmResp"
    and p: "process e ops b s w = Inr r"
  shows "session_step e ops b (s, w) r"
proof -
  have d: "c \<in> handled" using c by (auto simp: handled_def)
  have bad: ?thesis if "nack_and_count e ESME_RINVMSGLEN sn s w = Inr r"
    "c = cid_Unbind \<and> Unbind_from b = Inl (Error t)" for t
    using that malformed_step [OF h, of t e w r ops] by (auto simp: decode_failure_def)
  from c show ?thesis
    using p [unfolded process_decoded [OF h d]] h
    by (elim disjE)
      (auto simp: try_catch_Inr process_unbind_eq process_enquirelink_eq valid_handled
        decode_failure_def decoded_header
        intro: session_step.query session_step.unbind session_step.enquire_link
          session_step.deliver_sm_resp session_step.malformed_resp bad)
qed

lemma process_step:
  assumes p: "process e ops b s w = Inr r"
  shows "session_step e ops b (s, w) r"
proof -
  obtain sn where sn: "get_sequence_number b = Inr sn"
    using p by (auto simp: process_def bind_eq_Inr)
  show ?thesis
  proof (cases "SequenceNumber_valid sn")
    case False
    with p sn session_step.invalid_sequence [OF sn False, of e ops s w] show ?thesis
      by (simp add: process_def)
  next
    case valid_sn: True
    obtain c where c: "get_command_id b = Inr c"
      using p sn valid_sn by (auto simp: process_def bind_eq_Inr)
    note header = sn valid_sn c
    show ?thesis
    proof (cases "valid (current_session_state s) c \<and> c \<in> handled")
      case False
      then have "r = apfst other_error_occur (send_A e (response cid_GenericNack ESME_RINVCMDID sn []) s w)"
        using header p by (simp add: process_rejected nack_and_count_eq)
      with session_step.not_admitted [OF header, of s e ops w] False show ?thesis by blast
    next
      case True
      then show ?thesis
        using header p submit_step [OF header(1,2), of s e ops w r] bind_step [OF header, of s e ops w r]
          other_step [OF header, of s e ops w r]
        by (auto simp: handled_def)
    qed
  qed
qed

theorem process_iff_step: "process e ops b s w = Inr (s', w') \<longleftrightarrow> session_step e ops b (s, w) (s', w')"
  using process_step step_process by blast

section \<open>When a handler does not return\<close>

text \<open>
  A packet shorter than a header, and one whose decoder reads past its end, are all that can
  keep \<open>process\<close> from returning to its caller.
\<close>

definition over_read :: "SMPP_SESSION_STATE \<Rightarrow> packet \<Rightarrow> bool" where
  "over_read x b \<longleftrightarrow> length b < 16 \<or>
     (\<exists>sn c. get_sequence_number b = Inr sn \<and> SequenceNumber_valid sn \<and> get_command_id b = Inr c \<and>
        valid x c \<and> decode_failure c b = Some OutOfBounds)"

lemma header_reads:
  "length b < 16 \<Longrightarrow> get_sequence_number b = Inl OutOfBounds"
  "16 \<le> length b \<Longrightarrow> \<exists>sn c. get_sequence_number b = Inr sn \<and> get_command_id b = Inr c"
  by (auto simp: get_sequence_number_def get_command_id_def get_wire32_def)

lemma decode_failure_handled: "decode_failure c b = Some er \<Longrightarrow> c \<in> handled"
  by (auto simp: decode_failure_def handled_def split: if_splits)

lemma process_submitsm_returns: "process_submitsm e ops p s w \<noteq> Inl er"
  by (rule process_submitsm_cases [of e w p s ops]) simp

lemma process_decoded_failure:
  assumes h: "get_sequence_number b = Inr sn" "SequenceNumber_valid sn" "get_command_id b = Inr c"
    "valid (current_session_state s) c" "c \<in> handled"
  shows "process e ops b s w = Inl er \<longleftrightarrow> er = OutOfBounds \<and> decode_failure c b = Some OutOfBounds"
proof -
  have t: "try_catch m k g = Inl er \<longleftrightarrow> er = OutOfBounds \<and> failure m = Some OutOfBounds"
    if "\<And>x. k x \<noteq> Inl er" "g \<noteq> Inl er" for m :: "'x result" and k :: "'x \<Rightarrow> 'y result" and g
    using that by (auto simp: try_catch_def failure_def split: sum.splits smpp_error.splits)
  from h(5) consider "c = cid_BindTransceiver" | "c = cid_BindTransmitter" | "c = cid_BindReceiver"
    | "c = cid_SubmitSm" | "c = cid_Unbind" | "c = cid_DeliverSmResp"
    | "c = cid_QuerySm \<or> c = cid_EnquireLink"
    by (auto simp: handled_def)
  then show ?thesis
    by cases (simp_all add: process_decoded [OF h] decode_failure_def t nack_and_count_eq
      process_bind_transceiver_eq process_bind_transmitter_eq process_bind_receiver_eq
      process_submitsm_returns process_unbind_eq process_enquirelink_eq Let_def, auto simp:
      process_enquirelink_eq)
qed

lemma process_failure:
  "process e ops b s w = Inl er \<longleftrightarrow> er = OutOfBounds \<and> over_read (current_session_state s) b"
proof (cases "length b < 16")
  case True
  then show ?thesis by (auto simp: process_def header_reads over_read_def)
next
  case False
  then obtain sn c where h: "get_sequence_number b = Inr sn" "get_command_id b = Inr c"
    using header_reads(2) [of b] by auto
  have o: "over_read (current_session_state s) b \<longleftrightarrow> SequenceNumber_valid sn \<and>
      valid (current_session_state s) c \<and> decode_failure c b = Some OutOfBounds"
    using False h by (simp add: over_read_def)
  show ?thesis
  proof (cases "SequenceNumber_valid sn")
    case invalid: False
    with h o show ?thesis by (simp add: process_def)
  next
    case True
    show ?thesis
    proof (cases "valid (current_session_state s) c \<and> c \<in> handled")
      case admitted: True
      with process_decoded_failure [OF h(1) True h(2)] True o show ?thesis by blast
    next
      case rejected: False
      then have "process e ops b s w \<noteq> Inl er"
        using process_rejected [OF h(1) True h(2), of s e ops w] by (auto simp: nack_and_count_eq)
      with rejected decode_failure_handled [of c b OutOfBounds] o show ?thesis by auto
    qed
  qed
qed

end
