(* ===== verification/Delivery.thy ===== *)
theory Delivery
  imports Session_Facts
begin

text \<open>
  What reaches the client: the deliver_sm made of a receipt or of an incoming message, and the
  order in which the queues of a session are emptied.
\<close>

section \<open>The PDU\<close>

definition sme :: "octets \<Rightarrow> SmeAddress" where
  "sme a = \<lparr> ton = 1, npi = 1, address = \<lparr> addr_v = a, addr_len = 21 \<rparr> \<rparr>"

definition delivery :: "octets \<Rightarrow> octets \<Rightarrow> uint32 \<Rightarrow> octet \<Rightarrow> octet \<Rightarrow> octets \<Rightarrow> DeliverSm" where
  "delivery destination source sn esm dc text =
     \<lparr> command_length = of_nat (33 + length destination + length source + length text),
       command_id = 0x00000005, command_status = 0, sequence_number = sn, tlv_list = [],
       service_type = [], source_addr = sme source, destination_addr = sme destination,
       esm_class = esm, protocol_id = 0, priority_flag = 0, schedule_delivery_time = [],
       validity_period = [], registered_delivery = 0, replace_if_present_flag = 0,
       data_coding = dc, sm_default_msg_id = 0, short_message = text \<rparr>"

lemma international_eq:
  "international a = (if length a < 21 then Inr (sme a) else Inl (Error ''Invalid Address length''))"
  by (simp add: international_def new_Address_def new_SmeAddress_def valid_length_String_def sme_def)

lemma empty_time:
  "DeliverSm_set_schedule_delivery_time_Char [0] p = Inr (update_length (- of_nat (length (schedule_delivery_time p)))
     (p\<lparr> schedule_delivery_time := [] \<rparr>))"
  "DeliverSm_set_validity_period_Char [0] p = Inr (update_length (- of_nat (length (validity_period p)))
     (p\<lparr> validity_period := [] \<rparr>))"
  by (simp_all add: DeliverSm_set_schedule_delivery_time_Char_def DeliverSm_set_validity_period_Char_def
      assign_diff_def Time_assign_def assign_Char_def strlen_def String_of_Char_def valid_length_Char_def
      numeral_eq_Suc)

lemma deliver_header_eq:
  assumes "length destination < 21" "length source < 21" "SequenceNumber_valid sn"
  shows "deliver_header destination source sn esm = Inr (delivery destination source sn (word_of_int esm) 0 [])"
  using assms
  by (simp add: deliver_header_def international_eq set_sequence_number_def SequenceNumber_assign_allow_0
      empty_time DeliverSm_set_destination_addr_def DeliverSm_set_source_addr_def
      DeliverSm_set_esm_class_def DeliverSm_set_protocol_id_def DeliverSm_set_priority_flag_def
      DeliverSm_set_registered_delivery_def DeliverSm_default_def update_length_def diff_def sme_def
      SmeAddress_default_def Address_default_def delivery_def Let_def)

lemma deliver_header_error:
  assumes "\<not> (length destination < 21 \<and> length source < 21 \<and> SequenceNumber_valid sn)"
  shows "\<exists>t. deliver_header destination source sn esm = Inl (Error t)"
  using assms
  by (auto simp: deliver_header_def international_eq set_sequence_number_def
      SequenceNumber_assign_allow_0 Let_def)

text \<open>The length of the text travels in an octet, and only so much of the text is sent.\<close>

lemma short_message_eq:
  "DeliverSm_set_short_message text (of_nat (length text)) (delivery a b sn esm dc []) =
     Inr (delivery a b sn esm dc (take (length text mod 256) text))"
  by (simp add: DeliverSm_set_short_message_def message_diff_def ShortMessage_def unat_of_nat
      take_bit_eq_mod delivery_def update_length_def min_def algebra_simps)

lemma delivery_ok:
  assumes "cstr_ok 21 a" "cstr_ok 21 b" "length text < 256"
  shows "deliver_sm.ok (delivery a b sn esm dc text)"
  using assms
  by (simp add: DeliverSm_fields_ok_def delivery_def SmeAddress_ok_def sme_def cstr_ok_def
      ShortMessage_ok_def size_ok_def frame_ok_def pdu_size_def DeliverSm_body_def octets_simps
      address_length_def add.commute)

section \<open>The packet\<close>

text \<open>
  Under the limits on addresses and sequence number, the PDU of a receipt, and that of an
  incoming message, is queued as a packet from which the client decodes it.
\<close>

lemma delivery_packet:
  assumes "cstr_ok 21 a" "cstr_ok 21 b" "length text < 256"
  obtains bp where "\<And>s (w :: 'd server). add_to_B e (Inr (delivery a b sn esm dc text)) s w = Inr
      (if data_source_flag s = [] then w
       else w\<lparr> sources := add_to_out_queue_B (data_source_flag s) (time_now e) bp (sources w) \<rparr>)"
    "DeliverSm_from bp = Inr (delivery a b sn esm dc text)"
proof
  let ?p = "delivery a b sn esm dc text"
  have ok: "deliver_sm.ok ?p" by (rule delivery_ok [OF assms])
  then have "pdu_packet ?p (DeliverSm_encode ?p) = Inr (deliver_sm.octs ?p)"
    unfolding DeliverSm_encode_def by (intro deliver_sm.packet) (simp_all add: size_ok_def)
  then show "add_to_B e (Inr ?p) s w = Inr
      (if data_source_flag s = [] then w
       else w\<lparr> sources := add_to_out_queue_B (data_source_flag s) (time_now e) (deliver_sm.octs ?p) (sources w) \<rparr>)"
    for s and w :: "'d server"
    by (simp add: add_to_B_def)
  show "DeliverSm_from (deliver_sm.octs ?p) = Inr ?p"
    using deliver_sm.decode_frame_octs [OF ok, of "[]"]
    by (simp add: DeliverSm_from_def DeliverSm_decode_def)
qed

lemma delivery_coding:
  "DeliverSm_set_data_coding c (DeliverSm_set_sm_default_msg_id 0 (delivery a b n m 0 t)) = delivery a b n m c t"
  "DeliverSm_set_sm_default_msg_id 0 (DeliverSm_set_data_coding c (delivery a b n m 0 t)) = delivery a b n m c t"
  by (simp_all add: DeliverSm_set_sm_default_msg_id_def DeliverSm_set_data_coding_def delivery_def)

lemma receipt_pdu_eq:
  assumes "length (src_addr smi) < 21" "length (dst_addr smi) < 21"
    "SequenceNumber_valid (sn_by_protocol_server smi)"
  shows "receipt_pdu e d smi = Inr (delivery (src_addr smi) (dst_addr smi) (sn_by_protocol_server smi)
    4 0 (take (length (receipt_text e d smi) mod 256) (receipt_text e d smi)))"
  using assms by (simp add: receipt_pdu_def deliver_header_eq short_message_eq delivery_coding Let_def)

lemma mo_pdu_eq:
  assumes "length (src_addr smi) < 21" "length (dst_addr smi) < 21"
    "SequenceNumber_valid (sn_by_protocol_server smi)"
  shows "mo_pdu smi =
    (case smpp_datacoding_is_pure_ascii (content smi @ [0]) of
       Inl er \<Rightarrow> Some (Inl er)
     | Inr True \<Rightarrow> Some (Inr (delivery (dst_addr smi) (src_addr smi) (sn_by_protocol_server smi) 0 0
         (take (length (content smi) mod 256) (content smi))))
     | Inr False \<Rightarrow> map_option (\<lambda>r. bind r (\<lambda>u. Inr (delivery (dst_addr smi) (src_addr smi)
         (sn_by_protocol_server smi) 0 8 (take (length u mod 256) u))))
         (smpp_datacoding_convert_utf8_to_ucs2 (content smi @ [0])))"
  using assms
  by (auto simp: mo_pdu_def deliver_header_eq delivery_coding short_message_eq Let_def
      split: sum.splits bool.splits option.splits)

section \<open>The length of a receipt\<close>

definition tm_ok :: "tm \<Rightarrow> bool" where
  "tm_ok t \<longleftrightarrow> tm_mon t < 100 \<and> tm_mday t < 100 \<and> tm_hour t < 100 \<and> tm_min t < 100"

lemma length_decimal: "n < 10 ^ Suc k \<Longrightarrow> length (decimal n) \<le> Suc k"
proof (induction k arbitrary: n)
  case 0
  then show ?case by (subst decimal.simps) simp
next
  case (Suc k)
  show ?case
  proof (cases "n < 10")
    case True
    then show ?thesis by (subst decimal.simps) simp
  next
    case False
    have "n div 10 < 10 ^ Suc k"
      using Suc.prems by (simp add: less_mult_imp_div_less mult.commute)
    with Suc.IH [of "n div 10"] False show ?thesis by (subst decimal.simps) simp
  qed
qed

lemma length_format: "unat v < 10 ^ Suc k \<Longrightarrow> length (format_uint32_to_lenght v m) \<le> max m (Suc k)"
  using length_decimal [of "unat v" k] by (auto simp: format_uint32_to_lenght_def length_pad_left)

lemma length_AppendixB: "tm_ok t \<Longrightarrow> length (format_to_AppendixB_time t) \<le> 10"
  using length_format [of "tm_mon t" 1 2] length_format [of "tm_mday t" 1 2]
    length_format [of "tm_hour t" 1 2] length_format [of "tm_min t" 1 2]
  by (simp add: format_to_AppendixB_time_def tm_ok_def Let_def word_less_nat_alt)

lemma length_receipt_text:
  assumes "\<forall>t. tm_ok (localtime e t)" "length (message_id_of_protocol_server smi) \<le> 8"
    "length (cb_sm_information.error_status smi) \<le> 100" "cb_sm_information.error_code smi < 1000"
  shows "length (receipt_text e d smi) < 256"
proof -
  have "length (format_hex_string_to_decimal_string (message_id_of_protocol_server smi) 10) \<le> 10"
    using length_decimal [of "unat (read_hex_uint32 (message_id_of_protocol_server smi))" 9]
      unsigned_less [of "read_hex_uint32 (message_id_of_protocol_server smi)", where ?'a = nat]
    by (simp add: format_hex_string_to_decimal_string_def Let_def length_pad_left)
  moreover have "length (format_uint32_to_lenght (cb_sm_information.error_code smi) 3) \<le> 3"
    using length_format [of "cb_sm_information.error_code smi" 2 3] assms(4)
    by (simp add: word_less_nat_alt)
  moreover have "length (format_to_AppendixB_time (localtime e (submit_time_of_client smi))) \<le> 10"
    "length (format_to_AppendixB_time (localtime e (of_int (time_now e)))) \<le> 10"
    using assms(1) by (simp_all add: length_AppendixB)
  ultimately show ?thesis
    using assms(2,3) by (simp add: receipt_text_def Let_def ascii_def)
qed

section \<open>Sending\<close>

lemma send_delivery:
  assumes peek: "peek_dlr ops (sysid s) w = (Some smi, w1)"
    and limits: "cstr_ok 21 (src_addr smi)" "cstr_ok 21 (dst_addr smi)"
      "SequenceNumber_valid (sn_by_protocol_server smi)" "data_source_flag s \<noteq> []"
    and short: "length (receipt_text e (use_hex_decimal_message_id (configer w1)) smi) < 256"
  obtains bp where "send_delivery_sm e ops s w = Inr (True, w1\<lparr> sources :=
      add_to_out_queue_B (data_source_flag s) (time_now e) bp (sources w1) \<rparr>)"
    "DeliverSm_from bp = Inr (delivery (src_addr smi) (dst_addr smi) (sn_by_protocol_server smi) 4 0
       (receipt_text e (use_hex_decimal_message_id (configer w1)) smi))"
proof -
  let ?t = "receipt_text e (use_hex_decimal_message_id (configer w1)) smi"
  obtain bp where bp: "\<And>s (w :: 'a server).
      add_to_B e (Inr (delivery (src_addr smi) (dst_addr smi) (sn_by_protocol_server smi) 4 0 ?t)) s w =
      Inr (if data_source_flag s = [] then w
       else w\<lparr> sources := add_to_out_queue_B (data_source_flag s) (time_now e) bp (sources w) \<rparr>)"
    "DeliverSm_from bp = Inr (delivery (src_addr smi) (dst_addr smi) (sn_by_protocol_server smi) 4 0 ?t)"
    using delivery_packet [OF limits(1,2) short, where ?'d = 'a] by metis
  have "receipt_pdu e (use_hex_decimal_message_id (configer w1)) smi =
      Inr (delivery (src_addr smi) (dst_addr smi) (sn_by_protocol_server smi) 4 0 ?t)"
    using limits short by (simp add: receipt_pdu_eq cstr_ok_def)
  with that [OF _ bp(2)] bp(1) [of s w1] peek limits(4) show ?thesis
    by (simp add: send_delivery_sm_def)
qed

text \<open>A receipt that cannot be sent stays marked as being pushed, and is not looked at again.\<close>

lemma send_delivery_fails:
  assumes "peek_dlr ops (sysid s) w = (Some smi, w1)"
    and "\<not> (length (src_addr smi) < 21 \<and> length (dst_addr smi) < 21 \<and>
      SequenceNumber_valid (sn_by_protocol_server smi))"
  shows "send_delivery_sm e ops s w = Inr (True, w1)"
  using assms(1) deliver_header_error [OF assms(2), of 4]
  by (auto simp: send_delivery_sm_def receipt_pdu_def add_to_B_def)

lemma send_mo_text:
  assumes peek: "peek_mo ops (sysid s) w = (Some smi, w1)"
    and limits: "cstr_ok 21 (src_addr smi)" "cstr_ok 21 (dst_addr smi)"
      "SequenceNumber_valid (sn_by_protocol_server smi)" "data_source_flag s \<noteq> []"
    and pdu: "mo_pdu smi = Some (Inr (delivery (dst_addr smi) (src_addr smi) (sn_by_protocol_server smi) 0 dc text))"
      "length text < 256"
  obtains bp where "send_mo e ops s w = Some (Inr (True, w1\<lparr> sources :=
      add_to_out_queue_B (data_source_flag s) (time_now e) bp (sources w1) \<rparr>))"
    "DeliverSm_from bp = Inr (delivery (dst_addr smi) (src_addr smi) (sn_by_protocol_server smi) 0 dc text)"
proof -
  obtain bp where "\<And>s (w :: 'a server).
      add_to_B e (Inr (delivery (dst_addr smi) (src_addr smi) (sn_by_protocol_server smi) 0 dc text)) s w =
      Inr (if data_source_flag s = [] then w
       else w\<lparr> sources := add_to_out_queue_B (data_source_flag s) (time_now e) bp (sources w) \<rparr>)"
    "DeliverSm_from bp = Inr (delivery (dst_addr smi) (src_addr smi) (sn_by_protocol_server smi) 0 dc text)"
    using delivery_packet [OF limits(2,1) pdu(2), where ?'d = 'a] by metis
  with that show ?thesis
    using peek pdu(1) limits(4) by (simp add: send_mo_def)
qed

section \<open>The order of sending\<close>

text \<open>What a session may send, in the order in which it takes it.\<close>

definition pending :: "session \<Rightarrow> 'd server \<Rightarrow> packet list" where
  "pending s w = out_queue (private_data_source s) @
     (if data_source_flag s = [] then [] else
        (if is_state_bound_txable (current_session_state s)
         then out_queue_A_of (data_source_flag s) (sources w) else []) @
        (if is_state_bound_rxable (current_session_state s)
         then out_queue_B_of (data_source_flag s) (sources w) else []))"

lemma get_from_private:
  "get_from_out_queue d = (case out_queue d of bp # q \<Rightarrow> (Some bp, d\<lparr> out_queue := q \<rparr>) | [] \<Rightarrow> (None, d))"
  by (simp add: get_from_out_queue_def)

lemma get_A_cases:
  obtains (empty) "out_queue_A_of flag m = []" "\<exists>m'. get_from_out_queue_A flag m = (None, m') \<and>
      (\<forall>g. out_queue_A_of g m' = out_queue_A_of g m) \<and> (\<forall>g. out_queue_B_of g m' = out_queue_B_of g m)"
  | (taken) bp q where "out_queue_A_of flag m = bp # q" "\<exists>m'. get_from_out_queue_A flag m = (Some bp, m') \<and>
      (\<forall>g. out_queue_A_of g m' = (if g = flag then q else out_queue_A_of g m)) \<and>
      (\<forall>g. out_queue_B_of g m' = out_queue_B_of g m)"
  using manager_get_head(2) [of flag m] queue_of_manager_get(2) [of _ flag m] queues_independent_get(4) [of _ flag m]
  by (cases "get_from_out_queue_A flag m"; cases "out_queue_A_of flag m") auto

text \<open>What becomes of the shared part of the queues, without the private one.\<close>

lemma take_shared:
  assumes "out_queue (private_data_source s) = []" "data_source_flag s \<noteq> []"
  obtains m r where "session_get_from_out_queue s w = (r, s, w\<lparr> sources := m \<rparr>)"
    "r = (case pending s w of [] \<Rightarrow> None | bp # _ \<Rightarrow> Some bp)"
    "pending s (w\<lparr> sources := m \<rparr>) = tl (pending s w)"
    "\<And>g. \<not> is_state_bound_txable (current_session_state s) \<Longrightarrow> out_queue_A_of g m = out_queue_A_of g (sources w)"
proof -
  note found = that
  let ?f = "data_source_flag s" and ?m = "sources w"
  have p: "get_from_out_queue (private_data_source s) = (None, private_data_source s)"
    using assms(1) by (simp add: get_from_private)
  have same_session: "s\<lparr> private_data_source := private_data_source s \<rparr> = s" by simp
  have take_B: "thesis" if c: "(if is_state_bound_txable (current_session_state s)
        then get_from_out_queue_A ?f ?m else (None, ?m)) = (None, m')"
    and A: "is_state_bound_txable (current_session_state s) \<Longrightarrow> out_queue_A_of ?f ?m = []"
    and same: "\<And>g. out_queue_A_of g m' = out_queue_A_of g ?m" "\<And>g. out_queue_B_of g m' = out_queue_B_of g ?m"
    for m'
  proof (cases "is_state_bound_rxable (current_session_state s)")
    case True
    obtain r m where g: "get_from_out_queue_B ?f m' = (r, m)"
      by (cases "get_from_out_queue_B ?f m'")
    have head: "r = (case out_queue_B_of ?f ?m of [] \<Rightarrow> None | x # _ \<Rightarrow> Some x)"
      using manager_get_head(3) [of ?f m'] g same(2) by simp
    have rest: "out_queue_B_of ?f m = tl (out_queue_B_of ?f ?m)" "out_queue_A_of x m = out_queue_A_of x ?m" for x
      using queue_of_manager_get(3) [of ?f ?f m'] queues_independent_get(6) [of x ?f m'] g same by simp_all
    have "session_get_from_out_queue s w = (r, s, w\<lparr> sources := m \<rparr>)"
      unfolding session_get_from_out_queue_def p prod.case option.case Let_def same_session c
      using True g assms(2) by simp
    moreover have "pending s w = out_queue_B_of ?f ?m" "pending s (w\<lparr> sources := m \<rparr>) = out_queue_B_of ?f m"
      using True A rest assms by (simp_all add: pending_def)
    ultimately show thesis using head rest by (intro found [of r m]) simp_all
  next
    case False
    have "session_get_from_out_queue s w = (None, s, w\<lparr> sources := m' \<rparr>)"
      unfolding session_get_from_out_queue_def p prod.case option.case Let_def same_session c
      using False assms(2) by simp
    moreover have "pending s w = []" "pending s (w\<lparr> sources := m' \<rparr>) = []"
      using False A same assms by (simp_all add: pending_def)
    ultimately show thesis using same by (intro found [of None m']) simp_all
  qed
  show thesis
  proof (cases "is_state_bound_txable (current_session_state s)")
    case False
    then show thesis using take_B [of ?m] by simp
  next
    case True
    then show thesis
    proof (cases rule: get_A_cases [of ?f ?m])
      case empty
      then show thesis using take_B True by auto
    next
      case (taken bp q)
      then obtain m' where "get_from_out_queue_A ?f ?m = (Some bp, m')"
        "\<forall>g. out_queue_A_of g m' = (if g = ?f then q else out_queue_A_of g ?m)"
        "\<forall>g. out_queue_B_of g m' = out_queue_B_of g ?m" by blast
      with True taken(1) p assms show thesis
        by (intro found [of "Some bp" m']) (auto simp: session_get_from_out_queue_def Let_def pending_def)
    qed
  qed
qed

lemma taken_packet:
  assumes "session_get_from_out_queue s w = (r, s', w')"
  shows "r = (case pending s w of [] \<Rightarrow> None | bp # _ \<Rightarrow> Some bp)" "pending s' w' = tl (pending s w)"
    "\<not> is_state_bound_txable (current_session_state s) \<Longrightarrow>
       out_queue_A_of g (sources w') = out_queue_A_of g (sources w)"
proof -
  have "r = (case pending s w of [] \<Rightarrow> None | bp # _ \<Rightarrow> Some bp) \<and> pending s' w' = tl (pending s w) \<and>
    (\<not> is_state_bound_txable (current_session_state s) \<longrightarrow>
       out_queue_A_of g (sources w') = out_queue_A_of g (sources w))"
  proof (cases "out_queue (private_data_source s)")
    case (Cons bp q)
    with assms show ?thesis
      by (auto simp: session_get_from_out_queue_def get_from_private pending_def)
  next
    case Nil
    show ?thesis
    proof (cases "data_source_flag s = []")
      case True
      with Nil assms show ?thesis
        by (auto simp: session_get_from_out_queue_def get_from_private pending_def Let_def)
    next
      case False
      obtain m r' where "session_get_from_out_queue s w = (r', s, w\<lparr> sources := m \<rparr>)"
        "r' = (case pending s w of [] \<Rightarrow> None | bp # _ \<Rightarrow> Some bp)"
        "pending s (w\<lparr> sources := m \<rparr>) = tl (pending s w)"
        "\<not> is_state_bound_txable (current_session_state s) \<Longrightarrow> out_queue_A_of g m = out_queue_A_of g (sources w)"
        by (rule take_shared [OF Nil False, of w]) blast
      moreover from this(1) assms have "r = r'" "s' = s" "w' = w\<lparr> sources := m \<rparr>" by simp_all
      ultimately show ?thesis by simp
    qed
  qed
  then show "r = (case pending s w of [] \<Rightarrow> None | bp # _ \<Rightarrow> Some bp)" "pending s' w' = tl (pending s w)"
    "\<not> is_state_bound_txable (current_session_state s) \<Longrightarrow>
       out_queue_A_of g (sources w') = out_queue_A_of g (sources w)" by blast+
qed

end
