(* ===== verification/Vendor_Demo.thy ===== *)
theory Vendor_Demo
  imports Server_Datasource "HOL-Library.Multiset"
begin

text \<open>
  The simulated gateway that the server comes with
  (\<open>src/public/vendor/vendor_runtime_demo.cpp\<close>): it moves submitted messages to the list of those
  that wait for a receipt, and makes up a receipt for each. Its accounts are those of
  \<open>initialize_test_data\<close>.

  \<open>query_dlrs_and_mos\<close> declares \<open>sysid\<close> and never assigns it, so the branch that would generate
  incoming messages is not reached; it is left out.
\<close>

section \<open>Operations\<close>

definition demo_account :: "string \<Rightarrow> string \<Rightarrow> client_account" where
  "demo_account sysid src = \<lparr> systemid = ascii sysid, pw = ascii ''123456'', bind_ips = [],
     account_state = 0, account_src_addr = ascii src \<rparr>"

definition initialize_test_data :: "client_account list" where
  "initialize_test_data = map (\<lambda>(a, b). demo_account a b)
    [(''WIN01'', ''8618866668801''), (''WIN02'', ''8618866668802''), (''WIN03'', ''8618866668803''),
     (''WIN04'', ''8618866668804''), (''MAC01'', ''8618866668811''), (''MAC02'', ''8618866668812''),
     (''MAC03'', ''8618866668813''), (''MAC04'', ''8618866668814''), (''CB001'', ''8618866668821''),
     (''CB002'', ''8618866668822''), (''CB003'', ''8618866668823''), (''CB004'', ''8618866668824''),
     (''SMPP1'', ''8618866668831''), (''SMPP2'', ''8618866668832''), (''SMPP3'', ''8618866668833''),
     (''SMPP4'', ''8618866668834''), (''ICBC01'', ''85266668881''), (''ICBC02'', ''85266668882''),
     (''ICBC03'', ''85266668883''), (''ICBC04'', ''85266668884'')]"

text \<open>The \<open>return true\<close> at the end belongs to a branch that is not compiled.\<close>

definition sender :: "'d db_ops \<Rightarrow> 'd server \<Rightarrow> bool \<times> 'd server" where
  "sender ops w = (case get_from_received_smis_queue ops w of
     (Some smi, w) \<Rightarrow>
       if length (dst_addr smi) = 0 then (True, w)
       else (False, add_to_wait_dlr_list smi w)
   | (None, w) \<Rightarrow> (False, w))"

definition DLR_STAT_DELIVRD :: octets where "DLR_STAT_DELIVRD = ascii ''DELIVRD''"
definition DLR_STAT_UNDELIV :: octets where "DLR_STAT_UNDELIV = ascii ''UNDELIV''"

text \<open>The receipt that is made up for a message at the time \<open>now\<close>.\<close>

definition make_receipt :: "uint64 \<Rightarrow> uint32 \<Rightarrow> cb_sm_information \<Rightarrow> cb_sm_information" where
  "make_receipt now sn smi =
     (let smi = smi\<lparr> delivery_time_of_gateway := now \<rparr>;
          smi = (if now mod 2 = 0
                 then smi\<lparr> error_status := DLR_STAT_DELIVRD, error_code := 0 \<rparr>
                 else smi\<lparr> error_status := DLR_STAT_UNDELIV, error_code := 36 \<rparr>);
          smi = smi\<lparr> sn_by_protocol_server := sn \<rparr>
      in smi\<lparr> state := SMI_STATE_IS_DELIVERIED \<rparr>)"

definition query_dlrs_and_mos :: "'d db_ops \<Rightarrow> uint32 \<Rightarrow> uint64 \<Rightarrow> 'd server \<Rightarrow> bool \<times> 'd server" where
  "query_dlrs_and_mos ops dice now w =
     (let message_id = query_a_message_id_from_wait_dlr_list w in
      if length message_id > 0 then
        (case get_from_wait_dlr_list message_id w of
           (Some smi, w) \<Rightarrow>
             (let (sn, g) = generate_sn dice (generator w)
              in (False, add_to_dlr_list ops (make_receipt now sn smi) (w\<lparr> generator := g \<rparr>)))
         | (None, w) \<Rightarrow> (False, w))
      else (False, w))"

section \<open>No message is lost\<close>

text \<open>What may happen to messages between a submission and the acknowledgement of its receipt.\<close>

datatype message_event =
    Submitted cb_sm_information
  | Sender_runs
  | Query_runs uint32 uint64
  | Peeked octets
  | Acknowledged uint32

fun message_step :: "'d db_ops \<Rightarrow> message_event \<Rightarrow> 'd server \<Rightarrow> 'd server" where
  "message_step ops (Submitted smi) w = smi_received ops smi w"
| "message_step ops Sender_runs w = snd (sender ops w)"
| "message_step ops (Query_runs dice now) w = snd (query_dlrs_and_mos ops dice now w)"
| "message_step ops (Peeked s) w = snd (peek_dlr ops s w)"
| "message_step ops (Acknowledged sn) w = snd (dlrresp_received sn w)"

abbreviation id_of :: "cb_sm_information \<Rightarrow> octets" where
  "id_of \<equiv> message_id_of_protocol_server"

definition in_flight :: "'d server \<Rightarrow> octets multiset" where
  "in_flight w = mset (map id_of (received_smis_queue w)) + mset (map id_of (wait_dlr_list w)) +
     mset (map id_of (dlr_list w))"

text \<open>The messages that an event brings in, and those it takes out for good.\<close>

fun enters :: "message_event \<Rightarrow> octets multiset" where
  "enters (Submitted smi) = {# id_of smi #}"
| "enters _ = {#}"

fun leaves :: "message_event \<Rightarrow> 'd server \<Rightarrow> octets multiset" where
  "leaves Sender_runs w = (case received_smis_queue w of
     smi # _ \<Rightarrow> if dst_addr smi = [] then {# id_of smi #} else {#}
   | [] \<Rightarrow> {#})"
| "leaves (Acknowledged sn) w = (case find (\<lambda>x. sn_by_protocol_server x = sn) (dlr_list w) of
     Some x \<Rightarrow> {# id_of x #} | None \<Rightarrow> {#})"
| "leaves _ w = {#}"

fun leave :: "'d db_ops \<Rightarrow> message_event list \<Rightarrow> 'd server \<Rightarrow> octets multiset" where
  "leave ops [] w = {#}"
| "leave ops (e # es) w = leaves e w + leave ops es (message_step ops e w)"

abbreviation messages_after :: "'d db_ops \<Rightarrow> message_event list \<Rightarrow> 'd server \<Rightarrow> 'd server" where
  "messages_after ops es w \<equiv> fold (message_step ops) es w"

lemma erase_first_mset:
  "erase_first P xs = Some (y, ys) \<Longrightarrow> image_mset f (mset xs) = add_mset (f y) (image_mset f (mset ys))"
  by (drule erase_first_SomeD) auto

lemma erase_first_find:
  "map_option fst (erase_first P xs) = find P xs"
  by (induction xs) (auto split: option.splits)

lemma push_first_ids:
  "push_first P xs = Some (y, ys) \<Longrightarrow> image_mset id_of (mset ys) = image_mset id_of (mset xs)"
  by (drule push_first_SomeD) auto

lemma smi_received_memory:
  "memory_only w \<Longrightarrow> received_smis_queue (smi_received ops smi w) = received_smis_queue w @
     [smi\<lparr> protocol_of_client := PROTOCOL_SMPP, server_id := configer_server_id (configer w) \<rparr>] \<and>
   wait_dlr_list (smi_received ops smi w) = wait_dlr_list w \<and>
   dlr_list (smi_received ops smi w) = dlr_list w \<and> memory_only (smi_received ops smi w)"
  by (simp add: smi_received_def memory_only_def Let_def)

lemma get_from_received_memory:
  "memory_only w \<Longrightarrow> get_from_received_smis_queue ops w = (case received_smis_queue w of
     smi # q \<Rightarrow> (Some smi, w\<lparr> received_smis_queue := q \<rparr>) | [] \<Rightarrow> (None, w))"
  by (simp add: get_from_received_smis_queue_def memory_only_def Let_def)

lemma sender_memory:
  "memory_only w \<Longrightarrow> sender ops w = (case received_smis_queue w of
     smi # q \<Rightarrow> if dst_addr smi = [] then (True, w\<lparr> received_smis_queue := q \<rparr>)
       else (False, add_to_wait_dlr_list smi (w\<lparr> received_smis_queue := q \<rparr>))
   | [] \<Rightarrow> (False, w))"
  by (simp add: sender_def get_from_received_memory split: list.splits)

lemma make_receipt_items [simp]:
  "message_id_of_protocol_server (make_receipt now sn smi) = message_id_of_protocol_server smi"
  "smi_systemid (make_receipt now sn smi) = smi_systemid smi"
  "state (make_receipt now sn smi) = SMI_STATE_IS_DELIVERIED"
  "sn_by_protocol_server (make_receipt now sn smi) = sn"
  by (simp_all add: make_receipt_def Let_def)

lemma add_to_dlr_list_other:
  "received_smis_queue (add_to_dlr_list ops x w) = received_smis_queue w"
  "wait_dlr_list (add_to_dlr_list ops x w) = wait_dlr_list w"
  by (simp_all add: add_to_dlr_list_def Let_def)

lemma configer_steps:
  "configer (smi_received ops x w) = configer w" "configer (snd (peek_dlr ops s w)) = configer w"
  by (auto simp: smi_received_def peek_dlr_def Let_def split: option.splits prod.splits)

lemma message_step_memory: "memory_only w \<Longrightarrow> memory_only (message_step ops e w)"
proof (cases e)
  case (Query_runs dice now)
  assume "memory_only w"
  with Query_runs show ?thesis
    by (auto simp: query_dlrs_and_mos_def get_from_wait_dlr_list_def memory_only_def Let_def
        add_to_dlr_list_steps split: option.splits prod.splits)
qed (auto simp: configer_steps sender_memory dlrresp_received_def
    remove_dlr_def remove_mo_def memory_only_def add_to_wait_dlr_list_def Let_def
    split: list.splits option.splits)

lemma message_step_conserves:
  assumes "memory_only w"
  shows "in_flight (message_step ops e w) + leaves e w = in_flight w + enters e"
proof (cases e)
  case (Submitted smi)
  with assms show ?thesis
    by (simp add: smi_received_memory in_flight_def)
next
  case Sender_runs
  with assms show ?thesis
    by (auto simp: sender_memory in_flight_def add_to_wait_dlr_list_def split: list.splits)
next
  case (Query_runs dice now)
  show ?thesis
  proof (cases "get_from_wait_dlr_list (query_a_message_id_from_wait_dlr_list w) w")
    case (Pair smi w')
    with assms Query_runs show ?thesis
      by (auto simp: query_dlrs_and_mos_def get_from_wait_dlr_list_def Let_def in_flight_def
          add_to_dlr_list_other add_to_dlr_list_steps memory_only_def
          dest!: erase_first_mset [where f = id_of] split: option.splits prod.splits)
  qed
next
  case (Peeked s)
  with assms show ?thesis
    by (auto simp: peek_dlr_memory in_flight_def dest!: push_first_ids split: option.splits)
next
  case (Acknowledged sn)
  have "map_option fst (erase_first (\<lambda>x. sn = sn_by_protocol_server x) (dlr_list w)) =
      find (\<lambda>x. sn_by_protocol_server x = sn) (dlr_list w)"
    by (simp add: erase_first_find eq_commute)
  with Acknowledged show ?thesis
    by (cases "erase_first (\<lambda>x. sn = sn_by_protocol_server x) (dlr_list w)")
      (auto simp: dlrresp_received_def remove_dlr_def remove_mo_def in_flight_def Let_def
        dest!: erase_first_mset [where f = id_of] split: option.splits)
qed

lemma messages_conserved:
  "memory_only w \<Longrightarrow> in_flight (messages_after ops es w) + leave ops es w =
     in_flight w + sum_list (map enters es)"
proof (induction es arbitrary: w)
  case (Cons e es)
  let ?w = "message_step ops e w"
  have "in_flight (messages_after ops es ?w) + leave ops es ?w = in_flight ?w + sum_list (map enters es)"
    using Cons by (simp add: message_step_memory)
  then have "in_flight (messages_after ops (e # es) w) + leave ops (e # es) w =
      in_flight ?w + leaves e w + sum_list (map enters es)"
    by (simp add: ac_simps)
  then show ?case
    using message_step_conserves [OF Cons.prems, of ops e] by (simp add: ac_simps)
qed simp

text \<open>A message goes through: the receipt of the first message that waits is made at once.\<close>

lemma query_makes_receipt:
  assumes "memory_only w" and "wait_dlr_list w = x # xs" and "id_of x \<noteq> []"
    and "state x = SMI_STATE_IS_DELIVERING"
  shows "let w' = snd (query_dlrs_and_mos ops dice now w); sn = fst (generate_sn dice (generator w)) in
    wait_dlr_list w' = xs \<and> dlr_list w' = dlr_list w @ [make_receipt now sn x] \<and>
    receipts (smi_systemid x) w' = receipts (smi_systemid x) w @ [make_receipt now sn x] \<and>
    memory_only w'"
proof -
  obtain sn g where g: "generate_sn dice (generator w) = (sn, g)" by (cases "generate_sn dice (generator w)")
  have "query_dlrs_and_mos ops dice now w = (False, add_to_dlr_list ops (make_receipt now sn x)
      (w\<lparr> wait_dlr_list := xs, generator := g \<rparr>))"
    using assms(2-4) g by (simp add: query_dlrs_and_mos_def query_a_message_id_from_wait_dlr_list_def
        get_from_wait_dlr_list_def)
  then show ?thesis
    using assms(1) g by (simp add: Let_def add_to_dlr_list_steps add_to_dlr_list_other memory_only_def)
qed

end
