(* ===== verification/Session_Invariants.thy ===== *)
theory Session_Invariants
  imports Session_Facts
begin

text \<open>
  Invariants of a session over everything that the server does with it, and what the packets of
  one connection do to it in sequence.
\<close>

section \<open>The session diagram\<close>

text \<open>
  The states of an SMPP 3.4 session and the commands that may change them, as the comment in
  \<open>smpp_protocol_impl.hpp\<close> describes them.
\<close>

fun bound_by :: "uint32 \<Rightarrow> SMPP_SESSION_STATE option" where
  "bound_by c = (if c = cid_BindTransmitter then Some SESSION_BOUND_TX
     else if c = cid_BindReceiver then Some SESSION_BOUND_RX
     else if c = cid_BindTransceiver then Some SESSION_BOUND_TRX else None)"

inductive diagram :: "SMPP_SESSION_STATE \<Rightarrow> uint32 \<Rightarrow> SMPP_SESSION_STATE \<Rightarrow> bool" where
  stay: "diagram x c x"
| bind: "bound_by c = Some y \<Longrightarrow> diagram SESSION_OPEN c y"
| unbind: "is_state_bound x \<Longrightarrow> diagram x cid_Unbind SESSION_CLOSED"

code_pred diagram .

inductive_simps diagram_simps: "diagram x c y"

lemma private_simps [simp]:
  "current_session_state (add_private e bp s) = current_session_state s"
  "bind_error_count (add_private e bp s) = bind_error_count s"
  "other_error_count (add_private e bp s) = other_error_count s"
  "error_occured (add_private e bp s) = error_occured s"
  "total_submit (add_private e bp s) = total_submit s"
  "sysid (add_private e bp s) = sysid s" "data_source_flag (add_private e bp s) = data_source_flag s"
  "tcp_client_ip (add_private e bp s) = tcp_client_ip s"
  "timer_manager (add_private e bp s) = timer_manager s"
  "out_queue (private_data_source (add_private e bp s)) = out_queue (private_data_source s) @ [bp]"
  "in_queue (private_data_source (add_private e bp s)) = in_queue (private_data_source s)"
  by (simp_all add: add_private_def add_to_out_queue_def)

lemma other_error_simps [simp]:
  "current_session_state (other_error_occur s) = current_session_state s"
  "bind_error_count (other_error_occur s) = bind_error_count s"
  "other_error_count (other_error_occur s) = other_error_count s + 1"
  "error_occured (other_error_occur s) \<longleftrightarrow> error_occured s \<or> other_error_count s + 1 \<ge> 3"
  "total_submit (other_error_occur s) = total_submit s"
  "sysid (other_error_occur s) = sysid s" "data_source_flag (other_error_occur s) = data_source_flag s"
  "tcp_client_ip (other_error_occur s) = tcp_client_ip s"
  "timer_manager (other_error_occur s) = timer_manager s"
  "private_data_source (other_error_occur s) = private_data_source s"
  by (simp_all add: other_error_occur_def OTHER_ERROR_TOLERANCE_def Let_def)

lemma bind_error_simps [simp]:
  "current_session_state (bind_error_occur s) = current_session_state s"
  "bind_error_count (bind_error_occur s) = bind_error_count s + 1"
  "other_error_count (bind_error_occur s) = other_error_count s"
  "error_occured (bind_error_occur s) \<longleftrightarrow> error_occured s \<or> bind_error_count s + 1 \<ge> 3"
  "total_submit (bind_error_occur s) = total_submit s"
  "sysid (bind_error_occur s) = sysid s" "data_source_flag (bind_error_occur s) = data_source_flag s"
  "tcp_client_ip (bind_error_occur s) = tcp_client_ip s"
  "timer_manager (bind_error_occur s) = timer_manager s"
  "private_data_source (bind_error_occur s) = private_data_source s"
  by (simp_all add: bind_error_occur_def BIND_ERROR_TOLERANCE_def Let_def)

text \<open>All fields but the private queue are untouched by the choice of queue for a response.\<close>

lemma send_A_simps [simp]:
  "current_session_state (fst (send_A e bp s w)) = current_session_state s"
  "bind_error_count (fst (send_A e bp s w)) = bind_error_count s"
  "other_error_count (fst (send_A e bp s w)) = other_error_count s"
  "error_occured (fst (send_A e bp s w)) = error_occured s"
  "total_submit (fst (send_A e bp s w)) = total_submit s"
  "sysid (fst (send_A e bp s w)) = sysid s"
  "data_source_flag (fst (send_A e bp s w)) = data_source_flag s"
  "tcp_client_ip (fst (send_A e bp s w)) = tcp_client_ip s"
  "timer_manager (fst (send_A e bp s w)) = timer_manager s"
  "accounts (snd (send_A e bp s w)) = accounts w" "configer (snd (send_A e bp s w)) = configer w"
  by (simp_all add: send_A_def)

lemma timers_simps [simp]:
  "current_session_state (bind_timers e s) = current_session_state s"
  "current_session_state (activity_timers e s) = current_session_state s"
  "private_data_source (bind_timers e s) = private_data_source s"
  "private_data_source (activity_timers e s) = private_data_source s"
  "data_source_flag (bind_timers e s) = data_source_flag s"
  "data_source_flag (activity_timers e s) = data_source_flag s"
  "sysid (bind_timers e s) = sysid s" "sysid (activity_timers e s) = sysid s"
  "tcp_client_ip (activity_timers e s) = tcp_client_ip s"
  "bind_error_count (bind_timers e s) = bind_error_count s"
  "bind_error_count (activity_timers e s) = bind_error_count s"
  "other_error_count (bind_timers e s) = other_error_count s"
  "other_error_count (activity_timers e s) = other_error_count s"
  "error_occured (bind_timers e s) = error_occured s"
  "error_occured (activity_timers e s) = error_occured s"
  "total_submit (bind_timers e s) = total_submit s"
  "total_submit (activity_timers e s) = total_submit s"
  "timer_manager (bind_timers e s) = bind_received (micros e) (timer_manager s)"
  "timer_manager (activity_timers e s) = activity (micros e) (timer_manager s)"
  by (simp_all add: bind_timers_def activity_timers_def)

lemma bind_result_simps [simp]:
  "current_session_state (bind_result e st bp sid bound s) =
     (if st = ESME_ROK then bound else current_session_state s)"
  "sysid (bind_result e st bp sid bound s) = (if st = ESME_ROK then sid else sysid s)"
  "data_source_flag (bind_result e st bp sid bound s) =
     (if st = ESME_ROK then sid else data_source_flag s)"
  "tcp_client_ip (bind_result e st bp sid bound s) = tcp_client_ip s"
  "timer_manager (bind_result e st bp sid bound s) = timer_manager s"
  "bind_error_count (bind_result e st bp sid bound s) =
     (if st = ESME_ROK then bind_error_count s else bind_error_count s + 1)"
  "other_error_count (bind_result e st bp sid bound s) = other_error_count s"
  "error_occured (bind_result e st bp sid bound s) \<longleftrightarrow>
     error_occured s \<or> st \<noteq> ESME_ROK \<and> bind_error_count s + 1 \<ge> 3"
  "out_queue (private_data_source (bind_result e st bp sid bound s)) =
     out_queue (private_data_source s) @ [bp]"
  by (simp_all add: bind_result_def)

lemma pair_eq_apfst [simp]: "(a, b) = apfst f p \<longleftrightarrow> a = f (fst p) \<and> b = snd p"
  by (cases p) auto

lemma step_diagram:
  assumes "session_step e ops b (s, w) (s', w')" "get_command_id b = Inr c"
  shows "diagram (current_session_state s) c (current_session_state s')"
  using assms by cases (auto simp: diagram_simps)

text \<open>A state is left by a bind that was accepted, and by an unbind.\<close>

lemma step_frame:
  assumes "session_step e ops b (s, w) (s', w')"
  shows "tcp_client_ip s' = tcp_client_ip s" "accounts w' = accounts w" "configer w' = configer w"
proof -
  have r: "accounts (smi_received ops smi v) = accounts v" "configer (smi_received ops smi v) = configer v"
    for smi and v :: "'a server"
    by (simp_all add: smi_received_def Let_def)
  have a: "accounts (acknowledged e' sn mid t v) = accounts v" "configer (acknowledged e' sn mid t v) = configer v"
    for e' sn mid t and v :: "'a server"
    by (simp_all add: acknowledged_def)
  have d: "accounts (snd (dlrresp_received sn v)) = accounts v" "configer (snd (dlrresp_received sn v)) = configer v"
    for sn and v :: "'a server"
    by (simp_all add: dlrresp_received_def remove_dlr_def remove_mo_def split: option.splits prod.splits)
  from assms show "tcp_client_ip s' = tcp_client_ip s" "accounts w' = accounts w" "configer w' = configer w"
    by (cases; simp add: r a d)+
qed

section \<open>What binding establishes\<close>

text \<open>
  \<open>cas\<close> are the accounts and \<open>na\<close> whether transceivers are authorized. A bound session serves
  the system id that it was bound with; transmitters and receivers, and transceivers when
  authorization is on, have an account that may bind from their address.
\<close>

definition authorized :: "client_account list \<Rightarrow> octets \<Rightarrow> octets \<Rightarrow> bool" where
  "authorized cas sid client_ip = (\<exists>ci \<in> set cas. systemid ci = sid \<and>
     (bind_ips ci = [] \<or> client_ip \<in> set (bind_ips ci)))"

definition session_ok :: "client_account list \<Rightarrow> bool \<Rightarrow> session \<Rightarrow> bool" where
  "session_ok cas na s \<longleftrightarrow>
     data_source_flag s = sysid s \<and>
     (current_session_state s = SESSION_OPEN \<longrightarrow> sysid s = []) \<and>
     (is_bound s \<and> (na \<or> current_session_state s \<noteq> SESSION_BOUND_TRX) \<longrightarrow>
        authorized cas (sysid s) (tcp_client_ip s)) \<and>
     0 \<le> bind_error_count s \<and> 0 \<le> other_error_count s \<and>
     (bind_error_count s \<ge> BIND_ERROR_TOLERANCE \<or> other_error_count s \<ge> OTHER_ERROR_TOLERANCE \<longrightarrow>
        error_occured s)"

lemma check_authorized:
  "check_sysid_pw_bindip cas sid pwd client_ip = ESME_ROK \<Longrightarrow> authorized cas sid client_ip"
  by (auto simp: check_account_of account_of_def authorized_def find_Some_iff
      split: option.splits if_splits)

lemma session_ok_initial: "session_ok cas na (smpp_impl e client_ip)"
  by (simp add: session_ok_def smpp_impl_def is_bound_def BIND_ERROR_TOLERANCE_def OTHER_ERROR_TOLERANCE_def)

lemma step_session_ok:
  assumes "session_step e ops b (s, w) (s', w')"
    and "session_ok (accounts w) (need_authorize (configer w)) s"
  shows "session_ok (accounts w) (need_authorize (configer w)) s'"
  using assms
  by cases
    (auto simp: session_ok_def is_bound_def BIND_ERROR_TOLERANCE_def OTHER_ERROR_TOLERANCE_def
      transceiver_status_def state_bound_defs dest: check_authorized)

text \<open>
  Everything that the server does with a session. The accounts and the configuration are loaded
  before the first connection; what else the server shares may be anything.
\<close>

inductive served :: "'d db_ops \<Rightarrow> client_account list \<Rightarrow> bool \<Rightarrow> octets \<Rightarrow> session \<Rightarrow> bool"
  for ops :: "'d db_ops" and cas na client_ip where
  connect: "served ops cas na client_ip (smpp_impl e client_ip)"
| process: "served ops cas na client_ip s \<Longrightarrow> accounts w = cas \<Longrightarrow> need_authorize (configer w) = na \<Longrightarrow>
    process e ops b s w = Inr (s', w') \<Longrightarrow> served ops cas na client_ip s'"
| receive: "served ops cas na client_ip s \<Longrightarrow> session_add_to_in_queue e b s (w :: 'd server) = (s', w') \<Longrightarrow>
    served ops cas na client_ip s'"
| take_in: "served ops cas na client_ip s \<Longrightarrow> session_get_from_in_queue s (w :: 'd server) = (r, s', w') \<Longrightarrow>
    served ops cas na client_ip s'"
| take_out: "served ops cas na client_ip s \<Longrightarrow> session_get_from_out_queue s (w :: 'd server) = (r, s', w') \<Longrightarrow>
    served ops cas na client_ip s'"
| clear: "served ops cas na client_ip s \<Longrightarrow> served ops cas na client_ip (clear_resource s)"

lemma queue_operations_frame:
  "session_add_to_in_queue e b s w = (s', w') \<Longrightarrow> \<exists>d. s' = s\<lparr> private_data_source := d \<rparr>"
  "session_get_from_in_queue s w = (r, s', w') \<Longrightarrow> \<exists>d. s' = s\<lparr> private_data_source := d \<rparr>"
  "session_get_from_out_queue s w = (r, s', w') \<Longrightarrow> \<exists>d. s' = s\<lparr> private_data_source := d \<rparr>"
proof -
  have same: "\<exists>d. s = s\<lparr> private_data_source := d \<rparr>" for s :: session
    by (rule exI [of _ "private_data_source s"]) simp
  show "session_add_to_in_queue e b s w = (s', w') \<Longrightarrow> \<exists>d. s' = s\<lparr> private_data_source := d \<rparr>"
    using same [of s] by (auto simp: session_add_to_in_queue_def split: if_splits)
  show "session_get_from_in_queue s w = (r, s', w') \<Longrightarrow> \<exists>d. s' = s\<lparr> private_data_source := d \<rparr>"
    by (auto simp: session_get_from_in_queue_def Let_def split: prod.splits option.splits if_splits)
  show "session_get_from_out_queue s w = (r, s', w') \<Longrightarrow> \<exists>d. s' = s\<lparr> private_data_source := d \<rparr>"
    by (auto simp: session_get_from_out_queue_def Let_def split: prod.splits option.splits if_splits)
qed

lemma session_ok_private [simp]: "session_ok cas na (s\<lparr> private_data_source := d \<rparr>) = session_ok cas na s"
  by (simp add: session_ok_def is_bound_def)

lemma served_ok: "served ops cas na client_ip s \<Longrightarrow> session_ok cas na s \<and> tcp_client_ip s = client_ip"
proof (induction rule: served.induct)
  case (connect e)
  show ?case using session_ok_initial by (simp add: smpp_impl_def)
next
  case (process s w e b s' w')
  then show ?case
    using step_session_ok [of e ops b s w s' w'] step_frame(1) [of e ops b s w s' w']
    by (auto simp: process_iff_step)
qed (auto simp: clear_resource_def dest!: queue_operations_frame)

section \<open>One response for each request\<close>

text \<open>
  \<open>r\<close> was queued for the client and nothing else: on the queue of the connection, or on queue A
  of the account.
\<close>

definition queued :: "packet \<Rightarrow> session \<Rightarrow> 'd server \<Rightarrow> session \<Rightarrow> 'd server \<Rightarrow> bool" where
  "queued r s w s' w' \<longleftrightarrow>
     (out_queue (private_data_source s') = out_queue (private_data_source s) @ [r] \<and>
        sources w' = sources w) \<or>
     (data_source_flag s \<noteq> [] \<and> private_data_source s' = private_data_source s \<and>
        (\<forall>g. out_queue_A_of g (sources w') =
          out_queue_A_of g (sources w) @ (if g = data_source_flag s then [r] else [])))"

lemma send_A_queued: "queued r s w (fst (send_A e r s w)) (snd (send_A e r s w))"
  by (auto simp: queued_def send_A_def)

lemma queued_other_error [simp]: "queued r s w (other_error_occur s') w' = queued r s w s' w'"
  by (simp add: queued_def)

text \<open>The command id of the response to a request.\<close>

abbreviation resp_of :: "uint32 \<Rightarrow> uint32" where
  "resp_of c \<equiv> c OR 0x80000000"

text \<open>
  Responses are owed for every packet with a valid sequence number but the acknowledgements,
  and for query_sm, which is admitted and then ignored.
\<close>

definition unanswered :: "SMPP_SESSION_STATE \<Rightarrow> uint32 \<Rightarrow> bool" where
  "unanswered x c \<longleftrightarrow> valid x c \<and> (c = cid_QuerySm \<or> c = cid_DeliverSmResp)"

lemma sources_smi_received [simp]: "sources (smi_received ops smi w) = sources w"
  by (simp add: smi_received_def Let_def)

lemma acknowledged_queued:
  "data_source_flag s \<noteq> [] \<Longrightarrow> private_data_source s' = private_data_source s \<Longrightarrow>
   queued (response 0x80000004 ESME_ROK sn (mid @ [0])) s w s'
     (smi_received ops smi (acknowledged e sn mid s (w\<lparr> generator := g \<rparr>)))"
  by (simp add: queued_def acknowledged_def)

lemma step_answered:
  assumes "session_step e ops b (s, w) (s', w')" "get_sequence_number b = Inr sn"
    "SequenceNumber_valid sn" "get_command_id b = Inr c" "\<not> unanswered (current_session_state s) c"
    "c = cid_SubmitSm \<longrightarrow> data_source_flag s \<noteq> []"
  shows "\<exists>r. queued r s w s' w' \<and> get_sequence_number r = Inr sn \<and>
    get_command_id r \<in> {Inr cid_GenericNack, Inr (resp_of c)}"
  using assms(1)
proof cases
  case (submit p mid g smi)
  have "data_source_flag s \<noteq> []" using submit assms(4,6) by simp
  then have "queued (response 0x80000004 ESME_ROK sn (mid @ [0])) s w s' w'"
    using submit acknowledged_queued [of s s'] decoded_header(4) [of b p] assms(2) by simp
  moreover have "c = cid_SubmitSm" using submit assms(4) by simp
  ultimately show ?thesis by (intro exI [of _ "response 0x80000004 ESME_ROK sn (mid @ [0])"]) simp
next
  case (not_admitted m d)
  then show ?thesis
    using assms(2) send_A_queued [of "response cid_GenericNack ESME_RINVCMDID sn []" s w e]
    by (intro exI [of _ "response cid_GenericNack ESME_RINVCMDID sn []"]) auto
next
  case (malformed m d t)
  then show ?thesis
    using assms(2) send_A_queued [of "response cid_GenericNack ESME_RINVMSGLEN sn []" s w e]
    by (intro exI [of _ "response cid_GenericNack ESME_RINVMSGLEN sn []"]) auto
qed (use assms(2-5) in \<open>auto simp: queued_def unanswered_def valid_handled decoded_header
      intro!: exI [where P = "\<lambda>r. _ @ [_] = _ @ [r] \<and> _ r"]\<close>)

lemma step_unanswered:
  assumes "session_step e ops b (s, w) (s', w')" "get_sequence_number b = Inr sn"
    "SequenceNumber_valid sn" "get_command_id b = Inr c" "unanswered (current_session_state s) c"
  shows "private_data_source s' = private_data_source s \<and> sources w' = sources w"
  using assms(1)
proof cases
  case (deliver_sm_resp p)
  then show ?thesis by (simp add: dlrresp_received_def remove_dlr_def remove_mo_def split: option.splits prod.splits)
next
  case (malformed m d t)
  then show ?thesis using assms(4,5) by (auto simp: unanswered_def decode_failure_def)
qed (use assms(2-5) in \<open>auto simp: unanswered_def handled_def\<close>)

section \<open>Runs\<close>

text \<open>
  What a packet does to the timers: only packets that are admitted and decoded count.
\<close>

definition timer_events :: "env \<Rightarrow> packet \<Rightarrow> session \<Rightarrow> (int \<times> timer_event) list" where
  "timer_events e b s = (case (get_sequence_number b, get_command_id b) of
     (Inr sn, Inr c) \<Rightarrow>
       if SequenceNumber_valid sn \<and> valid (current_session_state s) c \<and> decode_failure c b = None then
         if c = cid_BindTransceiver \<or> c = cid_BindTransmitter \<or> c = cid_BindReceiver
         then [(micros e, Bind_received)]
         else if c = cid_SubmitSm \<or> c = cid_EnquireLink then [(micros e, Activity)]
         else if c = cid_Unbind then [(micros e, Unbind_received)] else []
       else []
   | _ \<Rightarrow> [])"

lemma step_timers:
  assumes "session_step e ops b (s, w) (s', w')"
  shows "timer_manager s' = fold timer_step (timer_events e b s) (timer_manager s)"
  using assms
  by cases (auto simp: timer_events_def handled_def decoded_header valid_bind valid_handled
      decode_failure_def manager_steps split: if_splits sum.splits)

text \<open>
  The packets of one connection in order, with the events for its timers; between two packets
  the rest of the server may have changed in any way.
\<close>

inductive session_run :: "'d db_ops \<Rightarrow> (env \<times> packet) list \<Rightarrow> session \<Rightarrow> (int \<times> timer_event) list \<Rightarrow>
    session \<Rightarrow> bool" for ops :: "'d db_ops" where
  none: "session_run ops [] s [] s"
| packet: "process e ops b s w = Inr (s1, w1) \<Longrightarrow> session_run ops ps s1 h s' \<Longrightarrow>
    session_run ops ((e, b) # ps) s (timer_events e b s @ h) s'"

lemma run_timers: "session_run ops ps s h s' \<Longrightarrow> timer_manager s' = fold timer_step h (timer_manager s)"
  by (induction rule: session_run.induct) (auto simp: process_iff_step dest: step_timers)

lemma timer_events_set: "(t, ev) \<in> set (timer_events e b s) \<Longrightarrow> t = micros e \<and> ev \<noteq> Connected"
  by (auto simp: timer_events_def split: if_splits sum.splits)

lemma run_events: "session_run ops ps s h s' \<Longrightarrow> (t, ev) \<in> set h \<Longrightarrow>
    ev \<noteq> Connected \<and> t \<in> (\<lambda>p. micros (fst p)) ` set ps"
  by (induction rule: session_run.induct) (auto dest: timer_events_set)

lemma last_heard_in: "last_heard h = Some t \<Longrightarrow> \<exists>ev. (t, ev) \<in> set h"
  by (induction h rule: last_heard.induct) (auto split: option.splits if_splits)

lemma run_timeout:
  assumes r: "session_run ops ps (smpp_impl e0 client_ip) h s"
    and clock: "\<forall>(e, b) \<in> set ps. micros e \<le> micros e' \<and> micros e' - micros e < 2 ^ 63"
  shows "timer_timeout e' s \<longleftrightarrow>
    bound_in h \<and> (micros e' - the (last_heard h)) div 1000 > 180000"
proof -
  have m: "timer_manager s = timers_after h"
    using run_timers [OF r] by (simp add: timers_after_def smpp_impl_def)
  have c: "Connected \<notin> snd ` set h"
    using run_events [OF r] by force
  show ?thesis
  proof (cases "bound_in h")
    case False
    with timers_after_init [OF c] show ?thesis
      by (simp add: timer_timeout_def m manager_expired_def session_init_expired_def
          session_init_timer_def new_smpp_timer_def response_expired_iff)
  next
    case True
    then obtain t where t: "last_heard h = Some t" using bound_last_heard by blast
    then obtain ev where "(t, ev) \<in> set h" using last_heard_in by blast
    then have now: "t \<le> micros e'" "micros e' - t < 2 ^ 63"
      using run_events [OF r] clock by force+
    have past: "past (micros e') t > 180000 \<longleftrightarrow> (micros e' - t) div 1000 > 180000"
      using past_forward [OF now, of 180000] by simp
    show ?thesis
      using True t timers_after_init [OF c] timers_after_last_heard [OF c t] past
      by (auto simp: timer_timeout_def m manager_expired_def session_init_expired_def
          expired_runs_from response_expired_iff)
  qed
qed

text \<open>A bound session stays with its system id, and a closed one closed.\<close>

lemma run_bound:
  "session_run ops ps s h s' \<Longrightarrow> current_session_state s \<noteq> SESSION_OPEN \<Longrightarrow>
   sysid s' = sysid s \<and> data_source_flag s' = data_source_flag s \<and>
   current_session_state s' \<in> {current_session_state s, SESSION_CLOSED}"
proof (induction rule: session_run.induct)
  case (packet e b s w s1 w1 ps h s')
  have "sysid s1 = sysid s \<and> data_source_flag s1 = data_source_flag s \<and>
      current_session_state s1 \<in> {current_session_state s, SESSION_CLOSED}"
    using packet.hyps(1) packet.prems unfolding process_iff_step by cases (auto simp: state_bound_defs)
  with packet show ?case by auto
qed simp

text \<open>A packet makes for at most one error.\<close>

lemma run_errors:
  "session_run ops ps s h s' \<Longrightarrow>
   bind_error_count s \<le> bind_error_count s' \<and> other_error_count s \<le> other_error_count s' \<and>
   bind_error_count s' + other_error_count s' \<le> bind_error_count s + other_error_count s + int (length ps) \<and>
   (error_occured s \<longrightarrow> error_occured s')"
proof (induction rule: session_run.induct)
  case (packet e b s w s1 w1 ps h s')
  have "bind_error_count s \<le> bind_error_count s1 \<and> other_error_count s \<le> other_error_count s1 \<and>
      bind_error_count s1 + other_error_count s1 \<le> bind_error_count s + other_error_count s + 1 \<and>
      (error_occured s \<longrightarrow> error_occured s1)"
    using packet.hyps(1) unfolding process_iff_step by cases auto
  with packet show ?case by auto
qed simp

text \<open>An error is only declared with a reason.\<close>

lemma run_error_reason:
  "session_run ops ps s h s' \<Longrightarrow> error_occured s' \<Longrightarrow>
   error_occured s \<or> bind_error_count s' \<ge> 3 \<or> other_error_count s' \<ge> 3 \<or>
   (\<exists>(e, b) \<in> set ps. \<exists>sn. get_sequence_number b = Inr sn \<and> \<not> SequenceNumber_valid sn)"
proof (induction rule: session_run.induct)
  case (packet e b s w s1 w1 ps h s')
  have "error_occured s \<or> bind_error_count s1 \<ge> 3 \<or> other_error_count s1 \<ge> 3 \<or>
      (\<exists>sn. get_sequence_number b = Inr sn \<and> \<not> SequenceNumber_valid sn)" if "error_occured s1"
    using packet.hyps(1) that unfolding process_iff_step by cases auto
  moreover have "bind_error_count s1 \<le> bind_error_count s'" "other_error_count s1 \<le> other_error_count s'"
    using run_errors [OF packet.hyps(2)] by auto
  ultimately show ?case using packet.IH packet.prems by fastforce
qed simp

lemma run_invalid_sequence:
  "session_run ops ps s h s' \<Longrightarrow>
   \<exists>(e, b) \<in> set ps. \<exists>sn. get_sequence_number b = Inr sn \<and> \<not> SequenceNumber_valid sn \<Longrightarrow> error_occured s'"
proof (induction rule: session_run.induct)
  case (packet e b s w s1 w1 ps h s')
  have "error_occured s1" if "get_sequence_number b = Inr sn" "\<not> SequenceNumber_valid sn" for sn
    using packet.hyps(1) that by (auto simp: process_def)
  with packet run_errors [OF packet.hyps(2)] show ?case by auto
qed simp

lemma run_ok:
  "session_run ops ps s h s' \<Longrightarrow> 0 \<le> bind_error_count s \<and> 0 \<le> other_error_count s \<and>
   (bind_error_count s \<ge> 3 \<or> other_error_count s \<ge> 3 \<longrightarrow> error_occured s) \<Longrightarrow>
   bind_error_count s' \<ge> 3 \<or> other_error_count s' \<ge> 3 \<longrightarrow> error_occured s'"
proof (induction rule: session_run.induct)
  case (packet e b s w s1 w1 ps h s')
  have "0 \<le> bind_error_count s1 \<and> 0 \<le> other_error_count s1 \<and>
      (bind_error_count s1 \<ge> 3 \<or> other_error_count s1 \<ge> 3 \<longrightarrow> error_occured s1)"
    using packet.hyps(1) packet.prems unfolding process_iff_step by cases auto
  with packet.IH show ?case by blast
qed simp

section \<open>What counts as an error\<close>

text \<open>
  What is wrong with a packet, by the packet, the state of the session, the accounts and the client's
  address alone: its sequence number, a bind that the accounts refuse, or any other packet that the
  state does not admit, that the server does not handle, or that cannot be decoded.
\<close>

datatype packet_error = Invalid_sequence | Bind_refused | Other_error

definition bind_status :: "uint32 \<Rightarrow> packet \<Rightarrow> session \<Rightarrow> 'd server \<Rightarrow> uint32" where
  "bind_status c b s w =
     (if c = cid_BindTransceiver then (case BindTransceiver_from b of Inl _ \<Rightarrow> ESME_ROK
        | Inr p \<Rightarrow> transceiver_status w (BindTransceiver.system_id p) (BindTransceiver.password p) s)
      else if c = cid_BindTransmitter then (case BindTransmitter_from b of Inl _ \<Rightarrow> ESME_ROK
        | Inr p \<Rightarrow> check_sysid_pw_bindip (accounts w) (BindTransmitter.system_id p) (BindTransmitter.password p) (tcp_client_ip s))
      else if c = cid_BindReceiver then (case BindReceiver_from b of Inl _ \<Rightarrow> ESME_ROK
        | Inr p \<Rightarrow> check_sysid_pw_bindip (accounts w) (BindReceiver.system_id p) (BindReceiver.password p) (tcp_client_ip s))
      else ESME_ROK)"

definition error_of :: "packet \<Rightarrow> session \<Rightarrow> 'd server \<Rightarrow> packet_error option" where
  "error_of b s w = (case (get_sequence_number b, get_command_id b) of
     (Inr sn, Inr c) \<Rightarrow>
       if \<not> SequenceNumber_valid sn then Some Invalid_sequence
       else if \<not> valid (current_session_state s) c \<or> c \<notin> handled \<or> decode_failure c b \<noteq> None then Some Other_error
       else if bind_status c b s w \<noteq> ESME_ROK then Some Bind_refused else None
   | _ \<Rightarrow> None)"

text \<open>The packets of a connection as in \<open>session_run\<close>, with what was wrong with each.\<close>

inductive error_run :: "'d db_ops \<Rightarrow> (env \<times> packet) list \<Rightarrow> session \<Rightarrow> packet_error option list \<Rightarrow>
    session \<Rightarrow> bool" for ops :: "'d db_ops" where
  none: "error_run ops [] s [] s"
| packet: "process e ops b s w = Inr (s1, w1) \<Longrightarrow> error_run ops ps s1 es s' \<Longrightarrow>
    error_run ops ((e, b) # ps) s (error_of b s w # es) s'"

lemma step_error:
  assumes "session_step e ops b (s, w) (s', w')"
  shows "bind_error_count s' = bind_error_count s + (if error_of b s w = Some Bind_refused then 1 else 0) \<and>
    other_error_count s' = other_error_count s + (if error_of b s w = Some Other_error then 1 else 0) \<and>
    (error_occured s' \<longleftrightarrow> error_occured s \<or> error_of b s w = Some Invalid_sequence \<or>
       error_of b s w = Some Bind_refused \<and> bind_error_count s' \<ge> 3 \<or>
       error_of b s w = Some Other_error \<and> other_error_count s' \<ge> 3)"
proof -
  have c: "\<exists>c. get_command_id b = Inr c" if "get_sequence_number b = Inr sn" for sn
    using that header_reads by (cases "length b < 16") force+
  show ?thesis
    using assms
    by cases (use c in \<open>auto simp: error_of_def bind_status_def decoded_header valid_bind valid_handled handled_def
      decode_failure_def split: if_splits sum.splits\<close>)
qed

lemma run_error_counts:
  "error_run ops ps s es s' \<Longrightarrow>
   bind_error_count s' = bind_error_count s + int (count_list es (Some Bind_refused)) \<and>
   other_error_count s' = other_error_count s + int (count_list es (Some Other_error)) \<and>
   (error_occured s' \<longleftrightarrow> error_occured s \<or> 0 < count_list es (Some Invalid_sequence) \<or>
      0 < count_list es (Some Bind_refused) \<and> bind_error_count s' \<ge> 3 \<or>
      0 < count_list es (Some Other_error) \<and> other_error_count s' \<ge> 3)"
proof (induction rule: error_run.induct)
  case (packet e b s w s1 w1 ps es s')
  have s: "session_step e ops b (s, w) (s1, w1)" using packet.hyps(1) by (simp add: process_iff_step)
  show ?case
  proof (cases "error_of b s w")
    case None
    then show ?thesis using step_error [OF s] packet.IH by simp
  next
    case (Some x)
    then show ?thesis
      by (cases x; insert step_error [OF s] packet.IH; simp; linarith)
  qed
qed simp

end
