(* ===== verification/Message_Path.thy ===== *)
theory Message_Path
  imports Delivery Vendor_Demo Session_Invariants
begin

text \<open>
  A message from its submission to the delivery receipt, through the session, the lists of the
  server and the simulated gateway.
\<close>

section \<open>Submission\<close>

lemma submission_stored:
  assumes b: "get_command_id b = Inr cid_SubmitSm" "SubmitSm_from b = Inr p"
      "SequenceNumber_valid (sequence_number p)"
    and s: "is_state_bound_txable (current_session_state s)"
    and run: "process e ops b s w = Inr (s1, w1)"
  obtains mid smi where
    "received_smis_queue w1 = received_smis_queue w @ (if use_buffer_db (configer w) then [] else [smi])"
    "database w1 = (if use_buffer_db (configer w) then insert_to_submit_smis ops smi (database w) else database w)"
    "wait_dlr_list w1 = wait_dlr_list w" "dlr_list w1 = dlr_list w"
    "\<And>g. out_queue_A_of g (sources w1) = out_queue_A_of g (sources w) @ (if g = data_source_flag s \<and> g \<noteq> []
       then [response 0x80000004 ESME_ROK (sequence_number p) (mid @ [0])] else [])"
    "message_id_of_protocol_server smi = mid" "mid = fst (generate_message_id (dice e) (generator w))"
    "smi_systemid smi = sysid s" "dst_addr smi = addr_v (address (SubmitSm.destination_addr p))"
    "src_addr smi = addr_v (address (SubmitSm.source_addr p))" "sysid s1 = sysid s"
    "data_source_flag s1 = data_source_flag s" "configer w1 = configer w"
    "convert_to_utf8 (snd (snd (snd (parse_udhi (SubmitSm.short_message p)))))
       (SubmitSm.short_message p) (dc_type (SubmitSm.data_coding p)) = Inr (content smi)"
    "total_submit s1 = total_submit s + 1" "out_queue (private_data_source s1) = out_queue (private_data_source s)"
    "generator w1 = snd (generate_message_id (dice e) (generator w))"
proof -
  note found = that
  let ?s = "(activity_timers e s)\<lparr> total_submit := total_submit (activity_timers e s) + 1 \<rparr>"
  have "process e ops b s w = process_submitsm e ops p (activity_timers e s) w"
    using process_decoded [of b "sequence_number p" cid_SubmitSm s] b s decoded_header(4) [OF b(2)]
    by (simp add: valid_handled handled_def)
  then have r: "process_submitsm e ops p (activity_timers e s) w = Inr (s1, w1)"
    using run by simp
  obtain mid g smi where m: "generate_message_id (dice e) (generator w) = (mid, g)"
    "submitted_smi e p mid ?s = Inr smi"
    "process_submitsm e ops p (activity_timers e s) w = Inr (?s, smi_received ops smi
       (acknowledged e (sequence_number p) mid (activity_timers e s) (w\<lparr> generator := g \<rparr>)))"
    by (rule process_submitsm_cases [of e w p "activity_timers e s" ops])
  then have g: "s1 = ?s" "w1 = smi_received ops smi (acknowledged e (sequence_number p) mid s (w\<lparr> generator := g \<rparr>))"
    using r by simp_all
  let ?smi = "smi\<lparr> protocol_of_client := PROTOCOL_SMPP, server_id := configer_server_id (configer w) \<rparr>"
  have mid: "mid = fst (generate_message_id (dice e) (generator w))" "g = snd (generate_message_id (dice e) (generator w))"
    using m(1) by simp_all
  show thesis
    by (rule found [of ?smi mid]; (rule mid)?)
      (use submitted_smi_fields [OF m(2)] in \<open>auto simp: g mid(2) smi_received_def acknowledged_def Let_def\<close>)
qed

text \<open>The same on a server without the buffer database, for a session with a flag.\<close>

lemma submission:
  assumes b: "get_command_id b = Inr cid_SubmitSm" "SubmitSm_from b = Inr p"
      "SequenceNumber_valid (sequence_number p)"
    and s: "is_state_bound_txable (current_session_state s)" "data_source_flag s \<noteq> []"
    and w: "memory_only w"
    and run: "process e ops b s w = Inr (s1, w1)"
  obtains mid smi where
    "received_smis_queue w1 = received_smis_queue w @ [smi]" "wait_dlr_list w1 = wait_dlr_list w"
    "dlr_list w1 = dlr_list w" "memory_only w1"
    "\<And>g. out_queue_A_of g (sources w1) = out_queue_A_of g (sources w) @
       (if g = data_source_flag s then [response 0x80000004 ESME_ROK (sequence_number p) (mid @ [0])] else [])"
    "message_id_of_protocol_server smi = mid" "mid = fst (generate_message_id (dice e) (generator w))"
    "smi_systemid smi = sysid s" "dst_addr smi = addr_v (address (SubmitSm.destination_addr p))"
    "src_addr smi = addr_v (address (SubmitSm.source_addr p))" "sysid s1 = sysid s"
    "data_source_flag s1 = data_source_flag s" "configer w1 = configer w"
    "generator w1 = snd (generate_message_id (dice e) (generator w))"
proof -
  note found = that
  show thesis
    by (rule submission_stored [OF b s(1) run], rule found)
      (use s(2) w in \<open>auto simp: memory_only_def\<close>)
qed

section \<open>Through the gateway\<close>

text \<open>
  \<open>sender\<close> and \<open>query_dlrs_and_mos\<close>, one after the other, on a server without another message
  under way: the receipt of the message is the only thing that the client is owed.
\<close>

lemma gateway:
  assumes w: "memory_only w" "received_smis_queue w = [smi]" "wait_dlr_list w = []"
      "receipts (smi_systemid smi) w = []"
    and smi: "dst_addr smi \<noteq> []" "message_id_of_protocol_server smi \<noteq> []"
    and w': "w' = snd (query_dlrs_and_mos ops d now (snd (sender ops w)))"
    and r: "r = make_receipt now (fst (generate_sn d (generator w)))
       (smi\<lparr> state := SMI_STATE_IS_DELIVERING \<rparr>)"
  shows "received_smis_queue w' = []" "wait_dlr_list w' = []" "dlr_list w' = dlr_list w @ [r]"
    "receipts (smi_systemid smi) w' = [r]" "memory_only w'" "sources w' = sources w"
    "configer w' = configer w"
proof -
  let ?x = "smi\<lparr> state := SMI_STATE_IS_DELIVERING \<rparr>"
  let ?v = "w\<lparr> received_smis_queue := [], wait_dlr_list := [?x] \<rparr>"
  have v: "snd (sender ops w) = ?v"
    using w smi(1) by (simp add: sender_memory add_to_wait_dlr_list_def)
  have mem: "memory_only ?v" using w(1) by (simp add: memory_only_def)
  obtain sn g where g: "generate_sn d (generator w) = (sn, g)" by (cases "generate_sn d (generator w)")
  have q: "w' = add_to_dlr_list ops r (?v\<lparr> wait_dlr_list := [], generator := g \<rparr>)"
    unfolding w' v r using smi(2) g
    by (simp add: query_dlrs_and_mos_def query_a_message_id_from_wait_dlr_list_def get_from_wait_dlr_list_def)
  show "sources w' = sources w" "received_smis_queue w' = []"
    unfolding q by (simp_all add: add_to_dlr_list_def Let_def)
  have "let w'' = snd (query_dlrs_and_mos ops d now ?v); sn = fst (generate_sn d (generator ?v)) in
      wait_dlr_list w'' = [] \<and> dlr_list w'' = dlr_list ?v @ [make_receipt now sn ?x] \<and>
      receipts (smi_systemid ?x) w'' = receipts (smi_systemid ?x) ?v @ [make_receipt now sn ?x] \<and> memory_only w''"
    by (rule query_makes_receipt [OF mem]) (use smi(2) in simp_all)
  then show "wait_dlr_list w' = []" "dlr_list w' = dlr_list w @ [r]"
    "receipts (smi_systemid smi) w' = [r]" "memory_only w'"
    using w(4) by (simp_all add: Let_def w' v r)
  show "configer w' = configer w" unfolding q by (simp add: add_to_dlr_list_steps)
qed

lemma receipt_items:
  "src_addr (make_receipt now sn x) = src_addr x" "dst_addr (make_receipt now sn x) = dst_addr x"
  "length (cb_sm_information.error_status (make_receipt now sn x)) \<le> 100"
  "cb_sm_information.error_code (make_receipt now sn x) < 1000"
  by (simp_all add: make_receipt_def Let_def DLR_STAT_DELIVRD_def DLR_STAT_UNDELIV_def ascii_def)

text \<open>The addresses that a submission was decoded with fit a deliver_sm.\<close>

lemma submitted_addresses:
  assumes "SubmitSm_from b = Inr p"
  shows "cstr_ok 21 (addr_v (address (SubmitSm.destination_addr p)))"
    "cstr_ok 21 (addr_v (address (SubmitSm.source_addr p)))"
  using submit_sm.octs_decode_frame [of b p] assms
  by (simp_all add: SubmitSm_from_def SubmitSm_decode_def SubmitSm_fields_ok_def SmeAddress_ok_def)

text \<open>
  From the submission to the receipt on the queue of the client: the receipt goes from the
  destination to the source of the message, and carries the message id of the response.
\<close>

lemma submission_to_receipt:
  assumes b: "get_command_id b = Inr cid_SubmitSm" "SubmitSm_from b = Inr p"
      "SequenceNumber_valid (sequence_number p)"
    and s: "current_session_state s = SESSION_BOUND_TRX" "data_source_flag s = sysid s" "sysid s \<noteq> []"
    and w: "memory_only w" "received_smis_queue w = []" "wait_dlr_list w = []" "receipts (sysid s) w = []"
    and dst: "addr_v (address (SubmitSm.destination_addr p)) \<noteq> []"
    and run: "process e ops b s w = Inr (s1, w1)"
    and w2: "w2 = snd (query_dlrs_and_mos ops d now (snd (sender ops w1)))"
    and sn: "sn = fst (generate_sn d (generator w1))" "SequenceNumber_valid sn"
    and host: "\<forall>t. tm_ok (localtime e' t)"
  obtains bp w3 r where
    "send_delivery_sm e' ops s1 w2 = Inr (True, w3)"
    "out_queue_B_of (sysid s) (sources w3) = out_queue_B_of (sysid s) (sources w1) @ [bp]"
    "DeliverSm_from bp = Inr (delivery (addr_v (address (SubmitSm.source_addr p)))
       (addr_v (address (SubmitSm.destination_addr p))) sn 4 0
       (receipt_text e' (use_hex_decimal_message_id (configer w)) r))"
    "message_id_of_protocol_server r = fst (generate_message_id (dice e) (generator w))"
    "out_queue_A_of (sysid s) (sources w1) = out_queue_A_of (sysid s) (sources w) @
       [response 0x80000004 ESME_ROK (sequence_number p) (message_id_of_protocol_server r @ [0])]"
    "cb_sm_information.error_status r = (if now mod 2 = 0 then DLR_STAT_DELIVRD else DLR_STAT_UNDELIV)"
    "cb_sm_information.error_code r = (if now mod 2 = 0 then 0 else 36)"
proof -
  note found = that
  have tx: "is_state_bound_txable (current_session_state s)" "data_source_flag s \<noteq> []"
    using s by (simp_all add: state_bound_defs)
  obtain mid smi where sub: "received_smis_queue w1 = received_smis_queue w @ [smi]"
    "wait_dlr_list w1 = wait_dlr_list w" "dlr_list w1 = dlr_list w" "memory_only w1"
    "\<And>g. out_queue_A_of g (sources w1) = out_queue_A_of g (sources w) @
       (if g = data_source_flag s then [response 0x80000004 ESME_ROK (sequence_number p) (mid @ [0])] else [])"
    "message_id_of_protocol_server smi = mid" "mid = fst (generate_message_id (dice e) (generator w))"
    "smi_systemid smi = sysid s" "dst_addr smi = addr_v (address (SubmitSm.destination_addr p))"
    "src_addr smi = addr_v (address (SubmitSm.source_addr p))" "sysid s1 = sysid s"
    "data_source_flag s1 = data_source_flag s" "configer w1 = configer w"
    by (rule submission [OF b tx w(1) run]) blast
  define r where "r = make_receipt now sn (smi\<lparr> state := SMI_STATE_IS_DELIVERING \<rparr>)"
  have mid: "smi_systemid smi = sysid s" "message_id_of_protocol_server smi \<noteq> []" "dst_addr smi \<noteq> []"
    using sub dst by (simp_all add: generate_message_id_sn)
  have gate: "receipts (sysid s) w2 = [r]" "memory_only w2" "sources w2 = sources w1" "configer w2 = configer w1"
    using gateway [OF sub(4) _ _ _ mid(3,2) w2, of r] sub w mid(1) by (simp_all add: r_def sn(1))
  obtain w2' where peek: "peek_dlr ops (sysid s1) w2 = (Some (pushing r), w2')"
    using peek_dlr_receipts(1) [OF gate(2), of ops "sysid s"] gate(1) sub(11)
    by (cases "peek_dlr ops (sysid s) w2") simp
  have w2': "sources w2' = sources w2" "configer w2' = configer w2"
    using peek gate(2) by (auto simp: peek_dlr_memory split: option.splits)
  have items: "src_addr (pushing r) = addr_v (address (SubmitSm.source_addr p))"
    "dst_addr (pushing r) = addr_v (address (SubmitSm.destination_addr p))"
    "sn_by_protocol_server (pushing r) = sn" "message_id_of_protocol_server (pushing r) = mid"
    using sub by (simp_all add: r_def receipt_items)
  have short: "length (receipt_text e' (use_hex_decimal_message_id (configer w2')) (pushing r)) < 256"
    using host items(4) length_message_id sub(7)
    by (intro length_receipt_text) (simp_all add: r_def receipt_items)
  have flag: "data_source_flag s1 \<noteq> []" using sub(12) s by simp
  obtain bp where send: "send_delivery_sm e' ops s1 w2 = Inr (True, w2'\<lparr> sources :=
      add_to_out_queue_B (data_source_flag s1) (time_now e') bp (sources w2') \<rparr>)"
    "DeliverSm_from bp = Inr (delivery (src_addr (pushing r)) (dst_addr (pushing r))
       (sn_by_protocol_server (pushing r)) 4 0
       (receipt_text e' (use_hex_decimal_message_id (configer w2')) (pushing r)))"
    using send_delivery [OF peek _ _ _ flag short] submitted_addresses [OF b(2)] sn(2) items by metis
  have verdict: "cb_sm_information.error_status (pushing r) = (if now mod 2 = 0 then DLR_STAT_DELIVRD else DLR_STAT_UNDELIV)"
    "cb_sm_information.error_code (pushing r) = (if now mod 2 = 0 then 0 else 36)"
    by (simp_all add: r_def make_receipt_def Let_def)
  show thesis
    by (rule found [OF send(1), of bp "pushing r"])
      (use verdict send(2) items w2' gate sub s in \<open>simp_all add: queue_of_manager_put\<close>)
qed

end
