(* ===== verification/Demo.thy ===== *)
theory Demo
  imports Message_Path
begin

text \<open>
  A concrete host, server and client, on which the hypotheses of the properties of the server
  are met: the client binds, submits one message and unbinds.
\<close>

definition at :: "int \<Rightarrow> env" where
  "at t = \<lparr> micros = t * 1000000, seconds = t, time_now = t, dice = 5,
     localtime = (\<lambda>_. \<lparr> tm_year = 113, tm_mon = 6, tm_mday = 25, tm_hour = 10, tm_min = 30 \<rparr>) \<rparr>"

definition demo_ops :: "unit db_ops" where
  "demo_ops = \<lparr> insert_to_submit_smis = (\<lambda>_ d. d), get_to_submit_smis = (\<lambda>_ d. ([], d)),
     insert_to_delivery_dlrs = (\<lambda>_ d. d), get_to_delivery_dlrs = (\<lambda>_ _ _ d. ([], d)),
     insert_to_delivery_mos = (\<lambda>_ d. d), get_to_delivery_mos = (\<lambda>_ _ _ d. ([], d)),
     record_smis = (\<lambda>_ d. d), record_mos = (\<lambda>_ d. d) \<rparr>"

definition demo_server :: "unit server" where
  "demo_server = \<lparr> received_smis_queue = [], wait_dlr_list = [], dlr_list = [], mo_list = [],
     configer = \<lparr> need_authorize = True, use_hex_decimal_message_id = False, configer_server_id = [],
       use_buffer_db = False, record_mt_mo = False \<rparr>, database = (), statistics = [],
     accounts = [demo_account ''A'' ''1''], sources = [], generator = sn_initial \<rparr>"

definition demo_session :: session where
  "demo_session = smpp_impl (at 0) [49]"

definition bind_packet :: packet where
  "bind_packet = [0, 0, 0, 30, 0, 0, 0, 9, 0, 0, 0, 0, 0, 0, 0, 1, 65, 0, 49, 50, 51, 52, 53, 54, 0, 0,
     0x34, 0, 0, 0]"

definition submit_packet :: packet where
  "submit_packet = [0, 0, 0, 37, 0, 0, 0, 4, 0, 0, 0, 0, 0, 0, 0, 2, 0, 1, 1, 49, 0, 1, 1, 50, 0,
     0, 0, 0, 0, 0, 0, 0, 0, 0, 2, 104, 105]"

definition unbind_packet :: packet where
  "unbind_packet = [0, 0, 0, 16, 0, 0, 0, 6, 0, 0, 0, 0, 0, 0, 0, 3]"

text \<open>The session once it is bound; the server has not changed.\<close>

definition demo_bound :: session where
  "demo_bound = demo_session\<lparr> current_session_state := SESSION_BOUND_TRX, sysid := [65],
     data_source_flag := [65], private_data_source := \<lparr> in_queue = [],
       out_queue = [[0, 0, 0, 21, 128, 0, 0, 9, 0, 0, 0, 0, 0, 0, 0, 1, 83, 77, 80, 80, 0]],
       last_update_time = 0 \<rparr>,
     timer_manager := bind_received 0 new_smpp_timer_manager, bind_time := Some 0 \<rparr>"

lemma demo_bind:
  "process (at 0) demo_ops bind_packet demo_session demo_server = Inr (demo_bound, demo_server)"
  by code_simp

lemma demo_headers:
  "get_command_id bind_packet = Inr cid_BindTransceiver" "get_sequence_number bind_packet = Inr 1"
  "get_command_id submit_packet = Inr cid_SubmitSm" "get_sequence_number submit_packet = Inr 2"
  "get_command_id unbind_packet = Inr cid_Unbind" "get_sequence_number unbind_packet = Inr 3"
  by code_simp+

definition demo_submit :: SubmitSm where
  "demo_submit = new_SubmitSm 2 [] (sme [49]) (sme [50]) 0 0 0 [] [] 0 0 0 0 [104, 105]"

lemma demo_decode: "SubmitSm_from submit_packet = Inr demo_submit"
  by code_simp

lemma demo_bound_facts:
  "current_session_state demo_bound = SESSION_BOUND_TRX" "sysid demo_bound = [65]"
  "data_source_flag demo_bound = [65]"
  "memory_only demo_server" "received_smis_queue demo_server = []"
  "wait_dlr_list demo_server = []" "dlr_list demo_server = []"
  by (simp_all add: demo_bound_def demo_server_def memory_only_def)

text \<open>The submission returns; what it returns is the subject of the properties.\<close>

lemma demo_submission:
  obtains s1 w1 where "process (at 1) demo_ops submit_packet demo_bound demo_server = Inr (s1, w1)"
    "fst (generate_sn 5 (generator w1)) = 117"
proof (cases "process (at 1) demo_ops submit_packet demo_bound demo_server")
  case (Inl er)
  then have "over_read SESSION_BOUND_TRX submit_packet"
    using process_failure [of "at 1" demo_ops submit_packet demo_bound demo_server er]
    by (simp add: demo_bound_facts)
  then show thesis
    by (simp add: over_read_def demo_headers decode_failure_def demo_decode, simp add: submit_packet_def)
next
  case (Inr r)
  then obtain s1 w1 where p: "process (at 1) demo_ops submit_packet demo_bound demo_server = Inr (s1, w1)"
    by (cases r) simp
  have ok: "SequenceNumber_valid (sequence_number demo_submit)"
    "is_state_bound_txable (current_session_state demo_bound)" "data_source_flag demo_bound \<noteq> []"
    by (simp_all add: demo_submit_def new_SubmitSm_def update_length_def demo_bound_facts state_bound_defs
        SequenceNumber_valid_def SequenceNumber_Max_def SequenceNumber_Min_def)
  have "generator w1 = snd (generate_message_id (dice (at 1)) (generator demo_server))"
    by (rule submission [OF demo_headers(3) demo_decode ok demo_bound_facts(4) p]) blast
  then have "fst (generate_sn 5 (generator w1)) = 117"
    by (simp add: generate_message_id_sn generate_sn_def get_sn_magic_number_def demo_server_def
        sn_initial_def at_def)
  with p that show thesis by blast
qed

lemma demo_bind_events: "timer_events (at 0) bind_packet demo_session = [(0, Bind_received)]"
proof -
  have "decode_failure cid_BindTransceiver bind_packet = None" by code_simp
  then show ?thesis
    by (simp add: timer_events_def demo_headers demo_session_def smpp_impl_def valid_bind at_def
        SequenceNumber_valid_def SequenceNumber_Max_def SequenceNumber_Min_def)
qed

lemma demo_run: "session_run demo_ops [(at 0, bind_packet)] demo_session [(0, Bind_received)] demo_bound"
  using session_run.packet [OF demo_bind session_run.none] by (simp add: demo_bind_events)

text \<open>A message for the client with the text \<open>c\<close>, as the only thing that the server holds.\<close>

definition demo_message :: "octets \<Rightarrow> cb_sm_information" where
  "demo_message c = new_cb_sm_information\<lparr> dst_addr := [49], src_addr := [50],
     state := SMI_STATE_IS_DELIVERIED, sn_by_protocol_server := 7, content := c \<rparr>"

definition demo_incoming :: "octets \<Rightarrow> unit server" where
  "demo_incoming c = demo_server\<lparr> mo_list := [demo_message c] \<rparr>"

lemma demo_peek:
  "peek_mo demo_ops [65] (demo_incoming c) =
     (Some (pushing (demo_message c)), (demo_incoming c)\<lparr> mo_list := [pushing (demo_message c)] \<rparr>)"
  by (simp add: peek_mo_def demo_incoming_def demo_server_def demo_account_def demo_message_def ascii_def)

lemma demo_no_receipt: "send_delivery_sm e demo_ops demo_bound (demo_incoming c) = Inr (False, demo_incoming c)"
  by (simp add: send_delivery_sm_def peek_dlr_def demo_incoming_def demo_server_def)

end
