(* ===== verification/Server_Properties.thy ===== *)
theory Server_Properties
  imports Demo
begin

text \<open>
  What the server guarantees, one theorem for each claim, over the sessions, the shared queues,
  the lists of messages and the text conversion.
\<close>

section \<open>Sessions\<close>

text \<open>
  C8: \<open>process\<close> does to a session and to the shared state exactly what one of the rules of
  \<open>session_step\<close> says: it refines the step relation, and every step is one that it makes.
\<close>

theorem process_refines_steps:
  "process e ops b s w = Inr (s', w') \<longleftrightarrow> session_step e ops b (s, w) (s', w')"
  by (rule process_iff_step)

text \<open>
  C9: \<open>process\<close> lets no exception out; it returns for every packet, except when the packet is
  shorter than a header or its decoder reads past its end.
\<close>

theorem process_returns:
  "process e ops b s w = Inl er \<longleftrightarrow> er = OutOfBounds \<and> over_read (current_session_state s) b"
  by (rule process_failure)

text \<open>
  C10: the state of a session changes only along the SMPP session diagram: by a bind while it is
  open, into the state of that bind, and by an unbind while it is bound.
\<close>

theorem session_diagram:
  assumes "process e ops b s w = Inr (s', w')" "get_command_id b = Inr c"
  shows "diagram (current_session_state s) c (current_session_state s')"
  using assms step_diagram process_step by blast

theorem session_diagram_witness: "diagram SESSION_OPEN cid_BindTransceiver SESSION_BOUND_TRX"
  using session_diagram [OF demo_bind demo_headers(1)]
  by (simp add: demo_bound_facts demo_session_def smpp_impl_def)





text \<open>
  C13: a submit_sm that a transmitting session decodes makes one message with the account, addresses
  and text of the PDU and a new message id. The message is stored once: without the buffer database
  at the end of the list of received messages, and otherwise in the database, while the list stays as
  it is. On a session with a flag (which all have but those bound with an empty system id), one
  response is put on queue A of the account, with the sequence number and this message id.
\<close>

theorem submission_stored_and_answered:
  assumes "process e ops b s w = Inr (s1, w1)" "get_command_id b = Inr cid_SubmitSm"
    and "SubmitSm_from b = Inr p" "SequenceNumber_valid (sequence_number p)"
    and "is_state_bound_txable (current_session_state s)"
  shows "\<exists>smi r. (if use_buffer_db (configer w)
      then database w1 = insert_to_submit_smis ops smi (database w) \<and> received_smis_queue w1 = received_smis_queue w
      else database w1 = database w \<and> received_smis_queue w1 = received_smis_queue w @ [smi]) \<and>
    smi_systemid smi = sysid s \<and> dst_addr smi = addr_v (address (SubmitSm.destination_addr p)) \<and>
    src_addr smi = addr_v (address (SubmitSm.source_addr p)) \<and>
    message_id_of_protocol_server smi = fst (generate_message_id (dice e) (generator w)) \<and>
    convert_to_utf8 (snd (snd (snd (parse_udhi (SubmitSm.short_message p)))))
      (SubmitSm.short_message p) (dc_type (SubmitSm.data_coding p)) = Inr (content smi) \<and>
    (\<forall>g. out_queue_A_of g (sources w1) =
      out_queue_A_of g (sources w) @ (if g = data_source_flag s \<and> g \<noteq> [] then [r] else [])) \<and>
    SubmitSmResp_from r = Inr (new_SubmitSmResp ESME_ROK (sequence_number p) (message_id_of_protocol_server smi)) \<and>
    total_submit s1 = total_submit s + 1"
proof -
  obtain mid smi where sub:
    "received_smis_queue w1 = received_smis_queue w @ (if use_buffer_db (configer w) then [] else [smi])"
    "database w1 = (if use_buffer_db (configer w) then insert_to_submit_smis ops smi (database w) else database w)"
    "\<And>g. out_queue_A_of g (sources w1) = out_queue_A_of g (sources w) @ (if g = data_source_flag s \<and> g \<noteq> []
       then [response 0x80000004 ESME_ROK (sequence_number p) (mid @ [0])] else [])"
    "message_id_of_protocol_server smi = mid" "mid = fst (generate_message_id (dice e) (generator w))"
    "smi_systemid smi = sysid s" "dst_addr smi = addr_v (address (SubmitSm.destination_addr p))"
    "src_addr smi = addr_v (address (SubmitSm.source_addr p))"
    "convert_to_utf8 (snd (snd (snd (parse_udhi (SubmitSm.short_message p)))))
       (SubmitSm.short_message p) (dc_type (SubmitSm.data_coding p)) = Inr (content smi)"
    "total_submit s1 = total_submit s + 1"
    by (rule submission_stored [OF assms(2-5,1)], rule that) assumption+
  then show ?thesis
    using SubmitSmResp_response [where i = mid and st = ESME_ROK and sn = "sequence_number p"]
      message_id_ok [of "dice e" "generator w"]
    by (intro exI [of _ smi] exI [of _ "response 0x80000004 ESME_ROK (sequence_number p) (mid @ [0])"]) simp
qed

theorem submission_stored_and_answered_witness:
  "\<exists>(w1 :: unit server) smi r. received_smis_queue w1 = [smi] \<and> smi_systemid smi = [65] \<and> dst_addr smi = [50] \<and>
    src_addr smi = [49] \<and> content smi = [104, 105] \<and> out_queue_A_of [65] (sources w1) = [r] \<and>
    SubmitSmResp_from r = Inr (new_SubmitSmResp ESME_ROK 2 (message_id_of_protocol_server smi))"
proof -
  obtain s1 w1 where p: "process (at 1) demo_ops submit_packet demo_bound demo_server = Inr (s1, w1)"
    by (rule demo_submission)
  have d: "addr_v (address (SubmitSm.destination_addr demo_submit)) = [50]"
    "addr_v (address (SubmitSm.source_addr demo_submit)) = [49]" "sequence_number demo_submit = 2"
    "SubmitSm.short_message demo_submit = [104, 105]" "SubmitSm.data_coding demo_submit = 0"
    by (simp_all add: demo_submit_def new_SubmitSm_def update_length_def sme_def)
  have q: "out_queue_A_of [65] (sources demo_server) = []" "\<not> use_buffer_db (configer demo_server)"
    by (simp_all add: demo_server_def queue_of_def get_cdsp_def)
  have prem: "SequenceNumber_valid (sequence_number demo_submit)"
    "is_state_bound_txable (current_session_state demo_bound)"
    by (simp_all add: d demo_bound_facts state_bound_defs SequenceNumber_valid_def
        SequenceNumber_Max_def SequenceNumber_Min_def)
  show ?thesis
    using submission_stored_and_answered [OF p demo_headers(3) demo_decode prem]
    by (intro exI [of _ w1]) (auto simp: demo_bound_facts d q parse_udhi_def convert_to_utf8_def dc_type_def)
qed





section \<open>Queues\<close>

text \<open>
  C16: the three queues that the connections of an account share lose, invent, double and reorder
  nothing: in any run that mixes puts and gets on any of the queues under any flags, what was taken
  from a queue and what is still in it, in this order, is what was in it at first and what was put
  into it. Under the empty flag nothing is kept.
\<close>

theorem packets_conserved:
  assumes "manager_ok m" "shared.run ops m = (took, m')"
  shows "shared.of_key (In_queue, g) took @ in_queue_of g m' = in_queue_of g m @ shared.puts (In_queue, g) ops \<and>
    shared.of_key (Out_queue_A, g) took @ out_queue_A_of g m' =
      out_queue_A_of g m @ shared.puts (Out_queue_A, g) ops \<and>
    shared.of_key (Out_queue_B, g) took @ out_queue_B_of g m' =
      out_queue_B_of g m @ shared.puts (Out_queue_B, g) ops"
  using shared.conservation [OF assms, of "(In_queue, g)"] shared.conservation [OF assms, of "(Out_queue_A, g)"]
    shared.conservation [OF assms, of "(Out_queue_B, g)"]
  by (simp add: map_idI)

theorem packets_conserved_witness:
  "\<exists>took m'. shared.run [((Out_queue_A, [65]), Some (0, [1])), ((Out_queue_B, [65]), Some (0, [3])),
      ((Out_queue_A, [65]), Some (0, [2])), ((Out_queue_A, [65]), None), ((In_queue, [65]), None)] [] = (took, m') \<and>
    shared.of_key (Out_queue_A, [65]) took @ out_queue_A_of [65] m' = [[1], [2]] \<and>
    shared.of_key (Out_queue_B, [65]) took @ out_queue_B_of [65] m' = [[3]]"
proof -
  let ?ops = "[((Out_queue_A, [65]), Some (0, [1])), ((Out_queue_B, [65]), Some (0, [3])),
      ((Out_queue_A, [65]), Some (0, [2])), ((Out_queue_A, [65]), None), ((In_queue, [65]), None)]
    :: ((shared_queue \<times> octets) \<times> (int \<times> packet) option) list"
  obtain took m' where r: "shared.run ?ops [] = (took, m')" by (metis surj_pair)
  have "manager_ok []" by (simp add: manager_ok_def)
  from packets_conserved [OF this r, of "[65]"] r show ?thesis
    by (simp add: shared.puts_def queue_of_def get_cdsp_def del: shared.run.simps)
qed

text \<open>
  a session sends its own packets first, then, when its state lets it transmit, those of queue
  A, then, when its state lets it receive, those of queue B, each oldest first; a packet that
  is taken is not taken again.
\<close>

theorem sending_order:
  assumes "session_get_from_out_queue s w = (r, s', w')"
  shows "r = (case pending s w of [] \<Rightarrow> None | bp # _ \<Rightarrow> Some bp) \<and> pending s' w' = tl (pending s w)"
  using taken_packet(1,2) [OF assms] by blast

theorem sending_order_witness:
  "\<exists>r s' (w' :: unit server). session_get_from_out_queue demo_bound demo_server = (r, s', w') \<and>
    r = Some (hd (out_queue (private_data_source demo_bound))) \<and> pending s' w' = []"
proof -
  obtain r s' w' where r: "session_get_from_out_queue demo_bound demo_server = (r, s', w')"
    by (metis surj_pair)
  have "pending demo_bound demo_server = [hd (out_queue (private_data_source demo_bound))]"
    by (simp add: pending_def demo_bound_def demo_server_def queue_of_def get_cdsp_def state_bound_defs)
  with sending_order [OF r] r show ?thesis by simp
qed

text \<open>
  a generic_nack for a receiver is put on queue A, which receivers do not send from: the
  client never gets it, and taking packets for the receiver leaves queue A as it is.
\<close>

theorem receiver_gets_no_nack:
  assumes "process e ops b s w = Inr (s', w')" "current_session_state s = SESSION_BOUND_RX"
    and "data_source_flag s \<noteq> []" "get_sequence_number b = Inr sn" "SequenceNumber_valid sn"
    and "get_command_id b = Inr c" "\<not> valid SESSION_BOUND_RX c \<or> c \<notin> handled"
    and "session_get_from_out_queue s' w' = (r, s2, w2)"
  shows "out_queue_A_of (data_source_flag s) (sources w2) =
      out_queue_A_of (data_source_flag s) (sources w) @ [response cid_GenericNack ESME_RINVCMDID sn []] \<and>
    pending s' w' = pending s w"
proof -
  let ?n = "response cid_GenericNack ESME_RINVCMDID sn []"
  have "Inr (s', w') = nack_and_count e ESME_RINVCMDID sn s w"
    using assms(1) process_rejected [OF assms(4-6), of s e ops w] assms(2,7) by auto
  then have s': "s' = other_error_occur s" "w' = w\<lparr> sources := add_to_out_queue_A (data_source_flag s) (time_now e) ?n (sources w) \<rparr>"
    using assms(3) by (auto simp: nack_and_count_eq send_A_def)
  have "out_queue_A_of (data_source_flag s) (sources w2) = out_queue_A_of (data_source_flag s) (sources w')"
    using taken_packet(3) [OF assms(8), of "data_source_flag s"] s'(1) assms(2) by (simp add: state_bound_defs)
  then show ?thesis
    using s' assms(2,3) by (simp add: pending_def state_bound_defs)
qed

theorem receiver_gets_no_nack_witness:
  "\<exists>s' (w' :: unit server) (w2 :: unit server). pending s' w' = [hd (out_queue (private_data_source demo_bound))] \<and>
    out_queue_A_of [65] (sources w2) = [response cid_GenericNack ESME_RINVCMDID 2 []]"
proof -
  let ?s = "demo_bound\<lparr> current_session_state := SESSION_BOUND_RX \<rparr>"
  have bad: "\<not> valid SESSION_BOUND_RX cid_SubmitSm" by code_simp
  have ok: "SequenceNumber_valid 2"
    by (simp add: SequenceNumber_valid_def SequenceNumber_Max_def SequenceNumber_Min_def)
  have "\<exists>r. process (at 1) demo_ops submit_packet ?s demo_server = Inr r"
    using process_rejected [OF demo_headers(4) ok demo_headers(3), of ?s "at 1" demo_ops demo_server] bad
    by (simp add: nack_and_count_eq)
  then obtain s' w' where p: "process (at 1) demo_ops submit_packet ?s demo_server = Inr (s', w')"
    by (metis surj_pair)
  obtain r s2 w2 where t: "session_get_from_out_queue s' w' = (r, s2, w2)" by (metis surj_pair)
  have q: "out_queue_A_of [65] (sources demo_server) = []" "out_queue_B_of [65] (sources demo_server) = []"
    by (simp_all add: demo_server_def queue_of_def get_cdsp_def)
  have "pending ?s demo_server = [hd (out_queue (private_data_source demo_bound))]"
    by (simp add: pending_def demo_bound_def state_bound_defs q)
  with receiver_gets_no_nack [OF p _ _ demo_headers(4) ok demo_headers(3) _ t] bad q show ?thesis
    by (intro exI [of _ s'] exI [of _ w'] exI [of _ w2]) (simp add: demo_bound_facts)
qed

text \<open>
  the sessions of an account share one queue of incoming packets. What one connection sent
  may be processed by another: an unbind then closes the other session and is answered on it,
  while the session that the client unbound stays bound.
\<close>

theorem packets_cross:
  assumes "data_source_flag t = data_source_flag s" "data_source_flag s \<noteq> []"
    and "in_queue (private_data_source t) = []" "in_queue_of (data_source_flag s) (sources w) = []"
    and "session_add_to_in_queue e b s w = (s1, w1)" "session_get_from_in_queue t w1 = (r, t1, w2)"
    and "get_command_id b = Inr cid_Unbind" "Unbind_from b = Inr p" "SequenceNumber_valid (sequence_number p)"
      "is_state_bound (current_session_state t)" "process e ops b t1 w2 = Inr (t2, w3)"
  shows "r = Some b \<and> s1 = s \<and> current_session_state t2 = SESSION_CLOSED \<and>
    out_queue (private_data_source t2) =
      out_queue (private_data_source t) @ [response cid_UnbindResp ESME_ROK (sequence_number p) []]"
proof -
  let ?f = "data_source_flag s"
  have s1: "s1 = s" "w1 = w\<lparr> sources := manager_add_to_in_queue ?f (time_now e) b (sources w) \<rparr>"
    using assms(2,5) by (auto simp: session_add_to_in_queue_def)
  have empty: "get_from_in_queue (private_data_source t) = (None, private_data_source t)"
    using assms(3) by (simp add: get_from_in_queue_def)
  have "fst (manager_get_from_in_queue ?f (sources w1)) = Some b"
    using assms(2,4) by (simp add: manager_get_head(1) s1(2))
  then have t1: "r = Some b" "t1 = t"
    using assms(1,2,6) by (auto simp: session_get_from_in_queue_def empty Let_def split: prod.splits)
  then have "Inr (t2, w3) = process_unbind e p (t\<lparr> bind_time := Some (seconds e) \<rparr>) w2"
    using process_decoded [of b "sequence_number p" cid_Unbind t e ops w2] assms(7-11) decoded_header(5) [OF assms(8)]
    by (simp add: valid_handled handled_def)
  then show ?thesis
    using t1 s1(1) by (simp add: process_unbind_eq add_private_def add_to_out_queue_def)
qed

theorem packets_cross_witness:
  "\<exists>(w1 :: unit server) t t1 w2 t2 (w3 :: unit server). is_bound t \<and> data_source_flag t = [65] \<and>
    session_add_to_in_queue (at 1) unbind_packet demo_bound demo_server = (demo_bound, w1) \<and>
    session_get_from_in_queue t w1 = (Some unbind_packet, t1, w2) \<and>
    process (at 1) demo_ops unbind_packet t1 w2 = Inr (t2, w3) \<and> current_session_state t2 = SESSION_CLOSED"
proof -
  let ?t = "demo_bound\<lparr> tcp_client_ip := [50] \<rparr>"
  obtain s1 w1 where add: "session_add_to_in_queue (at 1) unbind_packet demo_bound demo_server = (s1, w1)"
    by (metis surj_pair)
  obtain r t1 w2 where get: "session_get_from_in_queue ?t w1 = (r, t1, w2)" by (metis surj_pair)
  have unbind: "Unbind_from unbind_packet = Inr (new_Unbind 3)" by code_simp
  have ok: "SequenceNumber_valid (sequence_number (new_Unbind 3))"
    by (simp add: new_Unbind_def SequenceNumber_valid_def SequenceNumber_Max_def SequenceNumber_Min_def)
  have q: "data_source_flag ?t = data_source_flag demo_bound" "data_source_flag demo_bound \<noteq> []"
    "in_queue (private_data_source ?t) = []" "in_queue_of (data_source_flag demo_bound) (sources demo_server) = []"
    "is_state_bound (current_session_state ?t)" "is_bound ?t"
    by (simp_all add: demo_bound_def demo_server_def queue_of_def get_cdsp_def state_bound_defs is_bound_def)
  have "t1 = ?t"
    using get q(2,3) by (auto simp: session_get_from_in_queue_def get_from_in_queue_def Let_def split: prod.splits)
  then obtain t2 w3 where p: "process (at 1) demo_ops unbind_packet t1 w2 = Inr (t2, w3)"
    using process_decoded [OF demo_headers(6) _ demo_headers(5), of ?t "at 1" demo_ops w2] unbind ok q(5)
    by (simp add: valid_handled handled_def new_Unbind_def process_unbind_eq)
  show ?thesis
    using packets_cross [OF q(1-4) add get demo_headers(5) unbind ok _ p] \<open>t1 = ?t\<close> q add get p
    by (intro exI [of _ w1] exI [of _ ?t] exI [of _ t1] exI [of _ w2] exI [of _ t2] exI [of _ w3])
      (simp add: demo_bound_facts)
qed

end
