(* ===== verification/Message_Properties.thy ===== *)
theory Message_Properties
  imports Demo
begin

text \<open>
  What the server guarantees about accounts, message ids, the messages between submission and
  acknowledgement, and the text that they carry; one theorem for each claim.
\<close>

section \<open>Accounts\<close>

text \<open>
  C17: a bind of a transceiver is accepted exactly when authorization is off, or the first account
  of its system id has its password and either no list of addresses or one with the address of
  the client. The client is told which check failed, and each failure counts.
\<close>

theorem bind_verdict:
  assumes "process e ops b s w = Inr (s', w')" "get_command_id b = Inr cid_BindTransceiver"
    and "BindTransceiver_from b = Inr p" "SequenceNumber_valid (sequence_number p)"
    and "current_session_state s = SESSION_OPEN"
    and verdict: "v = (if need_authorize (configer w) then
        (case account_of (accounts w) (BindTransceiver.system_id p) of
           None \<Rightarrow> ESME_RINVSYSID
         | Some ci \<Rightarrow> if pw ci \<noteq> BindTransceiver.password p then ESME_RINVPASWD
             else if bind_ips ci = [] \<or> tcp_client_ip s \<in> set (bind_ips ci) then ESME_ROK
             else ESME_RINVBINDIP)
      else ESME_ROK)"
  shows "current_session_state s' = (if v = ESME_ROK then SESSION_BOUND_TRX else SESSION_OPEN) \<and>
    out_queue (private_data_source s') =
      out_queue (private_data_source s) @ [response 0x80000009 v (sequence_number p) server_octets] \<and>
    bind_error_count s' = bind_error_count s + (if v = ESME_ROK then 0 else 1)"
proof -
  have v: "v = transceiver_status w (BindTransceiver.system_id p) (BindTransceiver.password p) s"
    by (simp add: verdict transceiver_status_def check_account_of)
  have "Inr (s', w') = process_bind_transceiver e p (bind_timers e s) w"
    using process_decoded [of b "sequence_number p" cid_BindTransceiver s e ops w] assms(1-5)
      decoded_header(1) [OF assms(3)]
    by (simp add: valid_bind handled_def)
  then show ?thesis
    using assms(5) by (auto simp: process_bind_transceiver_eq Let_def simp flip: v)
qed

theorem bind_verdict_witness:
  "current_session_state demo_bound = SESSION_BOUND_TRX \<and>
   out_queue (private_data_source demo_bound) = [response 0x80000009 ESME_ROK 1 server_octets]"
proof -
  obtain p where p: "BindTransceiver_from bind_packet = Inr p" "sequence_number p = 1"
    "BindTransceiver.system_id p = [65]" "BindTransceiver.password p = [49, 50, 51, 52, 53, 54]"
  proof -
    have "map_sum id (\<lambda>p. (sequence_number p, BindTransceiver.system_id p, BindTransceiver.password p))
        (BindTransceiver_from bind_packet) = Inr (1, [65], [49, 50, 51, 52, 53, 54])"
      by code_simp
    with that show thesis by (cases "BindTransceiver_from bind_packet") auto
  qed
  show ?thesis
    using bind_verdict [OF demo_bind demo_headers(1) p(1) _ _ refl] p(2-)
    by (simp add: demo_session_def smpp_impl_def new_protocol_data_source_def demo_server_def account_of_def demo_account_def ascii_def
        SequenceNumber_valid_def SequenceNumber_Max_def SequenceNumber_Min_def)
qed

section \<open>Numbers\<close>

text \<open>
  C18: the numbers that the process draws, whatever number from 1 to \<open>INT_MAX >> 3\<close> they start
  from, are valid sequence numbers, and neither they nor the message ids made of them repeat
  within 999999889 draws.
\<close>

theorem numbers_distinct:
  assumes "0 < d" "d < 2 ^ 28" "i < j" "j < i + 999999889"
  shows "SequenceNumber_valid (fst (generate_sn d (sn_after d i))) \<and>
    fst (generate_sn d (sn_after d i)) \<noteq> fst (generate_sn d (sn_after d j)) \<and>
    fst (generate_message_id d (sn_after d i)) \<noteq> fst (generate_message_id d (sn_after d j))"
proof -
  have d: "d \<noteq> 0" "unat d < 2 ^ 28"
    using assms(1,2) by (auto simp: word_less_nat_alt)
  have n: "unat (fst (generate_sn d (sn_after d k))) = unat d + 111 + k mod 999999889" for k
  proof -
    have "k mod 999999889 < 999999889" by simp
    then have "unat d + (111 + k mod 999999889) < 2 ^ 32" using d(2) by simp
    then have "unat (d + of_nat (111 + k mod 999999889)) = unat d + (111 + k mod 999999889)"
      by (simp add: unat_word_ariths unat_of_nat mod_simps del: of_nat_add)
    then show ?thesis by (simp add: generate_sn_after [OF d(1)])
  qed
  have "i mod 999999889 \<noteq> j mod 999999889"
  proof
    assume "i mod 999999889 = j mod 999999889"
    then have "999999889 dvd j - i"
      using mod_eq_dvd_iff_nat [of i j 999999889] assms(3) by simp
    then show False using assms(3,4) by (auto dest: dvd_imp_le)
  qed
  then have "unat (fst (generate_sn d (sn_after d i))) \<noteq> unat (fst (generate_sn d (sn_after d j)))"
    by (simp add: n)
  moreover have "unat (fst (generate_sn d (sn_after d i))) \<le> 0x7FFFFFFF"
    using d(2) mod_less_divisor [of 999999889 i] unfolding n by simp
  ultimately show ?thesis
    using hex_string_inj
    by (auto simp: generate_message_id_sn SequenceNumber_valid_def SequenceNumber_Max_def
        SequenceNumber_Min_def word_le_nat_alt)
qed

theorem numbers_distinct_witness:
  "fst (generate_message_id 5 (sn_after 5 0)) \<noteq> fst (generate_message_id 5 (sn_after 5 999999888))"
  using numbers_distinct [of 5 0 999999888] by simp

section \<open>Messages\<close>

text \<open>
  C19: on a server that keeps its messages in memory (use_buffer_db is off, \<open>memory_only\<close>; with the
  buffer database they are in its tables instead), a message that was submitted is in exactly one of
  the three lists until it leaves: by an acknowledgement of its receipt, or because it had no
  destination. Whatever the sender, the receipt generator, the sessions and the clients do in
  whatever order, none is lost or doubled.
\<close>

theorem no_message_lost:
  assumes "memory_only w"
  shows "in_flight (messages_after ops es w) + leave ops es w = in_flight w + sum_list (map enters es)"
  using assms by (rule messages_conserved)

theorem no_message_lost_witness:
  "in_flight (messages_after demo_ops [Submitted (new_cb_sm_information\<lparr> dst_addr := [50],
       message_id_of_protocol_server := [65] \<rparr>), Sender_runs, Query_runs 5 0] demo_server) = {# [65] #}"
proof -
  let ?es = "[Submitted (new_cb_sm_information\<lparr> dst_addr := [50],
       message_id_of_protocol_server := [65] \<rparr>), Sender_runs, Query_runs 5 0]"
  have "leave demo_ops ?es demo_server = {#}"
    using demo_bound_facts(4) by (simp add: smi_received_memory demo_bound_facts)
  with no_message_lost [OF demo_bound_facts(4), of demo_ops ?es] show ?thesis
    by (simp add: in_flight_def demo_bound_facts)
qed

text \<open>
  C20: a submit_sm with a destination comes, on a transceiver with a system id, to a server without the
  buffer database that holds no received message and none that waits for its receipt, of whatever
  account, and no receipt for this account. Then, after one run of the gateway's sender and one of
  its receipt generator, the next look of the session for receipts (\<open>send_delivery_sm\<close>) puts one
  deliver_sm on queue B of the account: from the destination of the message to its source, with the
  message id that the submit_sm_resp on queue A carries. The number that the generator draws is
  assumed to be valid, and the host's months, days, hours and minutes to have at most two digits.
\<close>

theorem submission_gets_receipt:
  assumes "get_command_id b = Inr cid_SubmitSm" "SubmitSm_from b = Inr p"
      "SequenceNumber_valid (sequence_number p)"
    and "current_session_state s = SESSION_BOUND_TRX" "data_source_flag s = sysid s" "sysid s \<noteq> []"
    and "memory_only w" "received_smis_queue w = []" "wait_dlr_list w = []" "receipts (sysid s) w = []"
    and "addr_v (address (SubmitSm.destination_addr p)) \<noteq> []"
    and "process e ops b s w = Inr (s1, w1)"
    and "w2 = snd (query_dlrs_and_mos ops d now (snd (sender ops w1)))"
    and "sn = fst (generate_sn d (generator w1))" "SequenceNumber_valid sn" "\<forall>t. tm_ok (localtime e' t)"
  shows "\<exists>bp w3 r. send_delivery_sm e' ops s1 w2 = Inr (True, w3) \<and>
    out_queue_B_of (sysid s) (sources w3) = out_queue_B_of (sysid s) (sources w1) @ [bp] \<and>
    DeliverSm_from bp = Inr (delivery (addr_v (address (SubmitSm.source_addr p)))
       (addr_v (address (SubmitSm.destination_addr p))) sn 4 0
       (receipt_text e' (use_hex_decimal_message_id (configer w)) r)) \<and>
    message_id_of_protocol_server r = fst (generate_message_id (dice e) (generator w)) \<and>
    out_queue_A_of (sysid s) (sources w1) = out_queue_A_of (sysid s) (sources w) @
       [response 0x80000004 ESME_ROK (sequence_number p) (message_id_of_protocol_server r @ [0])]"
  by (rule submission_to_receipt [OF assms]) blast

theorem submission_gets_receipt_witness:
  "\<exists>s1 (w1 :: unit server) bp w3 r.
    process (at 1) demo_ops submit_packet demo_bound demo_server = Inr (s1, w1) \<and>
    send_delivery_sm (at 3) demo_ops s1 (snd (query_dlrs_and_mos demo_ops 5 2 (snd (sender demo_ops w1)))) =
      Inr (True, w3) \<and>
    out_queue_B_of [65] (sources w3) = out_queue_B_of [65] (sources w1) @ [bp] \<and>
    DeliverSm_from bp = Inr (delivery [49] [50] 117 4 0 (receipt_text (at 3) False r)) \<and>
    message_id_of_protocol_server r = [55, 52]"
proof -
  obtain s1 w1 where p: "process (at 1) demo_ops submit_packet demo_bound demo_server = Inr (s1, w1)"
    and sn: "fst (generate_sn 5 (generator w1)) = 117"
    by (rule demo_submission)
  have d: "addr_v (address (SubmitSm.destination_addr demo_submit)) = [50]"
    "addr_v (address (SubmitSm.source_addr demo_submit)) = [49]" "sequence_number demo_submit = 2"
    by (simp_all add: demo_submit_def new_SubmitSm_def update_length_def sme_def)
  have ok: "SequenceNumber_valid (sequence_number demo_submit)"
    "data_source_flag demo_bound = sysid demo_bound" "sysid demo_bound \<noteq> []"
    "receipts (sysid demo_bound) demo_server = []" "addr_v (address (SubmitSm.destination_addr demo_submit)) \<noteq> []"
    "SequenceNumber_valid 117" "\<forall>t. tm_ok (localtime (at 3) t)"
    by (simp_all add: d demo_bound_facts at_def tm_ok_def SequenceNumber_valid_def SequenceNumber_Max_def
        SequenceNumber_Min_def)
  have id: "fst (generate_message_id (dice (at 1)) (generator demo_server)) = [55, 52]"
    "\<not> use_hex_decimal_message_id (configer demo_server)"
    by code_simp+
  show ?thesis
    using submission_gets_receipt [OF demo_headers(3) demo_decode ok(1) demo_bound_facts(1) ok(2,3) demo_bound_facts(4-6)
        ok(4,5) p refl sn [symmetric] ok(6,7), of 2] p id
    by (intro exI [of _ s1] exI [of _ w1]) (auto simp: d ok(2) demo_bound_facts(2))
qed

section \<open>Text\<close>

text \<open>
  C21: text of the basic multilingual plane without NUL survives the conversion from UTF-8 to UCS-2
  and back, whatever follows it in memory.
\<close>

theorem text_round_trip:
  assumes "list_all bmp us"
  shows "smpp_datacoding_convert_utf8_to_ucs2 (utf8_of us @ [0]) = Some (Inr (ucs2_of us)) \<and>
    smpp_datacoding_convert_ucs2_to_utf8 (ucs2_of us @ rest) (length us) = Inr (utf8_of us)"
  using assms convert_utf8_bmp convert_ucs2_bmp by blast

theorem text_round_trip_witness:
  "smpp_datacoding_convert_utf8_to_ucs2 [0x41, 0xC3, 0xA9, 0xE4, 0xB8, 0xAD, 0] =
     Some (Inr [0, 0x41, 0, 0xE9, 0x4E, 0x2D]) \<and>
   smpp_datacoding_convert_ucs2_to_utf8 [0, 0x41, 0, 0xE9, 0x4E, 0x2D] 3 =
     Inr [0x41, 0xC3, 0xA9, 0xE4, 0xB8, 0xAD]"
proof -
  have us: "list_all bmp [0x41, 0xE9, 0x4E2D]" by code_simp
  have o: "utf8_of [0x41, 0xE9, 0x4E2D] = [0x41, 0xC3, 0xA9, 0xE4, 0xB8, 0xAD]"
    "ucs2_of [0x41, 0xE9, 0x4E2D] = [0, 0x41, 0, 0xE9, 0x4E, 0x2D]" by code_simp+
  show ?thesis using text_round_trip [OF us, of "[]"] unfolding o by (simp add: numeral_3_eq_3)
qed

text \<open>
  an incoming message in the basic plane whose text fits one PDU is put on queue B of the
  account as a deliver_sm, as it is when it is ASCII and in UCS-2 otherwise.
\<close>

theorem incoming_message_sent:
  assumes "peek_mo ops (sysid s) w = (Some smi, w1)"
    and "cstr_ok 21 (src_addr smi)" "cstr_ok 21 (dst_addr smi)"
      "SequenceNumber_valid (sn_by_protocol_server smi)" "data_source_flag s \<noteq> []"
    and bmp: "list_all bmp us" "content smi = utf8_of us"
    and ascii: "plain \<longleftrightarrow> (\<forall>u \<in> set us. ucast u < (0x80 :: uint32))"
    and short: "if plain then length (content smi) < 256 else length us < 128"
  shows "\<exists>bp. send_mo e ops s w = Some (Inr (True, w1\<lparr> sources :=
      add_to_out_queue_B (data_source_flag s) (time_now e) bp (sources w1) \<rparr>)) \<and>
    DeliverSm_from bp = Inr (delivery (dst_addr smi) (src_addr smi) (sn_by_protocol_server smi) 0
      (if plain then 0 else 8) (if plain then content smi else ucs2_of us))"
proof -
  have "mo_pdu smi = Some (Inr (delivery (dst_addr smi) (src_addr smi) (sn_by_protocol_server smi) 0
      (if plain then 0 else 8) (if plain then content smi else ucs2_of us)))"
    using assms(2-4) short [unfolded bmp(2)]
    by (simp add: mo_pdu_eq cstr_ok_def bmp(2) pure_ascii_bmp [OF bmp(1)] convert_utf8_bmp [OF bmp(1)] flip: ascii)
  moreover have "length (if plain then content smi else ucs2_of us) < 256"
    using short by simp
  ultimately show ?thesis
    using send_mo_text [OF assms(1-5)] by metis
qed

theorem incoming_message_sent_witness:
  "\<exists>bp w1. send_mo (at 1) demo_ops demo_bound (demo_incoming [0xC3, 0xA9]) = Some (Inr (True, w1)) \<and>
    out_queue_B_of [65] (sources w1) = [bp] \<and>
    DeliverSm_from bp = Inr (delivery [49] [50] 7 0 8 [0, 0xE9])"
proof -
  have us: "list_all bmp [0xE9]" "utf8_of [0xE9] = [0xC3, 0xA9]" "ucs2_of [0xE9] = [0, 0xE9]" by code_simp+
  have q: "peek_mo demo_ops (sysid demo_bound) (demo_incoming [0xC3, 0xA9]) = (Some (pushing (demo_message [0xC3, 0xA9])),
      (demo_incoming [0xC3, 0xA9])\<lparr> mo_list := [pushing (demo_message [0xC3, 0xA9])] \<rparr>)"
    "out_queue_B_of [65] (sources (demo_incoming [0xC3, 0xA9])) = []"
    by (simp_all add: demo_bound_facts demo_peek, simp add: demo_incoming_def demo_server_def queue_of_def get_cdsp_def)
  have m: "cstr_ok 21 (src_addr (pushing (demo_message c)))" "cstr_ok 21 (dst_addr (pushing (demo_message c)))"
    "SequenceNumber_valid (sn_by_protocol_server (pushing (demo_message c)))" for c
    by (simp_all add: demo_message_def cstr_ok_def SequenceNumber_valid_def SequenceNumber_Max_def
        SequenceNumber_Min_def)
  show ?thesis
    using incoming_message_sent [OF q(1) m _ us(1), of False "at 1"] q(2)
    by (auto simp: us demo_bound_facts demo_message_def simp del: utf8_of_simps ucs2_of_simps)
qed

text \<open>
  C22: an incoming message with a character outside the basic plane is never sent: when
  \<open>need_send\<close> of the session comes to it, the conversion of its text does not end.
\<close>

theorem supplementary_character_hangs:
  assumes "is_bound s" "send_delivery_sm e ops s w = Inr (sent, w1)"
    and "peek_mo ops (sysid s) w1 = (Some smi, w2)"
    and "length (src_addr smi) < 21" "length (dst_addr smi) < 21"
      "SequenceNumber_valid (sn_by_protocol_server smi)"
    and "list_all bmp us" "content smi = utf8_of us @ c0 # c1 # c2 # c3 # rest"
    and "c0 AND 0xE0 = 0xE0" "c0 \<ge> 0xE0" "c1 \<ge> 0x80" "c2 \<ge> 0x80" "c3 AND 0xC0 = 0x80"
  shows "session_need_send e ops s w = None"
proof -
  have c0: "c0 \<ge> 0x80" "c0 \<ge> 0xa0" "c0 \<noteq> 0"
    using assms(10) by (auto intro: order.trans [of _ "0xE0 :: octet"])
  have "smpp_datacoding_convert_utf8_to_ucs2 (content smi @ [0]) = None"
    using convert_utf8_supplementary [OF assms(7,9) c0(1) assms(11-13), of rest] by (simp add: assms(8))
  moreover have "smpp_datacoding_is_pure_ascii (content smi @ [0]) = Inr False"
  proof -
    let ?t = "takeWhile (\<lambda>c. c \<noteq> 0) (content smi)"
    have t: "?t = utf8_of us @ c0 # takeWhile (\<lambda>c. c \<noteq> 0) (c1 # c2 # c3 # rest)"
      using utf8_of_no_nul [OF assms(7)] c0(3) unfolding assms(8)
      by (subst takeWhile_append2) (auto simp del: takeWhile.simps(2) simp: takeWhile.simps(2) [of _ c0])
    have "(content smi @ [0]) ! length (utf8_of us) = c0"
      by (simp add: assms(8))
    then show ?thesis
      using c0(2) by (auto simp: smpp_datacoding_is_pure_ascii_def strlen_NUL t
          intro!: exI [of _ "length (utf8_of us)"])
  qed
  ultimately have "mo_pdu smi = None"
    using assms(4-6) by (simp add: mo_pdu_eq)
  then show ?thesis
    using assms(1-3) by (simp add: session_need_send_def send_mo_def)
qed

theorem supplementary_character_hangs_witness:
  "session_need_send (at 1) demo_ops demo_bound (demo_incoming [0xF0, 0x9F, 0x98, 0x80]) = None"
proof -
  let ?c = "[0xF0, 0x9F, 0x98, 0x80] :: octets"
  have m: "length (src_addr (pushing (demo_message ?c))) < 21" "length (dst_addr (pushing (demo_message ?c))) < 21"
    "SequenceNumber_valid (sn_by_protocol_server (pushing (demo_message ?c)))"
    "content (pushing (demo_message ?c)) = utf8_of [] @ 0xF0 # 0x9F # 0x98 # 0x80 # []"
    by (simp_all add: demo_message_def SequenceNumber_valid_def SequenceNumber_Max_def SequenceNumber_Min_def)
  show ?thesis
    by (rule supplementary_character_hangs [OF _ demo_no_receipt _ m(1-3) _ m(4)])
      (simp_all add: demo_bound_facts demo_peek is_bound_def)
qed

section \<open>Long messages\<close>

text \<open>
  C23: an ASCII text of 161 to 255 * 153 = 39015 octets is split into at most 255 pieces of at most
  153 octets, none empty, that together are the text; they are numbered from 1, and share their total
  and their reference. (The octet that counts the pieces wraps around for longer texts.)
\<close>

theorem split_ascii_text:
  assumes "smpp_datacoding_is_pure_ascii (s @ [0]) = Inr True" "160 < length s" "length s \<le> 255 * 153"
  shows "\<exists>sms. smpp_datacoding_split_long_sm rnd s = Some (Inr sms) \<and> concat (map sm_content sms) = s \<and>
    length sms = (length s + 152) div 153 \<and>
    (\<forall>i < length sms. length (sm_content (sms ! i)) \<le> 153 \<and> sm_content (sms ! i) \<noteq> [] \<and>
      sm_dc (sms ! i) = 0 \<and> uint (sm_udhi_index (sms ! i)) = int i + 1 \<and>
      uint (sm_udhi_total (sms ! i)) = int (length sms) \<and> sm_udhi_ref (sms ! i) = sm_udhi_ref (sms ! 0))"
  by (rule split_7bit_segments [OF assms, of rnd]) blast

theorem split_ascii_text_witness:
  "\<exists>sms. smpp_datacoding_split_long_sm 0 (replicate 161 65) = Some (Inr sms) \<and> length sms = 2 \<and>
    concat (map sm_content sms) = replicate 161 65"
proof -
  have "smpp_datacoding_is_pure_ascii (replicate 161 65 @ [0]) = Inr True"
    by (simp add: smpp_datacoding_is_pure_ascii_def strlen_NUL takeWhile_eq_all_conv [THEN iffD2] nth_append)
  with split_ascii_text [of "replicate 161 65" 0] show ?thesis by auto
qed

section \<open>Digests\<close>

text \<open>
  C24: the digest that is stored with a message is the MD5 digest of its text in lower-case
  hexadecimal, as \<open>md5_digest\<close> computes it by the formulas and the tables of RFC 1321; in whatever
  pieces the octets are given, and whatever the buffer of the context held before, the digest is
  that of all of them. No piece may have more than \<open>2 ^ 32 - 64\<close> octets, beyond which the index in
  the loop over blocks wraps around.
\<close>

theorem digest_of_pieces:
  assumes "length junk = 64" "\<forall>xs \<in> set xss. length xs \<le> 2 ^ 32 - 64" "length m \<le> 2 ^ 32 - 64"
  shows "bind (osip_MD5Updates (osip_MD5Init junk) xss) osip_MD5Final = Inr (md5_digest (concat xss)) \<and>
    generate_hash_md5 m = CvtHex (md5_digest m)"
  using digest_of_updates [OF assms(1,2)] generate_hash_md5_digest [OF assms(3)] by simp

theorem digest_of_pieces_witness:
  "bind (osip_MD5Updates (osip_MD5Init (replicate 64 1)) [ascii ''a'', [], ascii ''bc'']) osip_MD5Final =
     Inr (md5_digest (ascii ''abc'')) \<and>
   CvtHex (md5_digest (ascii ''abc'')) = ascii ''900150983cd24fb0d6963f7d28e17f72''"
  using digest_of_pieces [of "replicate 64 1" "[ascii ''a'', [], ascii ''bc'']" "ascii ''abc''"] md5_abc
  by (simp add: ascii_def)

end
