(* ===== verification/Tcp_Connection.thy ===== *)
theory Tcp_Connection
  imports Delivery
begin

text \<open>
  A TCP connection of the server (\<open>src/public/network/tcp_connection_impl.cpp\<close>): the reads that cut
  the octets of the client into packets, and the writes.

  \<open>boost::asio::async_read(socket, buffer)\<close> calls its handler once the buffer is full; the octets
  that were received and that no read has taken yet are \<open>received\<close>. An \<open>async_write\<close> takes its
  octets when it is called; \<open>written\<close> is the list of these calls.
\<close>

section \<open>State\<close>

text \<open>A read of a header, or of the rest of a packet whose header is known.\<close>

datatype pending_read = Reading_header | Reading_body packet nat

record tcp_connection_impl =
  protocol_impl :: session
  received :: octets
  reading :: pending_read
  written :: "octets list"
  read_timer :: int
  read_timer_waiting :: bool
  read_timeout :: bool
  is_working :: bool
  is_open :: bool

definition SMPP_HEADER_LENGTH :: nat where "SMPP_HEADER_LENGTH = 16"
definition MTU :: nat where "MTU = 1280"
definition read_timer_duration :: int where "read_timer_duration = 720"

section \<open>Reading\<close>

definition get_total_length_from_header :: "packet \<Rightarrow> nat result" where
  "get_total_length_from_header bp = bind (get_wire32 bp) (\<lambda>n. Inr (unat n))"

text \<open>
  \<open>utc\<close> is the time of the timer's clock in microseconds. Setting a new expiry time cancels a wait
  that is going on; its handler is called with \<open>operation_aborted\<close> and does nothing.
\<close>

definition read_header :: "int \<Rightarrow> tcp_connection_impl \<Rightarrow> tcp_connection_impl" where
  "read_header utc c = c\<lparr> reading := Reading_header,
     read_timer := utc + read_timer_duration * 1000000, read_timer_waiting := False \<rparr>"

definition start :: "env \<Rightarrow> int \<Rightarrow> octets \<Rightarrow> tcp_connection_impl" where
  "start e utc remote_ip =
     (let c = \<lparr> protocol_impl = smpp_impl e remote_ip, received = [], reading = Reading_header,
            written = [], read_timer = 0, read_timer_waiting = False, read_timeout = False,
            is_working = False, is_open = True \<rparr>;
          c = read_header utc c
      in c\<lparr> read_timer_waiting := True \<rparr>)"

text \<open>The timer runs out while a wait is going on.\<close>

definition handle_timeout :: "int \<Rightarrow> tcp_connection_impl \<Rightarrow> tcp_connection_impl" where
  "handle_timeout utc c = (if read_timer_waiting c \<and> utc \<ge> read_timer c
     then c\<lparr> read_timer_waiting := False, read_timeout := True \<rparr> else c)"

definition queue_packet :: "env \<Rightarrow> packet \<Rightarrow> tcp_connection_impl \<Rightarrow> 'd server \<Rightarrow>
    tcp_connection_impl \<times> 'd server" where
  "queue_packet e bp c w =
     (let (s, w) = session_add_to_in_queue e bp (protocol_impl c) w in (c\<lparr> protocol_impl := s \<rparr>, w))"

definition handle_read_header :: "env \<Rightarrow> int \<Rightarrow> packet \<Rightarrow> tcp_connection_impl \<Rightarrow> 'd server \<Rightarrow>
    (tcp_connection_impl \<times> 'd server) result" where
  "handle_read_header e utc bp c w =
     bind (get_total_length_from_header bp) (\<lambda>total_length.
     if total_length > SMPP_HEADER_LENGTH
     then Inr (c\<lparr> reading := Reading_body bp total_length \<rparr>, w)
     else (let (c, w) = queue_packet e bp c w in Inr (read_header utc c, w)))"

definition handle_read_body :: "env \<Rightarrow> int \<Rightarrow> packet \<Rightarrow> tcp_connection_impl \<Rightarrow> 'd server \<Rightarrow>
    (tcp_connection_impl \<times> 'd server) result" where
  "handle_read_body e utc bp c w =
     (let (c, w) = queue_packet e bp c w in Inr (read_header utc c, w))"

text \<open>The read that is going on, once enough octets have come in.\<close>

definition wanted :: "tcp_connection_impl \<Rightarrow> nat" where
  "wanted c = (case reading c of
     Reading_header \<Rightarrow> SMPP_HEADER_LENGTH
   | Reading_body bp total_length \<Rightarrow> total_length - SMPP_HEADER_LENGTH)"

definition complete_read :: "env \<Rightarrow> int \<Rightarrow> tcp_connection_impl \<Rightarrow> 'd server \<Rightarrow>
    (tcp_connection_impl \<times> 'd server) result" where
  "complete_read e utc c w =
     (let got = take (wanted c) (received c);
          c' = c\<lparr> received := drop (wanted c) (received c) \<rparr>
      in case reading c of
           Reading_header \<Rightarrow> handle_read_header e utc got c' w
         | Reading_body bp total_length \<Rightarrow> handle_read_body e utc (bp @ got) c' w)"

lemma complete_read_received:
  "complete_read e utc c w = Inr (c', w') \<Longrightarrow> received c' = drop (wanted c) (received c)"
  by (auto simp: complete_read_def handle_read_header_def handle_read_body_def queue_packet_def
      read_header_def bind_eq_Inr Let_def split: pending_read.splits prod.splits if_splits)

lemma complete_read_body:
  "complete_read e utc c w = Inr (c', w') \<Longrightarrow> reading c = Reading_body bp n \<Longrightarrow> reading c' = Reading_header"
  by (auto simp: complete_read_def handle_read_body_def queue_packet_def
      read_header_def Let_def split: prod.splits)

function run_reads :: "env \<Rightarrow> int \<Rightarrow> tcp_connection_impl \<Rightarrow> 'd server \<Rightarrow>
    (tcp_connection_impl \<times> 'd server) result" where
  "run_reads e utc c w = (if length (received c) < wanted c then Inr (c, w)
     else case complete_read e utc c w of
       Inl er \<Rightarrow> Inl er | Inr (c', w') \<Rightarrow> run_reads e utc c' w')"
  by pat_completeness auto
termination
proof (relation "measure (\<lambda>(e, utc, c, w). 2 * length (received c) +
    (case reading c of Reading_header \<Rightarrow> 0 | Reading_body bp n \<Rightarrow> 1))"; (simp; fail)?)
  fix e utc c w r c' w'
  assume "\<not> length (received c) < wanted c" "complete_read e utc c (w :: 'd server) = Inr r" "(c', w') = r"
  then have r: "complete_read e utc c w = Inr (c', w')" and n: "wanted c \<le> length (received c)" by simp_all
  show "((e, utc, c', w'), e, utc, c, w) \<in> measure (\<lambda>(e, utc, c, w). 2 * length (received c) +
    (case reading c of Reading_header \<Rightarrow> 0 | Reading_body bp n \<Rightarrow> 1))"
  proof (cases "reading c")
    case Reading_header
    with n complete_read_received [OF r] show ?thesis
      by (auto simp: wanted_def SMPP_HEADER_LENGTH_def split: pending_read.splits)
  next
    case (Reading_body bp k)
    with complete_read_received [OF r] complete_read_body [OF r] show ?thesis by simp
  qed
qed

declare run_reads.simps [simp del]

definition data_arrives :: "env \<Rightarrow> int \<Rightarrow> octets \<Rightarrow> tcp_connection_impl \<Rightarrow> 'd server \<Rightarrow>
    (tcp_connection_impl \<times> 'd server) result" where
  "data_arrives e utc octs c w = run_reads e utc (c\<lparr> received := received c @ octs \<rparr>) w"

section \<open>Writing\<close>

text \<open>The loop over one packet, in pieces of \<open>MTU\<close> octets.\<close>

function pieces :: "octets \<Rightarrow> octets list" where
  "pieces d = (if length d > 0 then take MTU d # pieces (drop MTU d) else [])"
  by pat_completeness auto
termination by (relation "measure length") (auto simp: MTU_def)

declare pieces.simps [simp del]

function do_send :: "session \<Rightarrow> 'd server \<Rightarrow> octets list \<times> session \<times> 'd server" where
  "do_send s w = (case session_get_from_out_queue s w of
     (None, s', w') \<Rightarrow> ([], s', w')
   | (Some bp, s', w') \<Rightarrow>
       (let (ws, s'', w'') = do_send s' w' in (pieces bp @ ws, s'', w'')))"
  by pat_completeness auto
termination
proof (relation "measure (\<lambda>(s, w). length (pending s w))"; (simp; fail)?)
  fix s w r q bp s' w'
  assume a: "(r, q) = session_get_from_out_queue s (w :: 'd server)" "r = Some bp" "(s', w') = q"
  have g: "session_get_from_out_queue s w = (Some bp, s', w')" using a by simp
  show "((s', w'), s, w) \<in> measure (\<lambda>(s, w). length (pending s w))"
    using taken_packet(1,2) [OF g] by (cases "pending s w") auto
qed

declare do_send.simps [simp del]

section \<open>Frames\<close>

text \<open>
  What the stream means: packets, each as long as its first four octets say and at least as long
  as a header, and what is left when the stream ends within a packet.
\<close>

definition frame_length :: "octets \<Rightarrow> nat" where
  "frame_length bs = max 16 (case get_wire32 bs of Inr n \<Rightarrow> unat n | Inl _ \<Rightarrow> 0)"

function frames :: "octets \<Rightarrow> packet list \<times> octets" where
  "frames bs = (if length bs < frame_length bs then ([], bs)
     else let (ps, r) = frames (drop (frame_length bs) bs) in (take (frame_length bs) bs # ps, r))"
  by pat_completeness auto
termination
  by (relation "measure length") (auto simp: frame_length_def)

declare frames.simps [simp del]

lemma frames_short: "length bs < frame_length bs \<Longrightarrow> frames bs = ([], bs)"
  by (subst frames.simps) simp

lemma frames_first:
  "frame_length bs \<le> length bs \<Longrightarrow>
   frames bs = apfst (Cons (take (frame_length bs) bs)) (frames (drop (frame_length bs) bs))"
  by (subst frames.simps) (simp add: apfst_def map_prod_def split_beta)

lemma frame_length_append: "4 \<le> length bs \<Longrightarrow> frame_length (bs @ cs) = frame_length bs"
  by (simp add: frame_length_def get_wire32_def)

text \<open>Cutting a stream that comes in two parts.\<close>

lemma frames_append:
  "frames (bs @ cs) = (case frames bs of (ps, r) \<Rightarrow> apfst (append ps) (frames (r @ cs)))"
proof (induction bs rule: frames.induct)
  case (1 bs)
  show ?case
  proof (cases "length bs < frame_length bs")
    case True
    then show ?thesis by (cases "frames (bs @ cs)") (simp add: frames_short)
  next
    case False
    then have n: "frame_length bs \<le> length bs" "16 \<le> length bs" by (auto simp: frame_length_def)
    then have f: "frame_length (bs @ cs) = frame_length bs" by (simp add: frame_length_append)
    obtain ps r where r: "frames (drop (frame_length bs) bs) = (ps, r)" by (metis surj_pair)
    with 1 [OF False] n(1) f show ?thesis
      by (cases "frames (r @ cs)") (simp add: frames_first [of bs] frames_first [of "bs @ cs"])
  qed
qed

lemma frames_of_packets:
  "\<forall>p \<in> set ps. frame_length p = length p \<Longrightarrow> frames (concat ps @ rest) = apfst (append ps) (frames rest)"
proof (induction ps)
  case (Cons p ps)
  then have p: "frame_length p = length p" "16 \<le> length p" by (auto simp: frame_length_def)
  then have "frame_length (p @ concat ps @ rest) = length p" by (simp add: frame_length_append)
  with Cons show ?case
    by (cases "frames rest") (simp add: frames_first [of "p @ concat ps @ rest"])
next
  case Nil
  show ?case by (cases "frames rest") simp
qed

section \<open>Reading delivers the frames\<close>

text \<open>The queue that the packets of a session are put into, and what of the stream is not a packet yet.\<close>

definition incoming :: "session \<Rightarrow> 'd server \<Rightarrow> packet list" where
  "incoming s w = (if data_source_flag s = [] then in_queue (private_data_source s)
     else in_queue_of (data_source_flag s) (sources w))"

definition partial :: "tcp_connection_impl \<Rightarrow> octets" where
  "partial c = (case reading c of Reading_header \<Rightarrow> [] | Reading_body bp n \<Rightarrow> bp) @ received c"

text \<open>A header that is read is whole, and its packet as long as it says.\<close>

definition read_ok :: "tcp_connection_impl \<Rightarrow> bool" where
  "read_ok c \<longleftrightarrow> (case reading c of
     Reading_header \<Rightarrow> True
   | Reading_body bp n \<Rightarrow> length bp = 16 \<and> n = frame_length bp \<and> 16 < n)"

lemma queue_packet_incoming:
  assumes "queue_packet e bp c w = (c', w')"
  shows "incoming (protocol_impl c') w' = incoming (protocol_impl c) w @ [bp]"
    "data_source_flag (protocol_impl c') = data_source_flag (protocol_impl c)"
    "received c' = received c"
  using assms
  by (auto simp: queue_packet_def session_add_to_in_queue_def incoming_def add_to_in_queue_def Let_def
      split: prod.splits if_splits)

lemma total_length:
  "length bp = 16 \<Longrightarrow> get_total_length_from_header bp = Inr n \<Longrightarrow> frame_length bp = max 16 n"
  "length bp = 16 \<Longrightarrow> \<exists>n. get_total_length_from_header bp = Inr n"
  by (auto simp: get_total_length_from_header_def frame_length_def get_wire32_def bind_eq_Inr)

text \<open>A read that is completed puts one frame into the queue, or moves on to its body.\<close>

lemma complete_read_frames:
  assumes "read_ok c" "wanted c \<le> length (received c)"
  obtains c' w' ps where "complete_read e utc c w = Inr (c', w')" "read_ok c'"
    "frames (partial c) = apfst (append ps) (frames (partial c'))"
    "incoming (protocol_impl c') w' = incoming (protocol_impl c) w @ ps"
proof -
  note found = that
  let ?r = "received c"
  let ?c = "c\<lparr> received := drop (wanted c) ?r \<rparr>"
  have step: "thesis" if bp: "complete_read e utc c w = (let (c, w) = queue_packet e bp ?c w in Inr (read_header utc c, w))"
    and whole: "partial c = bp @ drop (wanted c) ?r" "frame_length (partial c) = length bp" for bp
  proof -
    obtain c1 w1 where q: "queue_packet e bp ?c w = (c1, w1)" by (metis surj_pair)
    have i: "incoming (protocol_impl (read_header utc c1)) w1 = incoming (protocol_impl c) w @ [bp]"
      "partial (read_header utc c1) = drop (wanted c) ?r" "read_ok (read_header utc c1)"
      using queue_packet_incoming [OF q] by (simp_all add: read_header_def partial_def read_ok_def)
    moreover have "frames (partial c) = apfst (append [bp]) (frames (drop (wanted c) ?r))"
      using frames_first [of "partial c"] whole
      by (cases "frames (drop (wanted c) ?r)") simp
    ultimately show thesis using found [of "read_header utc c1" w1 "[bp]"] bp q by simp
  qed
  show thesis
  proof (cases "reading c")
    case Reading_header
    then have n: "wanted c = 16" "16 \<le> length ?r" using assms(2) by (simp_all add: wanted_def SMPP_HEADER_LENGTH_def)
    let ?bp = "take 16 ?r"
    have l: "length ?bp = 16" using n by simp
    obtain m where m: "get_total_length_from_header ?bp = Inr m" using total_length(2) [OF l] by blast
    have f: "frame_length ?r = frame_length ?bp" "frame_length ?bp = max 16 m"
      using frame_length_append [of ?bp "drop 16 ?r"] l total_length(1) [OF l m] by simp_all
    show thesis
    proof (cases "16 < m")
      case True
      show thesis
        by (rule found [of "?c\<lparr> reading := Reading_body ?bp m \<rparr>" w "[]"])
          (use Reading_header n m True f l in \<open>simp_all add: complete_read_def handle_read_header_def
            SMPP_HEADER_LENGTH_def read_ok_def partial_def\<close>, cases "frames ?r", simp)
    next
      case False
      show thesis
        by (rule step [of ?bp])
          (use Reading_header n m False f l in \<open>simp_all add: complete_read_def handle_read_header_def
            SMPP_HEADER_LENGTH_def partial_def\<close>)
    qed
  next
    case (Reading_body bp m)
    then have b: "length bp = 16" "m = frame_length bp" "16 < m" "wanted c = m - 16" "m - 16 \<le> length ?r"
      using assms by (simp_all add: read_ok_def wanted_def SMPP_HEADER_LENGTH_def)
    show thesis
      by (rule step [of "bp @ take (m - 16) ?r"])
        (use Reading_body b frame_length_append [of bp ?r] in
          \<open>simp_all add: complete_read_def handle_read_body_def partial_def\<close>)
  qed
qed

lemma run_reads_frames:
  assumes "read_ok c"
  shows "\<exists>c' w'. run_reads e utc c w = Inr (c', w') \<and> read_ok c' \<and>
    incoming (protocol_impl c') w' = incoming (protocol_impl c) w @ fst (frames (partial c)) \<and>
    partial c' = snd (frames (partial c))"
  using assms
proof (induction e utc c w rule: run_reads.induct)
  case (1 e utc c w)
  show ?case
  proof (cases "length (received c) < wanted c")
    case True
    have "length (partial c) < frame_length (partial c)"
    proof (cases "reading c")
      case Reading_header
      then show ?thesis using True by (simp add: partial_def wanted_def SMPP_HEADER_LENGTH_def frame_length_def)
    next
      case (Reading_body bp n)
      then show ?thesis using True 1(2) frame_length_append [of bp "received c"]
        by (simp add: partial_def wanted_def SMPP_HEADER_LENGTH_def read_ok_def)
    qed
    then show ?thesis using True 1(2) by (subst run_reads.simps) (simp add: frames_short)
  next
    case False
    then obtain c1 w1 ps where r: "complete_read e utc c w = Inr (c1, w1)" "read_ok c1"
      "frames (partial c) = apfst (append ps) (frames (partial c1))"
      "incoming (protocol_impl c1) w1 = incoming (protocol_impl c) w @ ps"
      using complete_read_frames [OF 1(2), of e utc w] by (metis not_less)
    from 1(1) [OF False r(1) refl r(2)] obtain c' w' where "run_reads e utc c1 w1 = Inr (c', w')" "read_ok c'"
      "incoming (protocol_impl c') w' = incoming (protocol_impl c1) w1 @ fst (frames (partial c1))"
      "partial c' = snd (frames (partial c1))" by blast
    moreover have "run_reads e utc c w = run_reads e utc c1 w1"
      using False r(1) by (subst run_reads.simps) simp
    ultimately show ?thesis using r(3,4) by simp
  qed
qed

lemma frames_rest: "frames bs = (ps, r) \<Longrightarrow> frames r = ([], r)"
proof (induction bs arbitrary: ps r rule: frames.induct)
  case (1 bs)
  show ?case
  proof (cases "length bs < frame_length bs")
    case True
    with 1(2) show ?thesis by (simp add: frames_short)
  next
    case False
    then obtain qs where "frames (drop (frame_length bs) bs) = (qs, r)"
      using 1(2) by (cases "frames (drop (frame_length bs) bs)") (simp add: frames_first)
    with 1(1) [OF False] show ?thesis by blast
  qed
qed

text \<open>Octets that come in one after the other, each time with what the host says.\<close>

fun arrivals :: "(env \<times> int \<times> octets) list \<Rightarrow> tcp_connection_impl \<Rightarrow> 'd server \<Rightarrow>
    (tcp_connection_impl \<times> 'd server) result" where
  "arrivals [] c w = Inr (c, w)"
| "arrivals ((e, utc, octs) # rest) c w =
     bind (data_arrives e utc octs c w) (\<lambda>(c, w). arrivals rest c w)"

fun stream :: "(env \<times> int \<times> octets) list \<Rightarrow> octets" where
  "stream [] = []"
| "stream ((e, utc, octs) # rest) = octs @ stream rest"

lemma data_arrives_frames:
  assumes "read_ok c"
  shows "\<exists>c' w'. data_arrives e utc octs c w = Inr (c', w') \<and> read_ok c' \<and>
    incoming (protocol_impl c') w' = incoming (protocol_impl c) w @ fst (frames (partial c @ octs)) \<and>
    partial c' = snd (frames (partial c @ octs))"
proof -
  let ?c = "c\<lparr> received := received c @ octs \<rparr>"
  have "read_ok ?c" "partial ?c = partial c @ octs"
    using assms by (simp_all add: read_ok_def partial_def)
  then show ?thesis using run_reads_frames [of ?c e utc w] by (simp add: data_arrives_def)
qed

lemma arrivals_frames:
  assumes "read_ok c" "frames (partial c) = ([], partial c)"
  shows "\<exists>c' w'. arrivals chunks c w = Inr (c', w') \<and> read_ok c' \<and>
    incoming (protocol_impl c') w' =
      incoming (protocol_impl c) w @ fst (frames (partial c @ stream chunks)) \<and>
    partial c' = snd (frames (partial c @ stream chunks))"
  using assms
proof (induction chunks arbitrary: c w)
  case Nil
  then show ?case by simp
next
  case (Cons x chunks)
  obtain e utc octs where x: "x = (e, utc, octs)" by (cases x) auto
  obtain c1 w1 where d: "data_arrives e utc octs c w = Inr (c1, w1)" "read_ok c1"
    "incoming (protocol_impl c1) w1 = incoming (protocol_impl c) w @ fst (frames (partial c @ octs))"
    "partial c1 = snd (frames (partial c @ octs))"
    using data_arrives_frames [OF Cons.prems(1)] by blast
  obtain ps r where f: "frames (partial c @ octs) = (ps, r)" by (metis surj_pair)
  then have "frames (partial c1) = ([], partial c1)" using d(4) frames_rest by simp
  from Cons.IH [OF d(2) this, of w1] d f show ?case
    using frames_append [of "partial c @ octs" "stream chunks"]
    by (auto simp: x)
qed

section \<open>Writing delivers the packets\<close>

lemma concat_pieces_octets: "concat (pieces d) = d \<and> (\<forall>x \<in> set (pieces d). 0 < length x \<and> length x \<le> MTU)"
proof (induction d rule: pieces.induct)
  case (1 d)
  then show ?case by (subst (1 2) pieces.simps) (auto simp: MTU_def)
qed

text \<open>Everything that the session may send is written, in order, and nothing is left.\<close>

lemma do_send_pending:
  "do_send s w = (ws, s', w') \<Longrightarrow> ws = concat (map pieces (pending s w)) \<and> pending s' w' = []"
proof (induction s w arbitrary: ws s' w' rule: do_send.induct)
  case (1 s w)
  obtain r s1 w1 where g: "session_get_from_out_queue s w = (r, s1, w1)" by (metis surj_pair)
  note t = taken_packet(1,2) [OF g]
  show ?case
  proof (cases r)
    case None
    with g 1(2) have "ws = []" "s' = s1" "w' = w1" by (simp_all add: do_send.simps [of s w])
    then show ?thesis using t None by (cases "pending s w") simp_all
  next
    case (Some bp)
    obtain vs s2 w2 where d: "do_send s1 w1 = (vs, s2, w2)" by (metis surj_pair)
    then have "ws = pieces bp @ vs" "s' = s2" "w' = w2"
      using g Some 1(2) by (simp_all add: do_send.simps [of s w])
    then show ?thesis
      using 1(1) [OF g [symmetric] Some refl d] t Some by (cases "pending s w") simp_all
  qed
qed

end
