(* ===== verification/Server_Tasks.thy ===== *)
theory Server_Tasks
  imports Tcp_Connection Session_Invariants
begin

text \<open>
  The worker threads of the server (\<open>server::task_runner\<close> in \<open>src/public/network/server.cpp\<close>) and the
  set of connections that they share (\<open>src/public/network/connections_manager.cpp\<close>).

  A worker's turn on a connection reads the clock many times; the \<open>n\<close>-th call that needs the
  host is given \<open>es n\<close>.
\<close>

section \<open>Packets that wait to be processed\<close>

text \<open>All packets in the queue of the connection and in the queues of all accounts.\<close>

definition in_total :: "session \<Rightarrow> 'd server \<Rightarrow> nat" where
  "in_total s w = length (in_queue (private_data_source s)) +
     sum_list (map (\<lambda>c. length (in_queue (source_A c))) (sources w))"

abbreviation manager_total :: "manager \<Rightarrow> nat" where
  "manager_total m \<equiv> sum_list (map (\<lambda>c. length (in_queue (source_A c))) m)"

lemma update_cdsp_total:
  "(\<And>c. length (in_queue (source_A (f c))) = length (in_queue (source_A c))) \<Longrightarrow>
   manager_total (update_cdsp flag f m) = manager_total m"
  by (induction m) auto

lemma put_out_total: "manager_total (add_to_out_queue_A flag now bp m) = manager_total m"
  by (auto simp: add_to_out_queue_A_def put_cdsp_def update_cdsp_total data_source_defs
      new_connection_data_source_def split: option.splits)

lemma update_cdsp_first_total:
  "get_cdsp flag m = Some c \<Longrightarrow>
   manager_total (update_cdsp flag f m) + length (in_queue (source_A c)) =
     manager_total m + length (in_queue (source_A (f c)))"
  by (induction m) (auto simp: get_cdsp_def split: if_splits)

lemma get_out_total:
  "manager_total (snd (get_from_out_queue_A flag m)) = manager_total m"
  "manager_total (snd (get_from_out_queue_B flag m)) = manager_total m"
proof -
  show "manager_total (snd (get_from_out_queue_A flag m)) = manager_total m"
  proof (cases "get_cdsp flag m")
    case (Some c)
    then show ?thesis
      using update_cdsp_first_total [OF Some, of "\<lambda>x. x\<lparr> source_A := snd (get_from_out_queue (source_A c)) \<rparr>"]
      by (cases "out_queue (source_A c)") (simp_all add: get_from_out_queue_A_def data_source_defs)
  qed (simp add: get_from_out_queue_A_def)
  show "manager_total (snd (get_from_out_queue_B flag m)) = manager_total m"
    by (auto simp: get_from_out_queue_B_def update_cdsp_total split: option.splits prod.splits)
qed

lemma get_in_total:
  assumes "manager_get_from_in_queue flag m = (r, m')"
  shows "manager_total m = manager_total m' + (if r = None then 0 else 1)"
proof (cases "get_cdsp flag m")
  case (Some c)
  with assms show ?thesis
    using update_cdsp_first_total [OF Some, of "\<lambda>x. x\<lparr> source_A := snd (get_from_in_queue (source_A c)) \<rparr>"]
    by (cases "in_queue (source_A c)") (auto simp: manager_get_from_in_queue_def data_source_defs)
qed (use assms in \<open>simp add: manager_get_from_in_queue_def\<close>)

lemma take_in_total:
  assumes "session_get_from_in_queue s w = (r, s', w')"
  shows "in_total s w = in_total s' w' + (if r = None then 0 else 1)"
  using assms get_in_total [of "data_source_flag s" "sources w"]
  by (cases "in_queue (private_data_source s)")
    (auto simp: session_get_from_in_queue_def get_from_in_queue_def in_total_def Let_def
      split: if_splits prod.splits)

lemma take_out_total:
  assumes "session_get_from_out_queue s w = (r, s', w')"
  shows "in_total s' w' = in_total s w"
proof (cases "out_queue (private_data_source s)")
  case (Cons bp q)
  with assms show ?thesis
    by (auto simp: session_get_from_out_queue_def get_from_private in_total_def)
next
  case Nil
  then have p: "get_from_out_queue (private_data_source s) = (None, private_data_source s)"
    by (simp add: get_from_private)
  obtain bp m where a: "(if is_state_bound_txable (current_session_state s)
      then get_from_out_queue_A (data_source_flag s) (sources w) else (None, sources w)) = (bp, m)"
    by (metis surj_pair)
  then have t: "manager_total m = manager_total (sources w)"
    using get_out_total(1) [of "data_source_flag s" "sources w"] by (auto split: if_splits)
  show ?thesis
    using assms t get_out_total(2) [of "data_source_flag s" m] a
    unfolding session_get_from_out_queue_def p prod.case option.case Let_def
    by (cases bp) (auto simp: in_total_def split: if_splits prod.splits)
qed

text \<open>Processing a packet leaves the packets that wait alone.\<close>

lemma step_waiting:
  assumes "session_step e ops b (s, w) (s', w')"
  shows "in_queue (private_data_source s') = in_queue (private_data_source s)"
    "sources w' = sources w \<or> (\<exists>flag now bp. sources w' = add_to_out_queue_A flag now bp (sources w))"
proof -
  have sm: "sources (smi_received ops x v) = sources v" for x and v :: "'a server"
    by (simp add: smi_received_def Let_def)
  have dl: "sources (snd (dlrresp_received n v)) = sources v" for n and v :: "'a server"
    by (auto simp: dlrresp_received_def remove_dlr_def remove_mo_def Let_def split: option.splits)
  have "in_queue (private_data_source s') = in_queue (private_data_source s) \<and>
    (sources w' = sources w \<or> (\<exists>flag now bp. sources w' = add_to_out_queue_A flag now bp (sources w)))"
    using assms
    by (cases rule: session_step.cases)
      (auto simp: send_A_def other_error_occur_def bind_error_occur_def bind_result_def add_private_def
        add_to_out_queue_def acknowledged_def sm dl activity_timers_def bind_timers_def Let_def split: if_splits)
  then show "in_queue (private_data_source s') = in_queue (private_data_source s)"
    "sources w' = sources w \<or> (\<exists>flag now bp. sources w' = add_to_out_queue_A flag now bp (sources w))" by blast+
qed

lemma process_total:
  assumes "process e ops b s w = Inr (s', w')"
  shows "in_total s' w' = in_total s w"
  using step_waiting [OF process_step [OF assms]] by (auto simp: in_total_def put_out_total)

lemma do_send_total: "do_send s w = (ws, s', w') \<Longrightarrow> in_total s' w' = in_total s w"
proof (induction s w arbitrary: ws s' w' rule: do_send.induct)
  case (1 s w)
  obtain r s1 w1 where g: "session_get_from_out_queue s w = (r, s1, w1)" by (metis surj_pair)
  show ?case
  proof (cases r)
    case None
    with 1(2) g take_out_total [OF g] show ?thesis by (simp add: do_send.simps [of s w])
  next
    case (Some bp)
    obtain vs s2 w2 where d: "do_send s1 w1 = (vs, s2, w2)" by (metis surj_pair)
    with 1(1) [OF g [symmetric] Some refl d] take_out_total [OF g] g Some 1(2) show ?thesis
      by (simp add: do_send.simps [of s w])
  qed
qed

section \<open>A turn of a worker\<close>

text \<open>Each packet is processed, and what it led to is written before the next is taken.\<close>

function do_process :: "(nat \<Rightarrow> env) \<Rightarrow> 'd db_ops \<Rightarrow> session \<Rightarrow> 'd server \<Rightarrow>
    (octets list \<times> session \<times> 'd server) result" where
  "do_process es ops s w = (case session_get_from_in_queue s w of
     (None, s1, w1) \<Rightarrow> Inr ([], s1, w1)
   | (Some bp, s1, w1) \<Rightarrow>
       (case process (es 0) ops bp s1 w1 of
          Inl er \<Rightarrow> Inl er
        | Inr (s2, w2) \<Rightarrow>
            (case do_send s2 w2 of (ws, s3, w3) \<Rightarrow>
             bind (do_process (es \<circ> Suc) ops s3 w3) (\<lambda>(vs, s, w). Inr (ws @ vs, s, w)))))"
  by pat_completeness auto
termination
proof (relation "measure (\<lambda>(es, ops, s, w). in_total s w)"; (simp; fail)?)
  fix es ops s w r q bp s1 w1 t s2 w2 u ws s3w3 s3 w3
  assume a: "(r, q) = session_get_from_in_queue s (w :: 'd server)" "r = Some bp" "(s1, w1) = q"
    "process (es (0 :: nat)) ops bp s1 w1 = Inr t" "(s2, w2) = t"
    "(ws, u) = do_send s2 w2" "(s3, w3) = u"
  have i: "session_get_from_in_queue s w = (Some bp, s1, w1)" using a(1-3) by simp
  have p: "process (es 0) ops bp s1 w1 = Inr (s2, w2)" using a(4,5) by simp
  have d: "do_send s2 w2 = (ws, s3, w3)" using a(6,7) by simp
  show "((es \<circ> Suc, ops, s3, w3), es, ops, s, w) \<in> measure (\<lambda>(es, ops, s, w). in_total s w)"
    using take_in_total [OF i] process_total [OF p] do_send_total [OF d] by simp
qed

declare do_process.simps [simp del]

text \<open>It returns unless a decoder reads past the end of a packet.\<close>

lemma do_process_error: "do_process es ops s w = Inl er \<Longrightarrow> er = OutOfBounds"
proof (induction es ops s w rule: do_process.induct)
  case (1 es ops s w)
  obtain r s1 w1 where g: "session_get_from_in_queue s w = (r, s1, w1)" by (metis surj_pair)
  show ?case
  proof (cases r)
    case None
    with 1(2) g show ?thesis by (simp add: do_process.simps [of es ops s w])
  next
    case (Some bp)
    show ?thesis
    proof (cases "process (es 0) ops bp s1 w1")
      case (Inl e)
      then have "e = er" using 1(2) g Some by (simp add: do_process.simps [of es ops s w])
      then show ?thesis using Inl process_failure by blast
    next
      case (Inr t)
      obtain s2 w2 ws s3 w3 where d: "t = (s2, w2)" "do_send s2 w2 = (ws, s3, w3)" by (metis surj_pair)
      then have "do_process (es \<circ> Suc) ops s3 w3 = Inl er"
        using 1(2) g Some Inr by (cases "do_process (es \<circ> Suc) ops s3 w3")
          (auto simp: do_process.simps [of es ops s w])
      with 1(1) [OF g [symmetric] Some refl Inr d(1) [symmetric] d(2) [symmetric] refl] show ?thesis by blast
    qed
  qed
qed

lemma take_in_none:
  "session_get_from_in_queue s w = (None, s', w') \<Longrightarrow> incoming s' w' = [] \<and> in_queue (private_data_source s') = [] \<and>
    s' = s \<and> sources w' = snd (if data_source_flag s = [] then (None, sources w)
      else manager_get_from_in_queue (data_source_flag s) (sources w))"
  using manager_get_head(1) [of "data_source_flag s" "sources w"]
    queue_of_manager_get(1) [of "data_source_flag s" "data_source_flag s" "sources w"]
  by (cases "in_queue (private_data_source s)")
    (auto simp: session_get_from_in_queue_def get_from_in_queue_def incoming_def Let_def
      split: prod.splits if_splits list.splits)

lemma take_in_none_pending:
  "session_get_from_in_queue s w = (None, s', w') \<Longrightarrow> pending s' w' = pending s w"
  using take_in_none [of s w s' w'] queues_independent_get(1,2) [of "data_source_flag s" "data_source_flag s" "sources w"]
  by (auto simp: pending_def split: if_splits)

text \<open>
  Every packet that waited was processed: none is left, and neither is anything to send when one
  was processed. What the session went through is a run of packets.
\<close>

lemma do_process_all:
  "do_process es ops s w = Inr (ws, s', w') \<Longrightarrow>
   incoming s' w' = [] \<and> in_queue (private_data_source s') = [] \<and>
   (pending s w = [] \<longrightarrow> pending s' w' = [])"
proof (induction es ops s w arbitrary: ws s' w' rule: do_process.induct)
  case (1 es ops s w)
  obtain r s1 w1 where g: "session_get_from_in_queue s w = (r, s1, w1)" by (metis surj_pair)
  show ?case
  proof (cases r)
    case None
    then have "session_get_from_in_queue s w = (None, s', w')"
      using 1(2) g by (simp add: do_process.simps [of es ops s w])
    from take_in_none [OF this] take_in_none_pending [OF this] show ?thesis by metis
  next
    case (Some bp)
    with 1(2) g obtain s2 w2 where p: "process (es 0) ops bp s1 w1 = Inr (s2, w2)"
      by (cases "process (es 0) ops bp s1 w1") (auto simp: do_process.simps [of es ops s w])
    obtain us s3 w3 where d: "do_send s2 w2 = (us, s3, w3)" by (metis surj_pair)
    obtain vs where r: "do_process (es \<circ> Suc) ops s3 w3 = Inr (vs, s', w')"
      using 1(2) g Some p d by (auto simp: do_process.simps [of es ops s w] bind_eq_Inr)
    from 1(1) [OF g [symmetric] Some refl p refl d [symmetric] refl r] do_send_pending [OF d]
    show ?thesis by blast
  qed
qed

section \<open>Connections\<close>

text \<open>
  The object that all workers share: the set of connections in the order of their addresses, the
  connections themselves, and the shared part of the sessions.
\<close>

record 'd net =
  shared :: "'d server"
  connections :: "nat list"
  conns :: "nat \<Rightarrow> tcp_connection_impl"
  finished :: bool

definition update_conn :: "nat \<Rightarrow> (tcp_connection_impl \<Rightarrow> tcp_connection_impl) \<Rightarrow> 'd net \<Rightarrow> 'd net" where
  "update_conn i f n = n\<lparr> conns := (conns n)(i := f (conns n i)) \<rparr>"

definition cm_current_size :: "'d net \<Rightarrow> nat" where
  "cm_current_size n = length (connections n)"

definition cm_add :: "nat \<Rightarrow> 'd net \<Rightarrow> 'd net" where
  "cm_add i n = (if \<not> finished n then n\<lparr> connections := insort_insert i (connections n) \<rparr> else n)"

definition cm_remove :: "nat \<Rightarrow> 'd net \<Rightarrow> 'd net" where
  "cm_remove i n = (if i \<in> set (connections n)
     then update_conn i (\<lambda>c. c\<lparr> is_open := False \<rparr>) (n\<lparr> connections := remove1 i (connections n) \<rparr>)
     else n)"

definition conn_timeout :: "env \<Rightarrow> tcp_connection_impl \<Rightarrow> bool" where
  "conn_timeout e c \<longleftrightarrow> timer_timeout e (protocol_impl c) \<or> read_timeout c"

definition conn_error_occured :: "tcp_connection_impl \<Rightarrow> bool" where
  "conn_error_occured c = any_error_occured (protocol_impl c)"

text \<open>\<open>need_send\<close> of the session, which puts receipts and messages into the queue, or does not return.\<close>

definition conn_need_send :: "env \<Rightarrow> 'd db_ops \<Rightarrow> nat \<Rightarrow> 'd net \<Rightarrow> (bool \<times> 'd net) result option" where
  "conn_need_send e ops i n =
     (case session_need_send e ops (protocol_impl (conns n i)) (shared n) of
        None \<Rightarrow> None
      | Some r \<Rightarrow> Some (bind r (\<lambda>(b, w). Inr (b, n\<lparr> shared := w \<rparr>))))"

definition conn_need_process :: "nat \<Rightarrow> 'd net \<Rightarrow> bool" where
  "conn_need_process i n = session_need_process (protocol_impl (conns n i)) (shared n)"

text \<open>The first connection that no worker has and that has something to do.\<close>

fun cm_get_from :: "(nat \<Rightarrow> env) \<Rightarrow> 'd db_ops \<Rightarrow> nat list \<Rightarrow> 'd net \<Rightarrow> (nat option \<times> 'd net) result option" where
  "cm_get_from es ops [] n = Some (Inr (None, n))"
| "cm_get_from es ops (i # is) n =
     (if is_working (conns n i) then cm_get_from es ops is n
      else if conn_need_process i n
      then Some (Inr (Some i, update_conn i (\<lambda>c. c\<lparr> is_working := True \<rparr>) n))
      else (case conn_need_send (es 0) ops i n of
          None \<Rightarrow> None
        | Some (Inl er) \<Rightarrow> Some (Inl er)
        | Some (Inr (b, n)) \<Rightarrow>
            if b \<or> conn_error_occured (conns n i) \<or> conn_timeout (es 1) (conns n i)
            then Some (Inr (Some i, update_conn i (\<lambda>c. c\<lparr> is_working := True \<rparr>) n))
            else cm_get_from (\<lambda>k. es (k + 2)) ops is n))"

definition cm_get :: "(nat \<Rightarrow> env) \<Rightarrow> 'd db_ops \<Rightarrow> 'd net \<Rightarrow> (nat option \<times> 'd net) result option" where
  "cm_get es ops n = cm_get_from es ops (connections n) n"

definition cm_free :: "nat \<Rightarrow> 'd net \<Rightarrow> 'd net" where
  "cm_free i n = update_conn i (\<lambda>c. c\<lparr> is_working := False \<rparr>) n"

definition conn_do_send :: "nat \<Rightarrow> 'd net \<Rightarrow> 'd net" where
  "conn_do_send i n = (case do_send (protocol_impl (conns n i)) (shared n) of (ws, s, w) \<Rightarrow>
     update_conn i (\<lambda>c. c\<lparr> protocol_impl := s, written := written c @ ws \<rparr>) (n\<lparr> shared := w \<rparr>))"

definition conn_do_process :: "(nat \<Rightarrow> env) \<Rightarrow> 'd db_ops \<Rightarrow> nat \<Rightarrow> 'd net \<Rightarrow> 'd net result" where
  "conn_do_process es ops i n =
     bind (do_process es ops (protocol_impl (conns n i)) (shared n)) (\<lambda>(ws, s, w).
     Inr (update_conn i (\<lambda>c. c\<lparr> protocol_impl := s, written := written c @ ws \<rparr>) (n\<lparr> shared := w \<rparr>)))"

text \<open>\<open>force_shutdown\<close> shuts the socket down and takes the connection out of the set.\<close>

definition force_shutdown :: "nat \<Rightarrow> 'd net \<Rightarrow> 'd net" where
  "force_shutdown i n = cm_remove i n"

text \<open>One after the other; \<open>None\<close> when the first does not return.\<close>

definition after :: "'a result option \<Rightarrow> ('a \<Rightarrow> 'b result option) \<Rightarrow> 'b result option" where
  "after m f = (case m of None \<Rightarrow> None | Some (Inl er) \<Rightarrow> Some (Inl er) | Some (Inr x) \<Rightarrow> f x)"

text \<open>What a worker does with the connection \<open>i\<close> that it got.\<close>

definition task_turn :: "(nat \<Rightarrow> env) \<Rightarrow> 'd db_ops \<Rightarrow> nat \<Rightarrow> 'd net \<Rightarrow> 'd net result option" where
  "task_turn es ops i n =
     after (conn_need_send (es 0) ops i n) (\<lambda>(b, n).
     let n = (if b then conn_do_send i n else n) in
     after (Some (if conn_need_process i n then conn_do_process (\<lambda>k. es (k + 3)) ops i n else Inr n)) (\<lambda>n.
     after (conn_need_send (es 1) ops i n) (\<lambda>(b, n).
     let n = (if b then conn_do_send i n else n) in
     Some (Inr (if conn_error_occured (conns n i) \<or> conn_timeout (es 2) (conns n i)
       then force_shutdown i n else n)))))"

definition MAX_SUPPORT_CLIENTS :: nat where "MAX_SUPPORT_CLIENTS = 999"

text \<open>A connection that is accepted, or closed at once; \<open>i\<close> is the address of the new object.\<close>

definition handle_accept :: "env \<Rightarrow> int \<Rightarrow> octets \<Rightarrow> nat \<Rightarrow> 'd net \<Rightarrow> 'd net" where
  "handle_accept e utc remote_ip i n =
     (if cm_current_size n > MAX_SUPPORT_CLIENTS then n
      else cm_add i (update_conn i (\<lambda>_. start e utc remote_ip) n))"

section \<open>The whole server\<close>

text \<open>
  Workers, the reader of the sockets and the acceptor, in any order; \<open>h k\<close> is the connection that
  the worker \<open>k\<close> is busy with. The address of a new object is one that nobody refers to.
\<close>

type_synonym 'd machine = "(nat \<Rightarrow> nat option) \<times> 'd net"

inductive net_step :: "'d db_ops \<Rightarrow> 'd machine \<Rightarrow> 'd machine \<Rightarrow> bool" for ops :: "'d db_ops" where
  accept: "i \<notin> set (connections n) \<Longrightarrow> \<forall>k. h k \<noteq> Some i \<Longrightarrow>
    net_step ops (h, n) (h, handle_accept e utc remote_ip i n)"
| data: "i \<in> set (connections n) \<Longrightarrow> data_arrives e utc octs (conns n i) (shared n) = Inr (c, w) \<Longrightarrow>
    net_step ops (h, n) (h, update_conn i (\<lambda>_. c) (n\<lparr> shared := w \<rparr>))"
| read_timer: "i \<in> set (connections n) \<Longrightarrow> net_step ops (h, n) (h, update_conn i (handle_timeout utc) n)"
| disconnect: "net_step ops (h, n) (h, cm_remove i n)"
| idle: "h k = None \<Longrightarrow> cm_get es ops n = Some (Inr (None, n')) \<Longrightarrow> net_step ops (h, n) (h, n')"
| get: "h k = None \<Longrightarrow> cm_get es ops n = Some (Inr (Some i, n')) \<Longrightarrow>
    net_step ops (h, n) (h(k := Some i), n')"
| turn: "h k = Some i \<Longrightarrow> task_turn es ops i n = Some (Inr n') \<Longrightarrow> net_step ops (h, n) (h, n')"
| free: "h k = Some i \<Longrightarrow> net_step ops (h, n) (h(k := None), cm_free i n)"

definition net_initial :: "'d server \<Rightarrow> 'd machine \<Rightarrow> bool" where
  "net_initial w m \<longleftrightarrow> (\<exists>c. m = (\<lambda>_. None, \<lparr> shared = w, connections = [], conns = c, finished = False \<rparr>))"

inductive reachable :: "'d db_ops \<Rightarrow> 'd server \<Rightarrow> 'd machine \<Rightarrow> bool" for ops :: "'d db_ops" and w where
  init: "net_initial w m \<Longrightarrow> reachable ops w m"
| step: "reachable ops w m \<Longrightarrow> net_step ops m m' \<Longrightarrow> reachable ops w m'"

text \<open>
  What all operations on a connection keep: every session in the set or with a worker is one
  that \<open>served\<close> describes, and the accounts and the configuration stay.
\<close>

definition live :: "'d machine \<Rightarrow> nat \<Rightarrow> bool" where
  "live m i \<longleftrightarrow> i \<in> set (connections (snd m)) \<or> (\<exists>k. fst m k = Some i)"

abbreviation serves :: "'d db_ops \<Rightarrow> 'd server \<Rightarrow> session \<Rightarrow> bool" where
  "serves ops w0 s \<equiv> \<exists>client_ip. served ops (accounts w0) (need_authorize (configer w0)) client_ip s"

abbreviation same_host :: "'d server \<Rightarrow> 'd server \<Rightarrow> bool" where
  "same_host w w' \<equiv> accounts w' = accounts w \<and> configer w' = configer w"

lemma queue_same_host:
  "session_add_to_in_queue e b s w = (s', w') \<Longrightarrow> same_host w w'"
  "session_get_from_in_queue s w = (r, s', w') \<Longrightarrow> same_host w w'"
  "session_get_from_out_queue s w = (r, s', w') \<Longrightarrow> same_host w w'"
proof -
  show "session_add_to_in_queue e b s w = (s', w') \<Longrightarrow> same_host w w'"
    by (auto simp: session_add_to_in_queue_def split: if_splits)
  show "session_get_from_in_queue s w = (r, s', w') \<Longrightarrow> same_host w w'"
    by (auto simp: session_get_from_in_queue_def Let_def split: prod.splits option.splits if_splits)
  show "session_get_from_out_queue s w = (r, s', w') \<Longrightarrow> same_host w w'"
    by (auto simp: session_get_from_out_queue_def Let_def split: prod.splits option.splits if_splits)
qed

lemma do_send_serves:
  "do_send s (w :: 'd server) = (ws, s', w') \<Longrightarrow>
   same_host w w' \<and> (serves (ops :: 'd db_ops) w0 s \<longrightarrow> serves ops w0 s')"
proof (induction s w arbitrary: ws s' w' rule: do_send.induct)
  case (1 s w)
  obtain r s1 w1 where g: "session_get_from_out_queue s w = (r, s1, w1)" by (metis surj_pair)
  have s1: "serves ops w0 s \<longrightarrow> serves ops w0 s1" "same_host w w1"
    subgoal using served.take_out [OF _ g] by blast
    subgoal using queue_same_host(3) [OF g] .
    done
  show ?case
  proof (cases r)
    case None
    with 1(2) g s1 show ?thesis by (simp add: do_send.simps [of s w])
  next
    case (Some bp)
    obtain vs s2 w2 where d: "do_send s1 w1 = (vs, s2, w2)" by (metis surj_pair)
    with 1(1) [OF g [symmetric] Some refl d] s1 g Some 1(2) show ?thesis
      by (simp add: do_send.simps [of s w])
  qed
qed

lemma do_process_serves:
  "do_process es (ops :: 'd db_ops) s w = Inr (ws, s', w') \<Longrightarrow> same_host w0 w \<Longrightarrow>
   same_host w0 w' \<and> (serves ops w0 s \<longrightarrow> serves ops w0 s')"
proof (induction es ops s w arbitrary: ws s' w' rule: do_process.induct)
  case (1 es ops s w)
  obtain r s1 w1 where g: "session_get_from_in_queue s w = (r, s1, w1)" by (metis surj_pair)
  have s1: "serves ops w0 s \<longrightarrow> serves ops w0 s1" "same_host w0 w1"
    subgoal using served.take_in [OF _ g] by blast
    subgoal using 1(3) queue_same_host(2) [OF g] by simp
    done
  show ?case
  proof (cases r)
    case None
    with 1(2) g s1 show ?thesis by (simp add: do_process.simps [of es ops s w])
  next
    case (Some bp)
    with 1(2) g obtain s2 w2 where p: "process (es 0) ops bp s1 w1 = Inr (s2, w2)"
      by (cases "process (es 0) ops bp s1 w1") (auto simp: do_process.simps [of es ops s w])
    obtain us s3 w3 where d: "do_send s2 w2 = (us, s3, w3)" by (metis surj_pair)
    obtain vs where r: "do_process (es \<circ> Suc) ops s3 w3 = Inr (vs, s', w')"
      using 1(2) g Some p d by (auto simp: do_process.simps [of es ops s w] bind_eq_Inr)
    have s2: "serves ops w0 s \<longrightarrow> serves ops w0 s2" "same_host w0 w2"
      subgoal using s1 served.process [OF _ _ _ p] by metis
      subgoal using s1(2) step_frame(2,3) [OF process_step [OF p]] by simp
      done
    have s3: "serves ops w0 s \<longrightarrow> serves ops w0 s3" "same_host w0 w3"
      using do_send_serves [OF d, of ops w0] s2 by auto
    from 1(1) [OF g [symmetric] Some refl p refl d [symmetric] refl r s3(2)] s3(1) show ?thesis by blast
  qed
qed

lemma peek_same_host:
  "peek_dlr ops x v = (r, v') \<Longrightarrow> same_host v v'" "peek_mo ops x v = (r, v') \<Longrightarrow> same_host v v'"
  by (auto simp: peek_dlr_def peek_mo_def Let_def split: option.splits prod.splits if_splits)

lemma add_to_B_same_host: "add_to_B e pdu s v = Inr v' \<Longrightarrow> same_host v v'"
  by (auto simp: add_to_B_def try_catch_Inr split: if_splits)

lemma send_same_host:
  "send_delivery_sm e ops s v = Inr (b, v') \<Longrightarrow> same_host v v'"
  "send_mo e ops s v = Some (Inr (b, v')) \<Longrightarrow> same_host v v'"
  by (auto simp: send_delivery_sm_def send_mo_def bind_eq_Inr
      dest!: peek_same_host add_to_B_same_host split: prod.splits option.splits)

lemma need_send_same_host:
  assumes "session_need_send e ops s w = Some (Inr (b, w'))"
  shows "same_host w w'"
proof (cases "is_bound s")
  case True
  then obtain b1 w1 b2 w2 where "send_delivery_sm e ops s w = Inr (b1, w1)"
    "send_mo e ops s w1 = Some (Inr (b2, w2))" "w' = w2"
    using assms by (auto simp: session_need_send_def split: sum.splits option.splits prod.splits)
  then show ?thesis using send_same_host by metis
next
  case False
  then show ?thesis using assms by (simp add: session_need_send_def)
qed

text \<open>The same for the steps on connections; \<open>A\<close> are the connections that matter.\<close>

definition keeps :: "'d db_ops \<Rightarrow> 'd server \<Rightarrow> 'd net \<Rightarrow> 'd net \<Rightarrow> bool" where
  "keeps ops w0 n n' \<longleftrightarrow> (same_host w0 (shared n) \<longrightarrow> same_host w0 (shared n') \<and>
     (\<forall>i. serves ops w0 (protocol_impl (conns n i)) \<longrightarrow> serves ops w0 (protocol_impl (conns n' i))))"

lemma keeps_refl: "keeps ops w0 n n"
  by (simp add: keeps_def)

lemma keeps_trans: "keeps ops w0 n n1 \<Longrightarrow> keeps ops w0 n1 n2 \<Longrightarrow> keeps ops w0 n n2"
  by (simp add: keeps_def)

lemma keeps_flags:
  "(\<And>c. protocol_impl (f c) = protocol_impl c) \<Longrightarrow> keeps ops w0 n (update_conn i f n)"
  "keeps ops w0 n (n\<lparr> connections := l \<rparr>)" "keeps ops w0 n (cm_remove i n)"
  by (simp_all add: keeps_def update_conn_def cm_remove_def)

lemma keeps_need_send:
  assumes "conn_need_send e ops i n = Some (Inr (b, n'))"
  shows "keeps ops w0 n n'" "connections n' = connections n" "conns n' = conns n"
proof -
  obtain w where w: "session_need_send e ops (protocol_impl (conns n i)) (shared n) = Some (Inr (b, w))"
    "n' = n\<lparr> shared := w \<rparr>"
    using assms by (auto simp: conn_need_send_def bind_eq_Inr split: option.splits)
  from need_send_same_host [OF w(1)] show "keeps ops w0 n n'" by (simp add: keeps_def w(2))
  show "connections n' = connections n" "conns n' = conns n" by (simp_all add: w(2))
qed

lemma keeps_do_send: "keeps (ops :: 'd db_ops) w0 n (conn_do_send i (n :: 'd net))"
proof (cases "do_send (protocol_impl (conns n i)) (shared n)")
  case (fields ws s w)
  then show ?thesis
    using do_send_serves [OF fields, of ops w0] by (simp add: keeps_def conn_do_send_def update_conn_def)
qed

lemma keeps_do_process:
  assumes "conn_do_process es ops i n = Inr n'"
  shows "keeps ops w0 n n'"
proof -
  obtain ws s w where d: "do_process es ops (protocol_impl (conns n i)) (shared n) = Inr (ws, s, w)"
    "n' = update_conn i (\<lambda>c. c\<lparr> protocol_impl := s, written := written c @ ws \<rparr>) (n\<lparr> shared := w \<rparr>)"
    using assms by (auto simp: conn_do_process_def bind_eq_Inr)
  then show ?thesis using do_process_serves [OF d(1), of w0] by (simp add: keeps_def update_conn_def)
qed

lemma turn_connections:
  "connections (conn_do_send i n) = connections n" "is_working (conns (conn_do_send i n) j) = is_working (conns n j)"
  by (simp_all add: conn_do_send_def update_conn_def split: prod.splits)

lemma turn_connections_process:
  assumes "conn_do_process es ops i n = Inr n'"
  shows "connections n' = connections n" "is_working (conns n' j) = is_working (conns n j)"
  using assms by (auto simp: conn_do_process_def update_conn_def bind_eq_Inr split: if_splits)

lemma after_Some: "after m f = Some (Inr y) \<longleftrightarrow> (\<exists>x. m = Some (Inr x) \<and> f x = Some (Inr y))"
  by (auto simp: after_def split: option.splits sum.splits)

text \<open>
  A turn of a worker: sessions stay as they may be, the connection may leave the set, and who is
  busy with which connection stays.
\<close>

lemma task_turn_steps:
  assumes "task_turn es ops i n = Some (Inr n')"
  shows "keeps ops w0 n n'" "connections n' = connections n \<or> connections n' = remove1 i (connections n)"
    "is_working (conns n' j) = is_working (conns n j)"
proof -
  obtain b1 n1 n2 b2 n3 where t:
    "conn_need_send (es 0) ops i n = Some (Inr (b1, n1))"
    "(if conn_need_process i (if b1 then conn_do_send i n1 else n1)
      then conn_do_process (\<lambda>k. es (k + 3)) ops i (if b1 then conn_do_send i n1 else n1)
      else Inr (if b1 then conn_do_send i n1 else n1)) = Inr n2"
    "conn_need_send (es 1) ops i n2 = Some (Inr (b2, n3))"
    "n' = (if conn_error_occured (conns (if b2 then conn_do_send i n3 else n3) i) \<or>
         conn_timeout (es 2) (conns (if b2 then conn_do_send i n3 else n3) i)
       then force_shutdown i (if b2 then conn_do_send i n3 else n3) else (if b2 then conn_do_send i n3 else n3))"
    using assms by (auto simp: task_turn_def after_Some Let_def)
  let ?m1 = "if b1 then conn_do_send i n1 else n1" and ?m3 = "if b2 then conn_do_send i n3 else n3"
  have k: "keeps ops w0 n ?m1" "keeps ops w0 ?m1 n2" "keeps ops w0 n2 ?m3" "keeps ops w0 ?m3 n'"
    subgoal using keeps_need_send(1) [OF t(1)] keeps_trans [OF keeps_need_send(1) [OF t(1)] keeps_do_send] by simp
    subgoal using t(2) keeps_do_process keeps_refl by (auto split: if_splits)
    subgoal using keeps_need_send(1) [OF t(3)] keeps_trans [OF keeps_need_send(1) [OF t(3)] keeps_do_send] by simp
    subgoal using t(4) keeps_flags(3) keeps_refl by (auto simp: force_shutdown_def)
    done
  then show "keeps ops w0 n n'" using keeps_trans by blast
  have c: "connections ?m1 = connections n \<and> is_working (conns ?m1 j) = is_working (conns n j)"
    using keeps_need_send(2,3) [OF t(1)] by (simp add: turn_connections)
  have c2: "connections n2 = connections ?m1 \<and> is_working (conns n2 j) = is_working (conns ?m1 j)"
    using t(2) turn_connections_process [of _ ops i ?m1 n2] by (auto split: if_splits)
  have c3: "connections ?m3 = connections n2 \<and> is_working (conns ?m3 j) = is_working (conns n2 j)"
    using keeps_need_send(2,3) [OF t(3)] by (simp add: turn_connections)
  show "connections n' = connections n \<or> connections n' = remove1 i (connections n)"
    "is_working (conns n' j) = is_working (conns n j)"
    using c c2 c3 t(4) by (auto simp: force_shutdown_def cm_remove_def update_conn_def)
qed

lemma cm_get_from_steps:
  "cm_get_from es ops is n = Some (Inr (r, n')) \<Longrightarrow>
   keeps ops w0 n n' \<and> connections n' = connections n \<and>
   (case r of None \<Rightarrow> conns n' = conns n
    | Some i \<Rightarrow> i \<in> set is \<and> \<not> is_working (conns n i) \<and>
        conns n' = (conns n)(i := (conns n i)\<lparr> is_working := True \<rparr>))"
proof (induction es ops "is" n arbitrary: r n' rule: cm_get_from.induct)
  case (1 es ops n)
  then show ?case by (auto simp: keeps_refl)
next
  case (2 es ops i "is" n)
  have set_working: "keeps ops w0 m (update_conn i (\<lambda>c. c\<lparr> is_working := True \<rparr>) m)" for m
    by (rule keeps_flags(1)) simp
  show ?case
  proof (cases "is_working (conns n i) \<or> conn_need_process i n")
    case True
    with 2(1,3) set_working show ?thesis
      by (auto simp: update_conn_def split: if_splits option.splits)
  next
    case False
    then obtain b m where m: "conn_need_send (es 0) ops i n = Some (Inr (b, m))"
      using 2(3) by (auto split: option.splits sum.splits)
    note k = keeps_need_send [OF m]
    show ?thesis
    proof (cases "b \<or> conn_error_occured (conns m i) \<or> conn_timeout (es 1) (conns m i)")
      case True
      with 2(3) False m have "r = Some i" "n' = update_conn i (\<lambda>c. c\<lparr> is_working := True \<rparr>) m" by auto
      with keeps_trans [OF k(1) set_working] k(2,3) False show ?thesis by (simp add: update_conn_def)
    next
      case no: False
      with 2(3) False m have "cm_get_from (\<lambda>k. es (k + 2)) ops is m = Some (Inr (r, n'))" by auto
      moreover have "cm_get_from (\<lambda>k. es (k + 2)) ops is m = Some (Inr (r, n')) \<Longrightarrow>
          keeps ops w0 m n' \<and> connections n' = connections m \<and> (case r of None \<Rightarrow> conns n' = conns m
          | Some i \<Rightarrow> i \<in> set is \<and> \<not> is_working (conns m i) \<and>
              conns n' = (conns m)(i := (conns m i)\<lparr> is_working := True \<rparr>))"
        using 2(2) [OF _ _ m refl refl] False no by auto
      ultimately show ?thesis
        using keeps_trans [OF k(1)] k(2,3) by (auto split: option.splits)
    qed
  qed
qed

text \<open>Reading only queues packets.\<close>

lemma queue_packet_serves:
  assumes "queue_packet e bp c (w :: 'd server) = (c', w')"
  shows "same_host w w'" "serves (ops :: 'd db_ops) w0 (protocol_impl c) \<Longrightarrow> serves ops w0 (protocol_impl c')"
    "is_working c' = is_working c"
proof -
  obtain s where q: "session_add_to_in_queue e bp (protocol_impl c) w = (s, w')" "c' = c\<lparr> protocol_impl := s \<rparr>"
    using assms by (auto simp: queue_packet_def split: prod.splits)
  show "same_host w w'" using queue_same_host(1) [OF q(1)] .
  show "serves ops w0 (protocol_impl c) \<Longrightarrow> serves ops w0 (protocol_impl c')"
    by (simp add: q(2), elim exE, rule exI, rule served.receive [OF _ q(1)])
  show "is_working c' = is_working c" by (simp add: q(2))
qed

lemma complete_read_serves:
  assumes "complete_read e utc c (w :: 'd server) = Inr (c', w')"
  shows "same_host w w' \<and> (serves (ops :: 'd db_ops) w0 (protocol_impl c) \<longrightarrow> serves ops w0 (protocol_impl c')) \<and>
    is_working c' = is_working c"
proof -
  let ?c = "c\<lparr> received := drop (wanted c) (received c) \<rparr>"
  consider (wait) bp n where "c' = ?c\<lparr> reading := Reading_body bp n \<rparr>" "w' = w"
    | (whole) bp c1 where "queue_packet e bp ?c w = (c1, w')" "c' = read_header utc c1"
    using assms
    by (auto simp: complete_read_def handle_read_header_def handle_read_body_def bind_eq_Inr Let_def
        split: pending_read.splits prod.splits if_splits)
  then show ?thesis
  proof cases
    case wait
    then show ?thesis by simp
  next
    case (whole bp c1)
    then show ?thesis
      using queue_packet_serves(1,3) [OF whole(1)] queue_packet_serves(2) [OF whole(1), of ops w0]
      by (simp add: read_header_def)
  qed
qed

lemma run_reads_serves:
  "run_reads e utc c (w :: 'd server) = Inr (c', w') \<Longrightarrow> same_host w w' \<and>
   (serves (ops :: 'd db_ops) w0 (protocol_impl c) \<longrightarrow> serves ops w0 (protocol_impl c')) \<and>
   is_working c' = is_working c"
proof (induction e utc c w arbitrary: c' w' rule: run_reads.induct)
  case (1 e utc c w)
  show ?case
  proof (cases "length (received c) < wanted c")
    case True
    with 1(2) show ?thesis by (subst (asm) run_reads.simps) simp
  next
    case False
    then obtain c1 w1 where r: "complete_read e utc c w = Inr (c1, w1)" "run_reads e utc c1 w1 = Inr (c', w')"
      using 1(2) by (subst (asm) run_reads.simps) (auto split: sum.splits)
    show ?thesis
      using complete_read_serves [OF r(1), of ops w0] 1(1) [OF False r(1) refl r(2)] by simp
  qed
qed

section \<open>What a turn leaves\<close>

definition nothing_waits :: "session \<Rightarrow> 'd server \<Rightarrow> bool" where
  "nothing_waits s w \<longleftrightarrow> in_queue (private_data_source s) = [] \<and> incoming s w = []"

lemma no_need_process: "\<not> session_need_process s w \<Longrightarrow> nothing_waits s w"
  by (auto simp: session_need_process_def nothing_waits_def incoming_def need_process_def
      manager_need_process_def queue_of_def split: option.splits)

lemma anything_to_send_pending: "anything_to_send s w \<longleftrightarrow> pending s w \<noteq> []"
  by (auto simp: anything_to_send_def pending_def need_send_def need_send_A_def need_send_B_def
      queue_of_def split: option.splits)

lemma take_out_waits:
  assumes "session_get_from_out_queue s w = (r, s', w')"
  shows "nothing_waits s' w' = nothing_waits s w"
proof -
  have a: "get_from_out_queue_A f m = (q, m') \<Longrightarrow> \<forall>g. in_queue_of g m' = in_queue_of g m"
    "get_from_out_queue_B f m = (q, m') \<Longrightarrow> \<forall>g. in_queue_of g m' = in_queue_of g m" for f m q m'
    by (metis queues_independent_get(3) snd_conv) (metis queues_independent_get(5) snd_conv)
  show ?thesis
    using assms
    by (cases "out_queue (private_data_source s)")
      (auto simp: session_get_from_out_queue_def get_from_private nothing_waits_def incoming_def Let_def
        split: prod.splits option.splits if_splits dest!: a)
qed

lemma do_send_waits: "do_send s w = (ws, s', w') \<Longrightarrow> nothing_waits s' w' = nothing_waits s w"
proof (induction s w arbitrary: ws s' w' rule: do_send.induct)
  case (1 s w)
  obtain r s1 w1 where g: "session_get_from_out_queue s w = (r, s1, w1)" by (metis surj_pair)
  show ?case
  proof (cases r)
    case None
    with 1(2) g take_out_waits [OF g] show ?thesis by (simp add: do_send.simps [of s w])
  next
    case (Some bp)
    obtain vs s2 w2 where d: "do_send s1 w1 = (vs, s2, w2)" by (metis surj_pair)
    with 1(1) [OF g [symmetric] Some refl d] take_out_waits [OF g] g Some 1(2) show ?thesis
      by (simp add: do_send.simps [of s w])
  qed
qed

lemma send_waits:
  "send_delivery_sm e ops s v = Inr (b, v') \<Longrightarrow> in_queue_of g (sources v') = in_queue_of g (sources v)"
  "send_mo e ops s v = Some (Inr (b, v')) \<Longrightarrow> in_queue_of g (sources v') = in_queue_of g (sources v)"
proof -
  have p: "peek_dlr ops x v = (r, v') \<Longrightarrow> sources v' = sources v" "peek_mo ops x v = (q, v') \<Longrightarrow> sources v' = sources v"
    for x r q v v'
    by (auto simp: peek_dlr_def peek_mo_def Let_def split: option.splits prod.splits if_splits)
  have a: "add_to_B e pdu s v = Inr v' \<Longrightarrow> in_queue_of g (sources v') = in_queue_of g (sources v)" for pdu v v'
    by (auto simp: add_to_B_def try_catch_Inr split: if_splits)
  show "send_delivery_sm e ops s v = Inr (b, v') \<Longrightarrow> in_queue_of g (sources v') = in_queue_of g (sources v)"
    "send_mo e ops s v = Some (Inr (b, v')) \<Longrightarrow> in_queue_of g (sources v') = in_queue_of g (sources v)"
    by (auto simp: send_delivery_sm_def send_mo_def bind_eq_Inr dest!: p a split: prod.splits option.splits)
qed

lemma need_send_waits:
  assumes "session_need_send e ops s w = Some (Inr (b, w'))"
  shows "b \<longleftrightarrow> pending s w' \<noteq> []" "nothing_waits s w' = nothing_waits s w"
proof -
  have "(b \<longleftrightarrow> pending s w' \<noteq> []) \<and> nothing_waits s w' = nothing_waits s w"
  proof (cases "is_bound s")
    case True
    then obtain b1 w1 b2 where "send_delivery_sm e ops s w = Inr (b1, w1)"
      "send_mo e ops s w1 = Some (Inr (b2, w'))" "b = anything_to_send s w'"
      using assms by (auto simp: session_need_send_def split: sum.splits option.splits prod.splits)
    with send_waits(1) [OF this(1), of "data_source_flag s"] send_waits(2) [OF this(2), of "data_source_flag s"]
    show ?thesis by (simp add: anything_to_send_pending nothing_waits_def incoming_def)
  next
    case False
    then show ?thesis using assms by (auto simp: session_need_send_def anything_to_send_pending)
  qed
  then show "b \<longleftrightarrow> pending s w' \<noteq> []" "nothing_waits s w' = nothing_waits s w" by blast+
qed

text \<open>A turn leaves neither a packet to process nor one to send; a connection that must be closed left the set.\<close>

abbreviation idle :: "nat \<Rightarrow> 'd net \<Rightarrow> bool" where
  "idle i n \<equiv> nothing_waits (protocol_impl (conns n i)) (shared n) \<and> pending (protocol_impl (conns n i)) (shared n) = []"

lemma conn_send_idle:
  assumes "conn_need_send e ops i n = Some (Inr (b, m))"
    "nothing_waits (protocol_impl (conns n i)) (shared n)"
  shows "idle i (if b then conn_do_send i m else m)"
proof -
  obtain w where w: "session_need_send e ops (protocol_impl (conns n i)) (shared n) = Some (Inr (b, w))"
    "m = n\<lparr> shared := w \<rparr>"
    using assms(1) by (auto simp: conn_need_send_def bind_eq_Inr split: option.splits)
  obtain ws s v where d: "do_send (protocol_impl (conns n i)) w = (ws, s, v)" by (metis surj_pair)
  then show ?thesis
    using need_send_waits [OF w(1)] assms(2) do_send_waits [OF d] do_send_pending [OF d]
    by (simp add: w(2) conn_do_send_def update_conn_def)
qed

lemma turn_idle:
  assumes "task_turn es ops i n = Some (Inr n')"
  shows "idle i n'"
    "distinct (connections n) \<Longrightarrow> i \<in> set (connections n') \<Longrightarrow>
      \<not> conn_error_occured (conns n' i) \<and> \<not> conn_timeout (es 2) (conns n' i)"
proof -
  obtain b1 n1 n2 b2 n3 m where t:
    "(if conn_need_process i (if b1 then conn_do_send i n1 else n1)
      then conn_do_process (\<lambda>k. es (k + 3)) ops i (if b1 then conn_do_send i n1 else n1)
      else Inr (if b1 then conn_do_send i n1 else n1)) = Inr n2"
    "conn_need_send (es 1) ops i n2 = Some (Inr (b2, n3))"
    "m = (if b2 then conn_do_send i n3 else n3)"
    "n' = (if conn_error_occured (conns m i) \<or> conn_timeout (es 2) (conns m i) then force_shutdown i m else m)"
    "conn_need_send (es 0) ops i n = Some (Inr (b1, n1))"
    using assms by (auto simp: task_turn_def after_Some Let_def)
  let ?m1 = "if b1 then conn_do_send i n1 else n1"
  have "nothing_waits (protocol_impl (conns n2 i)) (shared n2)"
  proof (cases "conn_need_process i ?m1")
    case True
    then obtain ws s w where d: "do_process (\<lambda>k. es (k + 3)) ops (protocol_impl (conns ?m1 i)) (shared ?m1) = Inr (ws, s, w)"
      "n2 = update_conn i (\<lambda>c. c\<lparr> protocol_impl := s, written := written c @ ws \<rparr>) (?m1\<lparr> shared := w \<rparr>)"
      using t(1) by (auto simp: conn_do_process_def bind_eq_Inr)
    from do_process_all [OF d(1)] show ?thesis by (simp add: d(2) nothing_waits_def update_conn_def)
  next
    case False
    then show ?thesis using t(1) no_need_process by (auto simp: conn_need_process_def)
  qed
  from conn_send_idle [OF t(2) this] have m: "idle i m" by (simp add: t(3))
  then show "idle i n'" by (auto simp: t(4) force_shutdown_def cm_remove_def update_conn_def)
  assume "distinct (connections n)" "i \<in> set (connections n')"
  moreover have "connections m = connections n"
    using keeps_need_send(2) [OF t(5)] keeps_need_send(2) [OF t(2)] t(1)
      turn_connections_process(1) [of "\<lambda>k. es (k + 3)" ops i ?m1 n2]
    by (auto simp: t(3) turn_connections split: if_splits)
  ultimately show "\<not> conn_error_occured (conns n' i) \<and> \<not> conn_timeout (es 2) (conns n' i)"
    by (auto simp: t(4) force_shutdown_def cm_remove_def update_conn_def split: if_splits)
qed

section \<open>The invariant of the server\<close>

definition machine_ok :: "'d db_ops \<Rightarrow> 'd server \<Rightarrow> 'd machine \<Rightarrow> bool" where
  "machine_ok ops w0 m \<longleftrightarrow> (case m of (h, n) \<Rightarrow>
     (\<forall>k i. h k = Some i \<longrightarrow> is_working (conns n i)) \<and>
     (\<forall>k k' i. h k = Some i \<and> h k' = Some i \<longrightarrow> k = k') \<and>
     sorted (connections n) \<and> distinct (connections n) \<and> length (connections n) \<le> MAX_SUPPORT_CLIENTS + 1 \<and>
     same_host w0 (shared n) \<and> (\<forall>i. live m i \<longrightarrow> serves ops w0 (protocol_impl (conns n i))))"

lemma machine_ok_init: "net_initial w m \<Longrightarrow> machine_ok ops w m"
  by (auto simp: net_initial_def machine_ok_def live_def)

text \<open>A step that keeps the sessions and the set, and does not free a connection that is busy.\<close>

lemma machine_ok_keeps:
  assumes ok: "machine_ok ops w0 (h, n)" and k: "keeps ops w0 n n'"
    and l: "connections n' = connections n \<or> connections n' = remove1 j (connections n)"
    and w: "\<And>i. is_working (conns n i) \<Longrightarrow> is_working (conns n' i)"
  shows "machine_ok ops w0 (h, n')"
proof -
  have "set (connections n') \<subseteq> set (connections n)" "sorted (connections n')" "distinct (connections n')"
    "length (connections n') \<le> length (connections n)"
    using ok l by (auto simp: machine_ok_def sorted_remove1 length_remove1 dest: notin_set_remove1 split: if_splits)
  with ok k w show ?thesis
    unfolding machine_ok_def live_def keeps_def by auto
qed

lemma start_served:
  "serves ops w0 (protocol_impl (start e utc remote_ip))"
  using served.connect [of ops "accounts w0" "need_authorize (configer w0)" remote_ip e]
  by (auto simp: start_def read_header_def Let_def)

lemma machine_ok_accept:
  assumes ok: "machine_ok ops w0 (h, n)" and new: "i \<notin> set (connections n)" "\<forall>k. h k \<noteq> Some i"
  shows "machine_ok ops w0 (h, handle_accept e utc remote_ip i n)"
proof -
  note s = start_served [of ops w0 e utc remote_ip]
  have c: "conns (handle_accept e utc remote_ip i n) j = conns n j" if "j \<noteq> i" for j
    using that by (simp add: handle_accept_def cm_add_def update_conn_def)
  have w: "shared (handle_accept e utc remote_ip i n) = shared n"
    by (simp add: handle_accept_def cm_add_def update_conn_def)
  show ?thesis
  proof (cases "MAX_SUPPORT_CLIENTS < cm_current_size n \<or> finished n")
    case True
    then have "connections (handle_accept e utc remote_ip i n) = connections n"
      by (auto simp: handle_accept_def cm_add_def update_conn_def)
    with ok new c w show ?thesis by (auto simp: machine_ok_def live_def) metis+
  next
    case False
    then have l: "connections (handle_accept e utc remote_ip i n) = insort i (connections n)"
      "conns (handle_accept e utc remote_ip i n) i = start e utc remote_ip"
      using new(1) by (simp_all add: handle_accept_def cm_add_def update_conn_def insort_insert_insort)
    have "length (connections n) \<le> MAX_SUPPORT_CLIENTS"
      using False by (simp add: cm_current_size_def)
    then have "sorted (connections (handle_accept e utc remote_ip i n))"
      "distinct (connections (handle_accept e utc remote_ip i n))"
      "length (connections (handle_accept e utc remote_ip i n)) \<le> MAX_SUPPORT_CLIENTS + 1"
      using ok new(1) by (simp_all add: l machine_ok_def sorted_insort distinct_insort)
    moreover have "\<forall>k j. h k = Some j \<longrightarrow> j \<noteq> i" using new(2) by auto
    ultimately show ?thesis
      using ok c w s l by (auto simp: machine_ok_def live_def set_insort_key) metis+
  qed
qed

lemma machine_ok_step:
  assumes "net_step ops (h, n) (h', n')" "machine_ok ops w0 (h, n)"
  shows "machine_ok ops w0 (h', n')"
  using assms(1)
proof (cases rule: net_step.cases)
  case (accept i e utc remote_ip)
  then show ?thesis using machine_ok_accept [OF assms(2)] by simp
next
  case (data i e utc octs c w)
  note r = run_reads_serves [OF data(4) [unfolded data_arrives_def], of ops w0]
  have "keeps ops w0 n n'"
    using data(2) r by (auto simp: keeps_def update_conn_def)
  then show ?thesis
    using data r by (intro machine_ok_keeps [OF assms(2), of n' i, folded data(1)]) (auto simp: update_conn_def)
next
  case (read_timer i utc)
  then show ?thesis
    using keeps_flags(1) [where f = "handle_timeout utc" and ops = ops and ?w0.0 = w0 and i = i and n = n]
    by (intro machine_ok_keeps [OF assms(2), of n' i, folded read_timer(1)])
      (auto simp: handle_timeout_def update_conn_def)
next
  case (disconnect i)
  then show ?thesis
    using keeps_flags(3) [where ops = ops and ?w0.0 = w0 and i = i and n = n]
    by (intro machine_ok_keeps [OF assms(2), of n' i, folded disconnect(1)])
      (auto simp: cm_remove_def update_conn_def)
next
  case (idle k es)
  then show ?thesis
    using cm_get_from_steps [OF idle(3) [unfolded cm_get_def], of w0]
    by (intro machine_ok_keeps [OF assms(2), of n' 0, folded idle(1)]) auto
next
  case (get k es i)
  from cm_get_from_steps [OF get(3) [unfolded cm_get_def], of w0]
  have g: "keeps ops w0 n n'" "connections n' = connections n" "i \<in> set (connections n)"
    "\<not> is_working (conns n i)" "conns n' = (conns n)(i := (conns n i)\<lparr> is_working := True \<rparr>)" by auto
  have ok: "machine_ok ops w0 (h, n')"
    by (rule machine_ok_keeps [OF assms(2) g(1)]) (use g in auto)
  have new: "\<forall>k. h k \<noteq> Some i" using assms(2) g(4) by (auto simp: machine_ok_def)
  have l: "live (h', n') j \<Longrightarrow> live (h, n') j" for j
    using get(1) g(2,3) by (auto simp: live_def split: if_splits)
  have "\<forall>k j. h' k = Some j \<longrightarrow> is_working (conns n' j)"
    using ok get(1) g(5) by (auto simp: machine_ok_def split: if_splits)
  moreover have "\<forall>k k' j. h' k = Some j \<and> h' k' = Some j \<longrightarrow> k = k'"
    using ok new get(1) by (auto simp: machine_ok_def split: if_splits)
  ultimately show ?thesis using ok l unfolding machine_ok_def prod.case by blast
next
  case (turn k i es)
  then show ?thesis
    using task_turn_steps [OF turn(3)]
    by (intro machine_ok_keeps [OF assms(2), of n' i, folded turn(1)]) auto
next
  case (free k i)
  have "keeps ops w0 n n'" using free(2) by (simp add: cm_free_def keeps_def update_conn_def)
  moreover have "\<forall>k'. k' \<noteq> k \<longrightarrow> h k' \<noteq> Some i"
    using assms(2) free(3) by (auto simp: machine_ok_def)
  ultimately show ?thesis
    using assms(2) free by (auto simp: machine_ok_def live_def keeps_def cm_free_def update_conn_def)
qed

lemma reachable_ok: "reachable ops w m \<Longrightarrow> machine_ok ops w m"
proof (induction rule: reachable.induct)
  case (step m m')
  then show ?case using machine_ok_step by (cases m; cases m') blast
qed (rule machine_ok_init)

end
