(* ===== verification/Network_Properties.thy ===== *)
theory Network_Properties
  imports Server_Tasks Demo
begin

text \<open>
  The properties of the connections and of the workers that serve them: what a client sends
  arrives as packets, a worker leaves nothing to do, and the workers share the connections.
\<close>

text \<open>A server with one connection that a client sends a bind through; the worker 7 gets it.\<close>

definition demo_net :: "unit net" where
  "demo_net = \<lparr> shared = demo_server, connections = [], conns = (\<lambda>_. start (at 0) 0 []), finished = False \<rparr>"

definition demo_accepted :: "unit net" where
  "demo_accepted = handle_accept (at 0) 0 [49] 3 demo_net"

definition demo_received :: "unit net" where
  "demo_received = (case data_arrives (at 0) 0 bind_packet (conns demo_accepted 3) demo_server of
     Inr (c, w) \<Rightarrow> update_conn 3 (\<lambda>_. c) (demo_accepted\<lparr> shared := w \<rparr>) | Inl er \<Rightarrow> demo_accepted)"

definition demo_got :: "unit net" where
  "demo_got = (case cm_get (\<lambda>_. at 0) demo_ops demo_received of Some (Inr (_, n)) \<Rightarrow> n | _ \<Rightarrow> demo_received)"

lemma demo_turn:
  "case task_turn (\<lambda>_. at 0) demo_ops 3 demo_got of
     Some (Inr n) \<Rightarrow> connections n = [3] \<and> is_bound (protocol_impl (conns n 3)) | _ \<Rightarrow> False"
  by code_simp

lemma demo_steps:
  "case data_arrives (at 0) 0 bind_packet (conns demo_accepted 3) demo_server of Inr (c, w) \<Rightarrow> True | _ \<Rightarrow> False"
  "case cm_get (\<lambda>_. at 0) demo_ops demo_received of Some (Inr (r, n)) \<Rightarrow> r = Some 3 | _ \<Rightarrow> False"
  "connections demo_accepted = [3]" "connections demo_got = [3]"
  by code_simp+

lemma demo_reachable:
  "\<exists>m. reachable demo_ops demo_server m \<and> fst m 7 = Some 3 \<and> connections (snd m) = [3] \<and>
     is_bound (protocol_impl (conns (snd m) 3))"
proof -
  let ?h = "\<lambda>_. None :: nat option"
  have w: "shared demo_accepted = demo_server"
    by (simp add: demo_accepted_def handle_accept_def cm_add_def update_conn_def demo_net_def)
  obtain c v where d: "data_arrives (at 0) 0 bind_packet (conns demo_accepted 3) demo_server = Inr (c, v)"
    using demo_steps(1) by (auto split: sum.splits)
  obtain n where g: "cm_get (\<lambda>_. at 0) demo_ops demo_received = Some (Inr (Some 3, n))" "demo_got = n"
    using demo_steps(2) by (auto simp: demo_got_def split: option.splits sum.splits)
  obtain n' where t: "task_turn (\<lambda>_. at 0) demo_ops 3 demo_got = Some (Inr n')"
    "connections n' = [3]" "is_bound (protocol_impl (conns n' 3))"
    using demo_turn by (auto split: option.splits sum.splits)
  have "reachable demo_ops demo_server (?h, demo_net)"
    by (rule reachable.init) (simp add: net_initial_def demo_net_def)
  then have "reachable demo_ops demo_server (?h, demo_accepted)"
    unfolding demo_accepted_def
    by (rule reachable.step, intro net_step.accept) (simp_all add: demo_net_def)
  then have "reachable demo_ops demo_server (?h, demo_received)"
    unfolding demo_received_def d sum.case prod.case
    by (rule reachable.step [OF _ net_step.data [OF _ d [folded w]]]) (simp add: demo_steps(3))
  then have "reachable demo_ops demo_server (?h(7 := Some 3), demo_got)"
    by (rule reachable.step [OF _ net_step.get [OF _ g(1) [folded g(2)]]]) simp
  then have "reachable demo_ops demo_server (?h(7 := Some 3), n')"
    by (rule reachable.step, intro net_step.turn [OF _ t(1)]) simp
  with t(2,3) show ?thesis by (intro exI [of _ "(?h(7 := Some 3), n')"]) simp
qed

text \<open>
  C25: whatever pieces the octets of a client come in, a new connection puts the packets that
  they are made of into its queue, each once and in order, and keeps the beginning of the next;
  a connection writes the packets that its session has to send, whole and in order, in pieces
  that are not empty and not longer than the MTU.
\<close>

theorem packets_cross_the_network:
  assumes "\<forall>p \<in> set ps. frame_length p = length p" "length rest < frame_length rest"
    and "stream chunks = concat ps @ rest"
  shows "(\<exists>c v. arrivals chunks (start e utc remote_ip) w = Inr (c, v) \<and>
      incoming (protocol_impl c) v = ps \<and> partial c = rest) \<and>
    (do_send s u = (ws, s', u') \<and> pending s u = ps \<longrightarrow>
      concat ws = concat ps \<and> (\<forall>x \<in> set ws. 0 < length x \<and> length x \<le> MTU) \<and> pending s' u' = [])"
proof
  have c: "read_ok (start e utc remote_ip)" "partial (start e utc remote_ip) = []"
    "incoming (protocol_impl (start e utc remote_ip)) w = []"
    by (simp_all add: start_def read_header_def read_ok_def partial_def incoming_def smpp_impl_def
        new_protocol_data_source_def)
  have "frames [] = ([], [])" by (simp add: frames_short frame_length_def)
  with arrivals_frames [OF c(1), of chunks w] c show "\<exists>c v. arrivals chunks (start e utc remote_ip) w = Inr (c, v) \<and>
      incoming (protocol_impl c) v = ps \<and> partial c = rest"
    by (auto simp: assms(3) frames_of_packets [OF assms(1)] frames_short [OF assms(2)])
next
  have "concat (concat (map pieces ps)) = concat ps \<and>
      (\<forall>x \<in> set (concat (map pieces ps)). 0 < length x \<and> length x \<le> MTU)" for ps
    using concat_pieces_octets by (induction ps) (simp_all, blast)
  then show "do_send s u = (ws, s', u') \<and> pending s u = ps \<longrightarrow>
      concat ws = concat ps \<and> (\<forall>x \<in> set ws. 0 < length x \<and> length x \<le> MTU) \<and> pending s' u' = []"
    using do_send_pending [of s u ws s' u'] by metis
qed

theorem packets_cross_the_network_witness:
  "\<exists>c v. arrivals [(at 1, 0, take 3 bind_packet), (at 2, 0, drop 3 bind_packet @ unbind_packet @ [0, 0]), (at 3, 0, [0])]
      (start (at 0) 0 [49]) demo_server = Inr (c, v) \<and>
    incoming (protocol_impl c) v = [bind_packet, unbind_packet] \<and> partial c = [0, 0, 0]"
proof -
  have "frame_length bind_packet = length bind_packet" "frame_length unbind_packet = length unbind_packet"
    "length [0, 0, 0 :: octet] < frame_length [0, 0, 0]" by code_simp+
  then show ?thesis
    using packets_cross_the_network [of "[bind_packet, unbind_packet]" "[0, 0, 0]"
        "[(at 1, 0, take 3 bind_packet), (at 2, 0, drop 3 bind_packet @ unbind_packet @ [0, 0]), (at 3, 0, [0])]"
        "at 0" 0 "[49]" demo_server demo_session demo_server "[]" demo_session demo_server]
    by (simp flip: append_assoc del: arrivals.simps)
qed

text \<open>
  C26: when a worker's turn on a connection is over, no packet of the connection waits to be
  processed and none that its session may send waits to be sent; the connection is out of the
  set when its session ran into errors or a timer ran out, and no other connection leaves.
\<close>

theorem turn_leaves_nothing:
  assumes "task_turn es ops i n = Some (Inr n')" "distinct (connections n)"
  shows "nothing_waits (protocol_impl (conns n' i)) (shared n') \<and>
    pending (protocol_impl (conns n' i)) (shared n') = [] \<and>
    (i \<in> set (connections n') \<longrightarrow> \<not> conn_error_occured (conns n' i) \<and> \<not> conn_timeout (es 2) (conns n' i)) \<and>
    (\<forall>j. j \<noteq> i \<longrightarrow> (j \<in> set (connections n') \<longleftrightarrow> j \<in> set (connections n)))"
  using turn_idle(1) [OF assms(1)] turn_idle(2) [OF assms] task_turn_steps(2) [OF assms(1)] assms(2)
  by auto

theorem turn_leaves_nothing_witness:
  "\<exists>n'. task_turn (\<lambda>_. at 0) demo_ops 3 demo_got = Some (Inr n') \<and> is_bound (protocol_impl (conns n' 3)) \<and>
    3 \<in> set (connections n') \<and> nothing_waits (protocol_impl (conns n' 3)) (shared n') \<and>
    \<not> conn_error_occured (conns n' 3)"
proof -
  obtain n' where t: "task_turn (\<lambda>_. at 0) demo_ops 3 demo_got = Some (Inr n')"
    "connections n' = [3]" "is_bound (protocol_impl (conns n' 3))"
    using demo_turn by (auto split: option.splits sum.splits)
  moreover have "distinct (connections demo_got)" by (simp add: demo_steps)
  ultimately show ?thesis
    using turn_leaves_nothing [OF t(1)] by simp
qed

text \<open>
  C27: however connections are accepted, served, timed out and closed, and whichever workers
  serve them in whichever order: no two workers have the same connection, at most 1000
  connections are open, none twice, and the session of each, if it is bound, has the system id it
  was bound with as its flag, and an account of that system id that may bind from the client's
  address, except a transceiver while need_authorize is off, which is not checked.
\<close>

theorem workers_share_connections:
  assumes "reachable ops w m"
  shows "(\<forall>k k' i. fst m k = Some i \<and> fst m k' = Some i \<longrightarrow> k = k') \<and>
    distinct (connections (snd m)) \<and> length (connections (snd m)) \<le> 1000 \<and>
    (\<forall>i. i \<in> set (connections (snd m)) \<or> (\<exists>k. fst m k = Some i) \<longrightarrow>
      session_ok (accounts w) (need_authorize (configer w)) (protocol_impl (conns (snd m) i)))"
proof -
  obtain h n where m: "m = (h, n)" by (cases m)
  from reachable_ok [OF assms] show ?thesis
    unfolding machine_ok_def live_def m prod.case
    by (auto simp: MAX_SUPPORT_CLIENTS_def dest!: served_ok)
qed

theorem workers_share_connections_witness:
  "\<exists>m. reachable demo_ops demo_server m \<and> fst m 7 = Some 3 \<and> connections (snd m) = [3] \<and>
    is_bound (protocol_impl (conns (snd m) 3)) \<and>
    session_ok (accounts demo_server) True (protocol_impl (conns (snd m) 3))"
proof -
  from demo_reachable obtain m where m: "reachable demo_ops demo_server m" "fst m 7 = Some 3"
    "connections (snd m) = [3]" "is_bound (protocol_impl (conns (snd m) 3))" by blast
  moreover have "need_authorize (configer demo_server)" by (simp add: demo_server_def)
  ultimately show ?thesis
    using workers_share_connections [OF m(1)] by (intro exI [of _ m]) simp
qed

end
