(* ===== verification/Text_Tools.thy ===== *)
theory Text_Tools
  imports Short_Messages
begin

text \<open>
  The text functions that the client uses (\<open>src/public/algorithm_toolkit/algorithm.hpp\<close>): splitting
  at a separator, comparison without regard to case, and the conversion of decimal text.
\<close>

section \<open>Splitting\<close>

text \<open>
  \<open>boost::split_regex\<close> for a separator of one octet that is no operator of regular expressions,
  as all callers have it. Each part goes through \<open>stream >> word\<close>, which keeps its first word.
\<close>

fun split_regex :: "octet \<Rightarrow> octets \<Rightarrow> octets list" where
  "split_regex sep [] = [[]]"
| "split_regex sep (c # cs) = (if c = sep then [] # split_regex sep cs
     else case split_regex sep cs of [] \<Rightarrow> [[c]] | p # ps \<Rightarrow> (c # p) # ps)"

definition first_word :: "octets \<Rightarrow> octets" where
  "first_word s = takeWhile (\<lambda>c. \<not> is_space c) (dropWhile is_space s)"

definition split_by_separator :: "octets \<Rightarrow> octet \<Rightarrow> octets list" where
  "split_by_separator s sep = (if length s > 0 then map first_word (split_regex sep s) else [])"

lemma split_regex_Nil [simp]: "split_regex sep s \<noteq> []"
  by (cases s) (auto split: list.splits)

lemma split_regex_part: "sep \<notin> set s \<Longrightarrow> split_regex sep s = [s]"
  by (induction s) auto

lemma split_regex_append:
  "sep \<notin> set s \<Longrightarrow> split_regex sep (s @ sep # t) = s # split_regex sep t"
  by (induction s) auto

lemma first_word_word: "\<forall>c \<in> set s. \<not> is_space c \<Longrightarrow> first_word s = s"
  by (cases s) (simp_all add: first_word_def takeWhile_eq_all_conv)

section \<open>Comparison\<close>

definition lower :: "octet \<Rightarrow> octet" where
  "lower c = (if 65 \<le> c \<and> c \<le> 90 then c + 32 else c)"

fun string_compare :: "octets \<Rightarrow> octets \<Rightarrow> int" where
  "string_compare [] [] = 0"
| "string_compare [] (b # bs) = - 1"
| "string_compare (a # as) [] = 1"
| "string_compare (a # as) (b # bs) =
     (if a < b then - 1 else if b < a then 1 else string_compare as bs)"

definition compare_string_nocase :: "octets \<Rightarrow> octets \<Rightarrow> int" where
  "compare_string_nocase s1 s2 = string_compare (map lower s1) (map lower s2)"

lemma string_compare_0: "string_compare a b = 0 \<longleftrightarrow> a = b"
  by (induction a b rule: string_compare.induct) auto

lemma compare_nocase_0: "compare_string_nocase s1 s2 = 0 \<longleftrightarrow> map lower s1 = map lower s2"
  by (simp add: compare_string_nocase_def string_compare_0)

section \<open>Decimal text\<close>

definition is_digit :: "octet \<Rightarrow> bool" where
  "is_digit c \<longleftrightarrow> 48 \<le> c \<and> c \<le> 57"

fun string_is_number_only :: "octets \<Rightarrow> bool" where
  "string_is_number_only [] = False"
| "string_is_number_only (c # cs) =
     (if is_digit c then list_all is_digit (c # cs)
      else if c \<noteq> 45 then False else list_all is_digit cs)"

fun read_digits :: "nat \<Rightarrow> octets \<Rightarrow> nat" where
  "read_digits acc [] = acc"
| "read_digits acc (c # cs) = (if is_digit c then read_digits (10 * acc + unat (c - 48)) cs else acc)"

text \<open>
  \<open>stream >> value\<close> for an \<open>unsigned int\<close> and an \<open>int\<close>: blanks, an optional sign, digits; a value out
  of range gives the nearest one, and no digits give 0.
\<close>

definition read_uint32 :: "octets \<Rightarrow> uint32" where
  "read_uint32 s =
     (let (negative, s) = skip_sign (dropWhile is_space s); n = read_digits 0 s
      in if n > 0xffffffff then 0xffffffff else if negative then - of_nat n else of_nat n)"

definition read_int :: "octets \<Rightarrow> int" where
  "read_int s =
     (let (negative, s) = skip_sign (dropWhile is_space s); n = int (read_digits 0 s)
      in if negative then max (- 0x80000000) (- n) else min 0x7fffffff n)"

definition format_decimal_string_to_hex_string :: "octets \<Rightarrow> octets" where
  "format_decimal_string_to_hex_string dec = map upper (hex_string (unat (read_uint32 dec)))"

text \<open>Printing and reading, with any number of zeros in front.\<close>

lemma is_digit_digit: "d < 10 \<Longrightarrow> is_digit (digit d)" "d < 10 \<Longrightarrow> unat (digit d - 48) = d"
proof -
  assume d: "d < 10"
  then have "unat (digit d) = 48 + d" by (simp add: unat_digit)
  then show "is_digit (digit d)" using d by (simp add: is_digit_def word_le_nat_alt)
  have "digit d - 48 = of_nat d" using d by (simp add: digit_def)
  then show "unat (digit d - 48) = d" using d by (simp add: unat_of_nat take_bit_nat_eq_self)
qed

lemma read_digits_append:
  "list_all is_digit xs \<Longrightarrow> read_digits acc (xs @ ys) = read_digits (read_digits acc xs) ys"
  by (induction xs arbitrary: acc) auto

lemma decimal_digits: "list_all is_digit (decimal n)"
proof (induction n rule: decimal.induct)
  case (1 n)
  then show ?case by (subst decimal.simps) (simp add: is_digit_digit)
qed

lemma read_decimal: "read_digits 0 (decimal n) = n"
proof (induction n rule: decimal.induct)
  case (1 n)
  show ?case
  proof (cases "n < 10")
    case True
    then show ?thesis by (subst decimal.simps) (simp add: is_digit_digit)
  next
    case False
    with 1 show ?thesis
      by (subst decimal.simps) (simp add: read_digits_append decimal_digits is_digit_digit)
  qed
qed

lemma pad_digits: "list_all is_digit (pad_left len (decimal n))" "read_digits 0 (pad_left len (decimal n)) = n"
proof -
  have z: "list_all is_digit (replicate k 48)" "read_digits 0 (replicate k 48) = 0" for k
    by (induction k) (simp_all add: is_digit_def)
  show "list_all is_digit (pad_left len (decimal n))" "read_digits 0 (pad_left len (decimal n)) = n"
    by (simp_all add: pad_left_def z decimal_digits read_digits_append read_decimal)
qed

lemma decimal_neq_Nil [simp]: "decimal n \<noteq> []" "pad_left len (decimal n) \<noteq> []"
  by (subst decimal.simps, simp) (subst decimal.simps, simp add: pad_left_def)

lemma digits_start:
  assumes "list_all is_digit s"
  shows "dropWhile is_space s = s" "skip_sign s = (False, s)"
  using assms by (cases s; auto simp: is_digit_def is_space_def word_le_nat_alt)+

lemma number_only: "list_all is_digit s \<Longrightarrow> s \<noteq> [] \<Longrightarrow> string_is_number_only s"
  by (cases s) auto

lemma digit_no_space: "is_digit c \<Longrightarrow> \<not> is_space c" "is_digit c \<Longrightarrow> c \<noteq> 32 \<and> c \<noteq> 58"
  by (auto simp: is_digit_def is_space_def word_le_nat_alt)

text \<open>A message id that was turned to decimal text is turned back.\<close>

lemma decimal_to_hex:
  "format_decimal_string_to_hex_string (format_hex_string_to_decimal_string (hex_string (unat (n :: uint32))) len) =
   hex_string (unat n)"
proof -
  have "unat n \<le> 0xffffffff"
    using unsigned_less [of n, where ?'a = nat] by simp
  moreover have "\<exists>s. format_hex_string_to_decimal_string (hex_string (unat n)) len = s \<and>
      list_all is_digit s \<and> read_digits 0 s = unat n"
    by (simp add: hex_to_decimal pad_digits decimal_digits read_decimal)
  ultimately have "read_uint32 (format_hex_string_to_decimal_string (hex_string (unat n)) len) = n"
    using digits_start by (auto simp: read_uint32_def Let_def)
  then show ?thesis by (simp add: format_decimal_string_to_hex_string_def)
qed

end
