(* ===== verification/Client_Datasource.thy ===== *)
theory Client_Datasource
  imports Text_Tools "HOL-Library.Multiset"
begin

text \<open>
  The message lists of a client (\<open>src/public/client_common/client_data_source_manager.cpp\<close>) and the
  counters of the client program (\<open>clients_statistic.hpp\<close>).

  \<open>now\<close> is the value of \<open>time(NULL)\<close>. What is given to \<open>record_dlr_to_db\<close> and \<open>record_mos_to_db\<close> is
  kept in two lists.
\<close>

section \<open>Counters\<close>

record clients_statistic =
  total_received_ct :: uint64
  total_submit_ct :: uint64
  total_ack_received_ct :: uint64
  total_delivered_ct :: uint64
  total_waiting_dlr_timeout_ct :: uint64
  total_waiting_ack_timeout_ct :: uint64
  total_pushed_dlrs_ct :: uint64
  total_mos_ct :: uint64
  total_pushed_mos_ct :: uint64
  total_submit_failed_ct :: uint64

definition new_clients_statistic :: clients_statistic where
  "new_clients_statistic = \<lparr> total_received_ct = 0, total_submit_ct = 0, total_ack_received_ct = 0,
     total_delivered_ct = 0, total_waiting_dlr_timeout_ct = 0, total_waiting_ack_timeout_ct = 0,
     total_pushed_dlrs_ct = 0, total_mos_ct = 0, total_pushed_mos_ct = 0, total_submit_failed_ct = 0 \<rparr>"

definition ct_sms_received :: "int \<Rightarrow> clients_statistic \<Rightarrow> clients_statistic" where
  "ct_sms_received k t = t\<lparr> total_received_ct := total_received_ct t + of_int k \<rparr>"

definition ct_an_ack_is_received :: "clients_statistic \<Rightarrow> clients_statistic" where
  "ct_an_ack_is_received t = t\<lparr> total_ack_received_ct := total_ack_received_ct t + 1 \<rparr>"

definition ct_a_sm_is_delivered :: "clients_statistic \<Rightarrow> clients_statistic" where
  "ct_a_sm_is_delivered t = t\<lparr> total_delivered_ct := total_delivered_ct t + 1 \<rparr>"

definition ct_submit_sms :: "int \<Rightarrow> clients_statistic \<Rightarrow> clients_statistic" where
  "ct_submit_sms k t = t\<lparr> total_submit_ct := total_submit_ct t + of_int k \<rparr>"

definition ct_push_dlrs :: "int \<Rightarrow> clients_statistic \<Rightarrow> clients_statistic" where
  "ct_push_dlrs k t = t\<lparr> total_pushed_dlrs_ct := total_pushed_dlrs_ct t + of_int k \<rparr>"

definition ct_push_mos :: "int \<Rightarrow> clients_statistic \<Rightarrow> clients_statistic" where
  "ct_push_mos k t = t\<lparr> total_pushed_mos_ct := total_pushed_mos_ct t + of_int k \<rparr>"

definition ct_a_mo_received :: "clients_statistic \<Rightarrow> clients_statistic" where
  "ct_a_mo_received t = t\<lparr> total_mos_ct := total_mos_ct t + 1 \<rparr>"

definition ct_submit_failed :: "clients_statistic \<Rightarrow> clients_statistic" where
  "ct_submit_failed t = t\<lparr> total_submit_failed_ct := total_submit_failed_ct t + 1 \<rparr>"

section \<open>State\<close>

record client_data_source =
  to_submit_list :: "cb_sm_information list"
  delivering_list :: "cb_sm_information list"
  delivered_list :: "cb_sm_information list"
  received_mos :: "cb_sm_information list"
  waiting_dlr_timeout_list :: "cb_sm_information list"
  cds_flag :: octets

definition new_client_data_source :: "octets \<Rightarrow> client_data_source" where
  "new_client_data_source flag = \<lparr> to_submit_list = [], delivering_list = [], delivered_list = [],
     received_mos = [], waiting_dlr_timeout_list = [], cds_flag = flag \<rparr>"

text \<open>What all clients of the process share.\<close>

record client_host =
  cdsps :: "client_data_source list"
  counters :: clients_statistic
  recorded_dlrs :: "cb_sm_information list"
  recorded_mos :: "cb_sm_information list"
  numbers :: sn_generator

text \<open>\<open>get_data_source(flag)->op\<close>: the first entry with the flag, appended if there is none.\<close>

fun on_data_source :: "octets \<Rightarrow> (client_data_source \<Rightarrow> client_data_source) \<Rightarrow> client_data_source list \<Rightarrow>
    client_data_source list" where
  "on_data_source flag f [] = [f (new_client_data_source flag)]"
| "on_data_source flag f (d # ds) = (if cds_flag d = flag then f d # ds else d # on_data_source flag f ds)"

definition data_source :: "octets \<Rightarrow> client_data_source list \<Rightarrow> client_data_source" where
  "data_source flag ds = (case find (\<lambda>d. cds_flag d = flag) ds of
     Some d \<Rightarrow> d | None \<Rightarrow> new_client_data_source flag)"

definition update_source :: "octets \<Rightarrow> (client_data_source \<Rightarrow> client_data_source) \<Rightarrow>
    (clients_statistic \<Rightarrow> clients_statistic) \<Rightarrow> client_host \<Rightarrow> client_host" where
  "update_source flag f g h = h\<lparr> cdsps := on_data_source flag f (cdsps h), counters := g (counters h) \<rparr>"

abbreviation the_source :: "octets \<Rightarrow> client_host \<Rightarrow> client_data_source" where
  "the_source flag h \<equiv> data_source flag (cdsps h)"

section \<open>Operations\<close>

definition cds_is_free :: "octets \<Rightarrow> client_host \<Rightarrow> bool" where
  "cds_is_free flag h = (let d = the_source flag h in
     if to_submit_list d \<noteq> [] then False
     else if delivered_list d \<noteq> [] then False
     else if delivered_list d \<noteq> [] then False
     else if received_mos d \<noteq> [] then False
     else if waiting_dlr_timeout_list d \<noteq> [] then False
     else True)"

definition add_smis :: "octets \<Rightarrow> cb_sm_information list \<Rightarrow> client_host \<Rightarrow> client_host" where
  "add_smis flag smis = update_source flag (\<lambda>d. d\<lparr> to_submit_list := to_submit_list d @ smis \<rparr>)
     (ct_sms_received (int (length smis)))"

definition get_to_submit :: "octets \<Rightarrow> client_host \<Rightarrow> cb_sm_information option \<times> client_host" where
  "get_to_submit flag h = (case to_submit_list (the_source flag h) of
     [] \<Rightarrow> (None, update_source flag (\<lambda>d. d) (\<lambda>t. t) h)
   | smi # _ \<Rightarrow> (Some smi, update_source flag (\<lambda>d. d\<lparr> to_submit_list := tl (to_submit_list d) \<rparr>)
       (ct_submit_sms 1) h))"

definition sm_is_delivering :: "octets \<Rightarrow> bool \<Rightarrow> uint64 \<Rightarrow> cb_sm_information \<Rightarrow> client_host \<Rightarrow> client_host" where
  "sm_is_delivering flag is_gateway now smi =
     (let smi = (if is_gateway then smi\<lparr> delivering_time_of_gateway := now \<rparr>
                 else smi\<lparr> delivering_time_of_client := now \<rparr>)
      in update_source flag (\<lambda>d. d\<lparr> delivering_list := delivering_list d @ [smi] \<rparr>) (\<lambda>t. t))"

text \<open>The message id as the submit response had it.\<close>

definition real_message_id :: "bool \<Rightarrow> octets \<Rightarrow> octets" where
  "real_message_id use_hex message_id =
     (if use_hex then
        (let real = (if string_is_number_only message_id then format_decimal_string_to_hex_string message_id
                     else message_id)
         in if length real = 0 then message_id else real)
      else message_id)"

definition ack_message_id :: "bool \<Rightarrow> cb_sm_information \<Rightarrow> octets" where
  "ack_message_id is_gateway smi =
     (if is_gateway then message_id_of_provider smi else message_id_of_protocol_server smi)"

text \<open>The first element that satisfies \<open>P\<close>, and the list without it.\<close>

fun extract_first :: "('a \<Rightarrow> bool) \<Rightarrow> 'a list \<Rightarrow> ('a \<times> 'a list) option" where
  "extract_first P [] = None"
| "extract_first P (x # xs) = (if P x then Some (x, xs)
     else case extract_first P xs of None \<Rightarrow> None | Some (y, ys) \<Rightarrow> Some (y, x # ys))"

definition delivered_smi :: "bool \<Rightarrow> uint64 \<Rightarrow> octets \<Rightarrow> int \<Rightarrow> cb_sm_information \<Rightarrow> cb_sm_information" where
  "delivered_smi is_gateway now stat err smi =
     (let smi = smi\<lparr> error_status := stat, error_code := of_int err \<rparr>
      in if is_gateway then smi\<lparr> delivery_time_of_gateway := now \<rparr>
         else smi\<lparr> delivery_time_of_client := now \<rparr>)"

definition sm_is_delivered :: "octets \<Rightarrow> bool \<Rightarrow> uint64 \<Rightarrow> octets \<Rightarrow> octets \<Rightarrow> int \<Rightarrow> bool \<Rightarrow> client_host \<Rightarrow>
    bool \<times> client_host" where
  "sm_is_delivered flag is_gateway now message_id stat err use_hex h =
     (case extract_first (\<lambda>m. compare_string_nocase (ack_message_id is_gateway m)
            (real_message_id use_hex message_id) = 0) (delivering_list (the_source flag h)) of
        None \<Rightarrow> (False, update_source flag (\<lambda>d. d) (\<lambda>t. t) h)
      | Some (smi, rest) \<Rightarrow>
          (let smi = delivered_smi is_gateway now stat err smi;
               h = update_source flag (\<lambda>d. d\<lparr> delivering_list := rest,
                     delivered_list := delivered_list d @ [smi] \<rparr>) ct_a_sm_is_delivered h
           in (True, h\<lparr> recorded_dlrs := recorded_dlrs h @ [smi] \<rparr>)))"

definition mo_received :: "octets \<Rightarrow> bool \<Rightarrow> uint64 \<Rightarrow> octets \<Rightarrow> uint32 \<Rightarrow> octets \<Rightarrow> octets \<Rightarrow> octet \<Rightarrow>
    octets \<Rightarrow> client_host \<Rightarrow> client_host" where
  "mo_received flag is_gateway now sid sn src dst dc txt h =
     (let smi = new_cb_sm_information\<lparr> smi_systemid := sid \<rparr>;
          smi = (if is_gateway then smi\<lparr> sn_by_provider := sn, delivering_time_of_gateway := now \<rparr>
                 else smi\<lparr> sn_by_protocol_server := sn, delivery_time_of_client := now \<rparr>);
          smi = smi\<lparr> src_addr := src, dst_addr := dst, datacoding_type := dc, content := txt \<rparr>;
          h = update_source flag (\<lambda>d. d\<lparr> received_mos := received_mos d @ [smi] \<rparr>) ct_a_mo_received h
      in h\<lparr> recorded_mos := recorded_mos h @ [smi] \<rparr>)"

definition cds_get_mos :: "octets \<Rightarrow> client_host \<Rightarrow> cb_sm_information list \<times> client_host" where
  "cds_get_mos flag h = (let smis = received_mos (the_source flag h) in
     (smis, update_source flag (\<lambda>d. d\<lparr> received_mos := [] \<rparr>)
        (if smis = [] then (\<lambda>t. t) else ct_push_mos (int (length smis))) h))"

definition cds_submit_failed :: "octets \<Rightarrow> cb_sm_information \<Rightarrow> client_host \<Rightarrow> client_host" where
  "cds_submit_failed flag smi =
     update_source flag (\<lambda>d. d\<lparr> delivered_list := delivered_list d @ [smi] \<rparr>) ct_submit_failed"

text \<open>\<open>(int)(time(NULL) - t)\<close>.\<close>

definition elapsed :: "uint64 \<Rightarrow> uint64 \<Rightarrow> int" where
  "elapsed now t = sint (ucast (now - t) :: 32 word)"

definition delivering_time :: "bool \<Rightarrow> cb_sm_information \<Rightarrow> uint64" where
  "delivering_time is_gateway smi =
     (if is_gateway then delivering_time_of_gateway smi else delivering_time_of_client smi)"

definition DLR_STAT_DLR_TIMEOUT :: octets where "DLR_STAT_DLR_TIMEOUT = ascii ''CBDLRTO''"

definition process_waiting_dlr_timeout :: "octets \<Rightarrow> bool \<Rightarrow> uint64 \<Rightarrow> int \<Rightarrow> client_host \<Rightarrow> client_host" where
  "process_waiting_dlr_timeout flag is_gateway now waiting_time h =
     (let late = (\<lambda>m. elapsed now (delivering_time is_gateway m) > waiting_time);
          l = delivering_list (the_source flag h);
          h = update_source flag (\<lambda>d. d\<lparr> delivering_list := filter (\<lambda>m. \<not> late m) l \<rparr>) (\<lambda>t. t) h
      in fold (\<lambda>m. cds_submit_failed flag (m\<lparr> error_status := DLR_STAT_DLR_TIMEOUT \<rparr>)) (filter late l) h)"

text \<open>The loop takes a message before it looks at the count.\<close>

definition cds_get_global_status :: "octets \<Rightarrow> int \<Rightarrow> client_host \<Rightarrow> cb_sm_information list \<times> client_host" where
  "cds_get_global_status flag to_get h =
     (let l = delivered_list (the_source flag h); k = nat (max 1 to_get) in
      if l = [] then ([], update_source flag (\<lambda>d. d) (\<lambda>t. t) h)
      else (take k l, update_source flag (\<lambda>d. d\<lparr> delivered_list := drop k l \<rparr>)
             (ct_push_dlrs (int (length (take k l)))) h))"

definition get_delivering_smis_count :: "octets \<Rightarrow> client_host \<Rightarrow> nat" where
  "get_delivering_smis_count flag h = length (delivering_list (the_source flag h))"

definition get_to_submit_smis_count :: "octets \<Rightarrow> client_host \<Rightarrow> nat" where
  "get_to_submit_smis_count flag h = length (to_submit_list (the_source flag h))"

definition get_all_to_submit_smis :: "octets \<Rightarrow> client_host \<Rightarrow> cb_sm_information list \<times> client_host" where
  "get_all_to_submit_smis flag h =
     (to_submit_list (the_source flag h), update_source flag (\<lambda>d. d\<lparr> to_submit_list := [] \<rparr>) (\<lambda>t. t) h)"

section \<open>What the operations do to the lists\<close>

lemma data_source_flag_of [simp]: "cds_flag (data_source flag ds) = flag"
proof (cases "find (\<lambda>d. cds_flag d = flag) ds")
  case None
  then show ?thesis by (simp add: data_source_def new_client_data_source_def)
next
  case (Some d)
  then have "cds_flag d = flag" by (auto simp: find_Some_iff)
  with Some show ?thesis by (simp add: data_source_def)
qed

lemma data_source_on:
  assumes "\<And>d. cds_flag (f d) = cds_flag d"
  shows "data_source g (on_data_source flag f ds) =
    (if g = flag then f (data_source flag ds) else data_source g ds)"
  using assms by (induction ds) (auto simp: data_source_def new_client_data_source_def)

lemma the_source_update [simp]:
  "(\<And>d. cds_flag (f d) = cds_flag d) \<Longrightarrow> the_source g (update_source flag f t h) =
     (if g = flag then f (the_source flag h) else the_source g h)"
  by (simp add: update_source_def data_source_on)

lemma the_source_recorded [simp]:
  "the_source g (h\<lparr> recorded_dlrs := l \<rparr>) = the_source g h" "the_source g (h\<lparr> recorded_mos := l \<rparr>) = the_source g h"
  by simp_all

lemma extract_first_mset: "extract_first P xs = Some (x, ys) \<Longrightarrow> P x \<and> mset xs = add_mset x (mset ys)"
  by (induction xs arbitrary: ys) (auto split: if_splits option.splits)

lemma extract_first_append:
  "\<forall>x \<in> set xs. \<not> P x \<Longrightarrow> P y \<Longrightarrow> extract_first P (xs @ y # zs) = Some (y, xs @ zs)"
  by (induction xs) auto

text \<open>All messages that a data source holds for submission, of which a receipt is awaited, or whose fate is known.\<close>

definition held :: "client_data_source \<Rightarrow> cb_sm_information list" where
  "held d = to_submit_list d @ delivering_list d @ delivered_list d"

lemma fold_submit_failed:
  "the_source g (fold (\<lambda>m. cds_submit_failed flag (f m)) ms h) =
     (if g = flag then (the_source flag h)\<lparr> delivered_list := delivered_list (the_source flag h) @ map f ms \<rparr>
      else the_source g h)"
  by (induction ms arbitrary: h) (auto simp: cds_submit_failed_def)

lemma the_source_ops:
  "the_source g (add_smis flag smis h) = (if g = flag then (the_source flag h)
     \<lparr> to_submit_list := to_submit_list (the_source flag h) @ smis \<rparr> else the_source g h)"
  "the_source g (sm_is_delivering flag gw now smi h) = (if g = flag then (the_source flag h)
     \<lparr> delivering_list := delivering_list (the_source flag h) @ [if gw then smi\<lparr> delivering_time_of_gateway := now \<rparr>
        else smi\<lparr> delivering_time_of_client := now \<rparr>] \<rparr> else the_source g h)"
  "the_source g (cds_submit_failed flag smi h) = (if g = flag then (the_source flag h)
     \<lparr> delivered_list := delivered_list (the_source flag h) @ [smi] \<rparr> else the_source g h)"
  by (simp_all add: add_smis_def sm_is_delivering_def cds_submit_failed_def Let_def)

lemma to_submit_taken:
  "get_to_submit flag h = (r, h') \<Longrightarrow> the_source flag h' = (the_source flag h)
     \<lparr> to_submit_list := tl (to_submit_list (the_source flag h)) \<rparr> \<and>
   r = (case to_submit_list (the_source flag h) of [] \<Rightarrow> None | smi # _ \<Rightarrow> Some smi)"
  by (auto simp: get_to_submit_def split: list.splits)

end
