(* ===== verification/Sync_Tcp_Client.thy ===== *)
theory Sync_Tcp_Client
  imports Pdu_Header
begin

text \<open>
  The blocking socket of the client (\<open>src/public/protocol_public/sync_tcp_client.cpp\<close>), in its Boost
  variant. \<open>arriving\<close> has what the next calls of \<open>read_some\<close> find in the socket, one list of octets
  for each call that needs new ones; \<open>sent\<close> is what was written on the present connection.
\<close>

record sync_tcp_client =
  connected :: bool
  arriving :: "octets list"
  sent :: octets

text \<open>
  \<open>disconnect\<close> calls the virtual function \<open>connection_interrupted\<close>, an argument here, unless it is
  told that an error occurred.
\<close>

definition sync_disconnect :: "('a sync_tcp_client_scheme \<Rightarrow> 'a sync_tcp_client_scheme) \<Rightarrow> bool \<Rightarrow>
    'a sync_tcp_client_scheme \<Rightarrow> 'a sync_tcp_client_scheme" where
  "sync_disconnect interrupted error_occurred c =
     (if connected c then
        (let c = c\<lparr> connected := False \<rparr> in if \<not> error_occurred then interrupted c else c)
      else c)"

text \<open>\<open>up\<close> says whether the host connects. \<open>connection_established\<close> does nothing.\<close>

definition connect :: "bool \<Rightarrow> 'a sync_tcp_client_scheme \<Rightarrow> 'a sync_tcp_client_scheme" where
  "connect up c = (if up then c\<lparr> connected := True, arriving := [], sent := [] \<rparr> else c)"

fun connect_times :: "nat \<Rightarrow> (nat \<Rightarrow> bool) \<Rightarrow> 'a sync_tcp_client_scheme \<Rightarrow> bool \<times> 'a sync_tcp_client_scheme" where
  "connect_times 0 ups c = (False, c)"
| "connect_times (Suc k) ups c =
     (let c = connect (ups 0) c in
      if connected c then (True, c) else connect_times k (ups \<circ> Suc) c)"

definition connect_for :: "nat \<Rightarrow> (nat \<Rightarrow> bool) \<Rightarrow> 'a sync_tcp_client_scheme \<Rightarrow>
    bool \<times> 'a sync_tcp_client_scheme" where
  "connect_for milliseconds = connect_times (milliseconds div 1000)"

text \<open>
  \<open>write_some\<close> takes some of the octets, at most as many as \<open>room\<close>, or throws; what is not all is
  an error.
\<close>

definition sync_write :: "nat option \<Rightarrow> octets \<Rightarrow> 'a sync_tcp_client_scheme \<Rightarrow>
    bool \<times> 'a sync_tcp_client_scheme" where
  "sync_write room d c =
     (if \<not> connected c then (False, c)
      else if length d = 0 then (True, c)
      else case room of
          None \<Rightarrow> (False, c)
        | Some k \<Rightarrow>
            let written = take k d
            in (length written = length d, c\<lparr> sent := sent c @ written \<rparr>))"

text \<open>\<open>read_some\<close> returns what is there, at most \<open>n\<close> octets; the rest stays for the next call.\<close>

definition read_some :: "nat \<Rightarrow> octets list \<Rightarrow> (octets \<times> octets list) option" where
  "read_some n chunks = (case chunks of
     [] \<Rightarrow> None
   | x # xs \<Rightarrow> Some (take n x, if length x > n then drop n x # xs else xs))"

definition sync_read :: "nat \<Rightarrow> 'a sync_tcp_client_scheme \<Rightarrow> octets option \<times> 'a sync_tcp_client_scheme" where
  "sync_read n c =
     (if \<not> connected c then (None, c)
      else if n = 0 then (Some [], c)
      else case read_some n (arriving c) of
          None \<Rightarrow> (None, c)
        | Some (d, rest) \<Rightarrow>
            (if length d = n then Some d else None, c\<lparr> arriving := rest \<rparr>))"

definition max_body_length :: nat where "max_body_length = 1024"
definition header_length :: nat where "header_length = 16"

text \<open>A packet, if the reads are complete.\<close>

definition read_resp :: "('a sync_tcp_client_scheme \<Rightarrow> 'a sync_tcp_client_scheme) \<Rightarrow>
    'a sync_tcp_client_scheme \<Rightarrow> octets option \<times> 'a sync_tcp_client_scheme" where
  "read_resp interrupted c =
     (if \<not> connected c then (None, c) else
      case sync_read header_length c of
        (None, c) \<Rightarrow> (None, c)
      | (Some h, c) \<Rightarrow>
          (let total_length = (case get_wire32 h of Inr n \<Rightarrow> unat n | Inl _ \<Rightarrow> 0) in
           if total_length > max_body_length + header_length
           then (None, sync_disconnect interrupted True c)
           else if total_length > header_length
           then (case sync_read (total_length - header_length) c of
                   (None, c) \<Rightarrow> (None, c)
                 | (Some b, c) \<Rightarrow> (Some (h @ b), c))
           else (Some h, c)))"

section \<open>Packets in whole pieces\<close>

text \<open>
  A packet arrives when its header and its body each come in one piece, or the whole packet does,
  possibly with more behind it.
\<close>

lemma sync_read_piece:
  assumes "connected c" "0 < n" "arriving c = x # xs" "n \<le> length x"
  shows "sync_read n c = (Some (take n x), c\<lparr> arriving := if length x > n then drop n x # xs else xs \<rparr>)"
  using assms by (simp add: sync_read_def read_some_def min_absorb2)

text \<open>A header that comes in two pieces is dropped, and what follows is taken for a header.\<close>

lemma sync_read_short:
  assumes "connected c" "arriving c = x # xs" "length x < n"
  shows "sync_read n c = (None, c\<lparr> arriving := xs \<rparr>)"
  using assms by (simp add: sync_read_def read_some_def)

definition wire_length :: "octets \<Rightarrow> nat" where
  "wire_length p = (case get_wire32 p of Inr n \<Rightarrow> unat n | Inl _ \<Rightarrow> 0)"

lemma wire_length_take: "4 \<le> k \<Longrightarrow> wire_length (take k p) = wire_length p"
  by (auto simp: wire_length_def get_wire32_def min_def)

definition whole_packet :: "octets \<Rightarrow> bool" where
  "whole_packet p \<longleftrightarrow> header_length \<le> length p \<and> wire_length p = length p \<and>
     length p \<le> max_body_length + header_length"

lemma read_resp_first:
  assumes "connected c" "arriving c = (p @ rest) # xs"
    and "whole_packet p"
  shows "read_resp interrupted c = (Some p, c\<lparr> arriving := if rest = [] then xs else rest # xs \<rparr>)"
proof -
  have w: "header_length \<le> length p" "wire_length p = length p" "length p \<le> max_body_length + header_length"
    using assms(3) by (simp_all add: whole_packet_def)
  let ?y = "p @ rest"
  have h: "take header_length ?y = take header_length p" "(case get_wire32 (take header_length p) of
      Inr n \<Rightarrow> unat n | Inl _ \<Rightarrow> 0) = length p"
    using w(1,2) wire_length_take [of header_length p] by (simp_all add: header_length_def wire_length_def)
  let ?c = "c\<lparr> arriving := if length ?y > header_length then drop header_length ?y # xs else xs \<rparr>"
  have r: "sync_read header_length c = (Some (take header_length p), ?c)"
    using sync_read_piece [of c header_length ?y xs] assms(1,2) w(1) h(1) by (simp add: header_length_def)
  show ?thesis
  proof (cases "header_length < length p")
    case False
    with w(1) have e: "length p = header_length" by simp
    with r h w assms(1) show ?thesis
      by (cases rest) (auto simp: read_resp_def Let_def max_body_length_def)
  next
    case True
    let ?z = "drop header_length ?y" and ?k = "length p - header_length"
    have z: "?z = drop header_length p @ rest" using True by simp
    have "sync_read ?k ?c = (Some (take ?k ?z), ?c\<lparr> arriving := if length ?z > ?k then drop ?k ?z # xs else xs \<rparr>)"
      by (rule sync_read_piece) (use assms(1) True in simp_all)
    moreover have "length ?z > ?k \<longleftrightarrow> rest \<noteq> []" using True by (cases rest) auto
    ultimately show ?thesis
      using r h True w assms(1) unfolding z by (simp add: read_resp_def Let_def)
  qed
qed

text \<open>The receiver reads until it has read \<open>n\<close> times; what is not a packet is \<open>None\<close>.\<close>

fun read_resps :: "nat \<Rightarrow> ('a sync_tcp_client_scheme \<Rightarrow> 'a sync_tcp_client_scheme) \<Rightarrow>
    'a sync_tcp_client_scheme \<Rightarrow> octets option list \<times> 'a sync_tcp_client_scheme" where
  "read_resps 0 interrupted c = ([], c)"
| "read_resps (Suc n) interrupted c =
     (let (r, c) = read_resp interrupted c; (rs, c) = read_resps n interrupted c in (r # rs, c))"

text \<open>Pieces of whole packets, each with one packet or more, are read as these packets.\<close>

lemma read_resps_pieces:
  assumes "connected c" "arriving c = map concat pss" "\<forall>ps \<in> set pss. ps \<noteq> [] \<and> list_all whole_packet ps"
  shows "read_resps (length (concat pss)) interrupted c = (map Some (concat pss), c\<lparr> arriving := [] \<rparr>)"
  using assms
proof (induction "length (concat pss)" arbitrary: c pss)
  case 0
  then have "pss = []" by (cases pss) auto
  with 0 show ?case by simp
next
  case (Suc n)
  then obtain p ps qss where pss: "pss = (p # ps) # qss"
    by (cases pss; cases "hd pss") auto
  let ?pss = "if ps = [] then qss else ps # qss"
  have w: "whole_packet p" "\<forall>p \<in> set ps. p \<noteq> []"
    using Suc.prems(3) by (auto simp: pss list_all_iff whole_packet_def header_length_def)
  have "concat ps = [] \<longleftrightarrow> ps = []" using w(2) by (cases ps) auto
  then have r: "read_resp interrupted c = (Some p, c\<lparr> arriving := map concat ?pss \<rparr>)"
    using read_resp_first [of c p "concat ps" "map concat qss"] Suc.prems w(1) by (simp add: pss)
  have n: "n = length (concat ?pss)" "concat pss = p # concat ?pss" using Suc.hyps(2) by (simp_all add: pss)
  have "read_resps (length (concat ?pss)) interrupted (c\<lparr> arriving := map concat ?pss \<rparr>) =
      (map Some (concat ?pss), c\<lparr> arriving := map concat ?pss \<rparr>\<lparr> arriving := [] \<rparr>)"
    by (rule Suc.hyps(1) [OF n(1)]) (use Suc.prems in \<open>auto simp: pss\<close>)
  then show ?case
    unfolding Suc.hyps(2) [symmetric] unfolding n by (simp add: r del: concat.simps)
qed

end
