(* ===== verification/Smpp_Client.thy ===== *)
theory Smpp_Client
  imports Session_Output Client_Datasource Sync_Tcp_Client
begin

text \<open>
  The SMPP client (\<open>src/public/smppclient/smppclient.cpp\<close>): a receiver thread that processes the
  packets of the server, and a worker thread that connects, binds and submits. The state is the
  socket's, extended as the class is; \<open>room\<close> is what the socket takes when a packet is written.
\<close>

section \<open>Configuration and state\<close>

datatype SMPPCLIENT_BIND_MODE = BOUND_UNKNOWN | BOUND_TX | BOUND_RX | BOUND_TRX

definition get_bind_mode_by_string :: "octets \<Rightarrow> SMPPCLIENT_BIND_MODE" where
  "get_bind_mode_by_string bt =
     (if bt = ascii ''TX'' then BOUND_TX else if bt = ascii ''RX'' then BOUND_RX
      else if bt = ascii ''TRX'' then BOUND_TRX else BOUND_UNKNOWN)"

record smppclient_configer =
  cc_sysid :: octets
  cc_password :: octets
  srcaddr_ton :: octet
  srcaddr_npi :: octet
  bind_mode :: SMPPCLIENT_BIND_MODE
  systype :: octets
  infver :: octet
  servtype :: octets
  using_hex_decimal_message_id :: bool
  force_dlr_datacoding :: int
  force_mo_datacoding :: int
  heatbeat_period :: int
  waiting_ack_timeout :: int
  waiting_dlr_timeout :: int
  is_gateway :: bool
  cc_gateway_id :: octets

record smppclient = sync_tcp_client +
  config :: smppclient_configer
  is_protocol_connected :: bool
  bind_sn :: uint32
  waiting_ack_smis :: "cb_sm_information list"
  ack_timeout_smis :: "cb_sm_information list"
  host :: client_host

definition get_unique_id_of_client :: "smppclient \<Rightarrow> octets" where
  "get_unique_id_of_client c =
     (if is_gateway (config c) then cc_gateway_id (config c) else cc_sysid (config c))"

definition connection_interrupted :: "smppclient \<Rightarrow> smppclient" where
  "connection_interrupted c = c\<lparr> is_protocol_connected := False \<rparr>"

definition disconnect :: "bool \<Rightarrow> smppclient \<Rightarrow> smppclient" where
  "disconnect = sync_disconnect connection_interrupted"

definition on_host :: "(octets \<Rightarrow> client_host \<Rightarrow> client_host) \<Rightarrow> smppclient \<Rightarrow> smppclient" where
  "on_host f c = c\<lparr> host := f (get_unique_id_of_client c) (host c) \<rparr>"

text \<open>\<open>(boost::uint64_t)time(NULL)\<close>.\<close>

definition now64 :: "env \<Rightarrow> uint64" where
  "now64 e = of_int (time_now e)"

definition tx_able :: "smppclient \<Rightarrow> bool" where
  "tx_able c \<longleftrightarrow> bind_mode (config c) = BOUND_TX \<or> bind_mode (config c) = BOUND_TRX"

definition rx_able :: "smppclient \<Rightarrow> bool" where
  "rx_able c \<longleftrightarrow> bind_mode (config c) = BOUND_RX \<or> bind_mode (config c) = BOUND_TRX"

text \<open>The sequence number and the submission time that belong to this client.\<close>

definition own_sn :: "smppclient \<Rightarrow> cb_sm_information \<Rightarrow> uint32" where
  "own_sn c smi = (if is_gateway (config c) then sn_by_gateway smi else sn_by_client smi)"

definition own_submit_time :: "smppclient \<Rightarrow> cb_sm_information \<Rightarrow> uint64" where
  "own_submit_time c smi =
     (if is_gateway (config c) then submit_time_of_gateway smi else submit_time_of_client smi)"

section \<open>Messages that wait for a response\<close>

definition get_waiting_ack_smi :: "uint32 \<Rightarrow> smppclient \<Rightarrow> cb_sm_information option \<times> smppclient" where
  "get_waiting_ack_smi sn c = (case extract_first (\<lambda>m. own_sn c m = sn) (waiting_ack_smis c) of
     None \<Rightarrow> (None, c) | Some (smi, rest) \<Rightarrow> (Some smi, c\<lparr> waiting_ack_smis := rest \<rparr>))"

definition add_waiting_ack_smi :: "cb_sm_information \<Rightarrow> smppclient \<Rightarrow> smppclient" where
  "add_waiting_ack_smi smi c = c\<lparr> waiting_ack_smis := waiting_ack_smis c @ [smi] \<rparr>"

definition remove_waiting_ack_smi :: "uint32 \<Rightarrow> smppclient \<Rightarrow> smppclient" where
  "remove_waiting_ack_smi sn c = (case extract_first (\<lambda>m. own_sn c m = sn) (waiting_ack_smis c) of
     None \<Rightarrow> c | Some (_, rest) \<Rightarrow> c\<lparr> waiting_ack_smis := rest \<rparr>)"

definition has_waiting_ack_smis :: "smppclient \<Rightarrow> bool" where
  "has_waiting_ack_smis c \<longleftrightarrow> waiting_ack_smis c \<noteq> []"

definition too_many_waiting_ack_smis :: "smppclient \<Rightarrow> bool" where
  "too_many_waiting_ack_smis c \<longleftrightarrow> length (waiting_ack_smis c) \<ge> 8"

definition a_smis_waiting_ack_timeout :: "cb_sm_information \<Rightarrow> smppclient \<Rightarrow> smppclient" where
  "a_smis_waiting_ack_timeout smi c = c\<lparr> ack_timeout_smis := ack_timeout_smis c @ [smi] \<rparr>"

definition process_waiting_ack_smis :: "env \<Rightarrow> smppclient \<Rightarrow> smppclient" where
  "process_waiting_ack_smis e c =
     (let late = (\<lambda>m. elapsed (now64 e) (own_submit_time c m) > waiting_ack_timeout (config c));
          l = waiting_ack_smis c
      in fold a_smis_waiting_ack_timeout (filter late l) (c\<lparr> waiting_ack_smis := filter (\<lambda>m. \<not> late m) l \<rparr>))"

definition get_ack_timeout_smi :: "uint32 \<Rightarrow> smppclient \<Rightarrow> cb_sm_information option \<times> smppclient" where
  "get_ack_timeout_smi sn c = (case extract_first (\<lambda>m. own_sn c m = sn) (ack_timeout_smis c) of
     None \<Rightarrow> (None, c) | Some (smi, rest) \<Rightarrow> (Some smi, c\<lparr> ack_timeout_smis := rest \<rparr>))"

definition DLR_STAT_SUBMIT_TIMEOUT :: octets where "DLR_STAT_SUBMIT_TIMEOUT = ascii ''CBSBTTO''"

text \<open>\<open>waiting_ack_timeout * 5\<close> is an \<open>int\<close>; its value is taken to fit one.\<close>

definition process_ack_timeout_smis :: "env \<Rightarrow> smppclient \<Rightarrow> smppclient" where
  "process_ack_timeout_smis e c =
     (let late = (\<lambda>m. elapsed (now64 e) (own_submit_time c m) > waiting_ack_timeout (config c) * 5);
          l = ack_timeout_smis c
      in fold (\<lambda>m. on_host (\<lambda>flag. cds_submit_failed flag (m\<lparr> cb_sm_information.error_status := DLR_STAT_SUBMIT_TIMEOUT \<rparr>)))
           (filter late l) (c\<lparr> ack_timeout_smis := filter (\<lambda>m. \<not> late m) l \<rparr>))"

definition process_dlr_timeout_smis :: "env \<Rightarrow> smppclient \<Rightarrow> smppclient" where
  "process_dlr_timeout_smis e c = on_host (\<lambda>flag.
     process_waiting_dlr_timeout flag (is_gateway (config c)) (now64 e) (waiting_dlr_timeout (config c))) c"

definition client_is_free :: "smppclient \<Rightarrow> bool" where
  "client_is_free c =
     (if waiting_ack_smis c \<noteq> [] then False
      else if ack_timeout_smis c \<noteq> [] then False
      else cds_is_free (get_unique_id_of_client c) (host c))"

text \<open>The response to a submission: the message goes on to wait for its receipt, or has failed.\<close>

definition set_ack :: "env \<Rightarrow> uint32 \<Rightarrow> octets \<Rightarrow> ACK_STATUS \<Rightarrow> int \<Rightarrow> smppclient \<Rightarrow> smppclient" where
  "set_ack e sn mid ack err c =
     (let (r, c) = get_waiting_ack_smi sn c;
          (r, c) = (case r of Some smi \<Rightarrow> (r, c) | None \<Rightarrow> get_ack_timeout_smi sn c)
      in case r of
           None \<Rightarrow> c
         | Some smi \<Rightarrow>
             (let smi = (if is_gateway (config c) then smi\<lparr> message_id_of_provider := mid \<rparr>
                         else smi\<lparr> message_id_of_protocol_server := mid \<rparr>);
                  smi = smi\<lparr> ack_status := ack, cb_sm_information.error_code := of_int err \<rparr>
              in if ack = ACK_STATUS_SUCCESSFULLY
                 then on_host (\<lambda>flag. sm_is_delivering flag (is_gateway (config c)) (now64 e) smi) c
                 else on_host (\<lambda>flag. cds_submit_failed flag smi) c))"

section \<open>Writing\<close>

text \<open>\<open>write\<close>, and \<open>disconnect(true)\<close> when it fails.\<close>

definition write_or_disconnect :: "nat option \<Rightarrow> packet \<Rightarrow> smppclient \<Rightarrow> bool \<times> smppclient" where
  "write_or_disconnect room bp c =
     (let (b, c) = sync_write room bp c in (b, if \<not> b then disconnect True c else c))"

definition client_sn :: "env \<Rightarrow> smppclient \<Rightarrow> uint32 \<times> smppclient" where
  "client_sn e c = (let (sn, g) = generate_sn (dice e) (numbers (host c))
     in (sn, c\<lparr> host := (host c)\<lparr> numbers := g \<rparr> \<rparr>))"

type_synonym 'a client_outcome = "('a \<times> smppclient) result"

definition transceiver_pdu :: "smppclient_configer \<Rightarrow> uint32 \<Rightarrow> BindTransceiver result" where
  "transceiver_pdu k sn =
     bind (SystemId (cc_sysid k)) (\<lambda>v. let p = BindTransceiver_set_system_id v BindTransceiver_default in
     bind (Password (cc_password k)) (\<lambda>v. let p = BindTransceiver_set_password v p;
         p = BindTransceiver_set_system_type (systype k) p in
     bind (BindTransceiver_set_interface_version (uint (infver k)) p) (set_sequence_number sn True)))"

definition bind_transceiver :: "env \<Rightarrow> nat option \<Rightarrow> smppclient \<Rightarrow> bool client_outcome" where
  "bind_transceiver e room c =
     (let (sn, c) = client_sn e c in
      try_catch (bind (transceiver_pdu (config c) sn) (\<lambda>p. pdu_packet p (BindTransceiver_encode p)))
        (\<lambda>bp. Inr (write_or_disconnect room bp (c\<lparr> bind_sn := sn \<rparr>)))
        (Inr (False, c)))"

definition receiver_pdu :: "smppclient_configer \<Rightarrow> uint32 \<Rightarrow> BindReceiver result" where
  "receiver_pdu k sn =
     bind (SystemId (cc_sysid k)) (\<lambda>v. let p = BindReceiver_set_system_id v BindReceiver_default in
     bind (Password (cc_password k)) (\<lambda>v. let p = BindReceiver_set_password v p;
         p = BindReceiver_set_system_type (systype k) p in
     bind (BindReceiver_set_interface_version (uint (infver k)) p) (set_sequence_number sn True)))"

definition bind_receiver :: "env \<Rightarrow> nat option \<Rightarrow> smppclient \<Rightarrow> bool client_outcome" where
  "bind_receiver e room c =
     (let (sn, c) = client_sn e c in
      try_catch (bind (receiver_pdu (config c) sn) (\<lambda>p. pdu_packet p (BindReceiver_encode p)))
        (\<lambda>bp. Inr (write_or_disconnect room bp (c\<lparr> bind_sn := sn \<rparr>)))
        (Inr (False, c)))"

definition transmitter_pdu :: "smppclient_configer \<Rightarrow> uint32 \<Rightarrow> BindTransmitter result" where
  "transmitter_pdu k sn =
     bind (SystemId (cc_sysid k)) (\<lambda>v. let p = BindTransmitter_set_system_id v BindTransmitter_default in
     bind (Password (cc_password k)) (\<lambda>v. let p = BindTransmitter_set_password v p;
         p = BindTransmitter_set_system_type (systype k) p in
     bind (BindTransmitter_set_interface_version (uint (infver k)) p) (set_sequence_number sn True)))"

definition bind_transmitter :: "env \<Rightarrow> nat option \<Rightarrow> smppclient \<Rightarrow> bool client_outcome" where
  "bind_transmitter e room c =
     (let (sn, c) = client_sn e c in
      try_catch (bind (transmitter_pdu (config c) sn) (\<lambda>p. pdu_packet p (BindTransmitter_encode p)))
        (\<lambda>bp. Inr (write_or_disconnect room bp (c\<lparr> bind_sn := sn \<rparr>)))
        (Inr (False, c)))"

definition client_bind :: "env \<Rightarrow> nat option \<Rightarrow> smppclient \<Rightarrow> bool client_outcome" where
  "client_bind e room c = (case bind_mode (config c) of
     BOUND_RX \<Rightarrow> bind_receiver e room c
   | BOUND_TRX \<Rightarrow> bind_transceiver e room c
   | BOUND_TX \<Rightarrow> bind_transmitter e room c
   | BOUND_UNKNOWN \<Rightarrow> Inr (False, c))"

definition enquire_link :: "env \<Rightarrow> nat option \<Rightarrow> smppclient \<Rightarrow> bool client_outcome" where
  "enquire_link e room c =
     (let (sn, c) = client_sn e c in
      try_catch (bind (SequenceNumber_assign sn True) (\<lambda>sn.
          let p = new_EnquireLink sn in pdu_packet p (EnquireLink_encode p)))
        (\<lambda>bp. Inr (write_or_disconnect room bp c))
        (Inr (False, c)))"

text \<open>All of \<open>unbind\<close> that is reached: it returns before it waits for the response.\<close>

definition client_unbind :: "env \<Rightarrow> nat option \<Rightarrow> smppclient \<Rightarrow> bool client_outcome" where
  "client_unbind e room c =
     (let (sn, c) = client_sn e c in
      try_catch (bind (SequenceNumber_assign sn True) (\<lambda>sn.
          let p = new_Unbind sn in pdu_packet p (Unbind_encode p)))
        (\<lambda>bp. Inr (write_or_disconnect room bp c))
        (Inr (False, c)))"

section \<open>Submitting\<close>

definition source_address :: "smppclient_configer \<Rightarrow> octets \<Rightarrow> SmeAddress result" where
  "source_address k a =
     bind (Ton (uint (srcaddr_ton k))) (\<lambda>t. bind (Npi (srcaddr_npi k)) (\<lambda>n.
     bind (new_Address a 21) (\<lambda>x. new_SmeAddress t n x 21)))"

text \<open>The data coding and the octets of the text.\<close>

definition encoded_text :: "octets \<Rightarrow> (DataCodingType \<times> octets) result option" where
  "encoded_text s = (case smpp_datacoding_is_pure_ascii (s @ [0]) of
     Inl er \<Rightarrow> Some (Inl er)
   | Inr True \<Rightarrow> Some (Inr (Alphabet, s))
   | Inr False \<Rightarrow> (case smpp_datacoding_convert_utf8_to_ucs2 (s @ [0]) of
       None \<Rightarrow> None | Some r \<Rightarrow> Some (bind r (\<lambda>u. Inr (UCS2, u)))))"

definition udhi :: "cb_sm_information \<Rightarrow> octets" where
  "udhi smi = (if udhi_total_parts smi > 1
     then [0x05, 0x00, 0x03, udhi_reference smi, udhi_total_parts smi, udhi_part_index smi] else [])"

text \<open>What is set before the text is converted.\<close>

definition submit_header :: "smppclient_configer \<Rightarrow> uint32 \<Rightarrow> cb_sm_information \<Rightarrow> SubmitSm result" where
  "submit_header k sn smi =
     (let p = SubmitSm_set_service_type (servtype k) SubmitSm_default in
      bind (source_address k (src_addr smi)) (\<lambda>a. let p = SubmitSm_set_source_addr a p in
      bind (international (dst_addr smi)) (\<lambda>a.
        let p = SubmitSm_set_registered_delivery 0x01 (SubmitSm_set_destination_addr a p) in
      bind (set_sequence_number sn True p) (\<lambda>p.
      Inr (SubmitSm_set_esm_class (if udhi_total_parts smi > 1 then 0x40 else 0) p)))))"

definition submit_pdu :: "smppclient_configer \<Rightarrow> uint32 \<Rightarrow> cb_sm_information \<Rightarrow> SubmitSm result option" where
  "submit_pdu k sn smi = (case submit_header k sn smi of
     Inl er \<Rightarrow> Some (Inl er)
   | Inr p \<Rightarrow> (case encoded_text (content smi) of
       None \<Rightarrow> None
     | Some r \<Rightarrow> Some (bind r (\<lambda>(dc, ucs2).
         let p = SubmitSm_set_data_coding (type_number dc) p; m = udhi smi @ ucs2
         in SubmitSm_set_short_message m (of_nat (length m)) p))))"

text \<open>
  The message as it is afterwards, whether it was submitted, and the client. \<open>None\<close> when the
  conversion of the text does not end.
\<close>

definition submit :: "env \<Rightarrow> nat option \<Rightarrow> cb_sm_information \<Rightarrow> smppclient \<Rightarrow>
    (bool \<times> cb_sm_information) client_outcome option" where
  "submit e room smi c =
     (let sn = own_sn c smi in
      case submit_pdu (config c) sn smi of
        None \<Rightarrow> None
      | Some pdu \<Rightarrow> Some (try_catch (bind pdu (\<lambda>p. pdu_packet p (SubmitSm_encode p)))
          (\<lambda>bp.
             let smi = (if is_gateway (config c) then smi\<lparr> submit_time_of_gateway := now64 e \<rparr>
                        else smi\<lparr> submit_time_of_client := now64 e \<rparr>);
                 (submitted, c) = sync_write room bp (add_waiting_ack_smi smi c)
             in if submitted then Inr ((True, smi), c)
                else Inr ((False, smi), disconnect True (remove_waiting_ack_smi sn c)))
          (Inr ((False, smi), c))))"

definition submit_smis :: "cb_sm_information list \<Rightarrow> octets \<Rightarrow> smppclient \<Rightarrow> smppclient" where
  "submit_smis smis failed_reason c =
     (let smis = map (\<lambda>m. if is_gateway (config c) then m\<lparr> gateway_id := cc_gateway_id (config c) \<rparr>
            else m\<lparr> smi_systemid := cc_sysid (config c) \<rparr>) smis
      in if length failed_reason > 0
         then fold (\<lambda>m. on_host (\<lambda>flag. cds_submit_failed flag (m\<lparr> cb_sm_information.error_code := 0, cb_sm_information.error_status := failed_reason \<rparr>))) smis c
         else on_host (\<lambda>flag. add_smis flag smis) c)"

section \<open>Receiving\<close>

abbreviation "cid_BindReceiverResp \<equiv> 0x80000001 :: uint32"
abbreviation "cid_BindTransmitterResp \<equiv> 0x80000002 :: uint32"
abbreviation "cid_SubmitSmResp \<equiv> 0x80000004 :: uint32"
abbreviation "cid_DeliverSm \<equiv> 0x00000005 :: uint32"
abbreviation "cid_BindTransceiverResp \<equiv> 0x80000009 :: uint32"

definition bind_resp_received :: "uint32 \<Rightarrow> smppclient \<Rightarrow> smppclient" where
  "bind_resp_received st c =
     (if st = ESME_ROK then c\<lparr> is_protocol_connected := True \<rparr>
      else c\<lparr> is_protocol_connected := False \<rparr>)"

definition submitsm_resp_received :: "env \<Rightarrow> SubmitSmResp \<Rightarrow> smppclient \<Rightarrow> smppclient" where
  "submitsm_resp_received e resp c =
     (let sn = sequence_number resp;
          c = (if command_status resp = ESME_ROK
               then set_ack e sn (SubmitSmResp.message_id resp) ACK_STATUS_SUCCESSFULLY 0 c
               else set_ack e sn [] ACK_STATUS_FAILED (sint (command_status resp)) c)
      in c\<lparr> host := (host c)\<lparr> counters := ct_an_ack_is_received (counters (host c)) \<rparr> \<rparr>)"

definition unbind_resp_received :: "smppclient \<Rightarrow> smppclient" where
  "unbind_resp_received c = disconnect False (c\<lparr> is_protocol_connected := False \<rparr>)"

text \<open>One word of the text of a receipt.\<close>

definition parse_receipt_word :: "octets \<Rightarrow> octets \<times> octets \<times> int \<Rightarrow> octets \<times> octets \<times> int" where
  "parse_receipt_word w r = (case r of (mid, stat, err) \<Rightarrow>
     (case split_by_separator w 58 of
        [k, v] \<Rightarrow> (if k = ascii ''id'' then (v, stat, err)
                   else if k = ascii ''stat'' then (mid, v, err)
                   else if k = ascii ''err'' then (mid, stat, read_int v)
                   else (mid, stat, err))
      | _ \<Rightarrow> (mid, stat, err)))"

text \<open>The three variables of the caller, and their values afterwards.\<close>

definition parse_deliversm_short_message :: "octets \<Rightarrow> octets \<times> octets \<times> int \<Rightarrow> octets \<times> octets \<times> int" where
  "parse_deliversm_short_message s r = fold parse_receipt_word (split_by_separator s 32) r"

definition client_convert_to_utf8 :: "octets \<Rightarrow> int \<Rightarrow> octets result" where
  "client_convert_to_utf8 sm dc =
     (if dc = 8 then smpp_datacoding_convert_ucs2_to_utf8 sm (length sm div 2) else Inr sm)"

text \<open>The number of the type of data coding, which the configuration may force.\<close>

definition chosen_datacoding :: "int \<Rightarrow> octet \<Rightarrow> int" where
  "chosen_datacoding force dc = (if force = - 1 then uint (type_number (dc_type dc)) else force)"

definition send_deliver_resp :: "nat option \<Rightarrow> uint32 \<Rightarrow> smppclient \<Rightarrow> unit client_outcome" where
  "send_deliver_resp room sn c =
     try_catch (bind (SequenceNumber_assign sn True) (\<lambda>sn.
         let p = new_DeliverSmResp ESME_ROK sn [] in pdu_packet p (DeliverSmResp_encode p)))
       (\<lambda>bp. Inr ((), snd (write_or_disconnect room bp c)))
       (Inr ((), c))"

text \<open>\<open>junk\<close> is the value of \<open>error_code\<close>, which is not initialised.\<close>

definition deliversm_received :: "env \<Rightarrow> int \<Rightarrow> nat option \<Rightarrow> DeliverSm \<Rightarrow> smppclient \<Rightarrow> unit client_outcome" where
  "deliversm_received e junk room p c =
     (if DeliverSm.esm_class p = 0x04 then
        bind (client_convert_to_utf8 (DeliverSm.short_message p)
            (chosen_datacoding (force_dlr_datacoding (config c)) (DeliverSm.data_coding p))) (\<lambda>sm_string.
        let (mid, stat, err) = parse_deliversm_short_message sm_string ([], [], junk);
            c = on_host (\<lambda>flag h. snd (sm_is_delivered flag (is_gateway (config c)) (now64 e) mid stat err
                  (using_hex_decimal_message_id (config c)) h)) c
        in send_deliver_resp room (sequence_number p) c)
      else
        (let dc = chosen_datacoding (force_mo_datacoding (config c)) (DeliverSm.data_coding p) in
         bind (client_convert_to_utf8 (DeliverSm.short_message p) dc) (\<lambda>txt.
         let c = on_host (\<lambda>flag. mo_received flag (is_gateway (config c)) (now64 e) (cc_sysid (config c))
               (sequence_number p) (addr_v (address (DeliverSm.source_addr p)))
               (addr_v (address (DeliverSm.destination_addr p))) (of_int dc) txt) c
         in send_deliver_resp room (sequence_number p) c)))"

definition client_process_enquirelink :: "nat option \<Rightarrow> uint32 \<Rightarrow> smppclient \<Rightarrow> unit client_outcome" where
  "client_process_enquirelink room sn c =
     try_catch (bind (SequenceNumber_assign sn True) (\<lambda>sn.
         let p = new_EnquireLinkResp ESME_ROK sn in pdu_packet p (EnquireLinkResp_encode p)))
       (\<lambda>bp. Inr ((), snd (write_or_disconnect room bp c)))
       (Inr ((), c))"

definition client_process :: "env \<Rightarrow> int \<Rightarrow> nat option \<Rightarrow> packet \<Rightarrow> smppclient \<Rightarrow> unit client_outcome" where
  "client_process e junk room bp c =
     bind (get_command_id bp) (\<lambda>cid.
     if cid = cid_BindTransceiverResp then
       try_catch (BindTransceiverResp_decode BindTransceiverResp_default bp)
         (\<lambda>p. Inr ((), bind_resp_received (command_status p) c)) (Inr ((), c))
     else if cid = cid_BindTransmitterResp then
       try_catch (BindTransmitterResp_decode BindTransmitterResp_default bp)
         (\<lambda>p. Inr ((), bind_resp_received (command_status p) c)) (Inr ((), c))
     else if cid = cid_BindReceiverResp then
       try_catch (BindReceiverResp_decode BindReceiverResp_default bp)
         (\<lambda>p. Inr ((), bind_resp_received (command_status p) c)) (Inr ((), c))
     else if cid = cid_SubmitSmResp then
       try_catch (SubmitSmResp_decode SubmitSmResp_default bp)
         (\<lambda>p. Inr ((), submitsm_resp_received e p c)) (Inr ((), c))
     else if cid = cid_DeliverSm then
       try_catch (DeliverSm_decode DeliverSm_default bp)
         (\<lambda>p. deliversm_received e junk room p c) (Inr ((), c))
     else if cid = cid_UnbindResp then
       try_catch (UnbindResp_decode UnbindResp_default bp)
         (\<lambda>p. Inr ((), unbind_resp_received c)) (Inr ((), c))
     else if cid = cid_EnquireLinkResp then
       try_catch (EnquireLinkResp_decode EnquireLinkResp_default bp)
         (\<lambda>p. Inr ((), c)) (Inr ((), c))
     else if cid = cid_GenericNack then
       try_catch (GenericNack_decode GenericNack_default bp)
         (\<lambda>p. Inr ((), c)) (Inr ((), c))
     else if cid = cid_EnquireLink then
       bind (get_sequence_number bp) (\<lambda>sn. client_process_enquirelink room sn c)
     else Inr ((), c))"

end
