(* ===== verification/Client_Worker.thy ===== *)
theory Client_Worker
  imports Smpp_Client "HOL-Library.Multiset"
begin

text \<open>
  The two threads of a client, \<open>smppclient::worker\<close> and \<open>smppclient::receiver\<close>, as one transition
  system, and the messages that it holds.
\<close>

section \<open>The worker\<close>

text \<open>
  Where the worker stands: it connects and binds, it waits for the verdict on the bind, or it is
  in the loop that submits. \<open>w_smi\<close> is the message in hand: one whose text is not empty is to be
  submitted, again if need be.
\<close>

datatype worker_at = Connecting | Waiting | Submitting

record worker =
  w_at :: worker_at
  w_smi :: cb_sm_information
  last_send_enquire_link_time :: uint64

definition new_worker :: worker where
  "new_worker = \<lparr> w_at = Connecting, w_smi = new_cb_sm_information, last_send_enquire_link_time = 0 \<rparr>"

text \<open>
  The head of the middle loop. \<open>up\<close> says whether the host connects, \<open>room\<close> what the socket takes.
\<close>

definition worker_connect :: "env \<Rightarrow> (nat \<Rightarrow> bool) \<Rightarrow> nat option \<Rightarrow> worker \<Rightarrow> smppclient \<Rightarrow>
    (worker \<times> smppclient) result" where
  "worker_connect e up room w c =
     (let (b, c) = (if \<not> connected c then connect_for 1000 up c else (True, c)) in
      if \<not> b then Inr (w, c)
      else bind (client_bind e room c) (\<lambda>(b, c).
        Inr (if b then w\<lparr> w_at := Waiting \<rparr> else w, c)))"

text \<open>\<open>timed_out\<close>: the client was not bound for 300 looks at it.\<close>

definition worker_wait :: "bool \<Rightarrow> worker \<Rightarrow> smppclient \<Rightarrow> worker \<times> smppclient" where
  "worker_wait timed_out w c =
     (if is_protocol_connected c then (w\<lparr> w_at := Submitting \<rparr>, c)
      else if timed_out then (new_worker, disconnect True c)
      else (w, c))"

text \<open>
  The message to submit, if any; \<open>None\<close> for the branch that sleeps and starts the loop again, which
  leaves out the heartbeat.
\<close>

definition next_smi :: "worker \<Rightarrow> smppclient \<Rightarrow> (bool \<times> cb_sm_information \<times> smppclient) option" where
  "next_smi w c =
     (let smi = w_smi w in
      if length (content smi) = 0 then
        (let is_long_sm_and_not_last =
               udhi_total_parts smi > 1 \<and> udhi_total_parts smi \<noteq> udhi_part_index smi in
         if too_many_waiting_ack_smis c \<and> \<not> is_long_sm_and_not_last then None
         else (case get_to_submit (get_unique_id_of_client c) (host c) of
            (Some s, h) \<Rightarrow> Some (True, s, c\<lparr> host := h \<rparr>)
          | (None, h) \<Rightarrow> Some (False, smi, c\<lparr> host := h \<rparr>)))
      else Some (True, smi, c))"

definition heartbeat :: "env \<Rightarrow> nat option \<Rightarrow> worker \<Rightarrow> smppclient \<Rightarrow> (worker \<times> smppclient) result" where
  "heartbeat e room w c =
     (if elapsed (now64 e) (last_send_enquire_link_time w) > heatbeat_period (config c)
      then bind (enquire_link e room c) (\<lambda>(b, c).
        Inr (if b then w\<lparr> last_send_enquire_link_time := now64 e \<rparr> else w\<lparr> w_at := Connecting \<rparr>, c))
      else Inr (w, c))"

definition process_timeouts :: "env \<Rightarrow> smppclient \<Rightarrow> smppclient" where
  "process_timeouts e c =
     process_ack_timeout_smis e (process_waiting_ack_smis e (process_dlr_timeout_smis e c))"

text \<open>One round of the inner loop; \<open>room 0\<close> is for the submission, \<open>room 1\<close> for the heartbeat.\<close>

definition worker_turn :: "env \<Rightarrow> (nat \<Rightarrow> nat option) \<Rightarrow> worker \<Rightarrow> smppclient \<Rightarrow>
    (worker \<times> smppclient) result option" where
  "worker_turn e room w c =
     (let c = process_timeouts e c in
      if tx_able c then
        (case next_smi w c of
           None \<Rightarrow> Some (Inr (w, c))
         | Some (False, smi, c) \<Rightarrow> Some (heartbeat e (room 1) (w\<lparr> w_smi := smi \<rparr>) c)
         | Some (True, smi, c) \<Rightarrow>
             (case submit e (room 0) smi c of
                None \<Rightarrow> None
              | Some r \<Rightarrow> Some (bind r (\<lambda>((submitted, smi), c).
                  if submitted
                  then heartbeat e (room 1) (w\<lparr> w_smi := smi\<lparr> content := [] \<rparr> \<rparr>) c
                  else Inr (w\<lparr> w_smi := smi, w_at := Connecting \<rparr>, c)))))
      else Some (heartbeat e (room 1) w c))"

section \<open>The receiver\<close>

definition receiver_turn :: "env \<Rightarrow> int \<Rightarrow> nat option \<Rightarrow> smppclient \<Rightarrow> smppclient result" where
  "receiver_turn e junk room c = (case read_resp connection_interrupted c of
     (None, c) \<Rightarrow> Inr c
   | (Some bp, c) \<Rightarrow> bind (client_process e junk room bp c) (\<lambda>(_, c). Inr c))"

section \<open>Steps\<close>

text \<open>
  What happens to the messages of the client in a step: some are handed in or out by the calls of
  the program around it, or the worker gives up waiting to be bound.
\<close>

datatype client_event =
    Handed_in "cb_sm_information list"
  | Handed_out "cb_sm_information list"
  | Gave_up
  | Internal

inductive client_step :: "worker \<times> smppclient \<Rightarrow> client_event \<Rightarrow> worker \<times> smppclient \<Rightarrow> bool" where
  arrive: "client_step (w, c) Internal (w, c\<lparr> arriving := arriving c @ xs \<rparr>)"
| receive: "receiver_turn e junk room c = Inr c' \<Longrightarrow> client_step (w, c) Internal (w, c')"
| connect: "w_at w = Connecting \<Longrightarrow> worker_connect e up r w c = Inr (w', c') \<Longrightarrow>
    client_step (w, c) Internal (w', c')"
| wait: "w_at w = Waiting \<Longrightarrow> worker_wait timed_out w c = (w', c') \<Longrightarrow>
    client_step (w, c) (if timed_out \<and> \<not> is_protocol_connected c then Gave_up else Internal) (w', c')"
| turn: "w_at w = Submitting \<Longrightarrow> worker_turn e rooms w c = Some (Inr (w', c')) \<Longrightarrow>
    client_step (w, c) Internal (w', c')"
| submit_smis: "client_step (w, c) (Handed_in smis) (w, submit_smis smis failed_reason c)"
| get_global_status:
    "cds_get_global_status (get_unique_id_of_client c) to_get (host c) = (smis, h) \<Longrightarrow>
     client_step (w, c) (Handed_out smis) (w, c\<lparr> host := h \<rparr>)"
| get_all_to_submit:
    "get_all_to_submit_smis (get_unique_id_of_client c) (host c) = (smis, h) \<Longrightarrow>
     client_step (w, c) (Handed_out smis) (w, c\<lparr> host := h \<rparr>)"
| get_mos:
    "cds_get_mos (get_unique_id_of_client c) (host c) = (smis, h) \<Longrightarrow>
     client_step (w, c) Internal (w, c\<lparr> host := h \<rparr>)"
| unbind: "client_unbind e room c = Inr (b, c') \<Longrightarrow> client_step (w, c) Internal (w, c')"

inductive client_run :: "worker \<times> smppclient \<Rightarrow> client_event list \<Rightarrow> worker \<times> smppclient \<Rightarrow> bool" where
  none: "client_run st [] st"
| one: "client_step st x st' \<Longrightarrow> client_run st' xs st'' \<Longrightarrow> client_run st (x # xs) st''"

end
