(* ===== verification/Client_Messages.thy ===== *)
theory Client_Messages
  imports Client_Worker
begin

text \<open>
  What becomes of the messages of a client, counted by their sequence numbers: those that wait for
  a response, in time or not, and those that the data source holds.
\<close>

abbreviation own_source :: "smppclient \<Rightarrow> client_data_source" where
  "own_source c \<equiv> the_source (get_unique_id_of_client c) (host c)"

definition client_messages :: "smppclient \<Rightarrow> uint32 multiset" where
  "client_messages c = image_mset (own_sn c) (mset (waiting_ack_smis c @ ack_timeout_smis c @ held (own_source c)))"

text \<open>Steps that do not touch the messages at all.\<close>

definition quiet :: "smppclient \<Rightarrow> smppclient \<Rightarrow> bool" where
  "quiet c c' \<longleftrightarrow> config c' = config c \<and> waiting_ack_smis c' = waiting_ack_smis c \<and>
     ack_timeout_smis c' = ack_timeout_smis c \<and> cdsps (host c') = cdsps (host c)"

lemma quiet_refl: "quiet c c"
  by (simp add: quiet_def)

lemma quiet_trans: "quiet c c1 \<Longrightarrow> quiet c1 c2 \<Longrightarrow> quiet c c2"
  by (simp add: quiet_def)

lemma own_config: "config c' = config c \<Longrightarrow> own_sn c' = own_sn c"
    "config c' = config c \<Longrightarrow> get_unique_id_of_client c' = get_unique_id_of_client c"
  by (simp_all add: own_sn_def get_unique_id_of_client_def fun_eq_iff)

lemma own_update [simp]:
  "own_sn (c\<lparr> waiting_ack_smis := l \<rparr>) = own_sn c" "own_sn (c\<lparr> ack_timeout_smis := l \<rparr>) = own_sn c"
  "own_sn (c\<lparr> host := h \<rparr>) = own_sn c"
  "get_unique_id_of_client (c\<lparr> waiting_ack_smis := l \<rparr>) = get_unique_id_of_client c"
  "get_unique_id_of_client (c\<lparr> ack_timeout_smis := l \<rparr>) = get_unique_id_of_client c"
  "get_unique_id_of_client (c\<lparr> host := h \<rparr>) = get_unique_id_of_client c"
  by (simp_all add: own_sn_def get_unique_id_of_client_def fun_eq_iff)

lemma quiet_messages:
  "quiet c c' \<Longrightarrow> config c' = config c \<and> client_messages c' = client_messages c \<and>
    own_source c' = own_source c"
  by (simp add: quiet_def client_messages_def own_config [of c' c])

lemma quiet_disconnect: "quiet c (disconnect b c)"
  by (simp add: quiet_def disconnect_def sync_disconnect_def connection_interrupted_def Let_def)

lemma quiet_write: "sync_write room d c = (b, c') \<Longrightarrow> quiet c c'"
  by (auto simp: sync_write_def quiet_def Let_def split: if_splits option.splits)

lemma quiet_write_or_disconnect:
  assumes "write_or_disconnect room d c = (b, c')"
  shows "quiet c c'"
proof -
  obtain ok c1 where w: "sync_write room d c = (ok, c1)" by (metis surj_pair)
  with assms have "c' = (if \<not> ok then disconnect True c1 else c1)" by (auto simp: write_or_disconnect_def)
  then show ?thesis using quiet_write [OF w] quiet_trans quiet_disconnect by simp
qed

lemma quiet_client_sn: "client_sn e c = (sn, c') \<Longrightarrow> quiet c c'"
  by (auto simp: client_sn_def quiet_def split: prod.splits)

lemma quiet_bind_sn: "quiet c (c\<lparr> bind_sn := n \<rparr>)"
  by (simp add: quiet_def)

text \<open>A PDU is built and written: the shape of most of what a client sends.\<close>

lemma try_catch_result: "try_catch m f d = Inr r \<Longrightarrow> (\<exists>p. m = Inr p \<and> f p = Inr r) \<or> d = Inr r"
  by (auto simp: try_catch_def split: sum.splits smpp_error.splits)

lemma quiet_try_write:
  assumes "try_catch m (\<lambda>bp. Inr (write_or_disconnect room bp c1)) (Inr (b0, c0)) = Inr (b, c')"
    "quiet c c0" "quiet c c1"
  shows "quiet c c'"
  using try_catch_result [OF assms(1)] assms(2) quiet_trans [OF assms(3) quiet_write_or_disconnect] by auto

lemma quiet_sends:
  "enquire_link e room c = Inr (b, c') \<Longrightarrow> quiet c c'"
  "client_unbind e room c = Inr (b, c') \<Longrightarrow> quiet c c'"
  "bind_transceiver e room c = Inr (b, c') \<Longrightarrow> quiet c c'"
  "bind_receiver e room c = Inr (b, c') \<Longrightarrow> quiet c c'"
  "bind_transmitter e room c = Inr (b, c') \<Longrightarrow> quiet c c'"
proof -
  obtain sn c0 where s: "client_sn e c = (sn, c0)" by (metis surj_pair)
  note q = quiet_client_sn [OF s] and t = quiet_trans [OF quiet_client_sn [OF s] quiet_bind_sn]
  show "enquire_link e room c = Inr (b, c') \<Longrightarrow> quiet c c'" "client_unbind e room c = Inr (b, c') \<Longrightarrow> quiet c c'"
    unfolding enquire_link_def client_unbind_def s Let_def prod.case by (erule quiet_try_write [OF _ q q])+
  show "bind_transceiver e room c = Inr (b, c') \<Longrightarrow> quiet c c'" "bind_receiver e room c = Inr (b, c') \<Longrightarrow> quiet c c'"
    "bind_transmitter e room c = Inr (b, c') \<Longrightarrow> quiet c c'"
    unfolding bind_transceiver_def bind_receiver_def bind_transmitter_def s Let_def prod.case
    by (erule quiet_try_write [OF _ q t])+
qed

lemma quiet_bind: "client_bind e room c = Inr (b, c') \<Longrightarrow> quiet c c'"
  using quiet_sends(3-5) quiet_refl by (auto simp: client_bind_def split: SMPPCLIENT_BIND_MODE.splits)

lemma quiet_connect_for: "connect_for n ups (c :: smppclient) = (b, c') \<Longrightarrow> quiet c c'"
proof -
  have "connect_times k ups (c :: smppclient) = (b, c') \<Longrightarrow> quiet c c'" for k
  proof (induction k arbitrary: ups c)
    case (Suc k)
    have "quiet c (connect (ups 0) c)" by (simp add: connect_def quiet_def)
    moreover from Suc.prems have "c' = connect (ups 0) c \<or>
        connect_times k (ups \<circ> Suc) (connect (ups 0) c) = (b, c')"
      by (simp add: Let_def split: if_splits)
    ultimately show ?case using Suc.IH quiet_trans by metis
  qed (simp add: quiet_refl)
  then show "connect_for n ups c = (b, c') \<Longrightarrow> ?thesis" by (simp add: connect_for_def)
qed

lemma quiet_connect: "worker_connect e up r w c = Inr (w', c') \<Longrightarrow> quiet c c' \<and> w_smi w' = w_smi w"
proof -
  assume a: "worker_connect e up r w c = Inr (w', c')"
  obtain b c1 where s: "(if \<not> connected c then connect_for 1000 up c else (True, c)) = (b, c1)" by (metis surj_pair)
  then have "quiet c c1" using quiet_connect_for quiet_refl by (auto split: if_splits)
  with a s quiet_bind quiet_trans show ?thesis
    by (auto simp: worker_connect_def bind_eq_Inr split: if_splits)
qed

lemma quiet_heartbeat: "heartbeat e room w c = Inr (w', c') \<Longrightarrow> quiet c c' \<and> w_smi w' = w_smi w"
  using quiet_sends(1) quiet_refl by (auto simp: heartbeat_def bind_eq_Inr split: if_splits)

lemma quiet_read_resp: "read_resp connection_interrupted c = (r, c') \<Longrightarrow> quiet c c'"
proof -
  have r: "sync_read n c = (r, c') \<Longrightarrow> quiet c c'" for n r and c c' :: smppclient
    by (auto simp: sync_read_def quiet_def split: if_splits option.splits)
  have d: "quiet c (sync_disconnect connection_interrupted b c)" for b c
    using quiet_disconnect by (simp add: disconnect_def)
  show "read_resp connection_interrupted c = (r, c') \<Longrightarrow> quiet c c'"
    by (auto simp: read_resp_def Let_def split: prod.splits option.splits if_splits
        dest!: r intro: quiet_refl quiet_trans d)
qed

lemma quiet_deliver_resp:
  "send_deliver_resp room sn c = Inr (u, c') \<Longrightarrow> quiet c c'"
  "client_process_enquirelink room sn c = Inr (u, c') \<Longrightarrow> quiet c c'"
proof -
  have t: "try_catch m (\<lambda>bp. Inr ((), snd (write_or_disconnect room bp c))) (Inr ((), c)) = Inr (u, c') \<Longrightarrow>
    quiet c c'" for m
    using quiet_write_or_disconnect quiet_refl by (auto simp: try_catch_def split: sum.splits smpp_error.splits)
      (metis prod.collapse)
  show "send_deliver_resp room sn c = Inr (u, c') \<Longrightarrow> quiet c c'"
    "client_process_enquirelink room sn c = Inr (u, c') \<Longrightarrow> quiet c c'"
    unfolding send_deliver_resp_def client_process_enquirelink_def by (erule t)+
qed

section \<open>Steps that move messages\<close>

text \<open>
  The messages stay the same in number, and the list of messages to submit stays; no message starts
  to wait for a response.
\<close>

definition moves :: "smppclient \<Rightarrow> smppclient \<Rightarrow> bool" where
  "moves c c' \<longleftrightarrow> config c' = config c \<and> client_messages c' = client_messages c \<and>
     to_submit_list (own_source c') = to_submit_list (own_source c) \<and>
     mset (waiting_ack_smis c') \<subseteq># mset (waiting_ack_smis c)"

lemma moves_quiet:
  assumes "quiet c c'"
  shows "moves c c'"
proof -
  have "waiting_ack_smis c' = waiting_ack_smis c" using assms by (simp add: quiet_def)
  with quiet_messages [OF assms] show ?thesis by (simp add: moves_def)
qed

lemma moves_trans: "moves c c1 \<Longrightarrow> moves c1 c2 \<Longrightarrow> moves c c2"
  unfolding moves_def by (metis subset_mset.order_trans)

lemma on_host_same [simp]:
  "config (on_host f c) = config c" "waiting_ack_smis (on_host f c) = waiting_ack_smis c"
  "ack_timeout_smis (on_host f c) = ack_timeout_smis c"
  "get_unique_id_of_client (on_host f c) = get_unique_id_of_client c" "own_sn (on_host f c) = own_sn c"
  "host (on_host f c) = f (get_unique_id_of_client c) (host c)"
  by (simp_all add: on_host_def)

text \<open>Changes of a message that leave its numbers alone.\<close>

definition same_number :: "(cb_sm_information \<Rightarrow> cb_sm_information) \<Rightarrow> bool" where
  "same_number f \<longleftrightarrow> (\<forall>m. sn_by_client (f m) = sn_by_client m \<and> sn_by_gateway (f m) = sn_by_gateway m)"

lemma own_sn_same: "same_number f \<Longrightarrow> own_sn c (f m) = own_sn c m"
  by (simp add: same_number_def own_sn_def)

lemma image_own_sn_same: "same_number f \<Longrightarrow> image_mset (own_sn c) (mset (map f ms)) = image_mset (own_sn c) (mset ms)"
  by (simp add: own_sn_same multiset.map_comp comp_def)

lemma image_late:
  "image_mset f (mset l) = image_mset f (mset (filter P l)) + image_mset f (mset (filter (\<lambda>m. \<not> P m) l))"
  by (induction l) simp_all

lemma fold_on_host_failed:
  "(let c' = fold (\<lambda>m. on_host (\<lambda>flag. cds_submit_failed flag (f m))) ms c in
     config c' = config c \<and> waiting_ack_smis c' = waiting_ack_smis c \<and> ack_timeout_smis c' = ack_timeout_smis c \<and>
     own_source c' = (own_source c)\<lparr> delivered_list := delivered_list (own_source c) @ map f ms \<rparr>)"
proof (induction ms arbitrary: c)
  case (Cons m ms)
  show ?case
    using Cons [of "on_host (\<lambda>flag. cds_submit_failed flag (f m)) c"]
    by (simp add: Let_def cds_submit_failed_def)
qed (simp add: Let_def)

lemma moves_waiting_timeout: "moves c (process_waiting_ack_smis e c)"
proof -
  let ?late = "\<lambda>m. elapsed (now64 e) (own_submit_time c m) > waiting_ack_timeout (config c)"
  have f: "fold a_smis_waiting_ack_timeout ms c = c\<lparr> ack_timeout_smis := ack_timeout_smis c @ ms \<rparr>" for ms c
    by (induction ms arbitrary: c) (simp_all add: a_smis_waiting_ack_timeout_def)
  have "client_messages (process_waiting_ack_smis e c) = client_messages c"
    unfolding client_messages_def process_waiting_ack_smis_def Let_def f mset_append image_mset_union
    by (simp add: image_late [of "own_sn c" "waiting_ack_smis c" ?late] del: mset_filter)
  moreover have "mset (filter (\<lambda>m. \<not> ?late m) (waiting_ack_smis c)) \<subseteq># mset (waiting_ack_smis c)"
    by (simp add: multiset_filter_subset)
  ultimately show ?thesis by (simp add: moves_def process_waiting_ack_smis_def Let_def f)
qed

lemma moves_ack_timeout: "moves c (process_ack_timeout_smis e c)"
proof -
  let ?late = "\<lambda>m. elapsed (now64 e) (own_submit_time c m) > waiting_ack_timeout (config c) * 5"
  let ?f = "\<lambda>m. m\<lparr> cb_sm_information.error_status := DLR_STAT_SUBMIT_TIMEOUT \<rparr>"
  let ?l = "ack_timeout_smis c"
  let ?c = "c\<lparr> ack_timeout_smis := filter (\<lambda>m. \<not> ?late m) ?l \<rparr>"
  have n: "same_number ?f" by (simp add: same_number_def)
  let ?c' = "process_ack_timeout_smis e c"
  have k: "config ?c' = config c" "waiting_ack_smis ?c' = waiting_ack_smis c"
    "ack_timeout_smis ?c' = filter (\<lambda>m. \<not> ?late m) ?l"
    "own_source ?c' = (own_source c)\<lparr> delivered_list := delivered_list (own_source c) @ map ?f (filter ?late ?l) \<rparr>"
    using fold_on_host_failed [of ?f "filter ?late ?l" ?c] by (simp_all add: process_ack_timeout_smis_def Let_def)
  have "client_messages ?c' = client_messages c"
    unfolding client_messages_def own_config(1) [OF k(1)] k(2-4) held_def mset_append image_mset_union
    by (simp add: image_late [of "own_sn c" ?l ?late] image_own_sn_same [OF n] del: mset_filter mset_map)
  then show ?thesis by (simp add: moves_def k)
qed

lemma moves_dlr_timeout: "moves c (process_dlr_timeout_smis e c)"
proof -
  let ?gw = "is_gateway (config c)" and ?wt = "waiting_dlr_timeout (config c)"
  let ?late = "\<lambda>m. elapsed (now64 e) (delivering_time ?gw m) > ?wt"
  let ?f = "\<lambda>m. m\<lparr> cb_sm_information.error_status := DLR_STAT_DLR_TIMEOUT \<rparr>"
  let ?l = "delivering_list (own_source c)"
  have n: "same_number ?f" by (simp add: same_number_def)
  have k: "own_source (process_dlr_timeout_smis e c) = (own_source c)\<lparr> delivering_list := filter (\<lambda>m. \<not> ?late m) ?l,
      delivered_list := delivered_list (own_source c) @ map ?f (filter ?late ?l) \<rparr>"
    by (simp add: process_dlr_timeout_smis_def process_waiting_dlr_timeout_def Let_def
        fold_submit_failed [where f = ?f, simplified])
  have "client_messages (process_dlr_timeout_smis e c) = client_messages c"
    unfolding client_messages_def k held_def mset_append image_mset_union
    by (simp add: image_late [of "own_sn c" ?l ?late] image_own_sn_same [OF n] process_dlr_timeout_smis_def
        del: mset_filter mset_map)
  then show ?thesis by (simp add: moves_def k) (simp add: process_dlr_timeout_smis_def)
qed

lemma moves_timeouts: "moves c (process_timeouts e c)"
  unfolding process_timeouts_def
  using moves_trans moves_dlr_timeout moves_waiting_timeout moves_ack_timeout by blast

end
