(* ===== verification/Client_Invariant.thy ===== *)
theory Client_Invariant
  imports Client_Messages
begin

text \<open>
  The steps of the two threads of a client and of the calls of the program around it, by what they
  do to the messages of the client.
\<close>

section \<open>Responses and receipts\<close>

definition takes :: "smppclient \<Rightarrow> cb_sm_information \<Rightarrow> smppclient \<Rightarrow> bool" where
  "takes c smi c1 \<longleftrightarrow> config c1 = config c \<and> client_messages c = add_mset (own_sn c smi) (client_messages c1) \<and>
     to_submit_list (own_source c1) = to_submit_list (own_source c) \<and>
     mset (waiting_ack_smis c1) \<subseteq># mset (waiting_ack_smis c)"

lemma takes_waiting: "get_waiting_ack_smi sn c = (r, c1) \<Longrightarrow>
    (case r of None \<Rightarrow> c1 = c | Some smi \<Rightarrow> takes c smi c1)"
  by (auto simp: get_waiting_ack_smi_def takes_def client_messages_def split: option.splits
      dest!: extract_first_mset)

lemma takes_timeout: "get_ack_timeout_smi sn c = (r, c1) \<Longrightarrow>
    (case r of None \<Rightarrow> c1 = c | Some smi \<Rightarrow> takes c smi c1)"
  by (auto simp: get_ack_timeout_smi_def takes_def client_messages_def split: option.splits
      dest!: extract_first_mset)

lemma messages_failed:
  "client_messages (on_host (\<lambda>flag. cds_submit_failed flag smi) c) = add_mset (own_sn c smi) (client_messages c)"
  by (simp add: client_messages_def cds_submit_failed_def held_def)

lemma messages_delivering:
  "client_messages (on_host (\<lambda>flag. sm_is_delivering flag g now smi) c) = add_mset (own_sn c smi) (client_messages c)"
  by (cases g) (simp_all add: client_messages_def sm_is_delivering_def held_def own_sn_def)

lemma puts_back:
  assumes t: "takes c smi c1" and n: "own_sn c smi' = own_sn c smi"
  shows "moves c (on_host (\<lambda>flag. cds_submit_failed flag smi') c1)"
    and "moves c (on_host (\<lambda>flag. sm_is_delivering flag g now smi') c1)"
proof -
  have o: "own_sn c1 = own_sn c" using t own_config(1) [of c1 c] by (simp add: takes_def)
  show "moves c (on_host (\<lambda>flag. cds_submit_failed flag smi') c1)"
    using t by (simp add: moves_def takes_def messages_failed o n) (simp add: cds_submit_failed_def)
  show "moves c (on_host (\<lambda>flag. sm_is_delivering flag g now smi') c1)"
    using t by (simp add: moves_def takes_def messages_delivering o n) (simp add: sm_is_delivering_def Let_def)
qed

lemma moves_set_ack: "moves c (set_ack e sn mid ack err c)"
proof -
  obtain r1 c1 where s1: "get_waiting_ack_smi sn c = (r1, c1)" by (metis surj_pair)
  obtain r c2 where s2: "(case r1 of Some smi \<Rightarrow> (r1, c1) | None \<Rightarrow> get_ack_timeout_smi sn c1) = (r, c2)"
    by (metis surj_pair)
  have r: "case r of None \<Rightarrow> c2 = c | Some smi \<Rightarrow> takes c smi c2"
    using takes_waiting [OF s1] takes_timeout [of sn c1] s2 by (auto split: option.splits)
  show ?thesis
  proof (cases r)
    case None
    with r s1 s2 show ?thesis by (simp add: set_ack_def moves_def)
  next
    case (Some smi)
    let ?f = "\<lambda>smi. (if is_gateway (config c2) then smi\<lparr> message_id_of_provider := mid \<rparr>
        else smi\<lparr> message_id_of_protocol_server := mid \<rparr>)\<lparr> ack_status := ack, cb_sm_information.error_code := of_int err \<rparr>"
    have "own_sn c (?f smi) = own_sn c smi" by (simp add: own_sn_def)
    moreover have "takes c smi c2" using r Some by simp
    moreover have "set_ack e sn mid ack err c = (if ack = ACK_STATUS_SUCCESSFULLY
        then on_host (\<lambda>flag. sm_is_delivering flag (is_gateway (config c2)) (now64 e) (?f smi)) c2
        else on_host (\<lambda>flag. cds_submit_failed flag (?f smi)) c2)"
      using Some by (simp only: set_ack_def s1 s2 Let_def prod.case option.case)
    ultimately show ?thesis using puts_back by presburger
  qed
qed

lemma quiet_counters: "quiet c (c\<lparr> host := (host c)\<lparr> counters := t \<rparr> \<rparr>)"
  by (simp add: quiet_def)

lemma moves_submitsm_resp: "moves c (submitsm_resp_received e resp c)"
  unfolding submitsm_resp_received_def Let_def
  using moves_trans [OF moves_set_ack moves_quiet [OF quiet_counters]] by auto

lemma moves_delivered:
  "moves c (on_host (\<lambda>flag h. snd (sm_is_delivered flag g now mid stat err hex h)) c)"
proof -
  let ?P = "\<lambda>m. compare_string_nocase (ack_message_id g m) (real_message_id hex mid) = 0"
  show ?thesis
  proof (cases "extract_first ?P (delivering_list (own_source c))")
    case None
    then show ?thesis by (simp add: moves_def client_messages_def sm_is_delivered_def)
  next
    case (Some x)
    obtain smi rest where x: "x = (smi, rest)" by fastforce
    have "own_sn c (delivered_smi g now stat err smi) = own_sn c smi"
      by (simp add: own_sn_def delivered_smi_def Let_def)
    moreover have "mset (delivering_list (own_source c)) = add_mset smi (mset rest)"
      using Some x extract_first_mset [of ?P] by fast
    ultimately show ?thesis
      using Some x by (simp add: moves_def client_messages_def sm_is_delivered_def held_def Let_def)
  qed
qed

lemma moves_mo: "moves c (on_host (\<lambda>flag. mo_received flag g now sid sn src dst dc txt) c)"
  by (simp add: moves_def client_messages_def mo_received_def held_def Let_def)

lemma moves_then_resp: "send_deliver_resp room sn c1 = Inr (u, c') \<Longrightarrow> moves c c1 \<Longrightarrow> moves c c'"
  using quiet_deliver_resp(1) moves_quiet moves_trans by blast

lemma moves_deliversm: "deliversm_received e junk room p c = Inr (u, c') \<Longrightarrow> moves c c'"
  by (simp add: deliversm_received_def bind_eq_Inr Let_def case_prod_unfold split: if_split_asm)
    (auto elim!: moves_then_resp intro: moves_delivered moves_mo)

lemma moves_try: "try_catch m f (Inr ((), c)) = Inr (u, c') \<Longrightarrow> (\<And>p. f p = Inr (u, c') \<Longrightarrow> moves c c') \<Longrightarrow>
    moves c c'"
  using moves_quiet [OF quiet_refl] by (auto simp: try_catch_def split: sum.splits smpp_error.splits)

lemma moves_process:
  assumes "client_process e junk room bp c = Inr (u, c')"
  shows "moves c c'"
proof -
  have q: "moves c (bind_resp_received st c)" "moves c (unbind_resp_received c)" for st
    using quiet_trans [of c "c\<lparr> is_protocol_connected := False \<rparr>", OF _ quiet_disconnect]
    by (auto intro!: moves_quiet simp: bind_resp_received_def unbind_resp_received_def quiet_def)
  from assms show ?thesis
    by (simp add: client_process_def bind_eq_Inr split: if_split_asm)
      (auto elim!: moves_try intro: q moves_submitsm_resp moves_deliversm moves_quiet quiet_refl quiet_deliver_resp(2))
qed

lemma moves_receiver: "receiver_turn e junk room c = Inr c' \<Longrightarrow> moves c c'"
  using moves_process quiet_read_resp moves_quiet moves_trans
  by (auto simp: receiver_turn_def bind_eq_Inr split: prod.splits option.splits) blast+

section \<open>Submission\<close>

lemma quiet_disconnect_of: "quiet c c1 \<Longrightarrow> quiet c (disconnect b c1)"
  using quiet_trans quiet_disconnect by blast

lemma messages_waiting:
  "client_messages (add_waiting_ack_smi smi c) = add_mset (own_sn c smi) (client_messages c)"
  by (simp add: client_messages_def add_waiting_ack_smi_def)

lemma messages_removed:
  assumes "own_sn c smi = sn"
  shows "client_messages (remove_waiting_ack_smi sn (add_waiting_ack_smi smi c)) = client_messages c"
proof -
  let ?P = "\<lambda>m. own_sn c m = sn"
  have "extract_first ?P (l @ [smi]) \<noteq> None" for l
    using assms by (induction l) (auto split: option.splits)
  then obtain m rest where x: "extract_first ?P (waiting_ack_smis c @ [smi]) = Some (m, rest)"
    by fastforce
  then have "image_mset (own_sn c) (mset (waiting_ack_smis c @ [smi])) = image_mset (own_sn c) (add_mset m (mset rest))"
    and "own_sn c m = sn" using extract_first_mset [of ?P] by fastforce+
  with assms have "image_mset (own_sn c) (mset rest) = image_mset (own_sn c) (mset (waiting_ack_smis c))"
    by simp
  with x show ?thesis
    by (simp add: client_messages_def remove_waiting_ack_smi_def add_waiting_ack_smi_def)
qed

text \<open>A message that is submitted waits for its response, and one that is not is as before.\<close>

lemma submit_messages:
  assumes s: "submit e room smi c = Some (Inr ((b, smi'), c'))"
  shows "config c' = config c \<and> to_submit_list (own_source c') = to_submit_list (own_source c) \<and>
    own_sn c smi' = own_sn c smi \<and> content smi' = content smi \<and>
    client_messages c' = (if b then {# own_sn c smi #} else {#}) + client_messages c"
proof -
  let ?smi = "if is_gateway (config c) then smi\<lparr> submit_time_of_gateway := now64 e \<rparr>
      else smi\<lparr> submit_time_of_client := now64 e \<rparr>"
  let ?c = "add_waiting_ack_smi ?smi c" and ?sn = "own_sn c smi"
  have n: "own_sn c ?smi = ?sn" "content ?smi = content smi" by (simp_all add: own_sn_def)
  obtain pdu where "submit_pdu (config c) ?sn smi = Some pdu"
    using s by (cases "submit_pdu (config c) ?sn smi") (simp_all add: submit_def)
  then have t: "try_catch (bind pdu (\<lambda>p. pdu_packet p (SubmitSm_encode p)))
      (\<lambda>bp. case sync_write room bp ?c of (submitted, c1) \<Rightarrow>
         if submitted then Inr ((True, ?smi), c1)
         else Inr ((False, ?smi), disconnect True (remove_waiting_ack_smi ?sn c1)))
      (Inr ((False, smi), c)) = Inr ((b, smi'), c')"
    using s by (simp only: submit_def Let_def option.case option.inject)
  consider (no) "b = False" "smi' = smi" "c' = c"
    | (yes) bp c1 where "sync_write room bp ?c = (True, c1)" "b = True" "smi' = ?smi" "c' = c1"
    | (failed) bp c1 where "sync_write room bp ?c = (False, c1)" "b = False" "smi' = ?smi"
        "c' = disconnect True (remove_waiting_ack_smi ?sn c1)"
    using try_catch_result [OF t]
  proof (elim disjE exE conjE)
    fix bp
    obtain ok c1 where w: "sync_write room bp ?c = (ok, c1)" by (metis surj_pair)
    assume r: "(case sync_write room bp ?c of (submitted, c1) \<Rightarrow>
         if submitted then Inr ((True, ?smi), c1)
         else Inr ((False, ?smi), disconnect True (remove_waiting_ack_smi ?sn c1))) =
       (Inr ((b, smi'), c') :: _ result)"
    show thesis
    proof (cases ok)
      case True
      with r [unfolded w] show thesis by - (rule yes, use w in simp_all)
    next
      case False
      with r [unfolded w] show thesis by - (rule failed, use w in auto)
    qed
  next
    assume "Inr ((False, smi), c) = (Inr ((b, smi'), c') :: _ result)"
    then have "b = False" "smi' = smi" "c' = c" by auto
    then show thesis by (rule no)
  qed
  then show ?thesis
  proof cases
    case yes
    then have "quiet ?c c'" using quiet_write by blast
    then show ?thesis
      using quiet_messages [of ?c c'] messages_waiting [of ?smi c] n yes
      by (simp add: add_waiting_ack_smi_def)
  next
    case failed
    let ?c1 = "remove_waiting_ack_smi ?sn"
    have q: "quiet (?c1 ?c) (?c1 c1)"
      using quiet_write [OF failed(1)]
      by (auto simp: quiet_def remove_waiting_ack_smi_def own_config(1) [of c1 ?c] split: option.splits)
    have s: "config (?c1 ?c) = config c" "own_source (?c1 ?c) = own_source c"
      by (auto simp: remove_waiting_ack_smi_def add_waiting_ack_smi_def split: option.splits)
    show ?thesis
      using quiet_messages [OF quiet_disconnect_of [OF q]] s messages_removed [OF n(1)] n failed by simp
  qed simp
qed

section \<open>The worker\<close>

text \<open>A message in hand is one whose text is not empty.\<close>

definition in_hand :: "smppclient \<Rightarrow> worker \<Rightarrow> uint32 multiset" where
  "in_hand c w = (if content (w_smi w) \<noteq> [] then {# own_sn c (w_smi w) #} else {#})"

fun all_messages :: "worker \<times> smppclient \<Rightarrow> uint32 multiset" where
  "all_messages (w, c) = client_messages c + in_hand c w"

text \<open>The worker takes a message without text for none.\<close>

definition with_text :: "smppclient \<Rightarrow> bool" where
  "with_text c \<longleftrightarrow> (\<forall>m \<in> set (to_submit_list (own_source c)). content m \<noteq> [])"

definition worker_keeps :: "worker \<times> smppclient \<Rightarrow> worker \<times> smppclient \<Rightarrow> bool" where
  "worker_keeps st st' \<longleftrightarrow> config (snd st') = config (snd st) \<and> all_messages st' = all_messages st \<and>
     set (to_submit_list (own_source (snd st'))) \<subseteq> set (to_submit_list (own_source (snd st)))"

lemma worker_keeps_trans: "worker_keeps st st1 \<Longrightarrow> worker_keeps st1 st2 \<Longrightarrow> worker_keeps st st2"
  by (auto simp: worker_keeps_def)

lemma worker_keeps_moves:
  assumes "moves c c'" "w_smi w' = w_smi w"
  shows "worker_keeps (w, c) (w', c')"
  using assms own_config(1) [of c' c] by (auto simp: worker_keeps_def moves_def in_hand_def)

lemma get_to_submit_taken:
  "get_to_submit (get_unique_id_of_client c) (host c) = (r, h) \<Longrightarrow> (case r of
     None \<Rightarrow> moves c (c\<lparr> host := h \<rparr>)
   | Some smi \<Rightarrow> to_submit_list (own_source c) = smi # to_submit_list (own_source (c\<lparr> host := h \<rparr>)) \<and>
       client_messages c = add_mset (own_sn c smi) (client_messages (c\<lparr> host := h \<rparr>)))"
  by (auto simp: get_to_submit_def moves_def client_messages_def held_def split: list.splits)

lemma next_smi_keeps:
  assumes "next_smi w c = Some (b, smi, c')" "with_text c"
  shows "worker_keeps (w, c) (w\<lparr> w_smi := smi \<rparr>, c') \<and> (b \<longleftrightarrow> content smi \<noteq> [])"
proof (cases "content (w_smi w) = []")
  case False
  with assms show ?thesis by (auto simp: next_smi_def worker_keeps_def in_hand_def)
next
  case True
  obtain r h where g: "get_to_submit (get_unique_id_of_client c) (host c) = (r, h)" by fastforce
  show ?thesis
  proof (cases r)
    case None
    with True assms g get_to_submit_taken [OF g] show ?thesis
      by (auto simp: next_smi_def worker_keeps_def moves_def in_hand_def Let_def split: if_split_asm)
  next
    case (Some s)
    with True assms g get_to_submit_taken [OF g] show ?thesis
      by (auto simp: next_smi_def worker_keeps_def in_hand_def with_text_def Let_def split: if_split_asm)
  qed
qed

lemma heartbeat_keeps: "heartbeat e room w c = Inr (w', c') \<Longrightarrow> worker_keeps (w, c) (w', c')"
  using quiet_heartbeat worker_keeps_moves moves_quiet by blast

lemma with_text_worker_keeps: "worker_keeps (w, c) (w', c') \<Longrightarrow> with_text c \<Longrightarrow> with_text c'"
  by (auto simp: worker_keeps_def with_text_def)

lemma worker_turn_keeps:
  assumes t: "worker_turn e room w c = Some (Inr (w', c'))" and x: "with_text c"
  shows "worker_keeps (w, c) (w', c')"
proof -
  let ?c = "process_timeouts e c"
  have k: "worker_keeps (w, c) (w, ?c)" by (rule worker_keeps_moves [OF moves_timeouts refl])
  show ?thesis
  proof (cases "tx_able ?c")
    case False
    with t have "heartbeat e (room 1) w ?c = Inr (w', c')" by (simp add: worker_turn_def)
    with k show ?thesis using heartbeat_keeps worker_keeps_trans by blast
  next
    case tx: True
    show ?thesis
    proof (cases "next_smi w ?c")
      case None
      with t tx k show ?thesis by (simp add: worker_turn_def)
    next
      case (Some n)
      obtain b smi c1 where n: "n = (b, smi, c1)" by (metis prod_cases3)
      have k1: "worker_keeps (w, c) (w\<lparr> w_smi := smi \<rparr>, c1)" and b: "b \<longleftrightarrow> content smi \<noteq> []"
        using next_smi_keeps [of w ?c b smi c1] Some n with_text_worker_keeps [OF k x] worker_keeps_trans [OF k] by auto
      show ?thesis
      proof (cases b)
        case False
        with t tx Some n have "heartbeat e (room 1) (w\<lparr> w_smi := smi \<rparr>) c1 = Inr (w', c')"
          by (simp add: worker_turn_def)
        with k1 show ?thesis using heartbeat_keeps worker_keeps_trans by blast
      next
        case True
        with t tx Some n obtain sub smi' c2 where s: "submit e (room 0) smi c1 = Some (Inr ((sub, smi'), c2))"
          and r: "(if sub then heartbeat e (room 1) (w\<lparr> w_smi := smi'\<lparr> content := [] \<rparr> \<rparr>) c2
            else Inr (w\<lparr> w_smi := smi', w_at := Connecting \<rparr>, c2)) = Inr (w', c')"
          by (auto simp: worker_turn_def bind_eq_Inr split: option.splits)
        note m = submit_messages [OF s]
        have o: "own_sn c2 = own_sn c1" using m own_config(1) [of c2 c1] by simp
        show ?thesis
        proof (cases sub)
          case True
          have "worker_keeps (w\<lparr> w_smi := smi \<rparr>, c1) (w\<lparr> w_smi := smi'\<lparr> content := [] \<rparr> \<rparr>, c2)"
            using m b \<open>b\<close> True by (simp add: worker_keeps_def in_hand_def)
          with k1 r True show ?thesis using heartbeat_keeps worker_keeps_trans by auto
        next
          case False
          with r have "worker_keeps (w\<lparr> w_smi := smi \<rparr>, c1) (w', c')"
            using m o by (auto simp: worker_keeps_def in_hand_def)
          with k1 show ?thesis by (rule worker_keeps_trans)
        qed
      qed
    qed
  qed
qed

section \<open>All steps\<close>

fun handed_in :: "smppclient \<Rightarrow> client_event \<Rightarrow> uint32 multiset" where
  "handed_in c (Handed_in smis) = image_mset (own_sn c) (mset smis)"
| "handed_in c _ = {#}"

fun handed_out :: "smppclient \<Rightarrow> client_event \<Rightarrow> uint32 multiset" where
  "handed_out c (Handed_out smis) = image_mset (own_sn c) (mset smis)"
| "handed_out c _ = {#}"

fun event_with_text :: "client_event \<Rightarrow> bool" where
  "event_with_text (Handed_in smis) = (\<forall>m \<in> set smis. content m \<noteq> [])"
| "event_with_text _ = True"

definition gave_up :: "client_event list \<Rightarrow> nat" where
  "gave_up xs = length (filter (\<lambda>x. x = Gave_up) xs)"

text \<open>The messages before a step and after it, but for some that are lost.\<close>

definition accounted :: "worker \<times> smppclient \<Rightarrow> uint32 multiset \<Rightarrow> uint32 multiset \<Rightarrow> nat \<Rightarrow>
    worker \<times> smppclient \<Rightarrow> bool" where
  "accounted st ins outs k st' \<longleftrightarrow> config (snd st') = config (snd st) \<and> with_text (snd st') \<and>
     (\<exists>lost. size lost \<le> k \<and> all_messages st + ins = all_messages st' + outs + lost)"

lemma accounted_keeps:
  assumes "worker_keeps (w, c) (w', c')" "with_text c"
  shows "accounted (w, c) {#} {#} k (w', c')"
  using assms with_text_worker_keeps [OF assms]
  by (auto simp: accounted_def worker_keeps_def intro: exI [of _ "{#}"])

lemma accounted_moves: "moves c c' \<Longrightarrow> w_smi w' = w_smi w \<Longrightarrow> with_text c \<Longrightarrow> accounted (w, c) {#} {#} k (w', c')"
  using accounted_keeps worker_keeps_moves by blast

lemma accounted_trans:
  assumes "accounted st ins outs k st1" "accounted st1 ins1 outs1 k1 st2"
  shows "accounted st (ins + ins1) (outs + outs1) (k + k1) st2"
proof -
  obtain l l1 where l: "size l \<le> k" "all_messages st + ins = all_messages st1 + outs + l"
    and l1: "size l1 \<le> k1" "all_messages st1 + ins1 = all_messages st2 + outs1 + l1"
    using assms by (auto simp: accounted_def)
  have "all_messages st + (ins + ins1) = (all_messages st1 + ins1) + (outs + l)"
    using l(2) by (metis add.assoc add.commute)
  also have "\<dots> = all_messages st2 + (outs + outs1) + (l + l1)"
    unfolding l1(2) by (simp add: ac_simps)
  finally have "size (l + l1) \<le> k + k1 \<and> all_messages st + (ins + ins1) = all_messages st2 + (outs + outs1) + (l + l1)"
    using l(1) l1(1) by simp
  with assms show ?thesis unfolding accounted_def by metis
qed

lemma wait_accounted:
  assumes "worker_wait timed_out w c = (w', c')" "with_text c"
  shows "accounted (w, c) {#} {#} (if timed_out \<and> \<not> is_protocol_connected c then 1 else 0) (w', c')"
proof (cases "timed_out \<and> \<not> is_protocol_connected c")
  case False
  with assms show ?thesis
    by (auto simp: worker_wait_def split: if_split_asm intro!: accounted_moves moves_quiet quiet_refl)
next
  case True
  with assms have e: "w' = new_worker" "c' = disconnect True c" by (simp_all add: worker_wait_def)
  have m: "moves c c'" using moves_quiet [OF quiet_disconnect] e by simp
  have "all_messages (w, c) = all_messages (w', c') + in_hand c w"
    using m e by (simp add: moves_def in_hand_def new_worker_def new_cb_sm_information_def)
  moreover have "size (in_hand c w) \<le> 1" by (simp add: in_hand_def)
  ultimately show ?thesis using True m assms(2)
    unfolding accounted_def by (auto simp: moves_def with_text_def simp del: all_messages.simps)
qed

lemma submit_smis_accounted:
  assumes t: "with_text c" "\<forall>m \<in> set smis. content m \<noteq> []"
  shows "accounted (w, c) (image_mset (own_sn c) (mset smis)) {#} 0 (w, submit_smis smis reason c)"
proof -
  let ?f = "\<lambda>m. if is_gateway (config c) then m\<lparr> gateway_id := cc_gateway_id (config c) \<rparr>
      else m\<lparr> smi_systemid := cc_sysid (config c) \<rparr>"
  let ?g = "\<lambda>m. m\<lparr> cb_sm_information.error_code := 0, cb_sm_information.error_status := reason \<rparr>"
  let ?c = "submit_smis smis reason c"
  have f: "same_number ?f" "\<And>m. content (?f m) = content m" by (simp_all add: same_number_def)
  have g: "same_number ?g" by (simp add: same_number_def)
  have k: "config ?c = config c" "waiting_ack_smis ?c = waiting_ack_smis c" "ack_timeout_smis ?c = ack_timeout_smis c"
    "own_source ?c = (if length reason > 0
       then (own_source c)\<lparr> delivered_list := delivered_list (own_source c) @ map ?g (map ?f smis) \<rparr>
       else (own_source c)\<lparr> to_submit_list := to_submit_list (own_source c) @ map ?f smis \<rparr>)"
    using fold_on_host_failed [of ?g "map ?f smis" c] by (simp_all add: submit_smis_def add_smis_def Let_def)
  have "client_messages ?c = client_messages c + image_mset (own_sn c) (mset smis)"
    using image_own_sn_same [OF f(1), of c smis] image_own_sn_same [OF g, of c "map ?f smis"]
    unfolding client_messages_def own_config(1) [OF k(1)] k(2-4) held_def
    by (cases "length reason > 0") (simp_all add: ac_simps del: mset_map)
  moreover have "with_text ?c"
    using t f(2) unfolding with_text_def k(4) by (auto simp del: f)
  ultimately show ?thesis
    using k(1) own_config(1) [OF k(1)] by (auto simp: accounted_def in_hand_def)
qed

lemma handed_out_accounted:
  assumes "with_text c"
  shows "cds_get_global_status (get_unique_id_of_client c) n (host c) = (smis, h) \<Longrightarrow>
      accounted (w, c) {#} (image_mset (own_sn c) (mset smis)) 0 (w, c\<lparr> host := h \<rparr>)"
    and "get_all_to_submit_smis (get_unique_id_of_client c) (host c) = (smis, h) \<Longrightarrow>
      accounted (w, c) {#} (image_mset (own_sn c) (mset smis)) 0 (w, c\<lparr> host := h \<rparr>)"
proof -
  have a: "accounted (w, c) {#} (image_mset (own_sn c) (mset smis)) 0 (w, c\<lparr> host := h \<rparr>)"
    if "mset (held (own_source c)) = mset (held (own_source (c\<lparr> host := h \<rparr>))) + mset smis"
      "set (to_submit_list (own_source (c\<lparr> host := h \<rparr>))) \<subseteq> set (to_submit_list (own_source c))"
    using that assms by (auto simp: accounted_def client_messages_def with_text_def in_hand_def)
  have d: "mset (drop k l) + mset (take k l) = mset l" for k and l :: "cb_sm_information list"
    by (metis append_take_drop_id mset_append union_commute)
  show "cds_get_global_status (get_unique_id_of_client c) n (host c) = (smis, h) \<Longrightarrow>
      accounted (w, c) {#} (image_mset (own_sn c) (mset smis)) 0 (w, c\<lparr> host := h \<rparr>)"
    by (rule a) (auto simp: cds_get_global_status_def held_def Let_def add.assoc d split: if_split_asm)
  show "get_all_to_submit_smis (get_unique_id_of_client c) (host c) = (smis, h) \<Longrightarrow>
      accounted (w, c) {#} (image_mset (own_sn c) (mset smis)) 0 (w, c\<lparr> host := h \<rparr>)"
    by (rule a) (auto simp: get_all_to_submit_smis_def held_def)
qed

lemma moves_get_mos: "cds_get_mos (get_unique_id_of_client c) (host c) = (smis, h) \<Longrightarrow> moves c (c\<lparr> host := h \<rparr>)"
  by (auto simp: cds_get_mos_def moves_def client_messages_def held_def Let_def)

lemma step_accounted:
  assumes "client_step (w, c) x (w', c')" "with_text c" "event_with_text x"
  shows "accounted (w, c) (handed_in c x) (handed_out c x) (gave_up [x]) (w', c')"
  using assms(1)
proof cases
  case (arrive xs)
  have "quiet c c'" using arrive by (simp add: quiet_def)
  with arrive assms(2) show ?thesis by (simp add: accounted_moves moves_quiet)
next
  case (receive e junk room)
  with assms(2) show ?thesis by (simp add: accounted_moves moves_receiver)
next
  case (connect e up r)
  with assms(2) quiet_connect [of e up r w c w' c'] show ?thesis by (simp add: accounted_moves moves_quiet)
next
  case (wait timed_out)
  with assms(2) wait_accounted [of timed_out w c w' c'] show ?thesis by (auto simp: gave_up_def)
next
  case (turn e rooms)
  with assms(2) worker_turn_keeps [of e rooms w c w' c'] show ?thesis by (simp add: accounted_keeps)
next
  case (submit_smis smis reason)
  with assms submit_smis_accounted show ?thesis by (simp add: gave_up_def)
next
  case (get_global_status n smis h)
  with assms(2) handed_out_accounted(1) show ?thesis by (simp add: gave_up_def)
next
  case (get_all_to_submit smis h)
  with assms(2) handed_out_accounted(2) show ?thesis by (simp add: gave_up_def)
next
  case (get_mos smis h)
  with assms(2) moves_get_mos show ?thesis by (simp add: accounted_moves)
next
  case (unbind e room b)
  with assms(2) quiet_sends(2) show ?thesis by (simp add: accounted_moves moves_quiet)
qed

lemma run_accounted:
  assumes "client_run st xs st'" "with_text (snd st)" "list_all event_with_text xs"
  shows "accounted st (\<Sum>x\<leftarrow>xs. handed_in (snd st) x) (\<Sum>x\<leftarrow>xs. handed_out (snd st) x) (gave_up xs) st'"
  using assms
proof induction
  case (none st)
  then show ?case using accounted_keeps [of "fst st" "snd st" "fst st" "snd st"] by (simp add: worker_keeps_def)
next
  case (one st x st1 xs st2)
  have s: "accounted st (handed_in (snd st) x) (handed_out (snd st) x) (gave_up [x]) st1"
    using step_accounted [of "fst st" "snd st" x "fst st1" "snd st1"] one by simp
  then have c: "config (snd st1) = config (snd st)" "with_text (snd st1)" by (simp_all add: accounted_def)
  have "handed_in (snd st1) y = handed_in (snd st) y" "handed_out (snd st1) y = handed_out (snd st) y" for y
    using own_config(1) [OF c(1)] by (cases y; simp)+
  then have "accounted st1 (\<Sum>x\<leftarrow>xs. handed_in (snd st) x) (\<Sum>x\<leftarrow>xs. handed_out (snd st) x) (gave_up xs) st2"
    using one c(2) by simp
  from accounted_trans [OF s this] have "accounted st (handed_in (snd st) x + (\<Sum>x\<leftarrow>xs. handed_in (snd st) x))
    (handed_out (snd st) x + (\<Sum>x\<leftarrow>xs. handed_out (snd st) x)) (gave_up [x] + gave_up xs) st2" .
  moreover have "gave_up [x] + gave_up xs = gave_up (x # xs)" by (simp add: gave_up_def)
  ultimately show ?case by (simp only: list.map sum_list.Cons)
qed

section \<open>A message that cannot be submitted\<close>

text \<open>
  The worker keeps such a message in its hand, and nothing is submitted any more: no message starts
  to wait for a response, and what is to be submitted stays, but for what the program takes back.
\<close>

fun taken_back :: "client_event \<Rightarrow> cb_sm_information multiset" where
  "taken_back (Handed_out smis) = mset smis"
| "taken_back _ = {#}"

definition nothing_submitted :: "smppclient \<Rightarrow> cb_sm_information multiset \<Rightarrow> smppclient \<Rightarrow> bool" where
  "nothing_submitted c out c' \<longleftrightarrow> mset (waiting_ack_smis c') \<subseteq># mset (waiting_ack_smis c) \<and>
     mset (to_submit_list (own_source c)) \<subseteq># mset (to_submit_list (own_source c')) + out"

lemma nothing_submitted_trans:
  assumes "nothing_submitted c out c1" "nothing_submitted c1 out1 c'"
  shows "nothing_submitted c (out + out1) c'"
proof -
  have "mset (to_submit_list (own_source c)) \<subseteq># mset (to_submit_list (own_source c')) + out1 + out"
    using assms subset_mset.add_mono [of _ _ out out] subset_mset.order_trans unfolding nothing_submitted_def
    by (metis subset_mset.order_refl)
  then show ?thesis
    using assms subset_mset.order_trans unfolding nothing_submitted_def by (metis add.assoc add.commute)
qed

lemma nothing_submitted_moves:
  assumes "moves c c'"
  shows "config c' = config c \<and> nothing_submitted c {#} c'"
  using assms by (simp add: moves_def nothing_submitted_def)

definition refused :: "smppclient_configer \<Rightarrow> worker \<Rightarrow> bool" where
  "refused k w \<longleftrightarrow> content (w_smi w) \<noteq> [] \<and>
     (\<exists>t. submit_pdu k (if is_gateway k then sn_by_gateway (w_smi w) else sn_by_client (w_smi w)) (w_smi w) =
        Some (Inl (Error t)))"

lemma submit_refused:
  "refused (config c) w \<Longrightarrow> submit e room (w_smi w) c = Some (Inr ((False, w_smi w), c))"
  by (auto simp: refused_def submit_def own_sn_def try_catch_def)

lemma turn_refused:
  assumes t: "worker_turn e room w c = Some (Inr (w', c'))" and r: "refused (config c) w"
  shows "w_smi w' = w_smi w \<and> moves c c'"
proof -
  let ?c = "process_timeouts e c"
  have m: "moves c ?c" by (rule moves_timeouts)
  then have k: "config ?c = config c" by (simp add: moves_def)
  show ?thesis
  proof (cases "tx_able ?c")
    case False
    with t have "heartbeat e (room 1) w ?c = Inr (w', c')" by (simp add: worker_turn_def)
    with m show ?thesis using quiet_heartbeat moves_quiet moves_trans by blast
  next
    case True
    moreover have "next_smi w ?c = Some (True, w_smi w, ?c)"
      using r by (simp add: next_smi_def refused_def)
    moreover have "submit e (room 0) (w_smi w) ?c = Some (Inr ((False, w_smi w), ?c))"
      using submit_refused [of ?c w] r k by simp
    ultimately show ?thesis using t m by (auto simp: worker_turn_def)
  qed
qed

lemma submit_smis_adds:
  "config (submit_smis smis reason c) = config c \<and> nothing_submitted c {#} (submit_smis smis reason c)"
proof -
  let ?c = "submit_smis smis reason c"
  let ?f = "\<lambda>m. if is_gateway (config c) then m\<lparr> gateway_id := cc_gateway_id (config c) \<rparr>
      else m\<lparr> smi_systemid := cc_sysid (config c) \<rparr>"
  let ?g = "\<lambda>m. m\<lparr> cb_sm_information.error_code := 0, cb_sm_information.error_status := reason \<rparr>"
  have k: "config ?c = config c" "waiting_ack_smis ?c = waiting_ack_smis c"
    "own_source ?c = (if length reason > 0
       then (own_source c)\<lparr> delivered_list := delivered_list (own_source c) @ map ?g (map ?f smis) \<rparr>
       else (own_source c)\<lparr> to_submit_list := to_submit_list (own_source c) @ map ?f smis \<rparr>)"
    using fold_on_host_failed [of ?g "map ?f smis" c] by (simp_all add: submit_smis_def add_smis_def Let_def)
  have "mset (to_submit_list (own_source c)) \<subseteq># mset (to_submit_list (own_source ?c))"
    unfolding k(3) by (simp del: mset_map)
  with k(1,2) show ?thesis by (simp add: nothing_submitted_def)
qed

lemma handed_out_submitted:
  "cds_get_global_status (get_unique_id_of_client c) n (host c) = (smis, h) \<Longrightarrow>
    nothing_submitted c (mset smis) (c\<lparr> host := h \<rparr>)"
  "get_all_to_submit_smis (get_unique_id_of_client c) (host c) = (smis, h) \<Longrightarrow>
    nothing_submitted c (mset smis) (c\<lparr> host := h \<rparr>)"
  by (auto simp: cds_get_global_status_def get_all_to_submit_smis_def nothing_submitted_def Let_def split: if_split_asm)

lemma step_refused:
  assumes "client_step (w, c) x (w', c')" "refused (config c) w" "x \<noteq> Gave_up"
  shows "w_smi w' = w_smi w \<and> config c' = config c \<and> nothing_submitted c (taken_back x) c'"
  using assms(1)
proof cases
  case (arrive xs)
  then have "quiet c c'" by (simp add: quiet_def)
  with arrive nothing_submitted_moves [OF moves_quiet] show ?thesis by simp
next
  case (receive e junk room)
  with nothing_submitted_moves [OF moves_receiver] show ?thesis by simp
next
  case (connect e up r)
  with quiet_connect [of e up r w c w' c'] nothing_submitted_moves [OF moves_quiet] show ?thesis by simp
next
  case (wait timed_out)
  with assms(3) show ?thesis by (auto simp: worker_wait_def nothing_submitted_def split: if_split_asm)
next
  case (turn e rooms)
  with assms(2) turn_refused [of e rooms w c w' c'] nothing_submitted_moves [of c c'] show ?thesis by simp
next
  case (submit_smis smis reason)
  then show ?thesis using submit_smis_adds by simp
next
  case (get_global_status n smis h)
  with handed_out_submitted(1) show ?thesis by simp
next
  case (get_all_to_submit smis h)
  with handed_out_submitted(2) show ?thesis by simp
next
  case (get_mos smis h)
  with nothing_submitted_moves [OF moves_get_mos] show ?thesis by simp
next
  case (unbind e room b)
  with nothing_submitted_moves [OF moves_quiet [OF quiet_sends(2)]] show ?thesis by simp
qed

lemma refused_same: "w_smi w' = w_smi w \<Longrightarrow> config c' = config c \<Longrightarrow> refused (config c') w' = refused (config c) w"
  by (simp add: refused_def split del: if_split cong: if_cong)

lemma run_refused:
  assumes "client_run st xs st'" "refused (config (snd st)) (fst st)" "Gave_up \<notin> set xs"
  shows "w_smi (fst st') = w_smi (fst st) \<and> refused (config (snd st')) (fst st') \<and>
    nothing_submitted (snd st) (\<Sum>x\<leftarrow>xs. taken_back x) (snd st')"
  using assms
proof induction
  case (none st)
  then show ?case by (simp add: nothing_submitted_def)
next
  case (one st x st1 xs st2)
  have s: "w_smi (fst st1) = w_smi (fst st)" "config (snd st1) = config (snd st)"
    "nothing_submitted (snd st) (taken_back x) (snd st1)"
    using step_refused [of "fst st" "snd st" x "fst st1" "snd st1"] one.hyps(1) one.prems by auto
  with one refused_same [of "fst st1" "fst st" "snd st1" "snd st"] show ?case
    using nothing_submitted_trans [OF s(3)] by simp
qed

end
