(* ===== verification/Client_Receipts.thy ===== *)
theory Client_Receipts
  imports Client_Invariant Message_Path
begin

text \<open>
  A delivery receipt, from the text that the server writes into a deliver_sm to the message of the
  client that it is about.
\<close>

section \<open>The text of a receipt\<close>

text \<open>An item that splitting leaves alone: it has no blank and no colon.\<close>

definition plain :: "octets \<Rightarrow> bool" where
  "plain s \<longleftrightarrow> (\<forall>c \<in> set s. \<not> is_space c \<and> c \<noteq> 58)"

lemma plain_append [simp]: "plain (s @ t) \<longleftrightarrow> plain s \<and> plain t"
  by (auto simp: plain_def)

lemma plain_no_blank: "plain s \<Longrightarrow> 32 \<notin> set s" "plain s \<Longrightarrow> 58 \<notin> set s" "plain s \<Longrightarrow> first_word s = s"
  by (auto simp: plain_def is_space_def first_word_word)

lemma digits_plain: "list_all is_digit s \<Longrightarrow> plain s"
  using digit_no_space by (auto simp: plain_def list_all_iff)

lemma hex_plain: "plain (hex_string n)"
  unfolding plain_def using hex_string_digits [of n] hex_value_no_space by (auto simp: hex_value_def)

lemma format_plain: "plain (format_uint32_to_lenght v k)"
  by (simp add: format_uint32_to_lenght_def digits_plain pad_digits)

lemma AppendixB_plain: "plain (format_to_AppendixB_time t)"
proof -
  have "list_all is_digit (drop n (decimal m))" for n m
    using decimal_digits [of m] by (auto simp: list_all_iff dest!: in_set_dropD)
  then show ?thesis
    by (simp add: format_to_AppendixB_time_def Let_def format_plain digits_plain)
qed

lemma split_words:
  "32 \<notin> set s \<Longrightarrow> split_by_separator (s @ 32 # t) 32 = first_word s # map first_word (split_regex 32 t)"
  "32 \<notin> set s \<Longrightarrow> split_regex 32 (s @ 32 # t) = s # split_regex 32 t"
  by (simp_all add: split_by_separator_def split_regex_append)

lemma split_colon:
  assumes "plain k" "plain v"
  shows "split_by_separator (k @ 58 # v) 58 = [k, v]"
  using assms plain_no_blank
  by (simp add: split_by_separator_def split_regex_append split_regex_part)

lemma first_word_item: "plain k \<Longrightarrow> plain v \<Longrightarrow> first_word (k @ 58 # v) = k @ 58 # v"
  by (rule first_word_word) (auto simp: plain_def is_space_def)

lemma receipt_word:
  assumes "plain k" "plain v"
  shows "parse_receipt_word (k @ 58 # v) (mid, stat, err) =
    (if k = ascii ''id'' then (v, stat, err) else if k = ascii ''stat'' then (mid, v, err)
     else if k = ascii ''err'' then (mid, stat, read_int v) else (mid, stat, err))"
  using split_colon [OF assms] by (simp add: parse_receipt_word_def)

lemma receipt_word_alone: "plain w \<Longrightarrow> parse_receipt_word w r = r"
  using plain_no_blank(2) [of w]
  by (cases r) (simp add: parse_receipt_word_def split_by_separator_def split_regex_part)

definition item :: "string \<Rightarrow> octets \<Rightarrow> octets" where
  "item k v = ascii k @ 58 # v"

lemma item_facts:
  assumes "plain (ascii k)" "plain v"
  shows "32 \<notin> set (item k v)" "first_word (item k v) = item k v" "item k v \<noteq> []"
  using assms plain_no_blank first_word_item by (auto simp: item_def)

lemma receipt_items_eq:
  "receipt_text e d smi =
     (let mid = message_id_of_protocol_server smi;
          mid = (if d then format_hex_string_to_decimal_string mid 10 else mid)
      in item ''id'' mid @ 32 # item ''sub'' (ascii ''001'') @ 32 # item ''dlvrd'' (ascii ''001'') @ 32 #
         ascii ''submit'' @ 32 # item ''date'' (format_to_AppendixB_time (localtime e (submit_time_of_client smi))) @ 32 #
         ascii ''done'' @ 32 # item ''date'' (format_to_AppendixB_time (localtime e (of_int (time_now e)))) @ 32 #
         item ''stat'' (cb_sm_information.error_status smi) @ 32 #
         item ''err'' (format_uint32_to_lenght (cb_sm_information.error_code smi) 3) @ 32 # item ''text'' (ascii ''000''))"
  by (simp add: receipt_text_def item_def Let_def ascii_def)

lemma plain_ascii:
  "plain (ascii ''id'')" "plain (ascii ''sub'')" "plain (ascii ''dlvrd'')" "plain (ascii ''date'')"
  "plain (ascii ''submit'')" "plain (ascii ''done'')" "plain (ascii ''stat'')" "plain (ascii ''err'')"
  "plain (ascii ''text'')" "plain (ascii ''001'')" "plain (ascii ''000'')"
  by (simp_all add: plain_def ascii_def is_space_def word_le_nat_alt)

lemma keys_differ:
  "ascii ''sub'' \<noteq> ascii ''id''" "ascii ''sub'' \<noteq> ascii ''stat''" "ascii ''sub'' \<noteq> ascii ''err''"
  "ascii ''dlvrd'' \<noteq> ascii ''id''" "ascii ''dlvrd'' \<noteq> ascii ''stat''" "ascii ''dlvrd'' \<noteq> ascii ''err''"
  "ascii ''date'' \<noteq> ascii ''id''" "ascii ''date'' \<noteq> ascii ''stat''" "ascii ''date'' \<noteq> ascii ''err''"
  "ascii ''text'' \<noteq> ascii ''id''" "ascii ''text'' \<noteq> ascii ''stat''" "ascii ''text'' \<noteq> ascii ''err''"
  "ascii ''stat'' \<noteq> ascii ''id''" "ascii ''err'' \<noteq> ascii ''id''" "ascii ''err'' \<noteq> ascii ''stat''"
  by (simp_all add: ascii_def)

text \<open>The client reads the three items that it looks for as the server wrote them.\<close>

lemma parse_receipt_text:
  assumes mid: "mid = (if d then format_hex_string_to_decimal_string (message_id_of_protocol_server smi) 10
      else message_id_of_protocol_server smi)" "plain mid"
    and stat: "plain (cb_sm_information.error_status smi)"
  shows "parse_deliversm_short_message (receipt_text e d smi) r =
    (mid, cb_sm_information.error_status smi,
     read_int (format_uint32_to_lenght (cb_sm_information.error_code smi) 3))"
proof -
  obtain m0 s0 e0 where r: "r = (m0, s0, e0)" by (metis prod_cases3)
  have items: "receipt_text e d smi = item ''id'' mid @ 32 # item ''sub'' (ascii ''001'') @ 32 #
         item ''dlvrd'' (ascii ''001'') @ 32 #
         ascii ''submit'' @ 32 # item ''date'' (format_to_AppendixB_time (localtime e (submit_time_of_client smi))) @ 32 #
         ascii ''done'' @ 32 # item ''date'' (format_to_AppendixB_time (localtime e (of_int (time_now e)))) @ 32 #
         item ''stat'' (cb_sm_information.error_status smi) @ 32 #
         item ''err'' (format_uint32_to_lenght (cb_sm_information.error_code smi) 3) @ 32 # item ''text'' (ascii ''000'')"
    unfolding receipt_items_eq mid(1) Let_def ..
  note p = plain_ascii mid(2) stat AppendixB_plain format_plain
  have last: "split_regex 32 (item ''text'' (ascii ''000'')) = [item ''text'' (ascii ''000'')]"
    by (rule split_regex_part) (rule item_facts; rule p)
  show ?thesis
    unfolding parse_deliversm_short_message_def items r
    by (simp add: split_words item_facts p plain_no_blank last receipt_word_alone)
      (simp add: item_def receipt_word p keys_differ)
qed

lemma read_error_code:
  "v \<le> 0x7fffffff \<Longrightarrow> read_int (format_uint32_to_lenght v 3) = uint v"
  by (simp add: read_int_def format_uint32_to_lenght_def digits_start pad_digits Let_def word_le_def)

section \<open>Processing\<close>

lemma DeliverSm_decode_default: "DeliverSm_decode DeliverSm_default b = DeliverSm_from b"
  by (simp add: DeliverSm_from_def DeliverSm_decode_def decode_frame_def Header_decode_def bind_def
      cong: sum.case_cong split: sum.splits)

lemma DeliverSmResp_packet:
  "pdu_packet (new_DeliverSmResp st sn []) (DeliverSmResp_encode (new_DeliverSmResp st sn [])) =
     Inr (response 0x80000005 st sn [0])"
  unfolding DeliverSmResp_encode_def
  by (subst deliver_sm_resp.packet)
    (simp_all add: deliver_sm_resp_frame_ok [OF DeliverSmResp_reachable.ctor],
     simp_all add: DeliverSmResp_body_def new_DeliverSmResp_def pdu_octets_def header_octets_def update_length_def
       String_octets_def response_def pdu_size_def)

text \<open>A response is written or not, and in either case processing goes on.\<close>

lemma deliver_resp_total: "\<exists>c'. send_deliver_resp room sn c = Inr ((), c') \<and> quiet c c'"
proof -
  obtain r where r: "send_deliver_resp room sn c = r" by simp
  have "\<exists>c'. r = Inr ((), c')"
    using r by (auto simp: send_deliver_resp_def SequenceNumber_assign_allow_0 try_catch_def
        DeliverSmResp_packet Let_def)
  with r quiet_deliver_resp(1) show ?thesis by blast
qed

text \<open>The first message of the list with this id is the one that is found.\<close>

lemma delivered_found:
  assumes l: "delivering_list (the_source flag h) = before @ m # after"
    and m: "map lower (ack_message_id g m) = map lower (real_message_id hex mid)"
    and b: "\<forall>x \<in> set before. map lower (ack_message_id g x) \<noteq> map lower (real_message_id hex mid)"
  shows "the_source flag (snd (sm_is_delivered flag g now mid stat err hex h)) = (the_source flag h)\<lparr>
      delivering_list := before @ after,
      delivered_list := delivered_list (the_source flag h) @ [delivered_smi g now stat err m] \<rparr>"
proof -
  let ?P = "\<lambda>m. compare_string_nocase (ack_message_id g m) (real_message_id hex mid) = 0"
  have "extract_first ?P (before @ m # after) = Some (m, before @ after)"
    by (rule extract_first_append) (use m b in \<open>simp_all add: compare_nocase_0\<close>)
  then show ?thesis using l by (simp add: sm_is_delivered_def Let_def)
qed

text \<open>Both forms of a message id lead back to the one of the response.\<close>

lemma real_id:
  assumes "mid = (if d then format_hex_string_to_decimal_string (hex_string (unat (n :: uint32))) 10
      else hex_string (unat n))"
  shows "plain mid" "real_message_id d mid = hex_string (unat n)"
proof -
  show "plain mid"
    using assms by (simp add: hex_plain hex_to_decimal digits_plain pad_digits)
  have "d \<Longrightarrow> string_is_number_only mid"
    using assms by (simp add: hex_to_decimal number_only pad_digits)
  with assms decimal_to_hex [of n 10] show "real_message_id d mid = hex_string (unat n)"
    by (simp add: real_message_id_def Let_def)
qed

end
