(* ===== verification/Client_Submission.thy ===== *)
theory Client_Submission
  imports Client_Receipts
begin

text \<open>
  A submission, from the message of the client to the message that the server makes of it.
\<close>

section \<open>The PDU\<close>

definition submission :: "smppclient_configer \<Rightarrow> uint32 \<Rightarrow> cb_sm_information \<Rightarrow> octet \<Rightarrow> octets \<Rightarrow> SubmitSm" where
  "submission k sn smi dc m =
     \<lparr> command_length = of_nat (33 + length (servtype k) + length (src_addr smi) + length (dst_addr smi) + length m),
       command_id = 0x00000004, command_status = 0, sequence_number = sn, tlv_list = [],
       SubmitSm.service_type = servtype k,
       SubmitSm.source_addr = \<lparr> ton = srcaddr_ton k, npi = srcaddr_npi k, address = \<lparr> addr_v = src_addr smi, addr_len = 21 \<rparr> \<rparr>,
       SubmitSm.destination_addr = sme (dst_addr smi),
       SubmitSm.esm_class = (if udhi_total_parts smi > 1 then 0x40 else 0), SubmitSm.protocol_id = 0, SubmitSm.priority_flag = 0,
       SubmitSm.schedule_delivery_time = [], SubmitSm.validity_period = [], SubmitSm.registered_delivery = 1, SubmitSm.replace_if_present_flag = 0,
       SubmitSm.data_coding = dc, SubmitSm.sm_default_msg_id = 0, SubmitSm.short_message = m \<rparr>"

text \<open>The addresses and the numbers that the constructors take.\<close>

definition sendable :: "smppclient_configer \<Rightarrow> uint32 \<Rightarrow> cb_sm_information \<Rightarrow> bool" where
  "sendable k sn smi \<longleftrightarrow> cstr_ok 21 (src_addr smi) \<and> cstr_ok 21 (dst_addr smi) \<and> ServiceType_ok (servtype k) \<and>
     SequenceNumber_valid sn \<and> srcaddr_ton k \<le> 6 \<and>
     srcaddr_npi k \<in> {0x00, 0x01, 0x03, 0x04, 0x06, 0x08, 0x09, 0x0a, 0x0e, 0x12}"

lemma Ton_le: "t \<le> 6 \<Longrightarrow> Ton (uint t) = Inr t"
proof -
  assume "t \<le> (6 :: octet)"
  then have "uint t \<in> {0..6}" by (simp add: word_le_def)
  also have "{0..6} = {0, 1, 2, 3, 4, 5, 6 :: int}" by auto
  finally show ?thesis by (simp add: Ton_def)
qed

lemma source_address_eq:
  "sendable k sn smi \<Longrightarrow> source_address k (src_addr smi) =
     Inr \<lparr> ton = srcaddr_ton k, npi = srcaddr_npi k, address = \<lparr> addr_v = src_addr smi, addr_len = 21 \<rparr> \<rparr>"
  by (simp add: source_address_def sendable_def Ton_le Npi_def new_Address_def new_SmeAddress_def
      valid_length_String_def cstr_ok_def)

lemma submit_header_eq:
  assumes "sendable k sn smi"
  shows "submit_header k sn smi = Inr (submission k sn smi 0 [])"
  using assms source_address_eq [OF assms]
  by (simp add: submit_header_def sendable_def international_eq cstr_ok_def set_sequence_number_def
      SequenceNumber_assign_allow_0 SubmitSm_set_service_type_def SubmitSm_set_source_addr_def
      SubmitSm_set_destination_addr_def SubmitSm_set_registered_delivery_def SubmitSm_set_esm_class_def
      SubmitSm_default_def update_length_def diff_def sme_def SmeAddress_default_def Address_default_def
      submission_def Let_def)

lemma submission_text:
  "SubmitSm_set_short_message m (of_nat (length m)) (SubmitSm_set_data_coding dc (submission k sn smi 0 [])) =
     Inr (submission k sn smi dc (take (length m mod 256) m))"
  by (simp add: SubmitSm_set_short_message_def SubmitSm_set_data_coding_def message_diff_def ShortMessage_def
      unat_of_nat take_bit_eq_mod submission_def update_length_def min_def algebra_simps)

lemma submission_ok:
  assumes "sendable k sn smi" "length m < 256"
  shows "submit_sm.ok (submission k sn smi dc m)"
  using assms
  by (simp add: SubmitSm_fields_ok_def sendable_def submission_def SmeAddress_ok_def sme_def cstr_ok_def
      ShortMessage_ok_def size_ok_def frame_ok_def pdu_size_def SubmitSm_body_def octets_simps
      address_length_def add.commute)

section \<open>The text\<close>

definition coded :: "uint16 list \<Rightarrow> octet \<times> octets" where
  "coded us = (if \<forall>u \<in> set us. ucast u < (0x80 :: uint32) then (0, utf8_of us) else (8, ucs2_of us))"

lemma encoded_text_bmp:
  assumes "list_all bmp us"
  shows "encoded_text (utf8_of us) = Some (Inr (if fst (coded us) = 8 then UCS2 else Alphabet, snd (coded us)))"
  using pure_ascii_bmp [OF assms] convert_utf8_bmp [OF assms]
  by (auto simp: encoded_text_def coded_def split: bool.splits)

text \<open>The server takes the six octets of the header off and reads the text as it was.\<close>

lemma server_text:
  assumes "list_all bmp us"
  shows "convert_to_utf8 (length h) (h @ snd (coded us)) (dc_type (fst (coded us))) = Inr (utf8_of us)"
  using convert_ucs2_bmp [OF assms, of "[]"]
  by (simp add: convert_to_utf8_def coded_def dc_type_def)

definition like_udhi :: "octets \<Rightarrow> bool" where
  "like_udhi sm \<longleftrightarrow> length sm > 6 \<and> take 3 sm = [0x05, 0x00, 0x03]"

lemma parse_udhi_eq:
  "parse_udhi sm = (if like_udhi sm then (sm ! 3, sm ! 4, sm ! 5, 6) else (0, 1, 1, 0))"
proof -
  have "take 3 sm = [sm ! 0, sm ! 1, sm ! 2]" if "length sm > 6"
    using that by (intro nth_equalityI) (auto simp: less_Suc_eq numeral_eq_Suc)
  then show ?thesis by (auto simp: parse_udhi_def like_udhi_def)
qed

text \<open>The message that the server makes of a submission has the text and the addresses of the client's.\<close>

lemma submission_received:
  assumes us: "list_all bmp us" "content smi = utf8_of us" "us \<noteq> []"
    and header: "udhi_total_parts smi > 1 \<or> \<not> like_udhi (snd (coded us))"
    and p: "p = submission k sn smi (fst (coded us)) (udhi smi @ snd (coded us))"
  shows "\<exists>r. submitted_smi e p mid s = Inr r \<and> content r = content smi \<and> src_addr r = src_addr smi \<and>
    dst_addr r = dst_addr smi \<and> sn_by_client r = sn \<and> message_id_of_protocol_server r = mid \<and>
    (udhi_reference r, udhi_total_parts r, udhi_part_index r) =
      (if udhi_total_parts smi > 1 then (udhi_reference smi, udhi_total_parts smi, udhi_part_index smi) else (0, 1, 1))"
proof -
  let ?m = "udhi smi @ snd (coded us)"
  have "snd (coded us) \<noteq> []"
  proof -
    from us(3) obtain u vs where "us = u # vs" by (cases us) auto
    then show ?thesis using us(1) by (auto simp: coded_def be_octets16_def bmp_octets)
  qed
  then have u: "parse_udhi ?m = (if udhi_total_parts smi > 1
      then (udhi_reference smi, udhi_total_parts smi, udhi_part_index smi, 6) else (0, 1, 1, 0))"
    using header by (auto simp: parse_udhi_eq udhi_def like_udhi_def)
  have t: "convert_to_utf8 (length (udhi smi)) ?m (dc_type (fst (coded us))) = Inr (content smi)"
    using server_text [OF us(1)] us(2) by simp
  have l: "length (udhi smi) = (if udhi_total_parts smi > 1 then 6 else 0)" by (simp add: udhi_def)
  show ?thesis
    using t u l by (cases "udhi_total_parts smi > 1") (simp_all add: submitted_smi_def p submission_def sme_def Let_def)
qed

section \<open>The step\<close>

lemma submit_pdu_eq:
  assumes "sendable k sn smi" "list_all bmp us" "content smi = utf8_of us"
    and "length (udhi smi @ snd (coded us)) < 256"
  shows "submit_pdu k sn smi = Some (Inr (submission k sn smi (fst (coded us)) (udhi smi @ snd (coded us))))"
proof -
  have "type_number (if fst (coded us) = 8 then UCS2 else Alphabet) = fst (coded us)" by (simp add: coded_def)
  with assms show ?thesis
    by (simp add: submit_pdu_def submit_header_eq encoded_text_bmp submission_text Let_def del: length_append take_append)
qed

lemma submission_written:
  assumes "sendable (config c) (own_sn c smi) smi" "list_all bmp us" "content smi = utf8_of us"
    and short: "length (udhi smi @ snd (coded us)) < 256"
    and c: "connected c"
    and p: "p = submission (config c) (own_sn c smi) smi (fst (coded us)) (udhi smi @ snd (coded us))"
  obtains bp smi' c' where "submit e (Some 1024) smi c = Some (Inr ((True, smi'), c'))" "sent c' = sent c @ bp"
    "waiting_ack_smis c' = waiting_ack_smis c @ [smi']" "SubmitSm_from bp = Inr p"
    "own_sn c smi' = own_sn c smi" "content smi' = content smi" "config c' = config c" "host c' = host c"
proof -
  note found = that
  let ?bp = "submit_sm.octs p"
  have ok: "submit_sm.ok p" unfolding p by (rule submission_ok [OF assms(1) short])
  then have e: "pdu_packet p (SubmitSm_encode p) = Inr ?bp"
    unfolding SubmitSm_encode_def by (intro submit_sm.packet) (simp_all add: size_ok_def)
  have d: "SubmitSm_from ?bp = Inr p"
    using submit_sm.decode_frame_octs [OF ok, of "[]"] by (simp add: SubmitSm_from_def SubmitSm_decode_def)
  have "length ?bp = 33 + length (servtype (config c)) + length (src_addr smi) + length (dst_addr smi) +
      length (udhi smi @ snd (coded us))"
    by (simp add: p submission_def address_length_def pdu_octets_def header_octets_def SubmitSm_body_def octets_simps sme_def)
  moreover have "length (src_addr smi) < 21" "length (dst_addr smi) < 21" "length (servtype (config c)) < 6"
    using assms(1) by (simp_all add: sendable_def cstr_ok_def)
  ultimately have l: "length ?bp \<le> 1024" "length ?bp \<noteq> 0" using short by linarith+
  let ?smi = "if is_gateway (config c) then smi\<lparr> submit_time_of_gateway := now64 e \<rparr>
      else smi\<lparr> submit_time_of_client := now64 e \<rparr>"
  have w: "sync_write (Some 1024) ?bp (add_waiting_ack_smi ?smi c) =
      (True, (add_waiting_ack_smi ?smi c)\<lparr> sent := sent c @ ?bp \<rparr>)"
    using l c by (simp add: sync_write_def add_waiting_ack_smi_def)
  have "submit e (Some 1024) smi c = Some (Inr ((True, ?smi), (add_waiting_ack_smi ?smi c)\<lparr> sent := sent c @ ?bp \<rparr>))"
    using submit_pdu_eq [OF assms(1-4), folded p] w e by (simp add: submit_def Let_def try_catch_def)
  then show thesis
    by (rule found) (use d in \<open>simp_all add: add_waiting_ack_smi_def own_sn_def\<close>)
qed

end
