(* ===== verification/Client_Path.thy ===== *)
theory Client_Path
  imports Client_Submission
begin

text \<open>
  A message from its submission by a client to the receipt that the client gets for it: what the
  client, the session, the message lists and the gateway of the server do to it, one after the
  other.
\<close>

section \<open>The response\<close>

lemma SubmitSmResp_decode_default: "SubmitSmResp_decode SubmitSmResp_default b = SubmitSmResp_from b"
  by (simp add: SubmitSmResp_from_def SubmitSmResp_decode_def decode_frame_def Header_decode_def bind_def
      cong: sum.case_cong split: sum.splits)

text \<open>The message as it is when it waits for its receipt.\<close>

definition accepted :: "env \<Rightarrow> bool \<Rightarrow> octets \<Rightarrow> cb_sm_information \<Rightarrow> cb_sm_information" where
  "accepted e g mid smi =
     (let smi = (if g then smi\<lparr> message_id_of_provider := mid \<rparr> else smi\<lparr> message_id_of_protocol_server := mid \<rparr>);
          smi = smi\<lparr> ack_status := ACK_STATUS_SUCCESSFULLY, cb_sm_information.error_code := 0 \<rparr>
      in if g then smi\<lparr> delivering_time_of_gateway := now64 e \<rparr> else smi\<lparr> delivering_time_of_client := now64 e \<rparr>)"

lemma accepted_items [simp]:
  "ack_message_id g (accepted e g mid smi) = mid" "content (accepted e g mid smi) = content smi"
  "own_sn c (accepted e g mid smi) = own_sn c smi"
  by (simp_all add: accepted_def ack_message_id_def own_sn_def Let_def)

lemma response_processed:
  assumes w: "waiting_ack_smis c = before @ smi # after" "own_sn c smi = sn"
      "\<forall>m \<in> set before. own_sn c m \<noteq> sn"
    and mid: "MessageId_ok mid"
  shows "\<exists>c'. client_process e junk room (response 0x80000004 ESME_ROK sn (mid @ [0])) c = Inr ((), c') \<and>
    config c' = config c \<and> waiting_ack_smis c' = before @ after \<and>
    own_source c' = (own_source c)\<lparr> delivering_list :=
      delivering_list (own_source c) @ [accepted e (is_gateway (config c)) mid smi] \<rparr>"
proof -
  let ?p = "new_SubmitSmResp ESME_ROK sn mid"
  have x: "extract_first (\<lambda>m. own_sn c m = sn) (waiting_ack_smis c) = Some (smi, before @ after)"
    unfolding w(1) by (rule extract_first_append) (use w in simp_all)
  have "client_process e junk room (response 0x80000004 ESME_ROK sn (mid @ [0])) c =
      Inr ((), submitsm_resp_received e ?p c)"
    by (simp add: client_process_def SubmitSmResp_decode_default SubmitSmResp_response [OF mid] try_catch_def)
  moreover have "submitsm_resp_received e ?p c = (let c = set_ack e sn mid ACK_STATUS_SUCCESSFULLY 0 c in
      c\<lparr> host := (host c)\<lparr> counters := ct_an_ack_is_received (counters (host c)) \<rparr> \<rparr>)"
    by (simp add: submitsm_resp_received_def new_SubmitSmResp_def update_length_def Let_def)
  moreover have "set_ack e sn mid ACK_STATUS_SUCCESSFULLY 0 c =
      on_host (\<lambda>flag. update_source flag (\<lambda>d. d\<lparr> delivering_list :=
        delivering_list d @ [accepted e (is_gateway (config c)) mid smi] \<rparr>) (\<lambda>t. t)) (c\<lparr> waiting_ack_smis := before @ after \<rparr>)"
    using x by (simp add: set_ack_def get_waiting_ack_smi_def sm_is_delivering_def accepted_def Let_def)
  ultimately show ?thesis by (simp add: Let_def)
qed

section \<open>The receipt\<close>

text \<open>
  The receipt that a server makes of a message, as the client takes it in.
\<close>

lemma receipt_processed:
  assumes bp: "DeliverSm_from bp = Inr (delivery dst src sn 4 0 (receipt_text e' d r))"
    and r: "message_id_of_protocol_server r = hex_string (unat (n :: uint32))"
      "plain (cb_sm_information.error_status r)" "cb_sm_information.error_code r \<le> 0x7fffffff"
    and c: "using_hex_decimal_message_id (config c) = d" "force_dlr_datacoding (config c) \<noteq> 8"
    and l: "delivering_list (own_source c) = before @ m # after"
      "ack_message_id (is_gateway (config c)) m = hex_string (unat n)"
      "\<forall>x \<in> set before. map lower (ack_message_id (is_gateway (config c)) x) \<noteq> map lower (hex_string (unat n))"
  shows "\<exists>c'. client_process e junk room bp c = Inr ((), c') \<and> config c' = config c \<and>
    waiting_ack_smis c' = waiting_ack_smis c \<and>
    own_source c' = (own_source c)\<lparr> delivering_list := before @ after,
      delivered_list := delivered_list (own_source c) @ [delivered_smi (is_gateway (config c)) (now64 e)
        (cb_sm_information.error_status r) (uint (cb_sm_information.error_code r)) m] \<rparr>"
proof -
  let ?g = "is_gateway (config c)" and ?p = "delivery dst src sn 4 0 (receipt_text e' d r)"
  obtain mid where mid: "mid = (if d then format_hex_string_to_decimal_string (hex_string (unat n)) 10
      else hex_string (unat n))" by simp
  note id = real_id [OF mid]
  let ?c1 = "on_host (\<lambda>flag h. snd (sm_is_delivered flag ?g (now64 e) mid
      (cb_sm_information.error_status r) (uint (cb_sm_information.error_code r)) d h)) c"
  have parse: "parse_deliversm_short_message (receipt_text e' d r) ([], [], junk) =
      (mid, cb_sm_information.error_status r, uint (cb_sm_information.error_code r))"
    unfolding read_error_code [OF r(3), symmetric] by (rule parse_receipt_text [OF _ id(1) r(2)]) (simp add: mid r(1))
  have "get_command_id bp = Inr (command_id ?p)"
    using deliver_sm.decode_header(2) [of bp ?p] bp by (simp add: DeliverSm_from_def DeliverSm_decode_def)
  then have "client_process e junk room bp c = deliversm_received e junk room ?p c"
    by (simp add: client_process_def DeliverSm_decode_default bp try_catch_def delivery_def)
  also have "\<dots> = send_deliver_resp room sn ?c1"
    using c parse by (simp add: deliversm_received_def delivery_def client_convert_to_utf8_def chosen_datacoding_def
        dc_type_def)
  finally obtain c' where c': "client_process e junk room bp c = Inr ((), c')" "quiet ?c1 c'"
    using deliver_resp_total by metis
  have "own_source ?c1 = (own_source c)\<lparr> delivering_list := before @ after,
      delivered_list := delivered_list (own_source c) @ [delivered_smi ?g (now64 e)
        (cb_sm_information.error_status r) (uint (cb_sm_information.error_code r)) m] \<rparr>"
    using delivered_found [of _ _ before m after ?g d mid] l id(2) by simp
  then show ?thesis
    using c' quiet_messages [OF c'(2)] by (auto simp: quiet_def)
qed

end
