(* ===== verification/Client_Demo.thy ===== *)
theory Client_Demo
  imports Client_Path Demo
begin

text \<open>A concrete client of the concrete server, on which the hypotheses of its properties are met.\<close>

definition demo_config :: smppclient_configer where
  "demo_config = \<lparr> cc_sysid = [65], cc_password = [49, 50, 51, 52, 53, 54], srcaddr_ton = 1, srcaddr_npi = 1,
     bind_mode = BOUND_TRX, systype = [], infver = 0x34, servtype = [], using_hex_decimal_message_id = False,
     force_dlr_datacoding = - 1, force_mo_datacoding = - 1, heatbeat_period = 60, waiting_ack_timeout = 60,
     waiting_dlr_timeout = 259200, is_gateway = False, cc_gateway_id = [] \<rparr>"

definition demo_host :: client_host where
  "demo_host = \<lparr> cdsps = [], counters = new_clients_statistic, recorded_dlrs = [], recorded_mos = [],
     numbers = sn_initial \<rparr>"

definition demo_client :: smppclient where
  "demo_client = \<lparr> connected = True, arriving = [], sent = [], config = demo_config,
     is_protocol_connected = True, bind_sn = 1, waiting_ack_smis = [], ack_timeout_smis = [], host = demo_host \<rparr>"

text \<open>The text is a letter and two characters that are not ASCII.\<close>

definition demo_units :: "uint16 list" where
  "demo_units = [0x41, 0xE9, 0x4E2D]"

definition demo_sm :: cb_sm_information where
  "demo_sm = new_cb_sm_information\<lparr> sn_by_client := 2, src_addr := [49], dst_addr := [50],
     content := [0x41, 0xC3, 0xA9, 0xE4, 0xB8, 0xAD] \<rparr>"

lemma demo_text: "list_all bmp demo_units" "content demo_sm = utf8_of demo_units" "demo_units \<noteq> []"
    "coded demo_units = (8, [0, 0x41, 0, 0xE9, 0x4E, 0x2D])"
  by code_simp+

lemma demo_sendable: "sendable (config demo_client) (own_sn demo_client demo_sm) demo_sm"
  by (simp add: sendable_def demo_client_def demo_config_def own_sn_def demo_sm_def cstr_ok_def SequenceNumber_valid_def
      SequenceNumber_Max_def SequenceNumber_Min_def)

lemma demo_client_facts:
  "connected demo_client" "own_sn demo_client m = sn_by_client m" "is_gateway (config demo_client) = False"
  "waiting_ack_smis demo_client = []" 
  "udhi_total_parts demo_sm = 0" "udhi demo_sm = []" "sn_by_client demo_sm = 2"
  "using_hex_decimal_message_id (config demo_client) = False" "force_dlr_datacoding (config demo_client) = - 1"
  "get_unique_id_of_client demo_client = [65]" "host demo_client = demo_host" "cc_sysid (config demo_client) = [65]"
  "the_source [65] demo_host = new_client_data_source [65]" "ack_timeout_smis demo_client = []"
  "sent demo_client = []"
  by (simp_all add: demo_client_def demo_config_def own_sn_def demo_host_def data_source_def udhi_def demo_sm_def
      get_unique_id_of_client_def new_cb_sm_information_def)

text \<open>The bound session of the server takes any submission that decodes.\<close>

lemma demo_process:
  assumes "SubmitSm_from b = Inr p" "command_id p = cid_SubmitSm" "SequenceNumber_valid (sequence_number p)"
  obtains s1 w1 where "process (at 1) demo_ops b demo_bound demo_server = Inr (s1, w1)"
    "fst (generate_sn 5 (generator w1)) = 117"
proof -
  have h: "get_command_id b = Inr cid_SubmitSm" "get_sequence_number b = Inr (sequence_number p)" "16 \<le> length b"
    using submit_sm.decode_header [of b p] assms(1,2) by (simp_all add: SubmitSm_from_def SubmitSm_decode_def)
  have "\<not> over_read SESSION_BOUND_TRX b"
    using h by (auto simp: over_read_def decode_failure_def assms(1))
  then obtain s1 w1 where p: "process (at 1) demo_ops b demo_bound demo_server = Inr (s1, w1)"
    using process_failure [of "at 1" demo_ops b demo_bound demo_server] demo_bound_facts(1)
    by (cases "process (at 1) demo_ops b demo_bound demo_server") auto
  have ok: "is_state_bound_txable (current_session_state demo_bound)" "data_source_flag demo_bound \<noteq> []"
    by (simp_all add: demo_bound_facts state_bound_defs)
  have "generator w1 = snd (generate_message_id (dice (at 1)) (generator demo_server))"
    by (rule submission [OF h(1) assms(1,3) ok demo_bound_facts(4) p]) blast
  then have "fst (generate_sn 5 (generator w1)) = 117"
    by (simp add: generate_message_id_sn generate_sn_def get_sn_magic_number_def demo_server_def
        sn_initial_def at_def)
  with p that show thesis by blast
qed

end
