(* ===== verification/Client_Properties.thy ===== *)
theory Client_Properties
  imports Client_Demo
begin

text \<open>
  What a client gets for the messages that it is given: what it writes is what the server reads,
  receipts find their messages, and none is lost except where the worker gives up.
\<close>

section \<open>Submission\<close>

text \<open>
  C30: a connected client whose configuration admits a message writes it as a submit_sm, if its text
  is not empty, is in the basic plane and fits one PDU; the message then waits for its response. The
  server decodes what was written to a message with the same text, addresses and sequence number,
  and, if it is a part of a long message, the same reference, number of parts and index; if it is
  none, provided that its text does not start with octets that read as the header of a part (see
  \<open>text_like_udhi_cut\<close> for one that does, and is cut).
\<close>

theorem submission_understood:
  assumes "sendable (config c) (own_sn c smi) smi" "connected c"
    and us: "list_all bmp us" "content smi = utf8_of us" "us \<noteq> []"
    and short: "length (udhi smi @ snd (coded us)) < 256"
    and header: "udhi_total_parts smi > 1 \<or> \<not> like_udhi (snd (coded us))"
    and run: "submit e (Some 1024) smi c = Some (Inr ((b, smi'), c'))"
  shows "b \<and> waiting_ack_smis c' = waiting_ack_smis c @ [smi'] \<and> content smi' = content smi \<and>
    (\<exists>bp p r. sent c' = sent c @ bp \<and> SubmitSm_from bp = Inr p \<and> submitted_smi e' p mid s = Inr r \<and>
      content r = content smi \<and> src_addr r = src_addr smi \<and> dst_addr r = dst_addr smi \<and>
      sn_by_client r = own_sn c smi \<and>
      (udhi_reference r, udhi_total_parts r, udhi_part_index r) =
        (if udhi_total_parts smi > 1 then (udhi_reference smi, udhi_total_parts smi, udhi_part_index smi)
         else (0, 1, 1)))"
proof -
  obtain p where p: "p = submission (config c) (own_sn c smi) smi (fst (coded us)) (udhi smi @ snd (coded us))" by simp
  from submission_written [OF assms(1) us(1,2) short assms(2) p, of e] run
  obtain bp where "b" "sent c' = sent c @ bp" "waiting_ack_smis c' = waiting_ack_smis c @ [smi']"
      "SubmitSm_from bp = Inr p" "content smi' = content smi" by auto
  with submission_received [OF us header p, of e' mid s] show ?thesis by blast
qed

theorem submission_understood_witness:
  "\<exists>smi' c' bp p r. submit (at 0) (Some 1024) (demo_sm\<lparr> udhi_reference := 7, udhi_total_parts := 3, udhi_part_index := 2 \<rparr>)
      demo_client = Some (Inr ((True, smi'), c')) \<and> sent c' = bp \<and> SubmitSm_from bp = Inr p \<and>
    submitted_smi (at 1) p [65] demo_bound = Inr r \<and> content r = [0x41, 0xC3, 0xA9, 0xE4, 0xB8, 0xAD] \<and>
    udhi_total_parts r = 3 \<and> udhi_part_index r = 2"
proof -
  let ?m = "demo_sm\<lparr> udhi_reference := 7, udhi_total_parts := 3, udhi_part_index := 2 \<rparr>"
  have s: "sendable (config demo_client) (own_sn demo_client ?m) ?m" "content ?m = utf8_of demo_units"
    "length (udhi ?m @ snd (coded demo_units)) < 256" "udhi_total_parts ?m > 1 \<or> \<not> like_udhi (snd (coded demo_units))"
    using demo_sendable demo_text(2) by (simp_all add: sendable_def demo_client_facts demo_text(4) udhi_def)
  obtain smi' c' where r: "submit (at 0) (Some 1024) ?m demo_client = Some (Inr ((True, smi'), c'))"
    by (rule submission_written [OF s(1) demo_text(1) s(2,3) demo_client_facts(1) refl]) blast
  show ?thesis
    using submission_understood [OF s(1) demo_client_facts(1) demo_text(1) s(2) demo_text(3) s(3,4) r,
        where e' = "at 1" and mid = "[65]" and s = demo_bound] r
    by (auto simp: demo_sm_def demo_client_def)
qed

text \<open>
  The server looks for the header in the text and not at esm_class: a single message whose UCS-2
  text starts like one loses its first three characters.
\<close>

lemma text_like_udhi_cut:
  assumes "p = submission k sn smi 8 (snd (coded [0x500, 0x301, 0x41, 0x42]))"
  shows "\<exists>r. submitted_smi e p mid s = Inr r \<and> content r = [0x42] \<and> udhi_total_parts r = 0"
proof -
  have t: "snd (coded [0x500, 0x301, 0x41, 0x42]) = [5, 0, 3, 1, 0, 0x41, 0, 0x42]"
    "smpp_datacoding_convert_ucs2_to_utf8 [0, 0x42] (Suc 0) = Inr [0x42]"
    by code_simp+
  show ?thesis
    unfolding assms t(1)
    by (simp add: submitted_smi_def submission_def parse_udhi_def convert_to_utf8_def dc_type_def t(2))
qed

section \<open>Receipts\<close>

text \<open>
  C31: the receipt that a server writes, with the message id in hexadecimal or as decimal text,
  moves the first message with that id from the list of those that wait for a receipt to the list
  of those whose fate is known, with the status and the error code of the receipt.
\<close>

theorem receipt_finds_message:
  assumes "DeliverSm_from bp = Inr (delivery dst src sn 4 0 (receipt_text e' d r))"
    and "message_id_of_protocol_server r = hex_string (unat (n :: uint32))"
      "plain (cb_sm_information.error_status r)" "cb_sm_information.error_code r \<le> 0x7fffffff"
    and "using_hex_decimal_message_id (config c) = d" "force_dlr_datacoding (config c) \<noteq> 8"
    and "delivering_list (own_source c) = before @ m # after"
      "ack_message_id (is_gateway (config c)) m = hex_string (unat n)"
      "\<forall>x \<in> set before. map lower (ack_message_id (is_gateway (config c)) x) \<noteq> map lower (hex_string (unat n))"
  shows "\<exists>c' m'. client_process e junk room bp c = Inr ((), c') \<and>
    delivering_list (own_source c') = before @ after \<and>
    delivered_list (own_source c') = delivered_list (own_source c) @ [m'] \<and>
    to_submit_list (own_source c') = to_submit_list (own_source c) \<and>
    own_sn c m' = own_sn c m \<and> content m' = content m \<and>
    cb_sm_information.error_status m' = cb_sm_information.error_status r \<and>
    cb_sm_information.error_code m' = cb_sm_information.error_code r"
proof -
  obtain c' where "client_process e junk room bp c = Inr ((), c')" "own_source c' = (own_source c)\<lparr>
      delivering_list := before @ after, delivered_list := delivered_list (own_source c) @
        [delivered_smi (is_gateway (config c)) (now64 e) (cb_sm_information.error_status r)
          (uint (cb_sm_information.error_code r)) m] \<rparr>"
    using receipt_processed [OF assms, of e junk room] by blast
  then show ?thesis by (simp add: delivered_smi_def own_sn_def Let_def)
qed

theorem receipt_finds_message_witness:
  "\<exists>bp c' m'. client_process (at 9) 0 None bp (demo_client\<lparr> host := demo_host\<lparr> cdsps := [new_client_data_source [65]
      \<lparr> delivering_list := [demo_sm\<lparr> message_id_of_protocol_server := hex_string 0xBC614E \<rparr>] \<rparr>] \<rparr> \<rparr>) = Inr ((), c') \<and>
    delivering_list (own_source c') = [] \<and> delivered_list (own_source c') = [m'] \<and> content m' = content demo_sm \<and>
    cb_sm_information.error_status m' = DLR_STAT_UNDELIV \<and> cb_sm_information.error_code m' = 36"
proof -
  let ?r = "new_cb_sm_information\<lparr> message_id_of_protocol_server := hex_string (unat (0xBC614E :: uint32)),
    cb_sm_information.error_status := DLR_STAT_UNDELIV, cb_sm_information.error_code := 36 \<rparr>"
  let ?m = "demo_sm\<lparr> message_id_of_protocol_server := hex_string 0xBC614E \<rparr>"
  let ?c = "demo_client\<lparr> host := demo_host\<lparr> cdsps := [new_client_data_source [65]\<lparr> delivering_list := [?m] \<rparr>] \<rparr> \<rparr>"
  have t: "length (receipt_text (at 3) False ?r) < 256"
    by (rule length_receipt_text)
      (use length_hex_string [of "0xBC614E" 7] in \<open>simp_all add: at_def tm_ok_def DLR_STAT_UNDELIV_def ascii_def\<close>)
  obtain bp where bp: "DeliverSm_from bp = Inr (delivery [49] [50] 7 4 0 (receipt_text (at 3) False ?r))"
    by (rule delivery_packet [where ?'d = unit, OF _ _ t, where a = "[49]" and b = "[50]" and sn = 7 and esm = 4 and dc = 0])
      (simp_all add: cstr_ok_def)
  have s: "own_source ?c = new_client_data_source [65]\<lparr> delivering_list := [?m] \<rparr>"
    by (simp add: demo_client_facts data_source_def new_client_data_source_def)
  have f: "plain (cb_sm_information.error_status ?r)" "using_hex_decimal_message_id (config ?c) = False"
    "force_dlr_datacoding (config ?c) \<noteq> 8" "is_gateway (config ?c) = False"
    by (simp_all add: demo_client_facts plain_def DLR_STAT_UNDELIV_def ascii_def is_space_def word_le_nat_alt)
  have l: "delivering_list (own_source ?c) = [] @ ?m # []" unfolding s by simp
  show ?thesis
    using receipt_finds_message [OF bp _ f(1) _ f(2,3) l, where n = "0xBC614E" and e = "at 9" and junk = 0 and room = None] f(4)
    unfolding s by (auto simp: ack_message_id_def new_client_data_source_def)
qed

section \<open>There and back\<close>



section \<open>No message is lost, but for one\<close>

text \<open>
  C29: where no message has an empty text, whatever the receiver, the worker and the program around
  the client do, in whatever order, every message that was handed in is in the worker's hand, waits
  for its response or its receipt, waits to be submitted or to be handed out, or was handed out,
  and none is there twice; only when the worker gives up waiting to be bound, at most one message,
  the one in its hand, is lost. Messages with an empty text are left out because the worker takes
  one in its hand for no message: such a message is forgotten when its submission fails.
\<close>

theorem client_keeps_messages:
  assumes "client_run (w, c) xs (w', c')" "with_text c" "list_all event_with_text xs"
  shows "\<exists>lost. size lost \<le> gave_up xs \<and>
    all_messages (w, c) + (\<Sum>x\<leftarrow>xs. handed_in c x) = all_messages (w', c') + (\<Sum>x\<leftarrow>xs. handed_out c x) + lost"
  using run_accounted [OF assms(1)] assms(2,3) by (simp add: accounted_def)

theorem client_keeps_messages_witness:
  "\<exists>w' c'. client_run (new_worker, demo_client) [Handed_in [demo_sm], Handed_out [demo_sm\<lparr> smi_systemid := [65] \<rparr>]] (w', c') \<and>
    all_messages (w', c') = {#}"
proof -
  let ?m = "demo_sm\<lparr> smi_systemid := [65] \<rparr>"
  let ?c = "submit_smis [demo_sm] [] demo_client"
  obtain smis h where g: "get_all_to_submit_smis (get_unique_id_of_client ?c) (host ?c) = (smis, h)" by fastforce
  have "smis = [?m]"
    using g by (auto simp: get_all_to_submit_smis_def submit_smis_def add_smis_def demo_client_facts
        new_client_data_source_def)
  with g have r: "client_run (new_worker, demo_client) [Handed_in [demo_sm], Handed_out [?m]]
      (new_worker, ?c\<lparr> host := h \<rparr>)"
    by (intro client_run.one [OF client_step.submit_smis] client_run.one [OF client_step.get_all_to_submit])
      (simp | rule client_run.none)+
  have t: "with_text demo_client" "list_all event_with_text [Handed_in [demo_sm], Handed_out [?m]]"
    by (simp_all add: with_text_def demo_client_facts new_client_data_source_def) (simp add: demo_sm_def)
  have "all_messages (new_worker, demo_client) = {#}" "handed_in demo_client (Handed_in [demo_sm]) = {# 2 #}"
    "handed_out demo_client (Handed_out [?m]) = {# 2 #}"
    by (simp_all add: client_messages_def held_def in_hand_def demo_client_facts new_client_data_source_def
        new_worker_def new_cb_sm_information_def)
  then have "all_messages (new_worker, ?c\<lparr> host := h \<rparr>) = {#}"
    using client_keeps_messages [OF r t] by (auto simp: gave_up_def simp del: all_messages.simps)
  with r show ?thesis by blast
qed

text \<open>
  C32: once the worker has a message in its hand that cannot be made a submit_sm, such as one with an
  address of more than 20 octets, and as long as it does not give up waiting to be bound (which drops
  that message), whatever happens: the message stays in its hand, every attempt to submit it fails
  and changes nothing, and no other is submitted: no message starts to wait for a response, and
  every message that is to be submitted still is, but for those the program takes back.
\<close>

theorem refused_message_blocks:
  assumes "client_run (w, c) xs (w', c')" "refused (config c) w" "Gave_up \<notin> set xs"
  shows "w_smi w' = w_smi w \<and> (\<forall>e room. submit e room (w_smi w') c' = Some (Inr ((False, w_smi w'), c'))) \<and>
    mset (waiting_ack_smis c') \<subseteq># mset (waiting_ack_smis c) \<and>
    mset (to_submit_list (own_source c)) \<subseteq>#
      mset (to_submit_list (own_source c')) + (\<Sum>x\<leftarrow>xs. taken_back x)"
  using run_refused [OF assms(1)] assms(2,3) submit_refused [of c' w'] by (simp add: nothing_submitted_def)

theorem refused_message_blocks_witness:
  "\<exists>w' c'. client_run (new_worker\<lparr> w_at := Submitting, w_smi := demo_sm\<lparr> src_addr := replicate 21 49 \<rparr> \<rparr>,
       submit_smis [demo_sm] [] demo_client) [Internal, Handed_in [demo_sm]] (w', c') \<and> w_at w' = Connecting \<and>
     w_smi w' = demo_sm\<lparr> src_addr := replicate 21 49 \<rparr> \<and> waiting_ack_smis c' = [] \<and>
     demo_sm\<lparr> smi_systemid := [65] \<rparr> \<in> set (to_submit_list (own_source c'))"
proof -
  let ?m = "demo_sm\<lparr> src_addr := replicate 21 49 \<rparr>" and ?c = "submit_smis [demo_sm] [] demo_client"
  let ?w = "new_worker\<lparr> w_at := Submitting, w_smi := ?m \<rparr>" and ?e = "at 0" and ?r = "\<lambda>_. Some 1024"
  have c: "config ?c = config demo_client" "waiting_ack_smis ?c = []"
    "to_submit_list (own_source ?c) = [demo_sm\<lparr> smi_systemid := [65] \<rparr>]"
    by (simp_all add: submit_smis_def add_smis_def demo_client_facts new_client_data_source_def)
  have "submit_header (config demo_client) sn ?m = Inl (Error ''Invalid Address length'')" for sn
    by (simp add: submit_header_def source_address_def new_Address_def valid_length_String_def demo_client_def
        demo_config_def Ton_def Npi_def Let_def)
  then have r: "refused (config ?c) ?w"
    unfolding c(1) by (simp add: refused_def submit_pdu_def) (simp add: demo_sm_def)
  let ?c1 = "process_timeouts ?e ?c"
  have k: "config ?c1 = config ?c" using moves_timeouts by (simp add: moves_def)
  have s: "submit ?e (?r 0) ?m ?c1 = Some (Inr ((False, ?m), ?c1))"
    using submit_refused [of ?c1 ?w] r k by simp
  have "tx_able ?c1"
    unfolding tx_able_def k c(1) by (simp add: demo_client_def demo_config_def)
  moreover have "next_smi ?w ?c1 = Some (True, ?m, ?c1)"
    using r by (simp add: next_smi_def refused_def)
  ultimately have "worker_turn ?e ?r ?w ?c = Some (Inr (?w\<lparr> w_at := Connecting \<rparr>, ?c1))"
    using s by (simp add: worker_turn_def Let_def)
  then have run: "client_run (?w, ?c) [Internal, Handed_in [demo_sm]]
      (?w\<lparr> w_at := Connecting \<rparr>, submit_smis [demo_sm] failed_reason ?c1)" for failed_reason
    by (intro client_run.one [OF client_step.turn] client_run.one [OF client_step.submit_smis])
      (rule client_run.none | simp)+
  have "waiting_ack_smis (submit_smis [demo_sm] [] ?c1) = []"
    "demo_sm\<lparr> smi_systemid := [65] \<rparr> \<in> set (to_submit_list (own_source (submit_smis [demo_sm] [] ?c1)))"
    using refused_message_blocks [OF run [of "[]"] r] c(2,3) by (auto simp: mset_subset_eq_insertD)
  with run [of "[]"] show ?thesis
    by (intro exI [of _ "?w\<lparr> w_at := Connecting \<rparr>"] exI [of _ "submit_smis [demo_sm] [] ?c1"] conjI) simp_all
qed

section \<open>Reading\<close>

text \<open>
  packets that arrive in pieces of whole packets, one or more to a piece, are read one by one,
  in order, and nothing stays unread.
\<close>

theorem client_reads_whole_packets:
  assumes "connected c" "arriving c = map concat pss" "\<forall>ps \<in> set pss. ps \<noteq> [] \<and> list_all whole_packet ps"
  shows "read_resps (length (concat pss)) connection_interrupted c = (map Some (concat pss), c\<lparr> arriving := [] \<rparr>)"
  using assms by (rule read_resps_pieces)

theorem client_reads_whole_packets_witness:
  "fst (read_resps 3 connection_interrupted (demo_client\<lparr> arriving := [unbind_packet @ bind_packet, unbind_packet] \<rparr>)) =
     [Some unbind_packet, Some bind_packet, Some unbind_packet]"
proof -
  let ?pss = "[[unbind_packet, bind_packet], [unbind_packet]]"
  let ?c = "demo_client\<lparr> arriving := [unbind_packet @ bind_packet, unbind_packet] \<rparr>"
  have "list_all whole_packet [unbind_packet, bind_packet]" by code_simp
  then have "read_resps (length (concat ?pss)) connection_interrupted ?c = (map Some (concat ?pss), ?c\<lparr> arriving := [] \<rparr>)"
    by (intro client_reads_whole_packets) (simp_all add: demo_client_facts)
  then show ?thesis by (simp add: numeral_3_eq_3 del: read_resps.simps)
qed

text \<open>
  \<open>read\<close> takes what one call of \<open>read_some\<close> gives: a header that comes in two pieces is lost, and the
  client takes what comes next for a header.
\<close>

lemma split_header_lost:
  assumes "connected c" "arriving c = x # y # xs" "length x < header_length"
  shows "fst (read_resp interrupted c) = None \<and> arriving (snd (read_resp interrupted c)) = y # xs"
  using sync_read_short [OF assms(1,2,3)] assms(1) by (simp add: read_resp_def)

end
