(* ===== verification/Configer.thy ===== *)
theory Configer
  imports Text_Tools
begin

text \<open>
  The configuration file (\<open>src/public/configer/configer.hpp\<close>): reading it into sections of items,
  looking up and changing items, and writing it. A file is its octets. A conversion that would
  write beyond the end of an array gives \<open>OutOfBounds\<close>.
\<close>

section \<open>State\<close>

record configer_item =
  key :: octets
  item_value :: octets

record configer_section =
  section_name :: octets
  items :: "configer_item list"

record configer =
  sections :: "configer_section list"
  modified :: int

fun find_item :: "octets \<Rightarrow> configer_item list \<Rightarrow> configer_item option" where
  "find_item k [] = None"
| "find_item k (i # is) = (if key i = k then Some i else find_item k is)"

fun find_section :: "octets \<Rightarrow> configer_section list \<Rightarrow> configer_section option" where
  "find_section n [] = None"
| "find_section n (s # ss) = (if section_name s = n then Some s else find_section n ss)"

text \<open>What is done through the pointer that a search returned.\<close>

fun change_item :: "octets \<Rightarrow> (configer_item \<Rightarrow> configer_item) \<Rightarrow> configer_item list \<Rightarrow> configer_item list" where
  "change_item k f [] = []"
| "change_item k f (i # is) = (if key i = k then f i # is else i # change_item k f is)"

fun change_section :: "octets \<Rightarrow> (configer_section \<Rightarrow> configer_section) \<Rightarrow> configer_section list \<Rightarrow>
    configer_section list" where
  "change_section n f [] = []"
| "change_section n f (s # ss) = (if section_name s = n then f s # ss else s # change_section n f ss)"

text \<open>Set the item of a section, which is appended if it is not there.\<close>

definition set_item :: "octets \<Rightarrow> octets \<Rightarrow> configer_item list \<Rightarrow> configer_item list" where
  "set_item k v is = (case find_item k is of
     Some _ \<Rightarrow> change_item k (\<lambda>i. i\<lparr> item_value := v \<rparr>) is
   | None \<Rightarrow> is @ [\<lparr> key = k, item_value = v \<rparr>])"

section \<open>Reading\<close>

text \<open>\<open>getline(tmp, 8192)\<close> until it fails; \<open>tmp\<close> is read as a C string.\<close>

function lines_of :: "octets \<Rightarrow> octets list" where
  "lines_of file =
     (if file = [] then []
      else let l = takeWhile (\<lambda>c. c \<noteq> 10) file in
        if length l > 8191 then []
        else takeWhile (\<lambda>c. c \<noteq> 0) l # lines_of (drop (length l + 1) file))"
  by auto
termination by (relation "measure length") auto

declare lines_of.simps [simp del]

text \<open>The part from the first \<open>c\<close> on that \<open>strchr\<close> finds, and the part before it.\<close>

definition before :: "octet \<Rightarrow> octets \<Rightarrow> octets" where
  "before c s = takeWhile (\<lambda>x. x \<noteq> c) s"

definition strchr :: "octets \<Rightarrow> octet \<Rightarrow> octets option" where
  "strchr s c = (case dropWhile (\<lambda>x. x \<noteq> c) s of [] \<Rightarrow> None | t \<Rightarrow> Some t)"

definition is_first_char :: "octets \<Rightarrow> bool" where
  "is_first_char prefix \<longleftrightarrow> list_all (\<lambda>c. c = 32) prefix"

text \<open>\<open>sscanf(s, "%s", word)\<close> for an array of 256 octets.\<close>

definition sscanf_word :: "octets \<Rightarrow> octets option result" where
  "sscanf_word s = (let w = first_word s in
     if w = [] then Inr None else if length w > 255 then Inl OutOfBounds else Inr (Some w))"

text \<open>
  The value of an item, from the octets after the equals sign. Blanks at the end go only where
  a carriage return follows, and not the first; a carriage return right there gives no item.
\<close>

fun strip_blanks :: "octets \<Rightarrow> octets" where
  "strip_blanks v = (if length v > 1 \<and> last v = 32 then strip_blanks (butlast v) else v)"

declare strip_blanks.simps [simp del]

definition value_of :: "octets \<Rightarrow> octets option" where
  "value_of s =
     (case (if strchr s 13 \<noteq> None then Some 13 else if strchr s 10 \<noteq> None then Some 10 else None) of
        None \<Rightarrow> Some s
      | Some c \<Rightarrow> (case before c s of [] \<Rightarrow> None | v \<Rightarrow> Some (strip_blanks v)))"

text \<open>The sections so far and the name of the current one.\<close>

type_synonym parsing = "configer_section list \<times> octets option"

definition parse_section :: "octets \<Rightarrow> parsing \<Rightarrow> parsing result" where
  "parse_section s st = (case strchr s 93 of
     None \<Rightarrow> Inr st
   | Some _ \<Rightarrow> bind (sscanf_word (before 93 s)) (\<lambda>w. case w of
       None \<Rightarrow> Inr st
     | Some secname \<Rightarrow> (case find_section secname (fst st) of
         Some _ \<Rightarrow> Inr (fst st, Some secname)
       | None \<Rightarrow> Inr (fst st @ [\<lparr> section_name = secname, items = [] \<rparr>], Some secname))))"

definition parse_item :: "octets \<Rightarrow> octets \<Rightarrow> parsing \<Rightarrow> parsing result" where
  "parse_item k s st = bind (sscanf_word k) (\<lambda>w. case w of
     None \<Rightarrow> Inr st
   | Some k \<Rightarrow> (case value_of s of
       None \<Rightarrow> Inr st
     | Some v \<Rightarrow> (case snd st of
         None \<Rightarrow> Inr st
       | Some n \<Rightarrow> Inr (change_section n (\<lambda>s. s\<lparr> items := set_item k v (items s) \<rparr>) (fst st), snd st))))"

definition parse_line :: "octets \<Rightarrow> parsing \<Rightarrow> parsing result" where
  "parse_line tmp st =
     (if strchr tmp 91 \<noteq> None \<and> is_first_char (before 91 tmp)
      then parse_section (drop (length (before 91 tmp) + 1) tmp) st
      else if strchr tmp 61 \<noteq> None
      then parse_item (before 61 tmp) (drop (length (before 61 tmp) + 1) tmp) st
      else Inr st)"

fun parse_lines :: "octets list \<Rightarrow> parsing \<Rightarrow> parsing result" where
  "parse_lines [] st = Inr st"
| "parse_lines (l # ls) st = bind (parse_line l st) (parse_lines ls)"

text \<open>The constructor; \<open>modified_\<close> is not initialised. A file that cannot be opened is \<open>None\<close>.\<close>

definition new_configer :: "int \<Rightarrow> octets option \<Rightarrow> configer result" where
  "new_configer junk file = (case file of
     None \<Rightarrow> Inr \<lparr> sections = [], modified = junk \<rparr>
   | Some f \<Rightarrow> bind (parse_lines (lines_of f) ([], None)) (\<lambda>(ss, _).
       Inr \<lparr> sections = ss, modified = junk \<rparr>))"

section \<open>Looking up and changing\<close>

definition get_string :: "octets \<Rightarrow> octets \<Rightarrow> octets \<Rightarrow> configer \<Rightarrow> octets" where
  "get_string n k default_string c = (case find_section n (sections c) of
     None \<Rightarrow> default_string
   | Some s \<Rightarrow> (case find_item k (items s) of None \<Rightarrow> default_string | Some i \<Rightarrow> item_value i))"

definition get_int :: "octets \<Rightarrow> octets \<Rightarrow> int \<Rightarrow> configer \<Rightarrow> int" where
  "get_int n k default_value c = (let value = get_string n k [] c in
     if length value > 0 then read_int value else default_value)"

text \<open>The variable is an \<open>int\<close> here as well.\<close>

definition get_int64 :: "octets \<Rightarrow> octets \<Rightarrow> int \<Rightarrow> configer \<Rightarrow> int" where
  "get_int64 n k default_value c = (let value = get_string n k [] c in
     if length value > 0 then read_int value else default_value)"

definition set_string :: "octets \<Rightarrow> octets \<Rightarrow> octets \<Rightarrow> configer \<Rightarrow> configer" where
  "set_string n k v c = (case find_section n (sections c) of
     Some _ \<Rightarrow> c\<lparr> sections := change_section n (\<lambda>s. s\<lparr> items := set_item k v (items s) \<rparr>) (sections c),
       modified := modified c + 1 \<rparr>
   | None \<Rightarrow> c\<lparr> sections := sections c @ [\<lparr> section_name = n, items = [\<lparr> key = k, item_value = v \<rparr>] \<rparr>],
       modified := modified c + 1 \<rparr>)"

definition int_text :: "int \<Rightarrow> octets" where
  "int_text v = (if v < 0 then 45 # decimal (nat (- v)) else decimal (nat v))"

definition set_int :: "octets \<Rightarrow> octets \<Rightarrow> int \<Rightarrow> configer \<Rightarrow> configer" where
  "set_int n k v = set_string n k (int_text v)"

definition set_int64 :: "octets \<Rightarrow> octets \<Rightarrow> int \<Rightarrow> configer \<Rightarrow> configer" where
  "set_int64 n k v = set_string n k (int_text v)"

definition need_commit :: "configer \<Rightarrow> bool" where
  "need_commit c \<longleftrightarrow> modified c > 0"

definition section_exists :: "octets \<Rightarrow> configer \<Rightarrow> bool" where
  "section_exists n c = False"

definition add_section :: "configer_section \<Rightarrow> configer \<Rightarrow> configer" where
  "add_section s c = c\<lparr> sections := sections c @ [s] \<rparr>"

section \<open>Writing and destruction\<close>

definition item_text :: "configer_item \<Rightarrow> octets" where
  "item_text i = key i @ 61 # item_value i @ [10]"

text \<open>
  The heading of a section goes to a stream that stays open, and that hands over what it holds only
  when it is closed at the end; each item opens the file anew, appends to it and closes it. So the
  heading comes after the items. (It is taken to fit the buffer of the stream.)
\<close>

definition section_text :: "configer_section \<Rightarrow> octets" where
  "section_text s = concat (map item_text (items s)) @ 91 # section_name s @ [93, 10]"

definition sync :: "configer \<Rightarrow> octets" where
  "sync c = concat (map section_text (sections c))"

text \<open>The destructor of a section takes an item off the list before it looks whether there is one.\<close>

definition destroy_section :: "configer_section \<Rightarrow> unit result" where
  "destroy_section s = (if items s = [] then Inl OutOfBounds else Inr ())"

fun destroy :: "configer_section list \<Rightarrow> unit result" where
  "destroy [] = Inr ()"
| "destroy (s # ss) = bind (destroy ss) (\<lambda>_. destroy_section s)"

section \<open>Lookup after a change\<close>

lemma find_change_item:
  "\<forall>i. key (f i) = key i \<Longrightarrow>
   find_item j (change_item k f is) = (if j = k then map_option f (find_item k is) else find_item j is)"
  by (induction "is") auto

lemma find_item_append: "find_item k (is @ js) = (case find_item k is of None \<Rightarrow> find_item k js | i \<Rightarrow> i)"
  by (induction "is") auto

lemma find_item_key: "find_item k is = Some i \<Longrightarrow> key i = k"
  by (induction "is") (auto split: if_splits)

lemma find_set_item:
  "find_item j (set_item k v is) = (if j = k then Some \<lparr> key = k, item_value = v \<rparr> else find_item j is)"
proof (cases "find_item k is")
  case None
  then show ?thesis by (auto simp: set_item_def find_item_append split: option.splits)
next
  case (Some i)
  then have "i\<lparr> item_value := v \<rparr> = \<lparr> key = k, item_value = v \<rparr>" using find_item_key [OF Some] by simp
  with Some show ?thesis by (simp add: set_item_def find_change_item)
qed

lemma find_change_section:
  "\<forall>s. section_name (f s) = section_name s \<Longrightarrow>
   find_section m (change_section n f ss) = (if m = n then map_option f (find_section n ss) else find_section m ss)"
  by (induction ss) auto

lemma find_section_append:
  "find_section n (ss @ ts) = (case find_section n ss of None \<Rightarrow> find_section n ts | s \<Rightarrow> s)"
  by (induction ss) auto

lemma get_set_string:
  "get_string m j d (set_string n k v c) = (if m = n \<and> j = k then v else get_string m j d c)"
  by (auto simp: get_string_def set_string_def find_change_section find_section_append find_set_item
      split: option.splits)


section \<open>Files\<close>

text \<open>
  A line of a file: a heading, an item, or one that is ignored, such as a blank line or a comment
  without an equals sign. There may be blanks in front, before the equals sign, and at the end of an
  item that ends with a carriage return.
\<close>

datatype ini_line =
    Heading nat octets octets
  | Entry nat octets nat octets "nat option"
  | Ignored octets

fun line_text :: "ini_line \<Rightarrow> octets" where
  "line_text (Heading b n t) = replicate b 32 @ 91 # n @ 93 # t"
| "line_text (Entry b k m v cr) = replicate b 32 @ k @ replicate m 32 @ 61 # v @
     (case cr of None \<Rightarrow> [] | Some e \<Rightarrow> replicate e 32 @ [13])"
| "line_text (Ignored l) = l"

definition file_text :: "ini_line list \<Rightarrow> octets" where
  "file_text ls = concat (map (\<lambda>l. line_text l @ [10]) ls)"

text \<open>
  The words of a heading and of an item have no blanks and at most 255 octets, a value that ends
  before a carriage return is not empty, and a line has at most 8191 octets and no NUL.
\<close>

definition good_word :: "octets \<Rightarrow> bool" where
  "good_word w \<longleftrightarrow> w \<noteq> [] \<and> length w \<le> 255 \<and> (\<forall>c \<in> set w. \<not> is_space c)"

fun good_parts :: "ini_line \<Rightarrow> bool" where
  "good_parts (Heading b n t) \<longleftrightarrow> good_word n \<and> 93 \<notin> set n"
| "good_parts (Entry b k m v cr) \<longleftrightarrow> good_word k \<and> hd k \<noteq> 91 \<and> 61 \<notin> set k \<and> 13 \<notin> set v \<and>
     (cr \<noteq> None \<longrightarrow> v \<noteq> [] \<and> last v \<noteq> 32)"
| "good_parts (Ignored l) \<longleftrightarrow> 61 \<notin> set l \<and> (91 \<in> set l \<longrightarrow> \<not> is_first_char (before 91 l))"

definition good_line :: "ini_line \<Rightarrow> bool" where
  "good_line l \<longleftrightarrow> good_parts l \<and> set (line_text l) \<inter> {0, 10} = {} \<and> length (line_text l) \<le> 8191"

text \<open>
  What the lines say: the values, with the section that the last heading before them names, and the
  sections that are named. An item in front of the first heading says nothing.
\<close>

fun entries :: "octets option \<Rightarrow> ini_line list \<Rightarrow> ((octets \<times> octets) \<times> octets) list" where
  "entries cur [] = []"
| "entries cur (Heading b n t # ls) = entries (Some n) ls"
| "entries cur (Entry b k m v cr # ls) =
     (case cur of None \<Rightarrow> [] | Some n \<Rightarrow> [((n, k), v)]) @ entries cur ls"
| "entries cur (Ignored l # ls) = entries cur ls"

fun headings :: "ini_line list \<Rightarrow> octets set" where
  "headings [] = {}"
| "headings (Heading b n t # ls) = insert n (headings ls)"
| "headings (_ # ls) = headings ls"

text \<open>The last value counts.\<close>

definition file_value :: "ini_line list \<Rightarrow> octets \<Rightarrow> octets \<Rightarrow> octets \<Rightarrow> octets" where
  "file_value ls n k d = (case map_of (rev (entries None ls)) (n, k) of None \<Rightarrow> d | Some v \<Rightarrow> v)"

text \<open>A configuration with these values: in each section the values that the lines say, last first.\<close>

definition conf_of :: "ini_line list \<Rightarrow> configer" where
  "conf_of ls = \<lparr> sections = map (\<lambda>n. \<lparr> section_name = n,
       items = map (\<lambda>((_, k), v). \<lparr> key = k, item_value = v \<rparr>)
         (filter (\<lambda>((m, _), _). m = n) (rev (entries None ls))) \<rparr>)
       (remdups (map (fst \<circ> fst) (entries None ls))), modified = 0 \<rparr>"

lemma find_item_pairs:
  "map_option item_value (find_item k (map (\<lambda>((_, k), v). \<lparr> key = k, item_value = v \<rparr>) (filter (\<lambda>((m, _), _). m = n) es))) =
   map_of es (n, k)"
  by (induction es) auto

lemma find_section_map:
  "(\<And>n. section_name (f n) = n) \<Longrightarrow> find_section n (map f ns) = (if n \<in> set ns then Some (f n) else None)"
  by (induction ns) auto

lemma get_string_conf_of: "get_string n k d (conf_of ls) = file_value ls n k d"
proof -
  let ?es = "entries None ls"
  have "map_of (rev ?es) (n, k) = None" if "n \<notin> set (map (fst \<circ> fst) ?es)"
    using that by (force simp: map_of_eq_None_iff)
  then show ?thesis
    using find_item_pairs [of k n "rev ?es"]
    by (auto simp: get_string_def conf_of_def find_section_map file_value_def split: option.splits)
qed

section \<open>Reading a file\<close>

lemma before_stop [simp]: "c \<notin> set xs \<Longrightarrow> before c (xs @ c # ys) = xs" "before c (c # ys) = []"
  by (auto simp: before_def intro!: takeWhile_append_stop)

lemma strchr_Some [simp]: "strchr s c \<noteq> None \<longleftrightarrow> c \<in> set s"
  by (induction s) (auto simp: strchr_def split: list.splits)

lemma strchr_None [simp]: "strchr s c = None \<longleftrightarrow> c \<notin> set s"
  using strchr_Some by blast

lemma lines_of_Nil [simp]: "lines_of [] = []"
  by (subst lines_of.simps) simp

lemma lines_of_line:
  assumes "10 \<notin> set l" "0 \<notin> set l" "length l \<le> 8191"
  shows "lines_of (l @ 10 # rest) = l # lines_of rest"
proof -
  have "takeWhile (\<lambda>c. c \<noteq> 10) (l @ 10 # rest) = l" using assms(1) by (intro takeWhile_append_stop) auto
  moreover have "takeWhile (\<lambda>c. c \<noteq> 0) l = l" using assms(2) by (auto simp: takeWhile_eq_all_conv)
  ultimately show ?thesis using assms(3) by (subst lines_of.simps) (simp add: Let_def)
qed

lemma lines_of_file: "list_all good_line ls \<Longrightarrow> lines_of (file_text ls) = map line_text ls"
  by (induction ls) (auto simp: file_text_def good_line_def lines_of_line)

lemma find_section_None: "find_section n ss = None \<longleftrightarrow> n \<notin> set (map section_name ss)"
  by (induction ss) auto

lemma find_item_None: "find_item k is = None \<longleftrightarrow> k \<notin> set (map key is)"
  by (induction "is") auto

lemma first_char_blanks: "is_first_char (replicate b 32)"
  by (induction b) (simp_all add: is_first_char_def)

lemma sscanf_padded:
  assumes "good_word w"
  shows "sscanf_word (replicate a 32 @ w @ replicate b 32) = Inr (Some w)"
proof -
  have "dropWhile is_space (replicate a 32 @ s) = dropWhile is_space s" for s
    by (induction a) (simp_all add: is_space_def)
  moreover have "dropWhile is_space (w @ s) = w @ s" for s
    using assms by (cases w) (simp_all add: good_word_def)
  moreover have "takeWhile (\<lambda>c. \<not> is_space c) (w @ replicate b 32) = w"
    using assms by (cases b) (simp_all add: good_word_def is_space_def takeWhile_eq_all_conv)
  ultimately show ?thesis using assms by (simp add: sscanf_word_def first_word_def good_word_def)
qed

lemma sscanf_good: "good_word w \<Longrightarrow> sscanf_word w = Inr (Some w)"
  using sscanf_padded [of w 0 0] by simp

lemma parse_heading_line:
  assumes "good_word n" "93 \<notin> set n"
  shows "parse_line (line_text (Heading b n t)) (ss, cur) =
    Inr (if n \<in> set (map section_name ss) then ss else ss @ [\<lparr> section_name = n, items = [] \<rparr>], Some n)"
proof -
  have "before 91 (replicate b 32 @ 91 # n @ 93 # t) = replicate b 32" by (rule before_stop(1)) simp
  then have "parse_line (line_text (Heading b n t)) (ss, cur) = parse_section (n @ 93 # t) (ss, cur)"
    by (simp add: parse_line_def first_char_blanks)
  also obtain u where "strchr (n @ 93 # t) 93 = Some u"
    using strchr_Some [of "n @ 93 # t" 93] by (auto simp del: strchr_Some strchr_None)
  then have "parse_section (n @ 93 # t) (ss, cur) = (case find_section n ss of
      Some _ \<Rightarrow> Inr (ss, Some n) | None \<Rightarrow> Inr (ss @ [\<lparr> section_name = n, items = [] \<rparr>], Some n))"
    using assms by (cases "find_section n ss") (simp_all add: parse_section_def sscanf_good)
  finally show ?thesis
    using find_section_None [of n ss] by (cases "find_section n ss") auto
qed

lemma strip_trailing: "v \<noteq> [] \<Longrightarrow> last v \<noteq> 32 \<Longrightarrow> strip_blanks (v @ replicate e 32) = v"
proof (induction e)
  case 0
  then show ?case by (subst strip_blanks.simps) simp
next
  case (Suc e)
  have "v @ replicate (Suc e) 32 = (v @ replicate e 32) @ [32]" by (simp add: replicate_append_same)
  moreover have "length ((v @ replicate e 32) @ [32]) > 1" using Suc.prems by (cases v) auto
  ultimately show ?case using Suc by (subst strip_blanks.simps) (simp del: append_assoc)
qed

lemma value_of_entry:
  assumes "13 \<notin> set v" "10 \<notin> set v" "cr \<noteq> None \<longrightarrow> v \<noteq> [] \<and> last v \<noteq> 32"
  shows "value_of (v @ (case cr of None \<Rightarrow> [] | Some e \<Rightarrow> replicate e 32 @ [13])) = Some v"
proof (cases cr)
  case None
  then show ?thesis using assms by (simp add: value_of_def)
next
  case (Some e)
  have "13 \<in> set (v @ replicate e 32 @ [13])" by simp
  then obtain u where "strchr (v @ replicate e 32 @ [13]) 13 = Some u"
    using strchr_Some [of "v @ replicate e 32 @ [13]" 13] by (auto simp del: strchr_Some strchr_None)
  moreover have "before 13 ((v @ replicate e 32) @ 13 # []) = v @ replicate e 32"
    using assms(1) by (intro before_stop(1)) auto
  ultimately have "value_of (v @ replicate e 32 @ [13]) =
      (case v @ replicate e 32 of [] \<Rightarrow> None | w \<Rightarrow> Some (strip_blanks w))"
    by (simp add: value_of_def)
  then show ?thesis
    using Some assms(3) strip_trailing [of v e] by (cases v) auto
qed

lemma parse_entry_line:
  assumes "good_parts (Entry b k m v cr)" "10 \<notin> set v"
  shows "parse_line (line_text (Entry b k m v cr)) (ss, cur) = Inr (case cur of
     None \<Rightarrow> ss
   | Some n \<Rightarrow> change_section n (\<lambda>s. s\<lparr> items := set_item k v (items s) \<rparr>) ss, cur)"
proof -
  let ?tail = "v @ (case cr of None \<Rightarrow> [] | Some e \<Rightarrow> replicate e 32 @ [13])"
  let ?front = "replicate b 32 @ k @ replicate m 32"
  have l: "line_text (Entry b k m v cr) = ?front @ 61 # ?tail" by simp
  have k: "good_word k" "hd k \<noteq> 91" "61 \<notin> set k" using assms(1) by simp_all
  then obtain c cs where key: "k = c # cs" "c \<noteq> 91" "c \<noteq> 32" by (cases k) (auto simp: good_word_def is_space_def)
  have "before 91 (replicate b 32 @ c # s) = replicate b 32 @ c # before 91 s" for s
    using key(2) by (induction b) (simp_all add: before_def)
  then have "\<not> is_first_char (before 91 (?front @ 61 # ?tail))"
    using key by (simp add: is_first_char_def)
  moreover have "61 \<in> set (?front @ 61 # ?tail)" "before 61 (?front @ 61 # ?tail) = ?front"
    using k(3) by (simp, intro before_stop(1)) auto
  ultimately have "parse_line (line_text (Entry b k m v cr)) (ss, cur) = parse_item ?front ?tail (ss, cur)"
    unfolding l parse_line_def by simp
  also have "\<dots> = Inr (case cur of None \<Rightarrow> ss
      | Some n \<Rightarrow> change_section n (\<lambda>s. s\<lparr> items := set_item k v (items s) \<rparr>) ss, cur)"
    using assms value_of_entry [of v cr]
    by (simp add: parse_item_def sscanf_padded split: option.splits)
  finally show ?thesis .
qed

lemma parse_ignored_line: "good_parts (Ignored l) \<Longrightarrow> parse_line (line_text (Ignored l)) st = Inr st"
  by (auto simp: parse_line_def)

text \<open>What is found in the sections that were read.\<close>

definition found :: "configer_section list \<Rightarrow> octets \<times> octets \<Rightarrow> octets option" where
  "found ss nk = Option.bind (find_section (fst nk) ss) (\<lambda>s. map_option item_value (find_item (snd nk) (items s)))"

lemma get_string_found: "get_string n k d c = (case found (sections c) (n, k) of None \<Rightarrow> d | Some v \<Rightarrow> v)"
  by (simp add: get_string_def found_def split: option.splits)

lemma found_set:
  assumes "n \<in> set (map section_name ss)"
  shows "found (change_section n (\<lambda>s. s\<lparr> items := set_item k v (items s) \<rparr>) ss) = (found ss)((n, k) \<mapsto> v)"
proof -
  obtain s where "find_section n ss = Some s" using assms find_section_None [of n ss] by auto
  then show ?thesis
    by (auto simp: found_def fun_eq_iff find_change_section find_set_item split: option.splits)
qed

lemma found_new: "n \<notin> set (map section_name ss) \<Longrightarrow> found (ss @ [\<lparr> section_name = n, items = [] \<rparr>]) = found ss"
  using find_section_None [of n ss]
  by (auto simp: found_def fun_eq_iff find_section_append split: option.splits)

lemma change_section_names: "map section_name (change_section n (\<lambda>s. s\<lparr> items := f s \<rparr>) ss) = map section_name ss"
  by (induction ss) simp_all

lemma parse_good_lines:
  assumes "list_all good_line ls" "distinct (map section_name ss)" "\<forall>n. cur = Some n \<longrightarrow> n \<in> set (map section_name ss)"
  obtains ss' cur' where "parse_lines (map line_text ls) (ss, cur) = Inr (ss', cur')"
    "found ss' = found ss ++ map_of (rev (entries cur ls))" "distinct (map section_name ss')"
    "set (map section_name ss') = set (map section_name ss) \<union> headings ls"
  using assms
proof (induction ls arbitrary: ss cur thesis)
  case (Cons l ls)
  have l: "good_parts l" "set (line_text l) \<inter> {0, 10} = {}" "list_all good_line ls"
    using Cons.prems(2) by (simp add: good_line_def, simp add: good_line_def, simp)
  show ?case
  proof (cases l)
    case (Heading b n t)
    let ?ss = "if n \<in> set (map section_name ss) then ss else ss @ [\<lparr> section_name = n, items = [] \<rparr>]"
    have p: "parse_line (line_text l) (ss, cur) = Inr (?ss, Some n)"
      using l(1) parse_heading_line unfolding Heading by simp
    have i: "distinct (map section_name ?ss)" "n \<in> set (map section_name ?ss)" "found ?ss = found ss"
      "set (map section_name ?ss) = insert n (set (map section_name ss))"
      using Cons.prems(3) found_new by (auto split: if_split_asm)
    show thesis
      by (rule Cons.IH [OF _ l(3) i(1), of "Some n"])
        (use i p Heading in \<open>auto intro!: Cons.prems(1)\<close>)
  next
    case (Entry b k m v cr)
    have "10 \<notin> set v" using l(2) unfolding Entry by auto
    then have p: "parse_line (line_text l) (ss, cur) = Inr (case cur of None \<Rightarrow> ss
        | Some n \<Rightarrow> change_section n (\<lambda>s. s\<lparr> items := set_item k v (items s) \<rparr>) ss, cur)"
      using l(1) parse_entry_line unfolding Entry by blast
    show thesis
    proof (cases cur)
      case None
      show thesis
        by (rule Cons.IH [OF _ l(3) Cons.prems(3), of None])
          (use p Entry None in \<open>auto intro!: Cons.prems(1)\<close>)
    next
      case (Some n)
      let ?ss = "change_section n (\<lambda>s. s\<lparr> items := set_item k v (items s) \<rparr>) ss"
      have i: "distinct (map section_name ?ss)" "set (map section_name ?ss) = set (map section_name ss)"
        "found ?ss = (found ss)((n, k) \<mapsto> v)"
        using Cons.prems(3,4) Some found_set [of n ss k v] by (simp_all add: change_section_names del: set_map)
      have c: "\<forall>n'. Some n = Some n' \<longrightarrow> n' \<in> set (map section_name ?ss)"
        using Cons.prems(4) Some i(2) by simp
      obtain ss' cur' where r: "parse_lines (map line_text ls) (?ss, Some n) = Inr (ss', cur')"
        "found ss' = found ?ss ++ map_of (rev (entries (Some n) ls))" "distinct (map section_name ss')"
        "set (map section_name ss') = set (map section_name ?ss) \<union> headings ls"
        by (rule Cons.IH [OF _ l(3) i(1) c])
      show thesis
      proof (rule Cons.prems(1) [of ss' cur'])
        show "parse_lines (map line_text (l # ls)) (ss, cur) = Inr (ss', cur')" using p Some r(1) by simp
        show "found ss' = found ss ++ map_of (rev (entries cur (l # ls)))" unfolding r(2) i(3) Entry Some by simp
        show "set (map section_name ss') = set (map section_name ss) \<union> headings (l # ls)"
          unfolding r(4) i(2) Entry by simp
      qed (rule r(3))
    qed
  next
    case (Ignored t)
    have p: "parse_line (line_text l) (ss, cur) = Inr (ss, cur)"
      using l(1) parse_ignored_line unfolding Ignored by blast
    show thesis
      by (rule Cons.IH [OF _ l(3) Cons.prems(3,4)])
        (use p Ignored in \<open>auto intro!: Cons.prems(1)\<close>)
  qed
qed (simp add: Cons)

text \<open>
  A file of good lines is read to a configuration with the values that the lines say; it can be
  destroyed if every section that is named has a value.
\<close>

lemma destroyed_items: "destroy ss = Inr () \<longleftrightarrow> list_all (\<lambda>s. items s \<noteq> []) ss"
  by (induction ss) (auto simp: bind_eq_Inr destroy_section_def)

lemma find_section_member: "distinct (map section_name ss) \<Longrightarrow> s \<in> set ss \<Longrightarrow> find_section (section_name s) ss = Some s"
  by (induction ss) force+

definition all_have_items :: "ini_line list \<Rightarrow> bool" where
  "all_have_items ls \<longleftrightarrow> headings ls \<subseteq> fst ` fst ` set (entries None ls)"

theorem file_read:
  assumes "list_all good_line ls"
  obtains c where "new_configer junk (Some (file_text ls)) = Inr c"
    "\<And>n k d. get_string n k d c = get_string n k d (conf_of ls)"
    "all_have_items ls \<Longrightarrow> destroy (sections c) = Inr ()"
proof -
  obtain ss cur where p: "parse_lines (map line_text ls) ([], None) = Inr (ss, cur)"
    and f: "found ss = found [] ++ map_of (rev (entries None ls))" and n: "distinct (map section_name ss)"
      "set (map section_name ss) = set (map section_name []) \<union> headings ls"
    by (rule parse_good_lines [OF assms, of "[]" None]) auto
  have e: "found ss = map_of (rev (entries None ls))" unfolding f by (simp add: found_def fun_eq_iff map_add_def split: option.splits)
  have "destroy ss = Inr ()" if a: "all_have_items ls"
    unfolding destroyed_items list_all_iff
  proof
    fix s assume s: "s \<in> set ss"
    then have "section_name s \<in> headings ls" using n(2) by auto
    then obtain k v where "((section_name s, k), v) \<in> set (entries None ls)"
      using a by (force simp: all_have_items_def)
    then have "found ss (section_name s, k) \<noteq> None"
      by (auto simp: e map_of_eq_None_iff intro!: rev_image_eqI)
    then show "items s \<noteq> []" using find_section_member [OF n(1) s] by (auto simp: found_def)
  qed
  moreover have "get_string m k d \<lparr> sections = ss, modified = junk \<rparr> = get_string m k d (conf_of ls)" for m k d
    by (simp add: get_string_found [of m k d "\<lparr> sections = ss, modified = junk \<rparr>"] e get_string_conf_of file_value_def)
  moreover have "new_configer junk (Some (file_text ls)) = Inr \<lparr> sections = ss, modified = junk \<rparr>"
    by (simp add: new_configer_def lines_of_file [OF assms] p)
  ultimately show thesis by (intro that [of "\<lparr> sections = ss, modified = junk \<rparr>"]) simp_all
qed

section \<open>Reading what was written\<close>

text \<open>An item whose line can be read back, and a section of such items with different keys.\<close>

definition item_line :: "configer_item \<Rightarrow> ini_line" where
  "item_line i = Entry 0 (key i) 0 (item_value i) None"

definition heading_line :: "configer_section \<Rightarrow> ini_line" where
  "heading_line s = Heading 0 (section_name s) []"

definition good_section :: "configer_section \<Rightarrow> bool" where
  "good_section s \<longleftrightarrow> good_line (heading_line s) \<and> list_all (\<lambda>i. good_line (item_line i)) (items s) \<and>
     distinct (map key (items s))"

definition good_configer :: "configer \<Rightarrow> bool" where
  "good_configer c \<longleftrightarrow> list_all good_section (sections c) \<and> distinct (map section_name (sections c))"

definition section_lines :: "configer_section \<Rightarrow> ini_line list" where
  "section_lines s = map item_line (items s) @ [heading_line s]"

lemma file_text_append: "file_text (ls @ ms) = file_text ls @ file_text ms"
  by (simp add: file_text_def)

lemma section_text_lines: "section_text s = file_text (section_lines s)"
proof -
  have "concat (map item_text is) = file_text (map item_line is)" for "is"
    by (induction "is") (simp_all add: file_text_def item_text_def item_line_def)
  then show ?thesis
    by (simp add: section_text_def section_lines_def file_text_append) (simp add: file_text_def heading_line_def)
qed

lemma sync_lines: "sync c = file_text (concat (map section_lines (sections c)))"
proof -
  have "concat (map section_text ss) = file_text (concat (map section_lines ss))" for ss
    by (induction ss) (simp_all add: section_text_lines file_text_append, simp add: file_text_def)
  then show ?thesis by (simp add: sync_def)
qed

lemma change_section_last:
  "n \<notin> set (map section_name ss) \<Longrightarrow> section_name s = n \<Longrightarrow> change_section n f (ss @ [s]) = ss @ [f s]"
  by (induction ss) auto

lemma parse_items:
  assumes "list_all (\<lambda>i. good_line (item_line i)) is" "distinct (map key (js @ is))" "n \<notin> set (map section_name ss)"
  shows "parse_lines (map line_text (map item_line is) @ ls) (ss @ [\<lparr> section_name = n, items = js \<rparr>], Some n) =
    parse_lines ls (ss @ [\<lparr> section_name = n, items = js @ is \<rparr>], Some n)"
  using assms
proof (induction "is" arbitrary: js)
  case (Cons i "is")
  have "find_item (key i) js = None" using Cons.prems(2) by (simp add: find_item_None)
  moreover have "good_parts (item_line i)" "10 \<notin> set (item_value i)"
    using Cons.prems(1) by (auto simp: good_line_def item_line_def)
  ultimately have "parse_line (line_text (item_line i)) (ss @ [\<lparr> section_name = n, items = js \<rparr>], Some n) =
      Inr (ss @ [\<lparr> section_name = n, items = js @ [i] \<rparr>], Some n)"
    using Cons.prems(3) parse_entry_line [of 0 "key i" 0 "item_value i" None]
    unfolding item_line_def by (simp add: change_section_last set_item_def del: line_text.simps)
  with Cons show ?case by simp
qed simp

lemma parse_heading:
  assumes "good_section s" "section_name s \<notin> set (map section_name ss)"
  shows "parse_line (line_text (heading_line s)) (ss, cur) =
    Inr (ss @ [\<lparr> section_name = section_name s, items = [] \<rparr>], Some (section_name s))"
  using assms parse_heading_line [of "section_name s" 0 "[]" ss cur]
  unfolding heading_line_def by (simp add: good_section_def heading_line_def good_line_def del: line_text.simps set_map)

text \<open>Each section gets the items that were written in front of the next heading.\<close>

fun shifted :: "octets \<Rightarrow> configer_section list \<Rightarrow> configer_section list" where
  "shifted n [] = [\<lparr> section_name = n, items = [] \<rparr>]"
| "shifted n (s # ss) = \<lparr> section_name = n, items = items s \<rparr> # shifted (section_name s) ss"

lemma parse_shifted:
  assumes "list_all good_section ts" "distinct (map section_name ss @ n # map section_name ts)"
  shows "\<exists>cur. parse_lines (map line_text (concat (map section_lines ts))) (ss @ [\<lparr> section_name = n, items = [] \<rparr>], Some n) =
    Inr (ss @ shifted n ts, cur)"
  using assms
proof (induction ts arbitrary: ss n)
  case (Cons t ts)
  let ?s = "\<lparr> section_name = n, items = items t \<rparr>"
  have t: "good_section t" "list_all (\<lambda>i. good_line (item_line i)) (items t)" "distinct (map key (items t))"
    using Cons.prems(1) by (simp_all add: good_section_def)
  have h: "parse_line (line_text (heading_line t)) (ss @ [?s], Some n) =
      Inr ((ss @ [?s]) @ [\<lparr> section_name = section_name t, items = [] \<rparr>], Some (section_name t))"
    using Cons.prems(2) by (intro parse_heading [OF t(1)]) auto
  have "parse_lines (map line_text (concat (map section_lines (t # ts)))) (ss @ [\<lparr> section_name = n, items = [] \<rparr>], Some n) =
      parse_lines (map line_text (concat (map section_lines ts)))
        ((ss @ [?s]) @ [\<lparr> section_name = section_name t, items = [] \<rparr>], Some (section_name t))"
    using parse_items [OF t(2), of "[]" n ss] t(3) Cons.prems(2) h
    by (simp add: section_lines_def del: map_map)
  then show ?case using Cons.IH [of "ss @ [?s]" "section_name t"] Cons.prems by simp
qed simp

lemma parse_lost:
  assumes "list_all (\<lambda>i. good_line (item_line i)) is"
  shows "parse_lines (map line_text (map item_line is) @ ls) ([], None) = parse_lines ls ([], None)"
  using assms
proof (induction "is")
  case (Cons i "is")
  have "good_parts (item_line i)" "10 \<notin> set (item_value i)"
    using Cons.prems by (auto simp: good_line_def item_line_def)
  then have "parse_line (line_text (item_line i)) ([], None) = Inr ([], None)"
    using parse_entry_line [of 0 "key i" 0 "item_value i" None]
    unfolding item_line_def by (simp del: line_text.simps)
  with Cons show ?case by simp
qed simp

theorem written_shifted:
  assumes "good_configer c" "sections c = s # ss"
  shows "new_configer junk (Some (sync c)) = Inr \<lparr> sections = shifted (section_name s) ss, modified = junk \<rparr>"
proof -
  let ?ls = "concat (map section_lines (s # ss))"
  have g: "list_all good_section (s # ss)" "distinct (map section_name (s # ss))"
    "good_section s" "list_all (\<lambda>i. good_line (item_line i)) (items s)"
    using assms by (simp_all add: good_configer_def good_section_def)
  have "list_all good_line ?ls"
    using g(1) by (auto simp: section_lines_def good_section_def list_all_iff)
  then have l: "lines_of (sync c) = map line_text ?ls" by (simp only: sync_lines assms(2) lines_of_file)
  obtain cur where "parse_lines (map line_text (concat (map section_lines ss)))
      ([\<lparr> section_name = section_name s, items = [] \<rparr>], Some (section_name s)) = Inr (shifted (section_name s) ss, cur)"
    using parse_shifted [of ss "[]" "section_name s"] g(1,2) by auto
  moreover have "parse_lines (map line_text ?ls) ([], None) = parse_lines (map line_text (concat (map section_lines ss)))
      ([\<lparr> section_name = section_name s, items = [] \<rparr>], Some (section_name s))"
    using parse_lost [OF g(4)] parse_heading [OF g(3), of "[]" None]
    by (simp add: section_lines_def del: map_map)
  ultimately show ?thesis by (simp add: new_configer_def l)
qed

lemma shifted_facts:
  "map section_name (shifted n ss) = n # map section_name ss" "map items (shifted n ss) = map items ss @ [[]]"
  "destroy (shifted n ss) = Inl OutOfBounds"
  by (induction ss arbitrary: n) (simp_all add: destroy_section_def)

end
