(* ===== verification/Clients_Manager.thy ===== *)
theory Clients_Manager
  imports Client_Messages Configer
begin

text \<open>
  The clients of the process (\<open>src/public/client_common/clients_manager.cpp\<close>). The data sources, the
  counters and the sequence numbers are static in the code, so the manager keeps the one
  \<open>client_host\<close> and a call of a client works on it.
\<close>

section \<open>State\<close>

record client_settings = smppclient_configer +
  serverip :: octets
  serverport :: octets
  localip :: octets
  localport :: uint16
  max_sms_per_second :: int

record clients_manager =
  clients :: "smppclient list"
  last_index :: uint32
  process_host :: client_host

definition new_clients_manager :: "client_host \<Rightarrow> clients_manager" where
  "new_clients_manager h = \<lparr> clients = [], last_index = 0, process_host = h \<rparr>"

section \<open>Adding clients\<close>

text \<open>\<open>bind_sn_\<close> is not initialised.\<close>

definition new_smppclient :: "uint32 \<Rightarrow> smppclient_configer \<Rightarrow> client_host \<Rightarrow> smppclient" where
  "new_smppclient junk k h = \<lparr> connected = False, arriving = [], sent = [], config = k,
     is_protocol_connected = False, bind_sn = junk, waiting_ack_smis = [], ack_timeout_smis = [], host = h \<rparr>"

definition update_configer :: "smppclient_configer \<Rightarrow> smppclient \<Rightarrow> smppclient" where
  "update_configer k c = c\<lparr> config := k \<rparr>"

text \<open>\<open>start\<close> asks for the data source, which makes it, and starts the threads.\<close>

definition start_client :: "smppclient \<Rightarrow> smppclient" where
  "start_client = on_host (\<lambda>flag. update_source flag (\<lambda>d. d) (\<lambda>t. t))"

definition add_clients :: "uint32 \<Rightarrow> smppclient_configer \<Rightarrow> clients_manager \<Rightarrow> clients_manager" where
  "add_clients junk k m =
     (let c = start_client (new_smppclient junk k (process_host m))
      in m\<lparr> clients := clients m @ [c], process_host := host c \<rparr>)"

text \<open>The settings of the section of one client; the types throw if they are too long.\<close>

definition client_section :: "nat \<Rightarrow> octets" where
  "client_section i = ascii ''smpp_client'' @ decimal i"

definition read_settings :: "configer \<Rightarrow> octets \<Rightarrow> client_settings result" where
  "read_settings conf n =
     bind (SystemType (get_string n (ascii ''systype'') [] conf)) (\<lambda>st.
     bind (ServiceType (get_string n (ascii ''servtype'') [] conf)) (\<lambda>vt.
     Inr \<lparr> cc_sysid = get_string n (ascii ''sysid'') (ascii ''dt'') conf,
       cc_password = get_string n (ascii ''password'') [] conf,
       srcaddr_ton = of_int (get_int n (ascii ''srcaddr_ton'') 0 conf),
       srcaddr_npi = of_int (get_int n (ascii ''srcaddr_npi'') 0 conf),
       bind_mode = get_bind_mode_by_string (get_string n (ascii ''bind_mode'') [] conf),
       systype = st, infver = 0x34, servtype = vt,
       using_hex_decimal_message_id = (1 = get_int n (ascii ''using_hex_decimal_message_id'') 0 conf),
       force_dlr_datacoding = get_int n (ascii ''force_dlr_datacoding'') (- 1) conf,
       force_mo_datacoding = get_int n (ascii ''force_mo_datacoding'') (- 1) conf,
       heatbeat_period = get_int n (ascii ''enquire_link_period'') 15 conf,
       waiting_ack_timeout = get_int n (ascii ''waiting_ack_timeout'') 15 conf,
       waiting_dlr_timeout = get_int n (ascii ''waiting_dlr_timeout'') (3600 * 60 * 24 * 3) conf,
       is_gateway = (1 = get_int n (ascii ''is_gateway'') 0 conf), cc_gateway_id = [],
       serverip = get_string n (ascii ''serverip'') [] conf,
       serverport = get_string n (ascii ''serverport'') [] conf,
       localip = get_string n (ascii ''localip'') (ascii ''0.0.0.0'') conf,
       localport = of_int (get_int n (ascii ''localport'') 0 conf),
       max_sms_per_second = get_int n (ascii ''max_sms_per_second'') 2000 conf \<rparr>))"

fun read_all_settings :: "configer \<Rightarrow> nat list \<Rightarrow> client_settings list result" where
  "read_all_settings conf [] = Inr []"
| "read_all_settings conf (i # is) =
     bind (read_settings conf (client_section i)) (\<lambda>k.
     bind (read_all_settings conf is) (\<lambda>ks.
     Inr (if bind_mode k \<noteq> BOUND_UNKNOWN then k # ks else ks)))"

definition clients_nb :: "configer \<Rightarrow> int" where
  "clients_nb conf = get_int (ascii ''smpp_client_nb'') (ascii ''nb'') 1 conf"

definition add_clients_from_file :: "uint32 \<Rightarrow> octets option \<Rightarrow> clients_manager \<Rightarrow> clients_manager result" where
  "add_clients_from_file junk config_file m = (case config_file of
     None \<Rightarrow> Inr m
   | Some f \<Rightarrow> bind (new_configer 0 (Some f)) (\<lambda>conf.
       bind (read_all_settings conf [1..<nat (clients_nb conf) + 1]) (\<lambda>ks.
       let m = fold (\<lambda>k. add_clients junk (smppclient_configer.truncate k)) ks m
       in bind (destroy (sections conf)) (\<lambda>_. Inr m))))"

section \<open>Calls of the program\<close>

text \<open>The loop over the clients from \<open>begin_index\<close>: the index of the client that was found.\<close>

partial_function (option) able_from :: "smppclient list \<Rightarrow> nat \<Rightarrow> nat \<Rightarrow> nat option option" where
  "able_from cs begin_index index =
     (if tx_able (cs ! index) then Some (Some index)
      else let index = (index + 1) mod length cs in
        if index = begin_index then Some None else able_from cs begin_index index)"

text \<open>\<open>last_index\<close> is an \<open>int\<close> and the number of clients a \<open>size_t\<close>.\<close>

definition manager_submit_smis :: "cb_sm_information list \<Rightarrow> octets \<Rightarrow> clients_manager \<Rightarrow>
    (bool \<times> clients_manager) option" where
  "manager_submit_smis smis failed_reason m =
     (if clients m \<noteq> [] then
        (let m = m\<lparr> last_index := last_index m + 1 \<rparr>;
             begin_index = unat (scast (last_index m) :: uint64) mod length (clients m)
         in case able_from (clients m) begin_index begin_index of
              None \<Rightarrow> None
            | Some None \<Rightarrow> Some (False, m)
            | Some (Some i) \<Rightarrow>
                (let c = submit_smis smis failed_reason ((clients m ! i)\<lparr> host := process_host m \<rparr>)
                 in Some (True, m\<lparr> clients := (clients m)[i := c], process_host := host c \<rparr>)))
      else Some (False, m))"

fun status_of_clients :: "int \<Rightarrow> int \<Rightarrow> smppclient list \<Rightarrow> client_host \<Rightarrow> cb_sm_information list \<Rightarrow>
    cb_sm_information list \<times> client_host" where
  "status_of_clients to_get remain_to_get [] h smis = (smis, h)"
| "status_of_clients to_get remain_to_get (c # cs) h smis =
     (let (smis_tmp, h) = cds_get_global_status (get_unique_id_of_client c) remain_to_get h;
          smis = smis @ smis_tmp
      in if int (length smis) \<ge> to_get then (smis, h)
         else status_of_clients to_get (remain_to_get - int (length smis_tmp)) cs h smis)"

definition manager_get_global_status :: "int \<Rightarrow> clients_manager \<Rightarrow> cb_sm_information list \<times> clients_manager" where
  "manager_get_global_status to_get m =
     (let (smis, h) = status_of_clients to_get to_get (clients m) (process_host m) []
      in (smis, m\<lparr> process_host := h \<rparr>))"

fun mos_of_clients :: "smppclient list \<Rightarrow> client_host \<Rightarrow> cb_sm_information list \<Rightarrow>
    cb_sm_information list \<times> client_host" where
  "mos_of_clients [] h smis = (smis, h)"
| "mos_of_clients (c # cs) h smis =
     (let (smis_tmp, h) = cds_get_mos (get_unique_id_of_client c) h in mos_of_clients cs h (smis @ smis_tmp))"

definition manager_get_mos :: "clients_manager \<Rightarrow> cb_sm_information list \<times> clients_manager" where
  "manager_get_mos m = (let (smis, h) = mos_of_clients (clients m) (process_host m) []
     in (smis, m\<lparr> process_host := h \<rparr>))"

text \<open>\<open>stop\<close> unbinds and waits for the threads.\<close>

fun stop_clients :: "env \<Rightarrow> (nat \<Rightarrow> nat option) \<Rightarrow> smppclient list \<Rightarrow> client_host \<Rightarrow> client_host result" where
  "stop_clients e rooms [] h = Inr h"
| "stop_clients e rooms (c # cs) h =
     bind (client_unbind e (rooms 0) (c\<lparr> host := h \<rparr>)) (\<lambda>(_, c). stop_clients e (rooms \<circ> Suc) cs (host c))"

definition stop_all :: "env \<Rightarrow> (nat \<Rightarrow> nat option) \<Rightarrow> clients_manager \<Rightarrow> clients_manager result" where
  "stop_all e rooms m = bind (stop_clients e rooms (clients m) (process_host m)) (\<lambda>h.
     Inr (m\<lparr> clients := [], process_host := h \<rparr>))"

fun connected_with_id :: "octets \<Rightarrow> smppclient list \<Rightarrow> bool" where
  "connected_with_id wanted [] = False"
| "connected_with_id wanted (c # cs) =
     (if get_unique_id_of_client c = wanted then is_protocol_connected c else connected_with_id wanted cs)"

fun any_connected :: "smppclient list \<Rightarrow> bool" where
  "any_connected [] = False"
| "any_connected (c # cs) = (if is_protocol_connected c then True else any_connected cs)"

definition manager_is_protocol_connected :: "octets \<Rightarrow> clients_manager \<Rightarrow> bool" where
  "manager_is_protocol_connected wanted m =
     (if length wanted > 0 then connected_with_id wanted (clients m) else any_connected (clients m))"

section \<open>The client that is chosen\<close>

text \<open>The clients in the order of the round that starts at \<open>b\<close>.\<close>

definition round_from :: "nat \<Rightarrow> nat \<Rightarrow> nat list" where
  "round_from b n = rotate b [0..<n]"

lemma round_from_map: "round_from b n = map (\<lambda>k. (b + k) mod n) [0..<n]"
  by (rule nth_equalityI) (auto simp: round_from_def nth_rotate)

lemma round_from_set [simp]: "set (round_from b n) = {..<n}"
  by (simp add: round_from_def lessThan_atLeast0)

lemma round_upt: "k < n \<Longrightarrow> map (\<lambda>j. (b + j) mod n) [k..<n] = (b + k) mod n # map (\<lambda>j. (b + j) mod n) [Suc k..<n]"
  by (simp add: upt_rec)

lemma round_end:
  assumes "b < n" "k < n"
  shows "((b + k) mod n + 1) mod n = (b + Suc k) mod n" "(b + Suc k) mod n = b \<longleftrightarrow> Suc k = n"
proof -
  show "((b + k) mod n + 1) mod n = (b + Suc k) mod n" by (simp add: mod_simps)
  show "(b + Suc k) mod n = b \<longleftrightarrow> Suc k = n"
  proof (cases "b + Suc k < n")
    case False
    then have "(b + Suc k) mod n = b + Suc k - n" using assms by (simp add: le_mod_geq)
    then show ?thesis using assms False by auto
  qed (use assms in auto)
qed

lemma able_from_k:
  assumes "b < length cs" "k < length cs"
  shows "able_from cs b ((b + k) mod length cs) =
    Some (find (\<lambda>i. tx_able (cs ! i)) (map (\<lambda>j. (b + j) mod length cs) [k..<length cs]))"
  using assms(2)
proof (induction "length cs - k" arbitrary: k)
  case (Suc d)
  show ?case
  proof (cases "tx_able (cs ! ((b + k) mod length cs))")
    case True
    then show ?thesis using Suc.prems by (subst able_from.simps) (simp add: round_upt)
  next
    case False
    then have "able_from cs b ((b + k) mod length cs) =
        (if Suc k = length cs then Some None else able_from cs b ((b + Suc k) mod length cs))"
      using round_end [OF assms(1) Suc.prems] by (subst able_from.simps) (simp only: Let_def if_False)
    moreover have "Suc k \<noteq> length cs \<Longrightarrow> Suc k < length cs" using Suc.prems by simp
    moreover have "Suc k < length cs \<Longrightarrow> able_from cs b ((b + Suc k) mod length cs) =
        Some (find (\<lambda>i. tx_able (cs ! i)) (map (\<lambda>j. (b + j) mod length cs) [Suc k..<length cs]))"
      using Suc.hyps(2) by (intro Suc.hyps(1)) simp_all
    ultimately show ?thesis
      using False by (cases "Suc k = length cs") (simp_all add: round_upt [OF Suc.prems])
  qed
qed simp

lemma able_from_round:
  assumes "b < length cs"
  shows "able_from cs b b = Some (find (\<lambda>i. tx_able (cs ! i)) (round_from b (length cs)))"
proof -
  have "0 < length cs" using assms by linarith
  from able_from_k [OF assms this] show ?thesis using assms by (simp add: round_from_map)
qed

text \<open>The messages that a client takes, stamped with its account.\<close>

definition stamped :: "smppclient \<Rightarrow> cb_sm_information list \<Rightarrow> cb_sm_information list" where
  "stamped c = map (\<lambda>m. if is_gateway (config c) then m\<lparr> gateway_id := cc_gateway_id (config c) \<rparr>
     else m\<lparr> smi_systemid := cc_sysid (config c) \<rparr>)"

lemma the_source_submit_smis:
  "the_source g (host (submit_smis smis [] c)) =
     (if g = get_unique_id_of_client c then (the_source g (host c))
        \<lparr> to_submit_list := to_submit_list (the_source g (host c)) @ stamped c smis \<rparr>
      else the_source g (host c))"
  by (simp add: submit_smis_def on_host_def the_source_ops stamped_def)

lemma config_fold [simp]: "config (fold (\<lambda>x. on_host (f x)) xs c) = config c"
  by (induction xs arbitrary: c) simp_all

lemma unique_id_host [simp]:
  "get_unique_id_of_client (c\<lparr> host := h \<rparr>) = get_unique_id_of_client c"
  "get_unique_id_of_client (submit_smis smis r c) = get_unique_id_of_client c"
  by (simp_all add: get_unique_id_of_client_def submit_smis_def Let_def)

section \<open>What is handed out\<close>

lemma got_status:
  "cds_get_global_status flag k h = (smis, h') \<Longrightarrow>
   smis = take (nat (max 1 k)) (delivered_list (the_source flag h)) \<and>
   (\<forall>g. the_source g h' = (if g = flag then (the_source flag h)
      \<lparr> delivered_list := drop (nat (max 1 k)) (delivered_list (the_source flag h)) \<rparr> else the_source g h))"
  by (auto simp: cds_get_global_status_def Let_def split: if_splits)

text \<open>The fates that wait to be handed out, in the data sources of a set of accounts.\<close>

definition waiting_fates :: "octets set \<Rightarrow> client_host \<Rightarrow> cb_sm_information multiset" where
  "waiting_fates F h = (\<Sum>f\<in>F. mset (delivered_list (the_source f h)))"

lemma fates_taken:
  assumes "cds_get_global_status flag k h = (smis, h')" "finite F" "flag \<in> F"
  shows "waiting_fates F h = mset smis + waiting_fates F h'"
proof -
  have "waiting_fates F h = mset (delivered_list (the_source flag h)) + waiting_fates (F - {flag}) h"
    "waiting_fates F h' = mset (delivered_list (the_source flag h')) + waiting_fates (F - {flag}) h'"
    using assms(2,3) by (simp_all add: waiting_fates_def sum.remove)
  moreover have "waiting_fates (F - {flag}) h' = waiting_fates (F - {flag}) h"
    using got_status [OF assms(1)] by (simp add: waiting_fates_def)
  moreover have "mset (delivered_list (the_source flag h)) = mset smis + mset (delivered_list (the_source flag h'))"
    using got_status [OF assms(1)] by (simp flip: mset_append)
  ultimately show ?thesis by simp
qed

text \<open>Nothing but fates is taken.\<close>

definition fates_only :: "client_host \<Rightarrow> client_host \<Rightarrow> bool" where
  "fates_only h h' \<longleftrightarrow> (\<forall>g. to_submit_list (the_source g h') = to_submit_list (the_source g h) \<and>
     delivering_list (the_source g h') = delivering_list (the_source g h) \<and>
     received_mos (the_source g h') = received_mos (the_source g h) \<and>
     length (delivered_list (the_source g h')) \<le> length (delivered_list (the_source g h)))"

lemma fates_only_trans: "fates_only h h1 \<Longrightarrow> fates_only h1 h' \<Longrightarrow> fates_only h h'"
  unfolding fates_only_def by (metis le_trans)

lemma status_collected:
  assumes "status_of_clients to_get (to_get - int (length acc)) cs h acc = (smis, h')"
    "acc = [] \<or> int (length acc) < to_get"
  shows "\<exists>got. smis = acc @ got \<and> int (length smis) \<le> max 1 to_get \<and>
    (int (length smis) < to_get \<longrightarrow> (\<forall>c \<in> set cs. delivered_list (the_source (get_unique_id_of_client c) h') = [])) \<and>
    (\<forall>F. finite F \<and> get_unique_id_of_client ` set cs \<subseteq> F \<longrightarrow> waiting_fates F h = mset got + waiting_fates F h') \<and>
    fates_only h h'"
  using assms
proof (induction cs arbitrary: h acc)
  case (Cons c cs)
  let ?r = "to_get - int (length acc)" and ?f = "get_unique_id_of_client c"
  obtain tmp h1 where t: "cds_get_global_status ?f ?r h = (tmp, h1)" by fastforce
  note g = got_status [OF t]
  have len: "int (length tmp) \<le> max 1 ?r" using g by simp
  have le: "int (length (acc @ tmp)) \<le> max 1 to_get" using len Cons.prems(2) by auto
  have lists: "fates_only h h1" using g by (simp add: fates_only_def)
  show ?case
  proof (cases "int (length (acc @ tmp)) \<ge> to_get")
    case True
    then have "smis = acc @ tmp" "h' = h1" using Cons.prems(1) t by simp_all
    then show ?thesis using le lists True fates_taken [OF t] by auto
  next
    case False
    then have "status_of_clients to_get (to_get - int (length (acc @ tmp))) cs h1 (acc @ tmp) = (smis, h')"
      using Cons.prems(1) t by (simp add: algebra_simps)
    from Cons.IH [OF this] False obtain got where got: "smis = (acc @ tmp) @ got"
      "int (length smis) \<le> max 1 to_get"
      "int (length smis) < to_get \<longrightarrow> (\<forall>c \<in> set cs. delivered_list (the_source (get_unique_id_of_client c) h') = [])"
      "\<And>F. finite F \<Longrightarrow> get_unique_id_of_client ` set cs \<subseteq> F \<Longrightarrow> waiting_fates F h1 = mset got + waiting_fates F h'"
      "fates_only h1 h'" by auto
    have "length tmp < nat (max 1 ?r)" using False by auto
    then have "delivered_list (the_source ?f h1) = []" using g by simp
    then have "delivered_list (the_source ?f h') = []" using got(5) unfolding fates_only_def by (metis le_zero_eq length_0_conv)
    moreover have "waiting_fates F h = mset (tmp @ got) + waiting_fates F h'"
      if "finite F" "get_unique_id_of_client ` set (c # cs) \<subseteq> F" for F
      using fates_taken [OF t that(1)] got(4) [of F] that by simp
    ultimately show ?thesis using got(1-3) fates_only_trans [OF lists got(5)] by (intro exI [of _ "tmp @ got"]) auto
  qed
qed (auto simp: waiting_fates_def fates_only_def)

text \<open>The settings of the clients that a file names.\<close>

lemma read_all_known:
  assumes "\<forall>i \<in> set is. read_settings conf (client_section i) = Inr (k i)"
  shows "read_all_settings conf is = Inr (filter (\<lambda>k. bind_mode k \<noteq> BOUND_UNKNOWN) (map k is))"
  using assms by (induction "is") simp_all

lemma added_clients:
  "map config (clients (fold (\<lambda>k. add_clients junk (f k)) ks m)) = map config (clients m) @ map f ks"
  "\<forall>c \<in> set (drop (length (clients m)) (clients (fold (\<lambda>k. add_clients junk (f k)) ks m))).
     \<not> is_protocol_connected c \<and> waiting_ack_smis c = [] \<and> ack_timeout_smis c = []"
  "the_source g (process_host (fold (\<lambda>k. add_clients junk (f k)) ks m)) = the_source g (process_host m)"
proof -
  have c: "add_clients junk k m = m\<lparr> clients := clients m @ [start_client (new_smppclient junk k (process_host m))],
      process_host := host (start_client (new_smppclient junk k (process_host m))) \<rparr>" for k m
    by (simp add: add_clients_def Let_def)
  have s: "config (start_client (new_smppclient junk k h)) = k"
    "\<not> is_protocol_connected (start_client (new_smppclient junk k h))"
    "waiting_ack_smis (start_client (new_smppclient junk k h)) = []"
    "ack_timeout_smis (start_client (new_smppclient junk k h)) = []"
    "the_source g (host (start_client (new_smppclient junk k h))) = the_source g h" for k h g
    by (simp_all add: start_client_def new_smppclient_def on_host_def)
  show "map config (clients (fold (\<lambda>k. add_clients junk (f k)) ks m)) = map config (clients m) @ map f ks"
    by (induction ks arbitrary: m) (simp_all add: c s)
  show "the_source g (process_host (fold (\<lambda>k. add_clients junk (f k)) ks m)) = the_source g (process_host m)"
    by (induction ks arbitrary: m) (simp_all add: c s)
  have "\<exists>new. clients (fold (\<lambda>k. add_clients junk (f k)) ks m) = clients m @ new \<and>
      (\<forall>c \<in> set new. \<not> is_protocol_connected c \<and> waiting_ack_smis c = [] \<and> ack_timeout_smis c = [])"
  proof (induction ks arbitrary: m)
    case (Cons k ks)
    from Cons [of "add_clients junk (f k) m"] show ?case by (auto simp: c s)
  qed simp
  then show "\<forall>c \<in> set (drop (length (clients m)) (clients (fold (\<lambda>k. add_clients junk (f k)) ks m))).
     \<not> is_protocol_connected c \<and> waiting_ack_smis c = [] \<and> ack_timeout_smis c = []"
    by auto
qed

end
