(* ===== verification/Base64.thy ===== *)
theory Base64
  imports Prelude "HOL-Library.Word"
begin

text \<open>
  Base64 (\<open>src/public/algorithm_toolkit/base64.cpp\<close>), with its two alphabets: the standard one, and
  the one with \<open>.\<close> and \<open>_\<close> that the program uses. \<open>std\<close> is the parameter \<open>using_standard\<close>.
\<close>

unbundle bit_operations_syntax

definition base64_chars :: "bool \<Rightarrow> octets" where
  "base64_chars std = ascii ''ABCDEFGHIJKLMNOPQRSTUVWXYZabcdefghijklmnopqrstuvwxyz0123456789'' @
     ascii (if std then ''+/'' else ''._'')"

definition is_base64 :: "octet \<Rightarrow> bool" where
  "is_base64 c \<longleftrightarrow> (48 \<le> c \<and> c \<le> 57) \<or> (65 \<le> c \<and> c \<le> 90) \<or> (97 \<le> c \<and> c \<le> 122) \<or> c = 46 \<or> c = 95"

text \<open>The six-bit numbers of three octets.\<close>

definition sextets :: "octet \<Rightarrow> octet \<Rightarrow> octet \<Rightarrow> octets" where
  "sextets a b c =
     [drop_bit 2 (a AND 0xfc), push_bit 4 (a AND 0x03) + drop_bit 4 (b AND 0xf0),
      push_bit 2 (b AND 0x0f) + drop_bit 6 (c AND 0xc0), c AND 0x3f]"

definition base64_char :: "bool \<Rightarrow> octet \<Rightarrow> octet" where
  "base64_char std i = base64_chars std ! unat i"

fun base64_encode :: "bool \<Rightarrow> octets \<Rightarrow> octets" where
  "base64_encode std (a # b # c # s) = map (base64_char std) (sextets a b c) @ base64_encode std s"
| "base64_encode std [a, b] = map (base64_char std) (take 3 (sextets a b 0)) @ [61]"
| "base64_encode std [a] = map (base64_char std) (take 2 (sextets a 0 0)) @ [61, 61]"
| "base64_encode std [] = []"

text \<open>\<open>std::string::find\<close>, cut to an octet: 255 for a character that is not in the alphabet.\<close>

fun find_char :: "octets \<Rightarrow> octet \<Rightarrow> octet \<Rightarrow> octet" where
  "find_char [] i c = 0xff"
| "find_char (x # xs) i c = (if x = c then i else find_char xs (i + 1) c)"

definition base64_value :: "bool \<Rightarrow> octet \<Rightarrow> octet" where
  "base64_value std c = find_char (base64_chars std) 0 c"

text \<open>The three octets of four six-bit numbers; the shifts lose what does not fit an octet.\<close>

definition triple :: "octet \<Rightarrow> octet \<Rightarrow> octet \<Rightarrow> octet \<Rightarrow> octets" where
  "triple a b c d =
     [push_bit 2 a + drop_bit 4 (b AND 0x30), push_bit 4 (b AND 0x0f) + drop_bit 2 (c AND 0x3c),
      push_bit 6 (c AND 0x03) + d]"

text \<open>The characters up to the first that is none of the alphabet; what is missing of four is NUL.\<close>

fun decode_quads :: "bool \<Rightarrow> octets \<Rightarrow> octets" where
  "decode_quads std (a # b # c # d # s) =
     triple (base64_value std a) (base64_value std b) (base64_value std c) (base64_value std d) @ decode_quads std s"
| "decode_quads std [a, b, c] =
     take 2 (triple (base64_value std a) (base64_value std b) (base64_value std c) (base64_value std 0))"
| "decode_quads std [a, b] =
     take 1 (triple (base64_value std a) (base64_value std b) (base64_value std 0) (base64_value std 0))"
| "decode_quads std [a] = []"
| "decode_quads std [] = []"

definition base64_decode :: "bool \<Rightarrow> octets \<Rightarrow> octets" where
  "base64_decode std s = decode_quads std (takeWhile (\<lambda>c. c \<noteq> 61 \<and> is_base64 c) s)"

section \<open>Decoding undoes encoding\<close>

lemma base64_chars_eq: "base64_chars False = map of_nat ([65..<91] @ [97..<123] @ [48..<58] @ [46, 95])"
  by (simp add: base64_chars_def ascii_def upt_rec)

lemma of_nat_octet_eq: "m < 256 \<Longrightarrow> n < 256 \<Longrightarrow> (of_nat m :: octet) = of_nat n \<longleftrightarrow> m = n"
  by (simp add: word_of_nat_eq_iff take_bit_eq_mod)

lemma alphabet_distinct: "distinct (base64_chars False)"
  unfolding base64_chars_eq distinct_map by (auto intro!: inj_onI simp: of_nat_octet_eq)

lemma alphabet_length: "length (base64_chars False) = 64"
  by (simp add: base64_chars_eq)

lemma alphabet_chars: "\<forall>c \<in> set (base64_chars False). is_base64 c \<and> c \<noteq> 61"
  by (simp add: base64_chars_def ascii_def is_base64_def)

lemma find_char_nth: "distinct xs \<Longrightarrow> i < length xs \<Longrightarrow> find_char xs k (xs ! i) = k + of_nat i"
proof (induction xs arbitrary: i k)
  case (Cons x xs)
  then show ?case by (cases i) auto
qed simp

lemma value_char [simp]: "i < 64 \<Longrightarrow> base64_value False (base64_char False i) = i"
  using find_char_nth [OF alphabet_distinct, of "unat i" 0]
  by (simp add: base64_value_def base64_char_def alphabet_length word_less_nat_alt)

lemma char_ok [simp]: "i < 64 \<Longrightarrow> is_base64 (base64_char False i)" "i < 64 \<Longrightarrow> base64_char False i \<noteq> 61"
  using alphabet_chars nth_mem [of "unat i" "base64_chars False"]
  by (simp_all add: base64_char_def alphabet_length word_less_nat_alt)

lemma octet_eqI:
  assumes "bit x 0 = bit y 0" "bit x 1 = bit y 1" "bit x 2 = bit y 2" "bit x 3 = bit y 3"
    "bit x 4 = bit y 4" "bit x 5 = bit y 5" "bit x 6 = bit y 6" "bit x 7 = bit y 7"
  shows "(x :: octet) = y"
proof (rule bit_word_eqI)
  fix n assume "n < LENGTH(8)"
  then consider "n = 0" | "n = 1" | "n = 2" | "n = 3" | "n = 4" | "n = 5" | "n = 6" | "n = 7" by fastforce
  then show "bit x n = bit y n" using assms by cases simp_all
qed

lemma plus_or: "(x :: octet) AND y = 0 \<Longrightarrow> x + y = x OR y"
  by (rule disjunctive_add_eq_or)

lemma sextets_or: "sextets a b c =
     [drop_bit 2 (a AND 0xfc), push_bit 4 (a AND 0x03) OR drop_bit 4 (b AND 0xf0),
      push_bit 2 (b AND 0x0f) OR drop_bit 6 (c AND 0xc0), c AND 0x3f]"
proof -
  have "push_bit 4 (a AND 0x03) AND drop_bit 4 (b AND 0xf0) = 0"
    "push_bit 2 (b AND 0x0f) AND drop_bit 6 (c AND 0xc0) = 0"
    by (rule octet_eqI; simp add: bit_simps)+
  then show ?thesis by (simp add: sextets_def plus_or)
qed

lemma sextet: "(x :: octet) = x AND 0x3f \<Longrightarrow> x < 64"
  using word_and_le1 [of x "0x3f"] by (simp add: word_less_nat_alt word_le_nat_alt)

lemma sextets_less: "\<forall>x \<in> set (sextets a b c). x < 64"
proof -
  have "drop_bit 2 (a AND 0xfc) = drop_bit 2 (a AND 0xfc) AND 0x3f"
    "push_bit 4 (a AND 0x03) OR drop_bit 4 (b AND 0xf0) = (push_bit 4 (a AND 0x03) OR drop_bit 4 (b AND 0xf0)) AND 0x3f"
    "push_bit 2 (b AND 0x0f) OR drop_bit 6 (c AND 0xc0) = (push_bit 2 (b AND 0x0f) OR drop_bit 6 (c AND 0xc0)) AND 0x3f"
    "c AND 0x3f = (c AND 0x3f) AND 0x3f"
    by (rule octet_eqI; simp add: bit_simps)+
  from this [THEN sextet] show ?thesis by (simp add: sextets_or)
qed

lemma first_octet: "push_bit 2 (drop_bit 2 (a AND 0xfc)) +
     drop_bit 4 ((push_bit 4 (a AND 0x03) OR drop_bit 4 (b AND 0xf0)) AND 0x30) = (a :: octet)"
proof -
  have "push_bit 2 (drop_bit 2 (a AND 0xfc)) AND
     drop_bit 4 ((push_bit 4 (a AND 0x03) OR drop_bit 4 (b AND 0xf0)) AND 0x30) = 0"
    "push_bit 2 (drop_bit 2 (a AND 0xfc)) OR
     drop_bit 4 ((push_bit 4 (a AND 0x03) OR drop_bit 4 (b AND 0xf0)) AND 0x30) = a"
    by (rule octet_eqI; simp add: bit_simps)+
  then show ?thesis by (simp add: plus_or)
qed

lemma second_octet: "push_bit 4 ((push_bit 4 (a AND 0x03) OR drop_bit 4 (b AND 0xf0)) AND 0x0f) +
     drop_bit 2 ((push_bit 2 (b AND 0x0f) OR drop_bit 6 (c AND 0xc0)) AND 0x3c) = (b :: octet)"
proof -
  have "push_bit 4 ((push_bit 4 (a AND 0x03) OR drop_bit 4 (b AND 0xf0)) AND 0x0f) AND
     drop_bit 2 ((push_bit 2 (b AND 0x0f) OR drop_bit 6 (c AND 0xc0)) AND 0x3c) = 0"
    "push_bit 4 ((push_bit 4 (a AND 0x03) OR drop_bit 4 (b AND 0xf0)) AND 0x0f) OR
     drop_bit 2 ((push_bit 2 (b AND 0x0f) OR drop_bit 6 (c AND 0xc0)) AND 0x3c) = b"
    by (rule octet_eqI; simp add: bit_simps)+
  then show ?thesis by (simp add: plus_or)
qed

lemma third_octet: "push_bit 6 ((push_bit 2 (b AND 0x0f) OR drop_bit 6 (c AND 0xc0)) AND 0x03) + (c AND 0x3f) = (c :: octet)"
proof -
  have "push_bit 6 ((push_bit 2 (b AND 0x0f) OR drop_bit 6 (c AND 0xc0)) AND 0x03) AND (c AND 0x3f) = 0"
    "push_bit 6 ((push_bit 2 (b AND 0x0f) OR drop_bit 6 (c AND 0xc0)) AND 0x03) OR (c AND 0x3f) = c"
    by (rule octet_eqI; simp add: bit_simps)+
  then show ?thesis by (simp add: plus_or)
qed

lemma triple_sextets: "sextets a b c = [w, x, y, z] \<Longrightarrow> triple w x y z = [a, b, c]"
  unfolding sextets_or triple_def list.inject
  by (elim conjE, hypsubst) (simp only: first_octet second_octet third_octet simp_thms)

lemma sextets_four:
  obtains w x y z where "sextets a b c = [w, x, y, z]" "w < 64" "x < 64" "y < 64" "z < 64"
  using sextets_less [of a b c] unfolding sextets_or by simp

lemma triple_take:
  "take 2 (triple w x y z) = take 2 (triple w x y z')" "take 1 (triple w x y z) = take 1 (triple w x y' z')"
  by (simp_all add: triple_def)

lemma takeWhile_chars: "\<forall>x \<in> set xs. x < 64 \<Longrightarrow>
    takeWhile (\<lambda>c. c \<noteq> 61 \<and> is_base64 c) (map (base64_char False) xs @ s) =
      map (base64_char False) xs @ takeWhile (\<lambda>c. c \<noteq> 61 \<and> is_base64 c) s"
  by (induction xs) auto

theorem base64_round_trip: "base64_decode False (base64_encode False s) = s"
proof (induction "False" s rule: base64_encode.induct)
  case (1 a b c s)
  obtain w x y z where q: "sextets a b c = [w, x, y, z]" "w < 64" "x < 64" "y < 64" "z < 64" by (rule sextets_four)
  from 1 q show ?case by (simp add: base64_decode_def triple_sextets [OF q(1)])
next
  case (2 a b)
  obtain w x y z where q: "sextets a b 0 = [w, x, y, z]" "w < 64" "x < 64" "y < 64" "z < 64" by (rule sextets_four)
  from q show ?case
    by (simp add: base64_decode_def triple_take(1) [of _ _ _ _ z] triple_sextets [OF q(1)])
next
  case (3 a)
  obtain w x y z where q: "sextets a 0 0 = [w, x, y, z]" "w < 64" "x < 64" "y < 64" "z < 64" by (rule sextets_four)
  from q show ?case
    using triple_take(2) [of w x _ _ y z] triple_sextets [OF q(1)] by (simp add: base64_decode_def)
qed (simp add: base64_decode_def)

end
