(* ===== verification/Json_Parser.thy ===== *)
theory Json_Parser
  imports Base64 Configer
begin

text \<open>
  The JSON messages of the client library (\<open>src/public/client_common/json_parser.cpp\<close>): messages to
  submit, the fates of messages and incoming messages, as text and back.

  Boost's property trees and their JSON text are a parameter: \<open>write_json\<close> has the text of a document
  with one array of objects, given by the values that are put into each; \<open>read_json\<close> reads a text
  and gives what \<open>get\<close> finds in each object of the named array, or \<open>None\<close> for an exception.
\<close>

type_synonym fields = "(octets \<times> octets) list"

record json_lib =
  write_json :: "octets \<Rightarrow> fields list \<Rightarrow> octets"
  read_json :: "octets \<Rightarrow> octets \<Rightarrow> (octets \<rightharpoonup> octets) list option"

text \<open>
  What the documentation of the library says of a document with one array of flat objects, whose
  values are strings of seven bits and whose names are plain, different in each object, and not
  empty: it is read as it was written, and its text is not empty and has no NUL. A plain name has
  small letters and underscores only, as all names of the code: a point would separate the parts
  of a path, and an empty name is that of an array's element.
\<close>

definition plain_name :: "octets \<Rightarrow> bool" where
  "plain_name s \<longleftrightarrow> s \<noteq> [] \<and> list_all (\<lambda>c. c = 95 \<or> (97 \<le> c \<and> c \<le> 122)) s"

definition seven_bit :: "octets \<Rightarrow> bool" where
  "seven_bit s \<longleftrightarrow> list_all (\<lambda>c. c < 0x80) s"

definition flat_object :: "fields \<Rightarrow> bool" where
  "flat_object d \<longleftrightarrow> distinct (map fst d) \<and> list_all (\<lambda>(k, v). plain_name k \<and> seven_bit v) d"

definition json_faithful :: "json_lib \<Rightarrow> bool" where
  "json_faithful lib \<longleftrightarrow> (\<forall>root docs. plain_name root \<and> list_all flat_object docs \<longrightarrow>
     write_json lib root docs \<noteq> [] \<and> 0 \<notin> set (write_json lib root docs) \<and>
     read_json lib root (write_json lib root docs) = Some (map map_of docs))"

section \<open>Numbers\<close>

text \<open>
  \<open>get<unsigned int>\<close>, \<open>get<int>\<close> and \<open>get<boost::uint64_t>\<close> read the value with \<open>operator>>\<close> and
  want nothing but blanks after it.
\<close>

definition read_number :: "octets \<Rightarrow> (bool \<times> nat) option" where
  "read_number s =
     (let (negative, s) = skip_sign (dropWhile is_space s); digits = takeWhile is_digit s
      in if digits = [] \<or> \<not> list_all is_space (dropWhile is_digit s) then None
         else Some (negative, read_digits 0 digits))"

definition get_unsigned :: "octets \<Rightarrow> uint32 option" where
  "get_unsigned s = (case read_number s of
     Some (negative, n) \<Rightarrow> if n > 0xffffffff then None
       else Some (if negative then - of_nat n else of_nat n)
   | None \<Rightarrow> None)"

definition get_signed :: "octets \<Rightarrow> uint32 option" where
  "get_signed s = (case read_number s of
     Some (negative, n) \<Rightarrow> if n > (if negative then 0x80000000 else 0x7fffffff) then None
       else Some (if negative then - of_nat n else of_nat n)
   | None \<Rightarrow> None)"

definition get_uint64 :: "octets \<Rightarrow> uint64 option" where
  "get_uint64 s = (case read_number s of
     Some (negative, n) \<Rightarrow> if n > 0xffffffffffffffff then None
       else Some (if negative then - of_nat n else of_nat n)
   | None \<Rightarrow> None)"

definition put_octet :: "octet \<Rightarrow> octets" where
  "put_octet c = decimal (unat c)"

definition put_int :: "uint32 \<Rightarrow> octets" where
  "put_int v = int_text (sint v)"

definition format_int64_to_string :: "uint64 \<Rightarrow> octets" where
  "format_int64_to_string t = int_text (sint t)"

section \<open>Names\<close>

definition DST_ADDR :: octets where "DST_ADDR = ascii ''dst_addr''"
definition CONTENT :: octets where "CONTENT = ascii ''content''"
definition DATACODING :: octets where "DATACODING = ascii ''dc''"
definition UDHI_REFERENCE :: octets where "UDHI_REFERENCE = ascii ''udhi_ref''"
definition UDHI_TOTAL_PARTS :: octets where "UDHI_TOTAL_PARTS = ascii ''udhi_total''"
definition UDHI_PART_INDEX :: octets where "UDHI_PART_INDEX = ascii ''udhi_index''"
definition SMSS_ROOTNAME :: octets where "SMSS_ROOTNAME = ascii ''smss''"
definition USERNAME :: octets where "USERNAME = ascii ''username''"
definition GLOBAL_STATUS :: octets where "GLOBAL_STATUS = ascii ''global_status''"
definition SESSION_ID :: octets where "SESSION_ID = ascii ''session_id''"
definition MESSAGE_ID :: octets where "MESSAGE_ID = ascii ''message_id''"
definition ERRORSTATUS :: octets where "ERRORSTATUS = ascii ''error_status''"
definition ERRORCODE :: octets where "ERRORCODE = ascii ''error_code''"
definition SRC_ADDR :: octets where "SRC_ADDR = ascii ''src_addr''"
definition DELIVERTIME :: octets where "DELIVERTIME = ascii ''deliver_time''"
definition MOS :: octets where "MOS = ascii ''mos''"

lemmas json_names = DST_ADDR_def CONTENT_def DATACODING_def UDHI_REFERENCE_def UDHI_TOTAL_PARTS_def
  UDHI_PART_INDEX_def SMSS_ROOTNAME_def USERNAME_def GLOBAL_STATUS_def SESSION_ID_def MESSAGE_ID_def
  ERRORSTATUS_def ERRORCODE_def SRC_ADDR_def DELIVERTIME_def MOS_def

section \<open>Messages\<close>

record sm_info =
  si_dst :: octets
  si_msg :: octets
  si_src :: octets
  si_datacoding :: octet
  si_udhi_reference :: octet
  si_udhi_total_parts :: octet
  si_udhi_part_index :: octet

record sm_status =
  st_username :: octets
  st_session_id :: octets
  st_message_id :: octets
  st_status :: octets
  st_error_code :: uint32
  st_dst :: octets
  st_deliver_time :: uint64
  st_udhi_reference :: octet
  st_udhi_total_parts :: octet
  st_udhi_part_index :: octet

record sm_mo =
  mo_src_addr :: octets
  mo_dst_addr :: octets
  mo_dc :: octet
  mo_content :: octets
  mo_deliver_time :: uint64

text \<open>The length is cut to an \<open>unsigned int\<close>.\<close>

definition content_base64 :: "octets \<Rightarrow> octets" where
  "content_base64 s = base64_encode False (take (length s mod 2 ^ 32) s)"

text \<open>
  The loop over the array: what a message throws leaves the messages before it in the result.
\<close>

fun parse_children :: "('c \<Rightarrow> 'a option) \<Rightarrow> 'c list \<Rightarrow> 'a list \<Rightarrow> bool \<times> 'a list" where
  "parse_children f [] xs = (True, xs)"
| "parse_children f (c # cs) xs = (case f c of None \<Rightarrow> (False, xs) | Some x \<Rightarrow> parse_children f cs (xs @ [x]))"

definition parse_array :: "json_lib \<Rightarrow> octets \<Rightarrow> ((octets \<rightharpoonup> octets) \<Rightarrow> 'a option) \<Rightarrow> octets \<Rightarrow> 'a list \<Rightarrow> bool \<times> 'a list" where
  "parse_array lib root f s xs =
     (if length s = 0 then (True, xs)
      else case read_json lib root (takeWhile (\<lambda>c. c \<noteq> 0) s) of
          None \<Rightarrow> (False, xs)
        | Some children \<Rightarrow> parse_children f children xs)"

text \<open>\<open>get\<close> for each type; \<open>None\<close> for a value that is not there or not of the type.\<close>

definition get_octet_field :: "(octets \<rightharpoonup> octets) \<Rightarrow> octets \<Rightarrow> octet option" where
  "get_octet_field p k = Option.bind (p k) (\<lambda>v. map_option ucast (get_unsigned v))"

definition sms_fields :: "sm_info \<Rightarrow> fields" where
  "sms_fields sms = [(DST_ADDR, si_dst sms), (CONTENT, content_base64 (si_msg sms)),
     (SRC_ADDR, si_src sms), (DATACODING, put_octet (si_datacoding sms)),
     (UDHI_REFERENCE, put_octet (si_udhi_reference sms)),
     (UDHI_TOTAL_PARTS, put_octet (si_udhi_total_parts sms)),
     (UDHI_PART_INDEX, put_octet (si_udhi_part_index sms))]"

definition generate_smss :: "json_lib \<Rightarrow> sm_info list \<Rightarrow> octets" where
  "generate_smss lib smss = write_json lib SMSS_ROOTNAME (map sms_fields smss)"

definition parse_sms :: "(octets \<rightharpoonup> octets) \<Rightarrow> sm_info option" where
  "parse_sms p =
     Option.bind (p DST_ADDR) (\<lambda>dst. Option.bind (p CONTENT) (\<lambda>msg_base64.
     Option.bind (p SRC_ADDR) (\<lambda>src. Option.bind (get_octet_field p DATACODING) (\<lambda>dc.
     Option.bind (get_octet_field p UDHI_REFERENCE) (\<lambda>udhi_ref.
     Option.bind (get_octet_field p UDHI_TOTAL_PARTS) (\<lambda>udhi_total.
     Option.bind (get_octet_field p UDHI_PART_INDEX) (\<lambda>udhi_index.
     Some \<lparr> si_dst = dst, si_msg = base64_decode False msg_base64, si_src = src, si_datacoding = dc,
       si_udhi_reference = udhi_ref, si_udhi_total_parts = udhi_total,
       si_udhi_part_index = udhi_index \<rparr>)))))))"

definition parse_smss :: "json_lib \<Rightarrow> octets \<Rightarrow> sm_info list \<Rightarrow> bool \<times> sm_info list" where
  "parse_smss lib = parse_array lib SMSS_ROOTNAME parse_sms"

definition status_fields :: "sm_status \<Rightarrow> fields" where
  "status_fields ss = [(USERNAME, st_username ss), (SESSION_ID, st_session_id ss),
     (MESSAGE_ID, st_message_id ss), (ERRORSTATUS, st_status ss), (ERRORCODE, put_int (st_error_code ss)),
     (DST_ADDR, st_dst ss), (DELIVERTIME, format_int64_to_string (st_deliver_time ss)),
     (UDHI_REFERENCE, put_octet (st_udhi_reference ss)),
     (UDHI_TOTAL_PARTS, put_octet (st_udhi_total_parts ss)),
     (UDHI_PART_INDEX, put_octet (st_udhi_part_index ss))]"

definition generate_global_status :: "json_lib \<Rightarrow> sm_status list \<Rightarrow> octets" where
  "generate_global_status lib sss = write_json lib GLOBAL_STATUS (map status_fields sss)"

definition parse_status :: "(octets \<rightharpoonup> octets) \<Rightarrow> sm_status option" where
  "parse_status p =
     Option.bind (p USERNAME) (\<lambda>username. Option.bind (p SESSION_ID) (\<lambda>session.
     Option.bind (p MESSAGE_ID) (\<lambda>message. Option.bind (p ERRORSTATUS) (\<lambda>status.
     Option.bind (Option.bind (p ERRORCODE) get_signed) (\<lambda>code. Option.bind (p DST_ADDR) (\<lambda>dst.
     Option.bind (Option.bind (p DELIVERTIME) get_uint64) (\<lambda>time.
     Option.bind (get_octet_field p UDHI_REFERENCE) (\<lambda>udhi_ref.
     Option.bind (get_octet_field p UDHI_TOTAL_PARTS) (\<lambda>udhi_total.
     Option.bind (get_octet_field p UDHI_PART_INDEX) (\<lambda>udhi_index.
     Some \<lparr> st_username = username, st_session_id = session, st_message_id = message, st_status = status,
       st_error_code = code, st_dst = dst, st_deliver_time = time, st_udhi_reference = udhi_ref,
       st_udhi_total_parts = udhi_total, st_udhi_part_index = udhi_index \<rparr>))))))))))"

definition parse_global_status :: "json_lib \<Rightarrow> octets \<Rightarrow> sm_status list \<Rightarrow> bool \<times> sm_status list" where
  "parse_global_status lib = parse_array lib GLOBAL_STATUS parse_status"

definition mo_fields :: "sm_mo \<Rightarrow> fields" where
  "mo_fields mo = [(SRC_ADDR, mo_src_addr mo), (DST_ADDR, mo_dst_addr mo), (DATACODING, put_octet (mo_dc mo)),
     (CONTENT, content_base64 (mo_content mo)), (DELIVERTIME, format_int64_to_string (mo_deliver_time mo))]"

definition generate_mos :: "json_lib \<Rightarrow> sm_mo list \<Rightarrow> octets" where
  "generate_mos lib mos = write_json lib MOS (map mo_fields mos)"

definition parse_mo :: "(octets \<rightharpoonup> octets) \<Rightarrow> sm_mo option" where
  "parse_mo p =
     Option.bind (p SRC_ADDR) (\<lambda>src. Option.bind (p DST_ADDR) (\<lambda>dst.
     Option.bind (Option.bind (p DATACODING) get_signed) (\<lambda>dc. Option.bind (p CONTENT) (\<lambda>content_base64.
     Option.bind (Option.bind (p DELIVERTIME) get_uint64) (\<lambda>time.
     Some \<lparr> mo_src_addr = src, mo_dst_addr = dst, mo_dc = ucast dc,
       mo_content = base64_decode False content_base64, mo_deliver_time = time \<rparr>)))))"

definition parse_mos :: "json_lib \<Rightarrow> octets \<Rightarrow> sm_mo list \<Rightarrow> bool \<times> sm_mo list" where
  "parse_mos lib = parse_array lib MOS parse_mo"

section \<open>Numbers are read as they were written\<close>

lemma read_number_digits:
  assumes "list_all is_digit s" "s \<noteq> []"
  shows "read_number s = Some (False, read_digits 0 s)" "read_number (45 # s) = Some (True, read_digits 0 s)"
proof -
  have s: "takeWhile is_digit s = s" "dropWhile is_digit s = []"
    using assms(1) by (simp_all add: list_all_iff takeWhile_eq_all_conv)
  show "read_number s = Some (False, read_digits 0 s)"
    unfolding read_number_def digits_start [OF assms(1)] prod.case Let_def s using assms(2) by simp
  have "dropWhile is_space (45 # s) = 45 # s" "skip_sign (45 # s) = (True, s)" by (simp_all add: is_space_def)
  then show "read_number (45 # s) = Some (True, read_digits 0 s)"
    unfolding read_number_def by (simp only: prod.case Let_def s) (use assms(2) in simp)
qed

lemma read_number_decimal:
  "read_number (decimal n) = Some (False, n)" "read_number (45 # decimal n) = Some (True, n)"
  using read_number_digits [OF decimal_digits decimal_neq_Nil(1)] by (simp_all add: read_decimal)

lemma get_put_octet: "map_option ucast (get_unsigned (put_octet c)) = Some c"
proof -
  have "unat c < 256" using unsigned_less [of c, where ?'a = nat] by simp
  moreover have "ucast (ucast c :: uint32) = c"
    by (rule bit_word_eqI) (auto simp: bit_simps)
  ultimately show ?thesis
    by (simp add: get_unsigned_def put_octet_def read_number_decimal)
qed

lemma int_text_read: "read_number (int_text v) = Some (v < 0, nat \<bar>v\<bar>)"
  by (simp add: int_text_def read_number_decimal)

lemma of_nat_abs: "(if v < 0 then - of_nat (nat \<bar>v\<bar>) else of_nat (nat \<bar>v\<bar>)) = (of_int v :: 'a :: ring_1)"
  by (cases "v < 0") simp_all

lemma get_put_int: "get_signed (put_int v) = Some v"
proof -
  have "- 0x80000000 \<le> sint v" "sint v < 0x80000000"
    using sint_ge [of v] sint_lt [of v] by simp_all
  then have "\<not> nat \<bar>sint v\<bar> > (if sint v < 0 then 0x80000000 else 0x7fffffff)" by auto
  then show ?thesis
    using of_nat_abs [of "sint v", where ?'a = "32 word"] by (simp add: get_signed_def put_int_def int_text_read)
qed

lemma get_put_time: "get_uint64 (format_int64_to_string t) = Some t"
proof -
  have "- 0x8000000000000000 \<le> sint t" "sint t < 0x8000000000000000"
    using sint_ge [of t] sint_lt [of t] by simp_all
  then have "\<not> nat \<bar>sint t\<bar> > 0xffffffffffffffff" by auto
  then show ?thesis
    using of_nat_abs [of "sint t", where ?'a = "64 word"]
    by (simp add: get_uint64_def format_int64_to_string_def int_text_read)
qed

section \<open>Everything that is written is of seven bits\<close>

lemma seven_bit_simps [simp]:
  "seven_bit []" "seven_bit (c # s) \<longleftrightarrow> c < 0x80 \<and> seven_bit s" "seven_bit (s @ t) \<longleftrightarrow> seven_bit s \<and> seven_bit t"
  by (simp_all add: seven_bit_def)

lemma digits_seven_bit: "list_all is_digit s \<Longrightarrow> seven_bit s"
  by (induction s) (auto simp: is_digit_def word_le_nat_alt word_less_nat_alt)

lemma numbers_seven_bit [simp]: "seven_bit (put_octet c)" "seven_bit (put_int v)" "seven_bit (format_int64_to_string t)"
  by (simp_all add: put_octet_def put_int_def format_int64_to_string_def int_text_def digits_seven_bit decimal_digits)

lemma chars_seven_bit: "\<forall>x \<in> set xs. x < 64 \<Longrightarrow> seven_bit (map (base64_char False) xs)"
proof -
  have "\<forall>c \<in> set (base64_chars False). c < 0x80" by (simp add: base64_chars_eq word_less_nat_alt)
  then have "base64_char False x < 0x80" if "x < 64" for x
    using that nth_mem [of "unat x" "base64_chars False"]
    by (simp add: base64_char_def alphabet_length word_less_nat_alt)
  then show "\<forall>x \<in> set xs. x < 64 \<Longrightarrow> seven_bit (map (base64_char False) xs)"
    by (induction xs) simp_all
qed

lemma base64_seven_bit [simp]: "seven_bit (base64_encode False s)"
proof -
  have "seven_bit (map (base64_char False) (take n (sextets a b c)))" for n a b c
    using sextets_less [of a b c] by (intro chars_seven_bit) (auto dest: in_set_takeD)
  then have "seven_bit (map (base64_char False) (take n (sextets a b c)))"
    "seven_bit (map (base64_char False) (sextets a b c))" for n a b c
    using chars_seven_bit sextets_less by blast+
  then show ?thesis
    by (induction "False" s rule: base64_encode.induct) (simp_all only: base64_encode.simps seven_bit_simps, simp_all)
qed

lemma names_plain [simp]: "list_all plain_name [DST_ADDR, CONTENT, DATACODING, UDHI_REFERENCE, UDHI_TOTAL_PARTS,
    UDHI_PART_INDEX, SMSS_ROOTNAME, USERNAME, GLOBAL_STATUS, SESSION_ID, MESSAGE_ID, ERRORSTATUS, ERRORCODE,
    SRC_ADDR, DELIVERTIME, MOS]"
  by (simp add: plain_name_def json_names ascii_def)

section \<open>Reading what was written\<close>

lemma names_distinct [simp]:
  "distinct (map fst (sms_fields sms))" "distinct (map fst (status_fields ss))" "distinct (map fst (mo_fields mo))"
  by (simp_all add: sms_fields_def status_fields_def mo_fields_def json_names ascii_def)

lemma parse_children_all:
  "\<forall>x \<in> set xs. f (g x) = Some x \<Longrightarrow> parse_children f (map g xs) acc = (True, acc @ xs)"
  by (induction xs arbitrary: acc) simp_all

text \<open>One argument for the three kinds of document.\<close>

lemma array_round_trip:
  assumes "json_faithful lib" "plain_name root"
    and "\<And>x. x \<in> set xs \<Longrightarrow> flat_object (g x)"
    and "\<And>x. x \<in> set xs \<Longrightarrow> f (map_of (g x)) = Some x"
  shows "parse_array lib root f (write_json lib root (map g xs)) [] = (True, xs)"
proof -
  have "list_all flat_object (map g xs)" using assms(3) by (simp add: list_all_iff)
  then have w: "write_json lib root (map g xs) \<noteq> []" "0 \<notin> set (write_json lib root (map g xs))"
    "read_json lib root (write_json lib root (map g xs)) = Some (map (\<lambda>x. map_of (g x)) xs)"
    using assms(1,2) unfolding json_faithful_def by (auto simp: comp_def)
  have "takeWhile (\<lambda>c. c \<noteq> 0) (write_json lib root (map g xs)) = write_json lib root (map g xs)"
    using w(2) by (auto simp: takeWhile_eq_all_conv)
  moreover have "parse_children f (map (\<lambda>x. map_of (g x)) xs) [] = (True, xs)"
    using parse_children_all [of xs f "\<lambda>x. map_of (g x)" "[]"] assms(4) by simp
  ultimately show ?thesis
    using w(1) unfolding parse_array_def by (simp only: w(3) option.case length_0_conv if_False)
qed

lemma content_back: "length s < 2 ^ 32 \<Longrightarrow> base64_decode False (content_base64 s) = s"
  by (simp add: content_base64_def base64_round_trip)

lemma content_seven_bit [simp]: "seven_bit (content_base64 s)"
  by (simp add: content_base64_def)

lemma get_octet_field_put [simp]: "p k = Some (put_octet c) \<Longrightarrow> get_octet_field p k = Some c"
  by (simp add: get_octet_field_def get_put_octet)

definition good_sms :: "sm_info \<Rightarrow> bool" where
  "good_sms sms \<longleftrightarrow> seven_bit (si_dst sms) \<and> seven_bit (si_src sms) \<and> length (si_msg sms) < 2 ^ 32"

definition good_status :: "sm_status \<Rightarrow> bool" where
  "good_status ss \<longleftrightarrow> list_all seven_bit [st_username ss, st_session_id ss, st_message_id ss, st_status ss, st_dst ss]"

definition good_mo :: "sm_mo \<Rightarrow> bool" where
  "good_mo mo \<longleftrightarrow> seven_bit (mo_src_addr mo) \<and> seven_bit (mo_dst_addr mo) \<and> length (mo_content mo) < 2 ^ 32"

lemma map_of_sms:
  "map_of (sms_fields sms) DST_ADDR = Some (si_dst sms)"
  "map_of (sms_fields sms) CONTENT = Some (content_base64 (si_msg sms))"
  "map_of (sms_fields sms) SRC_ADDR = Some (si_src sms)"
  "map_of (sms_fields sms) DATACODING = Some (put_octet (si_datacoding sms))"
  "map_of (sms_fields sms) UDHI_REFERENCE = Some (put_octet (si_udhi_reference sms))"
  "map_of (sms_fields sms) UDHI_TOTAL_PARTS = Some (put_octet (si_udhi_total_parts sms))"
  "map_of (sms_fields sms) UDHI_PART_INDEX = Some (put_octet (si_udhi_part_index sms))"
  by (rule map_of_is_SomeI [OF names_distinct(1)], simp add: sms_fields_def)+

lemma sms_back: "length (si_msg sms) < 2 ^ 32 \<Longrightarrow> parse_sms (map_of (sms_fields sms)) = Some sms"
  by (simp add: parse_sms_def map_of_sms content_back)

lemma map_of_status:
  "map_of (status_fields ss) USERNAME = Some (st_username ss)"
  "map_of (status_fields ss) SESSION_ID = Some (st_session_id ss)"
  "map_of (status_fields ss) MESSAGE_ID = Some (st_message_id ss)"
  "map_of (status_fields ss) ERRORSTATUS = Some (st_status ss)"
  "map_of (status_fields ss) ERRORCODE = Some (put_int (st_error_code ss))"
  "map_of (status_fields ss) DST_ADDR = Some (st_dst ss)"
  "map_of (status_fields ss) DELIVERTIME = Some (format_int64_to_string (st_deliver_time ss))"
  "map_of (status_fields ss) UDHI_REFERENCE = Some (put_octet (st_udhi_reference ss))"
  "map_of (status_fields ss) UDHI_TOTAL_PARTS = Some (put_octet (st_udhi_total_parts ss))"
  "map_of (status_fields ss) UDHI_PART_INDEX = Some (put_octet (st_udhi_part_index ss))"
  by (rule map_of_is_SomeI [OF names_distinct(2)], simp add: status_fields_def)+

lemma status_back: "parse_status (map_of (status_fields ss)) = Some ss"
  by (simp add: parse_status_def map_of_status get_put_int get_put_time)

lemma map_of_mo:
  "map_of (mo_fields mo) SRC_ADDR = Some (mo_src_addr mo)"
  "map_of (mo_fields mo) DST_ADDR = Some (mo_dst_addr mo)"
  "map_of (mo_fields mo) DATACODING = Some (put_octet (mo_dc mo))"
  "map_of (mo_fields mo) CONTENT = Some (content_base64 (mo_content mo))"
  "map_of (mo_fields mo) DELIVERTIME = Some (format_int64_to_string (mo_deliver_time mo))"
  by (rule map_of_is_SomeI [OF names_distinct(3)], simp add: mo_fields_def)+

lemma get_signed_octet: "map_option ucast (get_signed (put_octet c)) = Some c"
proof -
  have "unat c < 256" using unsigned_less [of c, where ?'a = nat] by simp
  moreover have "ucast (ucast c :: uint32) = c"
    by (rule bit_word_eqI) (auto simp: bit_simps)
  ultimately show ?thesis
    by (simp add: get_signed_def put_octet_def read_number_decimal)
qed

lemma mo_back: "length (mo_content mo) < 2 ^ 32 \<Longrightarrow> parse_mo (map_of (mo_fields mo)) = Some mo"
  using get_signed_octet [of "mo_dc mo"]
  by (auto simp: parse_mo_def map_of_mo content_back get_put_time)

lemma fields_flat:
  "good_sms sms \<Longrightarrow> flat_object (sms_fields sms)"
  "good_status ss \<Longrightarrow> flat_object (status_fields ss)"
  "good_mo mo \<Longrightarrow> flat_object (mo_fields mo)"
  using names_plain unfolding flat_object_def
  by (simp_all add: good_sms_def good_status_def good_mo_def)
    (simp_all add: sms_fields_def status_fields_def mo_fields_def)

theorem smss_back:
  "json_faithful lib \<Longrightarrow> list_all good_sms smss \<Longrightarrow> parse_smss lib (generate_smss lib smss) [] = (True, smss)"
  unfolding parse_smss_def generate_smss_def
  using names_plain
  by (intro array_round_trip fields_flat sms_back) (auto simp: list_all_iff good_sms_def)

theorem statuses_back:
  "json_faithful lib \<Longrightarrow> list_all good_status sss \<Longrightarrow>
   parse_global_status lib (generate_global_status lib sss) [] = (True, sss)"
  unfolding parse_global_status_def generate_global_status_def
  using names_plain
  by (intro array_round_trip fields_flat status_back) (auto simp: list_all_iff)

theorem mos_back:
  "json_faithful lib \<Longrightarrow> list_all good_mo mos \<Longrightarrow> parse_mos lib (generate_mos lib mos) [] = (True, mos)"
  unfolding parse_mos_def generate_mos_def
  using names_plain
  by (intro array_round_trip fields_flat mo_back) (auto simp: list_all_iff good_mo_def)

text \<open>A message that cannot be read ends the reading, and those before it are in the result.\<close>

lemma parse_children_bad:
  assumes "\<forall>x \<in> set xs. f (g x) = Some x" "f bad = None"
  shows "parse_children f (map g xs @ bad # cs) acc = (False, acc @ xs)"
  using assms by (induction xs arbitrary: acc) simp_all

end
