(* ===== verification/Encoding_Tools.thy ===== *)
theory Encoding_Tools
  imports Data_Coding
begin

text \<open>
  What makes the copies of a text that go to many numbers differ
  (\<open>src/public/protocol_public/data_encoding_tools.cpp\<close>, as it is compiled outside Windows): a heading
  with the end of the number, or one character more.
\<close>

unbundle bit_operations_syntax

section \<open>Cutting UTF-8 into characters\<close>

definition char_length :: "octets \<Rightarrow> nat" where
  "char_length s =
     (let cplen = (if hd s AND 0xf8 = 0xf0 then 4 else if hd s AND 0xf0 = 0xe0 then 3
                   else if hd s AND 0xe0 = 0xc0 then 2 else 1)
      in if cplen > length s then 1 else cplen)"

function windows_split_utf8_string :: "octets \<Rightarrow> octets list" where
  "windows_split_utf8_string s =
     (if s = [] then []
      else take (char_length s) s # windows_split_utf8_string (drop (char_length s) s))"
  by auto
termination
  by (relation "measure length") (auto simp: char_length_def Let_def)

declare windows_split_utf8_string.simps [simp del]

section \<open>The two ways to change a text\<close>

text \<open>The headings are the octets of the source file, which is in GBK.\<close>

definition header_1 :: octets where "header_1 = [0xCE, 0xB2, 0xBA, 0xC5]"
definition header_2 :: octets where "header_2 = [0xBF, 0xCD, 0xBB, 0xA7, 0x3A]"

definition append_header_to_string :: "octets \<Rightarrow> octets \<Rightarrow> octets" where
  "append_header_to_string s number =
     (let h3 = (if length number \<le> 4 then number else drop (length number - 4) number)
      in header_1 @ h3 @ header_2 @ s)"

definition inserted_chars :: octets where
  "inserted_chars = ascii '',.;#$^* ~()[]&:<>/0123456789abcdefghijklmnopqrstuvwxyzABCDEFGHIJKLMNOPQRSTUVWXYZ''"

text \<open>The loop that copies the characters and inserts \<open>c\<close> once.\<close>

fun insert_from :: "octet \<Rightarrow> nat \<Rightarrow> nat \<Rightarrow> bool \<Rightarrow> octets list \<Rightarrow> octets" where
  "insert_from c pos i already_insert [] = []"
| "insert_from c pos i already_insert (p # ps) =
     (if i \<ge> pos \<and> length p > 1 \<and> \<not> already_insert
      then p @ c # insert_from c pos (i + 1) True ps
      else p @ insert_from c pos (i + 1) already_insert ps)"

text \<open>The division by a length of 0 is undefined.\<close>

definition insert_char_to_string :: "octets \<Rightarrow> nat \<Rightarrow> octets result" where
  "insert_char_to_string s index =
     (let content_vec = windows_split_utf8_string s;
          len = length (filter (\<lambda>p. length p > 1) content_vec)
      in if len = 0 then Inl OutOfBounds
         else Inr (insert_from (inserted_chars ! (index div len mod 80)) (index mod len) 0 False content_vec))"

section \<open>Nothing is lost\<close>

lemma concat_split [simp]: "concat (windows_split_utf8_string s) = s"
  by (induction s rule: windows_split_utf8_string.induct) (subst windows_split_utf8_string.simps, simp)

lemma length_inserted_chars: "length inserted_chars = 80"
  by (simp add: inserted_chars_def ascii_def)

lemma insert_from_done [simp]: "insert_from c pos i True ps = concat ps"
  by (induction ps arbitrary: i) simp_all

lemma insert_from_first:
  assumes "\<exists>j < length ps. i + j \<ge> pos \<and> length (ps ! j) > 1"
  shows "\<exists>pre p post. ps = pre @ p # post \<and> length p > 1 \<and>
    insert_from c pos i False ps = concat pre @ p @ c # concat post"
  using assms
proof (induction ps arbitrary: i)
  case (Cons q ps)
  show ?case
  proof (cases "i \<ge> pos \<and> length q > 1")
    case True
    then have "insert_from c pos i False (q # ps) = concat [] @ q @ c # concat ps" by simp
    then show ?thesis using True by blast
  next
    case False
    obtain j where j: "j < length (q # ps)" "i + j \<ge> pos" "length ((q # ps) ! j) > 1" using Cons.prems by blast
    then obtain k where "j = Suc k" using False by (cases j) auto
    then have "\<exists>j < length ps. (i + 1) + j \<ge> pos \<and> length (ps ! j) > 1" using j by auto
    from Cons.IH [OF this] obtain pre p post where "ps = pre @ p # post" "length p > 1"
      "insert_from c pos (i + 1) False ps = concat pre @ p @ c # concat post" by blast
    then show ?thesis using False by (intro exI [of _ "q # pre"]) auto
  qed
qed simp

text \<open>As many characters of several octets as \<open>len\<close> leave one at or behind every place below \<open>len\<close>.\<close>

lemma long_char_behind:
  assumes "pos < length (filter P ps)"
  shows "\<exists>j < length ps. pos \<le> j \<and> P (ps ! j)"
proof (rule ccontr)
  assume "\<not> ?thesis"
  then have "filter P (drop pos ps) = []" by (auto simp: filter_empty_conv in_set_conv_nth)
  then have "length (filter P ps) = length (filter P (take pos ps))"
    by (metis append_Nil2 append_take_drop_id filter_append)
  also have "\<dots> \<le> pos" using length_filter_le [of P "take pos ps"] by simp
  finally show False using assms by simp
qed

theorem insert_char_inserts:
  assumes "insert_char_to_string s index = Inr r"
  shows "\<exists>pre post. s = pre @ post \<and> pre \<noteq> [] \<and>
    r = pre @ inserted_chars ! (index div length (filter (\<lambda>p. length p > 1) (windows_split_utf8_string s)) mod 80) # post"
proof -
  let ?v = "windows_split_utf8_string s" and ?P = "\<lambda>p :: octets. length p > 1"
  let ?c = "inserted_chars ! (index div length (filter ?P ?v) mod 80)" and ?pos = "index mod length (filter ?P ?v)"
  have r: "r = insert_from ?c ?pos 0 False ?v" and ne: "length (filter ?P ?v) > 0"
    using assms by (auto simp: insert_char_to_string_def Let_def split: if_splits)
  have "\<exists>j < length ?v. 0 + j \<ge> ?pos \<and> length (?v ! j) > 1"
    using long_char_behind [of ?pos ?P ?v] ne by auto
  from insert_from_first [OF this, of ?c] obtain pre p post where v: "?v = pre @ p # post" "length p > 1"
    and i: "insert_from ?c ?pos 0 False ?v = concat pre @ p @ ?c # concat post" by blast
  have "s = (concat pre @ p) @ concat post" using concat_split [of s] unfolding v(1) by simp
  moreover have "r = (concat pre @ p) @ ?c # concat post" using r i by simp
  moreover have "concat pre @ p \<noteq> []" using v(2) by auto
  ultimately show ?thesis by blast
qed

text \<open>Without a character of several octets the length that it divides by is 0.\<close>

lemma split_ascii: "list_all (\<lambda>c. c < 0x80) s \<Longrightarrow> windows_split_utf8_string s = map (\<lambda>c. [c]) s"
proof (induction s)
  case (Cons c s)
  then have "\<not> bit c 7" by (simp add: ge_128)
  then have "c AND 0xf8 \<noteq> 0xf0" "c AND 0xf0 \<noteq> 0xe0" "c AND 0xe0 \<noteq> 0xc0"
    by (auto dest!: arg_cong [where f = "\<lambda>x. bit x 7"] simp: bit_simps)
  then have "char_length (c # s) = 1" by (simp add: char_length_def)
  then show ?case using Cons by (subst windows_split_utf8_string.simps) simp
qed (subst windows_split_utf8_string.simps, simp)

lemma insert_char_ascii: "list_all (\<lambda>c. c < 0x80) s \<Longrightarrow> insert_char_to_string s index = Inl OutOfBounds"
  by (simp add: insert_char_to_string_def split_ascii Let_def comp_def)

end
