(* ===== verification/Client_Api.thy ===== *)
theory Client_Api
  imports Clients_Manager Json_Parser Encoding_Tools Md5
begin

text \<open>
  The interface of the client library (\<open>src/public/client_common/cb_client_api.cpp\<close>): formatting
  messages, submitting them, and collecting fates and incoming messages. \<open>e\<close> has the clock and the
  random generator, \<open>lib\<close> the JSON library.
\<close>

section \<open>Records of the interface\<close>

text \<open>The item \<open>company_account\<close> is never set in the client.\<close>

definition smi_to_sm_status :: "cb_sm_information \<Rightarrow> sm_status" where
  "smi_to_sm_status smi = \<lparr> st_username = [], st_session_id = session_id smi,
     st_message_id = message_id_of_protocol_server smi, st_status = cb_sm_information.error_status smi,
     st_error_code = cb_sm_information.error_code smi, st_dst = dst_addr smi,
     st_deliver_time = delivery_time_of_client smi, st_udhi_reference = udhi_reference smi,
     st_udhi_total_parts = udhi_total_parts smi, st_udhi_part_index = udhi_part_index smi \<rparr>"

definition smi_to_sm_mo :: "cb_sm_information \<Rightarrow> sm_mo" where
  "smi_to_sm_mo smi = \<lparr> mo_src_addr = src_addr smi, mo_dst_addr = dst_addr smi, mo_dc = datacoding_type smi,
     mo_content = content smi, mo_deliver_time = delivery_time_of_client smi \<rparr>"

section \<open>Formatting\<close>

text \<open>\<open>find_first_not_of\<close> finds nothing.\<close>

definition only_of :: "octets \<Rightarrow> octets \<Rightarrow> bool" where
  "only_of chars s \<longleftrightarrow> list_all (\<lambda>c. c \<in> set chars) s"

definition part_info :: "octets \<Rightarrow> octets \<Rightarrow> splitted_sm \<Rightarrow> sm_info" where
  "part_info dst src ssm = \<lparr> si_dst = dst, si_msg = sm_content ssm, si_src = src, si_datacoding = sm_dc ssm,
     si_udhi_reference = sm_udhi_ref ssm, si_udhi_total_parts = sm_udhi_total ssm,
     si_udhi_part_index = sm_udhi_index ssm \<rparr>"

text \<open>
  The parts that are sent to the number at place \<open>i\<close>; \<open>rnds\<close> has what \<open>rand()\<close> returns for each
  splitting. \<open>None\<close> when the splitting does not end.
\<close>

definition parts_for :: "int \<Rightarrow> octets \<Rightarrow> (nat \<Rightarrow> nat) \<Rightarrow> nat \<Rightarrow> octets \<Rightarrow> splitted_sm list \<Rightarrow>
    splitted_sm list result option" where
  "parts_for mode words rnds i dst ssms =
     (if mode = 1 then smpp_datacoding_split_long_sm (rnds i) (append_header_to_string words dst)
      else if mode = 2 then
        (case insert_char_to_string words i of
           Inl er \<Rightarrow> Some (Inl er)
         | Inr new_content \<Rightarrow> smpp_datacoding_split_long_sm (rnds i) new_content)
      else Some (Inr ssms))"

text \<open>The loop over the numbers: the infos not yet in a batch, the number of messages, the batches.\<close>

fun format_loop :: "json_lib \<Rightarrow> int \<Rightarrow> octets \<Rightarrow> octets \<Rightarrow> int \<Rightarrow> (nat \<Rightarrow> nat) \<Rightarrow> nat \<Rightarrow> octets list \<Rightarrow>
    splitted_sm list \<Rightarrow> sm_info list \<Rightarrow> int \<Rightarrow> octets list \<Rightarrow> (int \<times> octets list) result option" where
  "format_loop lib mode words src count_of_batch rnds i [] ssms sis total_nb jsons =
     Some (Inr (if length sis > 0 then (total_nb + int (length sis), jsons @ [generate_smss lib sis])
                else (total_nb, jsons)))"
| "format_loop lib mode words src count_of_batch rnds i (dst # dsts) ssms sis total_nb jsons =
     (if length dst = 0 then format_loop lib mode words src count_of_batch rnds (i + 1) dsts ssms sis total_nb jsons
      else case parts_for mode words rnds i dst ssms of
          None \<Rightarrow> None
        | Some (Inl er) \<Rightarrow> Some (Inl er)
        | Some (Inr ssms) \<Rightarrow>
            (let sis = sis @ map (part_info dst src) ssms in
             if int (length sis) \<ge> count_of_batch
             then format_loop lib mode words src count_of_batch rnds (i + 1) dsts ssms []
                    (total_nb + int (length sis)) (jsons @ [generate_smss lib sis])
             else format_loop lib mode words src count_of_batch rnds (i + 1) dsts ssms sis total_nb jsons))"

text \<open>\<open>rnd\<close> is for the splitting before the loop.\<close>

definition cb_client_format_sms :: "json_lib \<Rightarrow> int \<Rightarrow> nat \<Rightarrow> (nat \<Rightarrow> nat) \<Rightarrow> octets \<Rightarrow> octets \<Rightarrow> octets \<Rightarrow> int \<Rightarrow>
    (int \<times> octets list) result option" where
  "cb_client_format_sms lib mode rnd rnds dsts_string words src count_of_batch =
     (if \<not> only_of (ascii ''+0123456789;'') dsts_string \<or> length dsts_string = 0 then Some (Inr (0, []))
      else
        (let dsts = split_by_separator dsts_string 59 in
         case (if mode = 0 then smpp_datacoding_split_long_sm rnd words else Some (Inr [])) of
           None \<Rightarrow> None
         | Some (Inl er) \<Rightarrow> Some (Inl er)
         | Some (Inr ssms) \<Rightarrow> format_loop lib mode words src count_of_batch rnds 0 dsts ssms [] 0 []))"

section \<open>Submitting\<close>

definition smi_of :: "env \<Rightarrow> octets \<Rightarrow> sm_info \<Rightarrow> octets \<Rightarrow> uint32 \<Rightarrow> cb_sm_information" where
  "smi_of e session si dst sn = new_cb_sm_information
     \<lparr> dst_addr := dst, content := si_msg si, src_addr := si_src si, submit_time_of_client := now64 e,
       datacoding_type := si_datacoding si, udhi_reference := si_udhi_reference si,
       udhi_total_parts := si_udhi_total_parts si, udhi_part_index := si_udhi_part_index si,
       session_id := session, sn_by_client := sn, delivery_time_of_client := 0,
       delivering_time_of_client := 0, cb_sm_information.error_code := 0,
       content_hash := generate_hash_md5 (si_msg si) \<rparr>"

fun smis_of_dsts :: "env \<Rightarrow> octets \<Rightarrow> sm_info \<Rightarrow> octets list \<Rightarrow> sn_generator \<Rightarrow>
    cb_sm_information list \<times> sn_generator" where
  "smis_of_dsts e session si [] g = ([], g)"
| "smis_of_dsts e session si (dst # dsts) g =
     (if length dst = 0 then smis_of_dsts e session si dsts g
      else if \<not> only_of (ascii ''+0123456789'') dst then smis_of_dsts e session si dsts g
      else (let (sn, g) = generate_sn (dice e) g; (smis, g) = smis_of_dsts e session si dsts g
            in (smi_of e session si dst sn # smis, g)))"

fun smis_of_sis :: "env \<Rightarrow> octets \<Rightarrow> sm_info list \<Rightarrow> sn_generator \<Rightarrow> cb_sm_information list \<times> sn_generator" where
  "smis_of_sis e session [] g = ([], g)"
| "smis_of_sis e session (si # sis) g =
     (let (smis, g) = smis_of_dsts e session si (split_by_separator (si_dst si) 59) g;
          (smis', g) = smis_of_sis e session sis g
      in (smis @ smis', g))"

text \<open>What \<open>parse_smss\<close> returns is not looked at.\<close>

definition cb_client_private_transform_json_to_smis :: "env \<Rightarrow> json_lib \<Rightarrow> octets \<Rightarrow> sn_generator \<Rightarrow>
    octets \<times> cb_sm_information list \<times> sn_generator" where
  "cb_client_private_transform_json_to_smis e lib json g =
     (let (session, g) = generate_message_id (dice e) g;
          (_, sis) = parse_smss lib json [];
          (smis, g) = smis_of_sis e session sis g
      in (session, smis, g))"

definition cb_client_submit_sms :: "env \<Rightarrow> json_lib \<Rightarrow> octets \<Rightarrow> clients_manager \<Rightarrow>
    (octets \<times> clients_manager) option" where
  "cb_client_submit_sms e lib json m =
     (let (session, smis, g) = cb_client_private_transform_json_to_smis e lib json (numbers (process_host m));
          m = m\<lparr> process_host := (process_host m)\<lparr> numbers := g \<rparr> \<rparr>
      in if length smis > 0
         then (case manager_submit_smis smis [] m of
             None \<Rightarrow> None
           | Some (submitted, m) \<Rightarrow> Some (if submitted then session else [], m))
         else Some ([], m))"

section \<open>Collecting\<close>

definition cb_client_get_dlrs :: "int \<Rightarrow> clients_manager \<Rightarrow> sm_status list \<times> clients_manager" where
  "cb_client_get_dlrs to_get m = (let (smis, m) = manager_get_global_status to_get m
     in (map smi_to_sm_status smis, m))"

definition cb_client_get_dlrs_json :: "json_lib \<Rightarrow> int \<Rightarrow> clients_manager \<Rightarrow> octets \<times> clients_manager" where
  "cb_client_get_dlrs_json lib to_get m = (let (dlrs, m) = cb_client_get_dlrs to_get m
     in (if length dlrs > 0 then generate_global_status lib dlrs else [], m))"

definition cb_client_get_mos :: "clients_manager \<Rightarrow> sm_mo list \<times> clients_manager" where
  "cb_client_get_mos m = (let (smis, m) = manager_get_mos m in (map smi_to_sm_mo smis, m))"

definition cb_client_get_mos_json :: "json_lib \<Rightarrow> clients_manager \<Rightarrow> octets \<times> clients_manager" where
  "cb_client_get_mos_json lib m = (let (mos, m) = cb_client_get_mos m
     in (if length mos > 0 then generate_mos lib mos else [], m))"

definition cb_client_is_bound :: "clients_manager \<Rightarrow> bool" where
  "cb_client_is_bound = manager_is_protocol_connected []"

definition cb_client_status :: "octets \<Rightarrow> bool" where
  "cb_client_status wanted = True"

section \<open>Starting\<close>

text \<open>A file that does not exist is \<open>None\<close>. The object that read it is destroyed afterwards.\<close>

definition with_configer :: "octets option \<Rightarrow> (configer \<Rightarrow> 'a) \<Rightarrow> 'a \<Rightarrow> 'a result" where
  "with_configer configer_file f d = (case configer_file of
     None \<Rightarrow> Inr d
   | Some file \<Rightarrow> bind (new_configer 0 (Some file)) (\<lambda>conf. bind (destroy (sections conf)) (\<lambda>_. Inr (f conf))))"

definition read_log_config :: "octets option \<Rightarrow> (bool \<times> int) result" where
  "read_log_config configer_file = with_configer configer_file
     (\<lambda>conf. (get_int (ascii ''log'') (ascii ''console'') 1 conf = 1, get_int (ascii ''log'') (ascii ''level'') 3 conf))
     (True, 3)"

definition read_disorder_content_mode :: "octets option \<Rightarrow> int result" where
  "read_disorder_content_mode configer_file = with_configer configer_file
     (get_int (ascii ''disorder_content'') (ascii ''mode'') 0) 0"

text \<open>The mode and the clients; \<open>junk\<close> is the value of what is not initialised.\<close>

definition cb_client_start :: "uint32 \<Rightarrow> octets option \<Rightarrow> clients_manager \<Rightarrow> (int \<times> clients_manager) result" where
  "cb_client_start junk configer_file m =
     bind (read_log_config configer_file) (\<lambda>_.
     bind (read_disorder_content_mode configer_file) (\<lambda>mode.
     bind (add_clients_from_file junk configer_file m) (\<lambda>m. Inr (mode, m))))"

end
