(* ===== verification/Client_Api_Facts.thy ===== *)
theory Client_Api_Facts
  imports Client_Api Client_Receipts
begin

text \<open>
  What a call of the client library does to the clients and the messages: the batches that the
  formatting makes, the messages that a JSON text stands for, the client that takes them.
\<close>

section \<open>Batches\<close>

text \<open>
  The infos of the numbers from place \<open>i\<close> on, \<open>parts j\<close> for the number at place \<open>j\<close>; an empty number has
  none.
\<close>

definition infos_of :: "octets \<Rightarrow> (nat \<Rightarrow> splitted_sm list) \<Rightarrow> nat \<Rightarrow> octets list \<Rightarrow> sm_info list" where
  "infos_of src parts i dsts =
     concat (map (\<lambda>(j, d). map (part_info d src) (parts j)) (filter (\<lambda>(j, d). d \<noteq> []) (enumerate i dsts)))"

lemma infos_of_simps [simp]:
  "infos_of src parts i [] = []"
  "infos_of src parts i (d # dsts) =
     (if d = [] then [] else map (part_info d src) (parts i)) @ infos_of src parts (Suc i) dsts"
  by (simp_all add: infos_of_def)

lemma infos_of_set:
  "si \<in> set (infos_of src parts i dsts) \<Longrightarrow>
   \<exists>j d p. j < length dsts \<and> d = dsts ! j \<and> d \<noteq> [] \<and> p \<in> set (parts (i + j)) \<and> si = part_info d src p"
proof (induction dsts arbitrary: i)
  case (Cons d dsts)
  show ?case
  proof (cases "si \<in> set (infos_of src parts (Suc i) dsts)")
    case True
    from Cons.IH [OF this] obtain j e p where "j < length dsts" "e = dsts ! j" "e \<noteq> []" "p \<in> set (parts (Suc i + j))"
      "si = part_info e src p" by blast
    then show ?thesis by (intro exI [of _ "Suc j"] exI [of _ e] exI [of _ p]) simp
  next
    case False
    with Cons.prems obtain p where "d \<noteq> []" "p \<in> set (parts i)" "si = part_info d src p"
      by (auto split: if_split_asm)
    then show ?thesis by (intro exI [of _ 0] exI [of _ d] exI [of _ p]) simp
  qed
qed simp

text \<open>The parts that the loop carries on only matter in the mode where they stay.\<close>

lemma parts_for_carried: "parts_for mode words rnds i d ssms = Some (Inr ps) \<Longrightarrow>
    parts_for mode words rnds j d' ps = parts_for mode words rnds j d' ssms"
  by (auto simp: parts_for_def split: if_split_asm)

lemma format_loop_batches:
  assumes "\<And>j. j < length dsts \<Longrightarrow> dsts ! j \<noteq> [] \<Longrightarrow>
    parts_for mode words rnds (i + j) (dsts ! j) ssms = Some (Inr (parts (i + j)))"
  shows "\<exists>bs. format_loop lib mode words src k rnds i dsts ssms sis n jsons =
      Some (Inr (n + int (length (concat bs)), jsons @ map (generate_smss lib) bs)) \<and>
    concat bs = sis @ infos_of src parts i dsts"
  using assms
proof (induction dsts arbitrary: i sis n jsons ssms)
  case Nil
  show ?case
  proof (cases "sis = []")
    case True
    then show ?thesis by (intro exI [of _ "[]"]) simp
  next
    case False
    then show ?thesis by (intro exI [of _ "[sis]"]) simp
  qed
next
  case (Cons d dsts)
  let ?sis = "sis @ map (part_info d src) (parts i)"
  have later: "parts_for mode words rnds (Suc i + j) (dsts ! j) ssms = Some (Inr (parts (Suc i + j)))"
    if "j < length dsts" "dsts ! j \<noteq> []" for j
    using Cons.prems [of "Suc j"] that by simp
  consider "d = []" | "d \<noteq> []" "int (length ?sis) \<ge> k" | "d \<noteq> []" "\<not> int (length ?sis) \<ge> k" by blast
  then show ?case
  proof cases
    case 1
    then show ?thesis using Cons.IH [of "Suc i" ssms sis n jsons, OF later] by simp
  next
    case 2
    have now: "parts_for mode words rnds i d ssms = Some (Inr (parts i))" using Cons.prems [of 0] 2 by simp
    have later': "parts_for mode words rnds (Suc i + j) (dsts ! j) (parts i) = Some (Inr (parts (Suc i + j)))"
      if "j < length dsts" "dsts ! j \<noteq> []" for j
      using later [OF that] parts_for_carried [OF now] by simp
    obtain bs where bs: "format_loop lib mode words src k rnds (Suc i) dsts (parts i) [] (n + int (length ?sis))
        (jsons @ [generate_smss lib ?sis]) = Some (Inr (n + int (length ?sis) + int (length (concat bs)),
          (jsons @ [generate_smss lib ?sis]) @ map (generate_smss lib) bs))"
      "concat bs = [] @ infos_of src parts (Suc i) dsts"
      using Cons.IH [of "Suc i" "parts i" "[]" "n + int (length ?sis)" "jsons @ [generate_smss lib ?sis]", OF later'] by blast
    then show ?thesis using 2 now by (intro exI [of _ "?sis # bs"]) (simp add: Let_def)
  next
    case 3
    have now: "parts_for mode words rnds i d ssms = Some (Inr (parts i))" using Cons.prems [of 0] 3 by simp
    have later': "parts_for mode words rnds (Suc i + j) (dsts ! j) (parts i) = Some (Inr (parts (Suc i + j)))"
      if "j < length dsts" "dsts ! j \<noteq> []" for j
      using later [OF that] parts_for_carried [OF now] by simp
    then show ?thesis using 3 now Cons.IH [of "Suc i" "parts i" ?sis n jsons, OF later'] by (simp add: Let_def)
  qed
qed

lemma only_of_digits: "only_of (ascii ''+0123456789;'') s \<Longrightarrow> \<forall>c \<in> set s. \<not> is_space c \<and> c < 0x80"
  by (auto simp: only_of_def list_all_iff ascii_def is_space_def)

lemma split_regex_set: "p \<in> set (split_regex sep s) \<Longrightarrow> set p \<subseteq> set s"
proof (induction s arbitrary: p)
  case (Cons c s)
  show ?case
  proof (cases "split_regex sep s")
    case q: (Cons q qs)
    then show ?thesis using Cons.IH [of q] Cons.IH [of p] Cons.prems by (auto split: if_splits)
  qed (use split_regex_Nil in blast)
qed simp

lemma split_numbers:
  assumes "only_of (ascii ''+0123456789;'') s" "s \<noteq> []"
  shows "split_by_separator s 59 = split_regex 59 s"
proof -
  have "first_word p = p" if "p \<in> set (split_regex 59 s)" for p
    using split_regex_set [OF that] only_of_digits [OF assms(1)] by (intro first_word_word) auto
  then show ?thesis using assms(2) by (simp add: split_by_separator_def map_idI)
qed

section \<open>Messages\<close>

text \<open>The numbers of an info that are taken, and what a message has of its info.\<close>

definition valid_dsts :: "sm_info \<Rightarrow> octets list" where
  "valid_dsts si = filter (\<lambda>d. d \<noteq> [] \<and> only_of (ascii ''+0123456789'') d) (split_by_separator (si_dst si) 59)"

definition message_of :: "octets \<Rightarrow> sm_info \<Rightarrow> cb_sm_information \<Rightarrow> bool" where
  "message_of d si smi \<longleftrightarrow> dst_addr smi = d \<and> content smi = si_msg si \<and> src_addr smi = si_src si \<and>
     datacoding_type smi = si_datacoding si \<and> udhi_reference smi = si_udhi_reference si \<and>
     udhi_total_parts smi = si_udhi_total_parts si \<and> udhi_part_index smi = si_udhi_part_index si"

lemma smi_of_message: "message_of d si (smi_of e session si d sn)" "session_id (smi_of e session si d sn) = session"
  by (simp_all add: message_of_def smi_of_def)

lemma smis_of_dsts_valid:
  "list_all2 (\<lambda>d smi. message_of d si smi \<and> session_id smi = session)
     (filter (\<lambda>d. d \<noteq> [] \<and> only_of (ascii ''+0123456789'') d) dsts) (fst (smis_of_dsts e session si dsts g))"
proof (induction dsts arbitrary: g)
  case (Cons d dsts)
  obtain sn g1 where n: "generate_sn (dice e) g = (sn, g1)" by fastforce
  obtain smis g2 where r: "smis_of_dsts e session si dsts g1 = (smis, g2)" by fastforce
  show ?case
  proof (cases "d \<noteq> [] \<and> only_of (ascii ''+0123456789'') d")
    case True
    then show ?thesis using Cons.IH [of g1] n r by (simp add: smi_of_message)
  next
    case False
    then show ?thesis using Cons.IH [of g] by auto
  qed
qed simp

lemma smis_of_sis_valid:
  "list_all2 (\<lambda>(d, si) smi. message_of d si smi \<and> session_id smi = session)
     (concat (map (\<lambda>si. map (\<lambda>d. (d, si)) (valid_dsts si)) sis)) (fst (smis_of_sis e session sis g))"
proof (induction sis arbitrary: g)
  case (Cons si sis)
  obtain smis g1 where d: "smis_of_dsts e session si (split_by_separator (si_dst si) 59) g = (smis, g1)" by fastforce
  have "list_all2 (\<lambda>d smi. message_of d si smi \<and> session_id smi = session) (valid_dsts si) smis"
    using smis_of_dsts_valid [of si session "split_by_separator (si_dst si) 59" e g] d by (simp add: valid_dsts_def)
  then have "list_all2 (\<lambda>(d, si) smi. message_of d si smi \<and> session_id smi = session)
      (map (\<lambda>d. (d, si)) (valid_dsts si)) smis" by (simp add: list_all2_map1)
  with Cons [of g1] d show ?case by (auto simp: list_all2_appendI split: prod.splits)
qed simp

lemma transformed:
  assumes "cb_client_private_transform_json_to_smis e lib json g = (session, smis, g')"
  shows "session = fst (generate_message_id (dice e) g)"
    "list_all2 (\<lambda>(d, si) smi. message_of d si smi \<and> session_id smi = session)
       (concat (map (\<lambda>si. map (\<lambda>d. (d, si)) (valid_dsts si)) (snd (parse_smss lib json [])))) smis"
proof -
  show "session = fst (generate_message_id (dice e) g)"
    using assms by (simp add: cb_client_private_transform_json_to_smis_def split: prod.splits)
  obtain g1 where "smis = fst (smis_of_sis e session (snd (parse_smss lib json [])) g1)"
    using assms by (auto simp: cb_client_private_transform_json_to_smis_def split: prod.splits)
      (metis fst_conv snd_conv)
  then show "list_all2 (\<lambda>(d, si) smi. message_of d si smi \<and> session_id smi = session)
       (concat (map (\<lambda>si. map (\<lambda>d. (d, si)) (valid_dsts si)) (snd (parse_smss lib json [])))) smis"
    using smis_of_sis_valid by simp
qed

section \<open>The client that takes them\<close>

definition chosen :: "clients_manager \<Rightarrow> smppclient option" where
  "chosen m = map_option (\<lambda>i. clients m ! i) (find (\<lambda>i. tx_able (clients m ! i))
     (round_from (unat (scast (last_index m + 1) :: uint64) mod length (clients m)) (length (clients m))))"

lemma manager_submission:
  assumes "clients m \<noteq> []"
  obtains m' where "manager_submit_smis smis [] m = Some (chosen m \<noteq> None, m')"
    "last_index m' = last_index m + 1"
    "map get_unique_id_of_client (clients m') = map get_unique_id_of_client (clients m)"
    "\<And>g. the_source g (process_host m') = (case chosen m of
       Some c \<Rightarrow> (if g = get_unique_id_of_client c then (the_source g (process_host m))
          \<lparr> to_submit_list := to_submit_list (the_source g (process_host m)) @ stamped c smis \<rparr>
         else the_source g (process_host m))
     | None \<Rightarrow> the_source g (process_host m))"
proof -
  let ?b = "unat (scast (last_index m + 1) :: uint64) mod length (clients m)"
  have b: "?b < length (clients m)" using assms by simp
  note able = able_from_round [OF b]
  show thesis
  proof (cases "find (\<lambda>i. tx_able (clients m ! i)) (round_from ?b (length (clients m)))")
    case None
    then have "manager_submit_smis smis [] m = Some (False, m\<lparr> last_index := last_index m + 1 \<rparr>)"
      using able assms by (simp add: manager_submit_smis_def Let_def)
    then show thesis using None by (intro that [of "m\<lparr> last_index := last_index m + 1 \<rparr>"]) (simp_all add: chosen_def)
  next
    case (Some i)
    let ?c = "clients m ! i"
    let ?c' = "submit_smis smis [] (?c\<lparr> host := process_host m \<rparr>)"
    let ?m = "m\<lparr> last_index := last_index m + 1, clients := (clients m)[i := ?c'], process_host := host ?c' \<rparr>"
    have "manager_submit_smis smis [] m = Some (True, ?m)"
      using able assms Some by (simp add: manager_submit_smis_def Let_def)
    moreover have "map get_unique_id_of_client ((clients m)[i := ?c']) = map get_unique_id_of_client (clients m)"
      by (simp add: map_update) (metis list_update_id map_update)
    moreover have "config (?c\<lparr> host := process_host m \<rparr>) = config ?c" by simp
    then have "stamped (?c\<lparr> host := process_host m \<rparr>) = stamped ?c" by (simp only: stamped_def)
    ultimately show thesis
      using Some by (intro that [of ?m]) (simp_all add: chosen_def the_source_submit_smis)
  qed
qed

lemma chosen_able: "chosen m = Some c \<Longrightarrow> c \<in> set (clients m) \<and> tx_able c"
  by (auto simp: chosen_def find_Some_iff) (metis lessThan_iff nth_mem round_from_set)

lemma chosen_None: "clients m \<noteq> [] \<Longrightarrow> chosen m = None \<longleftrightarrow> \<not> (\<exists>c \<in> set (clients m). tx_able c)"
  by (force simp: chosen_def find_None_iff in_set_conv_nth)

text \<open>The clients in the order in which a submission looks at them.\<close>

definition in_round :: "clients_manager \<Rightarrow> nat \<Rightarrow> smppclient" where
  "in_round m k = clients m ! ((unat (scast (last_index m + 1) :: uint64) + k) mod length (clients m))"

lemma chosen_in_round:
  "chosen m = Some c \<Longrightarrow>
   \<exists>k < length (clients m). c = in_round m k \<and> tx_able (in_round m k) \<and> (\<forall>j < k. \<not> tx_able (in_round m j))"
  by (auto simp: chosen_def find_Some_iff round_from_map in_round_def mod_simps)

end
