(* ===== verification/Json_Demo.thy ===== *)
theory Json_Demo
  imports Json_Parser Data_Coding
begin

text \<open>
  A JSON library for the documents of the client library, on which the hypothesis \<open>json_faithful\<close> is
  met: the text has line breaks, four blanks for each level and the escapes of the writer of Boost's
  property trees, and the reader takes any blanks between the tokens and any escapes of RFC 8259 but
  the pairs for characters outside the basic plane and the code FFFF. Values are strings, as property trees have no
  other; an array or an object with nothing in it is an empty string, as in Boost.
\<close>

section \<open>Writing\<close>

definition json_hex_digit :: "nat \<Rightarrow> octet" where
  "json_hex_digit n = of_nat (if n < 10 then 48 + n else 55 + n)"

definition escape_letter :: "octet \<Rightarrow> octet option" where
  "escape_letter c = map_of [(34, 34), (92, 92), (47, 47), (8, 98), (12, 102), (10, 110), (13, 114), (9, 116)] c"

definition json_char :: "octet \<Rightarrow> octets" where
  "json_char c = (case escape_letter c of
     Some x \<Rightarrow> [92, x]
   | None \<Rightarrow> if c < 32 then [92, 117, 48, 48, json_hex_digit (unat c div 16), json_hex_digit (unat c mod 16)] else [c])"

definition quoted :: "octets \<Rightarrow> octets" where
  "quoted s = 34 # concat (map json_char s) @ [34]"

text \<open>A new line at a level, and a list with commas.\<close>

definition line :: "nat \<Rightarrow> octets \<Rightarrow> octets" where
  "line n s = 10 # replicate (4 * n) 32 @ s"

fun commas :: "octets list \<Rightarrow> octets" where
  "commas [] = []"
| "commas [x] = x"
| "commas (x # y # xs) = x @ 44 # commas (y # xs)"

definition json_pair :: "octets \<times> octets \<Rightarrow> octets" where
  "json_pair kv = line 3 (quoted (fst kv) @ [58, 32] @ quoted (snd kv))"

definition json_object :: "fields \<Rightarrow> octets" where
  "json_object d = line 2 (if d = [] then quoted [] else 123 # commas (map json_pair d) @ line 2 [125])"

definition json_document :: "octets \<Rightarrow> fields list \<Rightarrow> octets" where
  "json_document root docs = 123 # line 1 (quoted root @ [58, 32] @
     (if docs = [] then quoted [] else 91 # commas (map json_object docs) @ line 1 [93])) @ [10, 125, 10]"

section \<open>Reading\<close>

definition blank :: "octet \<Rightarrow> bool" where
  "blank c \<longleftrightarrow> c \<in> {32, 9, 10, 13}"

definition token :: "octet \<Rightarrow> octets \<Rightarrow> octets option" where
  "token c s = (case dropWhile blank s of [] \<Rightarrow> None | d # r \<Rightarrow> if d = c then Some r else None)"

definition json_hex_value :: "octet \<Rightarrow> nat option" where
  "json_hex_value c = (if 48 \<le> c \<and> c \<le> 57 then Some (unat c - 48)
     else if 65 \<le> c \<and> c \<le> 70 then Some (unat c - 55)
     else if 97 \<le> c \<and> c \<le> 102 then Some (unat c - 87) else None)"

text \<open>The four digits of a character of the basic plane, in UTF-8.\<close>

definition hex_char :: "octet \<Rightarrow> octet \<Rightarrow> octet \<Rightarrow> octet \<Rightarrow> octets option" where
  "hex_char a b c d = Option.bind (json_hex_value a) (\<lambda>a. Option.bind (json_hex_value b) (\<lambda>b.
     Option.bind (json_hex_value c) (\<lambda>c. Option.bind (json_hex_value d) (\<lambda>d.
     let u = ((a * 16 + b) * 16 + c) * 16 + d in
     if 0xD800 \<le> u \<and> u < 0xE000 then None else Some (utf8_of [of_nat u])))))"

definition escape_value :: "octet \<Rightarrow> octet option" where
  "escape_value x = map_of [(34, 34), (92, 92), (47, 47), (98, 8), (102, 12), (110, 10), (114, 13), (116, 9)] x"

definition adds :: "octets \<Rightarrow> (octets \<times> octets) option \<Rightarrow> (octets \<times> octets) option" where
  "adds x = map_option (\<lambda>(s, r). (x @ s, r))"

text \<open>The octets of a string up to its closing quote, and what comes after it.\<close>

fun chars :: "octets \<Rightarrow> (octets \<times> octets) option" where
  "chars [] = None"
| "chars (c # s) =
     (if c = 34 then Some ([], s)
      else if c = 92 then
        (case s of
           [] \<Rightarrow> None
         | x # r \<Rightarrow>
             (if x = 117 then
                (case r of
                   h1 # h2 # h3 # h4 # r' \<Rightarrow>
                     (case hex_char h1 h2 h3 h4 of None \<Rightarrow> None | Some u \<Rightarrow> adds u (chars r'))
                 | _ \<Rightarrow> None)
              else (case escape_value x of None \<Rightarrow> None | Some y \<Rightarrow> adds [y] (chars r))))
      else if c < 32 then None
      else adds [c] (chars s))"

definition read_string :: "octets \<Rightarrow> (octets \<times> octets) option" where
  "read_string s = Option.bind (token 34 s) chars"

definition read_pair :: "octets \<Rightarrow> ((octets \<times> octets) \<times> octets) option" where
  "read_pair s = Option.bind (read_string s) (\<lambda>(k, s). Option.bind (token 58 s) (\<lambda>s.
     Option.bind (read_string s) (\<lambda>(v, s). Some ((k, v), s))))"

text \<open>Items with commas up to a closing token; the fuel is at least their number.\<close>

fun read_items :: "nat \<Rightarrow> (octets \<Rightarrow> ('a \<times> octets) option) \<Rightarrow> octet \<Rightarrow> octets \<Rightarrow> ('a list \<times> octets) option" where
  "read_items 0 f close s = None"
| "read_items (Suc n) f close s = Option.bind (f s) (\<lambda>(x, s).
     case token 44 s of
       Some s \<Rightarrow> map_option (\<lambda>(xs, s). (x # xs, s)) (read_items n f close s)
     | None \<Rightarrow> map_option (\<lambda>s. ([x], s)) (token close s))"

text \<open>A string where items are expected has none.\<close>

definition read_node :: "octet \<Rightarrow> octet \<Rightarrow> (octets \<Rightarrow> ('a \<times> octets) option) \<Rightarrow> octets \<Rightarrow> ('a list \<times> octets) option" where
  "read_node open close f s = (case token open s of
     Some s \<Rightarrow> (case token close s of Some s \<Rightarrow> Some ([], s) | None \<Rightarrow> read_items (length s) f close s)
   | None \<Rightarrow> map_option (\<lambda>(_, s). ([], s)) (read_string s))"

definition read_document :: "octets \<Rightarrow> octets \<Rightarrow> (octets \<rightharpoonup> octets) list option" where
  "read_document root s = Option.bind (token 123 s) (\<lambda>s. Option.bind (read_string s) (\<lambda>(name, s).
     Option.bind (token 58 s) (\<lambda>s. Option.bind (read_node 91 93 (read_node 123 125 read_pair) s) (\<lambda>(docs, s).
     Option.bind (token 125 s) (\<lambda>s.
     if list_all blank s \<and> name = root then Some (map map_of docs) else None)))))"

definition demo_lib :: json_lib where
  "demo_lib = \<lparr> write_json = json_document, read_json = read_document \<rparr>"

section \<open>What is written is read\<close>

lemma token_line [simp]: "\<not> blank c \<Longrightarrow> token d (line n (c # s)) = (if c = d then Some s else None)"
proof -
  have "dropWhile blank (replicate k 32 @ t) = dropWhile blank t" for k t
    by (induction k) (simp_all add: blank_def)
  then show "\<not> blank c \<Longrightarrow> ?thesis" by (simp add: token_def line_def blank_def)
qed

lemma token_here [simp]: "\<not> blank c \<Longrightarrow> token d (c # s) = (if c = d then Some s else None)"
  by (simp add: token_def)

lemma token_blank [simp]: "token d (32 # s) = token d s" "token d (10 # s) = token d s"
  by (simp_all add: token_def blank_def)

lemma not_blank [simp]: "\<not> blank 34" "\<not> blank 44" "\<not> blank 58" "\<not> blank 91" "\<not> blank 93" "\<not> blank 123" "\<not> blank 125"
  by (simp_all add: blank_def)

lemma json_hex_digits: "\<forall>n \<in> set [0..<16]. json_hex_value (json_hex_digit n) = Some n \<and> json_hex_digit n \<noteq> 0"
  by code_simp

lemma json_hex_digit_value: "n < 16 \<Longrightarrow> json_hex_value (json_hex_digit n) = Some n \<and> json_hex_digit n \<noteq> 0"
  using json_hex_digits by (simp del: upt_conv_Cons)

lemma utf8_seven_bit:
  assumes "n < 0x80"
  shows "utf8_of [of_nat n] = [of_nat n]"
proof -
  have "ucast (of_nat n :: uint16) = (of_nat n :: uint32)" "ucast (of_nat n :: uint32) = (of_nat n :: octet)"
    using assms by (simp_all add: unsigned_of_nat take_bit_nat_eq_self)
  moreover have "(of_nat n :: uint32) < 0x80"
    using assms by (simp add: word_less_nat_alt unsigned_of_nat take_bit_nat_eq_self)
  ultimately show ?thesis by (simp add: convert_ucs2_to_utf8_chars_def)
qed

lemma escaped_control:
  assumes "n < 32"
  shows "hex_char 48 48 (json_hex_digit (n div 16)) (json_hex_digit (n mod 16)) = Some [of_nat n]"
proof -
  have "json_hex_value 48 = Some 0" "n div 16 * 16 + n mod 16 = n" by (simp_all add: json_hex_value_def)
  moreover have "json_hex_value (json_hex_digit (n div 16)) = Some (n div 16)" "json_hex_value (json_hex_digit (n mod 16)) = Some (n mod 16)"
    using assms json_hex_digit_value [of "n div 16"] json_hex_digit_value [of "n mod 16"] by auto
  ultimately show ?thesis
    using assms utf8_seven_bit [of n] by (simp add: hex_char_def Let_def)
qed

lemma escape_back: "escape_letter c = Some x \<Longrightarrow> escape_value x = Some c \<and> x \<noteq> 117"
  unfolding escape_letter_def by (drule map_of_SomeD) (auto simp: escape_value_def)

lemma no_escape: "escape_letter c = None \<Longrightarrow> c \<noteq> 34 \<and> c \<noteq> 92"
  by (simp add: escape_letter_def split: if_split_asm)

lemma chars_json_char:
  "chars (json_char c @ s) = adds [c] (chars s)"
proof (cases "escape_letter c")
  case (Some x)
  then show ?thesis
    using escape_back [OF Some] by (simp add: json_char_def)
next
  case None
  show ?thesis
  proof (cases "c < 32")
    case True
    then have "hex_char 48 48 (json_hex_digit (unat c div 16)) (json_hex_digit (unat c mod 16)) = Some [of_nat (unat c)]"
      using escaped_control by (simp add: word_less_nat_alt)
    with None True show ?thesis by (simp add: json_char_def)
  next
    case False
    then show ?thesis using None no_escape [OF None] by (simp add: json_char_def)
  qed
qed

lemma adds_Some [simp]: "adds x (Some (s, r)) = Some (x @ s, r)"
  by (simp add: adds_def)

lemma chars_quoted: "chars (concat (map json_char s) @ 34 # r) = Some (s, r)"
  by (induction s) (simp_all add: chars_json_char)

lemma read_quoted [simp]:
  "read_string (quoted s @ r) = Some (s, r)"
  "read_string (line n (quoted s @ r)) = Some (s, r)"
  "read_string (32 # quoted s @ r) = Some (s, r)"
  by (simp_all add: read_string_def quoted_def chars_quoted)

lemma token_quoted [simp]:
  "c \<noteq> 34 \<Longrightarrow> token c (line n (quoted s @ r)) = None"
  "c \<noteq> 34 \<Longrightarrow> token c (quoted s @ r) = None"
  by (simp_all add: quoted_def)

lemma line_append: "line n s @ t = line n (s @ t)"
  by (simp add: line_def)

lemma read_commas:
  assumes "\<And>x s. x \<in> set xs \<Longrightarrow> f (w x @ s) = Some (x, s)" "xs \<noteq> []" "length xs \<le> n" "close \<noteq> 44" "\<not> blank close"
  shows "read_items n f close (commas (map w xs) @ line k (close # s)) = Some (xs, s)"
  using assms
proof (induction xs arbitrary: n)
  case (Cons x xs)
  obtain m where n: "n = Suc m" "length xs \<le> m" using Cons.prems(3) by (cases n) auto
  show ?case
  proof (cases xs)
    case Nil
    then show ?thesis using Cons.prems n by simp
  next
    case c: (Cons y ys)
    have "read_items m f close (commas (map w xs) @ line k (close # s)) = Some (xs, s)"
      using Cons.prems n(2) c by (intro Cons.IH) simp_all
    then show ?thesis using Cons.prems(1) [of x] n(1) c by simp
  qed
qed simp

lemma length_commas: "\<forall>x \<in> set xs. w x \<noteq> [] \<Longrightarrow> length xs \<le> length (commas (map w xs))"
proof (induction xs)
  case (Cons x xs)
  then show ?case by (cases xs) (auto simp: Suc_le_eq)
qed simp

lemma commas_start: "xs \<noteq> [] \<Longrightarrow> \<exists>u. commas (map w xs) = w (hd xs) @ u"
  by (cases xs; cases "tl xs") auto

text \<open>A node that is written with its items at one level and its closing token at another.\<close>

lemma read_written_node:
  assumes "\<And>x s. x \<in> set xs \<Longrightarrow> f (w x @ s) = Some (x, s)"
    and "\<And>x. x \<in> set xs \<Longrightarrow> \<exists>c u. w x = line j (c # u) \<and> \<not> blank c \<and> c \<noteq> close"
    and "close \<noteq> 44" "\<not> blank close" "\<not> blank open" "open \<noteq> 34"
  shows "read_node open close f (line n ((if xs = [] then quoted [] else open # commas (map w xs) @ line k [close]) @ s)) =
      Some (xs, s)"
    and "read_node open close f ((if xs = [] then quoted [] else open # commas (map w xs) @ line k [close]) @ s) =
      Some (xs, s)"
proof -
  let ?t = "commas (map w xs) @ line k (close # s)"
  have r: "read_items (length ?t) f close ?t = Some (xs, s)" "token close ?t = None" if x: "xs \<noteq> []"
  proof -
    have "\<forall>x \<in> set xs. w x \<noteq> []" using assms(2) by (fastforce simp: line_def)
    then show "read_items (length ?t) f close ?t = Some (xs, s)"
      using assms(1,3,4) x length_commas [of xs w] by (intro read_commas) simp_all
    obtain u c v where "commas (map w xs) = w (hd xs) @ u" "w (hd xs) = line j (c # v)" "\<not> blank c" "c \<noteq> close"
      using commas_start [OF x, of w] assms(2) [of "hd xs"] x by auto
    then show "token close ?t = None" by (simp add: line_append)
  qed
  show "read_node open close f (line n ((if xs = [] then quoted [] else open # commas (map w xs) @ line k [close]) @ s)) =
      Some (xs, s)"
    "read_node open close f ((if xs = [] then quoted [] else open # commas (map w xs) @ line k [close]) @ s) =
      Some (xs, s)"
    using r assms(3-6) by (cases "xs = []"; simp add: read_node_def line_append)+
qed

lemma read_json_pair: "read_pair (json_pair kv @ s) = Some (kv, s)"
  by (simp add: read_pair_def json_pair_def line_append)

lemma starts:
  "\<exists>c u. json_pair kv = line 3 (c # u) \<and> \<not> blank c \<and> c \<noteq> 125"
  "\<exists>c u. json_object d = line 2 (c # u) \<and> \<not> blank c \<and> c \<noteq> 93"
  by (auto simp: json_pair_def json_object_def quoted_def)

lemma read_json_object: "read_node 123 125 read_pair (json_object d @ s) = Some (d, s)"
  unfolding json_object_def line_append
  by (rule read_written_node [where j = 3]) (simp_all only: read_json_pair starts, simp_all)

lemma read_json_document: "read_document root (json_document root docs) = Some (map map_of docs)"
proof -
  let ?s = "(if docs = [] then quoted [] else 91 # commas (map json_object docs) @ line 1 [93]) @ [10, 125, 10]"
  have "read_node 91 93 (read_node 123 125 read_pair) ?s = Some (docs, [10, 125, 10])"
    by (rule read_written_node [where j = 2]) (simp_all only: read_json_object starts, simp_all)
  then have "read_node 91 93 (read_node 123 125 read_pair) (32 # ?s) = Some (docs, [10, 125, 10])"
    by (simp only: read_node_def read_string_def token_blank)
  then show ?thesis
    by (simp add: read_document_def json_document_def line_append) (simp add: blank_def)
qed

section \<open>No NUL\<close>

lemma no_nul_char: "0 \<notin> set (json_char c)"
proof -
  have d: "json_hex_digit n \<noteq> 0" if "n < 16" for n using json_hex_digit_value [OF that] by simp
  have "unat c < 256" using unsigned_less [of c, where ?'a = nat] by simp
  then have "unat c div 16 < 16" "unat c mod 16 < 16" by auto
  moreover have "escape_letter c \<noteq> Some 0"
    by (auto simp: escape_letter_def dest!: map_of_SomeD)
  moreover have "c \<noteq> 0" if "\<not> c < 32" using that by auto
  ultimately show ?thesis
    using d by (auto simp: json_char_def split: option.splits if_split_asm)
qed

lemma no_nul_commas: "\<forall>x \<in> set xs. 0 \<notin> set (w x) \<Longrightarrow> 0 \<notin> set (commas (map w xs))" for xs :: "'a list"
proof (induction xs)
  case (Cons x xs)
  then show ?case by (cases xs) auto
qed simp

lemma no_nul:
  "0 \<notin> set (quoted s)" "0 \<notin> set s \<Longrightarrow> 0 \<notin> set (line n s)" "0 \<notin> set (json_pair kv)" "0 \<notin> set (json_object d)"
  "0 \<notin> set (json_document root docs)"
proof -
  show q: "0 \<notin> set (quoted s)" for s using no_nul_char by (auto simp: quoted_def)
  show l: "0 \<notin> set s \<Longrightarrow> 0 \<notin> set (line n s)" for n s by (auto simp: line_def)
  show p: "0 \<notin> set (json_pair kv)" for kv using q by (auto simp: json_pair_def intro!: l)
  show o: "0 \<notin> set (json_object d)" for d
    using q no_nul_commas [of d json_pair] p l [of "[125]"] by (auto simp: json_object_def intro!: l)
  show "0 \<notin> set (json_document root docs)"
    using q no_nul_commas [of docs json_object] o l [of "[93]"] l by (auto simp: json_document_def)
qed

theorem demo_faithful: "json_faithful demo_lib"
  unfolding json_faithful_def demo_lib_def
  using read_json_document no_nul(5) by (auto simp: json_document_def)

end
