(* ===== verification/Client_Api_Properties.thy ===== *)
theory Client_Api_Properties
  imports Client_Api_Facts Json_Demo Client_Demo
begin

text \<open>
  What the calls of the client library promise: messages are formatted, submitted to one client and
  accounted for, and the texts that the library reads and writes say the same.
\<close>

section \<open>Concrete clients and texts\<close>

definition demo_receiver :: smppclient where
  "demo_receiver = demo_client\<lparr> config := demo_config\<lparr> bind_mode := BOUND_RX \<rparr> \<rparr>"

definition demo_manager :: clients_manager where
  "demo_manager = \<lparr> clients = [demo_client, demo_receiver], last_index = 0, process_host = demo_host \<rparr>"

definition demo_sms :: sm_info where
  "demo_sms = \<lparr> si_dst = [49], si_msg = [0xC3, 0xA9], si_src = [50], si_datacoding = 8, si_udhi_reference = 0,
     si_udhi_total_parts = 1, si_udhi_part_index = 1 \<rparr>"

lemma demo_able: "tx_able demo_client" "\<not> tx_able demo_receiver"
  by (simp_all add: tx_able_def demo_client_def demo_receiver_def demo_config_def)

lemma demo_sms_good: "good_sms demo_sms" "valid_dsts demo_sms = [[49]]"
  by (simp add: good_sms_def demo_sms_def) code_simp

section \<open>Submitting\<close>

text \<open>
  C35: The search for a client ends. The messages go to the first client of the round, which moves
  on by one with every submission, that is bound to transmit; they are appended to its list, with
  its account, and no other list changes. Without such a client nothing is taken.
\<close>

theorem submissions_go_round:
  assumes "clients m \<noteq> []"
  shows "\<exists>r m'. manager_submit_smis smis [] m = Some (r, m') \<and> last_index m' = last_index m + 1 \<and>
    (if r then \<exists>k < length (clients m). tx_able (in_round m k) \<and> (\<forall>j < k. \<not> tx_able (in_round m j)) \<and>
       (\<forall>g. the_source g (process_host m') = (if g = get_unique_id_of_client (in_round m k)
          then (the_source g (process_host m))
            \<lparr> to_submit_list := to_submit_list (the_source g (process_host m)) @ stamped (in_round m k) smis \<rparr>
          else the_source g (process_host m)))
     else (\<forall>c \<in> set (clients m). \<not> tx_able c) \<and> (\<forall>g. the_source g (process_host m') = the_source g (process_host m)))"
proof -
  obtain m' where m': "manager_submit_smis smis [] m = Some (chosen m \<noteq> None, m')" "last_index m' = last_index m + 1"
    and h: "\<And>g. the_source g (process_host m') = (case chosen m of
       Some c \<Rightarrow> (if g = get_unique_id_of_client c then (the_source g (process_host m))
          \<lparr> to_submit_list := to_submit_list (the_source g (process_host m)) @ stamped c smis \<rparr>
         else the_source g (process_host m))
     | None \<Rightarrow> the_source g (process_host m))"
    by (rule manager_submission [OF assms(1), of smis], rule that) assumption+
  show ?thesis
  proof (cases "chosen m")
    case None
    then show ?thesis using m' h chosen_None [OF assms(1)] by auto
  next
    case (Some c)
    then obtain k where k: "k < length (clients m)" "c = in_round m k" "tx_able (in_round m k)" "\<forall>j < k. \<not> tx_able (in_round m j)"
      using chosen_in_round by blast
    then show ?thesis using m' h Some by auto
  qed
qed

theorem submissions_go_round_witness:
  "\<exists>m'. manager_submit_smis [demo_sm] [] demo_manager = Some (True, m') \<and> last_index m' = 1"
proof -
  have "clients demo_manager \<noteq> []" "last_index demo_manager = 0" "demo_client \<in> set (clients demo_manager)"
    by (simp_all add: demo_manager_def)
  with submissions_go_round [of demo_manager "[demo_sm]"] demo_able show ?thesis by (auto split: if_splits)
qed

text \<open>
  C33: Every number of every message that the JSON text has becomes one message of one client that is
  bound to transmit, in order, with the text and the header of its message and the session id that
  the call returns; no other client gets any.
\<close>

theorem json_submission_arrives:
  assumes "\<exists>c \<in> set (clients m). tx_able c" "\<exists>si \<in> set (snd (parse_smss lib json [])). valid_dsts si \<noteq> []"
  shows "\<exists>session m' c L. cb_client_submit_sms e lib json m = Some (session, m') \<and> session \<noteq> [] \<and>
    c \<in> set (clients m) \<and> tx_able c \<and>
    to_submit_list (the_source (get_unique_id_of_client c) (process_host m')) =
      to_submit_list (the_source (get_unique_id_of_client c) (process_host m)) @ L \<and>
    (\<forall>g. g \<noteq> get_unique_id_of_client c \<longrightarrow> the_source g (process_host m') = the_source g (process_host m)) \<and>
    list_all2 (\<lambda>(d, si) smi. message_of d si smi \<and> session_id smi = session)
      (concat (map (\<lambda>si. map (\<lambda>d. (d, si)) (valid_dsts si)) (snd (parse_smss lib json [])))) L"
proof -
  obtain session smis g where t: "cb_client_private_transform_json_to_smis e lib json (numbers (process_host m)) =
      (session, smis, g)" by (metis prod_cases3)
  let ?m = "m\<lparr> process_host := (process_host m)\<lparr> numbers := g \<rparr> \<rparr>"
  have ne: "clients ?m \<noteq> []" using assms(1) by auto
  have "smis \<noteq> []" using transformed(2) [OF t] assms(2) by (auto simp: list_all2_Nil)
  obtain c where c: "chosen ?m = Some c" "c \<in> set (clients m)" "tx_able c"
    using chosen_None [OF ne] chosen_able [of ?m] assms(1) by (cases "chosen ?m") auto
  obtain m' where r: "manager_submit_smis smis [] ?m = Some (chosen ?m \<noteq> None, m')"
    and src: "\<And>g. the_source g (process_host m') = (case chosen ?m of
       Some c \<Rightarrow> (if g = get_unique_id_of_client c then (the_source g (process_host ?m))
          \<lparr> to_submit_list := to_submit_list (the_source g (process_host ?m)) @ stamped c smis \<rparr>
         else the_source g (process_host ?m))
     | None \<Rightarrow> the_source g (process_host ?m))"
    by (rule manager_submission [OF ne, of smis], rule that) assumption+
  have m': "manager_submit_smis smis [] ?m = Some (True, m')" using r c(1) by simp
  have same: "the_source g (process_host ?m) = the_source g (process_host m)" for g by simp
  have h: "the_source g (process_host m') = (if g = get_unique_id_of_client c then (the_source g (process_host m))
          \<lparr> to_submit_list := to_submit_list (the_source g (process_host m)) @ stamped c smis \<rparr>
         else the_source g (process_host m))" for g
    unfolding src same c(1) by (simp only: option.case)
  have "cb_client_submit_sms e lib json m = Some (session, m')"
    using t m' \<open>smis \<noteq> []\<close> by (simp add: cb_client_submit_sms_def)
  moreover have "session \<noteq> []" using transformed(1) [OF t] by (simp add: generate_message_id_sn)
  moreover have "list_all2 (\<lambda>(d, si) smi. message_of d si smi \<and> session_id smi = session)
      (concat (map (\<lambda>si. map (\<lambda>d. (d, si)) (valid_dsts si)) (snd (parse_smss lib json [])))) (stamped c smis)"
    using transformed(2) [OF t] unfolding stamped_def list_all2_map2
    by (rule list_all2_mono) (auto simp: message_of_def)
  ultimately show ?thesis using c h by auto
qed

theorem json_submission_arrives_witness:
  "\<exists>session m' c L. cb_client_submit_sms (at 1) demo_lib (generate_smss demo_lib [demo_sms]) demo_manager = Some (session, m') \<and>
     session \<noteq> [] \<and> to_submit_list (the_source (get_unique_id_of_client c) (process_host m')) = L \<and> length L = 1"
proof -
  have p: "parse_smss demo_lib (generate_smss demo_lib [demo_sms]) [] = (True, [demo_sms])"
    by (rule smss_back [OF demo_faithful]) (simp add: demo_sms_good)
  have "\<exists>c \<in> set (clients demo_manager). tx_able c" by (simp add: demo_manager_def demo_able)
  from json_submission_arrives [OF this, of demo_lib "generate_smss demo_lib [demo_sms]" "at 1"] p
  obtain session m' c L where "cb_client_submit_sms (at 1) demo_lib (generate_smss demo_lib [demo_sms]) demo_manager = Some (session, m')"
    "session \<noteq> []" "to_submit_list (the_source (get_unique_id_of_client c) (process_host m')) =
      to_submit_list (the_source (get_unique_id_of_client c) (process_host demo_manager)) @ L" "length L = 1"
    by (auto simp: demo_sms_good list_all2_Cons1)
  moreover have "to_submit_list (the_source g (process_host demo_manager)) = []" for g
    by (simp add: demo_manager_def demo_host_def data_source_def new_client_data_source_def)
  ultimately show ?thesis by auto
qed

text \<open>
  C37: A message of the JSON text that cannot be read cuts it off: the messages before it are
  submitted as if they were all, and the caller gets the same answer.
\<close>

theorem unreadable_message_cuts:
  assumes "json \<noteq> []" "read_json lib SMSS_ROOTNAME (takeWhile (\<lambda>c. c \<noteq> 0) json) =
      Some (map (\<lambda>si. map_of (sms_fields si)) sis @ bad # others)"
    and "parse_sms bad = None" "\<forall>si \<in> set sis. length (si_msg si) < 2 ^ 32"
    and "parse_smss lib json' [] = (True, sis)"
  shows "parse_smss lib json [] = (False, sis) \<and>
    cb_client_submit_sms e lib json m = cb_client_submit_sms e lib json' m"
proof -
  have "parse_children parse_sms (map (\<lambda>si. map_of (sms_fields si)) sis @ bad # others) [] = (False, [] @ sis)"
    using assms(3,4) by (intro parse_children_bad) (auto simp: sms_back)
  then have "parse_smss lib json [] = (False, sis)"
    using assms(1,2) by (simp add: parse_smss_def parse_array_def)
  then show ?thesis
    using assms(5) by (simp add: cb_client_submit_sms_def cb_client_private_transform_json_to_smis_def)
qed

theorem unreadable_message_cuts_witness:
  "\<exists>json json'. fst (parse_smss demo_lib json []) = False \<and> fst (parse_smss demo_lib json' []) \<and>
     cb_client_submit_sms (at 1) demo_lib json demo_manager = cb_client_submit_sms (at 1) demo_lib json' demo_manager"
proof -
  let ?json = "write_json demo_lib SMSS_ROOTNAME [sms_fields demo_sms, []]"
  have f: "list_all flat_object [sms_fields demo_sms, []]"
    using fields_flat(1) [OF demo_sms_good(1)] by (simp add: flat_object_def)
  have "plain_name SMSS_ROOTNAME" using names_plain by simp
  with demo_faithful f have j: "?json \<noteq> []" "0 \<notin> set ?json"
    "read_json demo_lib SMSS_ROOTNAME ?json = Some (map map_of [sms_fields demo_sms, []])"
    unfolding json_faithful_def by blast+
  then have t: "takeWhile (\<lambda>c. c \<noteq> 0) ?json = ?json" by (auto simp: takeWhile_eq_all_conv)
  have p: "parse_smss demo_lib (generate_smss demo_lib [demo_sms]) [] = (True, [demo_sms])"
    by (rule smss_back [OF demo_faithful]) (simp add: demo_sms_good)
  have "parse_smss demo_lib ?json [] = (False, [demo_sms]) \<and>
      cb_client_submit_sms (at 1) demo_lib ?json demo_manager =
        cb_client_submit_sms (at 1) demo_lib (generate_smss demo_lib [demo_sms]) demo_manager"
    by (rule unreadable_message_cuts [where sis = "[demo_sms]" and bad = "map_of []" and others = "[]", OF j(1) _ _ _ p])
      (simp_all only: t j(3), simp_all add: parse_sms_def demo_sms_def)
  then show ?thesis using p by (metis fst_conv)
qed

section \<open>Formatting\<close>

text \<open>
  C34: formatting a text for a list of numbers with semicolons between them. Where the JSON library reads
  what it wrote, the sender has seven bits and no part has 4 GB: if the splitting of the text (mode 0,
  once), of the text with the heading of each number (mode 1) or with a character inserted (mode 2)
  ends without an error, the call gives JSON texts that together have, number by number and in the
  order of the list, every part that the splitter made for the number, once, for any size of a
  batch; the result is their number. An empty number has no part.
\<close>

theorem formatted_messages_cover:
  assumes "json_faithful lib" "only_of (ascii ''+0123456789;'') dsts" "dsts \<noteq> []"
    and once: "(if mode = 0 then smpp_datacoding_split_long_sm rnd words else Some (Inr [])) = Some (Inr ssms)"
    and each: "\<forall>i < length (split_regex 59 dsts). split_regex 59 dsts ! i \<noteq> [] \<longrightarrow>
      parts_for mode words rnds i (split_regex 59 dsts ! i) ssms = Some (Inr (parts i)) \<and>
      (\<forall>p \<in> set (parts i). length (sm_content p) < 2 ^ 32)"
    and "seven_bit src"
  defines "infos \<equiv> concat (map (\<lambda>(i, d). map (part_info d src) (parts i))
      (filter (\<lambda>(i, d). d \<noteq> []) (enumerate 0 (split_regex 59 dsts))))"
  shows "\<exists>jsons. cb_client_format_sms lib mode rnd rnds dsts words src count_of_batch =
      Some (Inr (int (length infos), jsons)) \<and>
    (\<forall>json \<in> set jsons. fst (parse_smss lib json [])) \<and>
    concat (map (\<lambda>json. snd (parse_smss lib json [])) jsons) = infos"
proof -
  let ?ds = "split_regex 59 dsts"
  have infos: "infos = infos_of src parts 0 ?ds" by (simp add: infos_def infos_of_def)
  obtain bs where f: "format_loop lib mode words src count_of_batch rnds 0 ?ds ssms [] 0 [] =
      Some (Inr (0 + int (length (concat bs)), [] @ map (generate_smss lib) bs))" and bs: "concat bs = infos"
    using format_loop_batches [of ?ds mode words rnds 0 ssms parts lib src count_of_batch "[]" 0 "[]"] each
    unfolding infos by auto
  have "good_sms si" if si: "si \<in> set infos" for si
  proof -
    obtain j d p where d: "j < length ?ds" "d = ?ds ! j" "d \<noteq> []" "p \<in> set (parts j)" "si = part_info d src p"
      using infos_of_set si unfolding infos by fastforce
    then have "seven_bit d"
      using split_regex_set [of d 59 dsts] only_of_digits [OF assms(2)] nth_mem [OF d(1)]
      by (fastforce simp: seven_bit_def list_all_iff)
    with d each \<open>seven_bit src\<close> show ?thesis by (simp add: good_sms_def part_info_def)
  qed
  then have "parse_smss lib (generate_smss lib b) [] = (True, b)" if "b \<in> set bs" for b
    using that by (intro smss_back [OF assms(1)]) (auto simp: list_all_iff simp flip: bs)
  then have "concat (map (\<lambda>json. snd (parse_smss lib json [])) (map (generate_smss lib) bs)) = infos"
    "\<forall>json \<in> set (map (generate_smss lib) bs). fst (parse_smss lib json [])"
    by (simp_all add: comp_def flip: bs cong: map_cong)
  moreover have "cb_client_format_sms lib mode rnd rnds dsts words src count_of_batch =
      Some (Inr (int (length infos), map (generate_smss lib) bs))"
    using assms(2,3) once f bs by (simp add: cb_client_format_sms_def split_numbers)
  ultimately show ?thesis by blast
qed

lemma demo_parts:
  "smpp_datacoding_split_long_sm 0 [65] = Some (Inr [\<lparr> sm_content = [65], sm_dc = 0, sm_udhi_ref = 0,
     sm_udhi_total = 1, sm_udhi_index = 1 \<rparr>])"
  by code_simp

lemma demo_numbers: "only_of (ascii ''+0123456789;'') [49, 59, 59, 50]" "split_regex 59 [49, 59, 59, 50] = [[49], [], [50]]"
  by code_simp+

theorem formatted_messages_cover_witness:
  "\<exists>jsons. cb_client_format_sms demo_lib 0 0 id [49, 59, 59, 50] [65] [51] 1 = Some (Inr (2, jsons)) \<and>
     map si_dst (concat (map (\<lambda>json. snd (parse_smss demo_lib json [])) jsons)) = [[49], [50]]"
proof -
  let ?p = "\<lparr> sm_content = [65], sm_dc = 0, sm_udhi_ref = 0, sm_udhi_total = 1, sm_udhi_index = 1 \<rparr>"
  have "(if (0 :: int) = 0 then smpp_datacoding_split_long_sm 0 [65] else Some (Inr [])) = Some (Inr [?p])"
    by (simp add: demo_parts)
  from formatted_messages_cover [OF demo_faithful demo_numbers(1) _ this, of id "\<lambda>_. [?p]" "[51]" 1]
  show ?thesis by (auto simp: demo_numbers(2) part_info_def parts_for_def)
qed

text \<open>
  With a heading of the octets of the source file in front, no text is ever split: the conversion
  does not end.
\<close>

lemma heading_never_split: "smpp_datacoding_split_long_sm rnd (append_header_to_string words number) = None"
proof -
  obtain r where a: "append_header_to_string words number = utf8_of [0x3B2] @ 0xBA # r"
  proof -
    have "utf8_of [0x3B2] = [0xCE, 0xB2]" by code_simp
    then show thesis by (intro that) (simp add: append_header_to_string_def header_1_def Let_def)
  qed
  obtain t where x: "append_header_to_string words number = 0xCE # t"
    by (simp add: append_header_to_string_def header_1_def Let_def)
  have "strlen (append_header_to_string words number @ [0]) = Inr (Suc (length (takeWhile (\<lambda>c. c \<noteq> 0) t)))"
    using strlen_NUL [of "0xCE # t" "[]"] by (simp add: x)
  then have "smpp_datacoding_is_pure_ascii (append_header_to_string words number @ [0]) = Inr False"
    by (auto simp: smpp_datacoding_is_pure_ascii_def x intro!: exI [of _ 0])
  moreover have "smpp_datacoding_convert_utf8_to_ucs2 (append_header_to_string words number @ [0]) = None"
    using convert_utf8_stray [of "[0x3B2]" "0xBA" r] unfolding a by (simp add: bmp_def)
  ultimately show ?thesis by (simp add: smpp_datacoding_split_long_sm_def)
qed

section \<open>Collecting\<close>

text \<open>
  C36: The fates that a call returns are taken out of the lists of the clients and out of nothing
  else: each is returned once, at most as many as asked for (one, if none is asked for), and fewer
  only if no client has any left.
\<close>

theorem fates_handed_out_once:
  assumes "cb_client_get_dlrs to_get m = (dlrs, m')" "finite F" "get_unique_id_of_client ` set (clients m) \<subseteq> F"
  shows "image_mset smi_to_sm_status (waiting_fates F (process_host m)) =
      mset dlrs + image_mset smi_to_sm_status (waiting_fates F (process_host m')) \<and>
    int (length dlrs) \<le> max 1 to_get \<and>
    (int (length dlrs) < to_get \<longrightarrow>
      (\<forall>c \<in> set (clients m). delivered_list (the_source (get_unique_id_of_client c) (process_host m')) = [])) \<and>
    fates_only (process_host m) (process_host m') \<and> clients m' = clients m"
proof -
  obtain smis h where s: "status_of_clients to_get to_get (clients m) (process_host m) [] = (smis, h)" by fastforce
  have d: "dlrs = map smi_to_sm_status smis" "m' = m\<lparr> process_host := h \<rparr>"
    using assms(1) s by (simp_all add: cb_client_get_dlrs_def manager_get_global_status_def)
  have "int (length smis) \<le> max 1 to_get"
    "int (length smis) < to_get \<longrightarrow> (\<forall>c \<in> set (clients m). delivered_list (the_source (get_unique_id_of_client c) h) = [])"
    "waiting_fates F (process_host m) = mset smis + waiting_fates F h" "fates_only (process_host m) h"
    using status_collected [of to_get "[]" "clients m" "process_host m" smis h] s assms(2,3) by auto
  then show ?thesis unfolding d by simp
qed

theorem fates_handed_out_once_witness:
  "\<exists>dlrs m'. cb_client_get_dlrs 1 (demo_manager\<lparr> process_host := cds_submit_failed [65] demo_sm demo_host \<rparr>) = (dlrs, m') \<and>
     length dlrs = 1 \<and> delivered_list (the_source [65] (process_host m')) = []"
proof -
  let ?m = "demo_manager\<lparr> process_host := cds_submit_failed [65] demo_sm demo_host \<rparr>"
  obtain dlrs m' where g: "cb_client_get_dlrs 1 ?m = (dlrs, m')" by fastforce
  have ids: "get_unique_id_of_client ` set (clients ?m) \<subseteq> {[65]}"
    by (simp add: demo_manager_def demo_receiver_def get_unique_id_of_client_def demo_client_def demo_config_def)
  have d: "delivered_list (the_source [65] (process_host ?m)) = [demo_sm]"
    by (simp add: the_source_ops demo_client_facts new_client_data_source_def)
  from fates_handed_out_once [OF g _ ids] d have f: "{# smi_to_sm_status demo_sm #} =
      mset dlrs + image_mset smi_to_sm_status (mset (delivered_list (the_source [65] (process_host m'))))"
    "length dlrs < 1 \<Longrightarrow> delivered_list (the_source [65] (process_host m')) = []"
    by (simp_all add: waiting_fates_def demo_manager_def demo_client_facts)
  have "size {# smi_to_sm_status demo_sm #} = length dlrs + length (delivered_list (the_source [65] (process_host m')))"
    unfolding f(1) by simp
  then have "length dlrs = 1 \<and> delivered_list (the_source [65] (process_host m')) = []"
    using f(2) by (cases "length dlrs") auto
  then show ?thesis using g by blast
qed

section \<open>Texts\<close>

text \<open>
  C38: where the JSON library reads back what it wrote, for documents of flat objects with plain names
  and seven-bit values, messages, fates and incoming messages come back from their JSON text as they
  were, if their addresses, ids, names and status are of seven bits: with any octets, less than 4 GB
  of them, in the content, and with numbers of any value.
\<close>

theorem json_round_trip:
  assumes "json_faithful lib"
  shows "(list_all good_sms smss \<longrightarrow> parse_smss lib (generate_smss lib smss) [] = (True, smss)) \<and>
    (list_all good_status sss \<longrightarrow> parse_global_status lib (generate_global_status lib sss) [] = (True, sss)) \<and>
    (list_all good_mo mos \<longrightarrow> parse_mos lib (generate_mos lib mos) [] = (True, mos))"
  using smss_back [OF assms] statuses_back [OF assms] mos_back [OF assms] by blast

theorem json_round_trip_witness:
  "parse_smss demo_lib (generate_smss demo_lib [demo_sms, demo_sms]) [] = (True, [demo_sms, demo_sms]) \<and>
   parse_mos demo_lib (generate_mos demo_lib [smi_to_sm_mo demo_sm]) [] = (True, [smi_to_sm_mo demo_sm])"
proof -
  have "list_all good_mo [smi_to_sm_mo demo_sm]"
    by (simp add: good_mo_def smi_to_sm_mo_def demo_sm_def)
  then show ?thesis
    using json_round_trip [OF demo_faithful, of "[demo_sms, demo_sms]" "[]" "[smi_to_sm_mo demo_sm]"]
    by (simp add: demo_sms_good)
qed

text \<open>
  C40: a configuration with at least one section, whose sections have different names and whose items,
  with different keys in each section, are lines that can be read back, does not survive being
  written and read: each section comes back with the items of the next, those of the first section
  are lost, the last has none, and its destructor takes an item off an empty list.
\<close>

theorem written_configuration_shifts:
  assumes "good_configer c" "sections c \<noteq> []"
  shows "\<exists>c'. new_configer junk (Some (sync c)) = Inr c' \<and>
    map section_name (sections c') = map section_name (sections c) \<and>
    map items (sections c') = tl (map items (sections c)) @ [[]] \<and>
    destroy (sections c') = Inl OutOfBounds"
proof -
  obtain s ss where "sections c = s # ss" using assms(2) by (cases "sections c") simp_all
  then show ?thesis using written_shifted [OF assms(1)] by (simp add: shifted_facts)
qed

theorem written_configuration_shifts_witness:
  "\<exists>c'. new_configer 7 (Some (sync (set_string [99] [98] [50] (set_string [97] [98] [49, 32, 50]
       \<lparr> sections = [], modified = 0 \<rparr>)))) = Inr c' \<and>
     map items (sections c') = [[\<lparr> key = [98], item_value = [50] \<rparr>], []]"
proof -
  let ?c = "set_string [99] [98] [50] (set_string [97] [98] [49, 32, 50] \<lparr> sections = [], modified = 0 \<rparr>)"
  have s: "sections ?c = [\<lparr> section_name = [97], items = [\<lparr> key = [98], item_value = [49, 32, 50] \<rparr>] \<rparr>,
      \<lparr> section_name = [99], items = [\<lparr> key = [98], item_value = [50] \<rparr>] \<rparr>]"
    by (simp add: set_string_def)
  have "good_configer ?c"
    unfolding good_configer_def s
    by (simp add: good_section_def good_line_def heading_line_def item_line_def good_word_def is_space_def)
  from written_configuration_shifts [OF this, of 7] show ?thesis unfolding s by auto
qed

text \<open>
  C39: for a configuration file of headings, items and other lines (as \<open>ini_line\<close> has them: blanks and
  carriage returns where they may be, blank lines, comments, sections and items in any order and
  again), in which every section that is named has an item: if the settings of the sections of all
  clients that it counts can be read, where the last value of an item counts, the clients are added in
  their order, each with the settings of its section, but those without a bind mode; none is bound,
  none has a message that waits for a response, and the messages of the data sources stay.
\<close>

theorem clients_from_file:
  assumes "list_all good_line ls" "all_have_items ls"
    and "\<forall>i \<in> {1..nat (clients_nb (conf_of ls))}. read_settings (conf_of ls) (client_section i) = Inr (k i)"
  shows "\<exists>m'. add_clients_from_file junk (Some (file_text ls)) m = Inr m' \<and>
    map config (clients m') = map config (clients m) @ map (\<lambda>i. smppclient_configer.truncate (k i))
      (filter (\<lambda>i. bind_mode (k i) \<noteq> BOUND_UNKNOWN) [1..<nat (clients_nb (conf_of ls)) + 1]) \<and>
    (\<forall>c \<in> set (drop (length (clients m)) (clients m')). \<not> is_protocol_connected c \<and> waiting_ack_smis c = []) \<and>
    (\<forall>g. the_source g (process_host m') = the_source g (process_host m))"
proof -
  let ?is = "[1..<nat (clients_nb (conf_of ls)) + 1]"
  let ?ks = "filter (\<lambda>k. bind_mode k \<noteq> BOUND_UNKNOWN) (map k ?is)"
  let ?m = "fold (\<lambda>k. add_clients junk (smppclient_configer.truncate k)) ?ks m"
  obtain conf where c: "new_configer 0 (Some (file_text ls)) = Inr conf" "destroy (sections conf) = Inr ()"
    and same: "\<And>n k d. get_string n k d conf = get_string n k d (conf_of ls)"
    by (rule file_read [OF assms(1)]) (use assms(2) in blast)
  have settings: "read_settings conf n = read_settings (conf_of ls) n" "clients_nb conf = clients_nb (conf_of ls)" for n
    by (simp_all only: read_settings_def clients_nb_def get_int_def same)
  have "read_all_settings conf ?is = Inr ?ks"
    using assms(3) by (intro read_all_known) (simp only: settings, auto)
  then have "add_clients_from_file junk (Some (file_text ls)) m = Inr ?m"
    by (simp only: add_clients_from_file_def option.case c bind_Inr settings(2) Let_def)
  moreover have "map smppclient_configer.truncate ?ks =
      map (\<lambda>i. smppclient_configer.truncate (k i)) (filter (\<lambda>i. bind_mode (k i) \<noteq> BOUND_UNKNOWN) ?is)"
    by (simp only: filter_map map_map comp_def)
  ultimately show ?thesis
    using added_clients [where junk = junk and f = smppclient_configer.truncate and ks = ?ks and m = m]
    by (intro exI [of _ ?m]) (simp only:, blast)
qed

text \<open>
  Lines as the file of the repository has them: blank lines, an item in front of all headings, a comment
  with an equals sign, which is read as an item, carriage returns, and a value that is given twice.
\<close>

definition demo_file :: "ini_line list" where
  "demo_file = [Ignored [], Ignored (ascii ''# clients''), Entry 0 (ascii ''level'') 0 (ascii ''4'') None,
     Heading 0 (ascii ''smpp_client_nb'') [], Entry 0 (ascii ''nb'') 1 (ascii '' 1'') (Some 2), Ignored [13],
     Heading 0 (ascii ''smpp_client1'') [9], Entry 0 (ascii ''bind_mode'') 0 (ascii ''TRX'') None,
     Entry 0 (ascii ''#localport'') 0 (ascii ''0'') None, Entry 0 (ascii ''bind_mode'') 0 (ascii ''TX'') None]"

lemma demo_file_good: "list_all good_line demo_file" "all_have_items demo_file"
  by (simp_all add: demo_file_def good_line_def all_have_items_def good_word_def ascii_def is_space_def
      before_def is_first_char_def)

lemma demo_file_facts: "client_section 1 = ascii ''smpp_client1''" "clients_nb (conf_of demo_file) = 1"
  by code_simp+

lemma demo_file_settings: "\<exists>k. read_settings (conf_of demo_file) (client_section 1) = Inr k \<and> bind_mode k = BOUND_TX"
proof -
  have "SystemType (get_string (client_section 1) (ascii ''systype'') [] (conf_of demo_file)) = Inr []"
    "ServiceType (get_string (client_section 1) (ascii ''servtype'') [] (conf_of demo_file)) = Inr []"
    "get_bind_mode_by_string (get_string (client_section 1) (ascii ''bind_mode'') [] (conf_of demo_file)) = BOUND_TX"
    by code_simp+
  then show ?thesis by (simp add: read_settings_def)
qed

theorem clients_from_file_witness:
  "\<exists>m'. add_clients_from_file 0 (Some (file_text demo_file)) demo_manager = Inr m' \<and>
     map (\<lambda>c. bind_mode (config c)) (clients m') = [BOUND_TRX, BOUND_RX, BOUND_TX]"
proof -
  obtain k where k: "read_settings (conf_of demo_file) (client_section 1) = Inr k" "bind_mode k = BOUND_TX"
    using demo_file_settings by blast
  have "\<forall>i \<in> {1..nat (clients_nb (conf_of demo_file))}. read_settings (conf_of demo_file) (client_section i) = Inr k"
    using k by (simp add: demo_file_facts(2))
  from clients_from_file [OF demo_file_good this, of 0 demo_manager] obtain m' where
    m': "add_clients_from_file 0 (Some (file_text demo_file)) demo_manager = Inr m'"
    "map config (clients m') = map config (clients demo_manager) @ [smppclient_configer.truncate k]"
    by (auto simp: demo_file_facts(2) k(2))
  have "map bind_mode (map config (clients m')) = [BOUND_TRX, BOUND_RX, BOUND_TX]"
    unfolding m'(2) by (simp add: demo_manager_def demo_client_def demo_receiver_def demo_config_def
        smppclient_configer.defs k(2))
  then show ?thesis using m'(1) by (auto simp: comp_def)
qed

end
