(* ===== verification/Server_Runtime.thy ===== *)
theory Server_Runtime
  imports Configer Session
begin

text \<open>
  The start of the server (\<open>src/public/smppserver/smppserver_runtime.cpp\<close>): its configuration, read from
  a file, and whether it comes to serve. The configuration items of the session are in
  \<open>smppserver_configer\<close>, the others extend it.
\<close>

record server_settings = smppserver_configer +
  server_ip :: octets
  server_port :: octets
  total_generated_mos :: int
  vendor_index :: int
  setting_server_url :: octets
  smis_buffer_db :: "octets list"
  records_db :: "octets list"

text \<open>
  The constructor. \<open>smis_buffer_db\<close> and \<open>records_db\<close> have the name of the host, the user name, the
  password and the name of the database.
\<close>

definition new_server_settings :: "env \<Rightarrow> server_settings" where
  "new_server_settings e = \<lparr> need_authorize = True, use_hex_decimal_message_id = False,
     configer_server_id = ascii ''SMPPSERVER'' @ format_decimal_to_string (of_int (time_now e) - 100000000),
     use_buffer_db = False, record_mt_mo = False, server_ip = ascii ''0.0.0.0'', server_port = ascii ''8800'',
     total_generated_mos = 0, vendor_index = 1,
     setting_server_url = ascii ''http://192.168.1.33:8080/settingserver/jsonservlet'',
     smis_buffer_db = [[], [], [], []], records_db = [[], [], [], []] \<rparr>"

abbreviation "sec_smpp_server \<equiv> ascii ''smpp_server''"
abbreviation "sec_db \<equiv> ascii ''db''"

definition configured_server_id :: "env \<Rightarrow> configer \<Rightarrow> octets" where
  "configured_server_id e conf = (let sid = get_string sec_smpp_server (ascii ''server_id'') [] conf in
     if length sid = 0 then ascii ''SMPPSERVER '' @ format_decimal_to_string (of_int (time_now e) - 100000000) else sid)"

text \<open>Everything that is read, if no return comes before it.\<close>

definition server_settings_of :: "env \<Rightarrow> configer \<Rightarrow> server_settings" where
  "server_settings_of e conf = \<lparr>
     need_authorize = (get_int sec_smpp_server (ascii ''need_auth'') 1 conf = 1),
     use_hex_decimal_message_id = (get_int sec_smpp_server (ascii ''use_hex_decimal_message_id'') 0 conf = 1),
     configer_server_id = configured_server_id e conf,
     use_buffer_db = (get_int sec_smpp_server (ascii ''use_buffer_db'') 0 conf = 1),
     record_mt_mo = (get_int sec_smpp_server (ascii ''record_mt_mo'') 0 conf = 1),
     server_ip = get_string sec_smpp_server (ascii ''ip'') (ascii ''0.0.0.0'') conf,
     server_port = get_string sec_smpp_server (ascii ''port'') (ascii ''8800'') conf,
     total_generated_mos = get_int sec_smpp_server (ascii ''total_generated_mos'') 0 conf,
     vendor_index = get_int sec_smpp_server (ascii ''vendor_index'') 0 conf,
     setting_server_url = get_string sec_smpp_server (ascii ''setting_server_url'') [] conf,
     smis_buffer_db = map (\<lambda>k. get_string sec_db k [] conf)
       [ascii ''smis_buffer_db_host_name'', ascii ''smis_buffer_db_user_name'',
        ascii ''smis_buffer_db_password'', ascii ''smis_buffer_db_db_name''],
     records_db = map (\<lambda>k. get_string sec_db k [] conf)
       [ascii ''records_db_host_name'', ascii ''records_db_user_name'',
        ascii ''records_db_password'', ascii ''records_db_db_name''] \<rparr>"

definition db_incomplete :: "octets list \<Rightarrow> bool" where
  "db_incomplete db \<longleftrightarrow> list_ex (\<lambda>s. length s = 0) db"

text \<open>A return because of the first database leaves the settings of the second as they were.\<close>

definition read_configer :: "env \<Rightarrow> octets option \<Rightarrow> server_settings \<Rightarrow> (bool \<times> server_settings) result" where
  "read_configer e config_file s = (case config_file of
     None \<Rightarrow> Inr (True, s)
   | Some f \<Rightarrow> bind (new_configer 0 (Some f)) (\<lambda>conf.
       let t = server_settings_of e conf;
           r = (if use_buffer_db t \<and> db_incomplete (smis_buffer_db t) then (False, t\<lparr> records_db := records_db s \<rparr>)
                else if record_mt_mo t \<and> db_incomplete (records_db t) then (False, t)
                else (True, t))
       in bind (destroy (sections conf)) (\<lambda>_. Inr r)))"

text \<open>
  Only the simulated gateway, with index 0, is there: for any other index an assertion fails or a null
  pointer is called through. \<open>None\<close> when the server does not start.
\<close>

definition run_smppserver :: "env \<Rightarrow> octets option \<Rightarrow> server_settings \<Rightarrow> server_settings option result" where
  "run_smppserver e config_file s = bind (read_configer e config_file s) (\<lambda>(ok, s).
     if \<not> ok then Inr None
     else if vendor_index s = 0 then Inr (Some s)
     else Inl OutOfBounds)"

text \<open>Without a configuration file the server does not come to serve: the default index is 1.\<close>

lemma no_file_no_server: "run_smppserver e None (new_server_settings e) = Inl OutOfBounds"
  by (simp add: run_smppserver_def read_configer_def new_server_settings_def)

text \<open>
  A file of good lines, with an item in each section, starts the server exactly if each database that
  is used has its four settings and the index is 0, which is its default here.
\<close>

lemma server_starts:
  assumes "list_all good_line ls" "all_have_items ls"
  shows "run_smppserver e (Some (file_text ls)) s = Inr (Some t) \<longleftrightarrow>
    t = server_settings_of e (conf_of ls) \<and> vendor_index t = 0 \<and>
    (use_buffer_db t \<longrightarrow> \<not> db_incomplete (smis_buffer_db t)) \<and> (record_mt_mo t \<longrightarrow> \<not> db_incomplete (records_db t))"
proof -
  obtain conf where c: "new_configer 0 (Some (file_text ls)) = Inr conf" "destroy (sections conf) = Inr ()"
    and same: "\<And>n k d. get_string n k d conf = get_string n k d (conf_of ls)"
    by (rule file_read [OF assms(1)]) (use assms(2) in blast)
  then have "get_int n j d conf = get_int n j d (conf_of ls)" for n j d by (simp only: get_int_def)
  with same have settings: "server_settings_of e conf = server_settings_of e (conf_of ls)"
    by (simp only: server_settings_of_def configured_server_id_def)
  show ?thesis
    unfolding run_smppserver_def read_configer_def option.case c bind_Inr Let_def settings
    by (auto split: if_splits)
qed

end
