(* ===== verification/Spec2Isabelle.thy ===== *)
theory Spec2Isabelle
  imports Codec_Properties Server_Properties Message_Properties Network_Properties Client_Properties Client_Api_Properties Server_Runtime
begin

text \<open>
  An SMPP 3.4 message server, its protocol library, and a client with its library.

  The program is a message centre for SMPP clients. A TCP connection is a session
  (\<open>src/public/smppserver/smpp_protocol_impl.cpp\<close>): it decodes the PDUs of its client with the
  codec library (\<open>src/public/smppparser\<close>), checks accounts (\<open>src/public/vendor\<close>), stores
  submitted messages in lists that all sessions share (\<open>smppserver_datasource.cpp\<close>), and puts
  responses into its own queue or into the queues of the account, which all connections of the
  account share (\<open>src/public/network/protocol_data_source_manager.hpp\<close>). A gateway moves messages
  from list to list and makes their delivery receipts (\<open>vendor_runtime_demo.cpp\<close>); sessions turn
  receipts and incoming messages into deliver_sm.

  Conventions. Octets are \<open>8 word\<close>, the other integers \<open>16\<close>, \<open>32\<close> and \<open>64 word\<close> as in the source; a
  \<open>std::string\<close> and a packet are lists of octets. A result is a sum: \<open>Inl (Error text)\<close> for an
  exception and \<open>Inl OutOfBounds\<close> for a read or a write beyond an array, which in the program is
  undefined and in the model is never taken for a value. A loop that may not end has an \<open>option\<close>
  around its result. Classes are records, and an operation returns the changed record. Every
  handler runs under a mutex in the program and is one step here. The clocks, the random
  generator and \<open>localtime\<close> are the record \<open>env\<close>, the two databases the record \<open>db_ops\<close>.

  The codec. \<open>Prelude\<close> has the result type and what all theories share; \<open>Aux_Types\<close> byte order and
  the length-checked strings (\<open>aux_types.hpp\<close>); \<open>Buffers\<close> the encoder's array; \<open>Addresses\<close> and
  \<open>Address_Lists\<close> the addresses; \<open>Param_Fields\<close> the statement groups that read one parameter;
  \<open>Pdu_Header\<close> the header and its TLV list, \<open>Pdu_Ops\<close> the mutators that every PDU has. \<open>Pdu_Frame\<close>
  and \<open>Pdu_Codec\<close> state once, as a locale, what an encoder and a decoder of a PDU promise one
  another; every PDU class is an interpretation. \<open>Pdu_Submit\<close>, \<open>Pdu_Deliver\<close>, \<open>Pdu_Data\<close>,
  \<open>Pdu_Bind\<close>, \<open>Pdu_Bind_Resp\<close>, \<open>Pdu_Session\<close>, \<open>Pdu_Query\<close>, \<open>Pdu_Replace\<close>, \<open>Pdu_Multi\<close>,
  \<open>Pdu_Broadcast\<close> and \<open>Pdu_Broadcast_Query\<close> hold the 33 classes: all constructors, setters, encode
  and decode, and for each an inductive set of the objects that constructors and mutators reach.
  \<open>Codec_Properties\<close> has C1 to C7: reachable objects fill their buffers exactly, decoding
  succeeds exactly on encodings; and the faults of some classes.

  The server. \<open>Data_Sources\<close> has the queues, as a locale \<open>keyed_queues\<close> of puts and gets under keys
  that three families of queues and the receipts interpret; \<open>Pdu_Context\<close>, \<open>Vendor\<close>, \<open>Timers\<close>,
  \<open>Number_Format\<close>, \<open>Short_Messages\<close>, \<open>Statistics\<close> and \<open>Server_Datasource\<close> are named after what
  they model; \<open>Vendor_Demo\<close> is the gateway, with the multiset of the messages in flight;
  \<open>Data_Coding\<close> converts and splits texts; \<open>Session\<close> and \<open>Session_Output\<close> are the session.
  \<open>Session_Facts\<close> has closed forms of the handlers and the step relation \<open>session_step\<close>, of
  which \<open>process\<close> is the implementation; \<open>Session_Invariants\<close> the session diagram, the sessions
  that any client and any use of the queues can reach (\<open>served\<close>), runs of packets, and what is wrong
  with a packet, said without the session's counters (\<open>error_of\<close>); \<open>Delivery\<close>
  the PDUs that the session sends; \<open>Message_Path\<close> one message from submission to receipt;
  \<open>Demo\<close> a concrete server and client for the witnesses. \<open>Server_Properties\<close> and
  \<open>Message_Properties\<close> have C8 to C24: \<open>process\<close> refines the step relation and returns, bound
  sessions are authorized, one response for one packet, no packet and no message is lost, what is
  sent and in which order, and where the program falls short of what it means to do. The server with
  its buffer database is modelled (\<open>use_buffer_db\<close>, with the operations of \<open>db_ops\<close>); C13 is about both
  modes, C19, C20 and C28 are about the one without it (\<open>memory_only\<close>), the shipped setting, as the
  lists they speak of are the database's tables otherwise. A transceiver may be bound without an
  account while \<open>need_authorize\<close> is off; \<open>session_ok\<close>, in C11 and C27, says so. \<open>Md5\<close> is the digest that
  is stored with a message, with \<open>md5_digest\<close>, which is written from the formulas of RFC 1321 and
  shares no function with the code, as its specification; the unsigned index of the loop over
  blocks wraps around as in the code, so that pieces of more than \<open>2 ^ 32 - 64\<close> octets are left out.

  The network. \<open>Tcp_Connection\<close> cuts the stream of a client into packets and writes what its
  session sends (\<open>src/public/network/tcp_connection_impl.cpp\<close>); its specification is \<open>frames\<close>, which
  reads a whole stream at once. \<open>Server_Tasks\<close> has the set of connections
  (\<open>connections_manager.cpp\<close>), the turn of a worker and the acceptor (\<open>server.cpp\<close>), the step
  relation \<open>net_step\<close> of the acceptor, the reader of the sockets and any number of workers, and
  its invariant \<open>machine_ok\<close>. \<open>Network_Properties\<close> has C25 to C27: packets survive the network, a
  turn leaves nothing to do, the workers share the connections safely.

  The client. \<open>Text_Tools\<close> has the text functions that the client uses (\<open>algorithm.hpp\<close>);
  \<open>Client_Datasource\<close> the lists of its messages (\<open>src/public/client_common\<close>); \<open>Sync_Tcp_Client\<close> the
  blocking socket (\<open>src/public/protocol_public\<close>), of which \<open>Smpp_Client\<close>, the client
  (\<open>src/public/smppclient\<close>), is an extension as a record as it is one as a class. \<open>Client_Worker\<close> has
  the worker and the receiver thread and the step relation \<open>client_step\<close> of both and of the calls
  of the program around them. \<open>Client_Messages\<close> and \<open>Client_Invariant\<close> count the messages of the
  client over all its lists and the worker's hand; \<open>Client_Receipts\<close>, \<open>Client_Submission\<close> and
  \<open>Client_Path\<close> put the client and the server together: what one writes is what the other reads, for
  submissions, responses and receipts; \<open>Client_Demo\<close> is a concrete client. \<open>Client_Properties\<close> has
  C28 to C32: a message comes back with its verdict, none is lost, and one can block the others.

  The library around the clients (\<open>src/public/client_common\<close>). \<open>Configer\<close> reads, changes and writes
  configuration files (\<open>src/public/configer\<close>); \<open>Clients_Manager\<close> is the clients of a process, made
  from such a file, with the search of the one that takes the next messages; \<open>Base64\<close>
  (\<open>src/public/algorithm_toolkit\<close>) and \<open>Json_Parser\<close> are the JSON texts in which programs hand in
  messages and get fates and incoming messages back; \<open>Encoding_Tools\<close>
  (\<open>src/public/protocol_public\<close>) makes the copies of a text differ; \<open>Client_Api\<close> has the calls of
  \<open>cb_client_api.cpp\<close>, and \<open>Client_Api_Facts\<close> what they do to the clients and the messages. Boost's
  JSON library is the parameter \<open>lib\<close>, with the hypothesis \<open>json_faithful\<close> that it reads back what it
  wrote, for documents as the code makes them: one array of flat objects, whose names have small
  letters and underscores and whose values have seven bits. \<open>Json_Demo\<close> is such a library, a writer
  with Boost's layout and escapes and a reader of JSON text, for the witnesses.
  \<open>Client_Api_Properties\<close> has C33 to C40: what a call promises for the messages of its text, for
  any clients, and what becomes of texts that cannot be read. For files, \<open>ini_line\<close> in \<open>Configer\<close> is a
  line as a file may have it, and \<open>conf_of\<close> says what the lines mean; \<open>file_read\<close> shows that the
  constructor reads just this. What the program writes is not what it reads: \<open>sync\<close> puts the items
  of a section in front of its heading, and C40 says what comes back. \<open>Server_Runtime\<close> is the start
  of the server, which reads its settings from the same kind of file.

  Bounds. Nothing needs fuel: loops over lists are structural, number formats recurse on the
  quotient, a worker's loop over its packets ends because it takes them from queues that it does
  not fill, a reader's because it takes octets. Two loops are a \<open>partial_function\<close>: the conversion of texts,
  with results for text of the basic plane and non-termination proved for the rest, and the search
  for a client, which is proved to end.

  Not modelled. Sockets below a stream of octets, what happens while a turn of a worker goes on
  (a turn is one step), log output, the crash monitor, SQL and the third-party libraries in the
  tree have no definitions here. A step of the client is one turn of the worker or one packet of the
  receiver. Threads are started and stopped only as far as that changes the state. The
  configuration's floating-point items, which nothing reads, are left out, and so are the client's
  SQLite store (\<open>short_message_db.cpp\<close>) and the server's MySQL tables, which are SQL text around the
  operations of \<open>db_ops\<close>. The JSON protocol of other projects (\<open>src/public/protocol\<close>) is called by
  neither the server nor the client.
\<close>

end
